(* ===== verification/Prelude.thy ===== *)
theory Prelude
  imports Main "HOL-Library.Word" "HOL-Library.Option_ord"
begin

text \<open>
  Shared vocabulary of the development: machine integers of the source's widths with
  checked arithmetic, the \<open>Result\<close> and \<open>Option\<close> combinators the Rust code uses, loops
  with early return, an executable model of \<open>BTreeMap\<close> (an association list kept sorted by
  key, so that iteration order is the code's), the invariant rule for transition systems, and how
  the code prints integers: \<open>{}\<close> in decimal and \<open>{:x}\<close> in lower-case hexadecimal.
\<close>

type_synonym u8 = "8 word"
type_synonym u16 = "16 word"
type_synonym u32 = "32 word"
type_synonym u64 = "64 word"
type_synonym u128 = "128 word"
type_synonym usize = "64 word"

named_theorems result_simps \<open>equations for chains of fallible computations\<close>
named_theorems btree_simps \<open>equations for the ordered map\<close>

section \<open>Checked arithmetic\<close>

text \<open>Rust's \<open>checked_add\<close>: an unsigned sum overflows exactly when it wraps below a summand.\<close>

definition checked_add :: "'a::len word \<Rightarrow> 'a word \<Rightarrow> 'a word option" where
  "checked_add a b = (let c = a + b in if c < a then None else Some c)"

lemma checked_add_wraps_iff:
  fixes a b :: "'a::len word"
  shows "a + b < a \<longleftrightarrow> 2 ^ LENGTH('a) \<le> unat a + unat b"
proof -
  have b: "unat b < 2 ^ LENGTH('a)" by (rule unsigned_less)
  show ?thesis
  proof (cases "unat a + unat b < 2 ^ LENGTH('a)")
    case True
    then show ?thesis unfolding word_less_nat_alt unat_plus_if' by simp
  next
    case False
    with b have "unat a + unat b - 2 ^ LENGTH('a) < unat a" by linarith
    with False show ?thesis unfolding word_less_nat_alt unat_plus_if' by simp
  qed
qed

lemma checked_add_None_iff:
  fixes a b :: "'a::len word"
  shows "checked_add a b = None \<longleftrightarrow> 2 ^ LENGTH('a) \<le> unat a + unat b"
  by (simp add: checked_add_def Let_def checked_add_wraps_iff)

lemma checked_add_Some_unat:
  "checked_add a b = Some c \<Longrightarrow> unat c = unat a + unat b"
  by (auto simp: checked_add_def Let_def checked_add_wraps_iff unat_plus_if' split: if_splits)

lemma checked_add_one_less:
  fixes a :: "'a::len word"
  assumes "checked_add a 1 = Some b"
  shows "a < b" and "b = a + 1" and "b \<noteq> 0"
proof -
  show "a < b"
    using checked_add_Some_unat [OF assms] by (simp add: word_less_nat_alt)
  then show "b \<noteq> 0" by auto
  show "b = a + 1" using assms by (auto simp: checked_add_def Let_def split: if_splits)
qed

lemma checked_add_one_le:
  fixes a c :: "'a::len word"
  assumes "checked_add a 1 = Some b" and "c < b"
  shows "c \<le> a"
  using checked_add_Some_unat [OF assms(1)] assms(2)
  by (simp add: word_less_nat_alt word_le_nat_alt)

lemma checked_add_one_mono:
  fixes a c :: "'a::len word"
  assumes "checked_add a 1 = Some b" and "c \<le> a"
  shows "c < b"
  using checked_add_one_less(1) [OF assms(1)] assms(2) by simp

section \<open>Fallible computations\<close>

text \<open>
  A \<open>Result<T, E>\<close> is a value of \<open>'e + 't\<close>, the error on the left. \<open>and_then\<close> is the
  \<open>?\<close> operator: it passes the value on and returns an error at once.
\<close>

definition and_then :: "'e + 'a \<Rightarrow> ('a \<Rightarrow> 'e + 'b) \<Rightarrow> 'e + 'b" where
  "and_then r f = (case r of Inl e \<Rightarrow> Inl e | Inr x \<Rightarrow> f x)"

definition ok_or :: "'a option \<Rightarrow> 'e \<Rightarrow> 'e + 'a" where
  "ok_or x e = (case x of None \<Rightarrow> Inl e | Some y \<Rightarrow> Inr y)"

definition ensure :: "bool \<Rightarrow> 'e \<Rightarrow> 'e + unit" where
  "ensure b e = (if b then Inr () else Inl e)"

definition map_err :: "('e \<Rightarrow> 'f) \<Rightarrow> 'e + 'a \<Rightarrow> 'f + 'a" where
  "map_err f r = (case r of Inl e \<Rightarrow> Inl (f e) | Inr x \<Rightarrow> Inr x)"

lemma and_then_simps [simp, result_simps]:
  "and_then (Inl e) f = Inl e"
  "and_then (Inr x) f = f x"
  by (simp_all add: and_then_def)

lemma and_then_Inr_iff [result_simps]:
  "and_then r f = Inr y \<longleftrightarrow> (\<exists>x. r = Inr x \<and> f x = Inr y)"
  by (cases r) auto

lemma and_then_Inl_iff:
  "and_then r f = Inl e \<longleftrightarrow> r = Inl e \<or> (\<exists>x. r = Inr x \<and> f x = Inl e)"
  by (cases r) auto

lemma ok_or_Inr_iff [simp, result_simps]: "ok_or x e = Inr y \<longleftrightarrow> x = Some y"
  by (cases x) (auto simp: ok_or_def)

lemma ok_or_simps [simp]: "ok_or None e = Inl e" "ok_or (Some y) e = Inr y"
  by (simp_all add: ok_or_def)

lemma ensure_Inr_iff [simp, result_simps]: "ensure b e = Inr u \<longleftrightarrow> b"
  by (simp add: ensure_def)

lemma ensure_simps [simp]: "ensure True e = Inr ()" "ensure False e = Inl e"
  by (simp_all add: ensure_def)

lemma ensure_Inl_iff [simp]: "ensure b e = Inl e' \<longleftrightarrow> \<not> b \<and> e' = e"
  by (auto simp: ensure_def)

lemma map_err_simps [simp]: "map_err f (Inl e) = Inl (f e)" "map_err f (Inr x) = Inr x"
  by (simp_all add: map_err_def)

lemma map_err_Inr_iff [simp]: "map_err f r = Inr x \<longleftrightarrow> r = Inr x"
  by (cases r) auto

text \<open>
  The same operator inside a method that takes \<open>&mut self\<close>: an error leaves the method with
  the state reached so far.
\<close>

definition with_result :: "'e + 'a \<Rightarrow> 's \<Rightarrow> ('a \<Rightarrow> ('e + 'b) \<times> 's) \<Rightarrow> ('e + 'b) \<times> 's" where
  "with_result r s f = (case r of Inl e \<Rightarrow> (Inl e, s) | Inr x \<Rightarrow> f x)"

lemma with_result_simps [simp]:
  "with_result (Inl e) s f = (Inl e, s)"
  "with_result (Inr x) s f = f x"
  by (simp_all add: with_result_def)

lemma with_result_Inr_iff [result_simps]:
  "with_result r s f = (Inr y, t) \<longleftrightarrow> (\<exists>x. r = Inr x \<and> f x = (Inr y, t))"
  by (cases r) auto

lemma with_result_Inl_iff:
  "with_result r s f = (Inl e, t) \<longleftrightarrow> (r = Inl e \<and> t = s) \<or> (\<exists>x. r = Inr x \<and> f x = (Inl e, t))"
  by (cases r) auto

text \<open>A \<open>for\<close> loop that only validates: it stops at the first error.\<close>

fun for_each :: "('a \<Rightarrow> 'e + unit) \<Rightarrow> 'a list \<Rightarrow> 'e + unit" where
  "for_each f [] = Inr ()"
| "for_each f (x # xs) = and_then (f x) (\<lambda>_. for_each f xs)"

lemma for_each_Inr_iff [simp, result_simps]:
  "for_each f xs = Inr u \<longleftrightarrow> (\<forall>x \<in> set xs. f x = Inr ())"
  by (induction xs) (auto simp: and_then_Inr_iff)

lemma for_each_Inl:
  "for_each f xs = Inl e \<Longrightarrow> \<exists>x \<in> set xs. f x = Inl e"
  by (induction xs) (auto simp: and_then_Inl_iff)

text \<open>A \<open>for\<close> loop that carries a value and may return an error.\<close>

fun try_fold :: "('b \<Rightarrow> 'a \<Rightarrow> 'e + 'b) \<Rightarrow> 'b \<Rightarrow> 'a list \<Rightarrow> 'e + 'b" where
  "try_fold f b [] = Inr b"
| "try_fold f b (x # xs) = and_then (f b x) (\<lambda>b'. try_fold f b' xs)"

lemma try_fold_append:
  "try_fold f b (xs @ ys) = and_then (try_fold f b xs) (\<lambda>b'. try_fold f b' ys)"
  by (induction xs arbitrary: b) (auto simp: and_then_def split: sum.splits)

lemma try_fold_invariant:
  assumes "try_fold f b xs = Inr c" and "P b"
    and "\<And>b x b'. x \<in> set xs \<Longrightarrow> P b \<Longrightarrow> f b x = Inr b' \<Longrightarrow> P b'"
  shows "P c"
  using assms
proof (induction xs arbitrary: b)
  case Nil
  then show ?case by simp
next
  case (Cons x xs)
  from Cons.prems(1) obtain b' where "f b x = Inr b'" and rest: "try_fold f b' xs = Inr c"
    by (auto simp: and_then_Inr_iff)
  with Cons.prems(2) Cons.prems(3) [of x b b'] have "P b'" by simp
  with rest show ?case using Cons.IH Cons.prems(3) by (meson list.set_intros(2))
qed

section \<open>Ordered maps\<close>

text \<open>
  The contract of \<open>BTreeMap\<close> that the code relies on: lookup after insertion and removal,
  and iteration in strictly increasing key order.
\<close>

locale ordered_map =
  fixes get :: "'m \<Rightarrow> 'k::linorder \<Rightarrow> 'v option"
    and insert_key :: "'k \<Rightarrow> 'v \<Rightarrow> 'm \<Rightarrow> 'm"
    and remove_key :: "'k \<Rightarrow> 'm \<Rightarrow> 'm"
    and entries :: "'m \<Rightarrow> ('k \<times> 'v) list"
    and wf :: "'m \<Rightarrow> bool"
  assumes get_insert: "get (insert_key k v m) k' = (if k' = k then Some v else get m k')"
    and get_remove: "get (remove_key k m) k' = (if k' = k then None else get m k')"
    and wf_insert: "wf m \<Longrightarrow> wf (insert_key k v m)"
    and wf_remove: "wf m \<Longrightarrow> wf (remove_key k m)"
    and entries_sorted: "wf m \<Longrightarrow> sorted_wrt (<) (map fst (entries m))"
    and entries_get: "wf m \<Longrightarrow> (k, v) \<in> set (entries m) \<longleftrightarrow> get m k = Some v"
begin

lemma insert_insert_other:
  "k \<noteq> k' \<Longrightarrow> get (insert_key k v (insert_key k' v' m)) = get (insert_key k' v' (insert_key k v m))"
  by (rule ext) (simp add: get_insert)

lemma remove_after_insert:
  "get m k = None \<Longrightarrow> get (remove_key k (insert_key k v m)) = get m"
  by (rule ext) (simp add: get_insert get_remove)

lemma entries_distinct: "wf m \<Longrightarrow> distinct (map fst (entries m))"
  using entries_sorted [of m] strict_sorted_iff [of "map fst (entries m)"] by blast

lemma entries_insert:
  "wf m \<Longrightarrow> set (entries (insert_key k v m)) = Set.insert (k, v) {e \<in> set (entries m). fst e \<noteq> k}"
  using entries_get [of "insert_key k v m"] entries_get [of m] wf_insert [of m k v]
  by (auto simp: get_insert split: if_splits)

lemma entries_remove:
  "wf m \<Longrightarrow> set (entries (remove_key k m)) = {e \<in> set (entries m). fst e \<noteq> k}"
  using entries_get [of "remove_key k m"] entries_get [of m] wf_remove [of m k]
  by (auto simp: get_remove split: if_splits)

end

type_synonym ('k, 'v) btree = "('k \<times> 'v) list"

fun bt_insert :: "'k::linorder \<Rightarrow> 'v \<Rightarrow> ('k, 'v) btree \<Rightarrow> ('k, 'v) btree" where
  "bt_insert k v [] = [(k, v)]"
| "bt_insert k v ((k', v') # m) =
     (if k < k' then (k, v) # (k', v') # m
      else if k = k' then (k, v) # m
      else (k', v') # bt_insert k v m)"

definition bt_remove :: "'k \<Rightarrow> ('k, 'v) btree \<Rightarrow> ('k, 'v) btree" where
  "bt_remove k m = filter (\<lambda>e. fst e \<noteq> k) m"

abbreviation bt_get :: "('k, 'v) btree \<Rightarrow> 'k \<Rightarrow> 'v option" where
  "bt_get \<equiv> map_of"

definition bt_contains_key :: "('k, 'v) btree \<Rightarrow> 'k \<Rightarrow> bool" where
  "bt_contains_key m k = (bt_get m k \<noteq> None)"

definition bt_values :: "('k, 'v) btree \<Rightarrow> 'v list" where
  "bt_values m = map snd m"

text \<open>\<open>values_mut\<close> with an update of every value in place.\<close>

definition bt_map_values :: "('v \<Rightarrow> 'v) \<Rightarrow> ('k, 'v) btree \<Rightarrow> ('k, 'v) btree" where
  "bt_map_values f m = map (\<lambda>(k, v). (k, f v)) m"

definition bt_wf :: "('k::linorder, 'v) btree \<Rightarrow> bool" where
  "bt_wf m = sorted_wrt (<) (map fst m)"

lemma bt_get_insert [simp, btree_simps]: "bt_get (bt_insert k v m) = (bt_get m)(k \<mapsto> v)"
  by (induction k v m rule: bt_insert.induct) (auto simp: fun_eq_iff)

lemma bt_get_remove [simp, btree_simps]: "bt_get (bt_remove k m) = (bt_get m)(k := None)"
  unfolding bt_remove_def by (induction m) (auto simp: fun_eq_iff)

lemma bt_keys_insert: "fst ` set (bt_insert k v m) = Set.insert k (fst ` set m)"
  by (induction k v m rule: bt_insert.induct) (auto simp: image_iff)

lemma bt_wf_Nil [simp, btree_simps]: "bt_wf []"
  by (simp add: bt_wf_def)

lemma bt_wf_insert [simp, btree_simps]: "bt_wf m \<Longrightarrow> bt_wf (bt_insert k v m)"
proof (induction k v m rule: bt_insert.induct)
  case (1 k v)
  then show ?case by (simp add: bt_wf_def)
next
  case (2 k v k' v' m)
  then show ?case
    using bt_keys_insert [of k v m] by (auto simp: bt_wf_def)
qed

lemma bt_wf_remove [simp, btree_simps]: "bt_wf m \<Longrightarrow> bt_wf (bt_remove k m)"
  unfolding bt_wf_def bt_remove_def by (induction m) auto

lemma bt_wf_distinct: "bt_wf m \<Longrightarrow> distinct (map fst m)"
  by (simp add: bt_wf_def strict_sorted_iff)

lemma bt_get_iff: "bt_wf m \<Longrightarrow> bt_get m k = Some v \<longleftrightarrow> (k, v) \<in> set m"
  by (simp add: bt_wf_distinct)

lemma bt_get_map_values [simp, btree_simps]:
  "bt_get (bt_map_values f m) = map_option f \<circ> bt_get m"
  unfolding bt_map_values_def by (induction m) (auto simp: fun_eq_iff)

lemma bt_wf_map_values [simp, btree_simps]: "bt_wf (bt_map_values f m) = bt_wf m"
proof -
  have "map fst (bt_map_values f m) = map fst m"
    by (auto simp: bt_map_values_def)
  then show ?thesis by (simp add: bt_wf_def)
qed

interpretation bt: ordered_map bt_get bt_insert bt_remove id bt_wf
  by unfold_locales (auto simp: bt_get_iff bt_wf_def [symmetric])

section \<open>Transition systems\<close>

text \<open>
  Invariance over reachable states, proved once: \<open>start\<close> describes the initial states and
  \<open>next_state\<close> one step.
\<close>

inductive reachable_from ::
  "('s \<Rightarrow> bool) \<Rightarrow> ('s \<Rightarrow> 's \<Rightarrow> bool) \<Rightarrow> 's \<Rightarrow> bool" for start next_state where
  reach_start: "start s \<Longrightarrow> reachable_from start next_state s"
| reach_step: "reachable_from start next_state s \<Longrightarrow> next_state s t \<Longrightarrow>
    reachable_from start next_state t"

locale invariant_system =
  fixes start :: "'s \<Rightarrow> bool"
    and next_state :: "'s \<Rightarrow> 's \<Rightarrow> bool"
    and inv :: "'s \<Rightarrow> bool"
  assumes inv_start: "start s \<Longrightarrow> inv s"
    and inv_step: "inv s \<Longrightarrow> next_state s t \<Longrightarrow> inv t"
begin

lemma reachable_inv: "reachable_from start next_state s \<Longrightarrow> inv s"
  by (induction rule: reachable_from.induct) (auto intro: inv_start inv_step)

end

section \<open>Integers\<close>

definition digit_char :: "nat \<Rightarrow> char" where
  "digit_char d = (if d < 10 then char_of (48 + d) else char_of (87 + d))"

fun dec_nat :: "nat \<Rightarrow> string" where
  "dec_nat n = (if n < 10 then [digit_char n] else dec_nat (n div 10) @ [digit_char (n mod 10)])"

fun hex_nat :: "nat \<Rightarrow> string" where
  "hex_nat n = (if n < 16 then [digit_char n] else hex_nat (n div 16) @ [digit_char (n mod 16)])"

declare dec_nat.simps [simp del] hex_nat.simps [simp del]

definition dec :: "'a::len word \<Rightarrow> string" where
  "dec w = dec_nat (unat w)"

definition hex :: "'a::len word \<Rightarrow> string" where
  "hex w = hex_nat (unat w)"

section \<open>Printed integers are unambiguous\<close>

definition digit_value :: "char \<Rightarrow> nat" where
  "digit_value c = (if of_char c < (58::nat) then of_char c - 48 else of_char c - 87)"

definition radix_value :: "nat \<Rightarrow> string \<Rightarrow> nat" where
  "radix_value b s = foldl (\<lambda>v c. b * v + digit_value c) 0 s"

lemma digit_value_char: "d < 16 \<Longrightarrow> digit_value (digit_char d) = d"
  by (auto simp: digit_value_def digit_char_def)

lemma radix_value_dec: "radix_value 10 (dec_nat n) = n"
proof (induction n rule: dec_nat.induct)
  case (1 n)
  then show ?case
    by (subst dec_nat.simps) (auto simp: radix_value_def digit_value_char)
qed

lemma radix_value_hex: "radix_value 16 (hex_nat n) = n"
proof (induction n rule: hex_nat.induct)
  case (1 n)
  then show ?case
    by (subst hex_nat.simps) (auto simp: radix_value_def digit_value_char)
qed

lemma dec_inject [simp]: "dec v = dec w \<longleftrightarrow> v = w"
  by (metis dec_def radix_value_dec unsigned_word_eqI)

lemma hex_inject [simp]: "hex v = hex w \<longleftrightarrow> v = w"
  by (metis hex_def radix_value_hex unsigned_word_eqI)

lemma digit_char_printable: "d < 16 \<Longrightarrow> digit_char d \<notin> {CHR '':'', CHR '','', CHR '')''}"
  by (auto simp: digit_char_def char_of_eq_iff take_bit_eq_mod)

lemma dec_nat_digits: "set (dec_nat n) \<inter> {CHR '':'', CHR '','', CHR '')''} = {}"
proof (induction n rule: dec_nat.induct)
  case (1 n)
  have "n mod 10 < 16" using mod_less_divisor [of 10 n] by linarith
  note last = digit_char_printable [OF this]
  from 1 show ?case
    using last digit_char_printable [of n] by (subst dec_nat.simps) auto
qed

lemma dec_digits: "set (dec w) \<inter> {CHR '':'', CHR '','', CHR '')''} = {}"
  by (simp only: dec_def dec_nat_digits)

lemma append_sep_inject:
  assumes "xs @ c # ys = xs' @ c # ys'" and "c \<notin> set xs" and "c \<notin> set xs'"
  shows "xs = xs' \<and> ys = ys'"
proof -
  have "takeWhile (\<lambda>x. x \<noteq> c) (xs @ c # ys) = xs" "takeWhile (\<lambda>x. x \<noteq> c) (xs' @ c # ys') = xs'"
    using assms(2,3) by (auto simp: takeWhile_append)
  with assms(1) show ?thesis by force
qed

text \<open>The derived \<open>Debug\<close> format of an optional number.\<close>

fun debug_u64_option :: "u64 option \<Rightarrow> string" where
  "debug_u64_option None = ''None''"
| "debug_u64_option (Some v) = ''Some('' @ dec v @ '')''"

end
