(* ===== verification/Recovery_Types.thy ===== *)
theory Recovery_Types
  imports Prelude
begin

text \<open>
  The data of the recovery model (\<open>crates/ntsql-recovery-model/src/lib.rs\<close>): identities and
  positions, WAL records, page snapshots, checkpoints, replacement stages and candidates, locks,
  phases and errors. A Rust newtype is a datatype with one constructor, its fallible \<open>new\<close> a
  function into \<open>option\<close>; derived orders are class instances.
\<close>

section \<open>Identities and positions\<close>

datatype log_id = LogId (log_id_get: u128)

definition log_id_new :: "u128 \<Rightarrow> log_id option" where
  "log_id_new v = (if v = 0 then None else Some (LogId v))"

datatype lineage_id = LineageId (lineage_id_get: u64)

definition lineage_checked_next :: "lineage_id \<Rightarrow> lineage_id option" where
  "lineage_checked_next l = (case checked_add (lineage_id_get l) 1 of
     Some v \<Rightarrow> Some (LineageId v) | None \<Rightarrow> None)"

datatype wal_position = WalPosition (wal_position_get: u64)

definition wal_position_new :: "u64 \<Rightarrow> wal_position option" where
  "wal_position_new v = (if v = 0 then None else Some (WalPosition v))"

datatype transaction_id = TransactionId (txn_epoch: u64) (txn_sequence: u64)

definition transaction_id_new :: "u64 \<Rightarrow> u64 \<Rightarrow> transaction_id option" where
  "transaction_id_new epoch sequence =
     (if epoch = 0 \<or> sequence = 0 then None else Some (TransactionId epoch sequence))"

datatype page_id = PageId (page_id_get: u64)

definition page_id_new :: "u64 \<Rightarrow> page_id option" where
  "page_id_new v = (if v = 0 then None else Some (PageId v))"

datatype generation = Generation (generation_get: u64)

definition generation_zero :: generation where
  "generation_zero = Generation 0"

definition generation_is_zero :: "generation \<Rightarrow> bool" where
  "generation_is_zero g = (generation_get g = 0)"

definition generation_checked_next :: "generation \<Rightarrow> generation option" where
  "generation_checked_next g = (case checked_add (generation_get g) 1 of
     Some v \<Rightarrow> Some (Generation v) | None \<Rightarrow> None)"

datatype page_version = PageVersion (page_version_get: u64)

text \<open>The derived \<open>Ord\<close> instances: a newtype by its content, a pair lexicographically.\<close>

instantiation wal_position :: linorder
begin

definition less_eq_wal_position :: "wal_position \<Rightarrow> wal_position \<Rightarrow> bool" where
  "less_eq_wal_position a b = (wal_position_get a \<le> wal_position_get b)"

definition less_wal_position :: "wal_position \<Rightarrow> wal_position \<Rightarrow> bool" where
  "less_wal_position a b = (wal_position_get a < wal_position_get b)"

instance
  by intro_classes
    (auto simp: less_eq_wal_position_def less_wal_position_def intro: wal_position.expand)

end

instantiation page_id :: linorder
begin

definition less_eq_page_id :: "page_id \<Rightarrow> page_id \<Rightarrow> bool" where
  "less_eq_page_id a b = (page_id_get a \<le> page_id_get b)"

definition less_page_id :: "page_id \<Rightarrow> page_id \<Rightarrow> bool" where
  "less_page_id a b = (page_id_get a < page_id_get b)"

instance
  by intro_classes (auto simp: less_eq_page_id_def less_page_id_def intro: page_id.expand)

end

instantiation transaction_id :: linorder
begin

definition less_eq_transaction_id :: "transaction_id \<Rightarrow> transaction_id \<Rightarrow> bool" where
  "less_eq_transaction_id a b = (txn_epoch a < txn_epoch b
     \<or> txn_epoch a = txn_epoch b \<and> txn_sequence a \<le> txn_sequence b)"

definition less_transaction_id :: "transaction_id \<Rightarrow> transaction_id \<Rightarrow> bool" where
  "less_transaction_id a b = (txn_epoch a < txn_epoch b
     \<or> txn_epoch a = txn_epoch b \<and> txn_sequence a < txn_sequence b)"

instance
  by intro_classes
    (auto simp: less_eq_transaction_id_def less_transaction_id_def intro: transaction_id.expand)

end

lemma wal_position_order [simp]:
  "WalPosition a \<le> WalPosition b \<longleftrightarrow> a \<le> b"
  "WalPosition a < WalPosition b \<longleftrightarrow> a < b"
  by (simp_all add: less_eq_wal_position_def less_wal_position_def)

lemma page_id_order [simp]:
  "PageId a \<le> PageId b \<longleftrightarrow> a \<le> b"
  "PageId a < PageId b \<longleftrightarrow> a < b"
  by (simp_all add: less_eq_page_id_def less_page_id_def)

lemma transaction_id_order [simp]:
  "TransactionId e s < TransactionId e' s' \<longleftrightarrow> e < e' \<or> e = e' \<and> s < s'"
  "TransactionId e s \<le> TransactionId e' s' \<longleftrightarrow> e < e' \<or> e = e' \<and> s \<le> s'"
  by (simp_all add: less_transaction_id_def less_eq_transaction_id_def)

section \<open>WAL records and page snapshots\<close>

datatype wal_record_kind = TransactionPage | TransactionCommit | RawPage

record wal_record =
  wr_log_id :: log_id
  wr_lineage_id :: lineage_id
  wr_position :: wal_position
  wr_kind :: wal_record_kind
  wr_transaction :: "transaction_id option"
  wr_page :: "page_id option"
  wr_page_value :: "u64 option"
  wr_page_version :: "page_version option"

record page_snapshot =
  ps_log_id :: log_id
  ps_lineage_id :: lineage_id
  ps_page_id :: page_id
  ps_value :: u64
  ps_written_at :: wal_position
  ps_version :: page_version

section \<open>Checkpoints\<close>

datatype checkpoint_frontier = CheckpointFrontier (frontier_position: "wal_position option")

definition frontier_at :: "wal_position \<Rightarrow> checkpoint_frontier" where
  "frontier_at p = CheckpointFrontier (Some p)"

definition frontier_empty :: checkpoint_frontier where
  "frontier_empty = CheckpointFrontier None"

lemma frontier_position_simps [simp]:
  "frontier_position (frontier_at p) = Some p"
  "frontier_position frontier_empty = None"
  by (simp_all add: frontier_at_def frontier_empty_def)

record checkpoint_anchor =
  ca_version :: u16
  ca_digest :: u128

type_synonym transaction_positions = "(transaction_id, wal_position list) btree"

record transaction_summary =
  ts_active :: transaction_positions
  ts_epoch_high_water :: "u64 option"

record checkpoint_snapshot =
  cp_log_id :: log_id
  cp_lineage_id :: lineage_id
  cp_anchor :: checkpoint_anchor
  cp_frontier :: checkpoint_frontier
  cp_replay_start :: "wal_position option"
  cp_pages :: "(page_id, page_snapshot) btree"
  cp_transaction_summary :: transaction_summary

section \<open>Replacement stages and candidates\<close>

datatype replacement_stage =
    BeforeCleanup
  | AfterCleanup
  | AfterCreate
  | AfterWrite
  | BeforeSync
  | AfterSync
  | BeforeRename
  | AfterCurrentReplace
  | DuringDirectorySync
  | AfterDirectorySync

definition replacement_stages :: "replacement_stage list" where
  "replacement_stages =
     [BeforeCleanup, AfterCleanup, AfterCreate, AfterWrite, BeforeSync, AfterSync,
      BeforeRename, AfterCurrentReplace, DuringDirectorySync, AfterDirectorySync]"

fun stage_next :: "replacement_stage \<Rightarrow> replacement_stage option" where
  "stage_next BeforeCleanup = Some AfterCleanup"
| "stage_next AfterCleanup = Some AfterCreate"
| "stage_next AfterCreate = Some AfterWrite"
| "stage_next AfterWrite = Some BeforeSync"
| "stage_next BeforeSync = Some AfterSync"
| "stage_next AfterSync = Some BeforeRename"
| "stage_next BeforeRename = Some AfterCurrentReplace"
| "stage_next AfterCurrentReplace = Some DuringDirectorySync"
| "stage_next DuringDirectorySync = Some AfterDirectorySync"
| "stage_next AfterDirectorySync = None"

fun stage_is_before_rename :: "replacement_stage \<Rightarrow> bool" where
  "stage_is_before_rename BeforeCleanup = True"
| "stage_is_before_rename AfterCleanup = True"
| "stage_is_before_rename AfterCreate = True"
| "stage_is_before_rename AfterWrite = True"
| "stage_is_before_rename BeforeSync = True"
| "stage_is_before_rename AfterSync = True"
| "stage_is_before_rename BeforeRename = True"
| "stage_is_before_rename _ = False"

fun stage_index :: "replacement_stage \<Rightarrow> nat" where
  "stage_index BeforeCleanup = 0"
| "stage_index AfterCleanup = 1"
| "stage_index AfterCreate = 2"
| "stage_index AfterWrite = 3"
| "stage_index BeforeSync = 4"
| "stage_index AfterSync = 5"
| "stage_index BeforeRename = 6"
| "stage_index AfterCurrentReplace = 7"
| "stage_index DuringDirectorySync = 8"
| "stage_index AfterDirectorySync = 9"

datatype candidate_entry =
    EntryAbsent
  | EntryValid
  | EntryValidHigher
  | EntryCorrupt
  | EntryPartialWrite
  | EntryDanglingSymlink
  | EntryInodeAlias

fun entry_is_cleanable :: "candidate_entry \<Rightarrow> bool" where
  "entry_is_cleanable EntryValid = True"
| "entry_is_cleanable EntryValidHigher = True"
| "entry_is_cleanable EntryCorrupt = True"
| "entry_is_cleanable EntryPartialWrite = True"
| "entry_is_cleanable EntryDanglingSymlink = True"
| "entry_is_cleanable _ = False"

datatype checkpoint_candidate_state =
    CpAbsent
  | CpPresent checkpoint_snapshot replacement_stage candidate_entry

record wal_replacement =
  wp_target_generation :: generation
  wp_anchor :: checkpoint_anchor
  wp_retained_suffix :: "wal_record list"
  wp_retained_first :: "wal_position option"
  wp_format_version :: u16
  wp_logical_high_water :: "wal_position option"
  wp_epoch_high_water :: "u64 option"

text \<open>
  The source repeats the fields of \<open>WalReplacement\<close> in \<open>WalCandidateState::Present\<close>; here the
  candidate carries the replacement record itself.
\<close>

datatype wal_candidate_state =
    WalAbsent
  | WalPresent wal_replacement replacement_stage candidate_entry

section \<open>Locks, phases, evidence\<close>

datatype lock_ownership = Free | Recovery | Live

record locks =
  lk_wal :: lock_ownership
  lk_page_store :: lock_ownership
  lk_checkpoint :: lock_ownership
  lk_wal_old_inode :: lock_ownership
  lk_wal_new_inode :: lock_ownership

definition locks_all_live :: locks where
  "locks_all_live = \<lparr>lk_wal = Live, lk_page_store = Live, lk_checkpoint = Live,
     lk_wal_old_inode = Free, lk_wal_new_inode = Free\<rparr>"

definition locks_all_free :: locks where
  "locks_all_free = \<lparr>lk_wal = Free, lk_page_store = Free, lk_checkpoint = Free,
     lk_wal_old_inode = Free, lk_wal_new_inode = Free\<rparr>"

definition locks_all_recovery :: locks where
  "locks_all_recovery = \<lparr>lk_wal = Recovery, lk_page_store = Recovery, lk_checkpoint = Recovery,
     lk_wal_old_inode = Free, lk_wal_new_inode = Free\<rparr>"

datatype recovery_phase =
    PhLive
  | PhCrashed
  | PhUnrecovered
  | PhSelected
  | PhReplayPlanned
  | PhPagesRepaired
  | PhTransactionsRestored
  | PhCompleteLive
  | PhRetentionAnalyzed
  | PhReclaimed

datatype ('t, 'e) applied =
    AppOk 't
  | Unapplied 'e
  | AppliedThenError 't 'e

fun was_applied :: "('t, 'e) applied \<Rightarrow> bool" where
  "was_applied (AppOk _) = True"
| "was_applied (AppliedThenError _ _) = True"
| "was_applied (Unapplied _) = False"

fun applied_value :: "('t, 'e) applied \<Rightarrow> 't option" where
  "applied_value (AppOk v) = Some v"
| "applied_value (AppliedThenError v _) = Some v"
| "applied_value (Unapplied _) = None"

fun applied_error :: "('t, 'e) applied \<Rightarrow> 'e option" where
  "applied_error (Unapplied e) = Some e"
| "applied_error (AppliedThenError _ e) = Some e"
| "applied_error (AppOk _) = None"

record completion_evidence =
  ev_frontier :: "wal_position option"
  ev_generation :: generation
  ev_selected_anchor :: "checkpoint_anchor option"
  ev_epoch_high_water :: "u64 option"
  ev_stale :: bool
  ev_stale_reason :: "string option"

record retention_analysis =
  ra_retained_first :: "wal_position option"
  ra_checkpoint_anchor :: checkpoint_anchor
  ra_checkpoint_log_id :: log_id

record minimal_metadata =
  mm_log_id :: log_id
  mm_generation :: generation

record full_metadata =
  fm_minimal :: minimal_metadata
  fm_format_version :: u16
  fm_retained_first :: "wal_position option"
  fm_logical_high_water :: "wal_position option"
  fm_epoch_high_water :: "u64 option"
  fm_required_anchor :: checkpoint_anchor

record restoration_summary =
  rs_fresh_epoch :: u64
  rs_active_transactions :: transaction_positions

datatype selected_entry_state = SelValid | SelPartialWrite | SelCorrupt

section \<open>Errors\<close>

datatype (plugins only: code size) model_error =
    InvalidPhase recovery_phase string
  | PositionExhausted
  | GenerationExhausted
  | EpochExhausted
  | SequenceExhausted
  | LineageExhausted
  | TransactionNotFound transaction_id
  | TransactionAlreadyCommitted transaction_id
  | DuplicateTransactionId transaction_id
  | NoActiveEpoch
  | CheckpointAnchorMismatch checkpoint_anchor "checkpoint_anchor option"
  | NoCheckpointForNonzeroGeneration generation
  | MissingGenerationAnchor generation
  | ReplacementComplete
  | NoPendingCandidate
  | InvalidSelectedOnOpen string
  | NoFlushPosition
  | NoCheckpointForReclamation
  | NoCompletionEvidence
  | NoRetentionAnalysis
  | StaleCompletionEvidence string
  | RepairFault
  | ForeignLogId log_id log_id string
  | VolatileSuffixPresent
  | PageNotDurable page_id
  | PageUncommitted page_id transaction_id
  | InvalidTransactionIndex nat
  | InvalidPageId
  | DuplicateWalPosition wal_position
  | PageVersionExhausted
  | InvalidRecordShape string
  | DurableRecordMissing wal_position
  | RetentionBoundaryMissing wal_position
  | PageCheckpointContradiction page_id
  | PageStoreRegression page_id wal_position wal_position
  | RepairCountExhausted
  | InodeAliasCandidate string
  | MetadataMismatch string
  | ForeignSourceMetadata
  | BoundsExceeded string u64 u64
  | SkeletonRequiresMoreCapacity string u64 u64

section \<open>The stage protocol\<close>

lemma stage_next_index: "stage_next s = Some t \<Longrightarrow> stage_index t = Suc (stage_index s)"
  by (cases s) auto

lemma stage_next_decreases: "stage_next s = Some t \<Longrightarrow> 10 - stage_index t < 10 - stage_index s"
  by (cases s) auto

lemma stage_index_inj: "stage_index s = stage_index t \<Longrightarrow> s = t"
  by (cases s; cases t) simp_all

lemma stage_next_None_iff: "stage_next s = None \<longleftrightarrow> s = AfterDirectorySync"
  by (cases s) auto

lemma stage_before_rename_iff: "stage_is_before_rename s \<longleftrightarrow> stage_index s < 7"
  by (cases s) auto

lemma stage_index_le: "stage_index s \<le> 9"
  by (cases s) auto

end
