(* ===== verification/Recovery_Live.thy ===== *)
theory Recovery_Live
  imports Recovery_Types
begin

text \<open>
  The state of \<open>RecoveryModel\<close> and the operations allowed while it is live: epoch and
  transaction allocation, appends, flush, page-store writes and checkpoint publication.
  A method on \<open>&mut self\<close> is a function to a result and the state left behind, on errors too.
\<close>

section \<open>State\<close>

record recovery_model =
  m_log_id :: log_id
  m_lineage_id :: lineage_id
  m_phase :: recovery_phase
  m_wal_records :: "wal_record list"
  m_flush_position :: "wal_position option"
  m_next_position :: "u64 option"
  m_logical_high_water :: "wal_position option"
  m_current_epoch :: "u64 option"
  m_next_epoch :: "u64 option"
  m_next_sequence :: "u64 option"
  m_epoch_high_water :: "u64 option"
  m_active_transactions :: transaction_positions
  m_persisted_transactions :: transaction_positions
  m_committed_transactions :: "(transaction_id, wal_position) btree"
  m_page_store :: "(page_id, page_snapshot) btree"
  m_checkpoint_slot :: "checkpoint_snapshot option"
  m_selected_checkpoint :: "checkpoint_snapshot option"
  m_wal_generation :: generation
  m_wal_format_version :: u16
  m_generation_anchor :: "checkpoint_anchor option"
  m_retained_first :: "wal_position option"
  m_replacement_logical_high_water :: "wal_position option"
  m_replacement_epoch_high_water :: "u64 option"
  m_completion_evidence :: "completion_evidence option"
  m_retention_analysis :: "retention_analysis option"
  m_checkpoint_candidate :: checkpoint_candidate_state
  m_wal_candidate :: wal_candidate_state
  m_locks :: locks
  m_replay_plan :: "wal_record list option"
  m_restoration_summary :: "restoration_summary option"
  m_selected_wal_entry :: selected_entry_state
  m_selected_checkpoint_entry :: selected_entry_state

type_synonym 'a model_op = "recovery_model \<Rightarrow> (model_error + 'a) \<times> recovery_model"

definition complete_prefix_format_version :: u16 where
  "complete_prefix_format_version = 3"

definition generation_format_version :: u16 where
  "generation_format_version = 4"

definition model_new :: "log_id \<Rightarrow> recovery_model" where
  "model_new log_id = \<lparr>
     m_log_id = log_id,
     m_lineage_id = LineageId 0,
     m_phase = PhLive,
     m_wal_records = [],
     m_flush_position = None,
     m_next_position = Some 1,
     m_logical_high_water = None,
     m_current_epoch = None,
     m_next_epoch = Some 1,
     m_next_sequence = None,
     m_epoch_high_water = None,
     m_active_transactions = [],
     m_persisted_transactions = [],
     m_committed_transactions = [],
     m_page_store = [],
     m_checkpoint_slot = None,
     m_selected_checkpoint = None,
     m_wal_generation = generation_zero,
     m_wal_format_version = complete_prefix_format_version,
     m_generation_anchor = None,
     m_retained_first = None,
     m_replacement_logical_high_water = None,
     m_replacement_epoch_high_water = None,
     m_completion_evidence = None,
     m_retention_analysis = None,
     m_checkpoint_candidate = CpAbsent,
     m_wal_candidate = WalAbsent,
     m_locks = locks_all_live,
     m_replay_plan = None,
     m_restoration_summary = None,
     m_selected_wal_entry = SelValid,
     m_selected_checkpoint_entry = SelValid\<rparr>"

section \<open>Helpers\<close>

text \<open>\<open>frontier.is_some_and(|f| position <= f)\<close>.\<close>

definition covered_by :: "wal_position option \<Rightarrow> wal_position \<Rightarrow> bool" where
  "covered_by frontier p = (case frontier of None \<Rightarrow> False | Some f \<Rightarrow> p \<le> f)"

lemma covered_by_simps [simp]:
  "\<not> covered_by None p"
  "covered_by (Some f) p \<longleftrightarrow> p \<le> f"
  by (simp_all add: covered_by_def)

lemma covered_by_iff: "covered_by f p \<longleftrightarrow> Some p \<le> f"
  by (cases f) simp_all

definition durable_wal_records :: "recovery_model \<Rightarrow> wal_record list" where
  "durable_wal_records m =
     takeWhile (\<lambda>r. covered_by (m_flush_position m) (wr_position r)) (m_wal_records m)"

definition require_phase :: "recovery_model \<Rightarrow> recovery_phase list \<Rightarrow> string \<Rightarrow> model_error + unit" where
  "require_phase m allowed op =
     (if List.member allowed (m_phase m) then Inr () else Inl (InvalidPhase (m_phase m) op))"

definition require_live_or_complete :: "recovery_model \<Rightarrow> string \<Rightarrow> model_error + unit" where
  "require_live_or_complete m op = require_phase m [PhLive, PhCompleteLive] op"

definition allocate_position :: "wal_position model_op" where
  "allocate_position m =
     with_result (ok_or (m_next_position m) PositionExhausted) m (\<lambda>v.
       let m1 = m\<lparr>m_next_position := checked_add v 1\<rparr> in
       (case wal_position_new v of
          Some p \<Rightarrow> (Inr p, m1)
        | None \<Rightarrow> (Inl PositionExhausted, m1)))"

definition mark_completion_stale :: "string \<Rightarrow> recovery_model \<Rightarrow> recovery_model" where
  "mark_completion_stale reason m =
     (case m_completion_evidence m of
        None \<Rightarrow> m
      | Some ev \<Rightarrow> m\<lparr>m_completion_evidence :=
          Some (ev\<lparr>ev_stale := True, ev_stale_reason := Some reason\<rparr>)\<rparr>)"

definition record_shape_valid :: "wal_record \<Rightarrow> bool" where
  "record_shape_valid r =
     (case wr_kind r of
        TransactionPage \<Rightarrow> wr_transaction r \<noteq> None \<and> wr_page r \<noteq> None
          \<and> wr_page_value r \<noteq> None \<and> wr_page_version r \<noteq> None
      | TransactionCommit \<Rightarrow> wr_transaction r \<noteq> None \<and> wr_page r = None
          \<and> wr_page_value r = None \<and> wr_page_version r = None
      | RawPage \<Rightarrow> wr_transaction r = None \<and> wr_page r \<noteq> None
          \<and> wr_page_value r \<noteq> None \<and> wr_page_version r \<noteq> None)"

definition validate_record_shape :: "wal_record \<Rightarrow> model_error + unit" where
  "validate_record_shape r =
     ensure (record_shape_valid r) (InvalidRecordShape ''WAL record fields do not match its kind'')"

section \<open>Epochs, transactions and appends\<close>

definition allocate_coordinator_epoch :: "u64 model_op" where
  "allocate_coordinator_epoch m =
     with_result (require_live_or_complete m ''allocate_epoch'') m (\<lambda>_.
     with_result (ok_or (m_next_epoch m) EpochExhausted) m (\<lambda>e.
       let m1 = m\<lparr>m_next_epoch := checked_add e 1,
                  m_current_epoch := Some e,
                  m_next_sequence := Some 1\<rparr>;
           m2 = (case m_epoch_high_water m1 of
                   Some hw \<Rightarrow> if hw \<ge> e then m1 else m1\<lparr>m_epoch_high_water := Some e\<rparr>
                 | None \<Rightarrow> m1\<lparr>m_epoch_high_water := Some e\<rparr>)
       in (Inr e, mark_completion_stale ''epoch allocated'' m2)))"

definition begin_transaction :: "transaction_id model_op" where
  "begin_transaction m =
     with_result (require_live_or_complete m ''begin_transaction'') m (\<lambda>_.
     with_result (ok_or (m_current_epoch m) NoActiveEpoch) m (\<lambda>epoch.
     with_result (ok_or (m_next_sequence m) SequenceExhausted) m (\<lambda>seq.
       let m1 = m\<lparr>m_next_sequence := checked_add seq 1\<rparr> in
       with_result (ok_or (transaction_id_new epoch seq) NoActiveEpoch) m1 (\<lambda>id.
         if bt_contains_key (m_active_transactions m1) id
         then (Inl (DuplicateTransactionId id), m1)
         else let m2 = m1\<lparr>m_active_transactions := bt_insert id [] (m_active_transactions m1)\<rparr>
              in (Inr id, mark_completion_stale ''transaction begun'' m2)))))"

definition push_record :: "wal_record \<Rightarrow> recovery_model \<Rightarrow> recovery_model" where
  "push_record r m = m\<lparr>m_wal_records := m_wal_records m @ [r]\<rparr>"

definition append_transaction_page ::
  "transaction_id \<Rightarrow> page_id \<Rightarrow> u64 \<Rightarrow> page_version \<Rightarrow> wal_position model_op" where
  "append_transaction_page txn page page_value page_version m =
     with_result (require_live_or_complete m ''append_txn_page'') m (\<lambda>_.
     with_result (ensure (bt_contains_key (m_active_transactions m) txn)
       (TransactionNotFound txn)) m (\<lambda>_.
       (case allocate_position m of
          (Inl e, m1) \<Rightarrow> (Inl e, m1)
        | (Inr pos, m1) \<Rightarrow>
            let record = \<lparr>wr_log_id = m_log_id m1, wr_lineage_id = m_lineage_id m1,
                  wr_position = pos, wr_kind = TransactionPage, wr_transaction = Some txn,
                  wr_page = Some page, wr_page_value = Some page_value,
                  wr_page_version = Some page_version\<rparr>;
                m2 = push_record record m1;
                m3 = (case bt_get (m_active_transactions m2) txn of
                        None \<Rightarrow> m2
                      | Some positions \<Rightarrow> m2\<lparr>m_active_transactions :=
                          bt_insert txn (positions @ [pos]) (m_active_transactions m2)\<rparr>)
            in (Inr pos, mark_completion_stale ''page appended'' m3))))"

definition append_transaction_commit :: "transaction_id \<Rightarrow> wal_position model_op" where
  "append_transaction_commit txn m =
     with_result (require_live_or_complete m ''append_commit'') m (\<lambda>_.
     with_result (ensure (bt_contains_key (m_active_transactions m) txn)
       (TransactionNotFound txn)) m (\<lambda>_.
     with_result (ensure (\<not> bt_contains_key (m_committed_transactions m) txn)
       (TransactionAlreadyCommitted txn)) m (\<lambda>_.
       (case allocate_position m of
          (Inl e, m1) \<Rightarrow> (Inl e, m1)
        | (Inr pos, m1) \<Rightarrow>
            let record = \<lparr>wr_log_id = m_log_id m1, wr_lineage_id = m_lineage_id m1,
                  wr_position = pos, wr_kind = TransactionCommit, wr_transaction = Some txn,
                  wr_page = None, wr_page_value = None, wr_page_version = None\<rparr>;
                m2 = push_record record m1;
                m3 = m2\<lparr>m_committed_transactions :=
                       bt_insert txn pos (m_committed_transactions m2),
                     m_active_transactions := bt_remove txn (m_active_transactions m2)\<rparr>
            in (Inr pos, mark_completion_stale ''commit appended'' m3)))))"

definition append_raw_page :: "page_id \<Rightarrow> u64 \<Rightarrow> page_version \<Rightarrow> wal_position model_op" where
  "append_raw_page page page_value page_version m =
     with_result (require_live_or_complete m ''append_raw_page'') m (\<lambda>_.
       (case allocate_position m of
          (Inl e, m1) \<Rightarrow> (Inl e, m1)
        | (Inr pos, m1) \<Rightarrow>
            let record = \<lparr>wr_log_id = m_log_id m1, wr_lineage_id = m_lineage_id m1,
                  wr_position = pos, wr_kind = RawPage, wr_transaction = None,
                  wr_page = Some page, wr_page_value = Some page_value,
                  wr_page_version = Some page_version\<rparr>;
                m2 = push_record record m1
            in (Inr pos, mark_completion_stale ''raw page appended'' m2)))"

text \<open>\<open>wal_records.last().map(|record| record.position)\<close>.\<close>

definition last_position :: "wal_record list \<Rightarrow> wal_position option" where
  "last_position rs = (if rs = [] then None else Some (wr_position (last rs)))"

text \<open>\<open>wal_records.first().map(|record| record.position)\<close>.\<close>

definition first_position :: "wal_record list \<Rightarrow> wal_position option" where
  "first_position rs = (case rs of [] \<Rightarrow> None | r # _ \<Rightarrow> Some (wr_position r))"

definition flush_wal :: "wal_position option model_op" where
  "flush_wal m =
     with_result (require_live_or_complete m ''flush_wal'') m (\<lambda>_.
       let m1 = (case last_position (m_wal_records m) of
                   None \<Rightarrow> m
                 | Some position \<Rightarrow>
                     m\<lparr>m_flush_position := Some position, m_logical_high_water := Some position\<rparr>)
       in (Inr (m_flush_position m1), m1))"

section \<open>Page store\<close>

definition find_record :: "wal_record list \<Rightarrow> wal_position \<Rightarrow> wal_record option" where
  "find_record rs p = find (\<lambda>r. wr_position r = p) rs"

text \<open>The exact durable commit that a transaction page needs before it may reach the store.\<close>

definition has_durable_commit :: "recovery_model \<Rightarrow> wal_position \<Rightarrow> transaction_id \<Rightarrow> bool" where
  "has_durable_commit m durable_frontier txn =
     list_ex (\<lambda>c. wr_position c \<le> durable_frontier
       \<and> wr_kind c = TransactionCommit
       \<and> wr_transaction c = Some txn
       \<and> wr_page c = None
       \<and> wr_page_value c = None
       \<and> wr_page_version c = None
       \<and> wr_log_id c = m_log_id m
       \<and> wr_lineage_id c = m_lineage_id m) (m_wal_records m)"

definition make_snapshot ::
  "recovery_model \<Rightarrow> page_id \<Rightarrow> u64 \<Rightarrow> wal_position \<Rightarrow> page_version \<Rightarrow> page_snapshot" where
  "make_snapshot m page value position version =
     \<lparr>ps_log_id = m_log_id m, ps_lineage_id = m_lineage_id m, ps_page_id = page,
      ps_value = value, ps_written_at = position, ps_version = version\<rparr>"

text \<open>The tail both page kinds share: refuse a regression, then insert the snapshot.\<close>

definition store_page ::
  "page_id \<Rightarrow> u64 \<Rightarrow> page_version \<Rightarrow> wal_position \<Rightarrow> page_id model_op" where
  "store_page page value version position m =
     with_result
       (case bt_get (m_page_store m) page of
          None \<Rightarrow> Inr ()
        | Some current \<Rightarrow>
            ensure (\<not> ps_written_at current > position)
              (PageStoreRegression page (ps_written_at current) position)) m (\<lambda>_.
       let m1 = m\<lparr>m_page_store :=
                 bt_insert page (make_snapshot m page value position version) (m_page_store m)\<rparr>
       in (Inr page, mark_completion_stale ''page store written'' m1))"

definition write_page_store :: "wal_position \<Rightarrow> page_id model_op" where
  "write_page_store position m =
     with_result (require_live_or_complete m ''write_page_store'') m (\<lambda>_.
     with_result (ok_or (find_record (m_wal_records m) position)
       (DurableRecordMissing position)) m (\<lambda>record.
     with_result (ensure (wr_log_id record = m_log_id m)
       (ForeignLogId (m_log_id m) (wr_log_id record) ''write_page_store record'')) m (\<lambda>_.
     with_result (validate_record_shape record) m (\<lambda>_.
     with_result
       (case m_flush_position m of
          Some fp \<Rightarrow> if fp \<ge> position then Inr fp
                     else (case wr_page record of Some page \<Rightarrow> Inl (PageNotDurable page)
                                                | None \<Rightarrow> Inl (DurableRecordMissing position))
        | None \<Rightarrow> (case wr_page record of Some page \<Rightarrow> Inl (PageNotDurable page)
                                        | None \<Rightarrow> Inl (DurableRecordMissing position))) m
       (\<lambda>durable_frontier.
       (case wr_kind record of
          TransactionPage \<Rightarrow>
            with_result (ok_or (wr_transaction record)
              (InvalidRecordShape ''TransactionPage missing transaction'')) m (\<lambda>txn.
            with_result (ok_or (wr_page record)
              (InvalidRecordShape ''TransactionPage missing page'')) m (\<lambda>page.
            with_result (ok_or (wr_page_value record)
              (InvalidRecordShape ''TransactionPage missing value'')) m (\<lambda>value.
            with_result (ok_or (wr_page_version record)
              (InvalidRecordShape ''TransactionPage missing version'')) m (\<lambda>version.
            with_result (ensure (has_durable_commit m durable_frontier txn)
              (PageUncommitted page txn)) m (\<lambda>_.
              store_page page value version position m)))))
        | RawPage \<Rightarrow>
            with_result (ensure (wr_transaction record = None)
              (InvalidRecordShape ''RawPage has transaction'')) m (\<lambda>_.
            with_result (ok_or (wr_page record)
              (InvalidRecordShape ''RawPage missing page'')) m (\<lambda>page.
            with_result (ok_or (wr_page_value record)
              (InvalidRecordShape ''RawPage missing value'')) m (\<lambda>value.
            with_result (ok_or (wr_page_version record)
              (InvalidRecordShape ''RawPage missing version'')) m (\<lambda>version.
              store_page page value version position m))))
        | TransactionCommit \<Rightarrow>
            (Inl (InvalidRecordShape ''TransactionCommit has no page to write''), m)))))))"

section \<open>Checkpoint publication\<close>

fun earliest_unreplayed ::
  "(page_id, page_snapshot) btree \<Rightarrow> wal_position \<Rightarrow> wal_position option \<Rightarrow> wal_record list
     \<Rightarrow> wal_position option" where
  "earliest_unreplayed store frontier earliest [] = earliest"
| "earliest_unreplayed store frontier earliest (r # rs) =
     (if wr_position r > frontier then earliest_unreplayed store frontier earliest rs
      else case wr_page r of
        None \<Rightarrow> earliest_unreplayed store frontier earliest rs
      | Some page \<Rightarrow>
          if \<not> (wr_kind r = TransactionPage \<or> wr_kind r = RawPage)
          then earliest_unreplayed store frontier earliest rs
          else
            let needs_replay = (case bt_get store page of
                  None \<Rightarrow> True | Some snap \<Rightarrow> ps_written_at snap < wr_position r)
            in earliest_unreplayed store frontier
                 (if needs_replay
                  then (case earliest of
                          None \<Rightarrow> Some (wr_position r)
                        | Some e \<Rightarrow> if wr_position r < e then Some (wr_position r) else earliest)
                  else earliest) rs)"

definition compute_replay_start :: "recovery_model \<Rightarrow> wal_position option" where
  "compute_replay_start m =
     (case m_flush_position m of
        None \<Rightarrow> None
      | Some frontier \<Rightarrow> earliest_unreplayed (m_page_store m) frontier None (m_wal_records m))"

text \<open>
  The transaction table of a checkpoint: persisted observations overlaid with the active
  transactions.
\<close>

definition checkpoint_transactions :: "recovery_model \<Rightarrow> transaction_positions" where
  "checkpoint_transactions m =
     foldl (\<lambda>t (txn, positions). bt_insert txn positions t)
       (m_persisted_transactions m) (m_active_transactions m)"

definition current_checkpoint :: "recovery_model \<Rightarrow> checkpoint_anchor \<Rightarrow> checkpoint_snapshot" where
  "current_checkpoint m anchor =
     \<lparr>cp_log_id = m_log_id m,
      cp_lineage_id = m_lineage_id m,
      cp_anchor = anchor,
      cp_frontier = (case m_flush_position m of Some fp \<Rightarrow> frontier_at fp | None \<Rightarrow> frontier_empty),
      cp_replay_start = compute_replay_start m,
      cp_pages = m_page_store m,
      cp_transaction_summary =
        \<lparr>ts_active = checkpoint_transactions m, ts_epoch_high_water = m_epoch_high_water m\<rparr>\<rparr>"

definition publish_checkpoint :: "checkpoint_anchor \<Rightarrow> unit model_op" where
  "publish_checkpoint anchor m =
     with_result (require_live_or_complete m ''publish_checkpoint'') m (\<lambda>_.
       let m1 = m\<lparr>m_checkpoint_slot := Some (current_checkpoint m anchor)\<rparr>
       in (Inr (), mark_completion_stale ''checkpoint published'' m1))"

end
