(* ===== verification/Recovery_Restart.thy ===== *)
theory Recovery_Restart
  imports Recovery_Live
begin

text \<open>
  Replacement candidates, crash and reopen, checkpoint selection, replay planning, page repair
  and transaction restoration of \<open>RecoveryModel\<close>.
\<close>

section \<open>Open scenarios\<close>

definition set_selected_entries_for_open ::
  "selected_entry_state \<Rightarrow> selected_entry_state \<Rightarrow> unit model_op" where
  "set_selected_entries_for_open wal checkpoint m =
     with_result (require_phase m [PhCrashed] ''set_selected_entries_for_open'') m (\<lambda>_.
       (Inr (), m\<lparr>m_selected_wal_entry := wal, m_selected_checkpoint_entry := checkpoint\<rparr>))"

definition set_checkpoint_candidate_for_open :: "checkpoint_candidate_state \<Rightarrow> unit model_op" where
  "set_checkpoint_candidate_for_open candidate m =
     with_result (require_phase m [PhCrashed] ''set_checkpoint_candidate_for_open'') m (\<lambda>_.
       (Inr (), m\<lparr>m_checkpoint_candidate := candidate\<rparr>))"

definition set_wal_candidate_for_open :: "wal_candidate_state \<Rightarrow> unit model_op" where
  "set_wal_candidate_for_open candidate m =
     with_result (require_phase m [PhCrashed] ''set_wal_candidate_for_open'') m (\<lambda>_.
       (Inr (), m\<lparr>m_wal_candidate := candidate\<rparr>))"

section \<open>Checkpoint candidate\<close>

definition begin_checkpoint_candidate :: "checkpoint_snapshot \<Rightarrow> unit model_op" where
  "begin_checkpoint_candidate snapshot m =
     with_result (require_live_or_complete m ''begin_cp_candidate'') m (\<lambda>_.
       let m1 = m\<lparr>m_checkpoint_candidate := CpPresent snapshot BeforeCleanup EntryAbsent\<rparr>
       in (Inr (), mark_completion_stale ''checkpoint replacement begun'' m1))"

fun checkpoint_entry_at :: "replacement_stage \<Rightarrow> candidate_entry \<Rightarrow> candidate_entry" where
  "checkpoint_entry_at AfterCleanup entry = EntryAbsent"
| "checkpoint_entry_at AfterCreate entry = EntryPartialWrite"
| "checkpoint_entry_at AfterWrite entry = EntryValid"
| "checkpoint_entry_at BeforeSync entry = EntryValid"
| "checkpoint_entry_at AfterSync entry = EntryValid"
| "checkpoint_entry_at BeforeRename entry = EntryValid"
| "checkpoint_entry_at _ entry = entry"

definition advance_checkpoint_candidate :: "replacement_stage model_op" where
  "advance_checkpoint_candidate m =
     (case m_checkpoint_candidate m of
        CpAbsent \<Rightarrow> (Inl NoPendingCandidate, m)
      | CpPresent snapshot stage entry \<Rightarrow>
          with_result (ok_or (stage_next stage) ReplacementComplete) m (\<lambda>next_stage.
            let renamed = (next_stage = AfterCurrentReplace);
                new_entry = (if renamed then EntryAbsent else checkpoint_entry_at next_stage entry);
                m1 = (if renamed
                      then mark_completion_stale ''checkpoint replaced''
                             (m\<lparr>m_checkpoint_slot := Some snapshot\<rparr>)
                      else m)
            in if next_stage = AfterDirectorySync
               then (Inr next_stage, m1\<lparr>m_checkpoint_candidate := CpAbsent\<rparr>)
               else (Inr next_stage,
                     m1\<lparr>m_checkpoint_candidate := CpPresent snapshot next_stage new_entry\<rparr>)))"

definition set_checkpoint_candidate_entry :: "candidate_entry \<Rightarrow> unit model_op" where
  "set_checkpoint_candidate_entry entry m =
     (case m_checkpoint_candidate m of
        CpPresent snapshot stage _ \<Rightarrow>
          (Inr (), m\<lparr>m_checkpoint_candidate := CpPresent snapshot stage entry\<rparr>)
      | CpAbsent \<Rightarrow> (Inl NoPendingCandidate, m))"

section \<open>WAL candidate\<close>

definition begin_wal_candidate :: "wal_replacement \<Rightarrow> unit model_op" where
  "begin_wal_candidate replacement m =
     with_result (require_phase m [PhRetentionAnalyzed] ''begin_wal_candidate'') m (\<lambda>_.
     with_result (ok_or (generation_checked_next (m_wal_generation m)) GenerationExhausted) m
       (\<lambda>expected_generation.
     with_result (ensure (wp_target_generation replacement = expected_generation)
       (MetadataMismatch ''candidate_generation'')) m (\<lambda>_.
     with_result (ensure (wp_format_version replacement = generation_format_version)
       (MetadataMismatch ''candidate_format_version'')) m (\<lambda>_.
     with_result (ensure (\<not> list_ex (\<lambda>r. wr_log_id r \<noteq> m_log_id m
         \<or> wr_lineage_id r \<noteq> m_lineage_id m) (wp_retained_suffix replacement))
       ForeignSourceMetadata) m (\<lambda>_.
       (Inr (), m\<lparr>m_locks := (m_locks m)\<lparr>lk_wal_old_inode := Live, lk_wal_new_inode := Live\<rparr>,
                  m_wal_candidate := WalPresent replacement BeforeCleanup EntryAbsent\<rparr>))))))"

text \<open>At the rename the generation, its anchor and the retained suffix are switched together.\<close>

definition install_replacement :: "wal_replacement \<Rightarrow> recovery_model \<Rightarrow> recovery_model" where
  "install_replacement w m = m\<lparr>
     m_wal_generation := wp_target_generation w,
     m_wal_format_version := wp_format_version w,
     m_generation_anchor := Some (wp_anchor w),
     m_wal_records := wp_retained_suffix w,
     m_retained_first := wp_retained_first w,
     m_replacement_logical_high_water := wp_logical_high_water w,
     m_replacement_epoch_high_water := wp_epoch_high_water w,
     m_logical_high_water := wp_logical_high_water w,
     m_flush_position := wp_logical_high_water w,
     m_epoch_high_water := wp_epoch_high_water w\<rparr>"

fun wal_entry_at :: "replacement_stage \<Rightarrow> candidate_entry" where
  "wal_entry_at AfterCleanup = EntryAbsent"
| "wal_entry_at AfterCreate = EntryPartialWrite"
| "wal_entry_at AfterWrite = EntryValid"
| "wal_entry_at BeforeSync = EntryValid"
| "wal_entry_at AfterSync = EntryValid"
| "wal_entry_at BeforeRename = EntryValid"
| "wal_entry_at _ = EntryAbsent"

definition advance_wal_candidate :: "replacement_stage model_op" where
  "advance_wal_candidate m =
     (case m_wal_candidate m of
        WalAbsent \<Rightarrow> (Inl NoPendingCandidate, m)
      | WalPresent w stage _ \<Rightarrow>
          with_result (ok_or (stage_next stage) ReplacementComplete) m (\<lambda>next_stage.
            let m1 = (if next_stage = AfterCurrentReplace then install_replacement w m else m)
            in if next_stage = AfterDirectorySync
               then (Inr next_stage,
                     m1\<lparr>m_wal_candidate := WalAbsent,
                        m_locks := (m_locks m1)\<lparr>lk_wal_old_inode := Free, lk_wal_new_inode := Free\<rparr>\<rparr>)
               else (Inr next_stage,
                     m1\<lparr>m_wal_candidate := WalPresent w next_stage (wal_entry_at next_stage)\<rparr>)))"

definition set_wal_candidate_entry :: "candidate_entry \<Rightarrow> unit model_op" where
  "set_wal_candidate_entry entry m =
     (case m_wal_candidate m of
        WalPresent w stage _ \<Rightarrow> (Inr (), m\<lparr>m_wal_candidate := WalPresent w stage entry\<rparr>)
      | WalAbsent \<Rightarrow> (Inl NoPendingCandidate, m))"

section \<open>Validation of the selected files on open\<close>

text \<open>Page entries of the store or of a checkpoint carry the model's identity and their key.\<close>

definition pages_branded ::
  "recovery_model \<Rightarrow> (page_id, page_snapshot) btree \<Rightarrow> model_error + unit" where
  "pages_branded m pages =
     for_each (\<lambda>(page, snapshot).
       ensure (ps_log_id snapshot = m_log_id m \<and> ps_lineage_id snapshot = m_lineage_id m
         \<and> ps_page_id snapshot = page) ForeignSourceMetadata) pages"

fun validate_records_from ::
  "recovery_model \<Rightarrow> wal_position option \<Rightarrow> wal_record list \<Rightarrow> model_error + unit" where
  "validate_records_from m previous [] = Inr ()"
| "validate_records_from m previous (r # rs) =
     and_then (ensure (wr_log_id r = m_log_id m \<and> wr_lineage_id r = m_lineage_id m)
       ForeignSourceMetadata) (\<lambda>_.
     and_then (validate_record_shape r) (\<lambda>_.
     and_then (ensure (\<not> (case previous of None \<Rightarrow> False | Some p \<Rightarrow> p \<ge> wr_position r))
       (InvalidSelectedOnOpen ''selected WAL positions are not strictly increasing'')) (\<lambda>_.
     validate_records_from m (Some (wr_position r)) rs)))"

definition validate_generation_metadata :: "recovery_model \<Rightarrow> model_error + unit" where
  "validate_generation_metadata m =
     (if generation_is_zero (m_wal_generation m) then
        ensure (\<not> (m_wal_format_version m \<noteq> complete_prefix_format_version
            \<or> m_generation_anchor m \<noteq> None
            \<or> m_retained_first m \<noteq> None
            \<or> m_replacement_logical_high_water m \<noteq> None
            \<or> m_replacement_epoch_high_water m \<noteq> None))
          (InvalidSelectedOnOpen ''generation-zero WAL metadata is inconsistent'')
      else
        ensure (\<not> (m_wal_format_version m \<noteq> generation_format_version
            \<or> m_generation_anchor m = None))
          (InvalidSelectedOnOpen ''pruned WAL metadata is incomplete''))"

definition validate_replacement_header :: "recovery_model \<Rightarrow> model_error + unit" where
  "validate_replacement_header m =
     (let current_retained_first = first_position (durable_wal_records m);
          pruned = \<not> generation_is_zero (m_wal_generation m)
      in
     and_then (ensure (\<not> (pruned \<and> m_retained_first m \<noteq> None
         \<and> current_retained_first \<noteq> m_retained_first m))
       (InvalidSelectedOnOpen ''selected WAL retained-first metadata is inconsistent'')) (\<lambda>_.
     and_then (ensure (\<not> (pruned \<and> m_retained_first m = None
         \<and> (case current_retained_first of None \<Rightarrow> False
            | Some current \<Rightarrow> covered_by (m_replacement_logical_high_water m) current)))
       (InvalidSelectedOnOpen
          ''selected WAL post-replacement suffix overlaps header high-water'')) (\<lambda>_.
     and_then (ensure (\<not> (pruned \<and>
         (case m_replacement_logical_high_water m of None \<Rightarrow> False
          | Some baseline \<Rightarrow> (case m_logical_high_water m of None \<Rightarrow> True
                              | Some current \<Rightarrow> current < baseline))))
       (InvalidSelectedOnOpen
          ''selected WAL current high-water precedes replacement header'')) (\<lambda>_.
     and_then (ensure (\<not> (pruned \<and>
         (case m_replacement_epoch_high_water m of None \<Rightarrow> False
          | Some baseline \<Rightarrow> (case m_epoch_high_water m of None \<Rightarrow> True
                              | Some current \<Rightarrow> current < baseline))))
       (InvalidSelectedOnOpen
          ''selected WAL current epoch precedes replacement header'')) (\<lambda>_.
     ensure (m_flush_position m = m_logical_high_water m)
       (InvalidSelectedOnOpen ''selected WAL high-water metadata is inconsistent''))))))"

definition validate_checkpoint_page ::
  "recovery_model \<Rightarrow> wal_position option \<Rightarrow> page_id \<times> page_snapshot \<Rightarrow> model_error + unit" where
  "validate_checkpoint_page m frontier = (\<lambda>(page, snapshot).
     and_then (ensure (\<not> (ps_page_id snapshot \<noteq> page
         \<or> ps_log_id snapshot \<noteq> m_log_id m
         \<or> ps_lineage_id snapshot \<noteq> m_lineage_id m
         \<or> Some (ps_written_at snapshot) > frontier))
       (PageCheckpointContradiction page)) (\<lambda>_.
     and_then (ok_or (find_record (m_wal_records m) (ps_written_at snapshot))
       (RetentionBoundaryMissing (ps_written_at snapshot))) (\<lambda>record.
     and_then (validate_record_shape record) (\<lambda>_.
     and_then (ensure (\<not> (wr_page record \<noteq> Some page
         \<or> wr_page_value record \<noteq> Some (ps_value snapshot)
         \<or> wr_page_version record \<noteq> Some (ps_version snapshot)))
       (PageCheckpointContradiction page)) (\<lambda>_.
     if wr_kind record = TransactionPage then
       and_then (ok_or (wr_transaction record)
         (InvalidRecordShape ''checkpoint transaction page has no owner'')) (\<lambda>transaction.
       ensure (list_ex (\<lambda>c. wr_kind c = TransactionCommit
           \<and> wr_transaction c = Some transaction
           \<and> covered_by frontier (wr_position c)) (m_wal_records m))
         (PageUncommitted page transaction))
     else Inr ())))))"

definition validate_checkpoint_transaction ::
  "recovery_model \<Rightarrow> wal_position option \<Rightarrow> transaction_id \<times> wal_position list
     \<Rightarrow> model_error + unit" where
  "validate_checkpoint_transaction m frontier = (\<lambda>(transaction, positions).
     for_each (\<lambda>position.
       and_then (ok_or (find_record (m_wal_records m) position)
         (RetentionBoundaryMissing position)) (\<lambda>record.
       ensure (\<not> (wr_kind record \<noteq> TransactionPage
           \<or> wr_transaction record \<noteq> Some transaction
           \<or> Some (wr_position record) > frontier))
         (InvalidRecordShape ''checkpoint active transaction position is not exact''))) positions)"

definition validate_complete_prefix_checkpoint ::
  "recovery_model \<Rightarrow> checkpoint_snapshot \<Rightarrow> model_error + unit" where
  "validate_complete_prefix_checkpoint m checkpoint =
     (let frontier = frontier_position (cp_frontier checkpoint) in
     and_then (ensure (\<not> frontier > m_logical_high_water m)
       (InvalidSelectedOnOpen ''checkpoint frontier exceeds complete WAL prefix'')) (\<lambda>_.
     and_then (case cp_replay_start checkpoint of
         None \<Rightarrow> Inr ()
       | Some replay_start \<Rightarrow>
           ensure (\<not> (Some replay_start > frontier
               \<or> \<not> list_ex (\<lambda>r. wr_position r = replay_start) (m_wal_records m)))
             (RetentionBoundaryMissing replay_start)) (\<lambda>_.
     and_then (for_each (validate_checkpoint_page m frontier) (cp_pages checkpoint)) (\<lambda>_.
     and_then (for_each (validate_checkpoint_transaction m frontier)
         (ts_active (cp_transaction_summary checkpoint))) (\<lambda>_.
     ensure (\<not> ts_epoch_high_water (cp_transaction_summary checkpoint) > m_epoch_high_water m)
       (MetadataMismatch ''checkpoint_epoch_high_water''))))))"

definition validate_selected_on_open :: "recovery_model \<Rightarrow> model_error + unit" where
  "validate_selected_on_open m =
     and_then (ensure (m_selected_wal_entry m = SelValid)
       (InvalidSelectedOnOpen ''selected WAL is partial or corrupt'')) (\<lambda>_.
     and_then (validate_generation_metadata m) (\<lambda>_.
     and_then (validate_records_from m None (m_wal_records m)) (\<lambda>_.
     and_then (validate_replacement_header m) (\<lambda>_.
     and_then (pages_branded m (m_page_store m)) (\<lambda>_.
     and_then (ensure (m_selected_checkpoint_entry m = SelValid)
       (InvalidSelectedOnOpen ''selected checkpoint is partial or corrupt'')) (\<lambda>_.
     and_then (case m_checkpoint_slot m of
         None \<Rightarrow> Inr ()
       | Some checkpoint \<Rightarrow>
           and_then (ensure (cp_log_id checkpoint = m_log_id m
               \<and> cp_lineage_id checkpoint = m_lineage_id m)
             (ForeignLogId (m_log_id m) (cp_log_id checkpoint)
                ''selected checkpoint on open'')) (\<lambda>_.
           pages_branded m (cp_pages checkpoint))) (\<lambda>_.
     if \<not> generation_is_zero (m_wal_generation m) then
       and_then (ok_or (m_checkpoint_slot m)
         (InvalidSelectedOnOpen ''pruned WAL has no selected checkpoint'')) (\<lambda>checkpoint.
       ensure (Some (cp_anchor checkpoint) = m_generation_anchor m)
         (InvalidSelectedOnOpen ''pruned WAL checkpoint anchor does not match generation''))
     else (case m_checkpoint_slot m of
         None \<Rightarrow> Inr ()
       | Some checkpoint \<Rightarrow> validate_complete_prefix_checkpoint m checkpoint))))))))"

definition candidate_alias_context :: "recovery_model \<Rightarrow> string option" where
  "candidate_alias_context m =
     (case m_checkpoint_candidate m of
        CpPresent _ _ EntryInodeAlias \<Rightarrow> Some ''checkpoint candidate''
      | _ \<Rightarrow>
         (case m_wal_candidate m of
            WalPresent _ _ EntryInodeAlias \<Rightarrow> Some ''WAL candidate''
          | _ \<Rightarrow> None))"

definition rebrand_pages :: "lineage_id \<Rightarrow> (page_id, page_snapshot) btree \<Rightarrow> (page_id, page_snapshot) btree"
  where "rebrand_pages l pages = bt_map_values (\<lambda>s. s\<lparr>ps_lineage_id := l\<rparr>) pages"

definition rebrand_checkpoint :: "lineage_id \<Rightarrow> checkpoint_snapshot \<Rightarrow> checkpoint_snapshot" where
  "rebrand_checkpoint l c = c\<lparr>cp_lineage_id := l, cp_pages := rebrand_pages l (cp_pages c)\<rparr>"

section \<open>Crash and reopen\<close>

definition crash_with_complete_tail :: "bool \<Rightarrow> unit model_op" where
  "crash_with_complete_tail preserve_complete_tail m =
     with_result (require_phase m
       [PhLive, PhCompleteLive, PhRetentionAnalyzed, PhReclaimed, PhUnrecovered, PhSelected,
        PhReplayPlanned, PhPagesRepaired, PhTransactionsRestored] ''crash'') m (\<lambda>_.
       let m1 = (if \<not> preserve_complete_tail
                 then (case m_flush_position m of
                         Some fp \<Rightarrow> m\<lparr>m_wal_records :=
                           filter (\<lambda>r. wr_position r \<le> fp) (m_wal_records m)\<rparr>
                       | None \<Rightarrow> m\<lparr>m_wal_records := []\<rparr>)
                 else m)
       in (Inr (), m1\<lparr>
            m_logical_high_water := m_flush_position m1,
            m_active_transactions := [],
            m_persisted_transactions := [],
            m_committed_transactions := [],
            m_current_epoch := None,
            m_next_sequence := None,
            m_completion_evidence := None,
            m_retention_analysis := None,
            m_replay_plan := None,
            m_restoration_summary := None,
            m_selected_checkpoint := None,
            m_locks := locks_all_free,
            m_phase := PhCrashed\<rparr>))"

definition crash :: "unit model_op" where
  "crash m = crash_with_complete_tail False m"

definition crash_preserving_complete_wal_tail :: "unit model_op" where
  "crash_preserving_complete_wal_tail m = crash_with_complete_tail True m"

definition reopen :: "lineage_id model_op" where
  "reopen m =
     with_result (require_phase m [PhCrashed] ''reopen'') m (\<lambda>_.
     with_result (ok_or (lineage_checked_next (m_lineage_id m)) LineageExhausted) m (\<lambda>new_lineage.
     with_result (validate_selected_on_open m) m (\<lambda>_.
     with_result (case candidate_alias_context m of
         Some context \<Rightarrow> Inl (InodeAliasCandidate context) | None \<Rightarrow> Inr ()) m (\<lambda>_.
       (Inr new_lineage, m\<lparr>
          m_lineage_id := new_lineage,
          m_wal_records := map (\<lambda>r. r\<lparr>wr_lineage_id := new_lineage\<rparr>) (m_wal_records m),
          m_page_store := rebrand_pages new_lineage (m_page_store m),
          m_checkpoint_slot := map_option (rebrand_checkpoint new_lineage) (m_checkpoint_slot m),
          m_checkpoint_candidate := CpAbsent,
          m_wal_candidate := WalAbsent,
          m_locks := locks_all_recovery,
          m_phase := PhUnrecovered\<rparr>)))))"

section \<open>Selection\<close>

definition observe_minimal_metadata :: "recovery_model \<Rightarrow> minimal_metadata" where
  "observe_minimal_metadata m =
     \<lparr>mm_log_id = m_log_id m, mm_generation = m_wal_generation m\<rparr>"

definition observe_full_metadata :: "recovery_model \<Rightarrow> full_metadata option" where
  "observe_full_metadata m =
     (case m_generation_anchor m of
        None \<Rightarrow> None
      | Some required_anchor \<Rightarrow> Some
          \<lparr>fm_minimal = observe_minimal_metadata m,
           fm_format_version = m_wal_format_version m,
           fm_retained_first = first_position (durable_wal_records m),
           fm_logical_high_water = m_logical_high_water m,
           fm_epoch_high_water = m_epoch_high_water m,
           fm_required_anchor = required_anchor\<rparr>)"

definition check_pruned_selection ::
  "recovery_model \<Rightarrow> minimal_metadata \<Rightarrow> full_metadata option \<Rightarrow> model_error + unit" where
  "check_pruned_selection m minimal full_observation =
     and_then (ok_or full_observation (MissingGenerationAnchor (m_wal_generation m))) (\<lambda>full.
     and_then (ensure (mm_log_id (fm_minimal full) = m_log_id m) ForeignSourceMetadata) (\<lambda>_.
     and_then (ensure (fm_minimal full = minimal)
       (MetadataMismatch ''minimal_full_generation'')) (\<lambda>_.
     and_then (ensure (\<not> (fm_format_version full \<noteq> m_wal_format_version m
         \<or> fm_retained_first full \<noteq> first_position (durable_wal_records m)
         \<or> fm_logical_high_water full \<noteq> m_logical_high_water m
         \<or> fm_epoch_high_water full \<noteq> m_epoch_high_water m))
       (MetadataMismatch ''current_full_metadata'')) (\<lambda>_.
     and_then (ensure (fm_format_version full = generation_format_version)
       (MetadataMismatch ''pruned_format_version'')) (\<lambda>_.
     and_then (ok_or (m_generation_anchor m)
       (MissingGenerationAnchor (m_wal_generation m))) (\<lambda>gen_anchor.
     and_then (ensure (fm_required_anchor full = gen_anchor)
       (CheckpointAnchorMismatch gen_anchor (Some (fm_required_anchor full)))) (\<lambda>_.
     and_then (ok_or (m_checkpoint_slot m)
       (NoCheckpointForNonzeroGeneration (m_wal_generation m))) (\<lambda>cp.
     and_then (ensure (cp_anchor cp = gen_anchor)
       (CheckpointAnchorMismatch gen_anchor (Some (cp_anchor cp)))) (\<lambda>_.
     ensure (cp_log_id cp = m_log_id m)
       (ForeignLogId (m_log_id m) (cp_log_id cp) ''nonzero generation checkpoint''))))))))))"

definition select_observed :: "minimal_metadata \<Rightarrow> full_metadata option \<Rightarrow> unit model_op" where
  "select_observed minimal full m =
     with_result (require_phase m [PhUnrecovered] ''select_observed'') m (\<lambda>_.
     with_result (ensure (mm_log_id minimal = m_log_id m) ForeignSourceMetadata) m (\<lambda>_.
     with_result (ensure (minimal = observe_minimal_metadata m)
       (MetadataMismatch ''current_minimal_metadata'')) m (\<lambda>_.
     with_result
       (if generation_is_zero (m_wal_generation m) then
          and_then (ensure (full = None)
            (MetadataMismatch ''generation_zero_full_metadata'')) (\<lambda>_.
          (case m_checkpoint_slot m of
             None \<Rightarrow> Inr ()
           | Some checkpoint \<Rightarrow> validate_complete_prefix_checkpoint m checkpoint))
        else check_pruned_selection m minimal full) m (\<lambda>_.
     with_result
       (case m_checkpoint_slot m of
          None \<Rightarrow> Inr ()
        | Some checkpoint \<Rightarrow>
            ensure (\<not> (cp_log_id checkpoint \<noteq> m_log_id m
                \<or> cp_lineage_id checkpoint \<noteq> m_lineage_id m))
              (ForeignLogId (m_log_id m) (cp_log_id checkpoint) ''checkpoint selection'')) m (\<lambda>_.
       (Inr (), m\<lparr>m_selected_checkpoint := m_checkpoint_slot m, m_phase := PhSelected\<rparr>))))))"

definition select :: "unit model_op" where
  "select m = select_observed (observe_minimal_metadata m) (observe_full_metadata m) m"

section \<open>Replay and repair\<close>

text \<open>The inclusive (replay start) or strict (frontier) replay predicate.\<close>

definition needs_replay :: "checkpoint_snapshot option \<Rightarrow> wal_position \<Rightarrow> bool" where
  "needs_replay checkpoint p =
     (case checkpoint of
        None \<Rightarrow> True
      | Some cp \<Rightarrow>
          (case cp_replay_start cp of
             Some rs \<Rightarrow> p \<ge> rs
           | None \<Rightarrow> (case frontier_position (cp_frontier cp) of
                        Some fp \<Rightarrow> p > fp
                      | None \<Rightarrow> True)))"

definition replay_records :: "recovery_model \<Rightarrow> wal_record list" where
  "replay_records m =
     filter (\<lambda>r. needs_replay (m_selected_checkpoint m) (wr_position r)) (durable_wal_records m)"

definition plan_replay :: "nat model_op" where
  "plan_replay m =
     with_result (require_phase m [PhSelected] ''plan_replay'') m (\<lambda>_.
       let plan = replay_records m
       in (Inr (length plan), m\<lparr>m_replay_plan := Some plan, m_phase := PhReplayPlanned\<rparr>))"

text \<open>
  Installing one image during repair, with the checked count of repaired pages. A count that
  overflows is reported after the page was stored, as in the source.
\<close>

definition count_repair :: "usize \<Rightarrow> usize model_op" where
  "count_repair repaired m =
     with_result (ok_or (checked_add repaired 1) RepairCountExhausted) m (\<lambda>n. (Inr n, m))"

definition repair_checkpoint_page :: "page_id \<times> page_snapshot \<Rightarrow> usize \<Rightarrow> usize model_op" where
  "repair_checkpoint_page = (\<lambda>(pid, snap) repaired m.
     (let install = (\<lambda>_::unit. count_repair repaired (m\<lparr>m_page_store :=
            bt_insert pid (snap\<lparr>ps_lineage_id := m_lineage_id m\<rparr>) (m_page_store m)\<rparr>))
      in case bt_get (m_page_store m) pid of
           None \<Rightarrow> install ()
         | Some existing \<Rightarrow>
             if ps_written_at existing < ps_written_at snap then install ()
             else (Inr repaired, m)))"

definition has_replayed_commit :: "recovery_model \<Rightarrow> transaction_id \<Rightarrow> bool" where
  "has_replayed_commit m txn =
     list_ex (\<lambda>c. wr_kind c = TransactionCommit
       \<and> wr_transaction c = Some txn
       \<and> covered_by (m_logical_high_water m) (wr_position c)) (m_wal_records m)"

definition repair_record :: "wal_record \<Rightarrow> usize \<Rightarrow> usize model_op" where
  "repair_record r repaired m =
     with_result (ensure (wr_log_id r = m_log_id m \<and> wr_lineage_id r = m_lineage_id m)
       ForeignSourceMetadata) m (\<lambda>_.
     with_result (validate_record_shape r) m (\<lambda>_.
     with_result
       (case wr_kind r of
          RawPage \<Rightarrow> Inr True
        | TransactionPage \<Rightarrow>
            and_then (ok_or (wr_transaction r)
              (InvalidRecordShape ''TransactionPage missing transaction during repair''))
              (\<lambda>txn. Inr (has_replayed_commit m txn))
        | TransactionCommit \<Rightarrow> Inr False) m (\<lambda>should_apply.
     if \<not> should_apply then (Inr repaired, m)
     else
       with_result (ok_or (wr_page r)
         (InvalidRecordShape ''page record missing page during repair'')) m (\<lambda>page.
       with_result (ok_or (wr_page_value r)
         (InvalidRecordShape ''page record missing value during repair'')) m (\<lambda>value.
       with_result (ok_or (wr_page_version r)
         (InvalidRecordShape ''page record missing version during repair'')) m (\<lambda>version.
         let should_install = (case bt_get (m_page_store m) page of
               None \<Rightarrow> True
             | Some existing \<Rightarrow> ps_written_at existing < wr_position r)
         in if should_install
            then count_repair repaired (m\<lparr>m_page_store :=
                   bt_insert page (make_snapshot m page value (wr_position r) version)
                     (m_page_store m)\<rparr>)
            else (Inr repaired, m)))))))"

text \<open>A loop over a list whose body mutates the model and may leave with an error.\<close>

fun op_loop :: "('a \<Rightarrow> 'b \<Rightarrow> 'b model_op) \<Rightarrow> 'a list \<Rightarrow> 'b \<Rightarrow> 'b model_op" where
  "op_loop body [] b m = (Inr b, m)"
| "op_loop body (x # xs) b m =
     (case body x b m of
        (Inl e, m1) \<Rightarrow> (Inl e, m1)
      | (Inr b1, m1) \<Rightarrow> op_loop body xs b1 m1)"

definition repair_pages_inner :: "usize model_op" where
  "repair_pages_inner m =
     with_result (ok_or (m_replay_plan m)
       (InvalidPhase (m_phase m) ''repair_pages_inner (no replay plan)'')) m (\<lambda>plan.
       (case op_loop repair_checkpoint_page
               (case m_selected_checkpoint m of None \<Rightarrow> [] | Some cp \<Rightarrow> cp_pages cp) 0 m of
          (Inl e, m1) \<Rightarrow> (Inl e, m1)
        | (Inr repaired, m1) \<Rightarrow> op_loop repair_record plan repaired m1))"

definition repair_pages :: "usize model_op" where
  "repair_pages m =
     with_result (require_phase m [PhReplayPlanned] ''repair_pages'') m (\<lambda>_.
       (case repair_pages_inner m of
          (Inl e, m1) \<Rightarrow> (Inl e, m1)
        | (Inr repaired, m1) \<Rightarrow> (Inr repaired, m1\<lparr>m_phase := PhPagesRepaired\<rparr>)))"

definition repair_pages_fault :: "unit model_op" where
  "repair_pages_fault m =
     with_result (require_phase m [PhReplayPlanned] ''repair_pages_fault'') m (\<lambda>_.
       (Inl RepairFault, m))"

definition repair_pages_applied_fault ::
  "recovery_model \<Rightarrow> (usize, model_error) applied \<times> recovery_model" where
  "repair_pages_applied_fault m =
     (case require_phase m [PhReplayPlanned] ''repair_pages_applied_fault'' of
        Inl e \<Rightarrow> (Unapplied e, m)
      | Inr _ \<Rightarrow>
         (case repair_pages_inner m of
            (Inl e, m1) \<Rightarrow> (Unapplied e, m1)
          | (Inr repaired, m1) \<Rightarrow>
              (AppliedThenError repaired RepairFault, m1\<lparr>m_phase := PhPagesRepaired\<rparr>)))"

section \<open>Transaction restoration and completion\<close>

text \<open>One record of the replay plan: the transaction table and the commits seen so far.\<close>

definition restore_record ::
  "recovery_model \<Rightarrow> transaction_positions \<times> (transaction_id, wal_position) btree \<Rightarrow> wal_record
     \<Rightarrow> model_error + transaction_positions \<times> (transaction_id, wal_position) btree" where
  "restore_record m = (\<lambda>(active, committed) record.
     and_then (ensure (wr_log_id record = m_log_id m \<and> wr_lineage_id record = m_lineage_id m)
       ForeignSourceMetadata) (\<lambda>_.
     and_then (validate_record_shape record) (\<lambda>_.
     (case wr_kind record of
        TransactionPage \<Rightarrow>
          and_then (ok_or (wr_transaction record)
            (InvalidRecordShape ''TransactionPage missing transaction during restoration'')) (\<lambda>txn.
            let positions = (case bt_get active txn of None \<Rightarrow> [] | Some ps \<Rightarrow> ps);
                positions1 = (if List.member positions (wr_position record) then positions
                              else positions @ [wr_position record])
            in Inr (bt_insert txn positions1 active, committed))
      | TransactionCommit \<Rightarrow>
          and_then (ok_or (wr_transaction record)
            (InvalidRecordShape ''TransactionCommit missing transaction during restoration''))
            (\<lambda>txn. Inr (bt_remove txn active, bt_insert txn (wr_position record) committed))
      | RawPage \<Rightarrow>
          and_then (ensure (wr_transaction record = None)
            (InvalidRecordShape ''RawPage has transaction during restoration''))
            (\<lambda>_. Inr (active, committed))))))"

definition max_option :: "'a::linorder option \<Rightarrow> 'a option \<Rightarrow> 'a option" where
  "max_option x y = (case (x, y) of
     (Some a, Some b) \<Rightarrow> Some (if a > b then a else b)
   | (Some a, None) \<Rightarrow> Some a
   | (None, Some b) \<Rightarrow> Some b
   | (None, None) \<Rightarrow> None)"

definition restore_transactions :: "restoration_summary model_op" where
  "restore_transactions m =
     with_result (require_phase m [PhPagesRepaired] ''restore_transactions'') m (\<lambda>_.
       let cp_epoch_hw = Option.bind (m_selected_checkpoint m)
             (\<lambda>cp. ts_epoch_high_water (cp_transaction_summary cp));
           persisted_hw = max_option (m_epoch_high_water m) cp_epoch_hw
       in
     with_result (case persisted_hw of
         Some hw \<Rightarrow> ok_or (checked_add hw 1) EpochExhausted
       | None \<Rightarrow> Inr 1) m (\<lambda>fresh_epoch.
       let next_after_fresh = checked_add fresh_epoch 1;
           seeded = (case m_selected_checkpoint m of
               None \<Rightarrow> []
             | Some cp \<Rightarrow> foldl (\<lambda>t (tid, positions). bt_insert tid positions t) []
                 (ts_active (cp_transaction_summary cp)))
       in
     with_result (ok_or (m_replay_plan m)
       (InvalidPhase (m_phase m) ''restore_transactions (no replay plan)'')) m (\<lambda>replay.
     with_result (try_fold (restore_record m) (seeded, []) replay) m (\<lambda>(active, committed).
       let summary = \<lparr>rs_fresh_epoch = fresh_epoch, rs_active_transactions = active\<rparr>
       in (Inr summary, m\<lparr>
            m_current_epoch := Some fresh_epoch,
            m_next_epoch := next_after_fresh,
            m_next_sequence := Some 1,
            m_epoch_high_water := Some fresh_epoch,
            m_active_transactions := [],
            m_persisted_transactions := active,
            m_committed_transactions := committed,
            m_restoration_summary := Some summary,
            m_phase := PhTransactionsRestored\<rparr>)))))"

definition complete :: "unit model_op" where
  "complete m =
     with_result (require_phase m [PhTransactionsRestored] ''complete'') m (\<lambda>_.
       (Inr (), m\<lparr>
          m_completion_evidence := Some
            \<lparr>ev_frontier = m_flush_position m,
             ev_generation = m_wal_generation m,
             ev_selected_anchor = map_option cp_anchor (m_selected_checkpoint m),
             ev_epoch_high_water = m_epoch_high_water m,
             ev_stale = False,
             ev_stale_reason = None\<rparr>,
          m_locks := locks_all_live,
          m_phase := PhCompleteLive\<rparr>))"

end
