(* ===== verification/Recovery_Retention.thy ===== *)
theory Recovery_Retention
  imports Recovery_Restart
begin

text \<open>
  Retention analysis and WAL-prefix reclamation of \<open>RecoveryModel\<close>, and the duplicate check
  over untrusted transaction tables.
\<close>

section \<open>Retention analysis\<close>

text \<open>\<open>earliest.map_or(p, |e| e.min(p))\<close>.\<close>

definition min_earliest :: "wal_position option \<Rightarrow> wal_position \<Rightarrow> wal_position option" where
  "min_earliest earliest p = (case earliest of None \<Rightarrow> Some p | Some e \<Rightarrow> Some (min e p))"

definition has_record_at :: "recovery_model \<Rightarrow> wal_position \<Rightarrow> bool" where
  "has_record_at m p = list_ex (\<lambda>r. wr_position r = p) (m_wal_records m)"

definition retain_transaction ::
  "recovery_model \<Rightarrow> wal_position option \<Rightarrow> transaction_id \<times> wal_position list
     \<Rightarrow> model_error + wal_position option" where
  "retain_transaction m earliest = (\<lambda>(transaction, positions).
     (case positions of
        [] \<Rightarrow> Inr earliest
      | pos # _ \<Rightarrow>
          and_then (ok_or (find_record (m_wal_records m) pos) (RetentionBoundaryMissing pos)) (\<lambda>record.
          and_then (ensure (\<not> (wr_kind record \<noteq> TransactionPage
              \<or> wr_transaction record \<noteq> Some transaction
              \<or> wr_log_id record \<noteq> m_log_id m
              \<or> wr_lineage_id record \<noteq> m_lineage_id m))
            (InvalidRecordShape ''active transaction retention boundary is not exact'')) (\<lambda>_.
          Inr (min_earliest earliest pos)))))"

definition retain_page ::
  "recovery_model \<Rightarrow> checkpoint_snapshot \<Rightarrow> wal_position option \<Rightarrow> page_snapshot
     \<Rightarrow> model_error + wal_position option" where
  "retain_page m cp earliest snap =
     and_then (ensure (\<not> (case bt_get (cp_pages cp) (ps_page_id snap) of
           None \<Rightarrow> False
         | Some checkpoint \<Rightarrow> checkpoint \<noteq> snap \<and> ps_written_at checkpoint \<ge> ps_written_at snap))
       (PageCheckpointContradiction (ps_page_id snap))) (\<lambda>_.
     and_then (ok_or (find_record (m_wal_records m) (ps_written_at snap))
       (RetentionBoundaryMissing (ps_written_at snap))) (\<lambda>record.
     and_then (ensure (\<not> (wr_log_id record \<noteq> ps_log_id snap
         \<or> wr_lineage_id record \<noteq> ps_lineage_id snap
         \<or> wr_page record \<noteq> Some (ps_page_id snap)
         \<or> wr_page_value record \<noteq> Some (ps_value snap)
         \<or> wr_page_version record \<noteq> Some (ps_version snap)))
       (PageCheckpointContradiction (ps_page_id snap))) (\<lambda>_.
     and_then
       (if wr_kind record = TransactionPage then
          and_then (ok_or (wr_transaction record)
            (InvalidRecordShape ''retained transaction page has no owner'')) (\<lambda>transaction.
          ensure (has_replayed_commit m transaction)
            (PageUncommitted (ps_page_id snap) transaction))
        else ensure (\<not> (wr_kind record \<noteq> RawPage \<or> wr_transaction record \<noteq> None))
          (InvalidRecordShape ''page-store retention boundary has invalid record kind'')) (\<lambda>_.
     Inr (min_earliest earliest (ps_written_at snap))))))"

text \<open>The refusal of a stale completion.\<close>

definition require_fresh_completion :: "recovery_model \<Rightarrow> model_error + unit" where
  "require_fresh_completion m =
     and_then (ok_or (m_completion_evidence m) NoCompletionEvidence) (\<lambda>evidence.
     if ev_stale evidence
     then (case ev_stale_reason evidence of
             Some reason \<Rightarrow> Inl (StaleCompletionEvidence reason)
           | None \<Rightarrow> Inl (InvalidRecordShape ''stale completion evidence has no reason''))
     else Inr ())"

definition retained_floor ::
  "recovery_model \<Rightarrow> checkpoint_snapshot \<Rightarrow> model_error + wal_position option" where
  "retained_floor m cp =
     and_then
       (case frontier_position (cp_frontier cp) of
          None \<Rightarrow> Inr None
        | Some frontier \<Rightarrow>
            and_then (ensure (has_record_at m frontier) (RetentionBoundaryMissing frontier))
              (\<lambda>_. Inr (Some frontier))) (\<lambda>e1.
     and_then
       (case cp_replay_start cp of
          None \<Rightarrow> Inr e1
        | Some rs \<Rightarrow>
            and_then (ensure (has_record_at m rs) (RetentionBoundaryMissing rs))
              (\<lambda>_. Inr (min_earliest e1 rs))) (\<lambda>e2.
     and_then (try_fold (retain_transaction m) e2 (m_persisted_transactions m)) (\<lambda>e3.
     and_then (try_fold (retain_page m cp) e3 (bt_values (m_page_store m))) (\<lambda>e4.
     (case m_retained_first m of
        None \<Rightarrow> Inr e4
      | Some source_constraint \<Rightarrow>
          and_then (ensure (has_record_at m source_constraint)
            (RetentionBoundaryMissing source_constraint))
            (\<lambda>_. Inr (min_earliest e4 source_constraint)))))))"

definition analyze_retention :: "unit model_op" where
  "analyze_retention m =
     with_result (require_phase m [PhCompleteLive] ''analyze_retention'') m (\<lambda>_.
     with_result (require_fresh_completion m) m (\<lambda>_.
     with_result (ok_or (m_selected_checkpoint m) NoCheckpointForReclamation) m (\<lambda>cp.
     with_result (ensure (\<not> (cp_log_id cp \<noteq> m_log_id m \<or> cp_lineage_id cp \<noteq> m_lineage_id m))
       (ForeignLogId (m_log_id m) (cp_log_id cp) ''retention checkpoint'')) m (\<lambda>_.
     with_result (retained_floor m cp) m (\<lambda>earliest_needed.
       (Inr (), m\<lparr>
          m_retention_analysis := Some
            \<lparr>ra_retained_first = earliest_needed,
             ra_checkpoint_anchor = cp_anchor cp,
             ra_checkpoint_log_id = cp_log_id cp\<rparr>,
          m_phase := PhRetentionAnalyzed\<rparr>))))))"

section \<open>Reclamation\<close>

definition candidate_stage_measure :: "recovery_model \<Rightarrow> nat" where
  "candidate_stage_measure m =
     (case m_wal_candidate m of WalAbsent \<Rightarrow> 0 | WalPresent _ s _ \<Rightarrow> 10 - stage_index s)"

lemma advance_wal_candidate_measure:
  assumes "advance_wal_candidate m = (Inr stage, m')" and "stage \<noteq> AfterDirectorySync"
  shows "candidate_stage_measure m' < candidate_stage_measure m"
  using assms
  by (auto simp: advance_wal_candidate_def candidate_stage_measure_def with_result_Inr_iff Let_def
        simp del: diff_Suc_numeral
        dest: stage_next_decreases split: wal_candidate_state.splits if_splits)

text \<open>The loop that drives the candidate through its remaining stages.\<close>

function advance_to_completion :: "unit model_op" where
  "advance_to_completion m =
     (case advance_wal_candidate m of
        (Inr stage, m1) \<Rightarrow>
          if stage = AfterDirectorySync then (Inr (), m1) else advance_to_completion m1
      | (Inl e, m1) \<Rightarrow> if e = ReplacementComplete then (Inr (), m1) else (Inl e, m1))"
  by pat_completeness auto
termination
  by (relation "measure candidate_stage_measure") (auto intro: advance_wal_candidate_measure [OF sym])

declare advance_to_completion.simps [simp del]

definition retained_suffix_of :: "recovery_model \<Rightarrow> wal_position option \<Rightarrow> wal_record list" where
  "retained_suffix_of m retained_first =
     (case retained_first of
        Some rf \<Rightarrow> filter (\<lambda>r. wr_position r \<ge> rf) (m_wal_records m)
      | None \<Rightarrow> [])"

definition reclaim :: "generation model_op" where
  "reclaim m =
     with_result (require_phase m [PhRetentionAnalyzed] ''reclaim'') m (\<lambda>_.
     with_result (ensure (\<not> (last_position (m_wal_records m) \<noteq> m_flush_position m
         \<and> m_wal_records m \<noteq> []))
       VolatileSuffixPresent) m (\<lambda>_.
     with_result (ok_or (m_retention_analysis m) NoRetentionAnalysis) m (\<lambda>analysis.
     with_result (ok_or (generation_checked_next (m_wal_generation m)) GenerationExhausted) m
       (\<lambda>new_gen.
     with_result (ok_or (m_selected_checkpoint m) NoCheckpointForReclamation) m (\<lambda>cp.
     with_result (ensure (\<not> (cp_log_id cp \<noteq> m_log_id m
         \<or> cp_log_id cp \<noteq> ra_checkpoint_log_id analysis))
       (ForeignLogId (m_log_id m) (cp_log_id cp) ''reclamation checkpoint'')) m (\<lambda>_.
     with_result (ensure (cp_anchor cp = ra_checkpoint_anchor analysis)
       (CheckpointAnchorMismatch (ra_checkpoint_anchor analysis) (Some (cp_anchor cp)))) m (\<lambda>_.
     let retained_suffix = retained_suffix_of m (ra_retained_first analysis) in
     with_result
       (if first_position retained_suffix \<noteq> ra_retained_first analysis
        then (case ra_retained_first analysis of
                Some position \<Rightarrow> Inl (RetentionBoundaryMissing position)
              | None \<Rightarrow> Inr ())
        else Inr ()) m (\<lambda>_.
     with_result (ensure (m_wal_candidate m = WalAbsent) NoPendingCandidate) m (\<lambda>_.
     (case begin_wal_candidate
         \<lparr>wp_target_generation = new_gen,
          wp_anchor = ra_checkpoint_anchor analysis,
          wp_retained_suffix = retained_suffix,
          wp_retained_first = ra_retained_first analysis,
          wp_format_version = generation_format_version,
          wp_logical_high_water = m_logical_high_water m,
          wp_epoch_high_water = m_epoch_high_water m\<rparr> m of
        (Inl e, m1) \<Rightarrow> (Inl e, m1)
      | (Inr _, m1) \<Rightarrow>
          (case advance_to_completion (m1\<lparr>m_retention_analysis := None\<rparr>) of
             (Inl e, m2) \<Rightarrow> (Inl e, m2)
           | (Inr _, m2) \<Rightarrow> (Inr new_gen, m2\<lparr>m_phase := PhReclaimed\<rparr>))))))))))))"

section \<open>Duplicate transaction rows\<close>

record untrusted_transaction_entry =
  ut_id :: transaction_id
  ut_data :: u64

fun find_duplicate_loop ::
  "(transaction_id, u64) btree \<Rightarrow> untrusted_transaction_entry list \<Rightarrow> transaction_id option" where
  "find_duplicate_loop seen [] = None"
| "find_duplicate_loop seen (entry # entries) =
     (if bt_contains_key seen (ut_id entry) then Some (ut_id entry)
      else find_duplicate_loop (bt_insert (ut_id entry) (ut_data entry) seen) entries)"

definition find_duplicate_in_untrusted_transaction_table ::
  "untrusted_transaction_entry list \<Rightarrow> transaction_id option" where
  "find_duplicate_in_untrusted_transaction_table entries = find_duplicate_loop [] entries"

end
