(* ===== verification/Recovery_Invariant.thy ===== *)
theory Recovery_Invariant
  imports Recovery_Retention
begin

text \<open>
  The invariant of \<open>RecoveryModel\<close> and its preservation by every operation, on success and on
  error. It says that the WAL is strictly ordered, branded and below the position allocator;
  that transaction identities are never reused and a commit follows its pages; that every stored
  page is the image of a durable applied record; and that a checkpoint's frontier and replay
  start cover what the store lacks.
\<close>

section \<open>Applied records\<close>

text \<open>
  A page record takes effect when it is durable and either raw or owned by a transaction with a
  durable commit.
\<close>

definition record_applied :: "wal_record list \<Rightarrow> wal_position option \<Rightarrow> wal_record \<Rightarrow> bool" where
  "record_applied recs flush r =
     (covered_by flush (wr_position r) \<and>
      (wr_kind r = RawPage \<or> wr_kind r = TransactionPage \<and>
        (\<exists>c \<in> set recs. wr_kind c = TransactionCommit \<and> wr_transaction c = wr_transaction r
           \<and> covered_by flush (wr_position c))))"

definition page_backed ::
  "wal_record list \<Rightarrow> wal_position option \<Rightarrow> page_id \<Rightarrow> page_snapshot \<Rightarrow> bool" where
  "page_backed recs flush p s =
     (\<exists>r \<in> set recs. record_applied recs flush r \<and> wr_page r = Some p
        \<and> wr_position r = ps_written_at s \<and> wr_page_value r = Some (ps_value s)
        \<and> wr_page_version r = Some (ps_version s))"

definition store_reaches :: "(page_id, page_snapshot) btree \<Rightarrow> page_id \<Rightarrow> wal_position \<Rightarrow> bool" where
  "store_reaches store p pos = (\<exists>s. bt_get store p = Some s \<and> pos \<le> ps_written_at s)"

definition store_le :: "(page_id, page_snapshot) btree \<Rightarrow> (page_id, page_snapshot) btree \<Rightarrow> bool" where
  "store_le a b = (\<forall>p s. bt_get a p = Some s \<longrightarrow> store_reaches b p (ps_written_at s))"

lemma covered_by_mono: "covered_by f p \<Longrightarrow> f \<le> f' \<Longrightarrow> covered_by f' p"
  unfolding covered_by_iff by (rule order_trans)

lemma covered_by_le: "covered_by f p \<Longrightarrow> q \<le> p \<Longrightarrow> covered_by f q"
  by (cases f) auto

lemma record_applied_mono:
  "record_applied recs f r \<Longrightarrow> set recs \<subseteq> set recs' \<Longrightarrow> f \<le> f' \<Longrightarrow> record_applied recs' f' r"
  unfolding record_applied_def by (blast intro: covered_by_mono)

lemma page_backed_mono:
  "page_backed recs f p s \<Longrightarrow> set recs \<subseteq> set recs' \<Longrightarrow> f \<le> f' \<Longrightarrow> page_backed recs' f' p s"
  unfolding page_backed_def by (blast intro: record_applied_mono)

lemma page_backed_append: "page_backed recs f p s \<Longrightarrow> page_backed (recs @ [x]) f p s"
  by (rule page_backed_mono) auto

lemma record_applied_append:
  "\<not> covered_by f (wr_position x) \<Longrightarrow> record_applied (recs @ [x]) f r = record_applied recs f r"
  unfolding record_applied_def by auto

lemma record_applied_retain:
  assumes "\<And>c. c \<in> set recs \<Longrightarrow> covered_by f (wr_position c) \<Longrightarrow> c \<in> set recs'"
    and "set recs' \<subseteq> set recs"
  shows "record_applied recs' f r = record_applied recs f r"
  using assms unfolding record_applied_def by blast

lemma record_applied_map:
  assumes "\<And>r. wr_position (g r) = wr_position r" and "\<And>r. wr_kind (g r) = wr_kind r"
    and "\<And>r. wr_transaction (g r) = wr_transaction r"
  shows "record_applied (map g recs) f (g r) = record_applied recs f r"
  using assms unfolding record_applied_def by simp

lemma page_backed_retain:
  assumes "\<And>c. c \<in> set recs \<Longrightarrow> covered_by f (wr_position c) \<Longrightarrow> c \<in> set recs'"
    and "set recs' \<subseteq> set recs"
  shows "page_backed recs' f p s = page_backed recs f p s"
  using assms record_applied_retain [OF assms]
  unfolding page_backed_def record_applied_def by blast

lemma store_le_refl: "store_le a a"
  by (auto simp: store_le_def store_reaches_def)

lemma store_reaches_mono: "store_reaches a p q \<Longrightarrow> store_le a b \<Longrightarrow> store_reaches b p q"
  unfolding store_le_def store_reaches_def by (meson order_trans)

lemma store_le_trans: "store_le a b \<Longrightarrow> store_le b c \<Longrightarrow> store_le a c"
  by (simp add: store_le_def [of a]) (blast intro: store_reaches_mono)

lemma store_le_insert:
  assumes "\<And>s. bt_get store p = Some s \<Longrightarrow> ps_written_at s \<le> ps_written_at x"
  shows "store_le store (bt_insert p x store)"
  using assms by (auto simp: store_le_def store_reaches_def)

lemma bt_get_rebrand:
  "bt_get (rebrand_pages l store) p = map_option (\<lambda>s. s\<lparr>ps_lineage_id := l\<rparr>) (bt_get store p)"
  by (simp add: rebrand_pages_def)

lemma store_reaches_rebrand [simp]: "store_reaches (rebrand_pages l store) p q = store_reaches store p q"
  by (cases "bt_get store p") (auto simp: store_reaches_def bt_get_rebrand)

section \<open>The invariant\<close>

definition below_next :: "recovery_model \<Rightarrow> wal_position \<Rightarrow> bool" where
  "below_next m p = (\<forall>n. m_next_position m = Some n \<longrightarrow> p < WalPosition n)"

definition wal_inv :: "recovery_model \<Rightarrow> bool" where
  "wal_inv m \<longleftrightarrow>
     sorted_wrt (<) (map wr_position (m_wal_records m))
   \<and> (\<forall>r \<in> set (m_wal_records m). wr_log_id r = m_log_id m \<and> wr_lineage_id r = m_lineage_id m
        \<and> record_shape_valid r \<and> below_next m (wr_position r))
   \<and> m_logical_high_water m = m_flush_position m
   \<and> (\<forall>fp. m_flush_position m = Some fp \<longrightarrow> below_next m fp
        \<and> ((\<exists>r \<in> set (m_wal_records m). wr_position r = fp)
           \<or> (\<forall>r \<in> set (m_wal_records m). fp < wr_position r)))"

definition id_spent :: "recovery_model \<Rightarrow> transaction_id \<Rightarrow> bool" where
  "id_spent m t \<longleftrightarrow>
     Some (txn_epoch t) \<le> m_epoch_high_water m
   \<and> (\<forall>e. m_current_epoch m = Some e \<longrightarrow> txn_epoch t \<le> e
        \<and> (txn_epoch t = e \<longrightarrow> (\<forall>s. m_next_sequence m = Some s \<longrightarrow> txn_sequence t < s)))"

definition txn_inv :: "recovery_model \<Rightarrow> bool" where
  "txn_inv m \<longleftrightarrow>
     (\<forall>n h. m_next_epoch m = Some n \<longrightarrow> m_epoch_high_water m = Some h \<longrightarrow> h < n)
   \<and> (\<forall>e. m_current_epoch m = Some e \<longrightarrow> Some e \<le> m_epoch_high_water m)
   \<and> (\<forall>r \<in> set (m_wal_records m). \<forall>t. wr_transaction r = Some t \<longrightarrow> id_spent m t)
   \<and> (\<forall>t. bt_contains_key (m_active_transactions m) t \<longrightarrow> id_spent m t
        \<and> (\<forall>c \<in> set (m_wal_records m). wr_kind c = TransactionCommit \<longrightarrow> wr_transaction c \<noteq> Some t))
   \<and> (\<forall>r \<in> set (m_wal_records m). \<forall>c \<in> set (m_wal_records m).
        wr_kind r = TransactionPage \<longrightarrow> wr_kind c = TransactionCommit \<longrightarrow>
        wr_transaction c = wr_transaction r \<longrightarrow> wr_position r < wr_position c)"

definition store_inv :: "recovery_model \<Rightarrow> bool" where
  "store_inv m \<longleftrightarrow>
     bt_wf (m_page_store m)
   \<and> (\<forall>p s. bt_get (m_page_store m) p = Some s \<longrightarrow>
        ps_page_id s = p \<and> ps_log_id s = m_log_id m \<and> ps_lineage_id s = m_lineage_id m
      \<and> page_backed (m_wal_records m) (m_flush_position m) p s)"

definition page_kind :: "wal_record_kind \<Rightarrow> bool" where
  "page_kind k = (k = TransactionPage \<or> k = RawPage)"

definition checkpoint_inv :: "recovery_model \<Rightarrow> checkpoint_snapshot \<Rightarrow> bool" where
  "checkpoint_inv m cp \<longleftrightarrow>
     cp_log_id cp = m_log_id m \<and> cp_lineage_id cp = m_lineage_id m
   \<and> frontier_position (cp_frontier cp) \<le> m_flush_position m
   \<and> (\<forall>rs. cp_replay_start cp = Some rs \<longrightarrow> covered_by (m_flush_position m) rs)
   \<and> bt_wf (cp_pages cp) \<and> store_le (cp_pages cp) (m_page_store m)
   \<and> (\<forall>r \<in> set (m_wal_records m). \<forall>p. wr_page r = Some p \<longrightarrow> page_kind (wr_kind r) \<longrightarrow>
        \<not> needs_replay (Some cp) (wr_position r) \<longrightarrow>
        store_reaches (m_page_store m) p (wr_position r))"

lemma replay_not_needed_durable:
  assumes "checkpoint_inv m cp" and "\<not> needs_replay (Some cp) p"
  shows "covered_by (m_flush_position m) p"
proof (cases "cp_replay_start cp")
  case (Some rs)
  with assms have "covered_by (m_flush_position m) rs" "p \<le> rs"
    by (auto simp: checkpoint_inv_def needs_replay_def)
  then show ?thesis by (rule covered_by_le)
next
  case None
  with assms(2) have "covered_by (frontier_position (cp_frontier cp)) p"
    by (auto simp: needs_replay_def split: option.splits)
  with assms(1) show ?thesis by (auto simp: checkpoint_inv_def intro: covered_by_mono)
qed

definition checkpoints_inv :: "recovery_model \<Rightarrow> bool" where
  "checkpoints_inv m \<longleftrightarrow>
     (\<forall>cp. m_checkpoint_slot m = Some cp \<longrightarrow> checkpoint_inv m cp)
   \<and> (\<forall>cp. m_selected_checkpoint m = Some cp \<longrightarrow> checkpoint_inv m cp)"

text \<open>The store holds, for every applied record, that record's image or a later one.\<close>

definition store_complete :: "recovery_model \<Rightarrow> bool" where
  "store_complete m \<longleftrightarrow>
     (\<forall>r \<in> set (m_wal_records m). \<forall>p. wr_page r = Some p \<longrightarrow>
        record_applied (m_wal_records m) (m_flush_position m) r \<longrightarrow>
        store_reaches (m_page_store m) p (wr_position r))"

definition recovery_inv :: "recovery_model \<Rightarrow> bool" where
  "recovery_inv m \<longleftrightarrow>
     (m_phase m \<in> {PhReplayPlanned, PhPagesRepaired} \<longrightarrow>
        m_replay_plan m = Some (replay_records m))
   \<and> (m_phase m \<in> {PhPagesRepaired, PhTransactionsRestored} \<longrightarrow> store_complete m)
   \<and> (m_phase m \<in> {PhCompleteLive, PhRetentionAnalyzed} \<longrightarrow>
        (\<forall>ev. m_completion_evidence m = Some ev \<longrightarrow> \<not> ev_stale ev \<longrightarrow>
          ev_frontier ev \<le> m_flush_position m
        \<and> (ev_frontier ev = m_flush_position m \<longrightarrow> store_complete m)))
   \<and> (m_phase m = PhCrashed \<longrightarrow> m_selected_checkpoint m = None)
   \<and> (m_phase m = PhRetentionAnalyzed \<longrightarrow>
        (\<forall>ra. m_retention_analysis m = Some ra \<longrightarrow>
          (\<forall>p s. bt_get (m_page_store m) p = Some s \<longrightarrow>
             (\<exists>rf. ra_retained_first ra = Some rf \<and> rf \<le> ps_written_at s))))"

text \<open>
  What a WAL replacement must keep before the rename may install it: a durable subsequence of the
  records, ending at the flush frontier, that still backs every stored page. A pending replacement
  may be anything; what is invariant of it is only when there can be one.
\<close>

definition retains :: "recovery_model \<Rightarrow> wal_record list \<Rightarrow> bool" where
  "retains m recs \<longleftrightarrow>
     set recs \<subseteq> set (m_wal_records m)
   \<and> sorted_wrt (<) (map wr_position recs)
   \<and> (\<forall>r \<in> set recs. covered_by (m_flush_position m) (wr_position r))
   \<and> (recs \<noteq> [] \<longrightarrow> last_position recs = m_flush_position m)
   \<and> (\<forall>p s. bt_get (m_page_store m) p = Some s \<longrightarrow> page_backed recs (m_flush_position m) p s)"

definition replacement_ok :: "recovery_model \<Rightarrow> wal_replacement \<Rightarrow> bool" where
  "replacement_ok m w \<longleftrightarrow>
     wp_logical_high_water w = m_flush_position m
   \<and> wp_epoch_high_water w = m_epoch_high_water m
   \<and> retains m (wp_retained_suffix w)"

definition candidate_inv :: "recovery_model \<Rightarrow> bool" where
  "candidate_inv m \<longleftrightarrow>
     (\<forall>w stage e. m_wal_candidate m = WalPresent w stage e \<longrightarrow>
        m_phase m \<in> {PhRetentionAnalyzed, PhCrashed})"

definition model_inv :: "recovery_model \<Rightarrow> bool" where
  "model_inv m \<longleftrightarrow>
     wal_inv m \<and> txn_inv m \<and> store_inv m \<and> checkpoints_inv m \<and> recovery_inv m \<and> candidate_inv m"

lemmas model_inv_defs = model_inv_def wal_inv_def txn_inv_def store_inv_def checkpoints_inv_def
  recovery_inv_def candidate_inv_def

lemma model_invD:
  assumes "model_inv m"
  shows "wal_inv m" "txn_inv m" "store_inv m" "checkpoints_inv m" "recovery_inv m"
    "candidate_inv m"
  using assms by (simp_all add: model_inv_def)

section \<open>Frames\<close>

text \<open>
  The parts of the invariant look only at some fields. Two states that agree on them satisfy
  the same parts.
\<close>

definition same_core :: "recovery_model \<Rightarrow> recovery_model \<Rightarrow> bool" where
  "same_core m m' \<longleftrightarrow>
     m_log_id m' = m_log_id m \<and> m_lineage_id m' = m_lineage_id m
   \<and> m_wal_records m' = m_wal_records m \<and> m_flush_position m' = m_flush_position m
   \<and> m_logical_high_water m' = m_logical_high_water m
   \<and> m_next_position m' = m_next_position m
   \<and> m_page_store m' = m_page_store m"

lemma same_core_wal: "same_core m m' \<Longrightarrow> wal_inv m' = wal_inv m"
  by (simp add: same_core_def wal_inv_def below_next_def)

lemma same_core_store: "same_core m m' \<Longrightarrow> store_inv m' = store_inv m"
  by (simp add: same_core_def store_inv_def)

lemma same_core_checkpoint: "same_core m m' \<Longrightarrow> checkpoint_inv m' cp = checkpoint_inv m cp"
  by (simp add: same_core_def checkpoint_inv_def)

lemma same_core_complete: "same_core m m' \<Longrightarrow> store_complete m' = store_complete m"
  by (simp add: same_core_def store_complete_def)

lemma same_core_checkpoints:
  assumes "same_core m m'"
    and "m_checkpoint_slot m' = m_checkpoint_slot m"
    and "m_selected_checkpoint m' = m_selected_checkpoint m"
  shows "checkpoints_inv m' = checkpoints_inv m"
  using assms by (simp add: checkpoints_inv_def same_core_checkpoint [OF assms(1)])

definition same_txn :: "recovery_model \<Rightarrow> recovery_model \<Rightarrow> bool" where
  "same_txn m m' \<longleftrightarrow>
     m_wal_records m' = m_wal_records m \<and> m_next_epoch m' = m_next_epoch m
   \<and> m_epoch_high_water m' = m_epoch_high_water m \<and> m_current_epoch m' = m_current_epoch m
   \<and> m_next_sequence m' = m_next_sequence m
   \<and> m_active_transactions m' = m_active_transactions m"

lemma same_txn_inv: "same_txn m m' \<Longrightarrow> txn_inv m' = txn_inv m"
  by (simp add: same_txn_def txn_inv_def id_spent_def)

text \<open>\<open>mark_completion_stale\<close> changes the evidence only, and only towards stale.\<close>

lemma mark_stale_fields [simp]:
  "m_log_id (mark_completion_stale why m) = m_log_id m"
  "m_lineage_id (mark_completion_stale why m) = m_lineage_id m"
  "m_phase (mark_completion_stale why m) = m_phase m"
  "m_wal_records (mark_completion_stale why m) = m_wal_records m"
  "m_flush_position (mark_completion_stale why m) = m_flush_position m"
  "m_next_position (mark_completion_stale why m) = m_next_position m"
  "m_logical_high_water (mark_completion_stale why m) = m_logical_high_water m"
  "m_current_epoch (mark_completion_stale why m) = m_current_epoch m"
  "m_next_epoch (mark_completion_stale why m) = m_next_epoch m"
  "m_next_sequence (mark_completion_stale why m) = m_next_sequence m"
  "m_epoch_high_water (mark_completion_stale why m) = m_epoch_high_water m"
  "m_active_transactions (mark_completion_stale why m) = m_active_transactions m"
  "m_persisted_transactions (mark_completion_stale why m) = m_persisted_transactions m"
  "m_committed_transactions (mark_completion_stale why m) = m_committed_transactions m"
  "m_page_store (mark_completion_stale why m) = m_page_store m"
  "m_checkpoint_slot (mark_completion_stale why m) = m_checkpoint_slot m"
  "m_selected_checkpoint (mark_completion_stale why m) = m_selected_checkpoint m"
  "m_checkpoint_candidate (mark_completion_stale why m) = m_checkpoint_candidate m"
  "m_replay_plan (mark_completion_stale why m) = m_replay_plan m"
  "m_retention_analysis (mark_completion_stale why m) = m_retention_analysis m"
  "m_wal_candidate (mark_completion_stale why m) = m_wal_candidate m"
  "m_wal_generation (mark_completion_stale why m) = m_wal_generation m"
  by (simp_all add: mark_completion_stale_def split: option.splits)

lemma mark_stale_evidence:
  "m_completion_evidence (mark_completion_stale why m) = Some ev \<Longrightarrow> ev_stale ev"
  by (auto simp: mark_completion_stale_def split: option.splits)

lemma live_phase_iff [simp]:
  "require_live_or_complete m op = Inr u \<longleftrightarrow> m_phase m = PhLive \<or> m_phase m = PhCompleteLive"
  by (auto simp: require_live_or_complete_def require_phase_def)

lemma live_result:
  "require_live_or_complete m op =
     (if m_phase m = PhLive \<or> m_phase m = PhCompleteLive then Inr ()
      else Inl (InvalidPhase (m_phase m) op))"
  by (simp add: require_live_or_complete_def require_phase_def)

lemma require_phase_iff [simp]: "require_phase m ps op = Inr u \<longleftrightarrow> m_phase m \<in> set ps"
  by (simp add: require_phase_def)

lemma validate_record_shape_iff [simp]:
  "validate_record_shape r = Inr u \<longleftrightarrow> record_shape_valid r"
  by (simp add: validate_record_shape_def)

text \<open>
  Every successful live operation but \<open>flush_wal\<close> leaves stale evidence behind, so the
  completion clause of the invariant holds vacuously after it.
\<close>

lemma recovery_inv_after_live:
  assumes "m_phase m' = PhLive \<or> m_phase m' = PhCompleteLive"
    and "\<And>ev. m_completion_evidence m' = Some ev \<Longrightarrow> ev_stale ev"
  shows "recovery_inv m'"
  using assms by (auto simp: recovery_inv_def)

lemma candidate_inv_absent: "m_wal_candidate m = WalAbsent \<Longrightarrow> candidate_inv m"
  by (simp add: candidate_inv_def)

lemma candidate_absent:
  "candidate_inv m \<Longrightarrow> m_phase m \<noteq> PhRetentionAnalyzed \<Longrightarrow> m_phase m \<noteq> PhCrashed \<Longrightarrow>
    m_wal_candidate m = WalAbsent"
  by (cases "m_wal_candidate m") (auto simp: candidate_inv_def)

lemma candidate_inv_live:
  assumes "candidate_inv m" and "m_phase m = PhLive \<or> m_phase m = PhCompleteLive"
    and "m_wal_candidate m' = m_wal_candidate m"
  shows "candidate_inv m'"
  using assms candidate_absent [OF assms(1)] by (auto intro: candidate_inv_absent)

end
