(* ===== verification/Recovery_Live_Preserves.thy ===== *)
theory Recovery_Live_Preserves
  imports Recovery_Invariant
begin

text \<open>
  Every live operation preserves the invariant: epoch and transaction allocation, the three
  appends, the flush, the page-store write and the checkpoint operations.
\<close>

section \<open>Position allocation\<close>

lemma allocate_position_ok:
  assumes "allocate_position m = (Inr p, m1)"
  obtains v where "m_next_position m = Some v" and "p = WalPosition v" and "v \<noteq> 0"
    and "m1 = m\<lparr>m_next_position := checked_add v 1\<rparr>"
  using assms
  by (auto simp: allocate_position_def with_result_Inr_iff Let_def wal_position_new_def
        split: if_splits)

lemma allocate_position_err:
  assumes "allocate_position m = (Inl e, m1)"
  shows "m1 = m \<or> (\<exists>v. m_next_position m = Some v \<and> m1 = m\<lparr>m_next_position := checked_add v 1\<rparr>)"
  using assms
  by (auto simp: allocate_position_def with_result_Inl_iff Let_def wal_position_new_def
        split: if_splits)

lemma below_next_advance:
  assumes "m_next_position m = Some v" and "below_next m p"
  shows "below_next (m\<lparr>m_next_position := checked_add v 1\<rparr>) p"
  using assms checked_add_one_less(1) [of v]
  by (cases p) (auto simp: below_next_def intro: less_trans)

lemma below_next_allocated:
  "m_next_position m = Some v \<Longrightarrow> below_next (m\<lparr>m_next_position := checked_add v 1\<rparr>) (WalPosition v)"
  by (auto simp: below_next_def dest: checked_add_one_less(1))

lemma allocated_uncovered:
  assumes "wal_inv m" and "m_next_position m = Some v"
  shows "\<not> covered_by (m_flush_position m) (WalPosition v)"
  using assms by (cases "m_flush_position m") (auto simp: wal_inv_def below_next_def)

lemma skip_position_inv:
  assumes "model_inv m" and "m_next_position m = Some v"
  shows "model_inv (m\<lparr>m_next_position := checked_add v 1\<rparr>)"
proof -
  let ?m = "m\<lparr>m_next_position := checked_add v 1\<rparr>"
  have "wal_inv ?m"
    using assms below_next_advance [OF assms(2)] by (auto simp: model_inv_def wal_inv_def)
  moreover have "checkpoint_inv ?m cp = checkpoint_inv m cp" for cp
    by (simp add: checkpoint_inv_def)
  ultimately show ?thesis
    using assms(1)
    by (simp add: model_inv_def txn_inv_def id_spent_def store_inv_def checkpoints_inv_def
        recovery_inv_def store_complete_def replay_records_def durable_wal_records_def
        candidate_inv_def replacement_ok_def retains_def)
qed

lemma allocate_position_inv:
  "allocate_position m = (r, m1) \<Longrightarrow> model_inv m \<Longrightarrow> model_inv m1"
  by (cases r) (auto dest!: allocate_position_err intro: skip_position_inv
      elim!: allocate_position_ok)

section \<open>Appends\<close>

text \<open>A record at a fresh position is not durable, so it changes nothing that is applied.\<close>

lemma append_record_wal:
  assumes "wal_inv m" and "m_next_position m = Some v" and "m_next_position m' = checked_add v 1"
    and "m_log_id m' = m_log_id m" and "m_lineage_id m' = m_lineage_id m"
    and "m_flush_position m' = m_flush_position m"
    and "m_logical_high_water m' = m_logical_high_water m"
    and "m_wal_records m' = m_wal_records m @ [r]"
    and "wr_position r = WalPosition v" and "wr_log_id r = m_log_id m"
    and "wr_lineage_id r = m_lineage_id m" and "record_shape_valid r"
  shows "wal_inv m'"
proof -
  have below: "below_next m' p" if "below_next m p" for p
    using below_next_advance [OF assms(2) that] assms(3) by (simp add: below_next_def)
  have new: "below_next m' (WalPosition v)"
    using below_next_allocated [OF assms(2)] assms(3) by (simp add: below_next_def)
  have old: "wr_position x < WalPosition v" if "x \<in> set (m_wal_records m)" for x
    using assms(1,2) that by (auto simp: wal_inv_def below_next_def)
  have fresh: "fp < WalPosition v" if "m_flush_position m = Some fp" for fp
    using assms(1,2) that by (auto simp: wal_inv_def below_next_def)
  show ?thesis
    using assms below new old fresh unfolding wal_inv_def by (auto simp: sorted_wrt_append)
qed

lemma append_record_store:
  assumes "wal_inv m" and "store_inv m" and "m_next_position m = Some v"
    and "m_log_id m' = m_log_id m" and "m_lineage_id m' = m_lineage_id m"
    and "m_flush_position m' = m_flush_position m" and "m_page_store m' = m_page_store m"
    and "m_wal_records m' = m_wal_records m @ [r]" and "wr_position r = WalPosition v"
  shows "store_inv m'"
  using assms by (auto simp: store_inv_def intro: page_backed_append)

lemma append_record_checkpoint:
  assumes "wal_inv m" and "checkpoint_inv m cp" and "m_next_position m = Some v"
    and "m_log_id m' = m_log_id m" and "m_lineage_id m' = m_lineage_id m"
    and "m_flush_position m' = m_flush_position m" and "m_page_store m' = m_page_store m"
    and "m_wal_records m' = m_wal_records m @ [r]" and "wr_position r = WalPosition v"
  shows "checkpoint_inv m' cp"
proof -
  have "needs_replay (Some cp) (WalPosition v)"
    using allocated_uncovered [OF assms(1,3)] replay_not_needed_durable [OF assms(2)] by blast
  with assms(2,4-9) show ?thesis by (auto simp: checkpoint_inv_def)
qed

lemma append_record_checkpoints:
  assumes "wal_inv m" and "checkpoints_inv m" and "m_next_position m = Some v"
    and "m_log_id m' = m_log_id m" and "m_lineage_id m' = m_lineage_id m"
    and "m_flush_position m' = m_flush_position m" and "m_page_store m' = m_page_store m"
    and "m_wal_records m' = m_wal_records m @ [r]" and "wr_position r = WalPosition v"
    and "m_checkpoint_slot m' = m_checkpoint_slot m"
    and "m_selected_checkpoint m' = m_selected_checkpoint m"
  shows "checkpoints_inv m'"
  using assms(2,10-) append_record_checkpoint [OF assms(1) _ assms(3-9)]
  by (simp add: checkpoints_inv_def)

text \<open>
  What an append may do: nothing, consume a position without appending, or append one record at
  the next position.
\<close>

definition raw_page_record :: "recovery_model \<Rightarrow> u64 \<Rightarrow> page_id \<Rightarrow> u64 \<Rightarrow> page_version \<Rightarrow> wal_record" where
  "raw_page_record m v page pv ver =
     \<lparr>wr_log_id = m_log_id m, wr_lineage_id = m_lineage_id m, wr_position = WalPosition v,
      wr_kind = RawPage, wr_transaction = None, wr_page = Some page, wr_page_value = Some pv,
      wr_page_version = Some ver\<rparr>"

definition txn_page_record ::
  "recovery_model \<Rightarrow> u64 \<Rightarrow> transaction_id \<Rightarrow> page_id \<Rightarrow> u64 \<Rightarrow> page_version \<Rightarrow> wal_record" where
  "txn_page_record m v txn page pv ver =
     \<lparr>wr_log_id = m_log_id m, wr_lineage_id = m_lineage_id m, wr_position = WalPosition v,
      wr_kind = TransactionPage, wr_transaction = Some txn, wr_page = Some page,
      wr_page_value = Some pv, wr_page_version = Some ver\<rparr>"

definition commit_record :: "recovery_model \<Rightarrow> u64 \<Rightarrow> transaction_id \<Rightarrow> wal_record" where
  "commit_record m v txn =
     \<lparr>wr_log_id = m_log_id m, wr_lineage_id = m_lineage_id m, wr_position = WalPosition v,
      wr_kind = TransactionCommit, wr_transaction = Some txn, wr_page = None,
      wr_page_value = None, wr_page_version = None\<rparr>"

lemma append_raw_page_eq:
  "append_raw_page page pv ver m =
     (if \<not> (m_phase m = PhLive \<or> m_phase m = PhCompleteLive)
      then (Inl (InvalidPhase (m_phase m) ''append_raw_page''), m)
      else case m_next_position m of
        None \<Rightarrow> (Inl PositionExhausted, m)
      | Some v \<Rightarrow>
          if v = 0 then (Inl PositionExhausted, m\<lparr>m_next_position := checked_add v 1\<rparr>)
          else (Inr (WalPosition v), mark_completion_stale ''raw page appended''
            (push_record (raw_page_record m v page pv ver)
               (m\<lparr>m_next_position := checked_add v 1\<rparr>))))"
  by (simp add: append_raw_page_def live_result allocate_position_def raw_page_record_def
      wal_position_new_def Let_def split: option.split)

lemma append_transaction_page_eq:
  "append_transaction_page txn page pv ver m =
     (if \<not> (m_phase m = PhLive \<or> m_phase m = PhCompleteLive)
      then (Inl (InvalidPhase (m_phase m) ''append_txn_page''), m)
      else case bt_get (m_active_transactions m) txn of
        None \<Rightarrow> (Inl (TransactionNotFound txn), m)
      | Some positions \<Rightarrow>
         (case m_next_position m of
            None \<Rightarrow> (Inl PositionExhausted, m)
          | Some v \<Rightarrow>
              if v = 0 then (Inl PositionExhausted, m\<lparr>m_next_position := checked_add v 1\<rparr>)
              else (Inr (WalPosition v), mark_completion_stale ''page appended''
                ((push_record (txn_page_record m v txn page pv ver)
                   (m\<lparr>m_next_position := checked_add v 1\<rparr>))\<lparr>m_active_transactions :=
                     bt_insert txn (positions @ [WalPosition v]) (m_active_transactions m)\<rparr>))))"
  by (simp add: append_transaction_page_def live_result allocate_position_def
      txn_page_record_def wal_position_new_def Let_def push_record_def bt_contains_key_def
      split: option.split)

lemma append_transaction_commit_eq:
  "append_transaction_commit txn m =
     (if \<not> (m_phase m = PhLive \<or> m_phase m = PhCompleteLive)
      then (Inl (InvalidPhase (m_phase m) ''append_commit''), m)
      else if \<not> bt_contains_key (m_active_transactions m) txn
      then (Inl (TransactionNotFound txn), m)
      else if bt_contains_key (m_committed_transactions m) txn
      then (Inl (TransactionAlreadyCommitted txn), m)
      else case m_next_position m of
        None \<Rightarrow> (Inl PositionExhausted, m)
      | Some v \<Rightarrow>
          if v = 0 then (Inl PositionExhausted, m\<lparr>m_next_position := checked_add v 1\<rparr>)
          else (Inr (WalPosition v), mark_completion_stale ''commit appended''
            ((push_record (commit_record m v txn)
               (m\<lparr>m_next_position := checked_add v 1\<rparr>))\<lparr>
                 m_committed_transactions :=
                   bt_insert txn (WalPosition v) (m_committed_transactions m),
                 m_active_transactions := bt_remove txn (m_active_transactions m)\<rparr>)))"
  by (simp add: append_transaction_commit_def live_result allocate_position_def commit_record_def
      wal_position_new_def Let_def push_record_def split: option.split)

lemmas append_simps = push_record_def raw_page_record_def txn_page_record_def commit_record_def
  record_shape_valid_def

lemma append_record_inv:
  assumes "model_inv m" and "m_phase m' = PhLive \<or> m_phase m' = PhCompleteLive"
    and "m_phase m' = m_phase m" and "m_wal_candidate m' = m_wal_candidate m"
    and "m_next_position m = Some v" and "m_next_position m' = checked_add v 1"
    and "m_log_id m' = m_log_id m" and "m_lineage_id m' = m_lineage_id m"
    and "m_flush_position m' = m_flush_position m"
    and "m_logical_high_water m' = m_logical_high_water m"
    and "m_page_store m' = m_page_store m"
    and "m_checkpoint_slot m' = m_checkpoint_slot m"
    and "m_selected_checkpoint m' = m_selected_checkpoint m"
    and "m_checkpoint_candidate m' = m_checkpoint_candidate m"
    and "m_wal_records m' = m_wal_records m @ [r]"
    and "wr_position r = WalPosition v" and "wr_log_id r = m_log_id m"
    and "wr_lineage_id r = m_lineage_id m" and "record_shape_valid r"
    and "\<And>ev. m_completion_evidence m' = Some ev \<Longrightarrow> ev_stale ev"
    and "txn_inv m'"
  shows "model_inv m'"
proof -
  note inv = model_invD [OF assms(1)]
  have "wal_inv m'" using append_record_wal [OF inv(1)] assms by blast
  moreover have "store_inv m'" using append_record_store [OF inv(1,3)] assms by blast
  moreover have "checkpoints_inv m'" using append_record_checkpoints [OF inv(1,4)] assms by blast
  moreover have "recovery_inv m'" using recovery_inv_after_live assms(2,20) by blast
  moreover have "candidate_inv m'"
    using candidate_inv_live [OF inv(6)] assms(2-4) by simp
  ultimately show ?thesis using assms(21) by (simp add: model_inv_def)
qed

lemma raw_page_appended_inv:
  assumes inv: "model_inv m" and "m_phase m = PhLive \<or> m_phase m = PhCompleteLive"
    and "m_next_position m = Some v"
  shows "model_inv (mark_completion_stale why (push_record (raw_page_record m v page pv ver)
    (m\<lparr>m_next_position := checked_add v 1\<rparr>)))"
    (is "model_inv ?m")
proof -
  have "txn_inv ?m"
    using model_invD(2) [OF inv] by (auto simp: append_simps txn_inv_def id_spent_def)
  with assms show ?thesis
    by (elim append_record_inv) (auto simp: append_simps dest: mark_stale_evidence)
qed

lemma txn_page_appended_inv:
  assumes inv: "model_inv m" and "m_phase m = PhLive \<or> m_phase m = PhCompleteLive"
    and "m_next_position m = Some v" and active: "bt_get (m_active_transactions m) txn = Some positions"
  shows "model_inv (mark_completion_stale why ((push_record (txn_page_record m v txn page pv ver)
    (m\<lparr>m_next_position := checked_add v 1\<rparr>))\<lparr>m_active_transactions :=
      bt_insert txn (positions @ [WalPosition v]) (m_active_transactions m)\<rparr>))"
    (is "model_inv ?m")
proof -
  have "txn_inv ?m"
    using model_invD(2) [OF inv] active
    by (auto simp: append_simps txn_inv_def id_spent_def bt_contains_key_def)
  with assms(1-3) show ?thesis
    by (elim append_record_inv) (auto simp: append_simps dest: mark_stale_evidence)
qed

lemma commit_appended_inv:
  assumes inv: "model_inv m" and "m_phase m = PhLive \<or> m_phase m = PhCompleteLive"
    and v: "m_next_position m = Some v" and active: "bt_contains_key (m_active_transactions m) txn"
  shows "model_inv (mark_completion_stale why ((push_record (commit_record m v txn)
    (m\<lparr>m_next_position := checked_add v 1\<rparr>))\<lparr>
      m_committed_transactions := bt_insert txn (WalPosition v) (m_committed_transactions m),
      m_active_transactions := bt_remove txn (m_active_transactions m)\<rparr>))"
    (is "model_inv ?m")
proof -
  have "\<forall>r \<in> set (m_wal_records m). wr_position r < WalPosition v"
    using model_invD(1) [OF inv] v by (auto simp: wal_inv_def below_next_def)
  then have "txn_inv ?m"
    using model_invD(2) [OF inv] active
    by (auto simp: append_simps txn_inv_def id_spent_def bt_contains_key_def)
  with assms(1-3) show ?thesis
    by (elim append_record_inv) (auto simp: append_simps dest: mark_stale_evidence)
qed

lemma append_raw_page_inv:
  "append_raw_page page pv ver m = (res, m') \<Longrightarrow> model_inv m \<Longrightarrow> model_inv m'"
  unfolding append_raw_page_eq
  by (auto split: if_splits option.splits intro: skip_position_inv raw_page_appended_inv)

lemma append_transaction_page_inv:
  "append_transaction_page txn page pv ver m = (res, m') \<Longrightarrow> model_inv m \<Longrightarrow> model_inv m'"
  unfolding append_transaction_page_eq
  by (auto split: if_splits option.splits intro: skip_position_inv txn_page_appended_inv)

lemma append_transaction_commit_inv:
  "append_transaction_commit txn m = (res, m') \<Longrightarrow> model_inv m \<Longrightarrow> model_inv m'"
  unfolding append_transaction_commit_eq
  by (auto split: if_splits option.splits intro: skip_position_inv commit_appended_inv)

end
