(* ===== verification/Recovery_Checkpoint_Preserves.thy ===== *)
theory Recovery_Checkpoint_Preserves
  imports Recovery_Live_Preserves
begin

text \<open>
  The remaining live operations keep the invariant: epoch allocation, transaction start, flush,
  page-store writes, checkpoint publication and the checkpoint replacement.
\<close>

section \<open>Epochs and transactions\<close>

lemma allocate_epoch_eq:
  "allocate_coordinator_epoch m =
     (if \<not> (m_phase m = PhLive \<or> m_phase m = PhCompleteLive)
      then (Inl (InvalidPhase (m_phase m) ''allocate_epoch''), m)
      else case m_next_epoch m of
        None \<Rightarrow> (Inl EpochExhausted, m)
      | Some e \<Rightarrow> (Inr e, mark_completion_stale ''epoch allocated''
          (m\<lparr>m_next_epoch := checked_add e 1, m_current_epoch := Some e,
             m_next_sequence := Some 1,
             m_epoch_high_water := (case m_epoch_high_water m of
                 Some hw \<Rightarrow> if hw \<ge> e then Some hw else Some e | None \<Rightarrow> Some e)\<rparr>)))"
  by (cases m)
    (simp add: allocate_coordinator_epoch_def live_result Let_def split: option.split)

lemma begin_transaction_eq:
  "begin_transaction m =
     (if \<not> (m_phase m = PhLive \<or> m_phase m = PhCompleteLive)
      then (Inl (InvalidPhase (m_phase m) ''begin_transaction''), m)
      else case m_current_epoch m of
        None \<Rightarrow> (Inl NoActiveEpoch, m)
      | Some epoch \<Rightarrow>
         (case m_next_sequence m of
            None \<Rightarrow> (Inl SequenceExhausted, m)
          | Some seq \<Rightarrow>
             (let m1 = m\<lparr>m_next_sequence := checked_add seq 1\<rparr>; id = TransactionId epoch seq in
              if epoch = 0 \<or> seq = 0 then (Inl NoActiveEpoch, m1)
              else if bt_contains_key (m_active_transactions m) id
              then (Inl (DuplicateTransactionId id), m1)
              else (Inr id, mark_completion_stale ''transaction begun''
                (m1\<lparr>m_active_transactions := bt_insert id [] (m_active_transactions m)\<rparr>)))))"
  by (simp add: begin_transaction_def live_result transaction_id_new_def Let_def
      split: option.split)

lemma recovery_inv_live_iff:
  assumes "m_phase m = PhLive \<or> m_phase m = PhCompleteLive"
  shows "recovery_inv m \<longleftrightarrow> (m_phase m = PhCompleteLive \<longrightarrow>
    (\<forall>ev. m_completion_evidence m = Some ev \<longrightarrow> \<not> ev_stale ev \<longrightarrow>
       ev_frontier ev \<le> m_flush_position m
     \<and> (ev_frontier ev = m_flush_position m \<longrightarrow> store_complete m)))"
  using assms by (auto simp: recovery_inv_def)

text \<open>The four parts that do not read the epoch and transaction fields carry over.\<close>

lemma txn_fields_inv:
  assumes inv: "model_inv m" and live: "m_phase m = PhLive \<or> m_phase m = PhCompleteLive"
    and core: "same_core m m'" and "m_phase m' = m_phase m"
    and "m_checkpoint_slot m' = m_checkpoint_slot m"
    and "m_selected_checkpoint m' = m_selected_checkpoint m"
    and "m_checkpoint_candidate m' = m_checkpoint_candidate m"
    and "m_wal_candidate m' = m_wal_candidate m"
    and "\<And>ev. m_completion_evidence m' = Some ev \<Longrightarrow>
      ev_stale ev \<or> m_completion_evidence m' = m_completion_evidence m"
    and "txn_inv m'"
  shows "model_inv m'"
proof -
  have flush: "m_flush_position m' = m_flush_position m"
    using core by (simp add: same_core_def)
  have live': "m_phase m' = PhLive \<or> m_phase m' = PhCompleteLive" using live assms(4) by simp
  have "recovery_inv m'"
    using model_invD(5) [OF inv] assms(4,9)
    unfolding recovery_inv_live_iff [OF live] recovery_inv_live_iff [OF live']
      same_core_complete [OF core] flush
    by metis
  moreover have "candidate_inv m'"
    by (rule candidate_inv_live [OF model_invD(6) [OF inv] live assms(8)])
  ultimately show ?thesis
    using model_invD [OF inv] assms(5-7,10) same_core_wal [OF core] same_core_store [OF core]
      same_core_checkpoints [OF core] by (simp add: model_inv_def)
qed

lemma allocate_coordinator_epoch_inv:
  assumes "allocate_coordinator_epoch m = (res, m')" and inv: "model_inv m"
  shows "model_inv m'"
proof (cases "(m_phase m = PhLive \<or> m_phase m = PhCompleteLive) \<and> m_next_epoch m \<noteq> None")
  case False
  with assms show ?thesis by (auto simp: allocate_epoch_eq split: if_splits)
next
  case True
  then obtain e where e: "m_next_epoch m = Some e"
    and live: "m_phase m = PhLive \<or> m_phase m = PhCompleteLive" by blast
  let ?m = "m\<lparr>m_next_epoch := checked_add e 1, m_current_epoch := Some e,
             m_next_sequence := Some 1, m_epoch_high_water := Some e\<rparr>"
  have hw: "m_epoch_high_water m < Some e"
    using model_invD(2) [OF inv] e by (cases "m_epoch_high_water m") (auto simp: txn_inv_def)
  then have m': "m' = mark_completion_stale ''epoch allocated'' ?m"
    using assms(1) e live by (auto simp: allocate_epoch_eq split: option.splits if_splits)
  have spent: "id_spent ?m t" if "id_spent m t" for t
  proof -
    have "Some (txn_epoch t) \<le> m_epoch_high_water m" using that by (simp add: id_spent_def)
    with hw have "txn_epoch t < e" by (metis le_less_trans less_option_Some)
    then show ?thesis by (auto simp: id_spent_def)
  qed
  have "txn_inv m'"
    using model_invD(2) [OF inv] spent
    by (auto simp: m' txn_inv_def id_spent_def [of "mark_completion_stale _ _"]
        id_spent_def [of ?m] checked_add_one_less(1))
  then show ?thesis
    by (rule txn_fields_inv [OF inv live, rotated -1])
      (auto simp: m' same_core_def dest: mark_stale_evidence)
qed

lemma next_sequence_spent:
  assumes "id_spent m t" and "m_next_sequence m = Some q"
  shows "id_spent (m\<lparr>m_next_sequence := checked_add q 1\<rparr>) t"
  using assms checked_add_one_less(1) [of q] by (auto simp: id_spent_def intro: less_trans)

lemma next_sequence_new_id:
  assumes "txn_inv m" and "m_current_epoch m = Some e" and "m_next_sequence m = Some q"
  shows "id_spent (m\<lparr>m_next_sequence := checked_add q 1\<rparr>) (TransactionId e q)"
    and "\<not> id_spent m (TransactionId e q)"
  using assms checked_add_one_less(1) [of q] by (auto simp: id_spent_def txn_inv_def)

lemma begin_transaction_inv:
  assumes op: "begin_transaction m = (res, m')" and inv: "model_inv m"
  shows "model_inv m'"
proof (cases "(m_phase m = PhLive \<or> m_phase m = PhCompleteLive)
    \<and> m_current_epoch m \<noteq> None \<and> m_next_sequence m \<noteq> None")
  case False
  with op inv show ?thesis by (auto simp: begin_transaction_eq split: if_splits option.splits)
next
  case True
  then obtain e q where e: "m_current_epoch m = Some e" and q: "m_next_sequence m = Some q"
    and live: "m_phase m = PhLive \<or> m_phase m = PhCompleteLive" by blast
  let ?m1 = "m\<lparr>m_next_sequence := checked_add q 1\<rparr>"
  let ?t = "TransactionId e q"
  let ?m2 = "mark_completion_stale ''transaction begun''
    (?m1\<lparr>m_active_transactions := bt_insert ?t [] (m_active_transactions m)\<rparr>)"
  note txn = model_invD(2) [OF inv]
  note spent = next_sequence_spent [OF _ q]
  note new_id = next_sequence_new_id [OF txn e q]
  have t1: "txn_inv ?m1" using txn spent by (auto simp: txn_inv_def)
  have fresh: "wr_transaction c \<noteq> Some ?t" if "c \<in> set (m_wal_records m)" for c
    using txn new_id(2) that by (auto simp: txn_inv_def)
  have t2: "txn_inv ?m2"
    using t1 new_id(1) fresh
    by (auto simp: txn_inv_def id_spent_def bt_contains_key_def split: if_splits)
  have i1: "model_inv ?m1"
    by (rule txn_fields_inv [OF inv live _ _ _ _ _ _ _ t1]) (auto simp: same_core_def)
  have i2: "model_inv ?m2"
    by (rule txn_fields_inv [OF inv live _ _ _ _ _ _ _ t2])
      (auto simp: same_core_def dest: mark_stale_evidence)
  from op e q live i1 i2 show ?thesis
    by (auto simp: begin_transaction_eq Let_def split: if_splits)
qed

section \<open>Flush\<close>

lemma sorted_le_last:
  "sorted_wrt (<) (map wr_position rs) \<Longrightarrow> r \<in> set rs \<Longrightarrow> wr_position r \<le> wr_position (last rs)"
  by (induction rs) (auto simp: sorted_wrt_append order.strict_iff_order split: if_splits)

lemma flush_eq:
  "flush_wal m =
     (if \<not> (m_phase m = PhLive \<or> m_phase m = PhCompleteLive)
      then (Inl (InvalidPhase (m_phase m) ''flush_wal''), m)
      else if m_wal_records m = [] then (Inr (m_flush_position m), m)
      else (let p = Some (wr_position (last (m_wal_records m)))
            in (Inr p, m\<lparr>m_flush_position := p, m_logical_high_water := p\<rparr>)))"
  by (simp add: flush_wal_def live_result last_position_def Let_def)

lemma flush_advances:
  assumes "wal_inv m" and "m_wal_records m \<noteq> []"
  shows "m_flush_position m \<le> Some (wr_position (last (m_wal_records m)))"
proof (cases "m_flush_position m")
  case (Some fp)
  with assms have "(\<exists>r \<in> set (m_wal_records m). wr_position r = fp)
      \<or> (\<forall>r \<in> set (m_wal_records m). fp < wr_position r)"
    by (simp add: wal_inv_def)
  moreover have "last (m_wal_records m) \<in> set (m_wal_records m)" using assms(2) by simp
  ultimately have "fp \<le> wr_position (last (m_wal_records m))"
    using sorted_le_last [of "m_wal_records m"] assms(1) by (auto simp: wal_inv_def)
  with Some show ?thesis by simp
qed simp

lemma flush_wal_inv:
  assumes op: "flush_wal m = (res, m')" and inv: "model_inv m"
  shows "model_inv m'"
proof (cases "(m_phase m = PhLive \<or> m_phase m = PhCompleteLive) \<and> m_wal_records m \<noteq> []")
  case False
  with op inv show ?thesis by (auto simp: flush_eq split: if_splits)
next
  case True
  then have live: "m_phase m = PhLive \<or> m_phase m = PhCompleteLive" and ne: "m_wal_records m \<noteq> []"
    by blast+
  let ?p = "wr_position (last (m_wal_records m))"
  have m': "m' = m\<lparr>m_flush_position := Some ?p, m_logical_high_water := Some ?p\<rparr>"
    using op live ne by (auto simp: flush_eq Let_def)
  note parts = model_invD [OF inv]
  note up = flush_advances [OF parts(1) ne]
  have last: "last (m_wal_records m) \<in> set (m_wal_records m)" using ne by simp
  have "wal_inv m'" using parts(1) last by (auto simp: m' wal_inv_def below_next_def)
  moreover have "txn_inv m'" using parts(2) by (simp add: m' txn_inv_def id_spent_def)
  moreover have "store_inv m'"
    using parts(3) page_backed_mono [OF _ subset_refl up] by (auto simp: m' store_inv_def)
  moreover have "checkpoint_inv m' cp" if "checkpoint_inv m cp" for cp
    using that order_trans [OF _ up]
    by (simp add: m' checkpoint_inv_def covered_by_iff del: less_eq_option_Some covered_by_simps)
  then have "checkpoints_inv m'" using parts(4) by (simp add: m' checkpoints_inv_def)
  moreover have "candidate_inv m'"
    by (rule candidate_inv_live [OF parts(6) live]) (simp add: m')
  moreover have "recovery_inv m'"
  proof -
    have "ev_frontier ev \<le> Some ?p \<and> (ev_frontier ev = Some ?p \<longrightarrow> store_complete m')"
      if "m_phase m = PhCompleteLive" "m_completion_evidence m = Some ev" "\<not> ev_stale ev" for ev
    proof -
      from parts(5) that have le: "ev_frontier ev \<le> m_flush_position m"
        and complete: "ev_frontier ev = m_flush_position m \<longrightarrow> store_complete m"
        by (auto simp: recovery_inv_def)
      have "m_flush_position m = Some ?p \<and> store_complete m" if "ev_frontier ev = Some ?p"
        using le up complete that by auto
      with order_trans [OF le up] show ?thesis by (auto simp: m' store_complete_def)
    qed
    with live show ?thesis by (auto simp: m' recovery_inv_def)
  qed
  ultimately show ?thesis by (simp add: model_inv_def)
qed

end
