(* ===== verification/Recovery_Publish_Preserves.thy ===== *)
theory Recovery_Publish_Preserves
  imports Recovery_Checkpoint_Preserves
begin

text \<open>
  Page-store writes and checkpoint publication keep the invariant: a stored page is backed by
  an applied record, and a published checkpoint's replay boundary covers what the store lacks.
\<close>

section \<open>Writing a page to the store\<close>

lemma find_record_Some:
  "find_record rs p = Some r \<Longrightarrow> r \<in> set rs \<and> wr_position r = p"
  by (auto simp: find_record_def find_Some_iff)

lemma find_record_None: "find_record rs p = None \<longleftrightarrow> (\<forall>r \<in> set rs. wr_position r \<noteq> p)"
  by (auto simp: find_record_def find_None_iff)

text \<open>What a successful page-store write has checked and done.\<close>

definition page_storable :: "recovery_model \<Rightarrow> wal_record \<Rightarrow> page_id \<Rightarrow> u64 \<Rightarrow> page_version \<Rightarrow> bool" where
  "page_storable m r page value version \<longleftrightarrow>
     r \<in> set (m_wal_records m) \<and> record_applied (m_wal_records m) (m_flush_position m) r
   \<and> wr_page r = Some page \<and> wr_page_value r = Some value \<and> wr_page_version r = Some version"

lemma has_durable_commit_applied:
  assumes "has_durable_commit m fp txn" and "m_flush_position m = Some fp"
  shows "\<exists>c \<in> set (m_wal_records m). wr_kind c = TransactionCommit
    \<and> wr_transaction c = Some txn \<and> covered_by (m_flush_position m) (wr_position c)"
  using assms by (auto simp: has_durable_commit_def list_ex_iff)

lemma store_page_result:
  "store_page page value version position m = (res, m') \<Longrightarrow>
     (\<exists>e. res = Inl e \<and> m' = m)
   \<or> res = Inr page \<and> m' = mark_completion_stale ''page store written''
        (m\<lparr>m_page_store := bt_insert page (make_snapshot m page value position version)
             (m_page_store m)\<rparr>)
     \<and> (\<forall>s. bt_get (m_page_store m) page = Some s \<longrightarrow> ps_written_at s \<le> position)"
  by (auto simp: store_page_def with_result_def ensure_def Let_def
      split: option.splits if_splits sum.splits)

lemma write_page_store_result:
  assumes "write_page_store position m = (res, m')"
  shows "(\<exists>e. res = Inl e \<and> m' = m)
    \<or> (\<exists>r page value version. wr_position r = position \<and> page_storable m r page value version
        \<and> (m_phase m = PhLive \<or> m_phase m = PhCompleteLive)
        \<and> store_page page value version position m = (res, m'))"
proof (cases "m_phase m = PhLive \<or> m_phase m = PhCompleteLive")
  case False
  then show ?thesis using assms by (auto simp: write_page_store_def live_result)
next
  case live: True
  show ?thesis
  proof (cases "find_record (m_wal_records m) position")
    case None
    then show ?thesis using assms live by (auto simp: write_page_store_def live_result)
  next
    case (Some r)
    note r = find_record_Some [OF Some]
    show ?thesis
    proof (cases "covered_by (m_flush_position m) position \<and> wr_log_id r = m_log_id m
        \<and> record_shape_valid r")
      case False
      then show ?thesis using assms live Some
        by (auto simp: write_page_store_def live_result with_result_def ensure_def
            validate_record_shape_def covered_by_def split: if_splits option.splits sum.splits)
    next
      case True
      then obtain fp where fp: "m_flush_position m = Some fp" "position \<le> fp"
        by (cases "m_flush_position m") auto
      have start: "write_page_store position m =
          (case wr_kind r of
             TransactionPage \<Rightarrow>
               (if has_durable_commit m fp (the (wr_transaction r))
                then store_page (the (wr_page r)) (the (wr_page_value r))
                  (the (wr_page_version r)) position m
                else (Inl (PageUncommitted (the (wr_page r)) (the (wr_transaction r))), m))
           | RawPage \<Rightarrow> store_page (the (wr_page r)) (the (wr_page_value r))
               (the (wr_page_version r)) position m
           | TransactionCommit \<Rightarrow>
               (Inl (InvalidRecordShape ''TransactionCommit has no page to write''), m))"
        using live Some True fp r
        by (auto simp: write_page_store_def live_result record_shape_valid_def
            validate_record_shape_def with_result_def ensure_def
            split: if_splits wal_record_kind.splits)
      have storable: "page_storable m r (the (wr_page r)) (the (wr_page_value r))
          (the (wr_page_version r))"
        if "wr_kind r = RawPage
          \<or> wr_kind r = TransactionPage \<and> has_durable_commit m fp (the (wr_transaction r))"
        using that True r fp has_durable_commit_applied [OF _ fp(1)]
        by (auto simp: page_storable_def record_applied_def record_shape_valid_def)
      show ?thesis
      proof (cases "wr_kind r = RawPage
          \<or> wr_kind r = TransactionPage \<and> has_durable_commit m fp (the (wr_transaction r))")
        case True
        with start assms have "store_page (the (wr_page r)) (the (wr_page_value r))
            (the (wr_page_version r)) position m = (res, m')" by auto
        with storable [OF True] r live show ?thesis by blast
      next
        case False
        with start assms show ?thesis by (cases "wr_kind r") auto
      qed
    qed
  qed
qed

lemma stored_page_inv:
  assumes inv: "model_inv m" and live: "m_phase m = PhLive \<or> m_phase m = PhCompleteLive"
    and storable: "page_storable m r page value version" and pos: "wr_position r = position"
    and newest: "\<forall>s. bt_get (m_page_store m) page = Some s \<longrightarrow> ps_written_at s \<le> position"
  shows "model_inv (mark_completion_stale why
        (m\<lparr>m_page_store := bt_insert page (make_snapshot m page value position version)
             (m_page_store m)\<rparr>))" (is "model_inv ?m")
proof -
  let ?s = "make_snapshot m page value position version"
  note parts = model_invD [OF inv]
  have le: "store_le (m_page_store m) (bt_insert page ?s (m_page_store m))"
    using newest by (intro store_le_insert) (auto simp: make_snapshot_def)
  have "page_backed (m_wal_records m) (m_flush_position m) page ?s"
    using storable pos unfolding page_storable_def page_backed_def make_snapshot_def by fastforce
  then have "store_inv ?m"
    using parts(3) by (auto simp: store_inv_def make_snapshot_def split: if_splits)
  moreover have "wal_inv ?m" using parts(1) by (simp add: wal_inv_def below_next_def)
  moreover have "txn_inv ?m" using parts(2) by (simp add: txn_inv_def id_spent_def)
  moreover have "checkpoint_inv ?m cp" if "checkpoint_inv m cp" for cp
    using that store_reaches_mono [OF _ le] store_le_trans [OF _ le]
    by (simp add: checkpoint_inv_def)
  then have "checkpoints_inv ?m" using parts(4) by (simp add: checkpoints_inv_def)
  moreover have "recovery_inv ?m"
    using live by (auto intro!: recovery_inv_after_live dest: mark_stale_evidence)
  moreover have "candidate_inv ?m" by (rule candidate_inv_live [OF parts(6) live]) simp
  ultimately show ?thesis by (simp add: model_inv_def)
qed

lemma write_page_store_inv:
  assumes "write_page_store position m = (res, m')" and inv: "model_inv m"
  shows "model_inv m'"
proof (cases "m' = m")
  case False
  then obtain r page "value" version
    where r: "wr_position r = position" "page_storable m r page value version"
    and st: "store_page page value version position m = (res, m')"
    and live: "m_phase m = PhLive \<or> m_phase m = PhCompleteLive"
    using write_page_store_result [OF assms(1)] by blast
  show ?thesis
    using store_page_result [OF st] stored_page_inv [OF inv live r(2,1)] False by auto
qed (use inv in simp)

section \<open>Publishing a checkpoint\<close>

definition unreplayed :: "(page_id, page_snapshot) btree \<Rightarrow> wal_position \<Rightarrow> wal_record \<Rightarrow> bool" where
  "unreplayed store frontier r \<longleftrightarrow> wr_position r \<le> frontier \<and> page_kind (wr_kind r)
     \<and> (\<exists>p. wr_page r = Some p \<and> \<not> store_reaches store p (wr_position r))"

definition lower_start :: "wal_position option \<Rightarrow> wal_position \<Rightarrow> wal_position option" where
  "lower_start earliest p = (case earliest of
     None \<Rightarrow> Some p | Some e \<Rightarrow> if p < e then Some p else earliest)"

lemma earliest_unreplayed_step:
  "earliest_unreplayed store frontier earliest (r # rs) =
     earliest_unreplayed store frontier
       (if unreplayed store frontier r then lower_start earliest (wr_position r) else earliest) rs"
  by (cases "wr_page r")
    (auto simp: unreplayed_def lower_start_def page_kind_def store_reaches_def Let_def not_le
      split: option.split)

lemma earliest_unreplayed_cases:
  assumes "earliest_unreplayed store frontier earliest rs = res"
  shows "(res = None \<longrightarrow> earliest = None \<and> (\<forall>r \<in> set rs. \<not> unreplayed store frontier r))
    \<and> (\<forall>x. res = Some x \<longrightarrow>
         (x \<le> frontier \<or> earliest = Some x) \<and> (\<forall>y. earliest = Some y \<longrightarrow> x \<le> y)
       \<and> (\<forall>r \<in> set rs. unreplayed store frontier r \<longrightarrow> x \<le> wr_position r))"
  using assms
proof (induction rs arbitrary: earliest)
  case (Cons r rs)
  from Cons.IH [OF Cons.prems [unfolded earliest_unreplayed_step]] show ?case
    by (auto simp: lower_start_def unreplayed_def split: if_splits option.splits)
qed auto

lemma checkpoint_transactions_fields [simp]:
  "cp_log_id (current_checkpoint m a) = m_log_id m"
  "cp_lineage_id (current_checkpoint m a) = m_lineage_id m"
  "frontier_position (cp_frontier (current_checkpoint m a)) = m_flush_position m"
  "cp_replay_start (current_checkpoint m a) = compute_replay_start m"
  "cp_pages (current_checkpoint m a) = m_page_store m"
  "cp_anchor (current_checkpoint m a) = a"
  "ts_epoch_high_water (cp_transaction_summary (current_checkpoint m a)) = m_epoch_high_water m"
  by (simp_all add: current_checkpoint_def split: option.split)

lemma current_checkpoint_inv:
  assumes "model_inv m"
  shows "checkpoint_inv m (current_checkpoint m anchor)"
proof -
  let ?cp = "current_checkpoint m anchor"
  have start: "covered_by (m_flush_position m) rs" if "compute_replay_start m = Some rs" for rs
    using that earliest_unreplayed_cases [of "m_page_store m" _ None "m_wal_records m"]
    by (auto simp: compute_replay_start_def split: option.splits)
  have "store_reaches (m_page_store m) p (wr_position r)"
    if r: "r \<in> set (m_wal_records m)" "wr_page r = Some p" "page_kind (wr_kind r)"
      and old: "\<not> needs_replay (Some ?cp) (wr_position r)" for r p
  proof (rule ccontr)
    assume lacks: "\<not> store_reaches (m_page_store m) p (wr_position r)"
    show False
    proof (cases "m_flush_position m")
      case None
      with old show False by (simp add: needs_replay_def compute_replay_start_def)
    next
      case (Some fp)
      have un: "unreplayed (m_page_store m) fp r" if "wr_position r \<le> fp"
        using that r lacks by (auto simp: unreplayed_def)
      show False
      proof (cases "compute_replay_start m")
        case None
        with old Some have "wr_position r \<le> fp" by (simp add: needs_replay_def not_less)
        with un None Some r(1) show False
          using earliest_unreplayed_cases [of "m_page_store m" fp None "m_wal_records m"]
          by (auto simp: compute_replay_start_def)
      next
        case rs: (Some x)
        with old have "wr_position r < x" by (simp add: needs_replay_def)
        moreover from rs start Some have "x \<le> fp" by fastforce
        ultimately have "wr_position r < x" and "unreplayed (m_page_store m) fp r"
          using un by auto
        with rs Some r(1) show False
          using earliest_unreplayed_cases [of "m_page_store m" fp None "m_wal_records m"]
          by (auto simp: compute_replay_start_def dest: leD)
      qed
    qed
  qed
  with start model_invD(3) [OF assms] show ?thesis
    by (simp add: checkpoint_inv_def store_le_refl store_inv_def)
qed

text \<open>A state that differs in checkpoint fields and evidence only keeps the invariant.\<close>

lemma checkpoint_fields_inv:
  assumes inv: "model_inv m" and core: "same_core m m'" and txn: "same_txn m m'"
    and phase: "m_phase m' = m_phase m" and sel: "m_selected_checkpoint m' = m_selected_checkpoint m"
    and plan: "m_replay_plan m' = m_replay_plan m"
    and ra: "m_retention_analysis m' = m_retention_analysis m"
    and cand: "m_wal_candidate m' = m_wal_candidate m"
    and ev: "\<And>ev. m_completion_evidence m' = Some ev \<Longrightarrow>
      ev_stale ev \<or> m_completion_evidence m' = m_completion_evidence m"
    and slot: "\<And>cp. m_checkpoint_slot m' = Some cp \<Longrightarrow> checkpoint_inv m cp"
  shows "model_inv m'"
proof -
  note parts = model_invD [OF inv]
  have "checkpoints_inv m'"
    using slot parts(4) sel same_core_checkpoint [OF core]
    by (auto simp: checkpoints_inv_def)
  moreover have "candidate_inv m'"
    using parts(6) cand phase
    by (simp add: candidate_inv_def)
  moreover have "recovery_inv m'"
  proof -
    have replay: "replay_records m' = replay_records m"
      using core sel by (simp add: replay_records_def durable_wal_records_def same_core_def)
    have same: "m_flush_position m' = m_flush_position m" "m_page_store m' = m_page_store m"
      using core by (simp_all add: same_core_def)
    have evid: "m_completion_evidence m = Some e" if "m_completion_evidence m' = Some e" "\<not> ev_stale e" for e
      using ev [OF that(1)] that by auto
    show ?thesis
      using parts(5) evid
      unfolding recovery_inv_def phase sel plan ra replay same same_core_complete [OF core]
      by blast
  qed
  ultimately show ?thesis
    using parts(1-3) same_core_wal [OF core] same_core_store [OF core] same_txn_inv [OF txn]
    by (simp add: model_inv_def)
qed

lemma publish_checkpoint_inv:
  assumes "publish_checkpoint anchor m = (res, m')" and inv: "model_inv m"
  shows "model_inv m'"
proof (cases "m_phase m = PhLive \<or> m_phase m = PhCompleteLive")
  case False
  with assms show ?thesis by (auto simp: publish_checkpoint_def live_result)
next
  case True
  with assms(1) have m': "m' = mark_completion_stale ''checkpoint published''
      (m\<lparr>m_checkpoint_slot := Some (current_checkpoint m anchor)\<rparr>)"
    by (auto simp: publish_checkpoint_def live_result Let_def)
  show ?thesis
    by (rule checkpoint_fields_inv [OF inv])
      (use model_invD(4) [OF inv] current_checkpoint_inv [OF inv] in
        \<open>auto simp: m' same_core_def same_txn_def checkpoints_inv_def dest: mark_stale_evidence\<close>)
qed

lemma begin_checkpoint_candidate_inv:
  assumes "begin_checkpoint_candidate snapshot m = (res, m')" and inv: "model_inv m"
  shows "model_inv m'"
proof (cases "m_phase m = PhLive \<or> m_phase m = PhCompleteLive")
  case False
  with assms show ?thesis by (auto simp: begin_checkpoint_candidate_def live_result)
next
  case True
  with assms(1) have m': "m' = mark_completion_stale ''checkpoint replacement begun''
      (m\<lparr>m_checkpoint_candidate := CpPresent snapshot BeforeCleanup EntryAbsent\<rparr>)"
    by (auto simp: begin_checkpoint_candidate_def live_result Let_def)
  show ?thesis
    by (rule checkpoint_fields_inv [OF inv])
      (use model_invD(4) [OF inv] in
        \<open>auto simp: m' same_core_def same_txn_def checkpoints_inv_def dest: mark_stale_evidence\<close>)
qed

text \<open>
  The rename installs whatever snapshot is pending, so the invariant needs it to be a checkpoint of
  this log at that moment.
\<close>

definition checkpoint_rename_ok :: "recovery_model \<Rightarrow> bool" where
  "checkpoint_rename_ok m \<longleftrightarrow>
     (\<forall>cp e. m_checkpoint_candidate m = CpPresent cp BeforeRename e \<longrightarrow> checkpoint_inv m cp)"

lemma stage_next_rename: "stage_next s = Some AfterCurrentReplace \<longleftrightarrow> s = BeforeRename"
  by (cases s) simp_all

lemma advance_checkpoint_candidate_inv:
  assumes "advance_checkpoint_candidate m = (res, m')" and ok: "checkpoint_rename_ok m"
    and inv: "model_inv m"
  shows "model_inv m'"
proof (cases "m_checkpoint_candidate m")
  case CpAbsent
  with assms show ?thesis by (simp add: advance_checkpoint_candidate_def)
next
  case (CpPresent snapshot stage entry)
  show ?thesis
  proof (cases "stage_next stage")
    case None
    with assms CpPresent show ?thesis by (simp add: advance_checkpoint_candidate_def)
  next
    case (Some next_stage)
    with assms(1) CpPresent show ?thesis
      using model_invD(4) [OF inv] ok stage_next_rename [of stage]
      by (intro checkpoint_fields_inv [OF inv])
        (auto simp: advance_checkpoint_candidate_def Let_def same_core_def same_txn_def
          checkpoints_inv_def checkpoint_rename_ok_def dest: mark_stale_evidence split: if_splits)
  qed
qed

lemma set_checkpoint_candidate_entry_inv:
  assumes "set_checkpoint_candidate_entry e m = (res, m')" and inv: "model_inv m"
  shows "model_inv m'"
  using assms(1) model_invD(4) [OF inv]
  by (intro checkpoint_fields_inv [OF inv])
    (auto simp: set_checkpoint_candidate_entry_def same_core_def same_txn_def checkpoints_inv_def
      split: checkpoint_candidate_state.splits)

end
