(* ===== verification/Recovery_Restart_Preserves.thy ===== *)
theory Recovery_Restart_Preserves
  imports Recovery_Publish_Preserves
begin

text \<open>
  Crash, reopen, selection, replay planning and page repair keep the invariant. Repair is shown
  to be a pure fold over the replay plan that only ever installs images of applied records.
\<close>

section \<open>Crash and reopen\<close>

lemma crash_eq:
  "crash_with_complete_tail preserve m =
     (if m_phase m = PhCrashed then (Inl (InvalidPhase PhCrashed ''crash''), m)
      else (Inr (), m\<lparr>
        m_wal_records := filter (\<lambda>r. preserve \<or> covered_by (m_flush_position m) (wr_position r))
          (m_wal_records m),
        m_logical_high_water := m_flush_position m,
        m_active_transactions := [],
        m_persisted_transactions := [],
        m_committed_transactions := [],
        m_current_epoch := None,
        m_next_sequence := None,
        m_completion_evidence := None,
        m_retention_analysis := None,
        m_replay_plan := None,
        m_restoration_summary := None,
        m_selected_checkpoint := None,
        m_locks := locks_all_free,
        m_phase := PhCrashed\<rparr>))"
  by (cases "m_phase m")
    (auto simp: crash_with_complete_tail_def require_phase_def Let_def split: option.split)

lemma core_fields_inv:
  assumes inv: "model_inv m" and core: "same_core m m'" and "txn_inv m'"
    and slot: "\<And>cp. m_checkpoint_slot m' = Some cp \<Longrightarrow> checkpoint_inv m cp"
    and sel: "\<And>cp. m_selected_checkpoint m' = Some cp \<Longrightarrow> checkpoint_inv m cp"
    and "recovery_inv m'" and "candidate_inv m'"
  shows "model_inv m'"
  using assms(3,6,7) model_invD(1,3) [OF inv] same_core_wal [OF core] same_core_store [OF core]
    same_core_checkpoint [OF core] slot sel
  by (simp add: model_inv_def checkpoints_inv_def)

lemma crash_with_complete_tail_inv:
  assumes op: "crash_with_complete_tail preserve m = (res, m')" and inv: "model_inv m"
  shows "model_inv m'"
proof (cases "m_phase m = PhCrashed")
  case True
  with op inv show ?thesis by (simp add: crash_eq)
next
  case False
  let ?keep = "\<lambda>r. preserve \<or> covered_by (m_flush_position m) (wr_position r)"
  let ?recs = "filter ?keep (m_wal_records m)"
  note parts = model_invD [OF inv]
  have fields: "m_wal_records m' = ?recs" "m_flush_position m' = m_flush_position m"
    "m_logical_high_water m' = m_flush_position m" "m_next_position m' = m_next_position m"
    "m_log_id m' = m_log_id m" "m_lineage_id m' = m_lineage_id m"
    "m_page_store m' = m_page_store m" "m_phase m' = PhCrashed"
    "m_selected_checkpoint m' = None" "m_checkpoint_slot m' = m_checkpoint_slot m"
    "m_checkpoint_candidate m' = m_checkpoint_candidate m"
    "m_wal_candidate m' = m_wal_candidate m" "m_current_epoch m' = None"
    "m_active_transactions m' = []" "m_epoch_high_water m' = m_epoch_high_water m"
    "m_next_epoch m' = m_next_epoch m"
    using op False by (auto simp: crash_eq)
  have "sorted_wrt (<) (map wr_position ?recs)"
    using parts(1) sorted_wrt_filter [of "\<lambda>a b. wr_position a < wr_position b" "m_wal_records m" ?keep]
    by (simp add: wal_inv_def sorted_wrt_map)
  then have "wal_inv m'"
    using parts(1) unfolding wal_inv_def fields below_next_def by auto
  moreover have "txn_inv m'"
    using parts(2) unfolding txn_inv_def id_spent_def fields by (auto simp: bt_contains_key_def)
  moreover have backed: "page_backed ?recs (m_flush_position m) p s
      = page_backed (m_wal_records m) (m_flush_position m) p s" for p s
    by (rule page_backed_retain) auto
  then have "store_inv m'" using parts(3) unfolding store_inv_def fields by simp
  moreover have "checkpoint_inv m' cp" if "checkpoint_inv m cp" for cp
    using that unfolding checkpoint_inv_def fields by auto
  then have "checkpoints_inv m'" using parts(4) by (simp add: checkpoints_inv_def fields)
  moreover have "recovery_inv m'" by (simp add: recovery_inv_def fields)
  moreover have "candidate_inv m'" using parts(6) by (simp add: candidate_inv_def fields)
  ultimately show ?thesis by (simp add: model_inv_def)
qed

lemma rebrand_checkpoint_fields [simp]:
  "cp_log_id (rebrand_checkpoint l c) = cp_log_id c"
  "cp_lineage_id (rebrand_checkpoint l c) = l"
  "cp_anchor (rebrand_checkpoint l c) = cp_anchor c"
  "cp_frontier (rebrand_checkpoint l c) = cp_frontier c"
  "cp_replay_start (rebrand_checkpoint l c) = cp_replay_start c"
  "cp_pages (rebrand_checkpoint l c) = rebrand_pages l (cp_pages c)"
  "cp_transaction_summary (rebrand_checkpoint l c) = cp_transaction_summary c"
  "needs_replay (Some (rebrand_checkpoint l c)) p = needs_replay (Some c) p"
  by (simp_all add: rebrand_checkpoint_def needs_replay_def split: option.split)

lemma store_le_rebrand: "store_le (rebrand_pages l a) (rebrand_pages l b) = store_le a b"
  by (force simp: store_le_def bt_get_rebrand)

lemma record_shape_rebrand [simp]:
  "record_shape_valid (r\<lparr>wr_lineage_id := l\<rparr>) = record_shape_valid r"
  by (simp add: record_shape_valid_def split: wal_record_kind.split)

lemma page_backed_rebrand:
  "page_backed (map (\<lambda>r. r\<lparr>wr_lineage_id := l\<rparr>) recs) f p (s\<lparr>ps_lineage_id := l'\<rparr>)
     = page_backed recs f p s"
  using record_applied_map [of "\<lambda>r. r\<lparr>wr_lineage_id := l\<rparr>" recs f]
  by (simp add: page_backed_def)

lemma reopen_result:
  assumes "reopen m = (res, m')"
  shows "(\<exists>e. res = Inl e \<and> m' = m)
    \<or> (\<exists>l. res = Inr l \<and> m_phase m = PhCrashed \<and> lineage_checked_next (m_lineage_id m) = Some l
        \<and> validate_selected_on_open m = Inr ()
        \<and> m' = m\<lparr>
          m_lineage_id := l,
          m_wal_records := map (\<lambda>r. r\<lparr>wr_lineage_id := l\<rparr>) (m_wal_records m),
          m_page_store := rebrand_pages l (m_page_store m),
          m_checkpoint_slot := map_option (rebrand_checkpoint l) (m_checkpoint_slot m),
          m_checkpoint_candidate := CpAbsent,
          m_wal_candidate := WalAbsent,
          m_locks := locks_all_recovery,
          m_phase := PhUnrecovered\<rparr>)"
proof (cases res)
  case (Inl e)
  with assms show ?thesis by (auto simp: reopen_def with_result_Inl_iff)
next
  case (Inr l)
  with assms show ?thesis by (auto simp: reopen_def with_result_Inr_iff)
qed

lemma reopen_inv:
  assumes op: "reopen m = (res, m')" and inv: "model_inv m"
  shows "model_inv m'"
proof (cases "m' = m")
  case False
  then obtain l where crashed: "m_phase m = PhCrashed" and m': "m' = m\<lparr>
          m_lineage_id := l,
          m_wal_records := map (\<lambda>r. r\<lparr>wr_lineage_id := l\<rparr>) (m_wal_records m),
          m_page_store := rebrand_pages l (m_page_store m),
          m_checkpoint_slot := map_option (rebrand_checkpoint l) (m_checkpoint_slot m),
          m_checkpoint_candidate := CpAbsent,
          m_wal_candidate := WalAbsent,
          m_locks := locks_all_recovery,
          m_phase := PhUnrecovered\<rparr>"
    using reopen_result [OF op] by blast
  note parts = model_invD [OF inv]
  have none: "m_selected_checkpoint m = None"
    using parts(5) crashed by (simp add: recovery_inv_def)
  have "wal_inv m'"
    using parts(1) by (auto simp: m' wal_inv_def below_next_def comp_def)
  moreover have "txn_inv m'" using parts(2) by (simp add: m' txn_inv_def id_spent_def)
  moreover have "store_inv m'"
    using parts(3)
    by (auto simp: m' store_inv_def bt_get_rebrand page_backed_rebrand)
      (simp add: rebrand_pages_def)
  moreover have "checkpoint_inv m' (rebrand_checkpoint l cp)" if "checkpoint_inv m cp" for cp
    using that by (auto simp: m' checkpoint_inv_def store_le_rebrand) (simp add: rebrand_pages_def)
  then have "checkpoints_inv m'" using parts(4) none by (auto simp: checkpoints_inv_def m')
  moreover have "recovery_inv m'" by (simp add: m' recovery_inv_def)
  moreover have "candidate_inv m'" by (rule candidate_inv_absent) (simp add: m')
  ultimately show ?thesis by (simp add: model_inv_def)
qed (use inv in simp)

section \<open>Selection and replay plan\<close>

lemma select_observed_inv:
  assumes op: "select_observed minimal full m = (res, m')" and inv: "model_inv m"
  shows "model_inv m'"
proof (cases "m' = m")
  case False
  with op have m': "m' = m\<lparr>m_selected_checkpoint := m_checkpoint_slot m, m_phase := PhSelected\<rparr>"
    and phase: "m_phase m = PhUnrecovered"
    by (cases res; auto simp: select_observed_def with_result_Inl_iff with_result_Inr_iff)+
  note parts = model_invD [OF inv]
  have "m_wal_candidate m = WalAbsent"
    using candidate_absent [OF parts(6)] phase by simp
  then show ?thesis
    using parts(2,4)
    by (intro core_fields_inv [OF inv])
      (auto simp: m' same_core_def txn_inv_def id_spent_def checkpoints_inv_def recovery_inv_def
        intro: candidate_inv_absent)
qed (use inv in simp)

lemma plan_replay_inv:
  assumes op: "plan_replay m = (res, m')" and inv: "model_inv m"
  shows "model_inv m'"
proof (cases "m' = m")
  case False
  with op have m': "m' = m\<lparr>m_replay_plan := Some (replay_records m), m_phase := PhReplayPlanned\<rparr>"
    and phase: "m_phase m = PhSelected"
    by (cases res; auto simp: plan_replay_def with_result_Inl_iff with_result_Inr_iff Let_def)+
  note parts = model_invD [OF inv]
  have "m_wal_candidate m = WalAbsent"
    using candidate_absent [OF parts(6)] phase by simp
  then show ?thesis
    using parts(2,4)
    by (intro core_fields_inv [OF inv])
      (auto simp: m' same_core_def txn_inv_def id_spent_def checkpoints_inv_def recovery_inv_def
        replay_records_def durable_wal_records_def intro: candidate_inv_absent)
qed (use inv in simp)

section \<open>Page repair as a fold\<close>

text \<open>The image a record leaves, and one repair step on the store alone.\<close>

definition record_image :: "recovery_model \<Rightarrow> wal_record \<Rightarrow> page_snapshot" where
  "record_image m r = make_snapshot m (the (wr_page r)) (the (wr_page_value r)) (wr_position r)
     (the (wr_page_version r))"

definition repaired_store ::
  "recovery_model \<Rightarrow> wal_record \<Rightarrow> (page_id, page_snapshot) btree \<Rightarrow> (page_id, page_snapshot) btree"
  where "repaired_store m r store =
     (if record_applied (m_wal_records m) (m_flush_position m) r
         \<and> \<not> store_reaches store (the (wr_page r)) (wr_position r)
      then bt_insert (the (wr_page r)) (record_image m r) store else store)"

definition installs :: "recovery_model \<Rightarrow> (page_id, page_snapshot) btree \<Rightarrow> wal_record \<Rightarrow> bool" where
  "installs m store r \<longleftrightarrow> record_applied (m_wal_records m) (m_flush_position m) r
     \<and> \<not> store_reaches store (the (wr_page r)) (wr_position r)"

lemma store_not_reaches_iff:
  "\<not> store_reaches store p q \<longleftrightarrow>
     (case bt_get store p of None \<Rightarrow> True | Some existing \<Rightarrow> ps_written_at existing < q)"
  by (auto simp: store_reaches_def not_le split: option.splits)

text \<open>A record of the plan that passes repair's checks.\<close>

definition repairable :: "recovery_model \<Rightarrow> wal_record \<Rightarrow> bool" where
  "repairable m r \<longleftrightarrow> r \<in> set (m_wal_records m) \<and> wr_log_id r = m_log_id m
     \<and> wr_lineage_id r = m_lineage_id m \<and> record_shape_valid r
     \<and> covered_by (m_flush_position m) (wr_position r)
     \<and> m_logical_high_water m = m_flush_position m"

lemma repair_record_eq:
  assumes "repairable m r"
  shows "repair_record r n m =
     (if installs m (m_page_store m) r
      then count_repair n (m\<lparr>m_page_store := bt_insert (the (wr_page r)) (record_image m r) (m_page_store m)\<rparr>)
      else (Inr n, m))"
proof -
  have commit: "has_replayed_commit m t \<longleftrightarrow>
      (\<exists>c \<in> set (m_wal_records m). wr_kind c = TransactionCommit \<and> wr_transaction c = Some t
         \<and> covered_by (m_flush_position m) (wr_position c))" for t
    using assms by (auto simp: has_replayed_commit_def list_ex_iff repairable_def)
  show ?thesis
    using assms commit
    by (cases "wr_kind r")
      (auto simp: repair_record_def repairable_def installs_def record_shape_valid_def
        validate_record_shape_def record_applied_def store_not_reaches_iff record_image_def
        split: option.splits)
qed

lemma repaired_store_eq:
  "repaired_store m r store =
     (if installs m store r then bt_insert (the (wr_page r)) (record_image m r) store else store)"
  by (simp add: repaired_store_def installs_def)

lemma store_update_same [simp]:
  "repairable (m\<lparr>m_page_store := st\<rparr>) r = repairable m r"
  "record_image (m\<lparr>m_page_store := st\<rparr>) r = record_image m r"
  "installs (m\<lparr>m_page_store := st\<rparr>) st' r = installs m st' r"
  "repaired_store (m\<lparr>m_page_store := st\<rparr>) r st' = repaired_store m r st'"
  by (simp_all add: repairable_def record_image_def make_snapshot_def installs_def repaired_store_def)

definition repair_store ::
  "recovery_model \<Rightarrow> wal_record list \<Rightarrow> (page_id, page_snapshot) btree \<Rightarrow> (page_id, page_snapshot) btree"
  where "repair_store m rs store = foldl (\<lambda>st r. repaired_store m r st) store rs"

lemma repair_store_simps [simp]:
  "repair_store m [] store = store"
  "repair_store m (r # rs) store = repair_store m rs (repaired_store m r store)"
  by (simp_all add: repair_store_def)

text \<open>
  The loop over the plan only changes the page store: to the fold over the whole plan, or, when
  the repair count overflows, to the fold over a prefix of it.
\<close>

lemma repair_loop_result:
  assumes "\<forall>r \<in> set rs. repairable m r" and "op_loop repair_record rs n m = (res, m')"
  shows "\<exists>k \<le> length rs. m' = m\<lparr>m_page_store := repair_store m (take k rs) (m_page_store m)\<rparr>
    \<and> (\<forall>x. res = Inr x \<longrightarrow> k = length rs) \<and> (\<forall>e. res = Inl e \<longrightarrow> e = RepairCountExhausted)"
  using assms
proof (induction rs arbitrary: n m)
  case (Cons r rs)
  let ?m1 = "m\<lparr>m_page_store := repaired_store m r (m_page_store m)\<rparr>"
  have r: "repairable m r" using Cons.prems(1) by simp
  have step: "(\<exists>n1. repair_record r n m = (Inr n1, ?m1))
      \<or> repair_record r n m = (Inl RepairCountExhausted, ?m1)"
    by (auto simp: repair_record_eq [OF r] repaired_store_eq count_repair_def
        split: option.splits) (cases "checked_add n 1", auto)
  show ?case
  proof (cases "\<exists>n1. repair_record r n m = (Inr n1, ?m1)")
    case True
    then obtain n1 where n1: "op_loop repair_record rs n1 ?m1 = (res, m')"
      using Cons.prems(2) by auto
    from Cons.IH [OF _ n1] Cons.prems(1) obtain k where "k \<le> length rs"
      "m' = ?m1\<lparr>m_page_store := repair_store ?m1 (take k rs) (m_page_store ?m1)\<rparr>"
      "\<forall>x. res = Inr x \<longrightarrow> k = length rs" "\<forall>e. res = Inl e \<longrightarrow> e = RepairCountExhausted"
      by auto
    then show ?thesis
      by (intro exI [of _ "Suc k"]) (simp add: repair_store_def)
  next
    case False
    with step Cons.prems(2) have "res = Inl RepairCountExhausted" "m' = ?m1" by auto
    then show ?thesis by (intro exI [of _ 1]) simp
  qed
qed auto

end
