(* ===== verification/Recovery_Repair_Preserves.thy ===== *)
theory Recovery_Repair_Preserves
  imports Recovery_Restart_Preserves
begin

text \<open>
  Page repair, transaction restoration and completion keep the invariant; after a repair that
  returns, the page store reaches every applied record.
\<close>

section \<open>The repaired store\<close>

lemma record_image_fields [simp]:
  "ps_page_id (record_image m r) = the (wr_page r)"
  "ps_log_id (record_image m r) = m_log_id m"
  "ps_lineage_id (record_image m r) = m_lineage_id m"
  "ps_written_at (record_image m r) = wr_position r"
  "ps_value (record_image m r) = the (wr_page_value r)"
  "ps_version (record_image m r) = the (wr_page_version r)"
  by (simp_all add: record_image_def make_snapshot_def)

lemma applied_page_fields:
  assumes "record_applied recs f r" and "record_shape_valid r"
  shows "\<exists>p v ver. wr_page r = Some p \<and> wr_page_value r = Some v \<and> wr_page_version r = Some ver"
  using assms by (auto simp: record_applied_def record_shape_valid_def)

lemma repaired_store_grows: "store_le store (repaired_store m r store)"
proof (cases "installs m store r")
  case True
  then show ?thesis
    unfolding repaired_store_eq
    by (auto simp: installs_def store_reaches_def intro!: store_le_insert)
qed (simp add: repaired_store_eq store_le_refl)

lemma repaired_store_reaches:
  "record_applied (m_wal_records m) (m_flush_position m) r \<Longrightarrow>
    store_reaches (repaired_store m r store) (the (wr_page r)) (wr_position r)"
  by (auto simp: repaired_store_def store_reaches_def)

lemma repaired_store_inv:
  assumes "store_inv (m\<lparr>m_page_store := store\<rparr>)" and "repairable m r"
  shows "store_inv (m\<lparr>m_page_store := repaired_store m r store\<rparr>)"
proof (cases "installs m store r")
  case True
  then have applied: "record_applied (m_wal_records m) (m_flush_position m) r"
    by (simp add: installs_def)
  from applied_page_fields [OF this] assms(2) obtain p v ver
    where page: "wr_page r = Some p" "wr_page_value r = Some v" "wr_page_version r = Some ver"
    by (auto simp: repairable_def)
  with applied assms(2)
  have "page_backed (m_wal_records m) (m_flush_position m) p (record_image m r)"
    unfolding page_backed_def repairable_def by fastforce
  with assms(1) True page show ?thesis
    by (auto simp: store_inv_def repaired_store_eq split: if_splits)
qed (use assms in \<open>simp add: repaired_store_eq\<close>)

lemma repair_store_inv:
  assumes "store_inv (m\<lparr>m_page_store := store\<rparr>)" and "\<forall>r \<in> set rs. repairable m r"
  shows "store_inv (m\<lparr>m_page_store := repair_store m rs store\<rparr>)"
  using assms by (induction rs arbitrary: store) (auto intro: repaired_store_inv)

lemma repair_store_grows: "store_le store (repair_store m rs store)"
  by (induction rs arbitrary: store)
    (auto intro: store_le_refl store_le_trans [OF repaired_store_grows])

lemma repair_store_reaches:
  assumes "r \<in> set rs" and "record_applied (m_wal_records m) (m_flush_position m) r"
  shows "store_reaches (repair_store m rs store) (the (wr_page r)) (wr_position r)"
  using assms
proof (induction rs arbitrary: store)
  case (Cons x rs)
  show ?case
  proof (cases "r = x")
    case True
    with Cons.prems(2) show ?thesis
      using store_reaches_mono [OF repaired_store_reaches repair_store_grows] by simp
  next
    case False
    with Cons show ?thesis by simp
  qed
qed simp

section \<open>Repair\<close>

lemma durable_records_filter:
  assumes "sorted_wrt (<) (map wr_position rs)"
  shows "takeWhile (\<lambda>r. covered_by f (wr_position r)) rs = filter (\<lambda>r. covered_by f (wr_position r)) rs"
  using assms
proof (induction rs)
  case (Cons r rs)
  have "filter (\<lambda>r. covered_by f (wr_position r)) rs = []" if "\<not> covered_by f (wr_position r)"
    using Cons.prems that covered_by_le [of f] by (auto simp: filter_empty_conv dest: less_imp_le)
  with Cons show ?case by auto
qed simp

lemma durable_records_set:
  assumes "wal_inv m"
  shows "r \<in> set (durable_wal_records m) \<longleftrightarrow>
    r \<in> set (m_wal_records m) \<and> covered_by (m_flush_position m) (wr_position r)"
  using durable_records_filter [of "m_wal_records m"] assms
  by (auto simp: durable_wal_records_def wal_inv_def)

lemma plan_repairable:
  assumes "wal_inv m"
  shows "\<forall>r \<in> set (replay_records m). repairable m r"
  using assms
  by (auto simp: replay_records_def durable_wal_records_def wal_inv_def repairable_def
      dest!: set_takeWhileD)

text \<open>
  Every page of the selected checkpoint is already in the store at a position at least as new,
  so the first loop installs nothing.
\<close>

lemma checkpoint_pages_installed:
  assumes "\<forall>(p, s) \<in> set pages. store_reaches (m_page_store m) p (ps_written_at s)"
  shows "op_loop repair_checkpoint_page pages n m = (Inr n, m)"
  using assms
  by (induction pages) (auto simp: repair_checkpoint_page_def store_reaches_def)

lemma checkpoint_pages_reached:
  "checkpoint_inv m cp \<Longrightarrow>
    \<forall>(p, s) \<in> set (cp_pages cp). store_reaches (m_page_store m) p (ps_written_at s)"
  by (auto simp: checkpoint_inv_def store_le_def bt_get_iff [symmetric])

lemma repair_inner_eq:
  assumes "model_inv m" and "m_phase m = PhReplayPlanned"
  shows "repair_pages_inner m = op_loop repair_record (replay_records m) 0 m"
proof -
  note parts = model_invD [OF assms(1)]
  have plan: "m_replay_plan m = Some (replay_records m)"
    using parts(5) assms(2) by (simp add: recovery_inv_def)
  show ?thesis
  proof (cases "m_selected_checkpoint m")
    case None
    with plan show ?thesis by (simp add: repair_pages_inner_def)
  next
    case (Some cp)
    with parts(4) have "checkpoint_inv m cp" by (simp add: checkpoints_inv_def)
    with plan Some show ?thesis
      using checkpoint_pages_installed [OF checkpoint_pages_reached] by (simp add: repair_pages_inner_def)
  qed
qed

text \<open>The records the plan leaves out are already reached by the store.\<close>

lemma repaired_complete:
  assumes "model_inv m"
  shows "store_complete (m\<lparr>m_page_store := repair_store m (replay_records m) (m_page_store m)\<rparr>)"
    (is "store_complete ?m")
proof -
  note parts = model_invD [OF assms]
  have "store_reaches (m_page_store ?m) p (wr_position r)"
    if r: "r \<in> set (m_wal_records m)" "wr_page r = Some p"
      and applied: "record_applied (m_wal_records m) (m_flush_position m) r" for r p
  proof (cases "needs_replay (m_selected_checkpoint m) (wr_position r)")
    case True
    have dur: "covered_by (m_flush_position m) (wr_position r)"
      using applied by (simp add: record_applied_def)
    have "r \<in> set (durable_wal_records m)"
      using parts(1) r(1) dur durable_records_set by simp
    with True r(2) applied show ?thesis
      using repair_store_reaches [of r "replay_records m" m] by (simp add: replay_records_def)
  next
    case False
    then obtain cp where cp: "m_selected_checkpoint m = Some cp"
      by (cases "m_selected_checkpoint m") (auto simp: needs_replay_def)
    with parts(4) have "checkpoint_inv m cp" by (simp add: checkpoints_inv_def)
    with False cp r applied have "store_reaches (m_page_store m) p (wr_position r)"
      by (auto simp: checkpoint_inv_def page_kind_def record_applied_def)
    then show ?thesis using store_reaches_mono [OF _ repair_store_grows] by simp
  qed
  then show ?thesis by (simp add: store_complete_def)
qed

lemma store_only_inv:
  assumes inv: "model_inv m" and phase: "m_phase m = PhReplayPlanned"
    and k: "k \<le> length (replay_records m)"
    and st: "st = repair_store m (take k (replay_records m)) (m_page_store m)"
  shows "model_inv (m\<lparr>m_page_store := st\<rparr>)"
    and "k = length (replay_records m) \<Longrightarrow> model_inv (m\<lparr>m_page_store := st, m_phase := PhPagesRepaired\<rparr>)"
proof -
  note parts = model_invD [OF inv]
  have le: "store_le (m_page_store m) st" unfolding st by (rule repair_store_grows)
  have ok: "\<forall>r \<in> set (take k (replay_records m)). repairable m r"
    using plan_repairable [OF parts(1)] set_take_subset by fast
  have store: "store_inv (m\<lparr>m_page_store := st\<rparr>)"
    unfolding st using repair_store_inv [OF _ ok, of "m_page_store m"] parts(3) by simp
  have cps: "checkpoint_inv (m\<lparr>m_page_store := st\<rparr>) cp" if "checkpoint_inv m cp" for cp
    using that store_reaches_mono [OF _ le] store_le_trans [OF _ le] by (simp add: checkpoint_inv_def)
  have absent: "m_wal_candidate m = WalAbsent" using candidate_absent [OF parts(6)] phase by simp
  have "wal_inv (m\<lparr>m_page_store := st\<rparr>)" using parts(1) by (simp add: wal_inv_def below_next_def)
  moreover have "txn_inv (m\<lparr>m_page_store := st\<rparr>)" using parts(2) by (simp add: txn_inv_def id_spent_def)
  moreover have "checkpoints_inv (m\<lparr>m_page_store := st\<rparr>)"
    using parts(4) cps by (simp add: checkpoints_inv_def)
  moreover have "recovery_inv (m\<lparr>m_page_store := st\<rparr>)"
    using parts(5) phase by (simp add: recovery_inv_def replay_records_def durable_wal_records_def)
  moreover have "candidate_inv (m\<lparr>m_page_store := st\<rparr>)"
    using absent by (simp add: candidate_inv_def)
  ultimately show first: "model_inv (m\<lparr>m_page_store := st\<rparr>)" using store by (simp add: model_inv_def)
  assume "k = length (replay_records m)"
  then have complete: "store_complete (m\<lparr>m_page_store := st, m_phase := PhPagesRepaired\<rparr>)"
    using repaired_complete [OF inv] st by (simp add: store_complete_def)
  show "model_inv (m\<lparr>m_page_store := st, m_phase := PhPagesRepaired\<rparr>)"
  proof (rule core_fields_inv [OF first])
    show "txn_inv (m\<lparr>m_page_store := st, m_phase := PhPagesRepaired\<rparr>)"
      using parts(2) by (simp add: txn_inv_def id_spent_def)
    show "recovery_inv (m\<lparr>m_page_store := st, m_phase := PhPagesRepaired\<rparr>)"
      using complete parts(5) phase
      by (simp add: recovery_inv_def replay_records_def durable_wal_records_def)
  qed (use model_invD(4) [OF first] absent in
    \<open>auto simp: same_core_def checkpoints_inv_def intro: candidate_inv_absent\<close>)
qed

lemma repair_inner_result:
  assumes "model_inv m" and "m_phase m = PhReplayPlanned" and "repair_pages_inner m = (res, m')"
  obtains k where "k \<le> length (replay_records m)"
    and "m' = m\<lparr>m_page_store := repair_store m (take k (replay_records m)) (m_page_store m)\<rparr>"
    and "\<And>x. res = Inr x \<Longrightarrow> k = length (replay_records m)"
    and "\<And>e. res = Inl e \<Longrightarrow> e = RepairCountExhausted"
  using repair_loop_result [OF plan_repairable [OF model_invD(1) [OF assms(1)]],
      of 0 res m'] assms(3)
  unfolding repair_inner_eq [OF assms(1,2)] by blast

lemma repair_pages_inv:
  assumes op: "repair_pages m = (res, m')" and inv: "model_inv m"
  shows "model_inv m'"
proof (cases "m_phase m = PhReplayPlanned")
  case False
  with op inv show ?thesis by (auto simp: repair_pages_def require_phase_def)
next
  case True
  obtain r1 m1 where inner: "repair_pages_inner m = (r1, m1)" by fastforce
  from repair_inner_result [OF inv True inner] obtain k where k: "k \<le> length (replay_records m)"
    "m1 = m\<lparr>m_page_store := repair_store m (take k (replay_records m)) (m_page_store m)\<rparr>"
    "\<And>x. r1 = Inr x \<Longrightarrow> k = length (replay_records m)" by metis
  with op True inner show ?thesis
    using store_only_inv [OF inv True k(1) refl]
    by (cases r1) (auto simp: repair_pages_def require_phase_def)
qed

lemma repair_pages_fault_state: "repair_pages_fault m = (res, m') \<Longrightarrow> m' = m"
  by (auto simp: repair_pages_fault_def require_phase_def split: if_splits)

lemma repair_pages_applied_fault_state:
  "snd (repair_pages_applied_fault m) = snd (repair_pages m)"
  by (auto simp: repair_pages_applied_fault_def repair_pages_def require_phase_def
      split: prod.splits sum.splits if_splits)

lemma repair_pages_applied_fault_inv:
  assumes "repair_pages_applied_fault m = (res, m')" and "model_inv m"
  shows "model_inv m'"
proof -
  obtain r1 m1 where "repair_pages m = (r1, m1)" by fastforce
  with repair_pages_inv [OF this assms(2)] show ?thesis
    using repair_pages_applied_fault_state [of m] assms(1) by simp
qed

section \<open>Restoration and completion\<close>

lemma max_option_max: "max_option x y = max x y"
  by (cases x; cases y) (auto simp: max_option_def max_def)

lemma fresh_epoch_above:
  assumes "(case max_option hw cp_hw of Some h \<Rightarrow> ok_or (checked_add h 1) EpochExhausted
    | None \<Rightarrow> Inr 1) = Inr fresh"
  shows "hw < Some fresh" and "cp_hw < Some fresh" and "fresh \<noteq> 0"
proof -
  have "max hw cp_hw < Some fresh \<and> fresh \<noteq> 0"
    using assms unfolding max_option_max
    by (cases "max hw cp_hw") (auto dest: checked_add_one_less)
  then show "hw < Some fresh" "cp_hw < Some fresh" "fresh \<noteq> 0" by simp_all
qed

lemma restore_transactions_result:
  assumes "restore_transactions m = (res, m')"
  shows "(\<exists>e. res = Inl e \<and> m' = m)
    \<or> (\<exists>fresh active committed plan.
        res = Inr \<lparr>rs_fresh_epoch = fresh, rs_active_transactions = active\<rparr>
      \<and> m_phase m = PhPagesRepaired
      \<and> m_epoch_high_water m < Some fresh
      \<and> m_replay_plan m = Some plan
      \<and> try_fold (restore_record m) (case m_selected_checkpoint m of
               None \<Rightarrow> []
             | Some cp \<Rightarrow> foldl (\<lambda>t (tid, positions). bt_insert tid positions t) []
                 (ts_active (cp_transaction_summary cp)), []) plan = Inr (active, committed)
      \<and> m' = m\<lparr>
            m_current_epoch := Some fresh,
            m_next_epoch := checked_add fresh 1,
            m_next_sequence := Some 1,
            m_epoch_high_water := Some fresh,
            m_active_transactions := [],
            m_persisted_transactions := active,
            m_committed_transactions := committed,
            m_restoration_summary := Some \<lparr>rs_fresh_epoch = fresh, rs_active_transactions = active\<rparr>,
            m_phase := PhTransactionsRestored\<rparr>)"
proof (cases res)
  case (Inl e)
  with assms show ?thesis
    by (auto simp: restore_transactions_def with_result_Inl_iff Let_def split: prod.splits)
next
  case (Inr s)
  with assms show ?thesis
    using fresh_epoch_above(1)
    by (auto simp: restore_transactions_def with_result_Inr_iff Let_def split: prod.splits)
qed

lemma restore_transactions_inv:
  assumes op: "restore_transactions m = (res, m')" and inv: "model_inv m"
  shows "model_inv m'"
proof (cases "m' = m")
  case False
  then obtain fresh active committed where phase: "m_phase m = PhPagesRepaired"
    and up: "m_epoch_high_water m < Some fresh"
    and m': "m' = m\<lparr>
            m_current_epoch := Some fresh,
            m_next_epoch := checked_add fresh 1,
            m_next_sequence := Some 1,
            m_epoch_high_water := Some fresh,
            m_active_transactions := [],
            m_persisted_transactions := active,
            m_committed_transactions := committed,
            m_restoration_summary := Some \<lparr>rs_fresh_epoch = fresh, rs_active_transactions = active\<rparr>,
            m_phase := PhTransactionsRestored\<rparr>"
    using restore_transactions_result [OF op] by blast
  note parts = model_invD [OF inv]
  have absent: "m_wal_candidate m = WalAbsent" using candidate_absent [OF parts(6)] phase by simp
  have below: "txn_epoch t < fresh" if "id_spent m t" for t
    using that up by (metis id_spent_def le_less_trans less_option_Some)
  have spent: "id_spent m' t" if "id_spent m t" for t
    using below [OF that] by (auto simp: m' id_spent_def)
  have fields: "m_wal_records m' = m_wal_records m" "m_next_epoch m' = checked_add fresh 1"
    "m_epoch_high_water m' = Some fresh" "m_current_epoch m' = Some fresh"
    "m_active_transactions m' = []"
    by (simp_all add: m')
  have txn: "txn_inv m'"
    using parts(2) spent unfolding txn_inv_def fields
    by (auto simp: bt_contains_key_def checked_add_one_less(1))
  have complete: "store_complete m"
    using parts(5) phase by (simp add: recovery_inv_def)
  show ?thesis
  proof (rule core_fields_inv [OF inv _ txn])
    show "same_core m m'" by (simp add: m' same_core_def)
    show "recovery_inv m'" using complete by (simp add: m' recovery_inv_def store_complete_def)
    show "candidate_inv m'" using absent by (intro candidate_inv_absent) (simp add: m')
    have same: "m_checkpoint_slot m' = m_checkpoint_slot m"
      "m_selected_checkpoint m' = m_selected_checkpoint m" by (simp_all add: m')
    show "checkpoint_inv m cp" if "m_checkpoint_slot m' = Some cp" for cp
      using parts(4) that same by (simp add: checkpoints_inv_def)
    show "checkpoint_inv m cp" if "m_selected_checkpoint m' = Some cp" for cp
      using parts(4) that same by (simp add: checkpoints_inv_def)
  qed
qed (use inv in simp)

lemma complete_inv:
  assumes op: "complete m = (res, m')" and inv: "model_inv m"
  shows "model_inv m'"
proof (cases "m_phase m = PhTransactionsRestored")
  case False
  with op inv show ?thesis by (auto simp: complete_def require_phase_def)
next
  case True
  note parts = model_invD [OF inv]
  have absent: "m_wal_candidate m = WalAbsent" using candidate_absent [OF parts(6)] True by simp
  have complete: "store_complete m" using parts(5) True by (simp add: recovery_inv_def)
  from op True obtain ev where m': "m' = m\<lparr>m_completion_evidence := Some ev,
      m_locks := locks_all_live, m_phase := PhCompleteLive\<rparr>"
    and ev: "ev_frontier ev = m_flush_position m"
    by (force simp: complete_def require_phase_def)
  have "txn_inv m'" using parts(2) by (simp add: m' txn_inv_def id_spent_def)
  moreover have "recovery_inv m'" using complete ev by (simp add: m' recovery_inv_def store_complete_def)
  ultimately show ?thesis
    by (intro core_fields_inv [OF inv])
      (use parts(4) absent in \<open>auto simp: m' same_core_def checkpoints_inv_def
        intro: candidate_inv_absent\<close>)
qed

end
