(* ===== verification/Recovery_Reclaim_Preserves.thy ===== *)
theory Recovery_Reclaim_Preserves
  imports Recovery_Repair_Preserves
begin

text \<open>
  Retention analysis and reclamation keep the invariant. The floor an analysis records lies at
  or below everything the page store and the checkpoint still need, and the replacement protocol
  is closed into one state change at the rename.
\<close>

section \<open>The retention floor\<close>

definition floor_le :: "wal_position option \<Rightarrow> wal_position \<Rightarrow> bool" where
  "floor_le e p = (\<exists>rf. e = Some rf \<and> rf \<le> p)"

lemma floor_le_simps [simp]: "\<not> floor_le None p" "floor_le (Some q) p \<longleftrightarrow> q \<le> p"
  by (simp_all add: floor_le_def)

lemma floor_le_min [simp]: "floor_le (min_earliest e p) q \<longleftrightarrow> floor_le e q \<or> p \<le> q"
  by (cases e) (auto simp: min_earliest_def min_le_iff_disj)

lemma try_fold_floor:
  assumes "try_fold f e xs = Inr e'"
    and "\<And>x a b. x \<in> set xs \<Longrightarrow> f a x = Inr b \<Longrightarrow> (\<forall>q. floor_le a q \<longrightarrow> floor_le b q) \<and> (\<forall>q \<in> needs x. floor_le b q)"
  shows "(\<forall>q. floor_le e q \<longrightarrow> floor_le e' q) \<and> (\<forall>x \<in> set xs. \<forall>q \<in> needs x. floor_le e' q)"
  using assms
proof (induction xs arbitrary: e)
  case (Cons x xs)
  from Cons.prems(1) obtain b where b: "f e x = Inr b" "try_fold f b xs = Inr e'"
    by (auto simp: and_then_Inr_iff)
  from Cons.IH [OF b(2)] Cons.prems(2) have "(\<forall>q. floor_le b q \<longrightarrow> floor_le e' q)
      \<and> (\<forall>x \<in> set xs. \<forall>q \<in> needs x. floor_le e' q)"
    by (meson list.set_intros(2))
  with Cons.prems(2) [OF _ b(1)] show ?case by auto
qed auto

lemma retain_transaction_floor:
  "retain_transaction m e x = Inr e' \<Longrightarrow>
    (\<forall>q. floor_le e q \<longrightarrow> floor_le e' q) \<and> (\<forall>q \<in> set (take 1 (snd x)). floor_le e' q)"
  by (cases x) (auto simp: retain_transaction_def and_then_Inr_iff split: list.splits)

lemma retain_page_floor:
  "retain_page m cp e s = Inr e' \<Longrightarrow>
    (\<forall>q. floor_le e q \<longrightarrow> floor_le e' q) \<and> (\<forall>q \<in> {ps_written_at s}. floor_le e' q)"
  by (auto simp: retain_page_def and_then_Inr_iff)

text \<open>Everything the analysis keeps: the checkpoint's frontier and replay start, the first
  position of every persisted transaction, and the record behind every stored page.\<close>

lemma retained_floor_covers:
  assumes "retained_floor m cp = Inr e"
  shows "frontier_position (cp_frontier cp) = Some f \<Longrightarrow> floor_le e f"
    and "cp_replay_start cp = Some rs \<Longrightarrow> floor_le e rs"
    and "(t, pos # ps) \<in> set (m_persisted_transactions m) \<Longrightarrow> floor_le e pos"
    and "s \<in> set (bt_values (m_page_store m)) \<Longrightarrow> floor_le e (ps_written_at s)"
    and "m_retained_first m = Some r \<Longrightarrow> floor_le e r"
proof -
  from assms obtain e1 e2 e3 e4 where
    e1: "(case frontier_position (cp_frontier cp) of None \<Rightarrow> Inr None
        | Some frontier \<Rightarrow> and_then (ensure (has_record_at m frontier) (RetentionBoundaryMissing frontier))
              (\<lambda>_. Inr (Some frontier))) = Inr e1" and
    e2: "(case cp_replay_start cp of None \<Rightarrow> Inr e1
        | Some rs \<Rightarrow> and_then (ensure (has_record_at m rs) (RetentionBoundaryMissing rs))
              (\<lambda>_. Inr (min_earliest e1 rs))) = Inr e2" and
    e3: "try_fold (retain_transaction m) e2 (m_persisted_transactions m) = Inr e3" and
    e4: "try_fold (retain_page m cp) e3 (bt_values (m_page_store m)) = Inr e4" and
    e5: "(case m_retained_first m of None \<Rightarrow> Inr e4
      | Some c \<Rightarrow> and_then (ensure (has_record_at m c) (RetentionBoundaryMissing c))
            (\<lambda>_. Inr (min_earliest e4 c))) = Inr e"
    by (auto simp: retained_floor_def and_then_Inr_iff)
  have s5: "floor_le e4 q \<Longrightarrow> floor_le e q" for q
    using e5 by (auto simp: and_then_Inr_iff split: option.splits)
  have s4: "(\<forall>q. floor_le e3 q \<longrightarrow> floor_le e4 q)
      \<and> (\<forall>s \<in> set (bt_values (m_page_store m)). \<forall>q \<in> {ps_written_at s}. floor_le e4 q)"
    by (rule try_fold_floor [OF e4]) (rule retain_page_floor)
  have s3: "(\<forall>q. floor_le e2 q \<longrightarrow> floor_le e3 q)
      \<and> (\<forall>x \<in> set (m_persisted_transactions m). \<forall>q \<in> set (take 1 (snd x)). floor_le e3 q)"
    by (rule try_fold_floor [OF e3]) (rule retain_transaction_floor)
  have s2: "floor_le e1 q \<Longrightarrow> floor_le e2 q" for q
    using e2 by (auto simp: and_then_Inr_iff split: option.splits)
  have up: "floor_le e2 q \<Longrightarrow> floor_le e q" "floor_le e3 q \<Longrightarrow> floor_le e q" for q
    using s3 s4 s5 by blast+
  show "floor_le e f" if f: "frontier_position (cp_frontier cp) = Some f"
  proof -
    from e1 f have "e1 = Some f" by (auto simp: and_then_Inr_iff)
    then have "floor_le e1 f" by simp
    then show ?thesis using s2 up(1) by blast
  qed
  show "cp_replay_start cp = Some rs \<Longrightarrow> floor_le e rs"
    using e2 up by (auto simp: and_then_Inr_iff)
  show "(t, pos # ps) \<in> set (m_persisted_transactions m) \<Longrightarrow> floor_le e pos"
    using s3 up by fastforce
  show "s \<in> set (bt_values (m_page_store m)) \<Longrightarrow> floor_le e (ps_written_at s)"
    using s4 s5 by blast
  show "m_retained_first m = Some r \<Longrightarrow> floor_le e r"
    using e5 by (auto simp: and_then_Inr_iff)
qed

lemma analyze_retention_result:
  assumes "analyze_retention m = (res, m')"
  shows "(\<exists>e. res = Inl e \<and> m' = m)
    \<or> (\<exists>cp floor. res = Inr () \<and> m_phase m = PhCompleteLive
        \<and> require_fresh_completion m = Inr () \<and> m_selected_checkpoint m = Some cp
        \<and> retained_floor m cp = Inr floor
        \<and> m' = m\<lparr>m_retention_analysis := Some
              \<lparr>ra_retained_first = floor, ra_checkpoint_anchor = cp_anchor cp,
               ra_checkpoint_log_id = cp_log_id cp\<rparr>, m_phase := PhRetentionAnalyzed\<rparr>)"
  using assms
  by (cases res)
    (auto simp: analyze_retention_def with_result_Inl_iff with_result_Inr_iff)

lemma store_value_of_get: "bt_get store p = Some s \<Longrightarrow> s \<in> set (bt_values store)"
  by (auto simp: bt_values_def dest!: map_of_SomeD intro: rev_image_eqI)

lemma analyze_retention_inv:
  assumes op: "analyze_retention m = (res, m')" and inv: "model_inv m"
  shows "model_inv m'"
proof (cases "m' = m")
  case False
  then obtain cp floor where phase: "m_phase m = PhCompleteLive"
    and floor: "retained_floor m cp = Inr floor"
    and m': "m' = m\<lparr>m_retention_analysis := Some
              \<lparr>ra_retained_first = floor, ra_checkpoint_anchor = cp_anchor cp,
               ra_checkpoint_log_id = cp_log_id cp\<rparr>, m_phase := PhRetentionAnalyzed\<rparr>"
    using analyze_retention_result [OF op] by blast
  note parts = model_invD [OF inv]
  have absent: "m_wal_candidate m = WalAbsent" using candidate_absent [OF parts(6)] phase by simp
  show ?thesis
  proof (rule core_fields_inv [OF inv])
    show "same_core m m'" by (simp add: m' same_core_def)
    show "txn_inv m'" using parts(2) by (simp add: m' txn_inv_def id_spent_def)
    show "candidate_inv m'" using absent by (intro candidate_inv_absent) (simp add: m')
    have "floor_le floor (ps_written_at s)" if "bt_get (m_page_store m) p = Some s" for p s
      using retained_floor_covers(4) [OF floor store_value_of_get [OF that]] .
    then show "recovery_inv m'"
      using parts(5) phase by (auto simp: m' recovery_inv_def store_complete_def floor_le_def)
  qed (use parts(4) in \<open>simp_all add: m' checkpoints_inv_def\<close>)
qed (use inv in simp)

section \<open>The replacement protocol\<close>

lemma retains_suffix_inv:
  assumes inv: "model_inv m" and ok: "replacement_ok m w"
    and phase: "m_phase m = PhRetentionAnalyzed \<or> m_phase m = PhCrashed"
  shows "model_inv ((install_replacement w m)\<lparr>m_wal_candidate := c, m_locks := l\<rparr>)"
    (is "model_inv ?m")
proof -
  note parts = model_invD [OF inv]
  have ret: "retains m (wp_retained_suffix w)" and hw: "wp_logical_high_water w = m_flush_position m"
    "wp_epoch_high_water w = m_epoch_high_water m"
    using ok by (auto simp: replacement_ok_def)
  let ?s = "wp_retained_suffix w"
  have sub: "set ?s \<subseteq> set (m_wal_records m)" using ret by (simp add: retains_def)
  have fields: "m_wal_records ?m = ?s" "m_flush_position ?m = m_flush_position m"
    "m_logical_high_water ?m = m_flush_position m" "m_next_position ?m = m_next_position m"
    "m_log_id ?m = m_log_id m" "m_lineage_id ?m = m_lineage_id m"
    "m_page_store ?m = m_page_store m" "m_phase ?m = m_phase m"
    "m_selected_checkpoint ?m = m_selected_checkpoint m"
    "m_checkpoint_slot ?m = m_checkpoint_slot m"
    "m_checkpoint_candidate ?m = m_checkpoint_candidate m" "m_wal_candidate ?m = c"
    "m_current_epoch ?m = m_current_epoch m" "m_next_sequence ?m = m_next_sequence m"
    "m_active_transactions ?m = m_active_transactions m"
    "m_epoch_high_water ?m = m_epoch_high_water m" "m_next_epoch ?m = m_next_epoch m"
    "m_completion_evidence ?m = m_completion_evidence m"
    "m_retention_analysis ?m = m_retention_analysis m"
    by (simp_all add: install_replacement_def hw)
  have "\<exists>r \<in> set ?s. wr_position r = fp" if "?s \<noteq> []" "m_flush_position m = Some fp" for fp
    using ret that last_in_set by (fastforce simp: retains_def last_position_def)
  then have last: "?s = [] \<or> (\<exists>r \<in> set ?s. wr_position r = fp)"
    if "m_flush_position m = Some fp" for fp
    using that by blast
  have "sorted_wrt (<) (map wr_position ?s)" using ret by (simp add: retains_def)
  moreover have "\<forall>r \<in> set ?s. wr_log_id r = m_log_id m \<and> wr_lineage_id r = m_lineage_id m
      \<and> record_shape_valid r \<and> below_next m (wr_position r)"
    using parts(1) sub unfolding wal_inv_def by blast
  moreover have "below_next m fp" if "m_flush_position m = Some fp" for fp
    using parts(1) that by (simp add: wal_inv_def)
  ultimately have "wal_inv ?m"
    using last unfolding wal_inv_def fields below_next_def by fastforce
  moreover have "txn_inv ?m"
    using parts(2) sub unfolding txn_inv_def fields id_spent_def by blast
  moreover have "store_inv ?m"
    using parts(3) ret unfolding store_inv_def fields retains_def by blast
  moreover have "checkpoint_inv ?m cp" if "checkpoint_inv m cp" for cp
    using that sub unfolding checkpoint_inv_def fields by blast
  then have "checkpoints_inv ?m" using parts(4) unfolding checkpoints_inv_def fields by blast
  moreover have "store_complete ?m" if "store_complete m"
    using that sub record_applied_mono [OF _ sub order_refl]
    unfolding store_complete_def fields by blast
  then have "recovery_inv ?m"
    using parts(5) phase unfolding recovery_inv_def fields by auto
  moreover have "candidate_inv ?m" using phase unfolding candidate_inv_def fields by auto
  ultimately show ?thesis by (simp add: model_inv_def)
qed

lemma candidate_fields_inv:
  assumes inv: "model_inv m" and phase: "m_phase m = PhRetentionAnalyzed \<or> m_phase m = PhCrashed"
  shows "model_inv (m\<lparr>m_wal_candidate := c, m_locks := l\<rparr>)" (is "model_inv ?m")
proof -
  note parts = model_invD [OF inv]
  show ?thesis
  proof (rule core_fields_inv [OF inv])
    show "same_core m ?m" by (simp add: same_core_def)
    show "txn_inv ?m" using parts(2) by (simp add: txn_inv_def id_spent_def)
    show "recovery_inv ?m" using parts(5) phase by (auto simp: recovery_inv_def store_complete_def)
    show "candidate_inv ?m" using phase by (auto simp: candidate_inv_def)
  qed (use parts(4) in \<open>simp_all add: checkpoints_inv_def\<close>)
qed

text \<open>The same for the WAL: the rename may only install a replacement that keeps what is needed.\<close>

definition wal_rename_ok :: "recovery_model \<Rightarrow> bool" where
  "wal_rename_ok m \<longleftrightarrow>
     (\<forall>w e. m_wal_candidate m = WalPresent w BeforeRename e \<longrightarrow> replacement_ok m w)"

lemma advance_wal_candidate_inv:
  assumes op: "advance_wal_candidate m = (res, m')" and ok: "wal_rename_ok m" and inv: "model_inv m"
  shows "model_inv m'"
proof (cases "m_wal_candidate m")
  case WalAbsent
  with op inv show ?thesis by (simp add: advance_wal_candidate_def)
next
  case (WalPresent w stage e)
  with model_invD(6) [OF inv]
  have phase: "m_phase m = PhRetentionAnalyzed \<or> m_phase m = PhCrashed"
    by (auto simp: candidate_inv_def)
  note keep = candidate_fields_inv [OF inv phase]
  show ?thesis
  proof (cases "stage_next stage")
    case None
    with op inv WalPresent show ?thesis by (simp add: advance_wal_candidate_def)
  next
    case (Some t)
    let ?m1 = "if t = AfterCurrentReplace then install_replacement w m else m"
    have m': "m' = ?m1\<lparr>m_wal_candidate := (if t = AfterDirectorySync then WalAbsent
         else WalPresent w t (wal_entry_at t)),
       m_locks := (if t = AfterDirectorySync
         then (m_locks ?m1)\<lparr>lk_wal_old_inode := Free, lk_wal_new_inode := Free\<rparr> else m_locks ?m1)\<rparr>"
      using op WalPresent Some
      by (cases t) (auto simp: advance_wal_candidate_def Let_def install_replacement_def)
    show ?thesis
    proof (cases "t = AfterCurrentReplace")
      case True
      then have "m' = (install_replacement w m)\<lparr>
          m_wal_candidate := WalPresent w AfterCurrentReplace EntryAbsent,
          m_locks := m_locks (install_replacement w m)\<rparr>"
        using m' by simp
      moreover have "replacement_ok m w"
        using ok WalPresent Some True stage_next_rename [of stage] by (simp add: wal_rename_ok_def)
      ultimately show ?thesis by (simp only:) (rule retains_suffix_inv [OF inv _ phase])
    next
      case False
      then have "m' = m\<lparr>m_wal_candidate := (if t = AfterDirectorySync then WalAbsent
            else WalPresent w t (wal_entry_at t)),
          m_locks := (if t = AfterDirectorySync
            then (m_locks m)\<lparr>lk_wal_old_inode := Free, lk_wal_new_inode := Free\<rparr> else m_locks m)\<rparr>"
        using m' by simp
      also have "model_inv \<dots>"
        by (rule keep)
      finally show ?thesis .
    qed
  qed
qed

section \<open>Reclamation\<close>

text \<open>One replacement stage: the state after it, and the whole protocol as one state change.\<close>

lemma advance_wal_candidate_stage:
  assumes "m_wal_candidate m = WalPresent w s e" and "stage_next s = Some t"
    and "t \<noteq> AfterDirectorySync"
  shows "advance_wal_candidate m = (Inr t,
    (if t = AfterCurrentReplace then install_replacement w m else m)
      \<lparr>m_wal_candidate := WalPresent w t (wal_entry_at t)\<rparr>)"
  using assms by (simp add: advance_wal_candidate_def Let_def)

lemma advance_wal_candidate_last:
  assumes "m_wal_candidate m = WalPresent w DuringDirectorySync e"
  shows "advance_wal_candidate m = (Inr AfterDirectorySync,
    m\<lparr>m_wal_candidate := WalAbsent,
      m_locks := (m_locks m)\<lparr>lk_wal_old_inode := Free, lk_wal_new_inode := Free\<rparr>\<rparr>)"
  using assms by (simp add: advance_wal_candidate_def Let_def)

lemma advance_to_completion_stage:
  assumes "m_wal_candidate m = WalPresent w s e" and "stage_next s = Some t"
    and "t \<noteq> AfterDirectorySync"
  shows "advance_to_completion m = advance_to_completion
    ((if t = AfterCurrentReplace then install_replacement w m else m)
      \<lparr>m_wal_candidate := WalPresent w t (wal_entry_at t)\<rparr>)"
  by (subst advance_to_completion.simps)
    (simp add: advance_wal_candidate_stage [OF assms] assms(3))

lemma install_candidate_commute:
  "install_replacement w (m\<lparr>m_wal_candidate := c\<rparr>) = (install_replacement w m)\<lparr>m_wal_candidate := c\<rparr>"
  by (simp add: install_replacement_def)

lemma advance_to_completion_last:
  assumes "m_wal_candidate m = WalPresent w DuringDirectorySync e"
  shows "advance_to_completion m = (Inr (), m\<lparr>m_wal_candidate := WalAbsent,
      m_locks := (m_locks m)\<lparr>lk_wal_old_inode := Free, lk_wal_new_inode := Free\<rparr>\<rparr>)"
  by (subst advance_to_completion.simps) (simp add: advance_wal_candidate_last [OF assms])

lemma advance_to_completion_eq:
  assumes "m_wal_candidate m = WalPresent w BeforeCleanup e"
  shows "advance_to_completion m = (Inr (), (install_replacement w m)\<lparr>m_wal_candidate := WalAbsent,
      m_locks := (m_locks m)\<lparr>lk_wal_old_inode := Free, lk_wal_new_inode := Free\<rparr>\<rparr>)"
proof -
  have locks: "m_locks (install_replacement w m') = m_locks m'" for m'
    by (simp add: install_replacement_def)
  show ?thesis
    using assms
    by (simp add: advance_to_completion_stage advance_to_completion_last install_candidate_commute locks)
qed

text \<open>The replacement a reclamation builds, with the checks that precede it.\<close>

definition reclaim_replacement :: "recovery_model \<Rightarrow> generation \<Rightarrow> retention_analysis \<Rightarrow> wal_replacement" where
  "reclaim_replacement m g ra =
     \<lparr>wp_target_generation = g,
      wp_anchor = ra_checkpoint_anchor ra,
      wp_retained_suffix = retained_suffix_of m (ra_retained_first ra),
      wp_retained_first = ra_retained_first ra,
      wp_format_version = generation_format_version,
      wp_logical_high_water = m_logical_high_water m,
      wp_epoch_high_water = m_epoch_high_water m\<rparr>"

definition reclaimable :: "recovery_model \<Rightarrow> retention_analysis \<Rightarrow> bool" where
  "reclaimable m ra \<longleftrightarrow> m_phase m = PhRetentionAnalyzed
   \<and> (m_wal_records m = [] \<or> last_position (m_wal_records m) = m_flush_position m)
   \<and> m_retention_analysis m = Some ra \<and> m_wal_candidate m = WalAbsent"

lemma retained_suffix_sorted_last:
  assumes "wal_inv m" and "retained_suffix_of m rf \<noteq> []"
  shows "last_position (retained_suffix_of m rf) = last_position (m_wal_records m)"
proof -
  from assms(2) obtain p where rf: "rf = Some p"
    and ne: "filter (\<lambda>r. p \<le> wr_position r) (m_wal_records m) \<noteq> []"
    by (auto simp: retained_suffix_of_def split: option.splits)
  then obtain r where "r \<in> set (m_wal_records m)" "p \<le> wr_position r"
    by (auto simp: filter_empty_conv)
  then have "m_wal_records m \<noteq> []" and "p \<le> wr_position (last (m_wal_records m))"
    using sorted_le_last [of "m_wal_records m" r] assms(1) by (auto simp: wal_inv_def)
  moreover have "last (filter P xs) = last xs" if "xs \<noteq> []" "P (last xs)" for P and xs :: "wal_record list"
    using that by (cases xs rule: rev_cases) auto
  ultimately show ?thesis using ne rf by (auto simp: retained_suffix_of_def last_position_def)
qed

lemma reclaim_replacement_ok:
  assumes inv: "model_inv m" and ra: "reclaimable m ra"
  shows "replacement_ok m (reclaim_replacement m g ra)"
proof -
  note parts = model_invD [OF inv]
  let ?s = "retained_suffix_of m (ra_retained_first ra)"
  have sub: "set ?s \<subseteq> set (m_wal_records m)"
    by (auto simp: retained_suffix_of_def split: option.splits)
  have "sorted_wrt (<) (map wr_position ?s)"
    using parts(1) sorted_wrt_filter [of "\<lambda>a b. wr_position a < wr_position b" "m_wal_records m"]
    by (simp add: wal_inv_def sorted_wrt_map retained_suffix_of_def split: option.split)
  moreover have "covered_by (m_flush_position m) (wr_position r)" if "r \<in> set ?s" for r
  proof -
    have "r \<in> set (m_wal_records m)" using that sub by blast
    then have "wr_position r \<le> wr_position (last (m_wal_records m))" "m_wal_records m \<noteq> []"
      using sorted_le_last parts(1) by (auto simp: wal_inv_def)
    moreover from this(2) ra have "m_flush_position m = Some (wr_position (last (m_wal_records m)))"
      by (simp add: reclaimable_def last_position_def)
    ultimately show ?thesis by simp
  qed
  moreover have "last_position ?s = m_flush_position m" if "?s \<noteq> []"
    using retained_suffix_sorted_last [OF parts(1) that] that sub ra by (auto simp: reclaimable_def)
  moreover have "page_backed ?s (m_flush_position m) p s" if s: "bt_get (m_page_store m) p = Some s" for p s
  proof -
    from parts(5) ra s obtain rf where rf: "ra_retained_first ra = Some rf" "rf \<le> ps_written_at s"
      by (fastforce simp: recovery_inv_def reclaimable_def)
    from parts(3) s obtain r where r: "r \<in> set (m_wal_records m)"
      "record_applied (m_wal_records m) (m_flush_position m) r" "wr_page r = Some p"
      "wr_position r = ps_written_at s" "wr_page_value r = Some (ps_value s)"
      "wr_page_version r = Some (ps_version s)"
      by (auto simp: store_inv_def page_backed_def)
    have kept: "x \<in> set ?s" if "x \<in> set (m_wal_records m)" "rf \<le> wr_position x" for x
      using that rf(1) by (simp add: retained_suffix_of_def)
    have later: "wr_position r < wr_position c"
      if "c \<in> set (m_wal_records m)" "wr_kind r = TransactionPage" "wr_kind c = TransactionCommit"
        "wr_transaction c = wr_transaction r" for c
      using parts(2) r(1) that unfolding txn_inv_def by blast
    have "record_applied ?s (m_flush_position m) r"
      using r(2) rf(2) r(4) kept later unfolding record_applied_def
      by (metis order_trans less_imp_le)
    moreover have "r \<in> set ?s" using kept r(1,4) rf(2) by simp
    ultimately show ?thesis using r(3-6) unfolding page_backed_def by blast
  qed
  ultimately show ?thesis
    using sub parts(1)
    by (simp add: replacement_ok_def retains_def reclaim_replacement_def wal_inv_def)
qed

lemma begin_wal_candidate_result:
  assumes "begin_wal_candidate w m = (res, m')"
  shows "(\<exists>e. res = Inl e \<and> m' = m)
    \<or> res = Inr () \<and> m_phase m = PhRetentionAnalyzed
      \<and> generation_checked_next (m_wal_generation m) = Some (wp_target_generation w)
      \<and> m' = m\<lparr>m_locks := (m_locks m)\<lparr>lk_wal_old_inode := Live, lk_wal_new_inode := Live\<rparr>,
             m_wal_candidate := WalPresent w BeforeCleanup EntryAbsent\<rparr>"
  using assms
  by (cases res) (auto simp: begin_wal_candidate_def with_result_Inl_iff with_result_Inr_iff)

lemma complete_begun_replacement:
  "advance_to_completion (m\<lparr>m_locks := (m_locks m)\<lparr>lk_wal_old_inode := Live, lk_wal_new_inode := Live\<rparr>,
      m_wal_candidate := WalPresent w BeforeCleanup EntryAbsent, m_retention_analysis := None\<rparr>)
   = (Inr (), (install_replacement w m)
        \<lparr>m_retention_analysis := None, m_wal_candidate := WalAbsent,
         m_locks := (m_locks m)\<lparr>lk_wal_old_inode := Free, lk_wal_new_inode := Free\<rparr>\<rparr>)"
  by (simp add: advance_to_completion_eq install_replacement_def)

definition finish_reclaim :: "generation \<Rightarrow> wal_replacement \<Rightarrow> generation model_op" where
  "finish_reclaim g w m =
     (case begin_wal_candidate w m of
        (Inl e, m1) \<Rightarrow> (Inl e, m1)
      | (Inr _, m1) \<Rightarrow>
          (case advance_to_completion (m1\<lparr>m_retention_analysis := None\<rparr>) of
             (Inl e, m2) \<Rightarrow> (Inl e, m2)
           | (Inr _, m2) \<Rightarrow> (Inr g, m2\<lparr>m_phase := PhReclaimed\<rparr>)))"

lemma finish_reclaim_result:
  assumes "finish_reclaim g w m = (res, m')"
  shows "(\<exists>e. res = Inl e \<and> m' = m)
    \<or> res = Inr g \<and> m' = (install_replacement w m)
        \<lparr>m_retention_analysis := None, m_wal_candidate := WalAbsent,
         m_locks := (m_locks m)\<lparr>lk_wal_old_inode := Free, lk_wal_new_inode := Free\<rparr>,
         m_phase := PhReclaimed\<rparr>"
proof -
  obtain r1 m1 where begun: "begin_wal_candidate w m = (r1, m1)" by fastforce
  from begin_wal_candidate_result [OF this] show ?thesis
    using assms begun complete_begun_replacement [where m = m and w = w]
    by (auto simp: finish_reclaim_def)
qed

lemma reclaim_result:
  assumes "reclaim m = (res, m')"
  shows "(\<exists>e. res = Inl e \<and> m' = m)
    \<or> (\<exists>ra g. res = Inr g \<and> reclaimable m ra
        \<and> generation_checked_next (m_wal_generation m) = Some g
        \<and> m' = (install_replacement (reclaim_replacement m g ra) m)
             \<lparr>m_retention_analysis := None, m_wal_candidate := WalAbsent,
              m_locks := (m_locks m)\<lparr>lk_wal_old_inode := Free, lk_wal_new_inode := Free\<rparr>,
              m_phase := PhReclaimed\<rparr>)"
proof (cases "\<exists>e. res = Inl e \<and> m' = m")
  case False
  obtain ra g where ok: "reclaimable m ra" "generation_checked_next (m_wal_generation m) = Some g"
    and fin: "finish_reclaim g (reclaim_replacement m g ra) m = (res, m')"
  proof (cases res)
    case (Inl e)
    with assms False that show thesis
      unfolding reclaim_def finish_reclaim_def [symmetric]
      by (auto simp: with_result_Inl_iff Let_def reclaimable_def reclaim_replacement_def)
  next
    case (Inr x)
    with assms False that show thesis
      unfolding reclaim_def finish_reclaim_def [symmetric]
      by (auto simp: with_result_Inr_iff Let_def reclaimable_def reclaim_replacement_def)
  qed
  show ?thesis using finish_reclaim_result [OF fin] ok False by blast
qed simp

lemma reclaim_inv:
  assumes op: "reclaim m = (res, m')" and inv: "model_inv m"
  shows "model_inv m'"
proof (cases "m' = m")
  case False
  then obtain ra g where ra: "reclaimable m ra"
    and m': "m' = (install_replacement (reclaim_replacement m g ra) m)
             \<lparr>m_retention_analysis := None, m_wal_candidate := WalAbsent,
              m_locks := (m_locks m)\<lparr>lk_wal_old_inode := Free, lk_wal_new_inode := Free\<rparr>,
              m_phase := PhReclaimed\<rparr>"
    using reclaim_result [OF op] by blast
  let ?m1 = "(install_replacement (reclaim_replacement m g ra) m)\<lparr>m_wal_candidate := WalAbsent,
      m_locks := (m_locks m)\<lparr>lk_wal_old_inode := Free, lk_wal_new_inode := Free\<rparr>\<rparr>"
  have one: "model_inv ?m1"
    by (rule retains_suffix_inv [OF inv reclaim_replacement_ok [OF inv ra]])
      (use ra in \<open>simp add: reclaimable_def\<close>)
  have m'_of: "m' = ?m1\<lparr>m_retention_analysis := None, m_phase := PhReclaimed\<rparr>"
    by (simp add: m')
  show ?thesis
    unfolding m'_of
  proof (rule core_fields_inv [OF one])
    show "txn_inv (?m1\<lparr>m_retention_analysis := None, m_phase := PhReclaimed\<rparr>)"
      using model_invD(2) [OF one] by (simp add: txn_inv_def id_spent_def)
  qed (use model_invD(4) [OF one] in \<open>simp_all add: same_core_def checkpoints_inv_def
      recovery_inv_def candidate_inv_def\<close>)
qed (use inv in simp)

lemma begin_wal_candidate_inv:
  assumes op: "begin_wal_candidate w m = (res, m')" and inv: "model_inv m"
  shows "model_inv m'"
  using begin_wal_candidate_result [OF op]
proof (elim disjE exE conjE)
  assume phase: "m_phase m = PhRetentionAnalyzed"
    and m': "m' = m\<lparr>m_locks := (m_locks m)\<lparr>lk_wal_old_inode := Live, lk_wal_new_inode := Live\<rparr>,
      m_wal_candidate := WalPresent w BeforeCleanup EntryAbsent\<rparr>"
  have "m' = m\<lparr>m_wal_candidate := WalPresent w BeforeCleanup EntryAbsent,
      m_locks := (m_locks m)\<lparr>lk_wal_old_inode := Live, lk_wal_new_inode := Live\<rparr>\<rparr>"
    by (simp add: m')
  also have "model_inv \<dots>"
    by (rule candidate_fields_inv [OF inv]) (simp add: phase)
  finally show ?thesis .
qed (use inv in simp)

end
