(* ===== verification/Recovery_System.thy ===== *)
theory Recovery_System
  imports Recovery_Reclaim_Preserves
begin

text \<open>
  \<open>RecoveryModel\<close> as a transition system. A step is one public operation, with any arguments and
  whatever outcome it has, success or error; the setters that plant a candidate before an open and
  the candidates a caller makes up are among them. Only one thing is asked of a caller: the rename
  stage of a replacement installs its candidate unread, so when a candidate stands right before that
  stage it has to be a checkpoint of this log, or a WAL replacement that keeps what is needed
  (\<open>checkpoint_rename_ok\<close>, \<open>wal_rename_ok\<close>). A published checkpoint and the replacement \<open>reclaim\<close>
  builds are such.
\<close>

inductive model_step :: "recovery_model \<Rightarrow> recovery_model \<Rightarrow> bool" where
  step_epoch: "allocate_coordinator_epoch m = (r1, m') \<Longrightarrow> model_step m m'"
| step_begin: "begin_transaction m = (r2, m') \<Longrightarrow> model_step m m'"
| step_transaction_page: "append_transaction_page t p v ver m = (r3, m') \<Longrightarrow> model_step m m'"
| step_commit: "append_transaction_commit t m = (r3, m') \<Longrightarrow> model_step m m'"
| step_raw_page: "append_raw_page p v ver m = (r3, m') \<Longrightarrow> model_step m m'"
| step_flush: "flush_wal m = (r4, m') \<Longrightarrow> model_step m m'"
| step_write_page: "write_page_store pos m = (r5, m') \<Longrightarrow> model_step m m'"
| step_publish: "publish_checkpoint a m = (r6, m') \<Longrightarrow> model_step m m'"
| step_begin_checkpoint: "begin_checkpoint_candidate cp m = (r6, m') \<Longrightarrow> model_step m m'"
| step_advance_checkpoint: "checkpoint_rename_ok m \<Longrightarrow> advance_checkpoint_candidate m = (r7, m')
    \<Longrightarrow> model_step m m'"
| step_checkpoint_entry: "set_checkpoint_candidate_entry e m = (r6, m') \<Longrightarrow> model_step m m'"
| step_selected_entries: "set_selected_entries_for_open w c m = (r6, m') \<Longrightarrow> model_step m m'"
| step_planted_checkpoint: "set_checkpoint_candidate_for_open cc m = (r6, m') \<Longrightarrow> model_step m m'"
| step_planted_wal: "set_wal_candidate_for_open wc m = (r6, m') \<Longrightarrow> model_step m m'"
| step_crash: "crash m = (r6, m') \<Longrightarrow> model_step m m'"
| step_crash_tail: "crash_preserving_complete_wal_tail m = (r6, m') \<Longrightarrow> model_step m m'"
| step_reopen: "reopen m = (r8, m') \<Longrightarrow> model_step m m'"
| step_select: "select_observed minimal full m = (r6, m') \<Longrightarrow> model_step m m'"
| step_plan: "plan_replay m = (r9, m') \<Longrightarrow> model_step m m'"
| step_repair: "repair_pages m = (r10, m') \<Longrightarrow> model_step m m'"
| step_repair_fault: "repair_pages_fault m = (r6, m') \<Longrightarrow> model_step m m'"
| step_repair_applied_fault: "repair_pages_applied_fault m = (r11, m') \<Longrightarrow> model_step m m'"
| step_restore: "restore_transactions m = (r12, m') \<Longrightarrow> model_step m m'"
| step_complete: "complete m = (r6, m') \<Longrightarrow> model_step m m'"
| step_analyze: "analyze_retention m = (r6, m') \<Longrightarrow> model_step m m'"
| step_begin_replacement: "begin_wal_candidate wp m = (r6, m') \<Longrightarrow> model_step m m'"
| step_advance_wal: "wal_rename_ok m \<Longrightarrow> advance_wal_candidate m = (r7, m') \<Longrightarrow> model_step m m'"
| step_wal_entry: "set_wal_candidate_entry e m = (r6, m') \<Longrightarrow> model_step m m'"
| step_reclaim: "reclaim m = (r13, m') \<Longrightarrow> model_step m m'"

inductive_cases model_stepE: "model_step m m'"

abbreviation model_reachable :: "log_id \<Rightarrow> recovery_model \<Rightarrow> bool" where
  "model_reachable lid \<equiv> reachable_from (\<lambda>m. m = model_new lid) model_step"

lemma model_new_inv: "model_inv (model_new lid)"
  by (simp add: model_new_def model_inv_defs below_next_def bt_contains_key_def retains_def)

lemma set_selected_entries_inv:
  assumes op: "set_selected_entries_for_open w c m = (res, m')" and inv: "model_inv m"
  shows "model_inv m'"
proof (rule checkpoint_fields_inv [OF inv])
  have "m' = m \<or> m' = m\<lparr>m_selected_wal_entry := w, m_selected_checkpoint_entry := c\<rparr>"
    using op by (auto simp: set_selected_entries_for_open_def require_phase_def split: if_splits)
  then show "same_core m m'" "same_txn m m'" "m_phase m' = m_phase m"
    "m_selected_checkpoint m' = m_selected_checkpoint m" "m_replay_plan m' = m_replay_plan m"
    "m_retention_analysis m' = m_retention_analysis m" "m_wal_candidate m' = m_wal_candidate m"
    "\<And>ev. m_completion_evidence m' = Some ev \<Longrightarrow>
      ev_stale ev \<or> m_completion_evidence m' = m_completion_evidence m"
    "\<And>cp. m_checkpoint_slot m' = Some cp \<Longrightarrow> checkpoint_inv m cp"
    using model_invD(4) [OF inv]
    by (auto simp: same_core_def same_txn_def checkpoints_inv_def)
qed

lemma planted_checkpoint_inv:
  assumes "set_checkpoint_candidate_for_open c m = (res, m')" and inv: "model_inv m"
  shows "model_inv m'"
  using assms(1) model_invD(4) [OF inv]
  by (intro checkpoint_fields_inv [OF inv])
    (auto simp: set_checkpoint_candidate_for_open_def require_phase_def same_core_def same_txn_def
      checkpoints_inv_def split: if_splits)

lemma planted_wal_inv:
  assumes op: "set_wal_candidate_for_open c m = (res, m')" and inv: "model_inv m"
  shows "model_inv m'"
proof (cases "m_phase m = PhCrashed")
  case True
  then have "m' = m\<lparr>m_wal_candidate := c, m_locks := m_locks m\<rparr>"
    using op by (auto simp: set_wal_candidate_for_open_def require_phase_def)
  also have "model_inv \<dots>" by (rule candidate_fields_inv [OF inv]) (simp add: True)
  finally show ?thesis .
next
  case False
  with assms show ?thesis by (auto simp: set_wal_candidate_for_open_def require_phase_def)
qed

lemma set_wal_candidate_entry_inv:
  assumes op: "set_wal_candidate_entry e m = (res, m')" and inv: "model_inv m"
  shows "model_inv m'"
proof (cases "m_wal_candidate m")
  case WalAbsent
  with assms show ?thesis by (simp add: set_wal_candidate_entry_def)
next
  case (WalPresent w stage e')
  with model_invD(6) [OF inv]
  have phase: "m_phase m = PhRetentionAnalyzed \<or> m_phase m = PhCrashed"
    by (auto simp: candidate_inv_def)
  have "m' = m\<lparr>m_wal_candidate := WalPresent w stage e, m_locks := m_locks m\<rparr>"
    using op WalPresent by (auto simp: set_wal_candidate_entry_def)
  also have "model_inv \<dots>"
    by (rule candidate_fields_inv [OF inv phase])
  finally show ?thesis .
qed

lemmas operation_invs = allocate_coordinator_epoch_inv begin_transaction_inv
  append_transaction_page_inv append_transaction_commit_inv append_raw_page_inv flush_wal_inv
  write_page_store_inv publish_checkpoint_inv begin_checkpoint_candidate_inv
  advance_checkpoint_candidate_inv set_checkpoint_candidate_entry_inv set_selected_entries_inv
  crash_with_complete_tail_inv reopen_inv select_observed_inv plan_replay_inv repair_pages_inv
  repair_pages_applied_fault_inv restore_transactions_inv complete_inv analyze_retention_inv
  begin_wal_candidate_inv advance_wal_candidate_inv set_wal_candidate_entry_inv reclaim_inv
  planted_checkpoint_inv planted_wal_inv

lemma model_step_inv:
  assumes "model_step m m'" and inv: "model_inv m"
  shows "model_inv m'"
  using assms(1)
proof cases
  case (step_crash r)
  then show ?thesis using crash_with_complete_tail_inv [OF _ inv] by (simp add: crash_def)
next
  case (step_crash_tail r)
  then show ?thesis
    using crash_with_complete_tail_inv [OF _ inv] by (simp add: crash_preserving_complete_wal_tail_def)
next
  case (step_repair_fault r)
  then show ?thesis using repair_pages_fault_state inv by blast
qed (blast intro: operation_invs inv)+

interpretation recovery: invariant_system "\<lambda>m. m = model_new lid" model_step model_inv for lid
  by unfold_locales (auto intro: model_new_inv model_step_inv)

end
