(* ===== verification/Recovery_Display.thy ===== *)
theory Recovery_Display
  imports Recovery_Types Prelude
begin

text \<open>
  The \<open>Display\<close> implementations of the recovery model. Integers print in decimal, a checkpoint
  digest in lower-case hexadecimal; the derived \<open>Debug\<close> output of an optional anchor is written
  out because one error message uses it.
\<close>

section \<open>Identities and records\<close>

definition show_log_id :: "log_id \<Rightarrow> string" where
  "show_log_id l = ''log:'' @ dec (log_id_get l)"

definition show_lineage_id :: "lineage_id \<Rightarrow> string" where
  "show_lineage_id l = ''lineage:'' @ dec (lineage_id_get l)"

definition show_wal_position :: "wal_position \<Rightarrow> string" where
  "show_wal_position p = ''pos:'' @ dec (wal_position_get p)"

definition show_transaction_id :: "transaction_id \<Rightarrow> string" where
  "show_transaction_id t = ''txn:'' @ dec (txn_epoch t) @ '':'' @ dec (txn_sequence t)"

definition show_page_id :: "page_id \<Rightarrow> string" where
  "show_page_id p = ''page:'' @ dec (page_id_get p)"

definition show_generation :: "generation \<Rightarrow> string" where
  "show_generation g = ''gen:'' @ dec (generation_get g)"

definition show_page_version :: "page_version \<Rightarrow> string" where
  "show_page_version v = ''pv:'' @ dec (page_version_get v)"

fun show_wal_record_kind :: "wal_record_kind \<Rightarrow> string" where
  "show_wal_record_kind TransactionPage = ''txn-page''"
| "show_wal_record_kind TransactionCommit = ''txn-commit''"
| "show_wal_record_kind RawPage = ''raw-page''"

definition show_checkpoint_frontier :: "checkpoint_frontier \<Rightarrow> string" where
  "show_checkpoint_frontier f = (case frontier_position f of
     Some p \<Rightarrow> ''frontier:'' @ show_wal_position p
   | None \<Rightarrow> ''frontier:empty'')"

definition show_checkpoint_anchor :: "checkpoint_anchor \<Rightarrow> string" where
  "show_checkpoint_anchor a = ''anchor(v:'' @ dec (ca_version a) @ '',d:'' @ hex (ca_digest a) @ '')''"

definition debug_anchor_option :: "checkpoint_anchor option \<Rightarrow> string" where
  "debug_anchor_option x = (case x of
     None \<Rightarrow> ''None''
   | Some a \<Rightarrow> ''Some(CheckpointAnchor { version: '' @ dec (ca_version a) @ '', digest: ''
       @ dec (ca_digest a) @ '' })'')"

section \<open>Candidates, locks and phases\<close>

fun show_replacement_stage :: "replacement_stage \<Rightarrow> string" where
  "show_replacement_stage BeforeCleanup = ''before-cleanup''"
| "show_replacement_stage AfterCleanup = ''after-cleanup''"
| "show_replacement_stage AfterCreate = ''after-create''"
| "show_replacement_stage AfterWrite = ''after-write''"
| "show_replacement_stage BeforeSync = ''before-sync''"
| "show_replacement_stage AfterSync = ''after-sync''"
| "show_replacement_stage BeforeRename = ''before-rename''"
| "show_replacement_stage AfterCurrentReplace = ''after-current-replace''"
| "show_replacement_stage DuringDirectorySync = ''during-dir-sync''"
| "show_replacement_stage AfterDirectorySync = ''after-dir-sync''"

fun show_candidate_entry :: "candidate_entry \<Rightarrow> string" where
  "show_candidate_entry EntryAbsent = ''absent''"
| "show_candidate_entry EntryValid = ''valid''"
| "show_candidate_entry EntryValidHigher = ''valid-higher''"
| "show_candidate_entry EntryCorrupt = ''corrupt''"
| "show_candidate_entry EntryPartialWrite = ''partial''"
| "show_candidate_entry EntryDanglingSymlink = ''dangling-symlink''"
| "show_candidate_entry EntryInodeAlias = ''inode-alias''"

fun show_checkpoint_candidate_state :: "checkpoint_candidate_state \<Rightarrow> string" where
  "show_checkpoint_candidate_state CpAbsent = ''cp-candidate:absent''"
| "show_checkpoint_candidate_state (CpPresent snapshot stage entry) =
     ''cp-candidate:'' @ show_candidate_entry entry @ ''('' @ show_checkpoint_anchor (cp_anchor snapshot)
       @ '','' @ show_replacement_stage stage @ '')''"

fun show_wal_candidate_state :: "wal_candidate_state \<Rightarrow> string" where
  "show_wal_candidate_state WalAbsent = ''wal-candidate:absent''"
| "show_wal_candidate_state (WalPresent w stage entry) =
     ''wal-candidate:'' @ show_generation (wp_target_generation w) @ '','' @ show_replacement_stage stage"

fun show_lock_ownership :: "lock_ownership \<Rightarrow> string" where
  "show_lock_ownership Free = ''free''"
| "show_lock_ownership Recovery = ''recovery''"
| "show_lock_ownership Live = ''live''"

fun show_recovery_phase :: "recovery_phase \<Rightarrow> string" where
  "show_recovery_phase PhLive = ''live''"
| "show_recovery_phase PhCrashed = ''crashed''"
| "show_recovery_phase PhUnrecovered = ''unrecovered''"
| "show_recovery_phase PhSelected = ''selected''"
| "show_recovery_phase PhReplayPlanned = ''replay-planned''"
| "show_recovery_phase PhPagesRepaired = ''pages-repaired''"
| "show_recovery_phase PhTransactionsRestored = ''txns-restored''"
| "show_recovery_phase PhCompleteLive = ''complete-live''"
| "show_recovery_phase PhRetentionAnalyzed = ''retention-analyzed''"
| "show_recovery_phase PhReclaimed = ''reclaimed''"

section \<open>Errors\<close>

fun show_model_error :: "model_error \<Rightarrow> string" where
  "show_model_error (InvalidPhase current operation) =
     ''invalid phase '' @ show_recovery_phase current @ '' for '' @ operation"
| "show_model_error PositionExhausted = ''WAL position space exhausted''"
| "show_model_error GenerationExhausted = ''generation space exhausted''"
| "show_model_error EpochExhausted = ''epoch space exhausted''"
| "show_model_error SequenceExhausted = ''sequence space exhausted''"
| "show_model_error LineageExhausted = ''lineage space exhausted''"
| "show_model_error (TransactionNotFound t) = ''txn not found: '' @ show_transaction_id t"
| "show_model_error (TransactionAlreadyCommitted t) = ''txn committed: '' @ show_transaction_id t"
| "show_model_error (DuplicateTransactionId t) = ''duplicate txn: '' @ show_transaction_id t"
| "show_model_error NoActiveEpoch = ''no active epoch''"
| "show_model_error (CheckpointAnchorMismatch expected actual) =
     ''anchor mismatch: expected '' @ show_checkpoint_anchor expected @ '', actual ''
       @ debug_anchor_option actual"
| "show_model_error (NoCheckpointForNonzeroGeneration g) =
     ''no checkpoint for nonzero '' @ show_generation g"
| "show_model_error (MissingGenerationAnchor g) =
     ''missing anchor for nonzero '' @ show_generation g"
| "show_model_error ReplacementComplete = ''replacement complete''"
| "show_model_error NoPendingCandidate = ''no pending candidate''"
| "show_model_error (InvalidSelectedOnOpen reason) = ''invalid selected on open: '' @ reason"
| "show_model_error NoFlushPosition = ''no flush position''"
| "show_model_error NoCheckpointForReclamation = ''no checkpoint for reclamation''"
| "show_model_error NoCompletionEvidence = ''no completion evidence''"
| "show_model_error NoRetentionAnalysis = ''no retention analysis''"
| "show_model_error (StaleCompletionEvidence reason) = ''stale completion: '' @ reason"
| "show_model_error RepairFault = ''repair fault''"
| "show_model_error (ForeignLogId expected actual why) =
     ''foreign log: expected '' @ show_log_id expected @ '', got '' @ show_log_id actual
       @ '' ('' @ why @ '')''"
| "show_model_error VolatileSuffixPresent = ''volatile suffix present''"
| "show_model_error (PageNotDurable p) = ''page not durable: '' @ show_page_id p"
| "show_model_error (PageUncommitted p t) =
     ''page '' @ show_page_id p @ '' uncommitted txn '' @ show_transaction_id t"
| "show_model_error (InvalidTransactionIndex index) = ''invalid txn index: '' @ dec_nat index"
| "show_model_error InvalidPageId = ''invalid page id''"
| "show_model_error (DuplicateWalPosition p) = ''duplicate WAL position: '' @ show_wal_position p"
| "show_model_error PageVersionExhausted = ''page version exhausted''"
| "show_model_error (InvalidRecordShape reason) = ''invalid record: '' @ reason"
| "show_model_error (DurableRecordMissing p) = ''durable record missing at '' @ show_wal_position p"
| "show_model_error (RetentionBoundaryMissing p) =
     ''retention boundary missing at '' @ show_wal_position p"
| "show_model_error (PageCheckpointContradiction p) =
     ''checkpoint contradicts current '' @ show_page_id p"
| "show_model_error (PageStoreRegression p current attempted) =
     ''page-store regression for '' @ show_page_id p @ '': current '' @ show_wal_position current
       @ '', attempted '' @ show_wal_position attempted"
| "show_model_error RepairCountExhausted = ''repair count exhausted''"
| "show_model_error (InodeAliasCandidate why) = ''inode alias: '' @ why"
| "show_model_error (MetadataMismatch field) = ''metadata mismatch: '' @ field"
| "show_model_error ForeignSourceMetadata = ''foreign source metadata''"
| "show_model_error (BoundsExceeded field v mx) =
     ''bounds exceeded: '' @ field @ ''='' @ dec v @ '' > '' @ dec mx"
| "show_model_error (SkeletonRequiresMoreCapacity field required allowed) =
     ''skeleton needs '' @ field @ ''='' @ dec required @ '' but allowed='' @ dec allowed"

end
