(* ===== verification/Recovery_Trace.thy ===== *)
theory Recovery_Trace
  imports Recovery_Display Recovery_Retention
begin

unbundle bit_operations_syntax

text \<open>
  Observations of the recovery model and their comparison, trace operations and bounds, the
  deterministic trace generator, the trace runner and the minimal-prefix search.
\<close>

section \<open>Observations\<close>

record durable_record_observation =
  dr_log_id :: log_id
  dr_lineage_id :: lineage_id
  dr_position :: wal_position
  dr_kind :: wal_record_kind
  dr_transaction :: "transaction_id option"
  dr_page :: "page_id option"
  dr_page_value :: "u64 option"
  dr_page_version :: "page_version option"

record page_observation =
  po_log_id :: log_id
  po_lineage_id :: lineage_id
  po_page_id :: page_id
  po_value :: u64
  po_written_at :: wal_position
  po_version :: page_version

record observation =
  ob_log_id :: log_id
  ob_lineage_id :: lineage_id
  ob_phase :: recovery_phase
  ob_wal_generation :: generation
  ob_wal_format_version :: u16
  ob_generation_anchor :: "checkpoint_anchor option"
  ob_current_retained_first :: "wal_position option"
  ob_retained_first :: "wal_position option"
  ob_replacement_logical_high_water :: "wal_position option"
  ob_replacement_epoch_high_water :: "u64 option"
  ob_logical_high_water :: "wal_position option"
  ob_next_logical_position :: "u64 option"
  ob_epoch_high_water :: "u64 option"
  ob_current_epoch :: "u64 option"
  ob_runtime_active_transactions :: transaction_positions
  ob_persisted_transactions :: transaction_positions
  ob_restoration_summary :: "restoration_summary option"
  ob_durable_records :: "durable_record_observation list"
  ob_pages :: "page_observation list"
  ob_checkpoint_slot :: "checkpoint_anchor option"
  ob_checkpoint_slot_lineage :: "lineage_id option"
  ob_checkpoint_slot_frontier :: "checkpoint_frontier option"
  ob_selected_checkpoint :: "checkpoint_anchor option"
  ob_selected_checkpoint_lineage :: "lineage_id option"
  ob_selected_frontier :: "checkpoint_frontier option"
  ob_completion_evidence :: "completion_evidence option"
  ob_checkpoint_candidate :: checkpoint_candidate_state
  ob_wal_candidate :: wal_candidate_state
  ob_has_retention_analysis :: bool
  ob_selected_wal_entry :: selected_entry_state
  ob_selected_checkpoint_entry :: selected_entry_state
  ob_locks :: locks

definition observe_record :: "wal_record \<Rightarrow> durable_record_observation" where
  "observe_record r =
     \<lparr>dr_log_id = wr_log_id r, dr_lineage_id = wr_lineage_id r, dr_position = wr_position r,
      dr_kind = wr_kind r, dr_transaction = wr_transaction r, dr_page = wr_page r,
      dr_page_value = wr_page_value r, dr_page_version = wr_page_version r\<rparr>"

definition observe_page :: "page_snapshot \<Rightarrow> page_observation" where
  "observe_page s =
     \<lparr>po_log_id = ps_log_id s, po_lineage_id = ps_lineage_id s, po_page_id = ps_page_id s,
      po_value = ps_value s, po_written_at = ps_written_at s, po_version = ps_version s\<rparr>"

definition observation_from_model :: "recovery_model \<Rightarrow> observation" where
  "observation_from_model m =
     \<lparr>ob_log_id = m_log_id m,
      ob_lineage_id = m_lineage_id m,
      ob_phase = m_phase m,
      ob_wal_generation = m_wal_generation m,
      ob_wal_format_version = m_wal_format_version m,
      ob_generation_anchor = m_generation_anchor m,
      ob_current_retained_first = first_position (durable_wal_records m),
      ob_retained_first = m_retained_first m,
      ob_replacement_logical_high_water = m_replacement_logical_high_water m,
      ob_replacement_epoch_high_water = m_replacement_epoch_high_water m,
      ob_logical_high_water = m_logical_high_water m,
      ob_next_logical_position = m_next_position m,
      ob_epoch_high_water = m_epoch_high_water m,
      ob_current_epoch = m_current_epoch m,
      ob_runtime_active_transactions = m_active_transactions m,
      ob_persisted_transactions = m_persisted_transactions m,
      ob_restoration_summary = m_restoration_summary m,
      ob_durable_records = map observe_record
        (filter (\<lambda>r. covered_by (m_flush_position m) (wr_position r)) (m_wal_records m)),
      ob_pages = map observe_page (bt_values (m_page_store m)),
      ob_checkpoint_slot = map_option cp_anchor (m_checkpoint_slot m),
      ob_checkpoint_slot_lineage = map_option cp_lineage_id (m_checkpoint_slot m),
      ob_checkpoint_slot_frontier = map_option cp_frontier (m_checkpoint_slot m),
      ob_selected_checkpoint = map_option cp_anchor (m_selected_checkpoint m),
      ob_selected_checkpoint_lineage = map_option cp_lineage_id (m_selected_checkpoint m),
      ob_selected_frontier = map_option cp_frontier (m_selected_checkpoint m),
      ob_completion_evidence = m_completion_evidence m,
      ob_checkpoint_candidate = m_checkpoint_candidate m,
      ob_wal_candidate = m_wal_candidate m,
      ob_has_retention_analysis = (m_retention_analysis m \<noteq> None),
      ob_selected_wal_entry = m_selected_wal_entry m,
      ob_selected_checkpoint_entry = m_selected_checkpoint_entry m,
      ob_locks = m_locks m\<rparr>"

text \<open>
  A contradiction prints both values with their derived \<open>Debug\<close> output. The printer is a
  parameter over the types of value the comparison prints.
\<close>

datatype observed_value =
    OvLogId log_id
  | OvLineage lineage_id
  | OvPhase recovery_phase
  | OvGeneration generation
  | OvU16 u16
  | OvAnchor "checkpoint_anchor option"
  | OvPosition "wal_position option"
  | OvU64 "u64 option"
  | OvTransactions transaction_positions
  | OvRestoration "restoration_summary option"
  | OvRecords "durable_record_observation list"
  | OvPages "page_observation list"
  | OvLineageOption "lineage_id option"
  | OvFrontier "checkpoint_frontier option"
  | OvEvidence "completion_evidence option"
  | OvCheckpointCandidate checkpoint_candidate_state
  | OvWalCandidate wal_candidate_state
  | OvBool bool
  | OvEntry selected_entry_state
  | OvLocks locks

record contradiction =
  ct_field :: string
  ct_expected :: string
  ct_actual :: string

definition show_contradiction :: "contradiction \<Rightarrow> string" where
  "show_contradiction c =
     ct_field c @ '': expected '' @ ct_expected c @ '', got '' @ ct_actual c"

text \<open>The macro \<open>check!\<close>: one contradiction when the two fields differ.\<close>

definition check_field ::
  "(observed_value \<Rightarrow> string) \<Rightarrow> string \<Rightarrow> (observation \<Rightarrow> observed_value) \<Rightarrow> observation \<Rightarrow> observation
     \<Rightarrow> contradiction list" where
  "check_field debug name field a b =
     (if field a \<noteq> field b
      then [\<lparr>ct_field = name, ct_expected = debug (field a), ct_actual = debug (field b)\<rparr>] else [])"

definition check_length :: "string \<Rightarrow> nat \<Rightarrow> nat \<Rightarrow> contradiction list" where
  "check_length name x y =
     (if x \<noteq> y then [\<lparr>ct_field = name, ct_expected = dec_nat x, ct_actual = dec_nat y\<rparr>] else [])"

definition compare_observations ::
  "(observed_value \<Rightarrow> string) \<Rightarrow> observation \<Rightarrow> observation \<Rightarrow> contradiction list" where
  "compare_observations debug a b =
     check_field debug ''log_id'' (OvLogId \<circ> ob_log_id) a b
   @ check_field debug ''lineage_id'' (OvLineage \<circ> ob_lineage_id) a b
   @ check_field debug ''phase'' (OvPhase \<circ> ob_phase) a b
   @ check_field debug ''wal_generation'' (OvGeneration \<circ> ob_wal_generation) a b
   @ check_field debug ''wal_format_version'' (OvU16 \<circ> ob_wal_format_version) a b
   @ check_field debug ''generation_anchor'' (OvAnchor \<circ> ob_generation_anchor) a b
   @ check_field debug ''epoch_high_water'' (OvU64 \<circ> ob_epoch_high_water) a b
   @ check_field debug ''current_epoch'' (OvU64 \<circ> ob_current_epoch) a b
   @ check_field debug ''runtime_active_transactions''
       (OvTransactions \<circ> ob_runtime_active_transactions) a b
   @ check_field debug ''persisted_transactions'' (OvTransactions \<circ> ob_persisted_transactions) a b
   @ check_field debug ''restoration_summary'' (OvRestoration \<circ> ob_restoration_summary) a b
   @ check_field debug ''checkpoint_slot'' (OvAnchor \<circ> ob_checkpoint_slot) a b
   @ check_field debug ''checkpoint_slot_lineage''
       (OvLineageOption \<circ> ob_checkpoint_slot_lineage) a b
   @ check_field debug ''checkpoint_slot_frontier''
       (OvFrontier \<circ> ob_checkpoint_slot_frontier) a b
   @ check_field debug ''selected_checkpoint'' (OvAnchor \<circ> ob_selected_checkpoint) a b
   @ check_field debug ''selected_checkpoint_lineage''
       (OvLineageOption \<circ> ob_selected_checkpoint_lineage) a b
   @ check_field debug ''selected_frontier'' (OvFrontier \<circ> ob_selected_frontier) a b
   @ check_field debug ''completion_evidence'' (OvEvidence \<circ> ob_completion_evidence) a b
   @ check_field debug ''has_retention_analysis'' (OvBool \<circ> ob_has_retention_analysis) a b
   @ check_field debug ''selected_wal_entry'' (OvEntry \<circ> ob_selected_wal_entry) a b
   @ check_field debug ''selected_checkpoint_entry'' (OvEntry \<circ> ob_selected_checkpoint_entry) a b
   @ check_field debug ''locks'' (OvLocks \<circ> ob_locks) a b
   @ check_length ''page_count'' (length (ob_pages a)) (length (ob_pages b))
   @ check_length ''durable_record_count''
       (length (ob_durable_records a)) (length (ob_durable_records b))
   @ (if ob_log_id a = ob_log_id b then
        check_field debug ''current_retained_first'' (OvPosition \<circ> ob_current_retained_first) a b
      @ check_field debug ''retained_first'' (OvPosition \<circ> ob_retained_first) a b
      @ check_field debug ''replacement_logical_high_water''
          (OvPosition \<circ> ob_replacement_logical_high_water) a b
      @ check_field debug ''replacement_epoch_high_water''
          (OvU64 \<circ> ob_replacement_epoch_high_water) a b
      @ check_field debug ''logical_high_water'' (OvPosition \<circ> ob_logical_high_water) a b
      @ check_field debug ''next_logical_position'' (OvU64 \<circ> ob_next_logical_position) a b
      @ check_field debug ''durable_records'' (OvRecords \<circ> ob_durable_records) a b
      @ check_field debug ''pages'' (OvPages \<circ> ob_pages) a b
      @ check_field debug ''checkpoint_candidate''
          (OvCheckpointCandidate \<circ> ob_checkpoint_candidate) a b
      @ check_field debug ''wal_candidate'' (OvWalCandidate \<circ> ob_wal_candidate) a b
      else [])"

section \<open>Trace operations and bounds\<close>

definition hard_max_ops :: u64 where "hard_max_ops = 10000"
definition hard_max_txns :: u64 where "hard_max_txns = 1000"
definition hard_max_pages :: u64 where "hard_max_pages = 10000"
definition hard_max_post_cp_records :: u64 where "hard_max_post_cp_records = 5000"
definition hard_max_crash_cycles :: u64 where "hard_max_crash_cycles = 100"
definition hard_max_local_seeds :: u64 where "hard_max_local_seeds = 100000"

datatype (plugins only: code size) trace_op =
    TAllocateEpoch
  | TBeginTransaction
  | TAppendTransactionPage nat u64 u64 u64
  | TAppendTransactionCommit nat
  | TAppendRawPage u64 u64 u64
  | TFlushWal
  | TWritePageStore nat
  | TPublishCheckpoint checkpoint_anchor
  | TCrash
  | TReopen
  | TSelect
  | TPlanReplay
  | TRepairPages
  | TRepairPagesFault
  | TRepairPagesAppliedFault
  | TRestoreTransactions
  | TComplete
  | TAnalyzeRetention
  | TAnalyzeRetentionExpectStale
  | TReclaim
  | TLiveMutationAfterComplete u64 u64 u64

fun show_trace_op :: "trace_op \<Rightarrow> string" where
  "show_trace_op TAllocateEpoch = ''allocate-epoch''"
| "show_trace_op TBeginTransaction = ''begin-txn''"
| "show_trace_op (TAppendTransactionPage txn_index page _ _) =
     ''append-txn-page(ti:'' @ dec_nat txn_index @ '',p:'' @ dec page @ '')''"
| "show_trace_op (TAppendTransactionCommit txn_index) =
     ''append-commit(ti:'' @ dec_nat txn_index @ '')''"
| "show_trace_op (TAppendRawPage page _ _) = ''append-raw(p:'' @ dec page @ '')''"
| "show_trace_op TFlushWal = ''flush''"
| "show_trace_op (TWritePageStore position_index) =
     ''write-ps(pi:'' @ dec_nat position_index @ '')''"
| "show_trace_op (TPublishCheckpoint anchor) =
     ''publish-cp('' @ show_checkpoint_anchor anchor @ '')''"
| "show_trace_op TCrash = ''crash''"
| "show_trace_op TReopen = ''reopen''"
| "show_trace_op TSelect = ''select''"
| "show_trace_op TPlanReplay = ''plan-replay''"
| "show_trace_op TRepairPages = ''repair''"
| "show_trace_op TRepairPagesFault = ''repair-fault''"
| "show_trace_op TRepairPagesAppliedFault = ''repair-applied-fault''"
| "show_trace_op TRestoreTransactions = ''restore-txns''"
| "show_trace_op TComplete = ''complete''"
| "show_trace_op TAnalyzeRetention = ''analyze-retention''"
| "show_trace_op TAnalyzeRetentionExpectStale = ''analyze-retention-expect-stale''"
| "show_trace_op TReclaim = ''reclaim''"
| "show_trace_op (TLiveMutationAfterComplete page _ _) = ''live-mutation(p:'' @ dec page @ '')''"

record trace_bounds =
  tb_max_ops :: u64
  tb_max_txns :: u64
  tb_max_pages :: u64
  tb_max_post_checkpoint_records :: u64
  tb_max_crash_cycles :: u64

definition skeleton_min_ops :: u64 where "skeleton_min_ops = 53"
definition skeleton_min_pages :: u64 where "skeleton_min_pages = 2"
definition skeleton_min_crash_cycles :: u64 where "skeleton_min_crash_cycles = 6"

definition check_cap :: "string \<Rightarrow> u64 \<Rightarrow> u64 \<Rightarrow> model_error + unit" where
  "check_cap field v mx = ensure (\<not> v > mx) (BoundsExceeded field v mx)"

definition check_capacity :: "string \<Rightarrow> u64 \<Rightarrow> u64 \<Rightarrow> model_error + unit" where
  "check_capacity field required allowed =
     ensure (\<not> allowed < required) (SkeletonRequiresMoreCapacity field required allowed)"

definition bounds_validate :: "trace_bounds \<Rightarrow> model_error + unit" where
  "bounds_validate b =
     and_then (check_cap ''max_ops'' (tb_max_ops b) hard_max_ops) (\<lambda>_.
     and_then (check_cap ''max_txns'' (tb_max_txns b) hard_max_txns) (\<lambda>_.
     and_then (check_cap ''max_pages'' (tb_max_pages b) hard_max_pages) (\<lambda>_.
     and_then (check_cap ''max_post_checkpoint_records'' (tb_max_post_checkpoint_records b)
       hard_max_post_cp_records) (\<lambda>_.
     and_then (check_cap ''max_crash_cycles'' (tb_max_crash_cycles b) hard_max_crash_cycles) (\<lambda>_.
     and_then (check_capacity ''max_txns'' 1 (tb_max_txns b)) (\<lambda>_.
     and_then (check_capacity ''max_post_checkpoint_records'' 1
       (tb_max_post_checkpoint_records b)) (\<lambda>_.
     and_then (check_capacity ''max_ops'' skeleton_min_ops (tb_max_ops b)) (\<lambda>_.
     and_then (check_capacity ''max_pages'' skeleton_min_pages (tb_max_pages b)) (\<lambda>_.
     check_capacity ''max_crash_cycles'' skeleton_min_crash_cycles
       (tb_max_crash_cycles b))))))))))"

text \<open>\<open>u64::try_from\<close> of a length.\<close>

definition u64_of_length :: "nat \<Rightarrow> u64 option" where
  "u64_of_length n = (if n < 2 ^ 64 then Some (of_nat n) else None)"

record trace_usage =
  tu_transactions :: u64
  tu_crashes :: u64
  tu_pages :: "(u64, unit) btree"
  tu_checkpoint_seen :: bool
  tu_post_checkpoint_records :: u64

definition count_usage :: "string \<Rightarrow> u64 \<Rightarrow> u64 \<Rightarrow> model_error + u64" where
  "count_usage field mx v = ok_or (checked_add v 1) (BoundsExceeded field (- 1) mx)"

definition count_post_record :: "trace_bounds \<Rightarrow> trace_usage \<Rightarrow> model_error + trace_usage" where
  "count_post_record b u =
     (if tu_checkpoint_seen u then
        and_then (count_usage ''trace_post_checkpoint_records'' (tb_max_post_checkpoint_records b)
          (tu_post_checkpoint_records u)) (\<lambda>n. Inr (u\<lparr>tu_post_checkpoint_records := n\<rparr>))
      else Inr u)"

definition count_page :: "trace_bounds \<Rightarrow> trace_usage \<Rightarrow> u64 \<Rightarrow> model_error + trace_usage" where
  "count_page b u page = count_post_record b (u\<lparr>tu_pages := bt_insert page () (tu_pages u)\<rparr>)"

fun count_op :: "trace_bounds \<Rightarrow> trace_usage \<Rightarrow> trace_op \<Rightarrow> model_error + trace_usage" where
  "count_op b u TBeginTransaction =
     and_then (count_usage ''trace_transactions'' (tb_max_txns b) (tu_transactions u))
       (\<lambda>n. Inr (u\<lparr>tu_transactions := n\<rparr>))"
| "count_op b u TCrash =
     and_then (count_usage ''trace_crashes'' (tb_max_crash_cycles b) (tu_crashes u))
       (\<lambda>n. Inr (u\<lparr>tu_crashes := n\<rparr>))"
| "count_op b u (TAppendTransactionPage _ page _ _) = count_page b u page"
| "count_op b u (TAppendRawPage page _ _) = count_page b u page"
| "count_op b u (TLiveMutationAfterComplete page _ _) = count_page b u page"
| "count_op b u (TAppendTransactionCommit _) = count_post_record b u"
| "count_op b u (TPublishCheckpoint _) =
     Inr (u\<lparr>tu_checkpoint_seen := True, tu_post_checkpoint_records := 0\<rparr>)"
| "count_op b u _ = Inr u"

definition usage_start :: trace_usage where
  "usage_start = \<lparr>tu_transactions = 0, tu_crashes = 0, tu_pages = [], tu_checkpoint_seen = False,
     tu_post_checkpoint_records = 0\<rparr>"

definition validate_trace_against_bounds :: "trace_op list \<Rightarrow> trace_bounds \<Rightarrow> model_error + unit" where
  "validate_trace_against_bounds ops b =
     and_then (ok_or (u64_of_length (length ops)) (BoundsExceeded ''trace_ops'' (- 1) (tb_max_ops b)))
       (\<lambda>op_count.
     and_then (check_cap ''trace_ops'' op_count (tb_max_ops b)) (\<lambda>_.
     and_then (try_fold (count_op b) usage_start ops) (\<lambda>u.
     and_then (ok_or (u64_of_length (length (tu_pages u)))
       (BoundsExceeded ''trace_pages'' (- 1) (tb_max_pages b))) (\<lambda>page_count.
     for_each (\<lambda>(field, v, mx). check_cap field v mx)
       [(''trace_transactions'', tu_transactions u, tb_max_txns b),
        (''trace_pages'', page_count, tb_max_pages b),
        (''trace_crashes'', tu_crashes u, tb_max_crash_cycles b),
        (''trace_post_checkpoint_records'', tu_post_checkpoint_records u,
           tb_max_post_checkpoint_records b)]))))"

section \<open>Trace generation\<close>

definition rng_new :: "u64 \<Rightarrow> u64" where
  "rng_new seed = (if seed = 0 then 1 else seed)"

text \<open>xorshift64; the generator's state and its output are the same word.\<close>

definition rng_next :: "u64 \<Rightarrow> u64 \<times> u64" where
  "rng_next s =
     (let x = s XOR push_bit 13 s;
          y = x XOR drop_bit 7 x;
          z = y XOR push_bit 17 y
      in (z, z))"

definition rng_next_bounded :: "u64 \<Rightarrow> u64 \<Rightarrow> (model_error + u64) \<times> u64" where
  "rng_next_bounded b s =
     (if b = 0 then (Inl (BoundsExceeded ''rng_bound'' 0 0), s)
      else (case rng_next s of (x, s') \<Rightarrow> (Inr (x mod b), s')))"

definition skeleton_trace :: "checkpoint_anchor \<Rightarrow> u64 \<Rightarrow> u64 \<Rightarrow> u64 \<Rightarrow> trace_op list" where
  "skeleton_trace anchor1 pv1 rv1 live_value =
     [TAllocateEpoch, TBeginTransaction,
      TAppendTransactionPage 0 1 pv1 1,
      TAppendTransactionCommit 0,
      TAppendRawPage 2 rv1 1,
      TFlushWal, TWritePageStore 0, TWritePageStore 2,
      TPublishCheckpoint anchor1,
      TCrash, TReopen, TSelect, TPlanReplay, TRepairPagesFault,
      TCrash, TReopen, TSelect, TPlanReplay, TRepairPages, TRestoreTransactions, TComplete,
      TLiveMutationAfterComplete 1 live_value 2,
      TAnalyzeRetentionExpectStale,
      TCrash, TReopen, TSelect, TPlanReplay, TRepairPagesAppliedFault,
      TCrash, TReopen, TSelect, TPlanReplay, TRepairPages, TRestoreTransactions, TComplete,
      TAnalyzeRetention, TReclaim,
      TCrash, TReopen, TSelect, TPlanReplay, TRepairPages, TRestoreTransactions, TComplete,
      TAnalyzeRetention, TReclaim,
      TCrash, TReopen, TSelect, TPlanReplay, TRepairPages, TRestoreTransactions, TComplete]"

text \<open>\<open>Vec::insert\<close>.\<close>

definition insert_at :: "nat \<Rightarrow> 'a \<Rightarrow> 'a list \<Rightarrow> 'a list" where
  "insert_at i x xs = take i xs @ x # drop i xs"

text \<open>One random raw-page append before the first publish, and a flush when there is room.\<close>

definition insert_random_append ::
  "trace_bounds \<Rightarrow> u64 \<times> trace_op list \<Rightarrow> nat \<Rightarrow> model_error + u64 \<times> trace_op list" where
  "insert_random_append b = (\<lambda>(rng, ops) i.
     (case rng_next_bounded (tb_max_pages b) rng of
        (Inl e, _) \<Rightarrow> Inl e
      | (Inr page_raw, rng1) \<Rightarrow>
          and_then (ok_or (checked_add page_raw 1)
            (BoundsExceeded ''generated_page_id'' (tb_max_pages b) hard_max_pages)) (\<lambda>page.
          (case rng_next rng1 of (val, rng2) \<Rightarrow>
          and_then (ok_or (u64_of_length i) PageVersionExhausted) (\<lambda>ver_raw.
          and_then (ok_or (checked_add ver_raw 100) PageVersionExhausted) (\<lambda>ver.
            let ops1 = insert_at 8 (TAppendRawPage page val ver) ops;
                ops2 = (if length ops1 < unat (tb_max_ops b) then insert_at 9 TFlushWal ops1
                        else ops1)
            in Inr (rng2, ops2)))))))"

definition generate_trace :: "u64 \<Rightarrow> trace_bounds \<Rightarrow> model_error + trace_op list" where
  "generate_trace seed b =
     and_then (bounds_validate b) (\<lambda>_.
     (case rng_next (rng_new seed) of (a, rng1) \<Rightarrow>
     (case rng_next rng1 of (pv1, rng2) \<Rightarrow>
     (case rng_next rng2 of (rv1, rng3) \<Rightarrow>
     (case rng_next rng3 of (live_value, rng4) \<Rightarrow>
     let anchor1 = \<lparr>ca_version = 1, ca_digest = ucast a OR 1\<rparr>;
         ops = skeleton_trace anchor1 pv1 rv1 live_value
     in
     and_then (ok_or (u64_of_length (length ops))
       (BoundsExceeded ''generated_ops'' (- 1) (tb_max_ops b))) (\<lambda>used.
     and_then
       (if used < tb_max_ops b then
          let budget = tb_max_ops b - used;
              max_extra = min (budget div 2) 20
          in
          and_then
            (if max_extra = 0 then Inr (0, rng4)
             else and_then (ok_or (checked_add max_extra 1)
                    (BoundsExceeded ''random_extra_ops'' max_extra 20)) (\<lambda>bound.
                  (case rng_next_bounded bound rng4 of
                     (Inl e, _) \<Rightarrow> Inl e
                   | (Inr extra, rng5) \<Rightarrow> Inr (extra, rng5)))) (\<lambda>(extra, rng5).
          and_then (try_fold (insert_random_append b) (rng5, ops) [0..<unat extra])
            (\<lambda>(_, ops'). Inr ops'))
        else Inr ops) (\<lambda>final_ops.
     and_then (validate_trace_against_bounds final_ops b) (\<lambda>_.
     Inr final_ops))))))))"

definition ci_seeds :: "u64 list" where
  "ci_seeds = [1, 42, 100, 12345, 99999]"

definition local_seed_iter :: "u64 \<Rightarrow> model_error + u64 list" where
  "local_seed_iter count =
     and_then (check_cap ''local_seed_count'' count hard_max_local_seeds) (\<lambda>_.
     Inr (map of_nat [0..<unat count]))"

section \<open>Trace execution\<close>

record trace_execution_error =
  te_seed :: u64
  te_op_index :: nat
  te_operation :: string
  te_error :: model_error
  te_prefix :: "string list"

definition join_comma :: "string list \<Rightarrow> string" where
  "join_comma xs = concat (case xs of [] \<Rightarrow> [] | y # ys \<Rightarrow> y # map (\<lambda>s. '', '' @ s) ys)"

definition show_trace_execution_error :: "trace_execution_error \<Rightarrow> string" where
  "show_trace_execution_error e =
     ''trace(seed='' @ dec (te_seed e) @ '',op='' @ dec_nat (te_op_index e) @ '',err=''
       @ show_model_error (te_error e) @ '')'' @ [CHR 0x0A] @ ''prefix: ['' @ join_comma (te_prefix e)
       @ '']''"

record execution =
  ex_model :: recovery_model
  ex_txn_ids :: "transaction_id list"
  ex_page_positions :: "wal_position list"
  ex_page_version_counter :: u64

text \<open>An operation of the trace whose error ends the run.\<close>

definition run_op :: "'a model_op \<Rightarrow> execution \<Rightarrow> ('a \<Rightarrow> execution \<Rightarrow> execution) \<Rightarrow> model_error + execution"
  where "run_op op st k =
     (case op (ex_model st) of
        (Inl e, _) \<Rightarrow> Inl e
      | (Inr x, m) \<Rightarrow> Inr (k x (st\<lparr>ex_model := m\<rparr>)))"

definition push_position :: "wal_position \<Rightarrow> execution \<Rightarrow> execution" where
  "push_position p st = st\<lparr>ex_page_positions := ex_page_positions st @ [p]\<rparr>"

fun execute_op :: "trace_op \<Rightarrow> execution \<Rightarrow> model_error + execution" where
  "execute_op TAllocateEpoch st = run_op allocate_coordinator_epoch st (\<lambda>_ s. s)"
| "execute_op TBeginTransaction st =
     run_op begin_transaction st (\<lambda>id s. s\<lparr>ex_txn_ids := ex_txn_ids s @ [id]\<rparr>)"
| "execute_op (TAppendTransactionPage i page v ver) st =
     and_then (ensure (\<not> i \<ge> length (ex_txn_ids st)) (InvalidTransactionIndex i)) (\<lambda>_.
     and_then (ok_or (page_id_new page) InvalidPageId) (\<lambda>pid.
     run_op (append_transaction_page (ex_txn_ids st ! i) pid v (PageVersion ver)) st push_position))"
| "execute_op (TAppendTransactionCommit i) st =
     and_then (ensure (\<not> i \<ge> length (ex_txn_ids st)) (InvalidTransactionIndex i)) (\<lambda>_.
     run_op (append_transaction_commit (ex_txn_ids st ! i)) st push_position)"
| "execute_op (TAppendRawPage page v ver) st =
     and_then (ok_or (page_id_new page) InvalidPageId) (\<lambda>pid.
     run_op (append_raw_page pid v (PageVersion ver)) st push_position)"
| "execute_op TFlushWal st = run_op flush_wal st (\<lambda>_ s. s)"
| "execute_op (TWritePageStore i) st =
     and_then (ensure (\<not> i \<ge> length (ex_page_positions st)) (InvalidTransactionIndex i)) (\<lambda>_.
     run_op (write_page_store (ex_page_positions st ! i)) st (\<lambda>_ s. s))"
| "execute_op (TPublishCheckpoint anchor) st = run_op (publish_checkpoint anchor) st (\<lambda>_ s. s)"
| "execute_op TCrash st =
     run_op crash st (\<lambda>_ s. s\<lparr>ex_txn_ids := [], ex_page_positions := [],
       ex_page_version_counter := 0\<rparr>)"
| "execute_op TReopen st =
     run_op reopen st (\<lambda>_ s. s\<lparr>ex_page_positions := map wr_position (m_wal_records (ex_model s))\<rparr>)"
| "execute_op TSelect st = run_op select st (\<lambda>_ s. s)"
| "execute_op TPlanReplay st = run_op plan_replay st (\<lambda>_ s. s)"
| "execute_op TRepairPages st = run_op repair_pages st (\<lambda>_ s. s)"
| "execute_op TRepairPagesFault st =
     (case repair_pages_fault (ex_model st) of
        (Inl e, m) \<Rightarrow> if e = RepairFault then Inr (st\<lparr>ex_model := m\<rparr>) else Inl e
      | (Inr _, m) \<Rightarrow> Inl (InvalidPhase (m_phase m) ''repair_fault should have failed''))"
| "execute_op TRepairPagesAppliedFault st =
     (case repair_pages_applied_fault (ex_model st) of
        (AppliedThenError _ _, m) \<Rightarrow> Inr (st\<lparr>ex_model := m\<rparr>)
      | (Unapplied e, m) \<Rightarrow> Inl e
      | (AppOk _, m) \<Rightarrow> Inl (InvalidPhase (m_phase m) ''applied_fault should have error''))"
| "execute_op TRestoreTransactions st = run_op restore_transactions st (\<lambda>_ s. s)"
| "execute_op TComplete st =
     run_op complete st (\<lambda>_ s. s\<lparr>ex_page_version_counter := 0\<rparr>)"
| "execute_op TAnalyzeRetention st = run_op analyze_retention st (\<lambda>_ s. s)"
| "execute_op TAnalyzeRetentionExpectStale st =
     (case analyze_retention (ex_model st) of
        (Inl (StaleCompletionEvidence _), m) \<Rightarrow> Inr (st\<lparr>ex_model := m\<rparr>)
      | (Inl e, m) \<Rightarrow> Inl e
      | (Inr _, m) \<Rightarrow> Inl (InvalidPhase (m_phase m)
          ''retention analysis unexpectedly accepted stale evidence''))"
| "execute_op TReclaim st = run_op reclaim st (\<lambda>_ s. s)"
| "execute_op (TLiveMutationAfterComplete page v ver) st =
     and_then (ok_or (page_id_new page) InvalidPageId) (\<lambda>pid.
     and_then (ok_or (checked_add (ex_page_version_counter st) 1) PageVersionExhausted) (\<lambda>counter.
     (case append_raw_page pid v (PageVersion ver) (ex_model st) of
        (Inl e, _) \<Rightarrow> Inl e
      | (Inr pos, m) \<Rightarrow>
          run_op flush_wal (st\<lparr>ex_model := m, ex_page_version_counter := counter\<rparr>)
            (\<lambda>_ s. push_position pos s))))"

fun execute_from ::
  "u64 \<Rightarrow> trace_op list \<Rightarrow> nat \<Rightarrow> trace_op list \<Rightarrow> execution \<Rightarrow> trace_execution_error + execution"
  where
  "execute_from seed ops i [] st = Inr st"
| "execute_from seed ops i (op # rest) st =
     and_then (map_err (\<lambda>e. \<lparr>te_seed = seed, te_op_index = i, te_operation = show_trace_op op,
         te_error = e, te_prefix = map show_trace_op (take (Suc i) ops)\<rparr>) (execute_op op st)) (\<lambda>st'.
     execute_from seed ops (Suc i) rest st')"

definition hard_bounds :: trace_bounds where
  "hard_bounds = \<lparr>tb_max_ops = hard_max_ops, tb_max_txns = hard_max_txns,
     tb_max_pages = hard_max_pages, tb_max_post_checkpoint_records = hard_max_post_cp_records,
     tb_max_crash_cycles = hard_max_crash_cycles\<rparr>"

definition execution_start :: "log_id \<Rightarrow> execution" where
  "execution_start log_id = \<lparr>ex_model = model_new log_id, ex_txn_ids = [], ex_page_positions = [],
     ex_page_version_counter = 0\<rparr>"

definition execute_trace ::
  "u64 \<Rightarrow> trace_op list \<Rightarrow> log_id \<Rightarrow> trace_execution_error + recovery_model" where
  "execute_trace seed ops log_id =
     and_then (map_err (\<lambda>e. \<lparr>te_seed = seed, te_op_index = 0, te_operation = ''trace-bounds'',
         te_error = e, te_prefix = []\<rparr>) (validate_trace_against_bounds ops hard_bounds)) (\<lambda>_.
     and_then (execute_from seed ops 0 ops (execution_start log_id)) (\<lambda>st.
     Inr (ex_model st)))"

section \<open>Minimal failing prefix\<close>

record prefix_search_error =
  pe_seed :: u64
  pe_op_index :: nat
  pe_error :: model_error
  pe_prefix :: "string list"

definition show_prefix_search_error :: "prefix_search_error \<Rightarrow> string" where
  "show_prefix_search_error e =
     ''prefix-search(seed='' @ dec (pe_seed e) @ '',op='' @ dec_nat (pe_op_index e) @ '',err=''
       @ show_model_error (pe_error e) @ '')'' @ [CHR 0x0A] @ ''prefix: ['' @ join_comma (pe_prefix e)
       @ '']''"

fun find_prefix_from ::
  "u64 \<Rightarrow> trace_op list \<Rightarrow> log_id \<Rightarrow> (recovery_model \<Rightarrow> bool) \<Rightarrow> nat list
     \<Rightarrow> prefix_search_error + nat option" where
  "find_prefix_from seed ops log_id predicate [] = Inr None"
| "find_prefix_from seed ops log_id predicate (len # lens) =
     (case execute_trace seed (take len ops) log_id of
        Inr m \<Rightarrow> if predicate m then Inr (Some len)
                  else find_prefix_from seed ops log_id predicate lens
      | Inl e \<Rightarrow> Inl \<lparr>pe_seed = te_seed e, pe_op_index = te_op_index e, pe_error = te_error e,
                      pe_prefix = te_prefix e\<rparr>)"

definition find_minimal_prefix ::
  "u64 \<Rightarrow> trace_op list \<Rightarrow> log_id \<Rightarrow> (recovery_model \<Rightarrow> bool) \<Rightarrow> prefix_search_error + nat option"
  where "find_minimal_prefix seed ops log_id predicate =
     find_prefix_from seed ops log_id predicate [1..<Suc (length ops)]"

end
