(* ===== verification/Recovery_Trace_Laws.thy ===== *)
theory Recovery_Trace_Laws
  imports Recovery_Trace Recovery_System
begin

text \<open>
  What the trace machinery guarantees: the runner only reaches states of the transition system,
  the generator succeeds on every valid bound, and the prefix search is minimal.
\<close>

section \<open>The runner stays inside the transition system\<close>

lemma run_op_Inr:
  assumes "run_op f st k = Inr st'"
  obtains x m where "f (ex_model st) = (Inr x, m)" and "st' = k x (st\<lparr>ex_model := m\<rparr>)"
  using assms by (auto simp: run_op_def split: prod.splits sum.splits)

lemma push_position_model [simp]: "ex_model (push_position p st) = ex_model st"
  by (simp add: push_position_def)

lemma reach_op:
  assumes "model_reachable lid m" and "model_step m m'"
  shows "model_reachable lid m'"
  using assms by (rule reach_step)

lemma select_step: "select m = (res, m') \<Longrightarrow> model_step m m'"
  unfolding select_def by (rule step_select)

lemma live_mutation_reachable:
  assumes "execute_op (TLiveMutationAfterComplete page v ver) st = Inr st'"
    and "model_reachable lid (ex_model st)"
  shows "model_reachable lid (ex_model st')"
proof -
  from assms(1) obtain pid counter where pid: "page_id_new page = Some pid"
    and counter: "checked_add (ex_page_version_counter st) 1 = Some counter"
    by (auto simp: and_then_Inr_iff)
  obtain r m where rm: "append_raw_page pid v (PageVersion ver) (ex_model st) = (r, m)" by fastforce
  with assms(1) pid counter obtain pos where
    app: "append_raw_page pid v (PageVersion ver) (ex_model st) = (Inr pos, m)"
    and fl: "run_op flush_wal (st\<lparr>ex_model := m, ex_page_version_counter := counter\<rparr>)
        (\<lambda>_ s. push_position pos s) = Inr st'"
    by (cases r) auto
  have "model_reachable lid m" using reach_op [OF assms(2) step_raw_page [OF app]] .
  moreover obtain x m2 where "flush_wal m = (Inr x, m2)" "ex_model st' = m2"
    using run_op_Inr [OF fl] by (metis push_position_model execution.select_convs(1)
        execution.surjective execution.update_convs(1,4))
  ultimately show ?thesis using reach_op step_flush by blast
qed

lemmas op_steps = step_epoch step_begin step_transaction_page step_commit step_raw_page step_flush
  step_write_page step_publish step_crash step_reopen select_step step_plan step_repair
  step_restore step_complete step_analyze step_reclaim

lemma run_op_reachable:
  assumes "run_op f st k = Inr st'" and "model_reachable lid (ex_model st)"
    and "\<And>x m. f (ex_model st) = (Inr x, m) \<Longrightarrow> model_step (ex_model st) m"
    and "\<And>x s. ex_model (k x s) = ex_model s"
  shows "model_reachable lid (ex_model st')"
proof -
  obtain x m where "f (ex_model st) = (Inr x, m)" and st': "st' = k x (st\<lparr>ex_model := m\<rparr>)"
    using run_op_Inr [OF assms(1)] .
  then have "model_step (ex_model st) m" using assms(3) by blast
  with assms(2) have "model_reachable lid m" by (rule reach_op)
  then show ?thesis by (simp add: st' assms(4))
qed

lemma execute_op_reachable:
  assumes "execute_op op st = Inr st'" and "model_reachable lid (ex_model st)"
  shows "model_reachable lid (ex_model st')"
proof (cases op)
  case (TLiveMutationAfterComplete page v ver)
  with assms live_mutation_reachable show ?thesis by blast
next
  case TRepairPagesFault
  obtain r m where "repair_pages_fault (ex_model st) = (r, m)" by fastforce
  with assms(1) TRepairPagesFault reach_op [OF assms(2) step_repair_fault] show ?thesis
    by (auto split: sum.splits if_splits)
next
  case TRepairPagesAppliedFault
  obtain r m where "repair_pages_applied_fault (ex_model st) = (r, m)" by fastforce
  with assms(1) TRepairPagesAppliedFault reach_op [OF assms(2) step_repair_applied_fault]
  show ?thesis by (auto split: applied.splits)
next
  case TAnalyzeRetentionExpectStale
  obtain r m where "analyze_retention (ex_model st) = (r, m)" by fastforce
  with assms(1) TAnalyzeRetentionExpectStale reach_op [OF assms(2) step_analyze] show ?thesis
    by (auto split: sum.splits model_error.splits)
qed (use assms(1) in \<open>auto simp: and_then_Inr_iff intro: op_steps
      elim!: run_op_reachable [OF _ assms(2)]\<close>)

lemma execute_from_reachable:
  "execute_from seed ops i rest st = Inr st' \<Longrightarrow> model_reachable lid (ex_model st) \<Longrightarrow>
    model_reachable lid (ex_model st')"
  by (induction rest arbitrary: i st) (auto simp: and_then_Inr_iff dest: execute_op_reachable)

lemma execute_trace_reachable:
  assumes "execute_trace seed ops lid = Inr m"
  shows "model_reachable lid m"
proof -
  have "model_reachable lid (ex_model (execution_start lid))"
    by (rule reach_start) (simp add: execution_start_def)
  with assms show ?thesis
    by (auto simp: execute_trace_def and_then_Inr_iff dest: execute_from_reachable)
qed

section \<open>Bounds\<close>

lemma check_cap_iff [simp]: "check_cap f v mx = Inr u \<longleftrightarrow> v \<le> mx"
  by (auto simp: check_cap_def not_less)

lemma check_capacity_iff [simp]: "check_capacity f r a = Inr u \<longleftrightarrow> r \<le> a"
  by (auto simp: check_capacity_def not_less)

lemma bounds_validate_iff:
  "bounds_validate b = Inr u \<longleftrightarrow>
     53 \<le> tb_max_ops b \<and> tb_max_ops b \<le> 10000
   \<and> 1 \<le> tb_max_txns b \<and> tb_max_txns b \<le> 1000
   \<and> 2 \<le> tb_max_pages b \<and> tb_max_pages b \<le> 10000
   \<and> 1 \<le> tb_max_post_checkpoint_records b \<and> tb_max_post_checkpoint_records b \<le> 5000
   \<and> 6 \<le> tb_max_crash_cycles b \<and> tb_max_crash_cycles b \<le> 100"
  unfolding bounds_validate_def and_then_Inr_iff check_cap_iff check_capacity_iff
    hard_max_ops_def hard_max_txns_def hard_max_pages_def hard_max_post_cp_records_def
    hard_max_crash_cycles_def skeleton_min_ops_def skeleton_min_pages_def
    skeleton_min_crash_cycles_def
  by blast

section \<open>The generator\<close>

definition generated_op :: "trace_bounds \<Rightarrow> trace_op \<Rightarrow> bool" where
  "generated_op b op \<longleftrightarrow> op = TFlushWal
     \<or> (\<exists>p v w. op = TAppendRawPage p v w \<and> 1 \<le> p \<and> p \<le> tb_max_pages b)"

lemma length_skeleton_trace [simp]: "length (skeleton_trace a p r l) = 53"
  by (simp add: skeleton_trace_def)

lemma rng_bounded_page:
  assumes "2 \<le> tb_max_pages b" and "tb_max_pages b \<le> 10000"
  shows "\<exists>x s'. rng_next_bounded (tb_max_pages b) s = (Inr x, s') \<and> checked_add x 1 = Some (x + 1)
    \<and> 1 \<le> x + 1 \<and> x + 1 \<le> tb_max_pages b"
proof -
  obtain y s' where y: "rng_next s = (y, s')" by fastforce
  let ?x = "y mod tb_max_pages b"
  have nz: "tb_max_pages b \<noteq> 0" using assms(1) by auto
  then have less: "?x < tb_max_pages b"
    by (simp add: word_less_nat_alt unat_mod unat_eq_zero [symmetric] word_neq_0_conv)
  then have "unat ?x < unat (tb_max_pages b)" "unat (tb_max_pages b) \<le> 10000"
    using assms(2) by (simp_all add: word_less_nat_alt word_le_nat_alt)
  then have small: "unat ?x + 1 < 2 ^ 64" by simp
  have sum: "unat (?x + 1) = unat ?x + 1"
    using small by (simp add: unat_plus_if')
  have "checked_add ?x 1 = Some (?x + 1)"
    using sum by (simp add: checked_add_def Let_def word_less_nat_alt)
  moreover have "1 \<le> ?x + 1" "?x + 1 \<le> tb_max_pages b"
    using sum less by (simp_all add: word_le_nat_alt word_less_nat_alt)
  ultimately show ?thesis using y nz by (simp add: rng_next_bounded_def)
qed

text \<open>The inserted operations, between the eighth skeleton operation and the first publish.\<close>

definition generated_trace :: "trace_bounds \<Rightarrow> trace_op list \<Rightarrow> trace_op list \<Rightarrow> nat \<Rightarrow> bool" where
  "generated_trace b skel ops n \<longleftrightarrow>
     (\<exists>xs. ops = take 8 skel @ xs @ drop 8 skel \<and> length xs = n \<and> (\<forall>op \<in> set xs. generated_op b op))"

lemma insert_at_8:
  "length pre = 8 \<Longrightarrow> insert_at 8 x (pre @ xs) = pre @ x # xs"
  by (simp add: insert_at_def)

lemma insert_at_9:
  "length pre = 8 \<Longrightarrow> insert_at 9 y (pre @ x # xs) = pre @ x # y # xs"
  by (simp add: insert_at_def)

lemma insert_random_append_result:
  assumes ok: "bounds_validate b = Inr ()" and gen: "generated_trace b skel ops n"
    and skel: "length skel = 53" and room: "53 + n + 2 \<le> unat (tb_max_ops b)" and i: "i < 100"
  shows "\<exists>rng' ops'. insert_random_append b (rng, ops) i = Inr (rng', ops')
    \<and> generated_trace b skel ops' (n + 2)"
proof -
  from ok have pages: "2 \<le> tb_max_pages b" "tb_max_pages b \<le> 10000"
    by (simp_all add: bounds_validate_iff)
  from rng_bounded_page [OF pages] obtain x s1 where
    x: "rng_next_bounded (tb_max_pages b) rng = (Inr x, s1)" "checked_add x 1 = Some (x + 1)"
    and page: "1 \<le> x + 1" "x + 1 \<le> tb_max_pages b" by blast
  obtain v s2 where v: "rng_next s1 = (v, s2)" by fastforce
  have len: "u64_of_length i = Some (of_nat i)" using i by (simp add: u64_of_length_def)
  have "unat (of_nat i :: u64) = i" using i by (simp add: unat_of_nat)
  with i have "unat ((of_nat i :: u64) + 100) = i + 100" by (simp add: unat_plus_if')
  with \<open>unat (of_nat i :: u64) = i\<close> have ver: "checked_add (of_nat i) (100 :: u64) = Some (of_nat i + 100)"
    by (simp add: checked_add_def Let_def word_less_nat_alt)
  from gen obtain xs where xs: "ops = take 8 skel @ xs @ drop 8 skel" "length xs = n"
    "\<forall>op \<in> set xs. generated_op b op" by (auto simp: generated_trace_def)
  let ?new = "TAppendRawPage (x + 1) v (of_nat i + 100)"
  have pre: "length (take 8 skel) = 8" using skel by simp
  have lt: "length (insert_at 8 ?new ops) < unat (tb_max_ops b)"
    using room skel xs(2) by (simp add: xs(1) insert_at_8 [OF pre])
  have "insert_random_append b (rng, ops) i
      = Inr (s2, take 8 skel @ (?new # TFlushWal # xs) @ drop 8 skel)"
    using x v len ver lt
    by (simp add: insert_random_append_def Let_def xs(1) insert_at_8 [OF pre] insert_at_9 [OF pre])
  moreover have "generated_trace b skel (take 8 skel @ (?new # TFlushWal # xs) @ drop 8 skel) (n + 2)"
    unfolding generated_trace_def
    by (rule exI [of _ "?new # TFlushWal # xs"]) (use xs page in \<open>auto simp: generated_op_def\<close>)
  ultimately show ?thesis by blast
qed

lemma insert_random_appends_result:
  assumes ok: "bounds_validate b = Inr ()" and skel: "length skel = 53"
    and gen: "generated_trace b skel ops n"
    and room: "53 + n + 2 * length is \<le> unat (tb_max_ops b)" and small: "\<forall>i \<in> set is. i < 100"
  shows "\<exists>rng' ops'. try_fold (insert_random_append b) (rng, ops) is = Inr (rng', ops')
    \<and> generated_trace b skel ops' (n + 2 * length is)"
  using gen room small
proof (induction "is" arbitrary: rng ops n)
  case (Cons i "is")
  from insert_random_append_result [OF ok Cons.prems(1) skel, of i rng] Cons.prems(2,3)
  obtain rng1 ops1 where one: "insert_random_append b (rng, ops) i = Inr (rng1, ops1)"
    "generated_trace b skel ops1 (n + 2)" by auto
  from Cons.IH [OF one(2)] Cons.prems(2,3) one(1) show ?case by auto
qed auto

section \<open>Generated traces stay within their bounds\<close>

definition page_keys_ok :: "trace_bounds \<Rightarrow> (u64, unit) btree \<Rightarrow> bool" where
  "page_keys_ok b pages \<longleftrightarrow> bt_wf pages \<and> fst ` set pages \<subseteq> {1..tb_max_pages b}"

lemma page_keys_insert:
  "page_keys_ok b pages \<Longrightarrow> 1 \<le> p \<Longrightarrow> p \<le> tb_max_pages b \<Longrightarrow> page_keys_ok b (bt_insert p () pages)"
  by (simp add: page_keys_ok_def bt_keys_insert)

lemma page_keys_length:
  assumes "page_keys_ok b pages"
  shows "length pages \<le> unat (tb_max_pages b)"
proof -
  have "length pages = card (fst ` set pages)"
    using assms bt_wf_distinct distinct_card [of "map fst pages"]
    by (fastforce simp: page_keys_ok_def)
  also have "\<dots> = card (unat ` fst ` set pages)"
    by (rule card_image [symmetric], rule inj_onI) (simp add: word_unat_eq_iff)
  also have "\<dots> \<le> card {1..unat (tb_max_pages b)}"
    using assms by (intro card_mono)
      (auto simp: page_keys_ok_def word_le_nat_alt dest!: subsetD)
  finally show ?thesis by simp
qed

lemma count_generated_ops:
  assumes "\<forall>op \<in> set xs. generated_op b op" and "page_keys_ok b (tu_pages u)"
    and "\<not> tu_checkpoint_seen u"
  shows "\<exists>pages. try_fold (count_op b) u xs = Inr (u\<lparr>tu_pages := pages\<rparr>) \<and> page_keys_ok b pages"
  using assms
proof (induction xs arbitrary: u)
  case Nil
  then show ?case by (intro exI [of _ "tu_pages u"]) simp
next
  case (Cons op xs)
  from Cons.prems(1) have "generated_op b op" by simp
  then consider "op = TFlushWal"
    | p v w where "op = TAppendRawPage p v w" "1 \<le> p" "p \<le> tb_max_pages b"
    by (auto simp: generated_op_def)
  then show ?case
  proof cases
    case 1
    with Cons show ?thesis by simp
  next
    case 2
    let ?u = "u\<lparr>tu_pages := bt_insert p () (tu_pages u)\<rparr>"
    have "page_keys_ok b (tu_pages ?u)"
      using page_keys_insert [OF Cons.prems(2) 2(2,3)] by simp
    from Cons.IH [OF _ this] Cons.prems(1,3) obtain pages
      where "try_fold (count_op b) ?u xs = Inr (?u\<lparr>tu_pages := pages\<rparr>)" "page_keys_ok b pages"
      by auto
    with 2 Cons.prems(3) show ?thesis by (auto simp: count_page_def count_post_record_def)
  qed
qed

lemma count_usage_small: "v < 100 \<Longrightarrow> count_usage f mx v = Inr (v + 1)"
  by (simp add: count_usage_def checked_add_def Let_def word_less_nat_alt unat_plus_if')

lemma count_skeleton_head:
  "try_fold (count_op b) usage_start (take 8 (skeleton_trace a p r l)) =
     Inr \<lparr>tu_transactions = 1, tu_crashes = 0, tu_pages = [(1, ()), (2, ())],
          tu_checkpoint_seen = False, tu_post_checkpoint_records = 0\<rparr>"
  by (simp add: skeleton_trace_def usage_start_def count_page_def count_post_record_def
      count_usage_small)

lemma count_skeleton_tail:
  "try_fold (count_op b) \<lparr>tu_transactions = 1, tu_crashes = 0, tu_pages = pages,
       tu_checkpoint_seen = False, tu_post_checkpoint_records = 0\<rparr> (drop 8 (skeleton_trace a p r l)) =
     Inr \<lparr>tu_transactions = 1, tu_crashes = 6, tu_pages = bt_insert 1 () pages,
          tu_checkpoint_seen = True, tu_post_checkpoint_records = 1\<rparr>"
  by (simp add: skeleton_trace_def count_page_def count_post_record_def count_usage_small)

lemma generated_trace_valid:
  assumes ok: "bounds_validate b = Inr ()"
    and gen: "generated_trace b (skeleton_trace a p r l) ops n" and room: "53 + n \<le> unat (tb_max_ops b)"
  shows "validate_trace_against_bounds ops b = Inr ()"
proof -
  let ?skel = "skeleton_trace a p r l"
  from gen obtain xs where ops: "ops = take 8 ?skel @ xs @ drop 8 ?skel" and n: "length xs = n"
    and xs: "\<forall>op \<in> set xs. generated_op b op" by (auto simp: generated_trace_def)
  from ok have b: "1 \<le> tb_max_txns b" "2 \<le> tb_max_pages b" "tb_max_pages b \<le> 10000"
    "1 \<le> tb_max_post_checkpoint_records b" "6 \<le> tb_max_crash_cycles b" "tb_max_ops b \<le> 10000"
    by (simp_all add: bounds_validate_iff)
  let ?u0 = "\<lparr>tu_transactions = 1, tu_crashes = 0, tu_pages = [(1, ()), (2, ())],
          tu_checkpoint_seen = False, tu_post_checkpoint_records = 0\<rparr> :: trace_usage"
  have "page_keys_ok b (tu_pages ?u0)"
    using b(2) order_trans [of 1 2 "tb_max_pages b"] by (simp add: page_keys_ok_def bt_wf_def)
  from count_generated_ops [OF xs this] obtain pages
    where mid: "try_fold (count_op b) ?u0 xs = Inr (?u0\<lparr>tu_pages := pages\<rparr>)"
      and keys: "page_keys_ok b pages" by auto
  let ?pages = "bt_insert 1 () pages"
  have count: "try_fold (count_op b) usage_start ops =
     Inr \<lparr>tu_transactions = 1, tu_crashes = 6, tu_pages = ?pages,
          tu_checkpoint_seen = True, tu_post_checkpoint_records = 1\<rparr>"
    using mid by (simp add: ops try_fold_append count_skeleton_head count_skeleton_tail)
  have "page_keys_ok b ?pages"
    using page_keys_insert [OF keys] b(2) order_trans [of 1 2 "tb_max_pages b"] by simp
  then have len: "length ?pages \<le> unat (tb_max_pages b)" by (rule page_keys_length)
  have max_pages: "unat (tb_max_pages b) \<le> 10000" and max_ops: "unat (tb_max_ops b) \<le> 10000"
    using b(3,6) by (simp_all add: word_le_nat_alt)
  have word_of: "u64_of_length k = Some (of_nat k)" "(of_nat k :: u64) \<le> w"
    if "k \<le> unat w" "unat w \<le> 10000" for k and w :: u64
  proof -
    have "k < 2 ^ 64" using that by simp
    then show "u64_of_length k = Some (of_nat k)" by (simp add: u64_of_length_def)
    show "(of_nat k :: u64) \<le> w" using that by (simp add: word_le_nat_alt unat_of_nat)
  qed
  have "length ops = 53 + n" using n by (simp add: ops)
  then have ops_len: "length ops \<le> unat (tb_max_ops b)" using room by simp
  show ?thesis
    using b count word_of [OF len max_pages] word_of [OF ops_len max_ops]
    by (simp add: validate_trace_against_bounds_def and_then_Inr_iff)
qed

lemma rng_bounded_le:
  assumes "bound = mx + 1" and "mx < bound"
  shows "\<exists>x s'. rng_next_bounded bound s = (Inr x, s') \<and> x \<le> mx"
proof -
  obtain y s' where y: "rng_next s = (y, s')" by fastforce
  have nz: "bound \<noteq> 0" using assms(2) by auto
  have "1 + mx \<noteq> 0" using nz assms(1) by (simp add: add.commute)
  then have "unat bound = unat mx + 1" using assms(1) unatSuc [of mx] by (simp add: add.commute)
  moreover have "unat (y mod bound) < unat bound"
    using nz by (simp add: unat_mod unat_eq_zero word_neq_0_conv unat_gt_0)
  ultimately have "y mod bound \<le> mx" by (simp add: word_le_nat_alt)
  with y nz show ?thesis by (simp add: rng_next_bounded_def)
qed

lemma random_extra:
  fixes mx :: u64
  assumes "mx \<le> 20"
  shows "\<exists>extra rng'. (if mx = 0 then Inr (0, rng)
      else and_then (ok_or (checked_add mx 1) (BoundsExceeded ''random_extra_ops'' mx 20)) (\<lambda>bound.
        (case rng_next_bounded bound rng of
           (Inl e, _) \<Rightarrow> Inl e | (Inr extra, rng5) \<Rightarrow> Inr (extra, rng5)))) = Inr (extra, rng')
    \<and> extra \<le> mx"
proof (cases "mx = 0")
  case False
  have "unat mx \<le> 20" using assms by (simp add: word_le_nat_alt)
  then have "unat (mx + 1) = unat mx + 1" by (simp add: unat_plus_if')
  then have up: "mx < mx + 1" by (simp add: word_less_nat_alt)
  then have "checked_add mx 1 = Some (mx + 1)" by (auto simp: checked_add_def Let_def)
  with rng_bounded_le [OF refl up, of rng] False show ?thesis by auto
qed auto

lemma generate_trace_succeeds:
  assumes ok: "bounds_validate b = Inr ()"
  shows "\<exists>ops. generate_trace seed b = Inr ops \<and> validate_trace_against_bounds ops b = Inr ()"
proof -
  obtain a rng1 where r1: "rng_next (rng_new seed) = (a, rng1)" by fastforce
  obtain p rng2 where r2: "rng_next rng1 = (p, rng2)" by fastforce
  obtain r rng3 where r3: "rng_next rng2 = (r, rng3)" by fastforce
  obtain l rng4 where r4: "rng_next rng3 = (l, rng4)" by fastforce
  let ?skel = "skeleton_trace \<lparr>ca_version = 1, ca_digest = ucast a OR 1\<rparr> p r l"
  have gen0: "generated_trace b ?skel ?skel 0"
    unfolding generated_trace_def by (rule exI [of _ "[]"]) simp
  have used: "u64_of_length (length ?skel) = Some 53" by (simp add: u64_of_length_def)
  have min: "53 \<le> unat (tb_max_ops b)" using ok by (simp add: bounds_validate_iff word_le_nat_alt)
  show ?thesis
  proof (cases "53 < tb_max_ops b")
    case False
    have "validate_trace_against_bounds ?skel b = Inr ()"
      by (rule generated_trace_valid [OF ok gen0]) (use min in simp)
    with False ok r1 r2 r3 r4 used show ?thesis by (simp add: generate_trace_def Let_def)
  next
    case True
    let ?mx = "min ((tb_max_ops b - 53) div 2) 20"
    from random_extra [of ?mx rng4] obtain extra rng5 where
      extra: "(if ?mx = 0 then Inr (0, rng4)
        else and_then (ok_or (checked_add ?mx 1) (BoundsExceeded ''random_extra_ops'' ?mx 20)) (\<lambda>bound.
        (case rng_next_bounded bound rng4 of
           (Inl e, _) \<Rightarrow> Inl e | (Inr extra, rng5) \<Rightarrow> Inr (extra, rng5)))) = Inr (extra, rng5)"
      and le: "extra \<le> ?mx" by auto
    have "unat (tb_max_ops b - 53) = unat (tb_max_ops b) - 53"
      using True by (simp add: unat_sub less_imp_le)
    moreover have "extra \<le> (tb_max_ops b - 53) div 2" "extra \<le> 20" using le by simp_all
    ultimately have "unat extra \<le> (unat (tb_max_ops b) - 53) div 2" and "unat extra \<le> 20"
      by (simp_all add: word_le_nat_alt unat_div)
    then have room: "53 + 2 * unat extra \<le> unat (tb_max_ops b)" and small: "unat extra \<le> 20"
      using min by linarith+
    from insert_random_appends_result [OF ok _ gen0, of "[0..<unat extra]" rng5] room small
    obtain rng6 ops where ins: "try_fold (insert_random_append b) (rng5, ?skel) [0..<unat extra] = Inr (rng6, ops)"
      and gen: "generated_trace b ?skel ops (2 * unat extra)" by auto
    have "validate_trace_against_bounds ops b = Inr ()"
      by (rule generated_trace_valid [OF ok gen room])
    with True ok r1 r2 r3 r4 used extra ins show ?thesis
      by (simp add: generate_trace_def Let_def)
  qed
qed

section \<open>Prefix search\<close>

lemma find_prefix_from_result:
  "find_prefix_from seed ops lid P lens = Inr res \<Longrightarrow>
     (case res of
        None \<Rightarrow> \<forall>n \<in> set lens. \<exists>m. execute_trace seed (take n ops) lid = Inr m \<and> \<not> P m
      | Some len \<Rightarrow> \<exists>pre post. lens = pre @ len # post
          \<and> (\<exists>m. execute_trace seed (take len ops) lid = Inr m \<and> P m)
          \<and> (\<forall>n \<in> set pre. \<exists>m. execute_trace seed (take n ops) lid = Inr m \<and> \<not> P m))"
proof (induction lens arbitrary: res)
  case (Cons n lens)
  from Cons.prems obtain m where m: "execute_trace seed (take n ops) lid = Inr m"
    by (auto split: sum.splits)
  show ?case
  proof (cases "P m")
    case True
    with Cons.prems m have "res = Some n" by simp
    moreover have "n # lens = [] @ n # lens" by simp
    ultimately show ?thesis using m True by fastforce
  next
    case False
    with Cons.prems m have "find_prefix_from seed ops lid P lens = Inr res" by simp
    from Cons.IH [OF this] m False show ?thesis
      by (auto split: option.splits) (metis append_Cons set_ConsD)
  qed
qed auto

end
