(* ===== verification/Recovery_Spec.thy ===== *)
theory Recovery_Spec
  imports Recovery_System Recovery_Trace_Laws
begin

text \<open>
  The abstract contract of recovery. A page's durable content is the image of the last applied
  record for it; the page store implements that map once it is complete. A crash, a reopen and a
  reclamation leave the map alone. Then concrete runs of the model, reached through the trace
  runner, to which its properties are applied.
\<close>

section \<open>Durable content\<close>

type_synonym page_content = "u64 \<times> page_version \<times> wal_position"

definition record_content :: "wal_record \<Rightarrow> page_content" where
  "record_content r = (the (wr_page_value r), the (wr_page_version r), wr_position r)"

definition snapshot_content :: "page_snapshot \<Rightarrow> page_content" where
  "snapshot_content s = (ps_value s, ps_version s, ps_written_at s)"

definition applied_for :: "wal_record list \<Rightarrow> wal_position option \<Rightarrow> page_id \<Rightarrow> wal_record list" where
  "applied_for recs flush p = filter (\<lambda>r. record_applied recs flush r \<and> wr_page r = Some p) recs"

definition durable_content ::
  "wal_record list \<Rightarrow> wal_position option \<Rightarrow> page_id \<Rightarrow> page_content option" where
  "durable_content recs flush p =
     (if applied_for recs flush p = [] then None
      else Some (record_content (last (applied_for recs flush p))))"

definition stored_content :: "(page_id, page_snapshot) btree \<Rightarrow> page_id \<Rightarrow> page_content option" where
  "stored_content store p = map_option snapshot_content (bt_get store p)"

lemma applied_for_set:
  "r \<in> set (applied_for recs flush p) \<longleftrightarrow>
    r \<in> set recs \<and> record_applied recs flush r \<and> wr_page r = Some p"
  by (auto simp: applied_for_def)

lemma applied_for_sorted:
  "sorted_wrt (<) (map wr_position recs) \<Longrightarrow> sorted_wrt (<) (map wr_position (applied_for recs flush p))"
  unfolding applied_for_def sorted_wrt_map by (rule sorted_wrt_filter)

lemma sorted_position_inj:
  assumes "sorted_wrt (<) (map wr_position rs)" and "r \<in> set rs" and "r' \<in> set rs"
    and "wr_position r = wr_position r'"
  shows "r = r'"
proof -
  have "distinct (map wr_position rs)" using assms(1) strict_sorted_iff by blast
  then show ?thesis using assms(2-4) by (auto simp: distinct_map dest: inj_onD)
qed

text \<open>A complete and backed store holds exactly the durable content.\<close>

lemma store_holds_durable_content:
  assumes inv: "model_inv m" and complete: "store_complete m"
  shows "stored_content (m_page_store m) p = durable_content (m_wal_records m) (m_flush_position m) p"
proof (cases "bt_get (m_page_store m) p")
  case None
  have "applied_for (m_wal_records m) (m_flush_position m) p = []"
  proof (rule ccontr)
    assume "\<not> ?thesis"
    then obtain r where "r \<in> set (applied_for (m_wal_records m) (m_flush_position m) p)"
      by (meson list.set_sel(1))
    with complete None show False
      by (auto simp: applied_for_set store_complete_def store_reaches_def)
  qed
  with None show ?thesis by (simp add: stored_content_def durable_content_def)
next
  case (Some s)
  note parts = model_invD [OF inv]
  let ?rs = "applied_for (m_wal_records m) (m_flush_position m) p"
  from parts(3) Some obtain r where r: "r \<in> set ?rs" "wr_position r = ps_written_at s"
    and content: "wr_page_value r = Some (ps_value s)" "wr_page_version r = Some (ps_version s)"
    by (auto simp: store_inv_def page_backed_def applied_for_set)
  have sorted: "sorted_wrt (<) (map wr_position ?rs)"
    using parts(1) by (intro applied_for_sorted) (simp add: wal_inv_def)
  have ne: "?rs \<noteq> []" using r(1) by auto
  then have last: "last ?rs \<in> set ?rs" by simp
  then have "wr_position (last ?rs) \<le> wr_position r"
    using complete Some r(2) by (auto simp: applied_for_set store_complete_def store_reaches_def)
  moreover have "wr_position r \<le> wr_position (last ?rs)" by (rule sorted_le_last [OF sorted r(1)])
  ultimately have "last ?rs = r" using sorted_position_inj [OF sorted last r(1)] by simp
  with ne Some r(2) content show ?thesis
    by (simp add: stored_content_def durable_content_def snapshot_content_def record_content_def)
qed

section \<open>Operations that leave durable content alone\<close>

lemma durable_content_filter:
  "durable_content (filter (\<lambda>r. keep \<or> covered_by f (wr_position r)) recs) f = durable_content recs f"
proof -
  let ?recs = "filter (\<lambda>r. keep \<or> covered_by f (wr_position r)) recs"
  have same: "record_applied ?recs f r = record_applied recs f r" for r
    by (rule record_applied_retain) auto
  have "applied_for ?recs f p = applied_for recs f p" for p
    unfolding applied_for_def same filter_filter
    by (rule filter_cong) (auto simp: record_applied_def)
  then show ?thesis by (simp add: fun_eq_iff durable_content_def)
qed

lemma durable_content_rebrand:
  "durable_content (map (\<lambda>r. r\<lparr>wr_lineage_id := l\<rparr>) recs) f = durable_content recs f"
proof -
  let ?g = "\<lambda>r. r\<lparr>wr_lineage_id := l\<rparr>"
  have "record_applied (map ?g recs) f (?g r) = record_applied recs f r" for r
    by (rule record_applied_map) auto
  then have "applied_for (map ?g recs) f p = map ?g (applied_for recs f p)" for p
    by (simp add: applied_for_def filter_map comp_def)
  then show ?thesis by (simp add: fun_eq_iff durable_content_def last_map record_content_def)
qed

lemma crash_durable_content:
  assumes "crash_with_complete_tail keep m = (Inr (), m')"
  shows "durable_content (m_wal_records m') (m_flush_position m')
    = durable_content (m_wal_records m) (m_flush_position m)"
  using assms durable_content_filter [of keep] by (auto simp: crash_eq split: if_splits)

lemma reopen_durable_content:
  assumes "reopen m = (Inr l, m')"
  shows "durable_content (m_wal_records m') (m_flush_position m')
    = durable_content (m_wal_records m) (m_flush_position m)"
  using reopen_result [OF assms] durable_content_rebrand by auto

lemma select_state:
  assumes "select_observed minimal full m = (Inr (), m')"
  shows "m' = m\<lparr>m_selected_checkpoint := m_checkpoint_slot m, m_phase := PhSelected\<rparr>"
  using assms by (auto simp: select_observed_def with_result_Inr_iff)

lemma plan_state:
  assumes "plan_replay m = (Inr k, m')"
  shows "m' = m\<lparr>m_replay_plan := Some (replay_records m), m_phase := PhReplayPlanned\<rparr>
    \<and> k = length (replay_records m)"
  using assms by (auto simp: plan_replay_def with_result_Inr_iff Let_def)

lemma repair_state:
  assumes "repair_pages m = (Inr n, m')" and "model_inv m"
  shows "m' = m\<lparr>m_page_store := repair_store m (replay_records m) (m_page_store m),
      m_phase := PhPagesRepaired\<rparr> \<and> m_phase m = PhReplayPlanned"
proof -
  have phase: "m_phase m = PhReplayPlanned"
    using assms(1) by (auto simp: repair_pages_def with_result_Inr_iff split: prod.splits)
  obtain r1 m1 where inner: "repair_pages_inner m = (r1, m1)" by fastforce
  with assms(1) phase obtain x where r1: "r1 = Inr x" and m': "m' = m1\<lparr>m_phase := PhPagesRepaired\<rparr>"
    by (cases r1) (auto simp: repair_pages_def require_phase_def)
  from repair_inner_result [OF assms(2) phase inner] r1
  have "m1 = m\<lparr>m_page_store := repair_store m (replay_records m) (m_page_store m)\<rparr>"
    by (metis take_all_iff order_refl)
  with m' phase show ?thesis by simp
qed

lemma repaired_store_complete:
  assumes "repair_pages m = (Inr n, m')" and "model_inv m"
  shows "store_complete m'"
  using repair_state [OF assms] repaired_complete [OF assms(2)] by (simp add: store_complete_def)

lemma durable_suffix_sorted:
  "sorted_wrt (<) (map wr_position rs) \<Longrightarrow> \<exists>pre. rs = pre @ filter (\<lambda>r. p \<le> wr_position r) rs"
proof (induction rs)
  case (Cons r rs)
  show ?case
  proof (cases "p \<le> wr_position r")
    case True
    with Cons.prems have "\<forall>x \<in> set rs. p \<le> wr_position x" by auto
    with True show ?thesis by (intro exI [of _ "[]"]) simp
  next
    case False
    from Cons obtain pre where "rs = pre @ filter (\<lambda>r. p \<le> wr_position r) rs" by auto
    with False show ?thesis by (metis append_Cons filter.simps(2))
  qed
qed simp

lemma retained_suffix_split:
  "wal_inv m \<Longrightarrow> \<exists>pre. m_wal_records m = pre @ retained_suffix_of m rf"
  using durable_suffix_sorted [of "m_wal_records m"]
  by (auto simp: retained_suffix_of_def wal_inv_def split: option.split)

section \<open>Concrete runs\<close>

lemmas exec_defs = model_new_def allocate_epoch_eq begin_transaction_eq append_raw_page_eq
  append_transaction_page_eq append_transaction_commit_eq flush_eq push_record_def
  raw_page_record_def txn_page_record_def commit_record_def mark_completion_stale_def
  checked_add_def Let_def page_id_new_def bt_contains_key_def crash_def
  crash_preserving_complete_wal_tail_def crash_eq reopen_def select_def select_observed_def
  plan_replay_def require_phase_def lineage_checked_next_def validate_selected_on_open_def
  validate_generation_metadata_def validate_replacement_header_def pages_branded_def
  validate_complete_prefix_checkpoint_def validate_checkpoint_page_def
  validate_checkpoint_transaction_def generation_is_zero_def generation_zero_def
  complete_prefix_format_version_def generation_format_version_def locks_all_live_def
  locks_all_free_def locks_all_recovery_def last_position_def first_position_def
  candidate_alias_context_def durable_wal_records_def replay_records_def needs_replay_def
  observe_minimal_metadata_def observe_full_metadata_def check_pruned_selection_def
  validate_record_shape_def record_shape_valid_def rebrand_pages_def rebrand_checkpoint_def
  bt_map_values_def bt_values_def run_op_def push_position_def execution_start_def
  write_page_store_def live_result find_record_def store_page_def make_snapshot_def
  has_durable_commit_def publish_checkpoint_def current_checkpoint_def compute_replay_start_def
  checkpoint_transactions_def frontier_at_def frontier_empty_def
  repair_pages_def repair_pages_inner_def repair_checkpoint_page_def repair_record_def
  has_replayed_commit_def count_repair_def repair_pages_fault_def repair_pages_applied_fault_def
  restore_transactions_def restore_record_def
  max_option_def complete_def analyze_retention_def require_fresh_completion_def
  retained_floor_def retain_page_def retain_transaction_def has_record_at_def min_earliest_def
  reclaim_def retained_suffix_of_def generation_checked_next_def begin_wal_candidate_def
  advance_to_completion_eq install_replacement_def
  bt_remove_def min_def word_le_nat_alt word_less_nat_alt

definition after :: "trace_op list \<Rightarrow> recovery_model" where
  "after ops = (case execute_from 0 ops 0 ops (execution_start (LogId 1)) of
     Inr st \<Rightarrow> ex_model st | Inl _ \<Rightarrow> model_new (LogId 1))"

lemma after_reachable: "model_reachable (LogId 1) (after ops)"
proof -
  have start: "model_reachable (LogId 1) (ex_model (execution_start (LogId 1)))"
    by (rule reach_start) (simp add: execution_start_def)
  then show ?thesis
    using execute_from_reachable [OF _ start]
    by (auto simp: after_def execution_start_def intro: reach_start split: sum.split)
qed

definition live_ops :: "trace_op list" where
  "live_ops = [TAllocateEpoch, TBeginTransaction, TAppendTransactionPage 0 1 7 1,
     TAppendTransactionCommit 0, TAppendRawPage 2 9 1, TFlushWal]"

definition planned_ops :: "trace_op list" where
  "planned_ops = live_ops @ [TWritePageStore 0, TPublishCheckpoint \<lparr>ca_version = 1, ca_digest = 5\<rparr>,
     TCrash, TReopen, TSelect, TPlanReplay]"

definition complete_ops :: "trace_op list" where
  "complete_ops = planned_ops @ [TRepairPages, TRestoreTransactions, TComplete]"

lemma live_run: "m_phase (after live_ops) = PhLive \<and> length (m_wal_records (after live_ops)) = 3
    \<and> m_flush_position (after live_ops) = Some (WalPosition 3)"
  by (simp add: after_def live_ops_def exec_defs)

lemma planned_run: "m_phase (after planned_ops) = PhReplayPlanned
    \<and> fst (repair_pages (after planned_ops)) = Inr 1"
  by (simp add: after_def planned_ops_def live_ops_def exec_defs)

lemma complete_run: "m_phase (after complete_ops) = PhCompleteLive"
  by (simp add: after_def complete_ops_def planned_ops_def live_ops_def exec_defs)

lemma analyze_run: "fst (analyze_retention (after complete_ops)) = Inr ()"
  by (simp add: after_def complete_ops_def planned_ops_def live_ops_def exec_defs)

lemma reclaim_run: "fst (reclaim (snd (analyze_retention (after complete_ops)))) = Inr (Generation 1)"
  by (simp add: after_def complete_ops_def planned_ops_def live_ops_def exec_defs)

end
