(* ===== verification/Recovery_Properties.thy ===== *)
theory Recovery_Properties
  imports Recovery_Spec
begin

text \<open>
  The properties of the recovery model: its invariant, the refinement of the durable content by
  a repaired page store, crash safety, identity freshness, retention and reclamation.
\<close>

section \<open>Invariant and refinement\<close>

text \<open>C18: Every state the recovery model can reach, through any sequence of its public operations
  with any arguments and outcomes, has a strictly ordered and branded WAL below its allocator, spent
  transaction identities, a page store backed by applied records, and checkpoints that cover what
  the store lacks. Candidates may be planted or begun with any content, may stand at any stage and
  may be left behind by a crash; the one condition is on a rename, which installs its candidate
  unread: what it installs is a checkpoint of this log, or a WAL replacement that keeps the durable
  records the store rests on.\<close>

theorem reachable_model_inv:
  assumes "model_reachable lid m"
  shows "model_inv m"
  using assms by (rule recovery.reachable_inv)

lemma reachable_model_inv_witness: "model_inv (after complete_ops)"
  by (rule reachable_model_inv [OF after_reachable])

lemmas reachable_inv = recovery.reachable_inv

text \<open>C17: A page repair that returns leaves, for every page, exactly the image of the last
  durable raw or committed record: nothing durable is lost and nothing uncommitted or volatile
  appears.\<close>

theorem repair_yields_durable_content:
  assumes "model_reachable lid m" and "repair_pages m = (Inr n, m')"
  shows "stored_content (m_page_store m') p = durable_content (m_wal_records m) (m_flush_position m) p"
proof -
  have inv: "model_inv m" using assms(1) by (rule reachable_inv)
  have "stored_content (m_page_store m') p = durable_content (m_wal_records m') (m_flush_position m') p"
    by (rule store_holds_durable_content [OF repair_pages_inv [OF assms(2) inv]
          repaired_store_complete [OF assms(2) inv]])
  then show ?thesis using repair_state [OF assms(2) inv] by simp
qed

lemma repair_yields_durable_content_witness:
  "\<exists>m'. repair_pages (after planned_ops) = (Inr 1, m')
    \<and> stored_content (m_page_store m') (PageId 2)
      = durable_content (m_wal_records (after planned_ops)) (m_flush_position (after planned_ops)) (PageId 2)"
proof -
  obtain m' where m': "repair_pages (after planned_ops) = (Inr 1, m')"
    using planned_run by (metis prod.collapse)
  from repair_yields_durable_content [OF after_reachable m'] m' show ?thesis by blast
qed

text \<open>C1: Recovery end to end. After a crash, whatever the crash tail, a recovery that runs
  through to the repair puts into the page store exactly the durable content of the moment before
  the crash.\<close>

theorem crash_recovery_restores_durable_content:
  assumes "model_reachable lid m" and "crash_with_complete_tail keep m = (Inr (), m1)"
    and "reopen m1 = (Inr l, m2)" and "select_observed minimal full m2 = (Inr (), m3)"
    and "plan_replay m3 = (Inr k, m4)" and "repair_pages m4 = (Inr n, m5)"
  shows "stored_content (m_page_store m5) p = durable_content (m_wal_records m) (m_flush_position m) p"
proof -
  have i1: "model_inv m1" using crash_with_complete_tail_inv [OF assms(2) reachable_inv [OF assms(1)]] .
  have i4: "model_inv m4"
    using plan_replay_inv [OF assms(5) select_observed_inv [OF assms(4) reopen_inv [OF assms(3) i1]]] .
  have "stored_content (m_page_store m5) p = durable_content (m_wal_records m5) (m_flush_position m5) p"
    by (rule store_holds_durable_content [OF repair_pages_inv [OF assms(6) i4]
          repaired_store_complete [OF assms(6) i4]])
  also have "\<dots> = durable_content (m_wal_records m2) (m_flush_position m2) p"
    using repair_state [OF assms(6) i4] plan_state [OF assms(5)] select_state [OF assms(4)] by simp
  also have "\<dots> = durable_content (m_wal_records m) (m_flush_position m) p"
    using reopen_durable_content [OF assms(3)] crash_durable_content [OF assms(2)] by simp
  finally show ?thesis .
qed

lemma recovery_run:
  "\<exists>m1 l m2 m3 k m4 n m5. crash_with_complete_tail False (after live_ops) = (Inr (), m1)
     \<and> reopen m1 = (Inr l, m2)
     \<and> select_observed \<lparr>mm_log_id = LogId 1, mm_generation = Generation 0\<rparr> None m2 = (Inr (), m3)
     \<and> plan_replay m3 = (Inr k, m4) \<and> repair_pages m4 = (Inr n, m5)"
  by (simp add: after_def live_ops_def exec_defs)

lemma crash_recovery_restores_durable_content_witness:
  "\<exists>m1 l m2 m3 k m4 n m5. crash_with_complete_tail False (after live_ops) = (Inr (), m1)
     \<and> reopen m1 = (Inr l, m2) \<and> repair_pages m4 = (Inr n, m5)
     \<and> stored_content (m_page_store m5) (PageId 1)
       = durable_content (m_wal_records (after live_ops)) (m_flush_position (after live_ops)) (PageId 1)"
proof -
  from recovery_run obtain m1 l m2 m3 k m4 n m5
    where run: "crash_with_complete_tail False (after live_ops) = (Inr (), m1)" "reopen m1 = (Inr l, m2)"
      "select_observed \<lparr>mm_log_id = LogId 1, mm_generation = Generation 0\<rparr> None m2 = (Inr (), m3)"
      "plan_replay m3 = (Inr k, m4)" "repair_pages m4 = (Inr n, m5)" by metis
  from crash_recovery_restores_durable_content [OF after_reachable run] run show ?thesis by blast
qed

text \<open>C26: At no reachable state does the page store hold anything but the exact image of a
  durable record that is raw or whose transaction has a durable commit.\<close>

theorem store_only_holds_applied_images:
  assumes "model_reachable lid m" and "bt_get (m_page_store m) p = Some s"
  shows "\<exists>r \<in> set (m_wal_records m). covered_by (m_flush_position m) (wr_position r)
     \<and> wr_page r = Some p \<and> wr_position r = ps_written_at s
     \<and> wr_page_value r = Some (ps_value s) \<and> wr_page_version r = Some (ps_version s)
     \<and> (wr_kind r = RawPage \<or> (\<exists>c \<in> set (m_wal_records m). wr_kind c = TransactionCommit
          \<and> wr_transaction c = wr_transaction r \<and> covered_by (m_flush_position m) (wr_position c)))"
proof -
  have "store_inv m" using reachable_inv [OF assms(1)] by (simp add: model_inv_def)
  with assms(2) have "page_backed (m_wal_records m) (m_flush_position m) p s"
    by (simp add: store_inv_def)
  then show ?thesis unfolding page_backed_def record_applied_def by blast
qed

lemma store_only_holds_applied_images_witness:
  "\<exists>s. bt_get (m_page_store (after planned_ops)) (PageId 1) = Some s
    \<and> (\<exists>r \<in> set (m_wal_records (after planned_ops)). wr_position r = ps_written_at s)"
proof -
  have "bt_get (m_page_store (after planned_ops)) (PageId 1) \<noteq> None"
    by (simp add: after_def planned_ops_def live_ops_def exec_defs)
  then obtain s where s: "bt_get (m_page_store (after planned_ops)) (PageId 1) = Some s" by blast
  show ?thesis using store_only_holds_applied_images [OF after_reachable s] s by blast
qed

section \<open>Crash and reopen\<close>

text \<open>
  What is on disk: the identities, the durable records and the flush frontier, the allocators, the
  page store, the checkpoint, the metadata of the WAL generation, candidates left behind, and the
  condition of the selected files.
\<close>

definition durable_view where
  "durable_view m =
     ((m_log_id m, m_lineage_id m, durable_wal_records m, m_flush_position m),
      (m_next_position m, m_next_epoch m, m_epoch_high_water m),
      (m_page_store m, m_checkpoint_slot m),
      (m_wal_generation m, m_wal_format_version m, m_generation_anchor m, m_retained_first m,
       m_replacement_logical_high_water m, m_replacement_epoch_high_water m),
      (m_checkpoint_candidate m, m_wal_candidate m),
      (m_selected_wal_entry m, m_selected_checkpoint_entry m))"

lemma crash_outcome:
  assumes "model_reachable lid m" and "m_phase m \<noteq> PhCrashed"
  shows "crash m = (Inr (), m\<lparr>
        m_wal_records := durable_wal_records m,
        m_logical_high_water := m_flush_position m,
        m_active_transactions := [],
        m_persisted_transactions := [],
        m_committed_transactions := [],
        m_current_epoch := None,
        m_next_sequence := None,
        m_completion_evidence := None,
        m_retention_analysis := None,
        m_replay_plan := None,
        m_restoration_summary := None,
        m_selected_checkpoint := None,
        m_locks := locks_all_free,
        m_phase := PhCrashed\<rparr>)"
proof -
  have "sorted_wrt (<) (map wr_position (m_wal_records m))"
    using reachable_inv [OF assms(1)] by (simp add: model_inv_def wal_inv_def)
  from durable_records_filter [OF this] assms(2) show ?thesis
    by (simp add: crash_def crash_eq durable_wal_records_def)
qed

text \<open>C32: A crash succeeds in every phase but the crashed one, keeps everything that is on disk and
  nothing else. What is on disk is the same before and after and the log is its durable part; and
  two states that agree on what is on disk crash to the same state, so of open transactions, the
  current epoch, completion evidence, plans, selections, volatile records and locks nothing survives.\<close>

theorem crash_keeps_durable_state:
  assumes "model_reachable lid m" and "m_phase m \<noteq> PhCrashed"
    and "model_reachable lid' n" and "m_phase n \<noteq> PhCrashed"
  shows "\<exists>m'. crash m = (Inr (), m') \<and> m_phase m' = PhCrashed
    \<and> durable_view m' = durable_view m \<and> m_wal_records m' = durable_wal_records m
    \<and> (durable_view n = durable_view m \<longrightarrow> crash n = (Inr (), m'))"
proof -
  let ?m = "snd (crash m)"
  note m = crash_outcome [OF assms(1,2)] and n = crash_outcome [OF assms(3,4)]
  have "durable_view ?m = durable_view m"
    by (simp add: m durable_view_def durable_wal_records_def)
  moreover have "snd (crash n) = ?m" if "durable_view n = durable_view m"
    by (rule recovery_model.equality) (use that in \<open>simp_all add: m n durable_view_def\<close>)
  ultimately show ?thesis by (intro exI [of _ ?m]) (auto simp: m n)
qed

lemma crash_keeps_durable_state_witness:
  "\<exists>m'. crash (after live_ops) = (Inr (), m') \<and> m_wal_records m' = durable_wal_records (after live_ops)
    \<and> crash (after (live_ops @ [TBeginTransaction])) = (Inr (), m')
    \<and> after (live_ops @ [TBeginTransaction]) \<noteq> after live_ops"
proof -
  let ?n = "after (live_ops @ [TBeginTransaction])"
  have live: "m_phase (after live_ops) \<noteq> PhCrashed" "m_phase ?n \<noteq> PhCrashed"
    and same: "durable_view ?n = durable_view (after live_ops)"
    and other: "m_active_transactions ?n \<noteq> m_active_transactions (after live_ops)"
    by (simp_all add: after_def live_ops_def exec_defs durable_view_def)
  from crash_keeps_durable_state [OF after_reachable live(1) after_reachable live(2)] same
  obtain m' where "crash (after live_ops) = (Inr (), m')"
    "m_wal_records m' = durable_wal_records (after live_ops)" "crash ?n = (Inr (), m')" by auto
  moreover have "?n \<noteq> after live_ops" using other by metis
  ultimately show ?thesis by blast
qed

text \<open>A reopen succeeds only on selected files that passed validation; it moves to a strictly
  newer lineage and brands every record, stored page and checkpoint page with it, changing nothing
  else in them.\<close>

theorem reopen_rebrands:
  assumes "model_reachable lid m" and "reopen m = (Inr l, m')"
  shows "validate_selected_on_open m = Inr ()
    \<and> lineage_id_get (m_lineage_id m) < lineage_id_get l \<and> m_lineage_id m' = l
    \<and> (\<forall>r \<in> set (m_wal_records m'). wr_lineage_id r = l)
    \<and> map (\<lambda>r. (wr_position r, wr_kind r, wr_transaction r, wr_page r, record_content r)) (m_wal_records m')
      = map (\<lambda>r. (wr_position r, wr_kind r, wr_transaction r, wr_page r, record_content r)) (m_wal_records m)
    \<and> (\<forall>p s. bt_get (m_page_store m') p = Some s \<longrightarrow> ps_lineage_id s = l)
    \<and> stored_content (m_page_store m') = stored_content (m_page_store m)
    \<and> (\<forall>cp. m_checkpoint_slot m' = Some cp \<longrightarrow> cp_lineage_id cp = l)
    \<and> m_phase m' = PhUnrecovered"
proof -
  from reopen_result [OF assms(2)] have next_l: "lineage_checked_next (m_lineage_id m) = Some l"
    and valid: "validate_selected_on_open m = Inr ()"
    and m': "m' = m\<lparr>
          m_lineage_id := l,
          m_wal_records := map (\<lambda>r. r\<lparr>wr_lineage_id := l\<rparr>) (m_wal_records m),
          m_page_store := rebrand_pages l (m_page_store m),
          m_checkpoint_slot := map_option (rebrand_checkpoint l) (m_checkpoint_slot m),
          m_checkpoint_candidate := CpAbsent,
          m_wal_candidate := WalAbsent,
          m_locks := locks_all_recovery,
          m_phase := PhUnrecovered\<rparr>" by auto
  have "lineage_id_get (m_lineage_id m) < lineage_id_get l"
    using next_l by (auto simp: lineage_checked_next_def dest: checked_add_one_less(1) split: option.splits)
  moreover have "stored_content (rebrand_pages l st) = stored_content st" for st
    by (auto simp: fun_eq_iff stored_content_def bt_get_rebrand snapshot_content_def
        option.map_comp intro: option.map_cong)
  ultimately show ?thesis using valid by (auto simp: m' bt_get_rebrand record_content_def)
qed

lemma reopen_rebrands_witness:
  "\<exists>l m'. reopen (snd (crash (after live_ops))) = (Inr l, m') \<and> m_lineage_id m' = l
    \<and> lineage_id_get (m_lineage_id (snd (crash (after live_ops)))) < lineage_id_get l"
proof -
  have "\<exists>l m'. reopen (snd (crash (after live_ops))) = (Inr l, m')"
    by (simp add: after_def live_ops_def exec_defs)
  then obtain l m' where o: "reopen (snd (crash (after live_ops))) = (Inr l, m')" by blast
  have "model_reachable (LogId 1) (snd (crash (after live_ops)))"
    using reach_op [OF after_reachable step_crash] by (metis prod.collapse)
  from reopen_rebrands [OF this o] o show ?thesis by blast
qed

end
