(* ===== verification/Recovery_Identity_Properties.thy ===== *)
theory Recovery_Identity_Properties
  imports Recovery_Spec
begin

text \<open>
  Positions and transaction identities are never reused, restoration opens a fresh epoch and
  rebuilds the transaction table, and operations outside their phase change nothing.
\<close>

section \<open>Fresh positions and identities\<close>

lemma appended_position:
  assumes "append_raw_page page pv ver m = (Inr pos, m')
    \<or> append_transaction_page t page pv ver m = (Inr pos, m')
    \<or> append_transaction_commit t m = (Inr pos, m')"
  shows "\<exists>v. m_next_position m = Some v \<and> v \<noteq> 0 \<and> pos = WalPosition v
    \<and> m_next_position m' = checked_add v 1
    \<and> (\<exists>r. m_wal_records m' = m_wal_records m @ [r] \<and> wr_position r = pos)"
  using assms
  by (auto simp: append_raw_page_eq append_transaction_page_eq append_transaction_commit_eq
      push_record_def raw_page_record_def txn_page_record_def commit_record_def
      split: if_splits option.splits)

text \<open>Every append gets a position above all records in the log and above the flush
  frontier, so a position is never reused, not even after a crash dropped the tail or a
  reclamation pruned the prefix.\<close>

theorem append_position_fresh:
  assumes "model_reachable lid m"
    and "append_raw_page page pv ver m = (Inr pos, m')
      \<or> append_transaction_page t page pv ver m = (Inr pos, m')
      \<or> append_transaction_commit t m = (Inr pos, m')"
  shows "(\<forall>r \<in> set (m_wal_records m). wr_position r < pos)
    \<and> \<not> covered_by (m_flush_position m) pos
    \<and> (\<exists>r. m_wal_records m' = m_wal_records m @ [r] \<and> wr_position r = pos)
    \<and> (\<forall>n. m_next_position m' = Some n \<longrightarrow> pos < WalPosition n)"
proof -
  from appended_position [OF assms(2)] obtain v where v: "m_next_position m = Some v"
    "pos = WalPosition v" "m_next_position m' = checked_add v 1"
    and log: "\<exists>r. m_wal_records m' = m_wal_records m @ [r] \<and> wr_position r = pos" by blast
  have inv: "wal_inv m" using recovery.reachable_inv [OF assms(1)] by (simp add: model_inv_def)
  have "\<forall>r \<in> set (m_wal_records m). wr_position r < pos"
    using inv v(1,2) by (auto simp: wal_inv_def below_next_def)
  moreover have "\<not> covered_by (m_flush_position m) pos"
    using allocated_uncovered [OF inv v(1)] v(2) by simp
  moreover have "\<forall>n. m_next_position m' = Some n \<longrightarrow> pos < WalPosition n"
    using v(2,3) by (auto dest: checked_add_one_less(1))
  ultimately show ?thesis using log by blast
qed

lemma append_position_fresh_witness:
  "\<exists>pos m'. append_raw_page (PageId 4) 1 (PageVersion 1) (after live_ops) = (Inr pos, m')
    \<and> (\<forall>r \<in> set (m_wal_records (after live_ops)). wr_position r < pos)"
proof -
  have "\<exists>pos m'. append_raw_page (PageId 4) 1 (PageVersion 1) (after live_ops) = (Inr pos, m')"
    by (simp add: after_def live_ops_def exec_defs)
  then obtain pos m' where a: "append_raw_page (PageId 4) 1 (PageVersion 1) (after live_ops) = (Inr pos, m')"
    by blast
  from append_position_fresh [OF after_reachable disjI1 [OF a]] a show ?thesis by blast
qed

text \<open>A new transaction's identity occurs in no WAL record and is not active, and its epoch is
  covered by the persisted high-water mark.\<close>

theorem begin_transaction_fresh:
  assumes "model_reachable lid m" and "begin_transaction m = (Inr t, m')"
  shows "(\<forall>r \<in> set (m_wal_records m). wr_transaction r \<noteq> Some t)
    \<and> \<not> bt_contains_key (m_active_transactions m) t
    \<and> bt_get (m_active_transactions m') t = Some []
    \<and> txn_epoch t \<noteq> 0 \<and> txn_sequence t \<noteq> 0
    \<and> Some (txn_epoch t) \<le> m_epoch_high_water m'"
proof -
  from assms(2) obtain e q where e: "m_current_epoch m = Some e" and q: "m_next_sequence m = Some q"
    and t: "t = TransactionId e q" "e \<noteq> 0" "q \<noteq> 0" "\<not> bt_contains_key (m_active_transactions m) t"
    and m': "bt_get (m_active_transactions m') t = Some []" "m_epoch_high_water m' = m_epoch_high_water m"
    by (auto simp: begin_transaction_eq Let_def split: if_splits option.splits)
  have inv: "txn_inv m" using recovery.reachable_inv [OF assms(1)] by (simp add: model_inv_def)
  have "\<not> id_spent m t" using next_sequence_new_id(2) [OF inv e q] t(1) by simp
  then have "\<forall>r \<in> set (m_wal_records m). wr_transaction r \<noteq> Some t"
    using inv by (auto simp: txn_inv_def)
  moreover have "Some e \<le> m_epoch_high_water m" using inv e by (simp add: txn_inv_def)
  ultimately show ?thesis using t m' by simp
qed

lemma begin_transaction_fresh_witness:
  "\<exists>t m'. begin_transaction (after live_ops) = (Inr t, m')
    \<and> (\<forall>r \<in> set (m_wal_records (after live_ops)). wr_transaction r \<noteq> Some t)"
proof -
  have "\<exists>t m'. begin_transaction (after live_ops) = (Inr t, m')"
    by (simp add: after_def live_ops_def exec_defs)
  then obtain t m' where b: "begin_transaction (after live_ops) = (Inr t, m')" by blast
  from begin_transaction_fresh [OF after_reachable b] b show ?thesis by blast
qed

text \<open>C33: The pages of a transaction precede its commit in the log, and no active transaction has
  a commit record.\<close>

theorem commit_follows_pages:
  assumes "model_reachable lid m" and "c \<in> set (m_wal_records m)" and "wr_kind c = TransactionCommit"
  shows "(\<forall>r \<in> set (m_wal_records m). wr_kind r = TransactionPage
        \<longrightarrow> wr_transaction r = wr_transaction c \<longrightarrow> wr_position r < wr_position c)
    \<and> (\<exists>t. wr_transaction c = Some t \<and> \<not> bt_contains_key (m_active_transactions m) t)"
proof -
  have txn: "txn_inv m" and "wal_inv m"
    using recovery.reachable_inv [OF assms(1)] by (simp_all add: model_inv_def)
  then have "record_shape_valid c" using assms(2) by (simp add: wal_inv_def)
  then obtain t where t: "wr_transaction c = Some t"
    using assms(3) by (auto simp: record_shape_valid_def)
  with txn assms(2,3) show ?thesis unfolding txn_inv_def by metis
qed

lemma commit_follows_pages_witness:
  "\<exists>c \<in> set (m_wal_records (after live_ops)). wr_kind c = TransactionCommit
    \<and> (\<exists>t. wr_transaction c = Some t \<and> \<not> bt_contains_key (m_active_transactions (after live_ops)) t)"
proof -
  have "\<exists>c \<in> set (m_wal_records (after live_ops)). wr_kind c = TransactionCommit"
    by (simp add: after_def live_ops_def exec_defs)
  then obtain c where c: "c \<in> set (m_wal_records (after live_ops))" "wr_kind c = TransactionCommit"
    by blast
  from commit_follows_pages [OF after_reachable c] c show ?thesis by blast
qed

section \<open>Restoration\<close>

text \<open>The greatest epoch that is persisted: in the log's mark or in the selected checkpoint.\<close>

definition persisted_epoch :: "recovery_model \<Rightarrow> u64 option" where
  "persisted_epoch m = max (m_epoch_high_water m)
     (case m_selected_checkpoint m of None \<Rightarrow> None
      | Some cp \<Rightarrow> ts_epoch_high_water (cp_transaction_summary cp))"

lemma restored_fresh_epoch:
  assumes "restore_transactions m = (Inr s, m')"
  shows "(case persisted_epoch m of None \<Rightarrow> rs_fresh_epoch s = 1
    | Some h \<Rightarrow> unat (rs_fresh_epoch s) = unat h + 1)"
proof -
  have bind: "Option.bind (m_selected_checkpoint m) (\<lambda>cp. ts_epoch_high_water (cp_transaction_summary cp))
    = (case m_selected_checkpoint m of None \<Rightarrow> None
       | Some cp \<Rightarrow> ts_epoch_high_water (cp_transaction_summary cp))"
    by (cases "m_selected_checkpoint m") simp_all
  from assms show ?thesis
    by (cases "persisted_epoch m")
      (auto simp: restore_transactions_def with_result_Inr_iff Let_def bind max_option_max
        persisted_epoch_def [symmetric] dest: checked_add_Some_unat split: prod.splits)
qed

text \<open>C29: Restoration opens exactly the epoch after the greatest persisted one, be it in the log's
  high-water mark or in the selected checkpoint, or epoch one when nothing is persisted. So the new
  epoch is above both marks and, in a reachable state, above every epoch of a record in the log, and
  identities issued after recovery cannot collide with old ones.\<close>

theorem restoration_epoch_fresh:
  assumes "restore_transactions m = (Inr s, m')"
  shows "(case persisted_epoch m of None \<Rightarrow> rs_fresh_epoch s = 1
      | Some h \<Rightarrow> unat (rs_fresh_epoch s) = unat h + 1)
    \<and> (model_reachable lid m \<longrightarrow>
         (\<forall>r \<in> set (m_wal_records m). \<forall>t. wr_transaction r = Some t \<longrightarrow> txn_epoch t < rs_fresh_epoch s))
    \<and> m_epoch_high_water m < Some (rs_fresh_epoch s)
    \<and> (\<forall>cp. m_selected_checkpoint m = Some cp \<longrightarrow>
         ts_epoch_high_water (cp_transaction_summary cp) < Some (rs_fresh_epoch s))
    \<and> m_epoch_high_water m' = Some (rs_fresh_epoch s) \<and> m_current_epoch m' = Some (rs_fresh_epoch s)
    \<and> m_active_transactions m' = [] \<and> m_persisted_transactions m' = rs_active_transactions s"
proof -
  have inv: "txn_inv m" if "model_reachable lid m"
    using recovery.reachable_inv [OF that] by (simp add: model_inv_def)
  from restore_transactions_result [OF assms] obtain fresh active committed where
    s: "s = \<lparr>rs_fresh_epoch = fresh, rs_active_transactions = active\<rparr>"
    and m': "m_epoch_high_water m' = Some fresh" "m_current_epoch m' = Some fresh"
      "m_active_transactions m' = []" "m_persisted_transactions m' = active" by auto
  note exact = restored_fresh_epoch [OF assms]
  then have up: "persisted_epoch m < Some fresh"
    by (cases "persisted_epoch m") (simp_all add: s word_less_nat_alt)
  then have hw: "m_epoch_high_water m < Some fresh"
    and cp: "\<And>cp. m_selected_checkpoint m = Some cp \<Longrightarrow>
      ts_epoch_high_water (cp_transaction_summary cp) < Some fresh"
    by (auto simp: persisted_epoch_def)
  have "txn_epoch t < fresh" if "id_spent m t" for t
    using that hw by (metis id_spent_def le_less_trans less_option_Some)
  with inv s have "txn_epoch t < rs_fresh_epoch s"
    if "model_reachable lid m" "r \<in> set (m_wal_records m)" "wr_transaction r = Some t" for r t
    using that by (simp add: txn_inv_def)
  with s hw cp m' exact show ?thesis by simp
qed

definition restored_ops :: "trace_op list" where
  "restored_ops = planned_ops @ [TRepairPages]"

lemma restoration_epoch_fresh_witness:
  "\<exists>s m' cp. restore_transactions (after restored_ops) = (Inr s, m')
    \<and> m_selected_checkpoint (after restored_ops) = Some cp
    \<and> ts_epoch_high_water (cp_transaction_summary cp) < Some (rs_fresh_epoch s)
    \<and> (\<forall>r \<in> set (m_wal_records (after restored_ops)). \<forall>t.
        wr_transaction r = Some t \<longrightarrow> txn_epoch t < rs_fresh_epoch s)"
proof -
  have "\<exists>s m'. restore_transactions (after restored_ops) = (Inr s, m')"
    and "\<exists>cp. m_selected_checkpoint (after restored_ops) = Some cp"
    by (simp_all add: after_def restored_ops_def planned_ops_def live_ops_def exec_defs)
  then obtain s m' cp where r: "restore_transactions (after restored_ops) = (Inr s, m')"
    and cp: "m_selected_checkpoint (after restored_ops) = Some cp" by blast
  from restoration_epoch_fresh [OF r] after_reachable r cp show ?thesis by blast
qed

text \<open>The table a replay builds, per transaction.\<close>

definition txn_pages :: "transaction_id \<Rightarrow> wal_record list \<Rightarrow> wal_position list" where
  "txn_pages t rs = map wr_position
     (filter (\<lambda>r. wr_kind r = TransactionPage \<and> wr_transaction r = Some t) rs)"

definition txn_commits :: "transaction_id \<Rightarrow> wal_record list \<Rightarrow> wal_record list" where
  "txn_commits t rs = filter (\<lambda>r. wr_kind r = TransactionCommit \<and> wr_transaction r = Some t) rs"

definition add_positions :: "wal_position list \<Rightarrow> wal_position list \<Rightarrow> wal_position list" where
  "add_positions ps qs = foldl (\<lambda>xs q. if List.member xs q then xs else xs @ [q]) ps qs"

definition restored_entry ::
  "wal_position list option \<Rightarrow> transaction_id \<Rightarrow> wal_record list \<Rightarrow> wal_position list option" where
  "restored_entry seed t rs =
     (if txn_commits t rs \<noteq> [] then None
      else if txn_pages t rs = [] then seed
      else Some (add_positions (case seed of None \<Rightarrow> [] | Some ps \<Rightarrow> ps) (txn_pages t rs)))"

lemma restore_record_page:
  assumes "restore_record m (a, c) r = Inr (a', c')"
  shows "record_shape_valid r
    \<and> bt_get a' t = (if wr_transaction r = Some t \<and> wr_kind r = TransactionCommit then None
        else if wr_transaction r = Some t \<and> wr_kind r = TransactionPage
        then Some (add_positions (case bt_get a t of None \<Rightarrow> [] | Some ps \<Rightarrow> ps) [wr_position r])
        else bt_get a t)
    \<and> bt_get c' t = (if wr_transaction r = Some t \<and> wr_kind r = TransactionCommit
        then Some (wr_position r) else bt_get c t)"
  using assms
  by (cases "wr_kind r"; cases "bt_get a (the (wr_transaction r))")
    (auto simp: restore_record_def and_then_Inr_iff Let_def add_positions_def)

lemma add_positions_append: "add_positions (add_positions ps qs) rs = add_positions ps (qs @ rs)"
  by (simp add: add_positions_def)

text \<open>Pages of a transaction come before its commit in the plan.\<close>

definition pages_before_commits :: "wal_record list \<Rightarrow> bool" where
  "pages_before_commits rs \<longleftrightarrow>
     sorted_wrt (\<lambda>a b. \<not> (wr_kind a = TransactionCommit \<and> wr_kind b = TransactionPage
        \<and> wr_transaction a = wr_transaction b)) rs"

lemma restored_table:
  assumes "try_fold (restore_record m) (seed, c0) rs = Inr (active, committed)"
    and "pages_before_commits rs"
  shows "bt_get active t = restored_entry (bt_get seed t) t rs
    \<and> bt_get committed t = (if txn_commits t rs = [] then bt_get c0 t
        else Some (wr_position (last (txn_commits t rs))))"
  using assms
proof (induction rs arbitrary: active committed rule: rev_induct)
  case Nil
  then show ?case by (simp add: restored_entry_def txn_commits_def txn_pages_def)
next
  case (snoc r rs)
  from snoc.prems(1) obtain a c where pre: "try_fold (restore_record m) (seed, c0) rs = Inr (a, c)"
    and last: "restore_record m (a, c) r = Inr (active, committed)"
    by (auto simp: try_fold_append and_then_Inr_iff)
  have order: "pages_before_commits rs"
    and no_commit: "wr_kind r = TransactionPage \<Longrightarrow> wr_transaction r = Some t \<Longrightarrow> txn_commits t rs = []"
    using snoc.prems(2)
    by (auto simp: pages_before_commits_def sorted_wrt_append txn_commits_def filter_empty_conv)
  note IH = snoc.IH [OF pre order]
  note step = restore_record_page [OF last, of t]
  have pages: "txn_pages t (rs @ [r]) = txn_pages t rs
      @ (if wr_kind r = TransactionPage \<and> wr_transaction r = Some t then [wr_position r] else [])"
    and commits: "txn_commits t (rs @ [r]) = txn_commits t rs
      @ (if wr_kind r = TransactionCommit \<and> wr_transaction r = Some t then [r] else [])"
    by (simp_all add: txn_pages_def txn_commits_def)
  show ?case
  proof (cases "wr_transaction r = Some t \<and> wr_kind r = TransactionPage")
    case True
    then have none: "txn_commits t rs = []" using no_commit by simp
    with True IH step show ?thesis
      by (cases "bt_get seed t")
        (auto simp: restored_entry_def pages commits add_positions_append)
  next
    case False
    with IH step show ?thesis by (auto simp: restored_entry_def pages commits)
  qed
qed

text \<open>The transaction table the selected checkpoint seeds.\<close>

definition checkpoint_seed :: "checkpoint_snapshot option \<Rightarrow> transaction_positions" where
  "checkpoint_seed sel = (case sel of
     None \<Rightarrow> []
   | Some cp \<Rightarrow> foldl (\<lambda>t (tid, positions). bt_insert tid positions t) []
       (ts_active (cp_transaction_summary cp)))"

lemma replay_pages_before_commits:
  assumes "model_inv m"
  shows "pages_before_commits (replay_records m)"
proof -
  note parts = model_invD [OF assms]
  let ?ok = "\<lambda>a b. \<not> (wr_kind a = TransactionCommit \<and> wr_kind b = TransactionPage
      \<and> wr_transaction a = wr_transaction b)"
  have sub: "set (replay_records m) \<subseteq> set (m_wal_records m)"
    using durable_records_set [OF parts(1)] by (auto simp: replay_records_def)
  have "sorted_wrt (<) (map wr_position (m_wal_records m))" using parts(1) by (simp add: wal_inv_def)
  then have "sorted_wrt (<) (map wr_position (replay_records m))"
    by (simp add: replay_records_def durable_wal_records_def durable_records_filter sorted_wrt_map
        sorted_wrt_filter)
  then have "sorted_wrt (\<lambda>a b. wr_position a < wr_position b) (replay_records m)"
    by (simp add: sorted_wrt_map)
  then show ?thesis
    unfolding pages_before_commits_def
  proof (rule sorted_wrt_mono_rel [rotated])
    fix a b
    assume ab: "a \<in> set (replay_records m)" "b \<in> set (replay_records m)"
      "wr_position a < wr_position b"
    show "?ok a b"
    proof
      assume "wr_kind a = TransactionCommit \<and> wr_kind b = TransactionPage
          \<and> wr_transaction a = wr_transaction b"
      with parts(2) ab(1,2) sub have "wr_position b < wr_position a"
        unfolding txn_inv_def by blast
      with ab(3) show False by simp
    qed
  qed
qed

text \<open>C28: Restoration rebuilds the transaction table from the checkpoint and the replayed records: a
  transaction with a replayed commit is committed at its last commit record and no longer open; one
  with replayed pages only stays open with its checkpoint positions and the new page positions
  added in log order, each once; any other keeps its checkpoint entry.\<close>

theorem restoration_rebuilds_table:
  assumes "model_reachable lid m" and "restore_transactions m = (Inr s, m')"
  shows "bt_get (m_persisted_transactions m') t
      = restored_entry (bt_get (checkpoint_seed (m_selected_checkpoint m)) t) t (replay_records m)
    \<and> bt_get (m_committed_transactions m') t =
        (if txn_commits t (replay_records m) = [] then None
         else Some (wr_position (last (txn_commits t (replay_records m)))))"
proof -
  have inv: "model_inv m" using assms(1) by (rule recovery.reachable_inv)
  from restore_transactions_result [OF assms(2)] obtain active committed plan where
    phase: "m_phase m = PhPagesRepaired" and plan: "m_replay_plan m = Some plan"
    and run: "try_fold (restore_record m) (checkpoint_seed (m_selected_checkpoint m), []) plan
      = Inr (active, committed)"
    and m': "m_persisted_transactions m' = active" "m_committed_transactions m' = committed"
    by (auto simp: checkpoint_seed_def)
  have "plan = replay_records m"
    using model_invD(5) [OF inv] phase plan by (simp add: recovery_inv_def)
  with restored_table [OF run] replay_pages_before_commits [OF inv] m' show ?thesis by simp
qed

lemma restoration_rebuilds_table_witness:
  "\<exists>s m'. restore_transactions (after restored_ops) = (Inr s, m')
    \<and> bt_get (m_committed_transactions m') (TransactionId 1 1) =
        (if txn_commits (TransactionId 1 1) (replay_records (after restored_ops)) = [] then None
         else Some (wr_position (last (txn_commits (TransactionId 1 1) (replay_records (after restored_ops))))))"
proof -
  have "\<exists>s m'. restore_transactions (after restored_ops) = (Inr s, m')"
    by (simp add: after_def restored_ops_def planned_ops_def live_ops_def exec_defs)
  then obtain s m' where r: "restore_transactions (after restored_ops) = (Inr s, m')" by blast
  from restoration_rebuilds_table [OF after_reachable r] r show ?thesis by blast
qed

section \<open>Operations outside their phase\<close>

text \<open>Outside the live phases every live operation is refused with the current phase, and the
  model is left exactly as it was.\<close>

theorem live_operations_refused:
  assumes "m_phase m \<noteq> PhLive" and "m_phase m \<noteq> PhCompleteLive"
  shows "allocate_coordinator_epoch m = (Inl (InvalidPhase (m_phase m) ''allocate_epoch''), m)
    \<and> begin_transaction m = (Inl (InvalidPhase (m_phase m) ''begin_transaction''), m)
    \<and> append_transaction_page t p v ver m = (Inl (InvalidPhase (m_phase m) ''append_txn_page''), m)
    \<and> append_transaction_commit t m = (Inl (InvalidPhase (m_phase m) ''append_commit''), m)
    \<and> append_raw_page p v ver m = (Inl (InvalidPhase (m_phase m) ''append_raw_page''), m)
    \<and> flush_wal m = (Inl (InvalidPhase (m_phase m) ''flush_wal''), m)
    \<and> write_page_store pos m = (Inl (InvalidPhase (m_phase m) ''write_page_store''), m)
    \<and> publish_checkpoint a m = (Inl (InvalidPhase (m_phase m) ''publish_checkpoint''), m)
    \<and> begin_checkpoint_candidate cp m = (Inl (InvalidPhase (m_phase m) ''begin_cp_candidate''), m)"
  using assms
  by (simp add: allocate_epoch_eq begin_transaction_eq append_transaction_page_eq
      append_transaction_commit_eq append_raw_page_eq flush_eq write_page_store_def
      publish_checkpoint_def begin_checkpoint_candidate_def live_result)

lemma live_operations_refused_witness:
  "flush_wal (after planned_ops)
    = (Inl (InvalidPhase (m_phase (after planned_ops)) ''flush_wal''), after planned_ops)"
  using live_operations_refused [of "after planned_ops"] planned_run by simp

text \<open>C35: Recovery runs its stages in order: reopening, selecting, planning, repairing, restoring,
  completing, analysing and reclaiming succeed only in the phase the stage before left, and each
  moves on to its own phase.\<close>

theorem recovery_stage_order:
  shows "(reopen m = (Inr l, m') \<longrightarrow> m_phase m = PhCrashed \<and> m_phase m' = PhUnrecovered)
    \<and> (select_observed minimal full m = (Inr (), m') \<longrightarrow>
         m_phase m = PhUnrecovered \<and> m_phase m' = PhSelected)
    \<and> (plan_replay m = (Inr k, m') \<longrightarrow> m_phase m = PhSelected \<and> m_phase m' = PhReplayPlanned)
    \<and> (repair_pages m = (Inr n, m') \<longrightarrow> m_phase m = PhReplayPlanned \<and> m_phase m' = PhPagesRepaired)
    \<and> (restore_transactions m = (Inr s, m') \<longrightarrow>
         m_phase m = PhPagesRepaired \<and> m_phase m' = PhTransactionsRestored)
    \<and> (complete m = (Inr (), m') \<longrightarrow>
         m_phase m = PhTransactionsRestored \<and> m_phase m' = PhCompleteLive)
    \<and> (analyze_retention m = (Inr (), m') \<longrightarrow>
         m_phase m = PhCompleteLive \<and> m_phase m' = PhRetentionAnalyzed)
    \<and> (reclaim m = (Inr g, m') \<longrightarrow> m_phase m = PhRetentionAnalyzed \<and> m_phase m' = PhReclaimed)"
proof (intro conjI impI)
  show "m_phase m = PhCrashed" "m_phase m' = PhUnrecovered" if "reopen m = (Inr l, m')"
    using reopen_result [OF that] by auto
  show "m_phase m = PhUnrecovered" "m_phase m' = PhSelected"
    if "select_observed minimal full m = (Inr (), m')"
    using that by (auto simp: select_observed_def with_result_Inr_iff)
  show "m_phase m = PhSelected" "m_phase m' = PhReplayPlanned" if "plan_replay m = (Inr k, m')"
    using that by (auto simp: plan_replay_def with_result_Inr_iff Let_def)
  show "m_phase m = PhReplayPlanned" "m_phase m' = PhPagesRepaired" if "repair_pages m = (Inr n, m')"
    using that by (auto simp: repair_pages_def with_result_Inr_iff split: prod.split_asm sum.split_asm)
  show "m_phase m = PhPagesRepaired" "m_phase m' = PhTransactionsRestored"
    if "restore_transactions m = (Inr s, m')"
    using restore_transactions_result [OF that] by auto
  show "m_phase m = PhTransactionsRestored" "m_phase m' = PhCompleteLive" if "complete m = (Inr (), m')"
    using that by (auto simp: complete_def with_result_Inr_iff)
  show "m_phase m = PhCompleteLive" "m_phase m' = PhRetentionAnalyzed"
    if "analyze_retention m = (Inr (), m')"
    using analyze_retention_result [OF that] by auto
  show "m_phase m = PhRetentionAnalyzed" "m_phase m' = PhReclaimed" if "reclaim m = (Inr g, m')"
    using reclaim_result [OF that] by (auto simp: reclaimable_def)
qed

lemma recovery_stage_order_witness:
  "\<exists>g m'. reclaim (snd (analyze_retention (after complete_ops))) = (Inr g, m')
    \<and> m_phase m' = PhReclaimed"
proof -
  obtain m' where r: "reclaim (snd (analyze_retention (after complete_ops))) = (Inr (Generation 1), m')"
    using reclaim_run by (metis prod.collapse)
  from recovery_stage_order r show ?thesis by blast
qed

section \<open>Stale completion\<close>

lemma require_fresh_stale:
  assumes "m_completion_evidence m = Some ev"
  shows "require_fresh_completion (mark_completion_stale why m) = Inl (StaleCompletionEvidence why)"
  using assms by (simp add: require_fresh_completion_def mark_completion_stale_def)

definition made_stale :: "completion_evidence \<Rightarrow> recovery_model \<Rightarrow> bool" where
  "made_stale ev m' \<longleftrightarrow> (\<exists>why m1. m' = mark_completion_stale why m1
     \<and> m_phase m1 = PhCompleteLive \<and> m_completion_evidence m1 = Some ev)"

lemma made_staleI:
  "m_phase m1 = PhCompleteLive \<Longrightarrow> m_completion_evidence m1 = Some ev \<Longrightarrow>
    made_stale ev (mark_completion_stale why m1)"
  unfolding made_stale_def by blast

lemma mark_stale_candidate:
  "(mark_completion_stale why m)\<lparr>m_checkpoint_candidate := c\<rparr>
    = mark_completion_stale why (m\<lparr>m_checkpoint_candidate := c\<rparr>)"
  by (simp add: mark_completion_stale_def split: option.split)

lemma analyze_stale:
  assumes "made_stale ev m'"
  shows "\<exists>why. analyze_retention m' = (Inl (StaleCompletionEvidence why), m')"
proof -
  from assms obtain why m1 where m': "m' = mark_completion_stale why m1"
    and "m_phase m1 = PhCompleteLive" and ev: "m_completion_evidence m1 = Some ev"
    by (auto simp: made_stale_def)
  then show ?thesis
    using require_fresh_stale [OF ev] by (simp add: analyze_retention_def require_phase_def)
qed

text \<open>
  What analysis and reclamation rest on: the records, the tables, the page store, the checkpoints,
  the epochs, the generation, and the evidence itself.
\<close>

definition unmutated :: "recovery_model \<Rightarrow> recovery_model \<Rightarrow> bool" where
  "unmutated m m' \<longleftrightarrow>
     m_wal_records m' = m_wal_records m \<and> m_page_store m' = m_page_store m
   \<and> m_active_transactions m' = m_active_transactions m
   \<and> m_persisted_transactions m' = m_persisted_transactions m
   \<and> m_committed_transactions m' = m_committed_transactions m
   \<and> m_checkpoint_slot m' = m_checkpoint_slot m \<and> m_selected_checkpoint m' = m_selected_checkpoint m
   \<and> m_current_epoch m' = m_current_epoch m \<and> m_next_epoch m' = m_next_epoch m
   \<and> m_epoch_high_water m' = m_epoch_high_water m \<and> m_wal_generation m' = m_wal_generation m
   \<and> m_completion_evidence m' = m_completion_evidence m"

lemma unmutated_refl: "unmutated m m"
  by (simp add: unmutated_def)

text \<open>Once recovery is complete an operation that changes any of that makes the evidence stale.\<close>

lemma live_operation_stales:
  assumes "m_phase m = PhCompleteLive" and "m_completion_evidence m = Some ev"
  shows "allocate_coordinator_epoch m = (r1, m') \<Longrightarrow> (if isl r1 then m' = m else made_stale ev m')"
    and "begin_transaction m = (r2, m') \<Longrightarrow>
      (if isl r2 then unmutated m m' \<and> m_flush_position m' = m_flush_position m else made_stale ev m')"
    and "append_transaction_page t p v ver m = (r3, m') \<Longrightarrow>
      (if isl r3 then unmutated m m' \<and> m_flush_position m' = m_flush_position m else made_stale ev m')"
    and "append_transaction_commit t m = (r3, m') \<Longrightarrow>
      (if isl r3 then unmutated m m' \<and> m_flush_position m' = m_flush_position m else made_stale ev m')"
    and "append_raw_page p v ver m = (r3, m') \<Longrightarrow>
      (if isl r3 then unmutated m m' \<and> m_flush_position m' = m_flush_position m else made_stale ev m')"
    and "write_page_store pos m = (r4, m') \<Longrightarrow> (if isl r4 then m' = m else made_stale ev m')"
    and "publish_checkpoint a m = (r5, m') \<Longrightarrow> made_stale ev m'"
    and "begin_checkpoint_candidate cp m = (r5, m') \<Longrightarrow> made_stale ev m'"
    and "advance_checkpoint_candidate m = (r6, m') \<Longrightarrow>
      (if r6 = Inr AfterCurrentReplace then made_stale ev m'
       else unmutated m m' \<and> m_flush_position m' = m_flush_position m)"
proof -
  show "if isl r1 then m' = m else made_stale ev m'" if "allocate_coordinator_epoch m = (r1, m')"
    using that assms by (auto simp: allocate_epoch_eq intro!: made_staleI split: option.splits)
  show "if isl r2 then unmutated m m' \<and> m_flush_position m' = m_flush_position m else made_stale ev m'"
    if "begin_transaction m = (r2, m')"
    using that assms
    by (auto simp: begin_transaction_eq unmutated_def Let_def intro!: made_staleI split: option.splits if_splits)
  show "if isl r3 then unmutated m m' \<and> m_flush_position m' = m_flush_position m else made_stale ev m'"
    if "append_transaction_page t p v ver m = (r3, m')"
    using that assms
    by (auto simp: append_transaction_page_eq push_record_def unmutated_def intro!: made_staleI split: option.splits if_splits)
  show "if isl r3 then unmutated m m' \<and> m_flush_position m' = m_flush_position m else made_stale ev m'"
    if "append_transaction_commit t m = (r3, m')"
    using that assms
    by (auto simp: append_transaction_commit_eq push_record_def unmutated_def intro!: made_staleI split: option.splits if_splits)
  show "if isl r3 then unmutated m m' \<and> m_flush_position m' = m_flush_position m else made_stale ev m'"
    if "append_raw_page p v ver m = (r3, m')"
    using that assms
    by (auto simp: append_raw_page_eq push_record_def unmutated_def intro!: made_staleI split: option.splits if_splits)
  show "if isl r4 then m' = m else made_stale ev m'" if w: "write_page_store pos m = (r4, m')"
  proof (cases r4)
    case (Inl e)
    with write_page_store_result [OF w] show ?thesis by (auto dest: store_page_result)
  next
    case (Inr x)
    with write_page_store_result [OF w] obtain page val version
      where "store_page page val version pos m = (Inr x, m')" by auto
    from store_page_result [OF this] have m': "m' = mark_completion_stale ''page store written''
        (m\<lparr>m_page_store := bt_insert page (make_snapshot m page val pos version) (m_page_store m)\<rparr>)"
      by auto
    show ?thesis using Inr assms unfolding m' by (auto intro!: made_staleI)
  qed
  show "made_stale ev m'" if "publish_checkpoint a m = (r5, m')"
    using that assms by (auto simp: publish_checkpoint_def live_result Let_def intro!: made_staleI)
  show "made_stale ev m'" if "begin_checkpoint_candidate cp m = (r5, m')"
    using that assms by (auto simp: begin_checkpoint_candidate_def live_result Let_def intro!: made_staleI)
  show "if r6 = Inr AfterCurrentReplace then made_stale ev m'
      else unmutated m m' \<and> m_flush_position m' = m_flush_position m"
    if "advance_checkpoint_candidate m = (r6, m')"
    using that assms
    by (auto simp: advance_checkpoint_candidate_def unmutated_def with_result_def ok_or_def Let_def
          mark_stale_candidate intro!: made_staleI split: checkpoint_candidate_state.splits option.splits if_splits)
qed

lemma complete_live_step:
  assumes inv: "model_inv m" and phase: "m_phase m = PhCompleteLive"
    and ev: "m_completion_evidence m = Some ev" and step: "model_step m m'"
    and stays: "m_phase m' = PhCompleteLive"
  shows "made_stale ev m' \<or> unmutated m m' \<and> (m_flush_position m' = m_flush_position m
    \<or> flush_wal m = (Inr (m_flush_position m'), m'))"
  using step
proof cases
  case (step_epoch r)
  with live_operation_stales(1) [OF phase ev] unmutated_refl show ?thesis by metis
next
  case (step_write_page pos r)
  with live_operation_stales(6) [OF phase ev] unmutated_refl show ?thesis by metis
next
  case (step_begin r)
  with live_operation_stales(2) [OF phase ev] show ?thesis by metis
next
  case (step_transaction_page t p v ver r)
  with live_operation_stales(3) [OF phase ev] show ?thesis by metis
next
  case (step_commit t r)
  with live_operation_stales(4) [OF phase ev] show ?thesis by metis
next
  case (step_raw_page p v ver r)
  with live_operation_stales(5) [OF phase ev] show ?thesis by metis
next
  case (step_publish a r)
  with live_operation_stales(7) [OF phase ev] show ?thesis by metis
next
  case (step_begin_checkpoint cp r)
  with live_operation_stales(8) [OF phase ev] show ?thesis by metis
next
  case (step_advance_checkpoint r)
  with live_operation_stales(9) [OF phase ev] show ?thesis by metis
next
  case (step_flush r)
  then show ?thesis using phase by (auto simp: flush_eq unmutated_def Let_def split: if_splits)
next
  case (step_checkpoint_entry e r)
  then show ?thesis
    by (auto simp: set_checkpoint_candidate_entry_def unmutated_def split: checkpoint_candidate_state.splits)
next
  case (step_crash r)
  then show ?thesis using phase stays by (auto simp: crash_def crash_eq)
next
  case (step_crash_tail r)
  then show ?thesis using phase stays by (auto simp: crash_preserving_complete_wal_tail_def crash_eq)
next
  case (step_analyze r)
  then show ?thesis using analyze_retention_result stays unmutated_refl by fastforce
next
  case (step_reclaim r)
  then show ?thesis using reclaim_result stays unmutated_refl by fastforce
next
  case (step_advance_wal r)
  then show ?thesis
    using candidate_absent [OF model_invD(6) [OF inv]] phase unmutated_refl
    by (auto simp: advance_wal_candidate_def)
next
  case (step_wal_entry e r)
  then show ?thesis
    using candidate_absent [OF model_invD(6) [OF inv]] phase unmutated_refl
    by (auto simp: set_wal_candidate_entry_def)
qed (use phase unmutated_refl in \<open>auto simp: require_phase_def set_selected_entries_for_open_def
      set_checkpoint_candidate_for_open_def set_wal_candidate_for_open_def reopen_def select_observed_def
      plan_replay_def repair_pages_def repair_pages_fault_def repair_pages_applied_fault_def
      restore_transactions_def complete_def begin_wal_candidate_def\<close>)

text \<open>C34: Once recovery is complete, every successful live operation that can change the log, the
  tables, the page store, the epochs or the checkpoint makes the completion evidence stale, and
  retention analysis is then refused with the operation's reason; so does the rename of a checkpoint
  candidate. Conversely, whatever public operation runs, while the model stays live either analysis
  is refused in this way or nothing of all that has changed and the evidence is as fresh as before.
  Only the flush frontier may then have moved, and only by a WAL flush.\<close>

theorem live_mutation_stales_completion:
  assumes "model_reachable lid m" and "m_phase m = PhCompleteLive"
    and "m_completion_evidence m = Some ev" and "model_step m m'" and "m_phase m' = PhCompleteLive"
  shows "(allocate_coordinator_epoch m = (Inr e, m') \<or> begin_transaction m = (Inr t, m')
      \<or> append_transaction_page t p v ver m = (Inr pos, m') \<or> append_transaction_commit t m = (Inr pos, m')
      \<or> append_raw_page p v ver m = (Inr pos, m') \<or> write_page_store pos m = (Inr p, m')
      \<or> publish_checkpoint a m = (Inr (), m') \<or> begin_checkpoint_candidate cp m = (Inr (), m')
      \<or> advance_checkpoint_candidate m = (Inr AfterCurrentReplace, m')
      \<longrightarrow> (\<exists>why. analyze_retention m' = (Inl (StaleCompletionEvidence why), m')))
    \<and> ((\<exists>why. analyze_retention m' = (Inl (StaleCompletionEvidence why), m'))
      \<or> unmutated m m' \<and> (m_flush_position m' = m_flush_position m
           \<or> flush_wal m = (Inr (m_flush_position m'), m')))"
proof
  note stales = live_operation_stales [OF assms(2,3)]
  show "allocate_coordinator_epoch m = (Inr e, m') \<or> begin_transaction m = (Inr t, m')
      \<or> append_transaction_page t p v ver m = (Inr pos, m') \<or> append_transaction_commit t m = (Inr pos, m')
      \<or> append_raw_page p v ver m = (Inr pos, m') \<or> write_page_store pos m = (Inr p, m')
      \<or> publish_checkpoint a m = (Inr (), m') \<or> begin_checkpoint_candidate cp m = (Inr (), m')
      \<or> advance_checkpoint_candidate m = (Inr AfterCurrentReplace, m')
      \<longrightarrow> (\<exists>why. analyze_retention m' = (Inl (StaleCompletionEvidence why), m'))"
    using stales analyze_stale by fastforce
  have "made_stale ev m' \<or> unmutated m m' \<and> (m_flush_position m' = m_flush_position m
           \<or> flush_wal m = (Inr (m_flush_position m'), m'))"
    using complete_live_step [OF recovery.reachable_inv [OF assms(1)] assms(2-5)] .
  then show "(\<exists>why. analyze_retention m' = (Inl (StaleCompletionEvidence why), m'))
      \<or> unmutated m m' \<and> (m_flush_position m' = m_flush_position m
           \<or> flush_wal m = (Inr (m_flush_position m'), m'))"
    using analyze_stale by blast
qed

lemma live_mutation_stales_completion_witness:
  "\<exists>pos m'. append_raw_page (PageId 4) 1 (PageVersion 1) (after complete_ops) = (Inr pos, m')
    \<and> (\<exists>why. analyze_retention m' = (Inl (StaleCompletionEvidence why), m'))"
proof -
  have "\<exists>pos m'. append_raw_page (PageId 4) 1 (PageVersion 1) (after complete_ops) = (Inr pos, m')
      \<and> m_phase m' = PhCompleteLive"
    and "\<exists>ev. m_completion_evidence (after complete_ops) = Some ev"
    by (simp_all add: after_def complete_ops_def planned_ops_def live_ops_def exec_defs)
  then obtain pos m' ev where r: "append_raw_page (PageId 4) 1 (PageVersion 1) (after complete_ops) = (Inr pos, m')"
    and phase: "m_phase m' = PhCompleteLive"
    and ev: "m_completion_evidence (after complete_ops) = Some ev" by blast
  from live_mutation_stales_completion [OF after_reachable complete_run ev step_raw_page [OF r] phase] r
  show ?thesis by blast
qed

end
