(* ===== verification/Recovery_Retention_Properties.thy ===== *)
theory Recovery_Retention_Properties
  imports Recovery_Spec
begin

text \<open>
  Retention and reclamation: what the analysis keeps, what a reclamation changes and preserves,
  the atomicity of the staged replacement, the replay boundary of a published checkpoint, and the
  duplicate check over untrusted transaction tables.
\<close>

section \<open>Reclamation\<close>

lemma has_record_at_iff: "has_record_at m p \<longleftrightarrow> (\<exists>r \<in> set (m_wal_records m). wr_position r = p)"
  by (auto simp: has_record_at_def list_ex_iff)

lemma generation_next_unat:
  "generation_checked_next g = Some g' \<Longrightarrow> unat (generation_get g') = unat (generation_get g) + 1"
  by (auto simp: generation_checked_next_def dest: checked_add_Some_unat split: option.splits)

lemma reclaim_outcome:
  assumes "model_reachable lid m" and "reclaim m = (res, m')"
  shows "(\<forall>e. res = Inl e \<longrightarrow> m' = m)
    \<and> (\<forall>g. res = Inr g \<longrightarrow>
         unat (generation_get g) = unat (generation_get (m_wal_generation m)) + 1
       \<and> m_wal_generation m' = g
       \<and> (\<exists>ra. m_retention_analysis m = Some ra \<and> m_generation_anchor m' = Some (ra_checkpoint_anchor ra)
            \<and> m_retained_first m' = ra_retained_first ra)
       \<and> (\<exists>pre. m_wal_records m = pre @ m_wal_records m')
       \<and> m_flush_position m' = m_flush_position m \<and> m_page_store m' = m_page_store m
       \<and> m_next_position m' = m_next_position m \<and> m_epoch_high_water m' = m_epoch_high_water m
       \<and> (\<forall>p s. bt_get (m_page_store m') p = Some s \<longrightarrow>
            page_backed (m_wal_records m') (m_flush_position m') p s))"
proof -
  have inv: "model_inv m" using assms(1) by (rule recovery.reachable_inv)
  note inv' = reclaim_inv [OF assms(2) inv]
  show ?thesis
  proof (cases res)
    case (Inl e)
    with reclaim_result [OF assms(2)] show ?thesis by auto
  next
    case (Inr g)
    with reclaim_result [OF assms(2)] obtain ra where ra: "reclaimable m ra"
      and g: "generation_checked_next (m_wal_generation m) = Some g"
      and m': "m' = (install_replacement (reclaim_replacement m g ra) m)
             \<lparr>m_retention_analysis := None, m_wal_candidate := WalAbsent,
              m_locks := (m_locks m)\<lparr>lk_wal_old_inode := Free, lk_wal_new_inode := Free\<rparr>,
              m_phase := PhReclaimed\<rparr>" by auto
    have "\<exists>pre. m_wal_records m = pre @ m_wal_records m'"
      using retained_suffix_split [of m "ra_retained_first ra"] model_invD(1) [OF inv]
      by (simp add: m' install_replacement_def reclaim_replacement_def)
    moreover have "m_flush_position m' = m_flush_position m"
      using model_invD(1) [OF inv]
      by (simp add: m' install_replacement_def reclaim_replacement_def wal_inv_def)
    moreover have "\<forall>p s. bt_get (m_page_store m') p = Some s \<longrightarrow>
        page_backed (m_wal_records m') (m_flush_position m') p s"
      using model_invD(3) [OF inv'] by (auto simp: store_inv_def)
    ultimately show ?thesis
      using Inr ra generation_next_unat [OF g]
      by (simp add: m' install_replacement_def reclaim_replacement_def reclaimable_def)
  qed
qed

text \<open>C23: A successful reclamation moves to the next generation bound to the analysed checkpoint's
  anchor, keeps a suffix of the log that ends at the same flush frontier and still backs every
  stored page, and leaves the page store, the allocators and the epoch high-water alone. A refused
  one changes nothing.\<close>

theorem reclaim_keeps_backed_suffix:
  assumes "model_reachable lid m" and "reclaim m = (res, m')"
  shows "(\<forall>e. res = Inl e \<longrightarrow> m' = m)
    \<and> (\<forall>g. res = Inr g \<longrightarrow>
         unat (generation_get g) = unat (generation_get (m_wal_generation m)) + 1
       \<and> m_wal_generation m' = g
       \<and> (\<exists>ra. m_retention_analysis m = Some ra \<and> m_generation_anchor m' = Some (ra_checkpoint_anchor ra)
            \<and> m_retained_first m' = ra_retained_first ra)
       \<and> (\<exists>pre. m_wal_records m = pre @ m_wal_records m')
       \<and> m_flush_position m' = m_flush_position m \<and> m_page_store m' = m_page_store m
       \<and> m_next_position m' = m_next_position m \<and> m_epoch_high_water m' = m_epoch_high_water m
       \<and> (\<forall>p s. bt_get (m_page_store m') p = Some s \<longrightarrow>
            page_backed (m_wal_records m') (m_flush_position m') p s))"
  using assms by (rule reclaim_outcome)

lemma reclaim_keeps_backed_suffix_witness:
  "\<exists>m'. reclaim (snd (analyze_retention (after complete_ops))) = (Inr (Generation 1), m')
    \<and> m_page_store m' = m_page_store (snd (analyze_retention (after complete_ops)))
    \<and> (\<exists>pre. m_wal_records (snd (analyze_retention (after complete_ops))) = pre @ m_wal_records m')"
proof -
  obtain m' where r: "reclaim (snd (analyze_retention (after complete_ops))) = (Inr (Generation 1), m')"
    using reclaim_run by (metis prod.collapse)
  have "model_reachable (LogId 1) (snd (analyze_retention (after complete_ops)))"
    using reach_op [OF after_reachable step_analyze] by (metis prod.collapse)
  from reclaim_keeps_backed_suffix [OF this r] r show ?thesis by blast
qed

text \<open>C25: Retention analysis and the reclamation after it keep the records at the checkpoint
  frontier and replay start, at the first position of every restored transaction, and behind every
  stored page: all of them are still in the log afterwards.\<close>

theorem retention_keeps_needed_records:
  assumes "analyze_retention m = (Inr (), m1)" and "reclaim m1 = (Inr g, m2)"
    and "m_selected_checkpoint m = Some cp"
    and "frontier_position (cp_frontier cp) = Some q \<or> cp_replay_start cp = Some q
      \<or> (\<exists>t ps. (t, q # ps) \<in> set (m_persisted_transactions m))
      \<or> (\<exists>s \<in> set (bt_values (m_page_store m)). ps_written_at s = q)"
    and "r \<in> set (m_wal_records m)" and "wr_position r = q"
  shows "r \<in> set (m_wal_records m2)"
proof -
  from analyze_retention_result [OF assms(1)] assms(3) obtain floor
    where floor: "retained_floor m cp = Inr floor"
      and m1: "m1 = m\<lparr>m_retention_analysis := Some
              \<lparr>ra_retained_first = floor, ra_checkpoint_anchor = cp_anchor cp,
               ra_checkpoint_log_id = cp_log_id cp\<rparr>, m_phase := PhRetentionAnalyzed\<rparr>" by auto
  have low: "floor_le floor q" using retained_floor_covers [OF floor] assms(4) by blast
  from reclaim_result [OF assms(2)] have "m_wal_records m2 = retained_suffix_of m1 floor"
    by (auto simp: m1 reclaimable_def install_replacement_def reclaim_replacement_def)
  with low assms(5,6) show ?thesis
    by (auto simp: m1 retained_suffix_of_def floor_le_def)
qed

lemma retention_keeps_needed_records_witness:
  "\<exists>m2 g cp r q. reclaim (snd (analyze_retention (after complete_ops))) = (Inr g, m2)
    \<and> m_selected_checkpoint (after complete_ops) = Some cp
    \<and> frontier_position (cp_frontier cp) = Some q \<and> wr_position r = q
    \<and> r \<in> set (m_wal_records m2)"
proof -
  obtain m2 where r: "reclaim (snd (analyze_retention (after complete_ops))) = (Inr (Generation 1), m2)"
    using reclaim_run by (metis prod.collapse)
  have a: "analyze_retention (after complete_ops) = (Inr (), snd (analyze_retention (after complete_ops)))"
    using analyze_run by (metis prod.collapse)
  have "\<exists>cp q r. m_selected_checkpoint (after complete_ops) = Some cp
      \<and> frontier_position (cp_frontier cp) = Some q \<and> wr_position r = q
      \<and> r \<in> set (m_wal_records (after complete_ops))"
    by (simp add: after_def complete_ops_def planned_ops_def live_ops_def exec_defs) force
  then obtain cp q x where x: "m_selected_checkpoint (after complete_ops) = Some cp"
    "frontier_position (cp_frontier cp) = Some q" "wr_position x = q"
    "x \<in> set (m_wal_records (after complete_ops))" by blast
  from retention_keeps_needed_records [OF a r x(1) disjI1 [OF x(2)] x(4,3)] r x show ?thesis by blast
qed

text \<open>C16: When the completion evidence is fresh and speaks of the current flush frontier,
  reclamation loses no durable content: for every page the last durable raw or committed image is
  the same before and after.\<close>

theorem reclaim_preserves_durable_content:
  assumes "model_reachable lid m" and "reclaim m = (Inr g, m')"
    and "m_completion_evidence m = Some ev" and "\<not> ev_stale ev"
    and "ev_frontier ev = m_flush_position m"
  shows "durable_content (m_wal_records m') (m_flush_position m') p
    = durable_content (m_wal_records m) (m_flush_position m) p"
proof -
  have inv: "model_inv m" using assms(1) by (rule recovery.reachable_inv)
  note inv' = reclaim_inv [OF assms(2) inv]
  from reclaim_outcome [OF assms(1,2)] obtain pre where
    log: "m_wal_records m = pre @ m_wal_records m'" and flush: "m_flush_position m' = m_flush_position m"
    and store: "m_page_store m' = m_page_store m" by auto
  have "m_phase m = PhRetentionAnalyzed"
    using reclaim_result [OF assms(2)] by (auto simp: reclaimable_def)
  then have complete: "store_complete m"
    using model_invD(5) [OF inv] assms(3-5) by (simp add: recovery_inv_def)
  have "record_applied (m_wal_records m) (m_flush_position m) r"
    if "record_applied (m_wal_records m') (m_flush_position m') r" for r
    using record_applied_mono [OF that] log flush by simp
  then have "store_complete m'"
    using complete log store unfolding store_complete_def by auto
  with store_holds_durable_content [OF inv'] store_holds_durable_content [OF inv complete] store
  show ?thesis by metis
qed

lemma reclaim_preserves_durable_content_witness:
  "\<exists>m'. reclaim (snd (analyze_retention (after complete_ops))) = (Inr (Generation 1), m')
    \<and> durable_content (m_wal_records m') (m_flush_position m') (PageId 2)
      = durable_content (m_wal_records (snd (analyze_retention (after complete_ops))))
          (m_flush_position (snd (analyze_retention (after complete_ops)))) (PageId 2)"
proof -
  obtain m' where r: "reclaim (snd (analyze_retention (after complete_ops))) = (Inr (Generation 1), m')"
    using reclaim_run by (metis prod.collapse)
  have reach: "model_reachable (LogId 1) (snd (analyze_retention (after complete_ops)))"
    using reach_op [OF after_reachable step_analyze] by (metis prod.collapse)
  have "\<exists>ev. m_completion_evidence (snd (analyze_retention (after complete_ops))) = Some ev
      \<and> \<not> ev_stale ev \<and> ev_frontier ev = m_flush_position (snd (analyze_retention (after complete_ops)))"
    by (simp add: after_def complete_ops_def planned_ops_def live_ops_def exec_defs)
  then obtain ev where ev: "m_completion_evidence (snd (analyze_retention (after complete_ops))) = Some ev"
    "\<not> ev_stale ev" "ev_frontier ev = m_flush_position (snd (analyze_retention (after complete_ops)))"
    by blast
  from reclaim_preserves_durable_content [OF reach r ev] r show ?thesis by blast
qed

section \<open>Staged replacement\<close>

text \<open>\<open>k\<close> stages of the WAL replacement.\<close>

fun advance_stages :: "nat \<Rightarrow> recovery_model \<Rightarrow> recovery_model" where
  "advance_stages 0 m = m"
| "advance_stages (Suc k) m = advance_stages k (snd (advance_wal_candidate m))"

lemma advance_stages_Suc: "advance_stages (Suc k) m = snd (advance_wal_candidate (advance_stages k m))"
  by (induction k arbitrary: m) simp_all

text \<open>
  What a WAL generation is: number, format, anchor, records, retained boundary, the high-water marks
  of its header, and the current high-water marks and flush frontier that come with it. The rest of
  the state has these fields and the pending candidate blanked out.
\<close>

type_synonym wal_generation_view =
  "generation \<times> u16 \<times> checkpoint_anchor option \<times> wal_record list \<times> wal_position option
     \<times> wal_position option \<times> u64 option \<times> wal_position option \<times> wal_position option \<times> u64 option"

definition generation_view :: "recovery_model \<Rightarrow> wal_generation_view" where
  "generation_view m = (m_wal_generation m, m_wal_format_version m, m_generation_anchor m, m_wal_records m,
     m_retained_first m, m_replacement_logical_high_water m, m_replacement_epoch_high_water m,
     m_logical_high_water m, m_flush_position m, m_epoch_high_water m)"

definition outside_generation :: "recovery_model \<Rightarrow> recovery_model" where
  "outside_generation m = m\<lparr>m_wal_generation := generation_zero, m_wal_format_version := 0,
     m_generation_anchor := None, m_wal_records := [], m_retained_first := None,
     m_replacement_logical_high_water := None, m_replacement_epoch_high_water := None,
     m_logical_high_water := None, m_flush_position := None, m_epoch_high_water := None,
     m_wal_candidate := WalAbsent\<rparr>"

text \<open>The generation a crash finds when the replacement is in place.\<close>

definition replaced_view :: "bool \<Rightarrow> wal_replacement \<Rightarrow> wal_generation_view" where
  "replaced_view keep w = (wp_target_generation w, wp_format_version w, Some (wp_anchor w),
     filter (\<lambda>r. keep \<or> covered_by (wp_logical_high_water w) (wr_position r)) (wp_retained_suffix w),
     wp_retained_first w, wp_logical_high_water w, wp_epoch_high_water w,
     wp_logical_high_water w, wp_logical_high_water w, wp_epoch_high_water w)"

definition rebranded_view :: "lineage_id \<Rightarrow> wal_generation_view \<Rightarrow> wal_generation_view" where
  "rebranded_view l = (\<lambda>(g, f, a, rs, rest). (g, f, a, map (\<lambda>r. r\<lparr>wr_lineage_id := l\<rparr>) rs, rest))"

lemma advance_stages_pending:
  assumes "m_wal_candidate m = WalPresent w BeforeCleanup e" and "k \<le> 8"
  shows "\<exists>s e'. stage_index s = k \<and> advance_stages k m
    = (if k < 7 then m else install_replacement w m)\<lparr>m_wal_candidate := WalPresent w s e'\<rparr>"
  using assms(2)
proof (induction k)
  case 0
  have "m = m\<lparr>m_wal_candidate := WalPresent w BeforeCleanup e\<rparr>" using assms(1) by simp
  then show ?case by (intro exI [of _ BeforeCleanup] exI [of _ e]) simp
next
  case (Suc k)
  then obtain s e' where s: "stage_index s = k" and state: "advance_stages k m
      = (if k < 7 then m else install_replacement w m)\<lparr>m_wal_candidate := WalPresent w s e'\<rparr>" by auto
  have "s \<noteq> AfterDirectorySync" using s Suc.prems by auto
  then obtain t where t: "stage_next s = Some t" by (cases "stage_next s") (auto simp: stage_next_None_iff)
  have index: "stage_index t = Suc k" using stage_next_index [OF t] s by simp
  then have inner: "t \<noteq> AfterDirectorySync" using Suc.prems by auto
  have rename: "t = AfterCurrentReplace \<longleftrightarrow> k = 6" using index by (cases t) auto
  have "advance_stages (Suc k) m = (if Suc k < 7 then m else install_replacement w m)
      \<lparr>m_wal_candidate := WalPresent w t (wal_entry_at t)\<rparr>"
    using rename Suc.prems
    by (simp only: advance_stages_Suc state, subst advance_wal_candidate_stage [OF _ t inner])
      (auto simp: install_replacement_def)
  with index show ?case by blast
qed

lemma advance_stages_done:
  assumes "m_wal_candidate m = WalPresent w BeforeCleanup e"
  shows "advance_stages 9 m = (install_replacement w m)\<lparr>m_wal_candidate := WalAbsent,
    m_locks := (m_locks m)\<lparr>lk_wal_old_inode := Free, lk_wal_new_inode := Free\<rparr>\<rparr>"
proof -
  obtain s e' where s: "stage_index s = 8" and state: "advance_stages 8 m
      = (install_replacement w m)\<lparr>m_wal_candidate := WalPresent w s e'\<rparr>"
    using advance_stages_pending [OF assms, of 8] by auto
  from s have "s = DuringDirectorySync" by (cases s) auto
  then have "snd (advance_wal_candidate (advance_stages 8 m)) = (install_replacement w m)\<lparr>m_wal_candidate := WalAbsent,
      m_locks := (m_locks m)\<lparr>lk_wal_old_inode := Free, lk_wal_new_inode := Free\<rparr>\<rparr>"
    unfolding state by (subst advance_wal_candidate_last [where w = w and e = e']) (simp_all add: install_replacement_def)
  with advance_stages_Suc [of 8 m] show ?thesis by simp
qed

lemma advance_stages_fields:
  assumes "m_wal_candidate m = WalPresent w BeforeCleanup e" and "k \<le> 9"
  obtains c l where "advance_stages k m
      = (if k < 7 then m else install_replacement w m)\<lparr>m_wal_candidate := c, m_locks := l\<rparr>"
    and "c = WalAbsent \<longleftrightarrow> k = 9"
proof (cases "k = 9")
  case True
  with advance_stages_done [OF assms(1)] that show thesis by simp
next
  case False
  with assms(2) obtain s e' where "advance_stages k m
      = (if k < 7 then m else install_replacement w m)\<lparr>m_wal_candidate := WalPresent w s e'\<rparr>"
    using advance_stages_pending [OF assms(1), of k] by auto
  moreover have "x\<lparr>m_wal_candidate := c\<rparr> = x\<lparr>m_wal_candidate := c, m_locks := m_locks x\<rparr>" for x c by simp
  ultimately show thesis using that False by (metis wal_candidate_state.distinct(1))
qed

text \<open>A replacement the rename may install stays one until then, so driving it is a run of the system.\<close>

lemma advance_stages_reachable:
  assumes "model_reachable lid m" and "m_wal_candidate m = WalPresent w BeforeCleanup e"
    and "replacement_ok m w" and "k \<le> 9"
  shows "model_reachable lid (advance_stages k m)"
  using assms(4)
proof (induction k)
  case 0
  then show ?case using assms(1) by simp
next
  case (Suc k)
  then obtain s e' where s: "stage_index s = k" and state: "advance_stages k m
      = (if k < 7 then m else install_replacement w m)\<lparr>m_wal_candidate := WalPresent w s e'\<rparr>"
    using advance_stages_pending [OF assms(2), of k] by auto
  have "replacement_ok (m\<lparr>m_wal_candidate := c\<rparr>) w" for c
    using assms(3) by (simp add: replacement_ok_def retains_def)
  then have "wal_rename_ok (advance_stages k m)"
    using s by (auto simp: wal_rename_ok_def state)
  from step_advance_wal [OF this prod.collapse [symmetric]] Suc show ?case
    by (simp only: advance_stages_Suc) (rule reach_step, simp_all)
qed

text \<open>C24: The staged WAL replacement is atomic for a crash. However many of its nine stages ran
  before the crash, the crashed state holds the old generation with all its marks before the rename
  stage and the new one with all its marks from the rename stage on; nothing outside the generation
  differs from a crash without the attempt, and only the last stage removes the candidate. A reopen
  discards a candidate left behind and keeps that generation.\<close>

theorem replacement_is_atomic:
  assumes "begin_wal_candidate w m = (Inr (), m0)" and "k \<le> 9"
    and "crash_with_complete_tail keep m = (Inr (), crashed)"
  shows "\<exists>m1. crash_with_complete_tail keep (advance_stages k m0) = (Inr (), m1)
    \<and> generation_view m1 = (if k < 7 then generation_view crashed else replaced_view keep w)
    \<and> outside_generation m1 = outside_generation crashed
    \<and> (m_wal_candidate m1 = WalAbsent \<longleftrightarrow> k = 9)
    \<and> (\<forall>l m2. reopen m1 = (Inr l, m2) \<longrightarrow>
         m_wal_candidate m2 = WalAbsent \<and> generation_view m2 = rebranded_view l (generation_view m1))"
proof -
  let ?lk = "(m_locks m)\<lparr>lk_wal_old_inode := Live, lk_wal_new_inode := Live\<rparr>"
  from begin_wal_candidate_result [OF assms(1)] have phase: "m_phase m = PhRetentionAnalyzed"
    and m0: "m0 = m\<lparr>m_locks := ?lk, m_wal_candidate := WalPresent w BeforeCleanup EntryAbsent\<rparr>"
    by simp_all
  then have "m_wal_candidate m0 = WalPresent w BeforeCleanup EntryAbsent" by simp
  then obtain c l where state: "advance_stages k m0
      = (if k < 7 then m0 else install_replacement w m0)\<lparr>m_wal_candidate := c, m_locks := l\<rparr>"
    and c: "c = WalAbsent \<longleftrightarrow> k = 9" using assms(2) by (rule advance_stages_fields)
  note state = state [unfolded m0]
  define m1 where "m1 = snd (crash_with_complete_tail keep (advance_stages k m0))"
  have m1: "crash_with_complete_tail keep (advance_stages k m0) = (Inr (), m1)"
    using phase by (simp add: m1_def crash_eq state m0 install_replacement_def)
  have crashed: "crashed = snd (crash_with_complete_tail keep m)" using assms(3) by simp
  have "generation_view m1 = (if k < 7 then generation_view crashed else replaced_view keep w)"
    by (simp add: m1_def crashed crash_eq state m0 phase install_replacement_def generation_view_def
        replaced_view_def)
  moreover have "outside_generation m1 = outside_generation crashed"
    by (simp add: m1_def crashed crash_eq state m0 phase install_replacement_def outside_generation_def)
  moreover have "m_wal_candidate m1 = c"
    by (simp add: m1_def crash_eq state m0 phase install_replacement_def)
  moreover have "m_wal_candidate m2 = WalAbsent \<and> generation_view m2 = rebranded_view l (generation_view m1)"
    if "reopen m1 = (Inr l, m2)" for l m2
    using reopen_result [OF that] by (auto simp: generation_view_def rebranded_view_def)
  ultimately show ?thesis using m1 c by blast
qed

definition analyzed :: recovery_model where
  "analyzed = snd (analyze_retention (after complete_ops))"

definition example_replacement :: wal_replacement where
  "example_replacement = \<lparr>wp_target_generation = Generation 1,
     wp_anchor = \<lparr>ca_version = 1, ca_digest = 5\<rparr>, wp_retained_suffix = m_wal_records analyzed,
     wp_retained_first = Some (WalPosition 1), wp_format_version = 4,
     wp_logical_high_water = m_flush_position analyzed, wp_epoch_high_water = m_epoch_high_water analyzed\<rparr>"

lemma analyzed_reachable: "model_reachable (LogId 1) analyzed"
  unfolding analyzed_def using reach_op [OF after_reachable step_analyze] by (metis prod.collapse)

lemma example_begins: "\<exists>m0. begin_wal_candidate example_replacement analyzed = (Inr (), m0)"
  by (simp add: example_replacement_def analyzed_def after_def complete_ops_def planned_ops_def live_ops_def exec_defs)

lemma example_crash: "\<exists>m1. crash_with_complete_tail False analyzed = (Inr (), m1) \<and> m_wal_generation m1 = Generation 0"
  by (simp add: analyzed_def after_def complete_ops_def planned_ops_def live_ops_def exec_defs)

lemma replacement_is_atomic_witness:
  "\<exists>m0 m6 m7. begin_wal_candidate example_replacement analyzed = (Inr (), m0)
    \<and> crash_with_complete_tail False (advance_stages 6 m0) = (Inr (), m6) \<and> m_wal_generation m6 = Generation 0
    \<and> crash_with_complete_tail False (advance_stages 7 m0) = (Inr (), m7) \<and> m_wal_generation m7 = Generation 1
    \<and> m_flush_position m7 = m_flush_position analyzed"
proof -
  obtain m0 where m0: "begin_wal_candidate example_replacement analyzed = (Inr (), m0)" using example_begins by blast
  obtain m1 where m1: "crash_with_complete_tail False analyzed = (Inr (), m1)" "m_wal_generation m1 = Generation 0"
    using example_crash by blast
  from replacement_is_atomic [OF m0 _ m1(1), of 6] obtain m6 where
    m6: "crash_with_complete_tail False (advance_stages 6 m0) = (Inr (), m6)"
      "generation_view m6 = generation_view m1" by auto
  from replacement_is_atomic [OF m0 _ m1(1), of 7] obtain m7 where
    m7: "crash_with_complete_tail False (advance_stages 7 m0) = (Inr (), m7)"
      "generation_view m7 = replaced_view False example_replacement" by auto
  from m6 m7 m0 m1(2) show ?thesis
    by (simp add: generation_view_def replaced_view_def example_replacement_def)
qed

text \<open>
  A rename of a replacement that keeps too little does break the store, which is why the transition
  system asks for \<open>wal_rename_ok\<close>: the operations themselves do not look at the records.
\<close>

lemma unchecked_rename_breaks_store:
  "\<exists>w m0. begin_wal_candidate w analyzed = (Inr (), m0) \<and> \<not> model_inv (advance_stages 7 m0)"
proof -
  let ?w = "example_replacement\<lparr>wp_retained_suffix := []\<rparr>"
  have "\<exists>m0. begin_wal_candidate ?w analyzed = (Inr (), m0)"
    and stored: "\<exists>s. bt_get (m_page_store analyzed) (PageId 1) = Some s"
    by (simp_all add: example_replacement_def analyzed_def after_def complete_ops_def planned_ops_def live_ops_def exec_defs)
  then obtain m0 where m0: "begin_wal_candidate ?w analyzed = (Inr (), m0)" by blast
  from begin_wal_candidate_result [OF m0] have pending: "m_wal_candidate m0 = WalPresent ?w BeforeCleanup EntryAbsent"
    and store: "m_page_store m0 = m_page_store analyzed" by auto
  from pending obtain c l where "advance_stages 7 m0
      = (if (7::nat) < 7 then m0 else install_replacement ?w m0)\<lparr>m_wal_candidate := c, m_locks := l\<rparr>"
    by (rule advance_stages_fields [where k = 7]) simp_all
  with stored store have "\<not> store_inv (advance_stages 7 m0)"
    by (auto simp: store_inv_def page_backed_def install_replacement_def)
  with m0 show ?thesis by (auto simp: model_inv_def)
qed

section \<open>Checkpoint publication\<close>

text \<open>C27: A published checkpoint's replay boundary is sound and tight: every page record the replay
  will skip is already in the store at least as new, and the replay start, when there is one, is
  the position of a durable page record the store still lacks.\<close>

theorem published_replay_boundary:
  assumes "model_reachable lid m" and "publish_checkpoint a m = (Inr (), m')"
  shows "\<exists>cp. m_checkpoint_slot m' = Some cp
    \<and> frontier_position (cp_frontier cp) = m_flush_position m \<and> cp_pages cp = m_page_store m
    \<and> (\<forall>r \<in> set (m_wal_records m). \<forall>p. wr_page r = Some p \<longrightarrow> page_kind (wr_kind r) \<longrightarrow>
         \<not> needs_replay (Some cp) (wr_position r) \<longrightarrow> store_reaches (m_page_store m) p (wr_position r))
    \<and> (\<forall>rs. cp_replay_start cp = Some rs \<longrightarrow>
         (\<exists>r \<in> set (m_wal_records m). wr_position r = rs \<and> covered_by (m_flush_position m) rs
            \<and> (\<exists>p. wr_page r = Some p \<and> \<not> store_reaches (m_page_store m) p rs)))"
proof -
  have inv: "model_inv m" using assms(1) by (rule recovery.reachable_inv)
  have slot: "m_checkpoint_slot m' = Some (current_checkpoint m a)"
    using assms(2) by (auto simp: publish_checkpoint_def live_result Let_def split: if_splits)
  have tight: "\<exists>r \<in> set rs. wr_position r = x \<and> unreplayed store f r \<or> earliest = Some x"
    if "earliest_unreplayed store f earliest rs = Some x" "rs \<noteq> []" for store f earliest rs x
    using that
  proof (induction rs arbitrary: earliest)
    case (Cons r rs)
    show ?case
    proof (cases "rs = []")
      case True
      with Cons.prems(1) show ?thesis
        unfolding earliest_unreplayed_step
        by (auto simp: lower_start_def split: if_splits option.splits)
    next
      case False
      from Cons.IH [OF Cons.prems(1) [unfolded earliest_unreplayed_step] False] show ?thesis
        by (auto simp: lower_start_def split: if_splits option.splits)
    qed
  qed simp
  have start: "\<exists>r \<in> set (m_wal_records m). wr_position r = rs \<and> covered_by (m_flush_position m) rs
      \<and> (\<exists>p. wr_page r = Some p \<and> \<not> store_reaches (m_page_store m) p rs)"
    if "compute_replay_start m = Some rs" for rs
  proof -
    from that obtain fp where fp: "m_flush_position m = Some fp"
      and e: "earliest_unreplayed (m_page_store m) fp None (m_wal_records m) = Some rs"
      by (auto simp: compute_replay_start_def split: option.splits)
    from e have "m_wal_records m \<noteq> []" by auto
    from tight [OF e this] fp show ?thesis by (auto simp: unreplayed_def)
  qed
  from current_checkpoint_inv [OF inv, of a] start show ?thesis
    by (intro exI [of _ "current_checkpoint m a"]) (simp add: slot checkpoint_inv_def)
qed

lemma published_replay_boundary_witness:
  "\<exists>m' cp. publish_checkpoint \<lparr>ca_version = 1, ca_digest = 5\<rparr> (after live_ops) = (Inr (), m')
    \<and> m_checkpoint_slot m' = Some cp \<and> cp_pages cp = m_page_store (after live_ops)"
proof -
  obtain m' where p: "publish_checkpoint \<lparr>ca_version = 1, ca_digest = 5\<rparr> (after live_ops) = (Inr (), m')"
    using live_run by (simp add: publish_checkpoint_def live_result Let_def)
  from published_replay_boundary [OF after_reachable p] p show ?thesis by blast
qed

section \<open>Untrusted transaction tables\<close>

lemma find_duplicate_loop_result:
  "case find_duplicate_loop seen entries of
     None \<Rightarrow> distinct (map ut_id entries) \<and> (\<forall>e \<in> set entries. bt_get seen (ut_id e) = None)
   | Some t \<Rightarrow> \<exists>pre e post. entries = pre @ e # post \<and> ut_id e = t
        \<and> (t \<in> ut_id ` set pre \<or> bt_get seen t \<noteq> None)
        \<and> distinct (map ut_id pre) \<and> (\<forall>x \<in> set pre. bt_get seen (ut_id x) = None)"
proof (induction entries arbitrary: seen)
  case (Cons e es)
  show ?case
  proof (cases "bt_contains_key seen (ut_id e)")
    case True
    then show ?thesis by (auto simp: bt_contains_key_def intro: exI [of _ "[]"])
  next
    case False
    then have new: "bt_get seen (ut_id e) = None" by (simp add: bt_contains_key_def)
    let ?seen = "bt_insert (ut_id e) (ut_data e) seen"
    show ?thesis
    proof (cases "find_duplicate_loop ?seen es")
      case None
      with Cons.IH [of ?seen] False new show ?thesis by (auto simp: image_iff split: if_splits)
    next
      case (Some t)
      with Cons.IH [of ?seen] obtain pre x post where "es = pre @ x # post" "ut_id x = t"
        "t \<in> ut_id ` set pre \<or> bt_get ?seen t \<noteq> None" "distinct (map ut_id pre)"
        "\<forall>x \<in> set pre. bt_get ?seen (ut_id x) = None" by auto
      note sp = this
      have "e # es = (e # pre) @ x # post" using sp(1) by simp
      moreover have "t \<in> ut_id ` set (e # pre) \<or> bt_get seen t \<noteq> None"
        using sp(3) by (auto split: if_splits)
      moreover have "distinct (map ut_id (e # pre))" using sp(4,5) by (force split: if_splits)
      moreover have "\<forall>x \<in> set (e # pre). bt_get seen (ut_id x) = None"
        using sp(5) new by (auto split: if_splits)
      ultimately have "\<exists>pre x post. e # es = pre @ x # post \<and> ut_id x = t
          \<and> (t \<in> ut_id ` set pre \<or> bt_get seen t \<noteq> None)
          \<and> distinct (map ut_id pre) \<and> (\<forall>x \<in> set pre. bt_get seen (ut_id x) = None)"
        using sp(2) by blast
      with Some False show ?thesis by simp
    qed
  qed
qed simp

text \<open>The duplicate check returns nothing exactly when all transaction identities of the table
  differ, and otherwise the first identity that repeats an earlier row.\<close>

theorem find_duplicate_correct:
  "(find_duplicate_in_untrusted_transaction_table entries = None) = distinct (map ut_id entries)
   \<and> (find_duplicate_in_untrusted_transaction_table entries = Some t) =
       (\<exists>pre e post. entries = pre @ e # post \<and> ut_id e = t \<and> t \<in> ut_id ` set pre
          \<and> distinct (map ut_id pre))"
proof -
  let ?f = "find_duplicate_in_untrusted_transaction_table entries"
  note res = find_duplicate_loop_result [where seen = "[]" and entries = entries,
      folded find_duplicate_in_untrusted_transaction_table_def]
  have unique: "pre @ e # post = pre' @ e' # post' \<Longrightarrow> distinct (map ut_id pre) \<Longrightarrow>
      distinct (map ut_id pre') \<Longrightarrow> ut_id e \<in> ut_id ` set pre \<Longrightarrow> ut_id e' \<in> ut_id ` set pre' \<Longrightarrow> e = e'"
    for pre post pre' post' and e e' :: untrusted_transaction_entry
    by (auto simp: append_eq_append_conv2 append_eq_Cons_conv Cons_eq_append_conv)
  show ?thesis
  proof (cases ?f)
    case None
    with res have "distinct (map ut_id entries)" by simp
    with None show ?thesis by force
  next
    case (Some u)
    with res obtain pre e post where split: "entries = pre @ e # post" "ut_id e = u"
      "u \<in> ut_id ` set pre" "distinct (map ut_id pre)" by auto
    have "t = u" if "entries = pre' @ e' # post'" "ut_id e' = t" "t \<in> ut_id ` set pre'"
      "distinct (map ut_id pre')" for pre' e' post'
      using unique [of pre e post pre' e' post'] split that by auto
    with Some split show ?thesis by auto
  qed
qed

end
