(* ===== verification/Recovery_Trace_Properties.thy ===== *)
theory Recovery_Trace_Properties
  imports Recovery_Spec
begin

text \<open>
  Properties of observations, traces and printed identities, and two behaviours the documentation
  rules out: a reclamation that discards acknowledged records, and a checkpoint that makes a log
  unopenable.
\<close>

section \<open>Observations\<close>

lemma check_field_Nil [simp]: "check_field debug name f a b = [] \<longleftrightarrow> f a = f b"
  by (simp add: check_field_def)

lemma check_length_Nil [simp]: "check_length name x y = [] \<longleftrightarrow> x = y"
  by (simp add: check_length_def)

text \<open>Comparing two observations reports no contradiction exactly when they agree in every
  field; in particular equal fields are never reported and no field is forgotten.\<close>

theorem compare_observations_empty_iff:
  "compare_observations debug a b = [] \<longleftrightarrow> a = b"
proof
  assume "compare_observations debug a b = []"
  then show "a = b"
    by (intro observation.equality) (auto simp: compare_observations_def split: if_splits)
next
  assume "a = b"
  then show "compare_observations debug a b = []"
    by (simp add: compare_observations_def)
qed

text \<open>The durable records an observation lists, computed by filtering the whole log, are the
  durable prefix the model itself iterates over.\<close>

theorem observed_records_are_durable_prefix:
  assumes "model_reachable lid m"
  shows "ob_durable_records (observation_from_model m) = map observe_record (durable_wal_records m)"
proof -
  have "sorted_wrt (<) (map wr_position (m_wal_records m))"
    using recovery.reachable_inv [OF assms] by (simp add: model_inv_def wal_inv_def)
  from durable_records_filter [OF this] show ?thesis
    by (simp add: observation_from_model_def durable_wal_records_def)
qed

lemma observed_records_are_durable_prefix_witness:
  "ob_durable_records (observation_from_model (after live_ops))
    = map observe_record (durable_wal_records (after live_ops))"
  by (rule observed_records_are_durable_prefix [OF after_reachable])

section \<open>Traces\<close>

text \<open>C37: Trace generation succeeds exactly on bounds that pass validation, and the trace it returns
  is within those bounds.\<close>

theorem generate_trace_iff_valid_bounds:
  "(\<exists>ops. generate_trace seed b = Inr ops \<and> validate_trace_against_bounds ops b = Inr ())
    \<longleftrightarrow> bounds_validate b = Inr ()"
proof
  assume "\<exists>ops. generate_trace seed b = Inr ops \<and> validate_trace_against_bounds ops b = Inr ()"
  then show "bounds_validate b = Inr ()" by (auto simp: generate_trace_def and_then_Inr_iff)
qed (rule generate_trace_succeeds)

text \<open>A trace that runs through leaves a reachable model: the runner performs only operations of
  the model, so every invariant of the model holds of its result.\<close>

theorem executed_trace_reachable:
  assumes "execute_trace seed ops lid = Inr m"
  shows "model_reachable lid m \<and> model_inv m"
  using execute_trace_reachable [OF assms] recovery.reachable_inv by blast

lemma executed_trace_reachable_witness:
  "\<exists>m. execute_trace 3 live_ops (LogId 1) = Inr m \<and> model_inv m"
proof -
  have "validate_trace_against_bounds live_ops hard_bounds = Inr ()"
    by (simp add: validate_trace_against_bounds_def live_ops_def usage_start_def count_page_def
        count_post_record_def count_usage_small u64_of_length_def hard_bounds_def hard_max_ops_def
        hard_max_txns_def hard_max_pages_def hard_max_crash_cycles_def hard_max_post_cp_records_def
        check_cap_def word_less_nat_alt)
  then have "\<exists>m. execute_trace 3 live_ops (LogId 1) = Inr m"
    by (simp add: execute_trace_def live_ops_def exec_defs)
  then obtain m where m: "execute_trace 3 live_ops (LogId 1) = Inr m" by blast
  from executed_trace_reachable [OF m] m show ?thesis by blast
qed

text \<open>The prefix search returns the shortest prefix whose run satisfies the predicate: every
  shorter non-empty prefix runs and does not satisfy it; no answer means no non-empty prefix does.\<close>

theorem minimal_prefix_is_minimal:
  assumes "find_minimal_prefix seed ops lid predicate = Inr res"
  shows "case res of
      None \<Rightarrow> \<forall>n. 1 \<le> n \<longrightarrow> n \<le> length ops \<longrightarrow>
        (\<exists>m. execute_trace seed (take n ops) lid = Inr m \<and> \<not> predicate m)
    | Some len \<Rightarrow> 1 \<le> len \<and> len \<le> length ops
        \<and> (\<exists>m. execute_trace seed (take len ops) lid = Inr m \<and> predicate m)
        \<and> (\<forall>n. 1 \<le> n \<longrightarrow> n < len \<longrightarrow>
             (\<exists>m. execute_trace seed (take n ops) lid = Inr m \<and> \<not> predicate m))"
proof (cases res)
  case None
  with find_prefix_from_result [OF assms [unfolded find_minimal_prefix_def]] show ?thesis
    by auto
next
  case (Some len)
  with find_prefix_from_result [OF assms [unfolded find_minimal_prefix_def]] obtain pre post
    where split: "[1..<Suc (length ops)] = pre @ len # post"
      and hit: "\<exists>m. execute_trace seed (take len ops) lid = Inr m \<and> predicate m"
      and miss: "\<forall>n \<in> set pre. \<exists>m. execute_trace seed (take n ops) lid = Inr m \<and> \<not> predicate m"
    by auto
  have range: "set (pre @ len # post) = {1..length ops}"
    by (subst split [symmetric]) auto
  then have len: "1 \<le> len" "len \<le> length ops" by auto
  have sorted: "sorted_wrt (<) (pre @ len # post)"
    by (subst split [symmetric]) (rule sorted_wrt_upt)
  have "n \<in> set pre" if "1 \<le> n" "n < len" for n
  proof -
    have "n \<in> set (pre @ len # post)" using that len range by simp
    moreover have "len < x" if "x \<in> set post" for x using sorted that by (simp add: sorted_wrt_append)
    ultimately show ?thesis using that(2) by fastforce
  qed
  with hit miss len Some show ?thesis by simp
qed

lemma minimal_prefix_is_minimal_witness:
  "find_minimal_prefix 3 [TAllocateEpoch] (LogId 1) (\<lambda>m. m_current_epoch m = Some 1) = Inr (Some 1)
    \<and> (\<exists>m. execute_trace 3 [TAllocateEpoch] (LogId 1) = Inr m \<and> m_current_epoch m = Some 1)"
proof -
  have "validate_trace_against_bounds [TAllocateEpoch] hard_bounds = Inr ()"
    by (simp add: validate_trace_against_bounds_def usage_start_def u64_of_length_def hard_bounds_def
        hard_max_ops_def hard_max_txns_def hard_max_pages_def hard_max_crash_cycles_def
        hard_max_post_cp_records_def check_cap_def word_less_nat_alt)
  then have f: "find_minimal_prefix 3 [TAllocateEpoch] (LogId 1) (\<lambda>m. m_current_epoch m = Some 1)
      = Inr (Some 1)"
    by (simp add: find_minimal_prefix_def execute_trace_def exec_defs)
  from minimal_prefix_is_minimal [OF f] f show ?thesis by simp
qed

section \<open>Printed identities\<close>

text \<open>Printed transaction identities are unambiguous: two transactions print alike only when
  they are the same.\<close>

theorem show_transaction_id_inject:
  "show_transaction_id t = show_transaction_id t' \<longleftrightarrow> t = t'"
proof
  assume eq: "show_transaction_id t = show_transaction_id t'"
  have "dec (txn_epoch t) @ CHR '':'' # dec (txn_sequence t)
      = dec (txn_epoch t') @ CHR '':'' # dec (txn_sequence t')"
    using eq by (simp add: show_transaction_id_def)
  from append_sep_inject [OF this] have "dec (txn_epoch t) = dec (txn_epoch t')
      \<and> dec (txn_sequence t) = dec (txn_sequence t')"
    using dec_digits by blast
  then show "t = t'" by (simp add: transaction_id.expand)
qed simp

section \<open>Two runs against the documentation\<close>

definition tail_start :: recovery_model where
  "tail_start = snd (crash_preserving_complete_wal_tail (snd (append_raw_page (PageId 1) 7 (PageVersion 1)
     (snd (publish_checkpoint \<lparr>ca_version = 1, ca_digest = 5\<rparr> (model_new (LogId 1)))))))"

definition tail_complete :: recovery_model where
  "tail_complete = snd (complete (snd (restore_transactions (snd (repair_pages (snd (plan_replay
     (snd (select (snd (reopen tail_start)))))))))))"

lemma reach_results:
  assumes "model_reachable lid m"
  shows "model_reachable lid (snd (publish_checkpoint a m))"
    and "model_reachable lid (snd (append_raw_page p v ver m))"
    and "model_reachable lid (snd (crash_preserving_complete_wal_tail m))"
    and "model_reachable lid (snd (reopen m))"
    and "model_reachable lid (snd (select m))"
    and "model_reachable lid (snd (plan_replay m))"
    and "model_reachable lid (snd (repair_pages m))"
    and "model_reachable lid (snd (restore_transactions m))"
    and "model_reachable lid (snd (complete m))"
  using reach_op [OF assms step_publish [OF surjective_pairing]]
    reach_op [OF assms step_raw_page [OF surjective_pairing]]
    reach_op [OF assms step_crash_tail [OF surjective_pairing]]
    reach_op [OF assms step_reopen [OF surjective_pairing]]
    reach_op [OF assms select_step [OF surjective_pairing]]
    reach_op [OF assms step_plan [OF surjective_pairing]]
    reach_op [OF assms step_repair [OF surjective_pairing]]
    reach_op [OF assms step_restore [OF surjective_pairing]]
    reach_op [OF assms step_complete [OF surjective_pairing]]
  by blast+

lemma tail_complete_reachable: "model_reachable (LogId 1) tail_complete"
proof -
  have "model_reachable (LogId 1) (model_new (LogId 1))" by (rule reach_start) simp
  then have "model_reachable (LogId 1) tail_start"
    unfolding tail_start_def by (intro reach_results(1-3))
  then show ?thesis unfolding tail_complete_def by (intro reach_results(4-9))
qed

lemma tail_complete_eq:
  "m_phase tail_complete = PhCompleteLive \<and> m_flush_position tail_complete = None
   \<and> m_page_store tail_complete = [] \<and> length (m_wal_records tail_complete) = 1"
  by (simp add: tail_complete_def tail_start_def exec_defs)

text \<open>C39: A flush after completion leaves the completion evidence fresh, so a reclamation may discard
  a record that the flush has just acknowledged as durable: in a reachable run a page is durable
  after the flush and neither in the log nor in the page store after the reclamation.\<close>

theorem reclaim_discards_flushed_record:
  "\<exists>m m1 m2 m3 p g page. model_reachable (LogId 1) m
    \<and> flush_wal m = (Inr (Some p), m1) \<and> analyze_retention m1 = (Inr (), m2) \<and> reclaim m2 = (Inr g, m3)
    \<and> durable_content (m_wal_records m1) (m_flush_position m1) page \<noteq> None
    \<and> durable_content (m_wal_records m3) (m_flush_position m3) page = None
    \<and> stored_content (m_page_store m3) page = None"
proof -
  have "\<exists>m1 m2 m3 g. flush_wal tail_complete = (Inr (Some (WalPosition 1)), m1)
    \<and> analyze_retention m1 = (Inr (), m2) \<and> reclaim m2 = (Inr g, m3)
    \<and> durable_content (m_wal_records m1) (m_flush_position m1) (PageId 1) \<noteq> None
    \<and> durable_content (m_wal_records m3) (m_flush_position m3) (PageId 1) = None
    \<and> stored_content (m_page_store m3) (PageId 1) = None"
    by (simp add: tail_complete_def tail_start_def exec_defs durable_content_def applied_for_def
        record_applied_def stored_content_def record_content_def)
  with tail_complete_reachable show ?thesis by blast
qed

section \<open>Checkpoints over volatile records\<close>

text \<open>The selected checkpoint of a crashed, never reclaimed log names a position the log does not have.\<close>

definition names_lost_position :: "recovery_model \<Rightarrow> bool" where
  "names_lost_position m \<longleftrightarrow> m_phase m = PhCrashed \<and> generation_is_zero (m_wal_generation m)
     \<and> (\<exists>cp t ps p. m_checkpoint_slot m = Some cp \<and> (t, ps) \<in> set (ts_active (cp_transaction_summary cp))
          \<and> p \<in> set ps \<and> \<not> has_record_at m p)"

lemma has_record_at_find: "has_record_at m p \<longleftrightarrow> find_record (m_wal_records m) p \<noteq> None"
  by (auto simp: has_record_at_def find_record_def list_ex_iff find_None_iff)

lemma lost_position_refused:
  assumes "names_lost_position m"
  shows "\<exists>e. reopen m = (Inl e, m)"
proof -
  from assms obtain cp t ps p where gen: "generation_is_zero (m_wal_generation m)"
    and cp: "m_checkpoint_slot m = Some cp" and t: "(t, ps) \<in> set (ts_active (cp_transaction_summary cp))"
    and p: "p \<in> set ps" "find_record (m_wal_records m) p = None"
    by (auto simp: names_lost_position_def has_record_at_find)
  have "validate_checkpoint_transaction m f (t, ps) \<noteq> Inr ()" for f
    using p by (auto simp: validate_checkpoint_transaction_def and_then_Inr_iff intro!: bexI [of _ p])
  then have "validate_complete_prefix_checkpoint m cp \<noteq> Inr ()"
    using t by (auto simp: validate_complete_prefix_checkpoint_def and_then_Inr_iff Let_def)
  then have "validate_selected_on_open m \<noteq> Inr ()"
    using gen cp by (auto simp: validate_selected_on_open_def and_then_Inr_iff)
  then show ?thesis using reopen_result [of m "fst (reopen m)" "snd (reopen m)"] by (auto simp: prod_eq_iff)
qed

text \<open>No pending candidate stands right before its rename.\<close>

definition no_rename_due :: "recovery_model \<Rightarrow> bool" where
  "no_rename_due m \<longleftrightarrow> (\<forall>cp e. m_checkpoint_candidate m \<noteq> CpPresent cp BeforeRename e)
     \<and> (\<forall>w e. m_wal_candidate m \<noteq> WalPresent w BeforeRename e)"

lemma lost_position_stays:
  assumes "names_lost_position m" and "model_step m m'" and "no_rename_due m"
  shows "names_lost_position m'"
proof -
  have phase: "m_phase m = PhCrashed" using assms(1) by (simp add: names_lost_position_def)
  have same: "names_lost_position m'"
    if "m_phase m' = m_phase m" "m_wal_generation m' = m_wal_generation m"
      "m_checkpoint_slot m' = m_checkpoint_slot m" "m_wal_records m' = m_wal_records m"
    using assms(1) that by (simp add: names_lost_position_def has_record_at_def)
  show ?thesis
    using assms(2)
  proof cases
    case (step_reopen r)
    then show ?thesis using lost_position_refused [OF assms(1)] assms(1) by auto
  next
    case (step_write_page pos r)
    then show ?thesis using phase assms(1) by (auto simp: write_page_store_def live_result)
  next
    case (step_advance_checkpoint r)
    then show ?thesis
      using assms(3) stage_next_rename
      by (intro same)
        (auto simp: advance_checkpoint_candidate_def no_rename_due_def with_result_def ok_or_def Let_def
          split: checkpoint_candidate_state.splits option.splits if_splits)
  next
    case (step_advance_wal r)
    then show ?thesis
      using assms(3) stage_next_rename
      by (intro same)
        (auto simp: advance_wal_candidate_def no_rename_due_def with_result_def ok_or_def Let_def
          split: wal_candidate_state.splits option.splits if_splits)
  next
    case (step_checkpoint_entry e r)
    then show ?thesis
      by (intro same) (auto simp: set_checkpoint_candidate_entry_def split: checkpoint_candidate_state.splits)
  next
    case (step_wal_entry e r)
    then show ?thesis
      by (intro same) (auto simp: set_wal_candidate_entry_def split: wal_candidate_state.splits)
  next
    case (step_selected_entries w c r)
    then show ?thesis by (intro same) (auto simp: set_selected_entries_for_open_def require_phase_def split: if_splits)
  next
    case (step_planted_checkpoint c r)
    then show ?thesis by (intro same) (auto simp: set_checkpoint_candidate_for_open_def require_phase_def split: if_splits)
  next
    case (step_planted_wal c r)
    then show ?thesis by (intro same) (auto simp: set_wal_candidate_for_open_def require_phase_def split: if_splits)
  qed (use phase assms(1) in \<open>auto simp: allocate_epoch_eq begin_transaction_eq
        append_transaction_page_eq append_transaction_commit_eq append_raw_page_eq flush_eq
        publish_checkpoint_def begin_checkpoint_candidate_def live_result crash_def
        crash_preserving_complete_wal_tail_def crash_eq require_phase_def select_observed_def plan_replay_def repair_pages_def repair_pages_fault_def repair_pages_applied_fault_def
        restore_transactions_def complete_def analyze_retention_def begin_wal_candidate_def reclaim_def\<close>)
qed

text \<open>C40: A checkpoint published while a transaction has a page position beyond the flush frontier is
  lethal to a log that was never reclaimed. The crash drops the record, and from then on no sequence
  of operations opens the database again: as long as no candidate is renamed over the log or the
  checkpoint, the model stays crashed and every reopen is refused and changes nothing.\<close>

theorem reopen_refused_after_volatile_checkpoint:
  assumes "generation_is_zero (m_wal_generation m)" and "publish_checkpoint a m = (Inr (), m1)"
    and "(t, ps) \<in> set (checkpoint_transactions m)" and "p \<in> set ps"
    and "\<not> covered_by (m_flush_position m) p" and "crash m1 = (Inr (), m2)"
    and "(\<lambda>x y. model_step x y \<and> no_rename_due x)\<^sup>*\<^sup>* m2 m3"
  shows "m_phase m3 = PhCrashed \<and> (\<exists>e. reopen m3 = (Inl e, m3))"
proof -
  have m1: "m1 = mark_completion_stale ''checkpoint published''
      (m\<lparr>m_checkpoint_slot := Some (current_checkpoint m a)\<rparr>)"
    using assms(2) by (auto simp: publish_checkpoint_def live_result Let_def split: if_splits)
  have "m_phase m2 = PhCrashed" "m_wal_generation m2 = m_wal_generation m"
    "m_checkpoint_slot m2 = Some (current_checkpoint m a)"
    "m_wal_records m2 = filter (\<lambda>r. covered_by (m_flush_position m) (wr_position r)) (m_wal_records m)"
    using assms(6) by (auto simp: m1 crash_def crash_eq split: if_splits)
  then have "names_lost_position m2"
    using assms(1,3-5) unfolding names_lost_position_def
    by (auto simp: has_record_at_def list_ex_iff current_checkpoint_def)
  with assms(7) have "names_lost_position m3"
    by (induction rule: rtranclp_induct) (auto intro: lost_position_stays)
  then show ?thesis using lost_position_refused by (auto simp: names_lost_position_def)
qed

definition volatile_checkpoint_ops :: "trace_op list" where
  "volatile_checkpoint_ops = [TAllocateEpoch, TBeginTransaction, TAppendTransactionPage 0 1 7 1]"

lemma reopen_refused_after_volatile_checkpoint_witness:
  "\<exists>m1 m2 e. publish_checkpoint \<lparr>ca_version = 1, ca_digest = 5\<rparr> (after volatile_checkpoint_ops) = (Inr (), m1)
    \<and> crash m1 = (Inr (), m2) \<and> reopen m2 = (Inl e, m2)"
proof -
  let ?m = "after volatile_checkpoint_ops" and ?a = "\<lparr>ca_version = 1, ca_digest = 5\<rparr>"
  have "\<exists>m1 m2. publish_checkpoint ?a ?m = (Inr (), m1) \<and> crash m1 = (Inr (), m2)"
    and gen: "generation_is_zero (m_wal_generation ?m)"
    and table: "(TransactionId 1 1, [WalPosition 1]) \<in> set (checkpoint_transactions ?m)"
    and volatile: "\<not> covered_by (m_flush_position ?m) (WalPosition 1)"
    by (simp_all add: after_def volatile_checkpoint_ops_def exec_defs)
  then obtain m1 m2 where run: "publish_checkpoint ?a ?m = (Inr (), m1)" "crash m1 = (Inr (), m2)" by blast
  have "WalPosition 1 \<in> set [WalPosition 1]" by simp
  from reopen_refused_after_volatile_checkpoint [OF gen run(1) table this volatile run(2) rtranclp.rtrancl_refl] run
  show ?thesis by blast
qed

end
