(* ===== verification/Wal.thy ===== *)
theory Wal
  imports Prelude
begin

text \<open>
  The crate \<open>ntsql-wal\<close>: log lineages, lineage-bound log positions, the persistence ports and
  the commit durability fence. A port (a Rust trait) is a record of operations on an adapter
  state \<open>'l\<close>; a method taking \<open>&mut self\<close> returns the state after the call, also when it fails.
  What a port promises is the locale \<open>durable_log\<close>.
\<close>

section \<open>Lineages and positions\<close>

datatype persistent_log_id = PersistentLogId (persistent_log_id_get: u128)

definition persistent_log_id_new :: "u128 \<Rightarrow> persistent_log_id option" where
  "persistent_log_id_new v = (if v \<noteq> 0 then Some (PersistentLogId v) else None)"

text \<open>
  An ephemeral lineage is an \<open>Arc<()>\<close>: it is identified by the allocation it points to, here a
  number. Allocating a fresh one is the caller's choice of an unused number.
\<close>

datatype log_lineage = Ephemeral nat | Persistent persistent_log_id

definition persistent_id :: "log_lineage \<Rightarrow> persistent_log_id option" where
  "persistent_id l = (case l of Ephemeral _ \<Rightarrow> None | Persistent p \<Rightarrow> Some p)"

fun same_lineage :: "log_lineage \<Rightarrow> log_lineage \<Rightarrow> bool" where
  "same_lineage (Ephemeral left) (Ephemeral right) = (left = right)"
| "same_lineage (Persistent left) (Persistent right) = (left = right)"
| "same_lineage (Ephemeral _) (Persistent _) = False"
| "same_lineage (Persistent _) (Ephemeral _) = False"

lemma same_lineage_iff [simp]: "same_lineage a b \<longleftrightarrow> a = b"
  by (cases a; cases b) auto

record log_sequence_number =
  lsn_lineage :: log_lineage
  lsn_value :: u64

definition lineage_position :: "log_lineage \<Rightarrow> u64 \<Rightarrow> log_sequence_number" where
  "lineage_position l v = \<lparr>lsn_lineage = l, lsn_value = v\<rparr>"

lemma lineage_position_sel [simp]:
  "lsn_lineage (lineage_position l v) = l" "lsn_value (lineage_position l v) = v"
  by (simp_all add: lineage_position_def)

lemma lineage_position_inject [simp]:
  "lineage_position l v = lineage_position l' v' \<longleftrightarrow> l = l' \<and> v = v'"
  by (simp add: lineage_position_def)

text \<open>The code's \<open>PartialEq\<close> of positions is equality of the record.\<close>

definition lsn_eq :: "log_sequence_number \<Rightarrow> log_sequence_number \<Rightarrow> bool" where
  "lsn_eq a b = (lsn_value a = lsn_value b \<and> same_lineage (lsn_lineage a) (lsn_lineage b))"

lemma lsn_eq_iff [simp]: "lsn_eq a b \<longleftrightarrow> a = b"
  by (cases a; cases b) (auto simp: lsn_eq_def)

section \<open>Ports\<close>

record ('l, 'e) log_durability =
  port_lineage :: "'l \<Rightarrow> log_lineage"
  port_flush_through :: "log_sequence_number \<Rightarrow> 'l \<Rightarrow> ('e + unit) \<times> 'l"

record ('l, 'e, 'r) commit_log = "('l, 'e) log_durability" +
  port_append_commit :: "'r \<Rightarrow> 'l \<Rightarrow> ('e + log_sequence_number) \<times> 'l"

section \<open>The commit fence\<close>

datatype 'e commit_error =
    CommitAppend 'e
  | ForeignAppendPosition log_sequence_number
  | CommitFlush log_sequence_number 'e

fun show_commit_error :: "('e \<Rightarrow> string) \<Rightarrow> 'e commit_error \<Rightarrow> string" where
  "show_commit_error f (CommitAppend source) = ''commit log append failed: '' @ f source"
| "show_commit_error f (ForeignAppendPosition position) =
     ''commit log append returned position '' @ dec (lsn_value position) @ '' from another lineage''"
| "show_commit_error f (CommitFlush position source) =
     ''commit log flush through '' @ dec (lsn_value position) @ '' failed: '' @ f source"

text \<open>The callback receives the acknowledged position.\<close>

definition commit_durability ::
  "('l, 'e, 'r, 'z) commit_log_scheme \<Rightarrow> 'r \<Rightarrow> (log_sequence_number \<Rightarrow> 'o) \<Rightarrow> 'l
     \<Rightarrow> ('e commit_error + 'o) \<times> 'l" where
  "commit_durability port record_value on_durable log =
     (let expected_lineage = port_lineage port log in
      case port_append_commit port record_value log of
        (Inl source, log1) \<Rightarrow> (Inl (CommitAppend source), log1)
      | (Inr position, log1) \<Rightarrow>
          if \<not> same_lineage (lsn_lineage position) expected_lineage
             \<or> \<not> same_lineage expected_lineage (port_lineage port log1)
          then (Inl (ForeignAppendPosition position), log1)
          else case port_flush_through port position log1 of
                 (Inl source, log2) \<Rightarrow> (Inl (CommitFlush position source), log2)
               | (Inr _, log2) \<Rightarrow> (Inr (on_durable position), log2))"

lemma commit_durability_Inr:
  assumes "commit_durability port r f log = (Inr out, log')"
  obtains position log1 where "port_append_commit port r log = (Inr position, log1)"
    and "lsn_lineage position = port_lineage port log"
    and "port_lineage port log1 = port_lineage port log"
    and "port_flush_through port position log1 = (Inr (), log')" and "out = f position"
proof -
  obtain a log1 where app: "port_append_commit port r log = (a, log1)" by (metis prod.collapse)
  with assms obtain position where a: "a = Inr position"
    by (cases a) (simp_all add: commit_durability_def)
  obtain b log2 where fl: "port_flush_through port position log1 = (b, log2)" by (metis prod.collapse)
  have eval: "commit_durability port r f log =
      (if lsn_lineage position \<noteq> port_lineage port log \<or> port_lineage port log \<noteq> port_lineage port log1
       then (Inl (ForeignAppendPosition position), log1)
       else case b of Inl source \<Rightarrow> (Inl (CommitFlush position source), log2)
            | Inr _ \<Rightarrow> (Inr (f position), log2))"
    by (simp add: commit_durability_def Let_def app a fl)
  have ok: "lsn_lineage position = port_lineage port log" "port_lineage port log1 = port_lineage port log"
    using assms unfolding eval by (auto split: if_splits)
  then have "b = Inr ()" "out = f position" "log2 = log'"
    using assms unfolding eval by (auto split: sum.splits)
  with app a fl ok show thesis by (intro that [of position log1]) simp_all
qed

lemma commit_durability_Inl:
  assumes "commit_durability port r f log = (Inl e, log')"
  obtains (append) source where "port_append_commit port r log = (Inl source, log')"
      and "e = CommitAppend source"
  | (foreign) position where "port_append_commit port r log = (Inr position, log')"
      and "e = ForeignAppendPosition position"
      and "lsn_lineage position \<noteq> port_lineage port log \<or> port_lineage port log \<noteq> port_lineage port log'"
  | (flush) position log1 source where "port_append_commit port r log = (Inr position, log1)"
      and "port_flush_through port position log1 = (Inl source, log')" and "e = CommitFlush position source"
proof -
  obtain a log1 where app: "port_append_commit port r log = (a, log1)" by (metis prod.collapse)
  show thesis
  proof (cases a)
    case (Inl source)
    with assms app append [of source] show ?thesis by (simp add: commit_durability_def)
  next
    case (Inr position)
    obtain b log2 where fl: "port_flush_through port position log1 = (b, log2)" by (metis prod.collapse)
    have eval: "commit_durability port r f log =
        (if lsn_lineage position \<noteq> port_lineage port log \<or> port_lineage port log \<noteq> port_lineage port log1
         then (Inl (ForeignAppendPosition position), log1)
         else case b of Inl source \<Rightarrow> (Inl (CommitFlush position source), log2)
              | Inr _ \<Rightarrow> (Inr (f position), log2))"
      by (simp add: commit_durability_def Let_def app Inr fl)
    show ?thesis
    proof (cases "lsn_lineage position \<noteq> port_lineage port log \<or> port_lineage port log \<noteq> port_lineage port log1")
      case True
      then have "e = ForeignAppendPosition position" "log1 = log'" using assms unfolding eval by auto
      with app Inr True show ?thesis by (intro foreign [of position]) simp_all
    next
      case False
      then obtain source where "b = Inl source" "e = CommitFlush position source" "log2 = log'"
        using assms unfolding eval by (auto split: sum.splits)
      with app Inr fl show ?thesis by (intro flush [of position log1 source]) simp_all
    qed
  qed
qed

section \<open>What the ports promise\<close>

text \<open>
  \<open>durable l p\<close> says that the adapter state \<open>l\<close> holds the position \<open>p\<close> durably. A successful
  flush establishes it for the requested position, no flush, failed or not, takes durability
  away, and the lineage never changes.
\<close>

locale durable_log =
  fixes port :: "('l, 'e, 'z) log_durability_scheme"
    and inv :: "'l \<Rightarrow> bool"
    and durable :: "'l \<Rightarrow> log_sequence_number \<Rightarrow> bool"
  assumes flush_durable: "inv l \<Longrightarrow> port_flush_through port p l = (Inr (), l') \<Longrightarrow> durable l' p"
    and flush_inv: "inv l \<Longrightarrow> port_flush_through port p l = (r, l') \<Longrightarrow> inv l'"
    and flush_lineage: "inv l \<Longrightarrow> port_flush_through port p l = (r, l') \<Longrightarrow> port_lineage port l' = port_lineage port l"
    and flush_mono: "inv l \<Longrightarrow> port_flush_through port p l = (r, l') \<Longrightarrow> durable l q \<Longrightarrow> durable l' q"
    and durable_lineage: "inv l \<Longrightarrow> durable l p \<Longrightarrow> lsn_lineage p = port_lineage port l"
begin

lemma flush_idempotent_durable:
  assumes "inv l" and "port_flush_through port p l = (Inr (), l1)"
    and "port_flush_through port q l1 = (r, l2)"
  shows "durable l2 p"
  using assms flush_durable flush_inv flush_mono by blast

end

text \<open>
  An append through a commit log enters the record under a position that was not in use and
  keeps everything that was there; \<open>entry l p\<close> is the record kind the log holds at \<open>p\<close>, durable
  or not.
\<close>

locale appending_log = durable_log port inv durable
  for port :: "('l, 'e, 'z) log_durability_scheme"
    and inv :: "'l \<Rightarrow> bool"
    and durable :: "'l \<Rightarrow> log_sequence_number \<Rightarrow> bool" +
  fixes entry :: "'l \<Rightarrow> log_sequence_number \<Rightarrow> 'k option"
    and append :: "'k \<Rightarrow> 'l \<Rightarrow> ('e + log_sequence_number) \<times> 'l"
  assumes append_inv: "inv l \<Longrightarrow> append k l = (r, l') \<Longrightarrow> inv l'"
    and append_lineage: "inv l \<Longrightarrow> append k l = (r, l') \<Longrightarrow> port_lineage port l' = port_lineage port l"
    and append_entry: "inv l \<Longrightarrow> append k l = (Inr p, l') \<Longrightarrow> entry l' p = Some k \<and> entry l p = None"
    and append_position: "inv l \<Longrightarrow> append k l = (Inr p, l') \<Longrightarrow> lsn_lineage p = port_lineage port l"
    and append_keeps: "inv l \<Longrightarrow> append k l = (r, l') \<Longrightarrow> entry l q = Some k' \<Longrightarrow> entry l' q = Some k'"
    and append_durable: "inv l \<Longrightarrow> append k l = (r, l') \<Longrightarrow> durable l' q = durable l q"
    and flush_entry: "inv l \<Longrightarrow> port_flush_through port p l = (f, l') \<Longrightarrow> entry l' q = entry l q"
    and durable_entry: "inv l \<Longrightarrow> durable l p \<Longrightarrow> entry l p \<noteq> None"
begin

lemma append_then_flush:
  assumes "inv l" and "append k l = (Inr p, l1)" and "port_flush_through port p l1 = (Inr (), l2)"
  shows "inv l2 \<and> durable l2 p \<and> entry l2 p = Some k \<and> entry l p = None"
  using append_entry [OF assms(1,2)] append_inv [OF assms(1,2)] assms(3)
    flush_durable flush_inv flush_entry by metis

lemma append_then_flush_keeps:
  assumes "inv l" and "append k l = (Inr p, l1)" and "port_flush_through port p l1 = (r, l2)"
    and "entry l q = Some k'"
  shows "entry l2 q = Some k'"
  using append_keeps [OF assms(1,2,4)] append_inv [OF assms(1,2)] assms(3) flush_entry by metis

end

text \<open>A commit log is such a log whose commit append enters \<open>commit_entry r\<close>.\<close>

locale fenced_log = appending_log port inv durable entry append
  for port :: "('l, 'e, 'r, 'z) commit_log_scheme"
    and inv :: "'l \<Rightarrow> bool"
    and durable :: "'l \<Rightarrow> log_sequence_number \<Rightarrow> bool"
    and entry :: "'l \<Rightarrow> log_sequence_number \<Rightarrow> 'k option"
    and append :: "'k \<Rightarrow> 'l \<Rightarrow> ('e + log_sequence_number) \<times> 'l" +
  fixes commit_entry :: "'r \<Rightarrow> 'k"
  assumes commit_is_append: "port_append_commit port r l = append (commit_entry r) l"
begin

lemma acknowledged_commit_durable:
  assumes "inv l" and "commit_durability port r f l = (Inr out, l')"
  shows "\<exists>p. out = f p \<and> inv l' \<and> durable l' p \<and> entry l' p = Some (commit_entry r)
    \<and> entry l p = None \<and> lsn_lineage p = port_lineage port l"
proof -
  from assms(2) obtain p l1 where app: "port_append_commit port r l = (Inr p, l1)"
    and lin: "lsn_lineage p = port_lineage port l"
    and fl: "port_flush_through port p l1 = (Inr (), l')" and out: "out = f p"
    by (rule commit_durability_Inr)
  have "append (commit_entry r) l = (Inr p, l1)" using app by (simp add: commit_is_append)
  from append_then_flush [OF assms(1) this fl] lin out show ?thesis by auto
qed

lemma commit_never_foreign:
  assumes "inv l" and "commit_durability port r f l = (Inl e, l')"
  shows "e \<noteq> ForeignAppendPosition p"
  using assms(2)
proof (cases rule: commit_durability_Inl)
  case (foreign position)
  have "append (commit_entry r) l = (Inr position, l')"
    using foreign(1) by (simp add: commit_is_append)
  from append_position [OF assms(1) this] append_lineage [OF assms(1) this] foreign(3)
  show ?thesis by simp
qed auto

lemma commit_keeps:
  assumes "inv l" and "commit_durability port r f l = (out, l')"
  shows "inv l' \<and> port_lineage port l' = port_lineage port l
    \<and> (\<forall>q. durable l q \<longrightarrow> durable l' q) \<and> (\<forall>q k. entry l q = Some k \<longrightarrow> entry l' q = Some k)"
proof (cases out)
  case (Inl e)
  from assms(2) [unfolded Inl] show ?thesis
  proof (cases rule: commit_durability_Inl)
    case (append source)
    then have "append (commit_entry r) l = (Inl source, l')" by (simp add: commit_is_append)
    with assms(1) show ?thesis
      using append_inv append_lineage append_durable append_keeps by metis
  next
    case (foreign position)
    then have "append (commit_entry r) l = (Inr position, l')" by (simp add: commit_is_append)
    with assms(1) show ?thesis
      using append_inv append_lineage append_durable append_keeps by metis
  next
    case (flush position l1 source)
    then have app: "append (commit_entry r) l = (Inr position, l1)" by (simp add: commit_is_append)
    note inv1 = append_inv [OF assms(1) app]
    from append_lineage [OF assms(1) app] append_durable [OF assms(1) app]
      append_keeps [OF assms(1) app] flush_inv [OF inv1 flush(2)] flush_lineage [OF inv1 flush(2)]
      flush_mono [OF inv1 flush(2)] flush_entry [OF inv1 flush(2)] show ?thesis by simp
  qed
next
  case (Inr x)
  from assms(2) [unfolded Inr] obtain position l1 where
    app: "port_append_commit port r l = (Inr position, l1)"
    and fl: "port_flush_through port position l1 = (Inr (), l')" by (rule commit_durability_Inr)
  have app: "append (commit_entry r) l = (Inr position, l1)" using app by (simp add: commit_is_append)
  note inv1 = append_inv [OF assms(1) app]
  from append_lineage [OF assms(1) app] append_durable [OF assms(1) app]
    append_keeps [OF assms(1) app] flush_inv [OF inv1 fl] flush_lineage [OF inv1 fl]
    flush_mono [OF inv1 fl] flush_entry [OF inv1 fl] show ?thesis by simp
qed

end

end
