(* ===== verification/Page.thy ===== *)
theory Page
  imports Wal
begin

text \<open>
  The crate \<open>ntsql-page\<close>: page identities and images, staging an image through the WAL, the dirty
  and clean page states and the WAL-before-store flush. A \<open>[u8; N]\<close> is a byte list whose length
  is \<open>N\<close>. What a page store promises is the locale \<open>writing_store\<close>.
\<close>

section \<open>Identities and images\<close>

datatype page_number = PageNumber (page_number_get: u64)

definition page_number_new :: "u64 \<Rightarrow> page_number option" where
  "page_number_new v = (if v \<noteq> 0 then Some (PageNumber v) else None)"

record page_address =
  pa_lineage :: log_lineage
  pa_number :: page_number

definition page_address_new :: "log_lineage \<Rightarrow> page_number \<Rightarrow> page_address" where
  "page_address_new l n = \<lparr>pa_lineage = l, pa_number = n\<rparr>"

definition page_address_eq :: "page_address \<Rightarrow> page_address \<Rightarrow> bool" where
  "page_address_eq a b = (pa_number a = pa_number b \<and> same_lineage (pa_lineage a) (pa_lineage b))"

lemma page_address_eq_iff [simp]: "page_address_eq a b \<longleftrightarrow> a = b"
  by (cases a; cases b) (auto simp: page_address_eq_def)

datatype image_version = ImageVersion (image_version_get: u64)

datatype page_image_error = ZeroLength (page_image_error_bytes: "u8 list")

definition show_page_image_error :: "page_image_error \<Rightarrow> string" where
  "show_page_image_error e = ''page image length must be nonzero''"

datatype page_image = PageImage (image_bytes: "u8 list")

definition page_image_new :: "u8 list \<Rightarrow> page_image_error + page_image" where
  "page_image_new bytes = (if length bytes = 0 then Inl (ZeroLength bytes) else Inr (PageImage bytes))"

record unlogged_page =
  up_address :: page_address
  up_version :: image_version
  up_image :: page_image

section \<open>Staging an image through the WAL\<close>

record ('l, 'e) page_log = "('l, 'e) log_durability" +
  port_append_page :: "unlogged_page \<Rightarrow> 'l \<Rightarrow> ('e + log_sequence_number) \<times> 'l"

record indeterminate_page_log_append =
  ia_address :: page_address
  ia_version :: image_version
  ia_image :: page_image
  ia_observed_position :: "log_sequence_number option"

definition from_unlogged :: "unlogged_page \<Rightarrow> log_sequence_number option \<Rightarrow> indeterminate_page_log_append" where
  "from_unlogged page observed =
     \<lparr>ia_address = up_address page, ia_version = up_version page, ia_image = up_image page,
      ia_observed_position = observed\<rparr>"

datatype stage_page_write_rejection_reason = StageForeignLog

record stage_page_write_rejection =
  sr_page :: unlogged_page
  sr_reason :: stage_page_write_rejection_reason

definition show_page_number :: "page_number \<Rightarrow> string" where
  "show_page_number n = dec (page_number_get n)"

definition show_lsn :: "log_sequence_number \<Rightarrow> string" where
  "show_lsn p = dec (lsn_value p)"

definition show_stage_page_write_rejection :: "stage_page_write_rejection \<Rightarrow> string" where
  "show_stage_page_write_rejection r = (case sr_reason r of StageForeignLog \<Rightarrow>
     ''page '' @ show_page_number (pa_number (up_address (sr_page r)))
       @ '' belongs to another WAL lineage'')"

record 'e stage_page_write_append_error =
  sa_page :: indeterminate_page_log_append
  sa_source :: 'e

definition show_stage_page_write_append_error ::
  "('e \<Rightarrow> string) \<Rightarrow> 'e stage_page_write_append_error \<Rightarrow> string" where
  "show_stage_page_write_append_error f e =
     ''page '' @ show_page_number (pa_number (ia_address (sa_page e)))
       @ '' WAL append failed: '' @ f (sa_source e)"

datatype stage_page_write_evidence_error_reason = ForeignPosition | LogLineageChanged

record stage_page_write_evidence_error =
  se_page :: indeterminate_page_log_append
  se_reason :: stage_page_write_evidence_error_reason

definition show_stage_page_write_evidence_error :: "stage_page_write_evidence_error \<Rightarrow> string" where
  "show_stage_page_write_evidence_error e =
     (let number = show_page_number (pa_number (ia_address (se_page e))) in
      case ia_observed_position (se_page e) of
        None \<Rightarrow> ''page '' @ number @ '' WAL append evidence has no observed position''
      | Some position \<Rightarrow>
          (case se_reason e of
             ForeignPosition \<Rightarrow>
               ''page '' @ number @ '' WAL append returned foreign position '' @ show_lsn position
           | LogLineageChanged \<Rightarrow>
               ''page '' @ number @ '' WAL lineage changed after append at position ''
                 @ show_lsn position))"

datatype 'e stage_page_write_error =
    StageRejected stage_page_write_rejection
  | StageAppend "'e stage_page_write_append_error"
  | StageInvalidEvidence stage_page_write_evidence_error

fun show_stage_page_write_error :: "('e \<Rightarrow> string) \<Rightarrow> 'e stage_page_write_error \<Rightarrow> string" where
  "show_stage_page_write_error f (StageRejected e) = show_stage_page_write_rejection e"
| "show_stage_page_write_error f (StageAppend e) = show_stage_page_write_append_error f e"
| "show_stage_page_write_error f (StageInvalidEvidence e) = show_stage_page_write_evidence_error e"

datatype dirty_page_construction_error_reason = ForeignRequiredPosition

record dirty_page_construction_error =
  dc_reason :: dirty_page_construction_error_reason
  dc_address :: page_address
  dc_version :: image_version
  dc_image :: page_image
  dc_required_position :: log_sequence_number

definition show_dirty_page_construction_error :: "dirty_page_construction_error \<Rightarrow> string" where
  "show_dirty_page_construction_error e = (case dc_reason e of ForeignRequiredPosition \<Rightarrow>
     ''page '' @ show_page_number (pa_number (dc_address e)) @ '' and required WAL position ''
       @ show_lsn (dc_required_position e) @ '' belong to different lineages'')"

record dirty_page =
  dp_address :: page_address
  dp_version :: image_version
  dp_image :: page_image
  dp_required_position :: log_sequence_number

definition dirty_page_new ::
  "page_address \<Rightarrow> image_version \<Rightarrow> page_image \<Rightarrow> log_sequence_number
     \<Rightarrow> dirty_page_construction_error + dirty_page" where
  "dirty_page_new address version img required_position =
     (if \<not> same_lineage (pa_lineage address) (lsn_lineage required_position)
      then Inl \<lparr>dc_reason = ForeignRequiredPosition, dc_address = address, dc_version = version,
                dc_image = img, dc_required_position = required_position\<rparr>
      else Inr \<lparr>dp_address = address, dp_version = version, dp_image = img,
                dp_required_position = required_position\<rparr>)"

definition stage_page_write ::
  "('l, 'e, 'z) page_log_scheme \<Rightarrow> unlogged_page \<Rightarrow> 'l
     \<Rightarrow> ('e stage_page_write_error + dirty_page) \<times> 'l" where
  "stage_page_write port page log =
     (if \<not> same_lineage (pa_lineage (up_address page)) (port_lineage port log)
      then (Inl (StageRejected \<lparr>sr_page = page, sr_reason = StageForeignLog\<rparr>), log)
      else
        let expected_lineage = port_lineage port log in
        case port_append_page port page log of
          (Inl source, log1) \<Rightarrow>
            (Inl (StageAppend \<lparr>sa_page = from_unlogged page None, sa_source = source\<rparr>), log1)
        | (Inr position, log1) \<Rightarrow>
            let reason =
              (if \<not> same_lineage (lsn_lineage position) expected_lineage then Some ForeignPosition
               else if \<not> same_lineage expected_lineage (port_lineage port log1) then Some LogLineageChanged
               else None) in
            case reason of
              Some reason \<Rightarrow>
                (Inl (StageInvalidEvidence
                   \<lparr>se_page = from_unlogged page (Some position), se_reason = reason\<rparr>), log1)
            | None \<Rightarrow>
                (case dirty_page_new (up_address page) (up_version page) (up_image page) position of
                   Inr dirty \<Rightarrow> (Inr dirty, log1)
                 | Inl e \<Rightarrow>
                    (Inl (StageInvalidEvidence
                       \<lparr>se_page = from_unlogged
                           \<lparr>up_address = dc_address e, up_version = dc_version e, up_image = dc_image e\<rparr>
                           (Some (dc_required_position e)),
                        se_reason = ForeignPosition\<rparr>), log1)))"

section \<open>Flushing a dirty page\<close>

record clean_page =
  kp_address :: page_address
  kp_version :: image_version
  kp_image :: page_image
  kp_required_position :: log_sequence_number

definition clean_from_dirty :: "dirty_page \<Rightarrow> clean_page" where
  "clean_from_dirty d = \<lparr>kp_address = dp_address d, kp_version = dp_version d, kp_image = dp_image d,
     kp_required_position = dp_required_position d\<rparr>"

datatype page_write_permit = PageWritePermit (durable_position: log_sequence_number)

record ('s, 'e) page_store_port =
  store_lineage :: "'s \<Rightarrow> log_lineage"
  store_write_page :: "dirty_page \<Rightarrow> page_write_permit \<Rightarrow> 's \<Rightarrow> ('e + unit) \<times> 's"

datatype flush_dirty_page_rejection_reason = FlushForeignLog | FlushForeignStore

record flush_dirty_page_rejection =
  fr_page :: dirty_page
  fr_reason :: flush_dirty_page_rejection_reason

definition show_flush_dirty_page_rejection :: "flush_dirty_page_rejection \<Rightarrow> string" where
  "show_flush_dirty_page_rejection r =
     (let number = show_page_number (pa_number (dp_address (fr_page r))) in
      case fr_reason r of
        FlushForeignLog \<Rightarrow> ''page '' @ number @ '' belongs to another log lineage''
      | FlushForeignStore \<Rightarrow> ''page '' @ number @ '' belongs to another page-store lineage'')"

record 'e flush_dirty_page_log_error =
  fl_page :: dirty_page
  fl_source :: 'e

definition show_flush_dirty_page_log_error ::
  "('e \<Rightarrow> string) \<Rightarrow> 'e flush_dirty_page_log_error \<Rightarrow> string" where
  "show_flush_dirty_page_log_error f e =
     ''page '' @ show_page_number (pa_number (dp_address (fl_page e))) @ '' WAL flush through ''
       @ show_lsn (dp_required_position (fl_page e)) @ '' failed: '' @ f (fl_source e)"

record indeterminate_page_write =
  iw_address :: page_address
  iw_version :: image_version
  iw_image :: page_image
  iw_required_position :: log_sequence_number

definition indeterminate_from_dirty :: "dirty_page \<Rightarrow> indeterminate_page_write" where
  "indeterminate_from_dirty d = \<lparr>iw_address = dp_address d, iw_version = dp_version d,
     iw_image = dp_image d, iw_required_position = dp_required_position d\<rparr>"

record 'e flush_dirty_page_store_error =
  fs_page :: indeterminate_page_write
  fs_source :: 'e

definition show_flush_dirty_page_store_error ::
  "('e \<Rightarrow> string) \<Rightarrow> 'e flush_dirty_page_store_error \<Rightarrow> string" where
  "show_flush_dirty_page_store_error f e =
     ''page '' @ show_page_number (pa_number (iw_address (fs_page e)))
       @ '' durable write after WAL position '' @ show_lsn (iw_required_position (fs_page e))
       @ '' failed: '' @ f (fs_source e)"

datatype ('le, 'se) flush_dirty_page_error =
    FlushRejected flush_dirty_page_rejection
  | LogFlush "'le flush_dirty_page_log_error"
  | StoreWrite "'se flush_dirty_page_store_error"

fun show_flush_dirty_page_error ::
  "('le \<Rightarrow> string) \<Rightarrow> ('se \<Rightarrow> string) \<Rightarrow> ('le, 'se) flush_dirty_page_error \<Rightarrow> string" where
  "show_flush_dirty_page_error f g (FlushRejected e) = show_flush_dirty_page_rejection e"
| "show_flush_dirty_page_error f g (LogFlush e) = show_flush_dirty_page_log_error f e"
| "show_flush_dirty_page_error f g (StoreWrite e) = show_flush_dirty_page_store_error g e"

text \<open>Both ports change state, so the result carries the log and the store.\<close>

definition flush_dirty_page ::
  "('l, 'le, 'z) log_durability_scheme \<Rightarrow> ('s, 'se, 'y) page_store_port_scheme \<Rightarrow> dirty_page \<Rightarrow> 'l \<Rightarrow> 's
     \<Rightarrow> (('le, 'se) flush_dirty_page_error + clean_page) \<times> 'l \<times> 's" where
  "flush_dirty_page lport sport dirty log store =
     (if \<not> same_lineage (pa_lineage (dp_address dirty)) (port_lineage lport log)
      then (Inl (FlushRejected \<lparr>fr_page = dirty, fr_reason = FlushForeignLog\<rparr>), log, store)
      else if \<not> same_lineage (pa_lineage (dp_address dirty)) (store_lineage sport store)
      then (Inl (FlushRejected \<lparr>fr_page = dirty, fr_reason = FlushForeignStore\<rparr>), log, store)
      else case port_flush_through lport (dp_required_position dirty) log of
             (Inl source, log1) \<Rightarrow>
               (Inl (LogFlush \<lparr>fl_page = dirty, fl_source = source\<rparr>), log1, store)
           | (Inr _, log1) \<Rightarrow>
               (case store_write_page sport dirty (PageWritePermit (dp_required_position dirty)) store of
                  (Inl source, store1) \<Rightarrow>
                    (Inl (StoreWrite
                       \<lparr>fs_page = indeterminate_from_dirty dirty, fs_source = source\<rparr>), log1, store1)
                | (Inr _, store1) \<Rightarrow> (Inr (clean_from_dirty dirty), log1, store1)))"

section \<open>Outcomes\<close>

lemma stage_page_write_cases:
  assumes "stage_page_write port page log = (res, log')"
  obtains (rejected) "res = Inl (StageRejected \<lparr>sr_page = page, sr_reason = StageForeignLog\<rparr>)"
      and "log' = log" and "pa_lineage (up_address page) \<noteq> port_lineage port log"
  | (append) source where "port_append_page port page log = (Inl source, log')"
      and "res = Inl (StageAppend \<lparr>sa_page = from_unlogged page None, sa_source = source\<rparr>)"
  | (evidence) position reason where "port_append_page port page log = (Inr position, log')"
      and "res = Inl (StageInvalidEvidence
        \<lparr>se_page = from_unlogged page (Some position), se_reason = reason\<rparr>)"
      and "lsn_lineage position \<noteq> port_lineage port log \<or> port_lineage port log \<noteq> port_lineage port log'"
  | (staged) position where "port_append_page port page log = (Inr position, log')"
      and "pa_lineage (up_address page) = port_lineage port log"
      and "lsn_lineage position = port_lineage port log" and "port_lineage port log' = port_lineage port log"
      and "res = Inr \<lparr>dp_address = up_address page, dp_version = up_version page,
        dp_image = up_image page, dp_required_position = position\<rparr>"
proof (cases "pa_lineage (up_address page) = port_lineage port log")
  case False
  with assms have "res = Inl (StageRejected \<lparr>sr_page = page, sr_reason = StageForeignLog\<rparr>)" "log' = log"
    by (simp_all add: stage_page_write_def)
  with False show ?thesis by (intro rejected)
next
  case True
  obtain a log1 where app: "port_append_page port page log = (a, log1)" by (metis prod.collapse)
  show ?thesis
  proof (cases a)
    case (Inl source)
    with assms True app have "log1 = log'"
      "res = Inl (StageAppend \<lparr>sa_page = from_unlogged page None, sa_source = source\<rparr>)"
      by (simp_all add: stage_page_write_def)
    with app Inl show ?thesis by (intro append [of source]) simp_all
  next
    case (Inr position)
    show ?thesis
    proof (cases "lsn_lineage position = port_lineage port log \<and> port_lineage port log = port_lineage port log1")
      case ok: True
      then have "log1 = log'" "res = Inr \<lparr>dp_address = up_address page, dp_version = up_version page,
          dp_image = up_image page, dp_required_position = position\<rparr>"
        using assms True app Inr by (auto simp: stage_page_write_def dirty_page_new_def Let_def)
      with app Inr True ok show ?thesis by (intro staged [of position]) simp_all
    next
      case bad: False
      then obtain reason where "log1 = log'" "res = Inl (StageInvalidEvidence
          \<lparr>se_page = from_unlogged page (Some position), se_reason = reason\<rparr>)"
        using assms True app Inr by (auto simp: stage_page_write_def Let_def split: if_splits)
      with app Inr bad show ?thesis by (intro evidence [of position reason]) simp_all
    qed
  qed
qed

lemma flush_dirty_page_cases:
  assumes "flush_dirty_page lport sport d log store = (res, log', store')"
  obtains (rejected) reason where "res = Inl (FlushRejected \<lparr>fr_page = d, fr_reason = reason\<rparr>)"
      and "log' = log" and "store' = store"
      and "pa_lineage (dp_address d) \<noteq> port_lineage lport log
        \<or> pa_lineage (dp_address d) \<noteq> store_lineage sport store"
  | (log_flush) source where "port_flush_through lport (dp_required_position d) log = (Inl source, log')"
      and "res = Inl (LogFlush \<lparr>fl_page = d, fl_source = source\<rparr>)" and "store' = store"
  | (store_write) source where "port_flush_through lport (dp_required_position d) log = (Inr (), log')"
      and "store_write_page sport d (PageWritePermit (dp_required_position d)) store = (Inl source, store')"
      and "res = Inl (StoreWrite \<lparr>fs_page = indeterminate_from_dirty d, fs_source = source\<rparr>)"
      and "pa_lineage (dp_address d) = port_lineage lport log"
  | (clean) "port_flush_through lport (dp_required_position d) log = (Inr (), log')"
      and "store_write_page sport d (PageWritePermit (dp_required_position d)) store = (Inr (), store')"
      and "res = Inr (clean_from_dirty d)" and "pa_lineage (dp_address d) = port_lineage lport log"
proof (cases "pa_lineage (dp_address d) = port_lineage lport log
    \<and> pa_lineage (dp_address d) = store_lineage sport store")
  case False
  then obtain reason where "res = Inl (FlushRejected \<lparr>fr_page = d, fr_reason = reason\<rparr>)"
    "log' = log" "store' = store"
    using assms by (auto simp: flush_dirty_page_def split: if_splits)
  with False rejected show ?thesis by blast
next
  case True
  obtain a log1 where fl: "port_flush_through lport (dp_required_position d) log = (a, log1)"
    by (metis prod.collapse)
  obtain b store1 where wr:
    "store_write_page sport d (PageWritePermit (dp_required_position d)) store = (b, store1)"
    by (metis prod.collapse)
  from True have lin: "pa_lineage (dp_address d) = port_lineage lport log"
    "store_lineage sport store = port_lineage lport log" by auto
  note facts = assms [unfolded flush_dirty_page_def] lin fl wr
  show ?thesis
  proof (cases a)
    case (Inl source)
    with facts have "log1 = log'" "store = store'" "res = Inl (LogFlush \<lparr>fl_page = d, fl_source = source\<rparr>)"
      by simp_all
    with fl Inl show ?thesis by (intro log_flush [of source]) simp_all
  next
    case (Inr u)
    show ?thesis
    proof (cases b)
      case inl: (Inl source)
      with facts Inr have "log1 = log'" "store1 = store'"
        "res = Inl (StoreWrite \<lparr>fs_page = indeterminate_from_dirty d, fs_source = source\<rparr>)" by simp_all
      with fl wr Inr inl lin show ?thesis by (intro store_write [of source]) simp_all
    next
      case inr: (Inr v)
      with facts Inr have "log1 = log'" "store1 = store'" "res = Inr (clean_from_dirty d)" by simp_all
      with fl wr Inr inr lin show ?thesis by (intro clean) simp_all
    qed
  qed
qed

section \<open>What a page store promises\<close>

text \<open>
  \<open>stored s n\<close> is the version, the bytes and the WAL position the store holds for a page. A
  write that reports success has installed the image; one that fails either has or has not, and
  no write touches another page.
\<close>

type_synonym stored_image = "image_version \<times> u8 list \<times> log_sequence_number"

definition dirty_content :: "dirty_page \<Rightarrow> stored_image" where
  "dirty_content d = (dp_version d, image_bytes (dp_image d), dp_required_position d)"

locale writing_store =
  fixes sport :: "('s, 'se, 'y) page_store_port_scheme"
    and sinv :: "'s \<Rightarrow> bool"
    and stored :: "'s \<Rightarrow> page_number \<Rightarrow> stored_image option"
  assumes write_stored: "sinv s \<Longrightarrow> store_write_page sport d permit s = (Inr (), s') \<Longrightarrow>
      stored s' (pa_number (dp_address d)) = Some (dirty_content d)"
    and write_effect: "sinv s \<Longrightarrow> store_write_page sport d permit s = (r, s') \<Longrightarrow>
      stored s' n = stored s n \<or> (n = pa_number (dp_address d) \<and> stored s' n = Some (dirty_content d))"
    and write_inv: "sinv s \<Longrightarrow> store_write_page sport d permit s = (r, s') \<Longrightarrow> sinv s'"
    and write_lineage: "sinv s \<Longrightarrow> store_write_page sport d permit s = (r, s') \<Longrightarrow>
      store_lineage sport s' = store_lineage sport s"

text \<open>The two ports of a page flush together.\<close>

locale page_flushing = durable_log lport linv durable + writing_store sport sinv stored
  for lport :: "('l, 'le, 'z) log_durability_scheme"
    and linv :: "'l \<Rightarrow> bool"
    and durable :: "'l \<Rightarrow> log_sequence_number \<Rightarrow> bool"
    and sport :: "('s, 'se, 'y) page_store_port_scheme"
    and sinv :: "'s \<Rightarrow> bool"
    and stored :: "'s \<Rightarrow> page_number \<Rightarrow> stored_image option"
begin

lemma flush_dirty_page_clean:
  assumes "linv l" and "sinv s" and "flush_dirty_page lport sport d l s = (Inr c, l', s')"
  shows "c = clean_from_dirty d \<and> durable l' (dp_required_position d)
    \<and> stored s' (pa_number (dp_address d)) = Some (dirty_content d)"
  using assms(3)
proof (cases rule: flush_dirty_page_cases)
  case clean
  with flush_durable [OF assms(1) clean(1)] write_stored [OF assms(2) clean(2)] show ?thesis by simp
qed auto

lemma flush_dirty_page_wal_first:
  assumes "linv l" and "sinv s" and "flush_dirty_page lport sport d l s = (r, l', s')"
    and "stored s' n \<noteq> stored s n"
  shows "n = pa_number (dp_address d) \<and> stored s' n = Some (dirty_content d)
    \<and> durable l' (dp_required_position d)"
  using assms(3)
proof (cases rule: flush_dirty_page_cases)
  case (store_write source)
  with flush_durable [OF assms(1)] write_effect [OF assms(2)] assms(4) show ?thesis by blast
next
  case clean
  with flush_durable [OF assms(1)] write_effect [OF assms(2)] assms(4) show ?thesis by blast
qed (use assms(4) in auto)

lemma flush_dirty_page_keeps:
  assumes "linv l" and "sinv s" and "flush_dirty_page lport sport d l s = (r, l', s')"
  shows "linv l' \<and> sinv s' \<and> port_lineage lport l' = port_lineage lport l
    \<and> store_lineage sport s' = store_lineage sport s \<and> (\<forall>q. durable l q \<longrightarrow> durable l' q)"
  using assms(3)
proof (cases rule: flush_dirty_page_cases)
  case (log_flush source)
  note l = flush_inv [OF assms(1) log_flush(1)] flush_lineage [OF assms(1) log_flush(1)]
    flush_mono [OF assms(1) log_flush(1)]
  from l log_flush(3) assms(2) show ?thesis by blast
next
  case (store_write source)
  note l = flush_inv [OF assms(1) store_write(1)] flush_lineage [OF assms(1) store_write(1)]
    flush_mono [OF assms(1) store_write(1)]
  from l write_inv [OF assms(2) store_write(2)] write_lineage [OF assms(2) store_write(2)]
  show ?thesis by blast
next
  case clean
  note l = flush_inv [OF assms(1) clean(1)] flush_lineage [OF assms(1) clean(1)]
    flush_mono [OF assms(1) clean(1)]
  from l write_inv [OF assms(2) clean(2)] write_lineage [OF assms(2) clean(2)]
  show ?thesis by blast
qed (use assms(1,2) in auto)

end

end
