(* ===== verification/Transaction.thy ===== *)
theory Transaction
  imports Page
begin

text \<open>
  The transaction coordinator of \<open>ntsql-transaction\<close>: epochs and identities, the lifecycle
  registry, commit attempts through the durability fence, resolution of indeterminate commits,
  transaction-owned page staging, and the committed-page flush. The tokens of the source
  (active, indeterminate, committed, dirty, clean) are values; that a token is consumed by the
  call that takes it is the discipline of the runtime in theory \<open>Runtime\<close>.
\<close>

section \<open>Identities and ports\<close>

text \<open>A \<open>NonZeroU64\<close> is a \<open>u64\<close>; its constructor refuses zero.\<close>

definition non_zero_u64 :: "u64 \<Rightarrow> u64 option" where
  "non_zero_u64 v = (if v \<noteq> 0 then Some v else None)"

datatype transaction_epoch = TransactionEpoch (epoch_get: u64)

record transaction_token_id =
  tt_epoch :: transaction_epoch
  tt_sequence :: u64

definition show_transaction_token_id :: "transaction_token_id \<Rightarrow> string" where
  "show_transaction_token_id t = dec (epoch_get (tt_epoch t)) @ '':'' @ dec (tt_sequence t)"

datatype durable_commit_lookup = LookupFound log_sequence_number | LookupAbsent

record ('src, 'e) transaction_epoch_source =
  port_allocate_epoch :: "'src \<Rightarrow> ('e + u64 \<times> log_lineage) \<times> 'src"

record ('src, 'e) transaction_recovery_source =
  port_lookup_durable_commit ::
    "transaction_token_id \<Rightarrow> 'src \<Rightarrow> ('e + log_lineage \<times> durable_commit_lookup) \<times> 'src"

datatype transaction_commit_record = TransactionCommitRecord (commit_record_id: transaction_token_id)

record transaction_page_write_record =
  tw_transaction_id :: transaction_token_id
  tw_page :: unlogged_page

record ('l, 'e) transaction_page_log = "('l, 'e, transaction_commit_record) commit_log" +
  port_append_transaction_page ::
    "transaction_page_write_record \<Rightarrow> 'l \<Rightarrow> ('e + log_sequence_number) \<times> 'l"

section \<open>Lifecycle and tokens\<close>

datatype transaction_lifecycle_status =
    StActive
  | StCommitAttempted
  | StCommitted
  | StIndeterminate
  | StPageAppendIndeterminate
  | StNoDurableCommitRecord

datatype transaction_issue_error =
    IdentitySpaceExhausted
  | IdentityAlreadyIssued transaction_token_id

fun show_transaction_issue_error :: "transaction_issue_error \<Rightarrow> string" where
  "show_transaction_issue_error IdentitySpaceExhausted = ''transaction identity space is exhausted''"
| "show_transaction_issue_error (IdentityAlreadyIssued t) =
     ''transaction identity '' @ show_transaction_token_id t @ '' was already issued''"

text \<open>
  \<open>identity\<close> is an \<open>Arc<()>\<close>: a number that identifies the allocation. The registry is only
  read and updated by key and the staged set only tested, extended and reduced, so a map and a
  set stand for the \<open>BTreeMap\<close> and the \<open>BTreeSet\<close>.
\<close>

record transaction_coordinator =
  tc_epoch :: transaction_epoch
  tc_identity :: nat
  tc_log_lineage :: log_lineage
  tc_next_transaction_id :: "u64 option"
  tc_lifecycles :: "transaction_token_id \<rightharpoonup> transaction_lifecycle_status"
  tc_staged_pages :: "(transaction_token_id \<times> page_number) set"

record active_transaction =
  at_transaction_id :: transaction_token_id
  at_coordinator_identity :: nat

record committed_transaction =
  ct_transaction_id :: transaction_token_id
  ct_log_position :: log_sequence_number

record indeterminate_transaction =
  it_transaction_id :: transaction_token_id
  it_coordinator_identity :: nat
  it_log_lineage :: log_lineage

datatype no_durable_commit_record = NoDurableCommitRecord (absent_transaction_id: transaction_token_id)

definition from_allocated_epoch :: "nat \<Rightarrow> u64 \<Rightarrow> log_lineage \<Rightarrow> transaction_coordinator" where
  "from_allocated_epoch fresh epoch lineage =
     \<lparr>tc_epoch = TransactionEpoch epoch, tc_identity = fresh, tc_log_lineage = lineage,
      tc_next_transaction_id = Some 1, tc_lifecycles = (\<lambda>_. None), tc_staged_pages = {}\<rparr>"

text \<open>\<open>open\<close>; \<open>fresh\<close> is the allocation the new \<open>Arc\<close> gets.\<close>

definition coordinator_open ::
  "('src, 'e, 'z) transaction_epoch_source_scheme \<Rightarrow> nat \<Rightarrow> 'src
     \<Rightarrow> ('e + transaction_coordinator) \<times> 'src" where
  "coordinator_open port fresh source =
     (case port_allocate_epoch port source of
        (Inl e, source1) \<Rightarrow> (Inl e, source1)
      | (Inr (epoch, lineage), source1) \<Rightarrow> (Inr (from_allocated_epoch fresh epoch lineage), source1))"

definition coordinator_begin ::
  "transaction_coordinator \<Rightarrow> (transaction_issue_error + active_transaction) \<times> transaction_coordinator" where
  "coordinator_begin c =
     (case tc_next_transaction_id c of
        None \<Rightarrow> (Inl IdentitySpaceExhausted, c)
      | Some next_id \<Rightarrow>
          let transaction_id = \<lparr>tt_epoch = tc_epoch c, tt_sequence = next_id\<rparr> in
          (case tc_lifecycles c transaction_id of
             Some _ \<Rightarrow> (Inl (IdentityAlreadyIssued transaction_id), c)
           | None \<Rightarrow>
               (Inr \<lparr>at_transaction_id = transaction_id, at_coordinator_identity = tc_identity c\<rparr>,
                c\<lparr>tc_lifecycles := (tc_lifecycles c)(transaction_id \<mapsto> StActive),
                  tc_next_transaction_id := Option.bind (checked_add next_id 1) non_zero_u64\<rparr>)))"

definition owns :: "transaction_coordinator \<Rightarrow> active_transaction \<Rightarrow> bool" where
  "owns c t = (tc_identity c = at_coordinator_identity t)"

definition owns_indeterminate :: "transaction_coordinator \<Rightarrow> indeterminate_transaction \<Rightarrow> bool" where
  "owns_indeterminate c t = (tc_identity c = it_coordinator_identity t)"

definition coordinator_status ::
  "transaction_coordinator \<Rightarrow> transaction_token_id \<Rightarrow> transaction_lifecycle_status option" where
  "coordinator_status c t = tc_lifecycles c t"

definition set_status ::
  "transaction_token_id \<Rightarrow> transaction_lifecycle_status \<Rightarrow> transaction_coordinator \<Rightarrow> transaction_coordinator"
  where "set_status t st c = c\<lparr>tc_lifecycles := (tc_lifecycles c)(t \<mapsto> st)\<rparr>"

text \<open>The error of allocating the epoch of a restarted coordinator.\<close>

datatype 'e restart_epoch_allocation_error =
    RestartEpochSource 'e
  | RestartIdentitySpaceExhausted "u64 option"
  | PersistedEpochHighWaterNotAdvanced u64 u64

fun show_restart_epoch_allocation_error ::
  "('e \<Rightarrow> string) \<Rightarrow> 'e restart_epoch_allocation_error \<Rightarrow> string" where
  "show_restart_epoch_allocation_error f (RestartEpochSource source) =
     ''restart epoch allocation failed: '' @ f source"
| "show_restart_epoch_allocation_error f (RestartIdentitySpaceExhausted hw) =
     ''transaction epoch space is exhausted above persisted high-water '' @ debug_u64_option hw"
| "show_restart_epoch_allocation_error f (PersistedEpochHighWaterNotAdvanced hw next_epoch) =
     ''next transaction epoch '' @ dec next_epoch @ '' does not advance beyond persisted high-water ''
       @ dec hw"

section \<open>Commit\<close>

datatype transaction_commit_rejection_reason =
    CommitForeignCoordinator
  | CommitForeignLogLineage
  | CommitLifecycleMismatch "transaction_lifecycle_status option"

record transaction_commit_rejection =
  cr_transaction :: active_transaction
  cr_reason :: transaction_commit_rejection_reason

record 'e transaction_commit_error =
  ce_transaction :: indeterminate_transaction
  ce_source :: "'e commit_error"

datatype 'e coordinated_commit_error =
    CommitRejected transaction_commit_rejection
  | CommitIndeterminate "'e transaction_commit_error"

definition active_commit ::
  "('l, 'e, transaction_commit_record, 'z) commit_log_scheme \<Rightarrow> active_transaction \<Rightarrow> log_lineage \<Rightarrow> 'l
     \<Rightarrow> ('e transaction_commit_error + committed_transaction) \<times> 'l" where
  "active_commit port t lineage log =
     (let transaction_id = at_transaction_id t in
      case commit_durability port (TransactionCommitRecord transaction_id)
             (\<lambda>position. \<lparr>ct_transaction_id = transaction_id, ct_log_position = position\<rparr>) log of
        (Inr committed, log1) \<Rightarrow> (Inr committed, log1)
      | (Inl source, log1) \<Rightarrow>
          (Inl \<lparr>ce_transaction = \<lparr>it_transaction_id = transaction_id,
                  it_coordinator_identity = at_coordinator_identity t, it_log_lineage = lineage\<rparr>,
                ce_source = source\<rparr>, log1))"

definition coordinator_commit ::
  "('l, 'e, transaction_commit_record, 'z) commit_log_scheme \<Rightarrow> active_transaction
     \<Rightarrow> transaction_coordinator \<Rightarrow> 'l
     \<Rightarrow> ('e coordinated_commit_error + committed_transaction) \<times> transaction_coordinator \<times> 'l" where
  "coordinator_commit port t c log =
     (let reject = (\<lambda>reason. (Inl (CommitRejected \<lparr>cr_transaction = t, cr_reason = reason\<rparr>), c, log)) in
      if \<not> owns c t then reject CommitForeignCoordinator
      else if \<not> same_lineage (tc_log_lineage c) (port_lineage port log) then reject CommitForeignLogLineage
      else if tc_lifecycles c (at_transaction_id t) \<noteq> Some StActive
      then reject (CommitLifecycleMismatch (tc_lifecycles c (at_transaction_id t)))
      else
        let c1 = set_status (at_transaction_id t) StCommitAttempted c in
        case active_commit port t (tc_log_lineage c) log of
          (Inr committed, log1) \<Rightarrow>
            (Inr committed, set_status (at_transaction_id t) StCommitted c1, log1)
        | (Inl e, log1) \<Rightarrow>
            (Inl (CommitIndeterminate e), set_status (at_transaction_id t) StIndeterminate c1, log1))"

section \<open>Resolution\<close>

datatype transaction_commit_resolution =
    ResolvedCommitted committed_transaction
  | ResolvedAbsent no_durable_commit_record

datatype 'e transaction_resolution_failure =
    ResolveForeignCoordinator
  | ResolveForeignLogLineage
  | ResolveLifecycleMismatch "transaction_lifecycle_status option"
  | ResolveSource 'e

record 'e transaction_resolution_error =
  re_transaction :: indeterminate_transaction
  re_failure :: "'e transaction_resolution_failure"

definition coordinator_resolve ::
  "('src, 'e, 'z) transaction_recovery_source_scheme \<Rightarrow> indeterminate_transaction
     \<Rightarrow> transaction_coordinator \<Rightarrow> 'src
     \<Rightarrow> ('e transaction_resolution_error + transaction_commit_resolution)
         \<times> transaction_coordinator \<times> 'src" where
  "coordinator_resolve port t c source =
     (let fail = (\<lambda>failure. Inl \<lparr>re_transaction = t, re_failure = failure\<rparr>);
          transaction_id = it_transaction_id t;
          actual = coordinator_status c transaction_id in
      if \<not> owns_indeterminate c t then (fail ResolveForeignCoordinator, c, source)
      else if actual \<noteq> Some StIndeterminate then (fail (ResolveLifecycleMismatch actual), c, source)
      else case port_lookup_durable_commit port transaction_id source of
        (Inl e, source1) \<Rightarrow> (fail (ResolveSource e), c, source1)
      | (Inr (lineage, found), source1) \<Rightarrow>
          if \<not> same_lineage (it_log_lineage t) lineage then (fail ResolveForeignLogLineage, c, source1)
          else if (case found of LookupFound position \<Rightarrow> \<not> same_lineage lineage (lsn_lineage position)
                    | LookupAbsent \<Rightarrow> False)
          then (fail ResolveForeignLogLineage, c, source1)
          else if tc_lifecycles c transaction_id = None
          then (fail (ResolveLifecycleMismatch None), c, source1)
          else (case found of
            LookupFound position \<Rightarrow>
              (Inr (ResolvedCommitted
                 \<lparr>ct_transaction_id = transaction_id, ct_log_position = position\<rparr>),
               set_status transaction_id StCommitted c, source1)
          | LookupAbsent \<Rightarrow>
              (Inr (ResolvedAbsent (NoDurableCommitRecord transaction_id)),
               set_status transaction_id StNoDurableCommitRecord c, source1)))"

section \<open>Staging a transaction-owned page\<close>

record transaction_dirty_page =
  td_transaction_id :: transaction_token_id
  td_dirty :: dirty_page

record transaction_clean_page =
  tk_transaction_id :: transaction_token_id
  tk_clean :: clean_page

datatype transaction_page_stage_rejection_reason =
    PageStageForeignCoordinator
  | PageStageForeignLogLineage
  | PageStageForeignPageLineage
  | PageStageLifecycleMismatch "transaction_lifecycle_status option"
  | PageAlreadyStaged
  | InternalPageLogRejection

record transaction_page_stage_rejection =
  pr_transaction :: active_transaction
  pr_page :: unlogged_page
  pr_reason :: transaction_page_stage_rejection_reason

record 'e transaction_page_append_error =
  pa_error_transaction_id :: transaction_token_id
  pa_error_page :: indeterminate_page_log_append
  pa_error_source :: 'e

record transaction_page_evidence_error =
  pe_error_transaction_id :: transaction_token_id
  pe_error_page :: indeterminate_page_log_append
  pe_error_reason :: stage_page_write_evidence_error_reason

datatype 'e transaction_page_stage_error =
    PageStageRejected transaction_page_stage_rejection
  | PageStageAppend "'e transaction_page_append_error"
  | PageStageInvalidEvidence transaction_page_evidence_error

text \<open>The bridge presents a transaction page log as a page log; every append carries the owner.\<close>

definition transaction_page_append_bridge ::
  "('l, 'e, 'z) transaction_page_log_scheme \<Rightarrow> transaction_token_id \<Rightarrow> ('l, 'e) page_log" where
  "transaction_page_append_bridge port t =
     \<lparr>port_lineage = port_lineage port, port_flush_through = port_flush_through port,
      port_append_page = (\<lambda>page. port_append_transaction_page port
        \<lparr>tw_transaction_id = t, tw_page = page\<rparr>)\<rparr>"

definition mark_page_append_indeterminate ::
  "transaction_token_id \<Rightarrow> transaction_coordinator \<Rightarrow> transaction_coordinator" where
  "mark_page_append_indeterminate t c =
     (case tc_lifecycles c t of None \<Rightarrow> c | Some _ \<Rightarrow> set_status t StPageAppendIndeterminate c)"

definition coordinator_stage_page_write ::
  "('l, 'e, 'z) transaction_page_log_scheme \<Rightarrow> active_transaction \<Rightarrow> unlogged_page
     \<Rightarrow> transaction_coordinator \<Rightarrow> 'l
     \<Rightarrow> ('e transaction_page_stage_error + active_transaction \<times> transaction_dirty_page)
         \<times> transaction_coordinator \<times> 'l" where
  "coordinator_stage_page_write port t page c log =
     (let reject = (\<lambda>reason. (Inl (PageStageRejected
            \<lparr>pr_transaction = t, pr_page = page, pr_reason = reason\<rparr>), c, log));
          transaction_id = at_transaction_id t;
          key = (transaction_id, pa_number (up_address page)) in
      if \<not> owns c t then reject PageStageForeignCoordinator
      else if \<not> same_lineage (tc_log_lineage c) (port_lineage port log) then reject PageStageForeignLogLineage
      else if \<not> same_lineage (pa_lineage (up_address page)) (port_lineage port log)
      then reject PageStageForeignPageLineage
      else if tc_lifecycles c transaction_id \<noteq> Some StActive
      then reject (PageStageLifecycleMismatch (tc_lifecycles c transaction_id))
      else if key \<in> tc_staged_pages c then reject PageAlreadyStaged
      else
        let c1 = c\<lparr>tc_staged_pages := insert key (tc_staged_pages c)\<rparr> in
        case stage_page_write (transaction_page_append_bridge port transaction_id) page log of
          (Inr dirty, log1) \<Rightarrow>
            (Inr (t, \<lparr>td_transaction_id = transaction_id, td_dirty = dirty\<rparr>), c1, log1)
        | (Inl (StageRejected rejection), log1) \<Rightarrow>
            (Inl (PageStageRejected \<lparr>pr_transaction = t, pr_page = sr_page rejection,
               pr_reason = InternalPageLogRejection\<rparr>),
             c1\<lparr>tc_staged_pages := tc_staged_pages c1 - {key}\<rparr>, log1)
        | (Inl (StageAppend e), log1) \<Rightarrow>
            (Inl (PageStageAppend \<lparr>pa_error_transaction_id = transaction_id,
               pa_error_page = sa_page e, pa_error_source = sa_source e\<rparr>),
             mark_page_append_indeterminate transaction_id c1, log1)
        | (Inl (StageInvalidEvidence e), log1) \<Rightarrow>
            (Inl (PageStageInvalidEvidence \<lparr>pe_error_transaction_id = transaction_id,
               pe_error_page = se_page e, pe_error_reason = se_reason e\<rparr>),
             mark_page_append_indeterminate transaction_id c1, log1))"

section \<open>Flushing a committed page\<close>

datatype transaction_committed_flush_rejection_reason =
    FlushWrongTransaction
  | FlushForeignCommitLineage
  | CommitPositionNotAfterPage
  | InternalFlushRejection

record transaction_committed_flush_rejection =
  fj_page :: transaction_dirty_page
  fj_reason :: transaction_committed_flush_rejection_reason

record 'e transaction_committed_flush_log_error =
  fe_page :: transaction_dirty_page
  fe_source :: 'e

record 'e transaction_committed_flush_store_error =
  fx_transaction_id :: transaction_token_id
  fx_page :: indeterminate_page_write
  fx_source :: 'e

datatype ('le, 'se) transaction_committed_flush_error =
    CommittedFlushRejected transaction_committed_flush_rejection
  | CommittedFlushLog "'le transaction_committed_flush_log_error"
  | CommittedFlushStore "'se transaction_committed_flush_store_error"

definition flush_committed_page ::
  "('l, 'le, 'z) log_durability_scheme \<Rightarrow> ('s, 'se, 'y) page_store_port_scheme
     \<Rightarrow> committed_transaction \<Rightarrow> transaction_dirty_page \<Rightarrow> 'l \<Rightarrow> 's
     \<Rightarrow> (('le, 'se) transaction_committed_flush_error + transaction_clean_page) \<times> 'l \<times> 's" where
  "flush_committed_page lport sport committed page log store =
     (let reject = (\<lambda>reason. (Inl (CommittedFlushRejected
            \<lparr>fj_page = page, fj_reason = reason\<rparr>), log, store)) in
      if ct_transaction_id committed \<noteq> td_transaction_id page then reject FlushWrongTransaction
      else if \<not> same_lineage (lsn_lineage (ct_log_position committed))
                (lsn_lineage (dp_required_position (td_dirty page)))
      then reject FlushForeignCommitLineage
      else if lsn_value (ct_log_position committed) \<le> lsn_value (dp_required_position (td_dirty page))
      then reject CommitPositionNotAfterPage
      else
        case flush_dirty_page lport sport (td_dirty page) log store of
          (Inr clean, log1, store1) \<Rightarrow>
            (Inr \<lparr>tk_transaction_id = td_transaction_id page, tk_clean = clean\<rparr>, log1, store1)
        | (Inl (FlushRejected rejection), log1, store1) \<Rightarrow>
            (Inl (CommittedFlushRejected
               \<lparr>fj_page = \<lparr>td_transaction_id = td_transaction_id page, td_dirty = fr_page rejection\<rparr>,
                fj_reason = InternalFlushRejection\<rparr>), log1, store1)
        | (Inl (LogFlush e), log1, store1) \<Rightarrow>
            (Inl (CommittedFlushLog
               \<lparr>fe_page = \<lparr>td_transaction_id = td_transaction_id page, td_dirty = fl_page e\<rparr>,
                fe_source = fl_source e\<rparr>), log1, store1)
        | (Inl (StoreWrite e), log1, store1) \<Rightarrow>
            (Inl (CommittedFlushStore \<lparr>fx_transaction_id = td_transaction_id page,
               fx_page = fs_page e, fx_source = fs_source e\<rparr>), log1, store1))"

datatype coordinated_flush_rejection_reason =
    CoordinatedWrongTransaction
  | ForeignCoordinatorLineage
  | CoordinatedLifecycleMismatch "transaction_lifecycle_status option"
  | PageNotStaged

record coordinated_flush_rejection =
  cf_page :: transaction_dirty_page
  cf_reason :: coordinated_flush_rejection_reason

datatype ('le, 'se) coordinated_flush_error =
    CoordinatedFlushRejected coordinated_flush_rejection
  | CoordinatedFlush "('le, 'se) transaction_committed_flush_error"

definition flush_staged_committed_page ::
  "('l, 'le, 'z) log_durability_scheme \<Rightarrow> ('s, 'se, 'y) page_store_port_scheme
     \<Rightarrow> committed_transaction \<Rightarrow> transaction_dirty_page \<Rightarrow> transaction_coordinator \<Rightarrow> 'l \<Rightarrow> 's
     \<Rightarrow> (('le, 'se) coordinated_flush_error + transaction_clean_page)
         \<times> transaction_coordinator \<times> 'l \<times> 's" where
  "flush_staged_committed_page lport sport committed page c log store =
     (let reject = (\<lambda>reason. (Inl (CoordinatedFlushRejected
            \<lparr>cf_page = page, cf_reason = reason\<rparr>), c, log, store));
          transaction_id = td_transaction_id page;
          actual = coordinator_status c transaction_id;
          key = (transaction_id, pa_number (dp_address (td_dirty page))) in
      if ct_transaction_id committed \<noteq> transaction_id then reject CoordinatedWrongTransaction
      else if \<not> same_lineage (tc_log_lineage c) (lsn_lineage (dp_required_position (td_dirty page)))
        \<or> \<not> same_lineage (tc_log_lineage c) (lsn_lineage (ct_log_position committed))
      then reject ForeignCoordinatorLineage
      else if actual \<noteq> Some StCommitted then reject (CoordinatedLifecycleMismatch actual)
      else if key \<notin> tc_staged_pages c then reject PageNotStaged
      else
        case flush_committed_page lport sport committed page log store of
          (Inr clean, log1, store1) \<Rightarrow>
            (Inr clean, c\<lparr>tc_staged_pages := tc_staged_pages c - {key}\<rparr>, log1, store1)
        | (Inl source, log1, store1) \<Rightarrow> (Inl (CoordinatedFlush source), c, log1, store1))"

end
