(* ===== verification/Page_Reconcile.thy ===== *)
theory Page_Reconcile
  imports Page
begin

text \<open>
  The recovery observations of \<open>ntsql-page\<close> and \<open>reconcile_durable_page\<close>, which compares the
  durable WAL images of one page with its stored snapshot.
\<close>

section \<open>Observations\<close>

datatype page_recovery_observation_error_reason = ZeroPosition

record page_recovery_observation_error =
  oe_page_number :: page_number
  oe_page_version :: image_version
  oe_image :: page_image
  oe_position :: log_sequence_number
  oe_reason :: page_recovery_observation_error_reason

definition show_page_recovery_observation_error :: "page_recovery_observation_error \<Rightarrow> string" where
  "show_page_recovery_observation_error e = (case oe_reason e of ZeroPosition \<Rightarrow>
     ''page '' @ show_page_number (oe_page_number e)
       @ '' recovery observation has zero as its WAL position'')"

datatype page_recovery_observation_bytes_error_reason = BytesZeroPageWidth | BytesZeroPosition

record page_recovery_observation_bytes_error =
  ob_page_number :: page_number
  ob_page_version :: image_version
  ob_bytes :: "u8 list"
  ob_position :: log_sequence_number
  ob_reason :: page_recovery_observation_bytes_error_reason

definition show_page_recovery_observation_bytes_error ::
  "page_recovery_observation_bytes_error \<Rightarrow> string" where
  "show_page_recovery_observation_bytes_error e =
     (let number = show_page_number (ob_page_number e) in
      case ob_reason e of
        BytesZeroPageWidth \<Rightarrow> ''page '' @ number @ '' recovery observation has zero-width bytes''
      | BytesZeroPosition \<Rightarrow>
          ''page '' @ number @ '' recovery observation has zero as its WAL position'')"

record page_recovery_observation =
  po_page_number :: page_number
  po_page_version :: image_version
  po_image :: page_image
  po_position :: log_sequence_number

definition page_recovery_observation_new ::
  "page_number \<Rightarrow> image_version \<Rightarrow> page_image \<Rightarrow> log_sequence_number
     \<Rightarrow> page_recovery_observation_error + page_recovery_observation" where
  "page_recovery_observation_new number version img position =
     (if lsn_value position = 0
      then Inl \<lparr>oe_page_number = number, oe_page_version = version, oe_image = img,
                oe_position = position, oe_reason = ZeroPosition\<rparr>
      else Inr \<lparr>po_page_number = number, po_page_version = version, po_image = img,
                po_position = position\<rparr>)"

definition page_recovery_observation_from_bytes ::
  "page_number \<Rightarrow> image_version \<Rightarrow> u8 list \<Rightarrow> log_sequence_number
     \<Rightarrow> page_recovery_observation_bytes_error + page_recovery_observation" where
  "page_recovery_observation_from_bytes number version bytes position =
     (let reason = (if length bytes = 0 then Some BytesZeroPageWidth
                    else if lsn_value position = 0 then Some BytesZeroPosition else None) in
      case reason of
        Some reason \<Rightarrow> Inl \<lparr>ob_page_number = number, ob_page_version = version, ob_bytes = bytes,
                             ob_position = position, ob_reason = reason\<rparr>
      | None \<Rightarrow> Inr \<lparr>po_page_number = number, po_page_version = version,
                      po_image = PageImage bytes, po_position = position\<rparr>)"

datatype durable_page_wal_observation =
  DurablePageWalObservation (wal_observation: page_recovery_observation)

datatype stored_page_snapshot_observation =
  StoredPageSnapshotObservation (snapshot_observation: page_recovery_observation)

definition durable_page_wal_observation_new ::
  "page_number \<Rightarrow> image_version \<Rightarrow> page_image \<Rightarrow> log_sequence_number
     \<Rightarrow> page_recovery_observation_error + durable_page_wal_observation" where
  "durable_page_wal_observation_new number version img position =
     map_sum (\<lambda>e. e) DurablePageWalObservation (page_recovery_observation_new number version img position)"

definition durable_page_wal_observation_from_bytes ::
  "page_number \<Rightarrow> image_version \<Rightarrow> u8 list \<Rightarrow> log_sequence_number
     \<Rightarrow> page_recovery_observation_bytes_error + durable_page_wal_observation" where
  "durable_page_wal_observation_from_bytes number version bytes position =
     map_sum (\<lambda>e. e) DurablePageWalObservation
       (page_recovery_observation_from_bytes number version bytes position)"

definition stored_page_snapshot_observation_new ::
  "page_number \<Rightarrow> image_version \<Rightarrow> page_image \<Rightarrow> log_sequence_number
     \<Rightarrow> page_recovery_observation_error + stored_page_snapshot_observation" where
  "stored_page_snapshot_observation_new number version img position =
     map_sum (\<lambda>e. e) StoredPageSnapshotObservation
       (page_recovery_observation_new number version img position)"

definition stored_page_snapshot_observation_from_bytes ::
  "page_number \<Rightarrow> image_version \<Rightarrow> u8 list \<Rightarrow> log_sequence_number
     \<Rightarrow> page_recovery_observation_bytes_error + stored_page_snapshot_observation" where
  "stored_page_snapshot_observation_from_bytes number version bytes position =
     map_sum (\<lambda>e. e) StoredPageSnapshotObservation
       (page_recovery_observation_from_bytes number version bytes position)"

abbreviation wo_position :: "durable_page_wal_observation \<Rightarrow> log_sequence_number" where
  "wo_position w \<equiv> po_position (wal_observation w)"

abbreviation so_position :: "stored_page_snapshot_observation \<Rightarrow> log_sequence_number" where
  "so_position s \<equiv> po_position (snapshot_observation s)"

section \<open>Reconciliation\<close>

datatype durable_page_reconciliation =
    NoDurableState
  | ExactCurrent log_sequence_number
  | StoreBehind log_sequence_number log_sequence_number
  | StoreMissing log_sequence_number

datatype durable_page_reconciliation_error =
    UnexpectedSnapshotPage page_number page_number
  | ForeignSnapshotLineage page_number log_sequence_number
  | UnexpectedWalPage page_number page_number log_sequence_number
  | ForeignWalLineage page_number log_sequence_number
  | RepeatedWalPosition page_number log_sequence_number
  | ContradictoryWalPosition page_number log_sequence_number
  | NonAdvancingWalPosition page_number log_sequence_number log_sequence_number
  | SnapshotPositionUnbacked page_number log_sequence_number
  | SnapshotPayloadContradiction page_number log_sequence_number

fun show_durable_page_reconciliation_error :: "durable_page_reconciliation_error \<Rightarrow> string" where
  "show_durable_page_reconciliation_error (UnexpectedSnapshotPage expected actual) =
     ''expected page '' @ show_page_number expected @ '' but snapshot describes page ''
       @ show_page_number actual"
| "show_durable_page_reconciliation_error (ForeignSnapshotLineage number position) =
     ''page '' @ show_page_number number @ '' snapshot position '' @ show_lsn position
       @ '' belongs to another WAL lineage''"
| "show_durable_page_reconciliation_error (UnexpectedWalPage expected actual position) =
     ''expected page '' @ show_page_number expected @ '' but WAL position '' @ show_lsn position
       @ '' describes page '' @ show_page_number actual"
| "show_durable_page_reconciliation_error (ForeignWalLineage number position) =
     ''page '' @ show_page_number number @ '' WAL position '' @ show_lsn position
       @ '' belongs to another lineage''"
| "show_durable_page_reconciliation_error (RepeatedWalPosition number position) =
     ''page '' @ show_page_number number @ '' repeats WAL position '' @ show_lsn position
       @ '' with identical payload''"
| "show_durable_page_reconciliation_error (ContradictoryWalPosition number position) =
     ''page '' @ show_page_number number @ '' repeats WAL position '' @ show_lsn position
       @ '' with contradictory payload''"
| "show_durable_page_reconciliation_error (NonAdvancingWalPosition number previous actual) =
     ''page '' @ show_page_number number @ '' WAL position '' @ show_lsn actual
       @ '' does not advance beyond '' @ show_lsn previous"
| "show_durable_page_reconciliation_error (SnapshotPositionUnbacked number position) =
     ''page '' @ show_page_number number @ '' snapshot position '' @ show_lsn position
       @ '' has no matching durable page WAL record''"
| "show_durable_page_reconciliation_error (SnapshotPayloadContradiction number position) =
     ''page '' @ show_page_number number @ '' snapshot contradicts durable WAL payload at position ''
       @ show_lsn position"

definition check_snapshot ::
  "log_lineage \<Rightarrow> page_number \<Rightarrow> stored_page_snapshot_observation option
     \<Rightarrow> durable_page_reconciliation_error + unit" where
  "check_snapshot expected_lineage number snapshot =
     (case snapshot of
        None \<Rightarrow> Inr ()
      | Some s \<Rightarrow>
          and_then (ensure (po_page_number (snapshot_observation s) = number)
            (UnexpectedSnapshotPage number (po_page_number (snapshot_observation s)))) (\<lambda>_.
          ensure (same_lineage expected_lineage (lsn_lineage (so_position s)))
            (ForeignSnapshotLineage number (so_position s))))"

definition same_payload :: "page_recovery_observation \<Rightarrow> page_recovery_observation \<Rightarrow> bool" where
  "same_payload a b = (po_page_version a = po_page_version b
     \<and> image_bytes (po_image a) = image_bytes (po_image b))"

definition check_previous ::
  "page_number \<Rightarrow> durable_page_wal_observation option \<Rightarrow> durable_page_wal_observation
     \<Rightarrow> durable_page_reconciliation_error + unit" where
  "check_previous number previous w =
     (case previous of
        None \<Rightarrow> Inr ()
      | Some v \<Rightarrow>
          if lsn_value (wo_position w) = lsn_value (wo_position v)
          then Inl (if same_payload (wal_observation w) (wal_observation v)
                    then RepeatedWalPosition number (wo_position w)
                    else ContradictoryWalPosition number (wo_position w))
          else ensure (\<not> lsn_value (wo_position w) < lsn_value (wo_position v))
                 (NonAdvancingWalPosition number (wo_position v) (wo_position w)))"

text \<open>The comparison of one observation with the snapshot: whether it backs it.\<close>

definition check_backing ::
  "page_number \<Rightarrow> stored_page_snapshot_observation option \<Rightarrow> durable_page_wal_observation
     \<Rightarrow> durable_page_reconciliation_error + bool" where
  "check_backing number snapshot w =
     (case snapshot of
        None \<Rightarrow> Inr False
      | Some s \<Rightarrow>
          if lsn_value (wo_position w) = lsn_value (so_position s)
          then and_then (ensure (same_payload (wal_observation w) (snapshot_observation s))
                 (SnapshotPayloadContradiction number (so_position s))) (\<lambda>_. Inr True)
          else Inr False)"

fun reconcile_loop ::
  "log_lineage \<Rightarrow> page_number \<Rightarrow> stored_page_snapshot_observation option
     \<Rightarrow> durable_page_wal_observation option \<Rightarrow> u64 option \<Rightarrow> bool
     \<Rightarrow> durable_page_wal_observation list
     \<Rightarrow> durable_page_reconciliation_error + (u64 option \<times> bool)" where
  "reconcile_loop expected_lineage number snapshot previous latest backed [] = Inr (latest, backed)"
| "reconcile_loop expected_lineage number snapshot previous latest backed (w # ws) =
     and_then (ensure (po_page_number (wal_observation w) = number)
       (UnexpectedWalPage number (po_page_number (wal_observation w)) (wo_position w))) (\<lambda>_.
     and_then (ensure (same_lineage expected_lineage (lsn_lineage (wo_position w)))
       (ForeignWalLineage number (wo_position w))) (\<lambda>_.
     and_then (check_previous number previous w) (\<lambda>_.
     and_then (check_backing number snapshot w) (\<lambda>b.
     reconcile_loop expected_lineage number snapshot (Some w) (Some (lsn_value (wo_position w)))
       (backed \<or> b) ws))))"

definition reconcile_durable_page ::
  "log_lineage \<Rightarrow> page_number \<Rightarrow> stored_page_snapshot_observation option
     \<Rightarrow> durable_page_wal_observation list
     \<Rightarrow> durable_page_reconciliation_error + durable_page_reconciliation" where
  "reconcile_durable_page expected_lineage number snapshot ws =
     and_then (check_snapshot expected_lineage number snapshot) (\<lambda>_.
     and_then (reconcile_loop expected_lineage number snapshot None None False ws) (\<lambda>(latest, backed).
     case latest of
       None \<Rightarrow> (case snapshot of
                  Some s \<Rightarrow> Inl (SnapshotPositionUnbacked number (so_position s))
                | None \<Rightarrow> Inr NoDurableState)
     | Some l \<Rightarrow>
         let latest_durable_position = lineage_position expected_lineage l in
         case snapshot of
           None \<Rightarrow> Inr (StoreMissing latest_durable_position)
         | Some s \<Rightarrow>
             if \<not> backed then Inl (SnapshotPositionUnbacked number (so_position s))
             else if lsn_value (so_position s) = l then Inr (ExactCurrent latest_durable_position)
             else Inr (StoreBehind (so_position s) latest_durable_position)))"

section \<open>What a reconciliation establishes\<close>

text \<open>The observations are one page's durable images in strictly increasing log order.\<close>

definition ordered_observations ::
  "log_lineage \<Rightarrow> page_number \<Rightarrow> durable_page_wal_observation list \<Rightarrow> bool" where
  "ordered_observations l n ws =
     ((\<forall>w \<in> set ws. po_page_number (wal_observation w) = n \<and> lsn_lineage (wo_position w) = l)
      \<and> sorted_wrt (<) (map (\<lambda>w. lsn_value (wo_position w)) ws))"

definition backs ::
  "stored_page_snapshot_observation \<Rightarrow> durable_page_wal_observation \<Rightarrow> bool" where
  "backs s w = (lsn_value (wo_position w) = lsn_value (so_position s)
     \<and> same_payload (wal_observation w) (snapshot_observation s))"

definition contradicts ::
  "stored_page_snapshot_observation \<Rightarrow> durable_page_wal_observation \<Rightarrow> bool" where
  "contradicts s w = (lsn_value (wo_position w) = lsn_value (so_position s)
     \<and> \<not> same_payload (wal_observation w) (snapshot_observation s))"

lemma check_backing_Inr:
  "check_backing n snap w = Inr b \<longleftrightarrow>
     (\<forall>s. snap = Some s \<longrightarrow> \<not> contradicts s w) \<and> (b \<longleftrightarrow> (\<exists>s. snap = Some s \<and> backs s w))"
  by (cases snap) (auto simp: check_backing_def backs_def contradicts_def and_then_Inr_iff)

lemma check_previous_Inr:
  "check_previous n prev w = Inr u \<longleftrightarrow>
     (\<forall>v. prev = Some v \<longrightarrow> lsn_value (wo_position v) < lsn_value (wo_position w))"
  by (cases prev) (auto simp: check_previous_def)

lemma reconcile_loop_Inr:
  "reconcile_loop l n snap prev latest backed ws = Inr (latest', backed') \<longleftrightarrow>
     ordered_observations l n ws
     \<and> (\<forall>v. prev = Some v \<longrightarrow> (\<forall>w \<in> set ws. lsn_value (wo_position v) < lsn_value (wo_position w)))
     \<and> (\<forall>s. snap = Some s \<longrightarrow> (\<forall>w \<in> set ws. \<not> contradicts s w))
     \<and> latest' = (if ws = [] then latest else Some (lsn_value (wo_position (last ws))))
     \<and> backed' = (backed \<or> (\<exists>s. snap = Some s \<and> (\<exists>w \<in> set ws. backs s w)))"
proof (induction ws arbitrary: prev latest backed)
  case Nil
  then show ?case by (auto simp: ordered_observations_def)
next
  case (Cons w ws)
  show ?case
    by (auto simp: and_then_Inr_iff check_previous_Inr check_backing_Inr Cons.IH ordered_observations_def
        dest: less_trans)
qed

lemma ordered_backs_unique:
  assumes "ordered_observations l n ws" and "w \<in> set ws" and "backs s w" and "v \<in> set ws"
  shows "\<not> contradicts s v"
proof
  assume c: "contradicts s v"
  have "distinct (map (\<lambda>w. lsn_value (wo_position w)) ws)"
    using assms(1) by (simp add: ordered_observations_def strict_sorted_iff)
  moreover have "lsn_value (wo_position v) = lsn_value (wo_position w)"
    using c assms(3) by (simp add: backs_def contradicts_def)
  ultimately have "v = w" using assms(2,4) by (auto simp: distinct_map dest: inj_onD)
  with c assms(3) show False by (simp add: backs_def contradicts_def)
qed

end
