(* ===== verification/Memory_Log.thy ===== *)
theory Memory_Log
  imports Transaction Page_Reconcile
begin

text \<open>
  The in-memory commit log of \<open>ntsql-storage-memory\<close>: records, one-shot faults, the epoch and
  position allocators, restart and reopen, durable-commit lookup, flush and the three appends,
  and WAL-prefix reclamation. \<open>try_reserve\<close> asks the allocator, which is not code of the
  repository: \<open>reserve n\<close> says whether a vector of \<open>n\<close> elements can grow by one.
\<close>

section \<open>Faults and records\<close>

datatype fault_point =
    BeforeAppend
  | AfterAppend
  | BeforeFlush
  | AfterFlush
  | BeforeGenerationSwap
  | AfterGenerationSwap

fun show_fault_point :: "fault_point \<Rightarrow> string" where
  "show_fault_point BeforeAppend = ''before append''"
| "show_fault_point AfterAppend = ''after append''"
| "show_fault_point BeforeFlush = ''before flush''"
| "show_fault_point AfterFlush = ''after flush''"
| "show_fault_point BeforeGenerationSwap = ''before generation swap''"
| "show_fault_point AfterGenerationSwap = ''after generation swap''"

record memory_page_write_record =
  mp_page_number :: page_number
  mp_page_version :: image_version
  mp_bytes :: "u8 list"

definition page_record_from_unlogged :: "unlogged_page \<Rightarrow> memory_page_write_record" where
  "page_record_from_unlogged page = \<lparr>mp_page_number = pa_number (up_address page),
     mp_page_version = up_version page, mp_bytes = image_bytes (up_image page)\<rparr>"

record memory_transaction_page_write_record =
  mt_transaction_id :: transaction_token_id
  mt_page :: memory_page_write_record

definition transaction_page_from_record ::
  "transaction_page_write_record \<Rightarrow> memory_transaction_page_write_record" where
  "transaction_page_from_record r = \<lparr>mt_transaction_id = tw_transaction_id r,
     mt_page = page_record_from_unlogged (tw_page r)\<rparr>"

datatype memory_record_kind =
    MemTransactionCommit transaction_token_id
  | MemPageWrite memory_page_write_record
  | MemTransactionPageWrite memory_transaction_page_write_record

fun kind_transaction_id :: "memory_record_kind \<Rightarrow> transaction_token_id option" where
  "kind_transaction_id (MemTransactionCommit t) = Some t"
| "kind_transaction_id (MemPageWrite _) = None"
| "kind_transaction_id (MemTransactionPageWrite _) = None"

fun kind_page_write :: "memory_record_kind \<Rightarrow> memory_page_write_record option" where
  "kind_page_write (MemTransactionCommit _) = None"
| "kind_page_write (MemPageWrite r) = Some r"
| "kind_page_write (MemTransactionPageWrite r) = Some (mt_page r)"

fun kind_page_owner :: "memory_record_kind \<Rightarrow> transaction_token_id option" where
  "kind_page_owner (MemTransactionCommit _) = None"
| "kind_page_owner (MemPageWrite _) = None"
| "kind_page_owner (MemTransactionPageWrite r) = Some (mt_transaction_id r)"

record memory_log_record =
  mr_position :: log_sequence_number
  mr_kind :: memory_record_kind

datatype memory_log_error =
    LogInjectedFault fault_point
  | LogForeignPageLineage page_number
  | UnknownFlushPosition log_sequence_number
  | ForeignFlushPosition log_sequence_number
  | RecordCapacityExhausted
  | PositionSpaceExhausted

fun show_memory_log_error :: "memory_log_error \<Rightarrow> string" where
  "show_memory_log_error (LogInjectedFault point) =
     ''injected commit-log failure '' @ show_fault_point point"
| "show_memory_log_error (LogForeignPageLineage n) =
     ''commit-log page '' @ show_page_number n @ '' belongs to another lineage''"
| "show_memory_log_error (UnknownFlushPosition p) =
     ''commit-log position '' @ show_lsn p @ '' was not appended''"
| "show_memory_log_error (ForeignFlushPosition p) =
     ''commit-log position '' @ show_lsn p @ '' belongs to another lineage''"
| "show_memory_log_error RecordCapacityExhausted = ''commit-log record capacity is exhausted''"
| "show_memory_log_error PositionSpaceExhausted = ''commit-log position space is exhausted''"

record fault_already_armed =
  fa_armed :: fault_point
  fa_requested :: fault_point

section \<open>The log\<close>

record memory_log =
  ml_lineage :: log_lineage
  ml_records :: "memory_log_record list"
  ml_durable_len :: nat
  ml_next_epoch :: "u64 option"
  ml_next_position :: "u64 option"
  ml_armed_fault :: "fault_point option"
  ml_generation :: u64
  ml_selected_checkpoint_anchor :: "(u16 \<times> u128) option"
  ml_durable_logical_high_water :: "log_sequence_number option"

definition memory_log_with_lineage :: "log_lineage \<Rightarrow> memory_log" where
  "memory_log_with_lineage lineage =
     \<lparr>ml_lineage = lineage, ml_records = [], ml_durable_len = 0, ml_next_epoch = Some 1,
      ml_next_position = Some 1, ml_armed_fault = None, ml_generation = 0,
      ml_selected_checkpoint_anchor = None, ml_durable_logical_high_water = None\<rparr>"

definition memory_log_with_persistent_lineage_id :: "persistent_log_id \<Rightarrow> memory_log" where
  "memory_log_with_persistent_lineage_id p = memory_log_with_lineage (Persistent p)"

definition memory_log_arm_fault :: "fault_point \<Rightarrow> memory_log \<Rightarrow> (fault_already_armed + unit) \<times> memory_log" where
  "memory_log_arm_fault fault l =
     (case ml_armed_fault l of
        Some armed \<Rightarrow> (Inl \<lparr>fa_armed = armed, fa_requested = fault\<rparr>, l)
      | None \<Rightarrow> (Inr (), l\<lparr>ml_armed_fault := Some fault\<rparr>))"

definition memory_log_durable_records :: "memory_log \<Rightarrow> memory_log_record list" where
  "memory_log_durable_records l = take (ml_durable_len l) (ml_records l)"

definition memory_log_durable_position :: "memory_log \<Rightarrow> log_sequence_number option" where
  "memory_log_durable_position l =
     (if ml_durable_len l = 0 then None
      else if ml_durable_len l - 1 < length (ml_records l)
      then Some (mr_position (ml_records l ! (ml_durable_len l - 1))) else None)"

definition memory_log_restart :: "memory_log \<Rightarrow> memory_log" where
  "memory_log_restart l =
     l\<lparr>ml_records := take (ml_durable_len l) (ml_records l), ml_armed_fault := None\<rparr>"

datatype memory_log_reopen_error = EphemeralLineage

definition memory_log_reopen :: "memory_log \<Rightarrow> (memory_log_reopen_error + unit) \<times> memory_log" where
  "memory_log_reopen l =
     with_result (ok_or (persistent_id (ml_lineage l)) EphemeralLineage) l (\<lambda>p.
       let lineage = Persistent p in
       (Inr (), l\<lparr>
          ml_records := map (\<lambda>r. r\<lparr>mr_position := lineage_position lineage (lsn_value (mr_position r))\<rparr>)
            (take (ml_durable_len l) (ml_records l)),
          ml_durable_logical_high_water := map_option
            (\<lambda>h. lineage_position lineage (lsn_value h)) (ml_durable_logical_high_water l),
          ml_lineage := lineage,
          ml_armed_fault := None\<rparr>))"

text \<open>\<open>consume_fault\<close>: whether the fault was armed, and the log without it.\<close>

definition consume_fault :: "fault_point \<Rightarrow> memory_log \<Rightarrow> bool \<times> memory_log" where
  "consume_fault point l =
     (if ml_armed_fault l = Some point then (True, l\<lparr>ml_armed_fault := None\<rparr>) else (False, l))"

definition memory_log_append_record ::
  "(nat \<Rightarrow> bool) \<Rightarrow> memory_record_kind \<Rightarrow> memory_log
     \<Rightarrow> (memory_log_error + log_sequence_number) \<times> memory_log" where
  "memory_log_append_record reserve kind l =
     with_result (ok_or (ml_next_position l) PositionSpaceExhausted) l (\<lambda>position_value.
       let (fired, l1) = consume_fault BeforeAppend l in
       if fired then (Inl (LogInjectedFault BeforeAppend), l1)
       else if \<not> reserve (length (ml_records l1)) then (Inl RecordCapacityExhausted, l1)
       else
         let position = lineage_position (ml_lineage l1) position_value;
             l2 = l1\<lparr>ml_records := ml_records l1 @ [\<lparr>mr_position = position, mr_kind = kind\<rparr>],
                     ml_next_position := checked_add position_value 1\<rparr>;
             (fired, l3) = consume_fault AfterAppend l2
         in if fired then (Inl (LogInjectedFault AfterAppend), l3) else (Inr position, l3))"

section \<open>Epoch sources and commit lookup\<close>

datatype memory_epoch_error = EpochSpaceExhausted

definition memory_allocate_epoch ::
  "memory_log \<Rightarrow> (memory_epoch_error + u64 \<times> log_lineage) \<times> memory_log" where
  "memory_allocate_epoch l =
     with_result (ok_or (ml_next_epoch l) EpochSpaceExhausted) l (\<lambda>epoch.
       (Inr (epoch, ml_lineage l),
        l\<lparr>ml_next_epoch := Option.bind (checked_add epoch 1) non_zero_u64\<rparr>))"

definition memory_allocate_restart_epoch ::
  "u64 option \<Rightarrow> memory_log
     \<Rightarrow> (memory_epoch_error restart_epoch_allocation_error + u64 \<times> log_lineage) \<times> memory_log" where
  "memory_allocate_restart_epoch persisted l =
     (case ml_next_epoch l of
        None \<Rightarrow> (Inl (RestartIdentitySpaceExhausted persisted), l)
      | Some epoch \<Rightarrow>
          (case persisted of
             Some high_water \<Rightarrow>
               if epoch \<le> high_water
               then (Inl (PersistedEpochHighWaterNotAdvanced high_water epoch), l)
               else (Inr (epoch, ml_lineage l),
                     l\<lparr>ml_next_epoch := Option.bind (checked_add epoch 1) non_zero_u64\<rparr>)
           | None \<Rightarrow> (Inr (epoch, ml_lineage l),
                     l\<lparr>ml_next_epoch := Option.bind (checked_add epoch 1) non_zero_u64\<rparr>)))"

datatype memory_recovery_error =
    VolatileCommitRecord transaction_token_id
  | DuplicateCommitRecord transaction_token_id

fun show_memory_recovery_error :: "memory_recovery_error \<Rightarrow> string" where
  "show_memory_recovery_error (VolatileCommitRecord t) =
     ''transaction '' @ show_transaction_token_id t @ '' has a volatile commit record''"
| "show_memory_recovery_error (DuplicateCommitRecord t) =
     ''transaction '' @ show_transaction_token_id t @ '' has duplicate commit records''"

text \<open>The scan: index of the record under inspection, and the match so far.\<close>

fun lookup_scan ::
  "transaction_token_id \<Rightarrow> nat \<Rightarrow> nat \<Rightarrow> (log_sequence_number \<times> bool) option \<Rightarrow> memory_log_record list
     \<Rightarrow> memory_recovery_error + (log_sequence_number \<times> bool) option" where
  "lookup_scan t durable_len index matching [] = Inr matching"
| "lookup_scan t durable_len index matching (r # rs) =
     (if kind_transaction_id (mr_kind r) \<noteq> Some t
      then lookup_scan t durable_len (Suc index) matching rs
      else if matching \<noteq> None then Inl (DuplicateCommitRecord t)
      else lookup_scan t durable_len (Suc index) (Some (mr_position r, index < durable_len)) rs)"

definition memory_lookup_durable_commit ::
  "transaction_token_id \<Rightarrow> memory_log
     \<Rightarrow> (memory_recovery_error + log_lineage \<times> durable_commit_lookup) \<times> memory_log" where
  "memory_lookup_durable_commit t l =
     with_result (lookup_scan t (ml_durable_len l) 0 None (ml_records l)) l (\<lambda>matching.
       (case matching of
          Some (position, True) \<Rightarrow> (Inr (ml_lineage l, LookupFound position), l)
        | None \<Rightarrow> (Inr (ml_lineage l, LookupAbsent), l)
        | Some (_, False) \<Rightarrow> (Inl (VolatileCommitRecord t), l)))"

section \<open>Flush and appends\<close>

fun record_index :: "log_sequence_number \<Rightarrow> memory_log_record list \<Rightarrow> nat option" where
  "record_index p [] = None"
| "record_index p (r # rs) =
     (if lsn_eq (mr_position r) p then Some 0 else map_option Suc (record_index p rs))"

definition memory_flush_through ::
  "log_sequence_number \<Rightarrow> memory_log \<Rightarrow> (memory_log_error + unit) \<times> memory_log" where
  "memory_flush_through position l =
     (if \<not> same_lineage (ml_lineage l) (lsn_lineage position) then (Inl (ForeignFlushPosition position), l)
      else with_result (ok_or (record_index position (ml_records l)) (UnknownFlushPosition position)) l
        (\<lambda>index.
          let requested = index + 1 in
          if requested \<le> ml_durable_len l then (Inr (), l)
          else
            let (fired, l1) = consume_fault BeforeFlush l in
            if fired then (Inl (LogInjectedFault BeforeFlush), l1)
            else
              let l2 = l1\<lparr>ml_durable_len := requested,
                         ml_durable_logical_high_water := Some (mr_position (ml_records l1 ! index))\<rparr>;
                  (fired, l3) = consume_fault AfterFlush l2
              in if fired then (Inl (LogInjectedFault AfterFlush), l3) else (Inr (), l3)))"

definition memory_append_commit ::
  "(nat \<Rightarrow> bool) \<Rightarrow> transaction_commit_record \<Rightarrow> memory_log
     \<Rightarrow> (memory_log_error + log_sequence_number) \<times> memory_log" where
  "memory_append_commit reserve r l =
     memory_log_append_record reserve (MemTransactionCommit (commit_record_id r)) l"

definition memory_append_page ::
  "(nat \<Rightarrow> bool) \<Rightarrow> unlogged_page \<Rightarrow> memory_log
     \<Rightarrow> (memory_log_error + log_sequence_number) \<times> memory_log" where
  "memory_append_page reserve page l =
     (if \<not> same_lineage (ml_lineage l) (pa_lineage (up_address page))
      then (Inl (LogForeignPageLineage (pa_number (up_address page))), l)
      else memory_log_append_record reserve (MemPageWrite (page_record_from_unlogged page)) l)"

definition memory_append_transaction_page ::
  "(nat \<Rightarrow> bool) \<Rightarrow> transaction_page_write_record \<Rightarrow> memory_log
     \<Rightarrow> (memory_log_error + log_sequence_number) \<times> memory_log" where
  "memory_append_transaction_page reserve r l =
     (if \<not> same_lineage (ml_lineage l) (pa_lineage (up_address (tw_page r)))
      then (Inl (LogForeignPageLineage (pa_number (up_address (tw_page r)))), l)
      else memory_log_append_record reserve
             (MemTransactionPageWrite (transaction_page_from_record r)) l)"

text \<open>The trait implementations of \<open>InMemoryCommitLog\<close>.\<close>

definition memory_epoch_source :: "(memory_log, memory_epoch_error) transaction_epoch_source" where
  "memory_epoch_source = \<lparr>port_allocate_epoch = memory_allocate_epoch\<rparr>"

definition memory_recovery_source ::
  "(memory_log, memory_recovery_error) transaction_recovery_source" where
  "memory_recovery_source = \<lparr>port_lookup_durable_commit = memory_lookup_durable_commit\<rparr>"

definition memory_page_log :: "(nat \<Rightarrow> bool) \<Rightarrow> (memory_log, memory_log_error) page_log" where
  "memory_page_log reserve =
     \<lparr>port_lineage = ml_lineage, port_flush_through = memory_flush_through,
      port_append_page = memory_append_page reserve\<rparr>"

definition memory_transaction_log ::
  "(nat \<Rightarrow> bool) \<Rightarrow> (memory_log, memory_log_error) transaction_page_log" where
  "memory_transaction_log reserve =
     \<lparr>port_lineage = ml_lineage, port_flush_through = memory_flush_through,
      port_append_commit = memory_append_commit reserve,
      port_append_transaction_page = memory_append_transaction_page reserve\<rparr>"

end
