(* ===== verification/Memory_Reclaim.thy ===== *)
theory Memory_Reclaim
  imports Memory_Log
begin

text \<open>
  WAL-prefix reclamation of the in-memory log: the observations and the permit it exchanges with
  \<open>ntsql-transaction\<close>, and the generation swap with its two fault boundaries.
\<close>

record selected_checkpoint_anchor =
  sa_version :: u16
  sa_value :: u128

record reclamation_source_observation =
  rso_lineage :: log_lineage
  rso_physical_format_version :: u16
  rso_source_generation :: u64
  rso_retained_first :: "log_sequence_number option"
  rso_logical_position_high_water :: "log_sequence_number option"
  rso_allocated_epoch_high_water :: u64
  rso_selected_checkpoint_anchor :: "selected_checkpoint_anchor option"

definition reclamation_source_observation_new ::
  "log_lineage \<Rightarrow> u16 \<Rightarrow> u64 \<Rightarrow> log_sequence_number option \<Rightarrow> log_sequence_number option \<Rightarrow> u64
     \<Rightarrow> (u16 \<times> u128) option \<Rightarrow> reclamation_source_observation" where
  "reclamation_source_observation_new lineage version generation first high_water epoch anchor =
     \<lparr>rso_lineage = lineage, rso_physical_format_version = version, rso_source_generation = generation,
      rso_retained_first = first, rso_logical_position_high_water = high_water,
      rso_allocated_epoch_high_water = epoch,
      rso_selected_checkpoint_anchor =
        (case anchor of Some (v, x) \<Rightarrow> Some \<lparr>sa_version = v, sa_value = x\<rparr> | None \<Rightarrow> None)\<rparr>"

record reclamation_replacement_observation =
  rro_old_generation :: u64
  rro_new_generation :: u64
  rro_physical_format_version :: u16

record reclamation_effect_observation =
  reo_replacement :: reclamation_replacement_observation
  reo_retained_first :: "log_sequence_number option"
  reo_logical_position_high_water :: "log_sequence_number option"
  reo_retained_logical_record_count :: u64
  reo_retained_physical_unit_count :: u64
  reo_allocated_epoch_high_water :: u64

record reclamation_permit =
  rp_persistent_log_id :: persistent_log_id
  rp_lineage :: log_lineage
  rp_durable_frontier :: "log_sequence_number option"
  rp_retained_first :: "log_sequence_number option"
  rp_allocated_epoch_high_water :: u64
  rp_physical_format_version :: u16
  rp_source_generation :: u64
  rp_selected_checkpoint_anchor :: selected_checkpoint_anchor

definition in_memory_wal_physical_format_version :: u16 where
  "in_memory_wal_physical_format_version = 4"

record memory_reclamation_fault_observation =
  mf_fault_point :: fault_point
  mf_source_generation :: u64
  mf_retained_first :: "u64 option"
  mf_logical_high_water :: "u64 option"
  mf_allocated_epoch_high_water :: u64
  mf_durable_record_count :: nat
  mf_selected_checkpoint_anchor :: "(u16 \<times> u128) option"

datatype memory_reclamation_error =
    NoAllocatedEpoch
  | PermitMismatch
  | VolatileLogicalSuffix nat nat
  | RetainedBoundaryMissing u64
  | ReclaimGenerationExhausted
  | ReclaimInjectedFault memory_reclamation_fault_observation

fun show_memory_reclamation_error :: "memory_reclamation_error \<Rightarrow> string" where
  "show_memory_reclamation_error NoAllocatedEpoch =
     ''no in-memory transaction epoch has been allocated''"
| "show_memory_reclamation_error PermitMismatch =
     ''WAL reclamation permit does not match the in-memory source state''"
| "show_memory_reclamation_error (VolatileLogicalSuffix durable_count total_count) =
     ''in-memory WAL has '' @ dec_nat total_count @ '' total records but only '' @ dec_nat durable_count
       @ '' are durable; volatile suffix must be resolved first''"
| "show_memory_reclamation_error (RetainedBoundaryMissing position) =
     ''retained floor position '' @ dec position @ '' is not an existing durable record''"
| "show_memory_reclamation_error ReclaimGenerationExhausted =
     ''in-memory WAL generation counter is exhausted''"
| "show_memory_reclamation_error (ReclaimInjectedFault observation) =
     ''injected WAL reclamation fault at: '' @ show_fault_point (mf_fault_point observation)"

text \<open>The greatest allocated epoch: one below the next one, all of them when none is left.\<close>

definition allocated_epoch_high_water :: "memory_log \<Rightarrow> u64 option" where
  "allocated_epoch_high_water l =
     (case ml_next_epoch l of
        Some next_epoch \<Rightarrow> non_zero_u64 (if next_epoch = 0 then 0 else next_epoch - 1)
      | None \<Rightarrow> Some (- 1))"

definition first_record_position :: "memory_log_record list \<Rightarrow> log_sequence_number option" where
  "first_record_position rs = (case rs of [] \<Rightarrow> None | r # _ \<Rightarrow> Some (mr_position r))"

definition memory_observe_reclamation_source ::
  "memory_log \<Rightarrow> (memory_reclamation_error + reclamation_source_observation) \<times> memory_log" where
  "memory_observe_reclamation_source l =
     with_result (ok_or (allocated_epoch_high_water l) NoAllocatedEpoch) l (\<lambda>high_water.
       (Inr (reclamation_source_observation_new (ml_lineage l) in_memory_wal_physical_format_version
          (ml_generation l) (first_record_position (memory_log_durable_records l))
          (ml_durable_logical_high_water l) high_water (ml_selected_checkpoint_anchor l)), l))"

definition reclamation_fault_observation ::
  "fault_point \<Rightarrow> u64 \<Rightarrow> memory_log \<Rightarrow> memory_reclamation_fault_observation" where
  "reclamation_fault_observation point epoch l =
     \<lparr>mf_fault_point = point, mf_source_generation = ml_generation l,
      mf_retained_first = map_option lsn_value (first_record_position (memory_log_durable_records l)),
      mf_logical_high_water = map_option lsn_value (ml_durable_logical_high_water l),
      mf_allocated_epoch_high_water = epoch, mf_durable_record_count = ml_durable_len l,
      mf_selected_checkpoint_anchor = ml_selected_checkpoint_anchor l\<rparr>"

definition anchor_matches :: "reclamation_permit \<Rightarrow> memory_log \<Rightarrow> bool" where
  "anchor_matches permit l =
     (case ml_selected_checkpoint_anchor l of
        Some (version, x) \<Rightarrow> version = sa_version (rp_selected_checkpoint_anchor permit)
          \<and> x = sa_value (rp_selected_checkpoint_anchor permit)
      | None \<Rightarrow> ml_generation l = 0)"

definition permit_matches :: "reclamation_permit \<Rightarrow> u64 \<Rightarrow> memory_log \<Rightarrow> bool" where
  "permit_matches permit epoch l =
     (\<not> ((case persistent_id (ml_lineage l) of
            None \<Rightarrow> True | Some p \<Rightarrow> p \<noteq> rp_persistent_log_id permit)
        \<or> \<not> same_lineage (rp_lineage permit) (ml_lineage l)
        \<or> rp_physical_format_version permit \<noteq> in_memory_wal_physical_format_version
        \<or> rp_source_generation permit \<noteq> ml_generation l
        \<or> rp_durable_frontier permit \<noteq> ml_durable_logical_high_water l
        \<or> rp_allocated_epoch_high_water permit \<noteq> epoch
        \<or> \<not> anchor_matches permit l))"

definition retained_start ::
  "reclamation_permit \<Rightarrow> memory_log \<Rightarrow> memory_reclamation_error + nat" where
  "retained_start permit l =
     (case rp_retained_first permit of
        Some floor \<Rightarrow> ok_or (record_index floor (take (ml_durable_len l) (ml_records l)))
                        (RetainedBoundaryMissing (lsn_value floor))
      | None \<Rightarrow> Inr (ml_durable_len l))"

text \<open>The mutation: drain the prefix, install the generation and the permit's anchor.\<close>

definition generation_swap :: "reclamation_permit \<Rightarrow> nat \<Rightarrow> u64 \<Rightarrow> memory_log \<Rightarrow> memory_log" where
  "generation_swap permit start new_generation l = l\<lparr>
     ml_records := drop start (ml_records l),
     ml_durable_len := ml_durable_len l - start,
     ml_generation := new_generation,
     ml_selected_checkpoint_anchor := Some (sa_version (rp_selected_checkpoint_anchor permit),
       sa_value (rp_selected_checkpoint_anchor permit))\<rparr>"

definition memory_reclaim_wal_prefix ::
  "reclamation_permit \<Rightarrow> memory_log
     \<Rightarrow> (memory_reclamation_error + reclamation_effect_observation) \<times> memory_log" where
  "memory_reclaim_wal_prefix permit l =
     with_result (ok_or (allocated_epoch_high_water l) NoAllocatedEpoch) l (\<lambda>epoch.
     let current_high_water = ml_durable_logical_high_water l in
     with_result (ensure (permit_matches permit epoch l) PermitMismatch) l (\<lambda>_.
     with_result (ensure (length (ml_records l) = ml_durable_len l)
       (VolatileLogicalSuffix (ml_durable_len l) (length (ml_records l)))) l (\<lambda>_.
     with_result (retained_start permit l) l (\<lambda>start.
     with_result (ok_or (checked_add (ml_generation l) 1) ReclaimGenerationExhausted) l
       (\<lambda>new_generation.
     let (fired, l1) = consume_fault BeforeGenerationSwap l in
     if fired
     then (Inl (ReclaimInjectedFault (reclamation_fault_observation BeforeGenerationSwap epoch l1)), l1)
     else
       let (fired, l2) = consume_fault AfterGenerationSwap (generation_swap permit start new_generation l1) in
       if fired
       then (Inl (ReclaimInjectedFault (reclamation_fault_observation AfterGenerationSwap epoch l2)), l2)
       else (Inr
         \<lparr>reo_replacement = \<lparr>rro_old_generation = ml_generation l, rro_new_generation = new_generation,
            rro_physical_format_version = in_memory_wal_physical_format_version\<rparr>,
          reo_retained_first = first_record_position (memory_log_durable_records l2),
          reo_logical_position_high_water = current_high_water,
          reo_retained_logical_record_count = of_nat (ml_durable_len l2),
          reo_retained_physical_unit_count = of_nat (ml_durable_len l2),
          reo_allocated_epoch_high_water = epoch\<rparr>, l2))))))"

end
