(* ===== verification/Memory_Page_Store.thy ===== *)
theory Memory_Page_Store
  imports Memory_Log
begin

text \<open>
  The in-memory page store of \<open>ntsql-storage-memory\<close>: one durable snapshot per page, written only
  with the permit of the matching durable position, with one-shot faults before and after the
  mutation.
\<close>

datatype page_store_fault_point = BeforeWrite | AfterStoreWrite

fun show_page_store_fault_point :: "page_store_fault_point \<Rightarrow> string" where
  "show_page_store_fault_point BeforeWrite = ''before write''"
| "show_page_store_fault_point AfterStoreWrite = ''after write''"

record page_store_fault_already_armed =
  sf_armed :: page_store_fault_point
  sf_requested :: page_store_fault_point

record memory_stored_page =
  ms_page_number :: page_number
  ms_page_version :: image_version
  ms_bytes :: "u8 list"
  ms_required_position :: log_sequence_number

definition stored_page_from_dirty :: "dirty_page \<Rightarrow> memory_stored_page" where
  "stored_page_from_dirty d = \<lparr>ms_page_number = pa_number (dp_address d), ms_page_version = dp_version d,
     ms_bytes = image_bytes (dp_image d), ms_required_position = dp_required_position d\<rparr>"

definition stored_page_recovery_observation ::
  "memory_stored_page \<Rightarrow> page_recovery_observation_bytes_error + stored_page_snapshot_observation" where
  "stored_page_recovery_observation s =
     stored_page_snapshot_observation_from_bytes (ms_page_number s) (ms_page_version s) (ms_bytes s)
       (ms_required_position s)"

datatype memory_page_store_error =
    StoreInjectedFault page_store_fault_point
  | StoreForeignPageLineage page_number
  | ForeignPermitPosition log_sequence_number
  | PermitPositionMismatch log_sequence_number log_sequence_number
  | PageCapacityExhausted

fun show_memory_page_store_error :: "memory_page_store_error \<Rightarrow> string" where
  "show_memory_page_store_error (StoreInjectedFault point) =
     ''injected page-store failure '' @ show_page_store_fault_point point"
| "show_memory_page_store_error (StoreForeignPageLineage n) =
     ''page-store page '' @ show_page_number n @ '' belongs to another lineage''"
| "show_memory_page_store_error (ForeignPermitPosition p) =
     ''page-store permit position '' @ show_lsn p @ '' belongs to another lineage''"
| "show_memory_page_store_error (PermitPositionMismatch expected actual) =
     ''page-store permit position '' @ show_lsn actual @ '' does not match required position ''
       @ show_lsn expected"
| "show_memory_page_store_error PageCapacityExhausted = ''page-store page capacity is exhausted''"

record memory_page_store =
  mst_lineage :: log_lineage
  mst_pages :: "memory_stored_page list"
  mst_armed_fault :: "page_store_fault_point option"

definition memory_page_store_with_lineage :: "log_lineage \<Rightarrow> memory_page_store" where
  "memory_page_store_with_lineage l = \<lparr>mst_lineage = l, mst_pages = [], mst_armed_fault = None\<rparr>"

definition memory_page_store_new :: "memory_log \<Rightarrow> memory_page_store" where
  "memory_page_store_new l = memory_page_store_with_lineage (ml_lineage l)"

definition memory_page_store_arm_fault ::
  "page_store_fault_point \<Rightarrow> memory_page_store \<Rightarrow> (page_store_fault_already_armed + unit) \<times> memory_page_store"
  where
  "memory_page_store_arm_fault fault s =
     (case mst_armed_fault s of
        Some armed \<Rightarrow> (Inl \<lparr>sf_armed = armed, sf_requested = fault\<rparr>, s)
      | None \<Rightarrow> (Inr (), s\<lparr>mst_armed_fault := Some fault\<rparr>))"

definition memory_page_store_page :: "page_number \<Rightarrow> memory_page_store \<Rightarrow> memory_stored_page option" where
  "memory_page_store_page n s = find (\<lambda>p. ms_page_number p = n) (mst_pages s)"

fun page_index :: "page_number \<Rightarrow> memory_stored_page list \<Rightarrow> nat option" where
  "page_index n [] = None"
| "page_index n (p # ps) = (if ms_page_number p = n then Some 0 else map_option Suc (page_index n ps))"

definition consume_store_fault ::
  "page_store_fault_point \<Rightarrow> memory_page_store \<Rightarrow> bool \<times> memory_page_store" where
  "consume_store_fault point s =
     (if mst_armed_fault s = Some point then (True, s\<lparr>mst_armed_fault := None\<rparr>) else (False, s))"

definition memory_write_page ::
  "(nat \<Rightarrow> bool) \<Rightarrow> dirty_page \<Rightarrow> page_write_permit \<Rightarrow> memory_page_store
     \<Rightarrow> (memory_page_store_error + unit) \<times> memory_page_store" where
  "memory_write_page reserve d permit s =
     with_result (ensure (same_lineage (mst_lineage s) (pa_lineage (dp_address d)))
       (StoreForeignPageLineage (pa_number (dp_address d)))) s (\<lambda>_.
     with_result (ensure (same_lineage (mst_lineage s) (lsn_lineage (durable_position permit)))
       (ForeignPermitPosition (durable_position permit))) s (\<lambda>_.
     with_result (ensure (lsn_eq (durable_position permit) (dp_required_position d))
       (PermitPositionMismatch (dp_required_position d) (durable_position permit))) s (\<lambda>_.
     let (fired, s1) = consume_store_fault BeforeWrite s in
     if fired then (Inl (StoreInjectedFault BeforeWrite), s1)
     else
       let snapshot = stored_page_from_dirty d in
       with_result
         (case page_index (ms_page_number snapshot) (mst_pages s1) of
            Some index \<Rightarrow> Inr ((mst_pages s1)[index := snapshot])
          | None \<Rightarrow> and_then (ensure (reserve (length (mst_pages s1))) PageCapacityExhausted)
                      (\<lambda>_. Inr (mst_pages s1 @ [snapshot]))) s1 (\<lambda>pages.
       let (fired, s2) = consume_store_fault AfterStoreWrite (s1\<lparr>mst_pages := pages\<rparr>) in
       if fired then (Inl (StoreInjectedFault AfterStoreWrite), s2) else (Inr (), s2)))))"

definition memory_store_port ::
  "(nat \<Rightarrow> bool) \<Rightarrow> (memory_page_store, memory_page_store_error) page_store_port" where
  "memory_store_port reserve = \<lparr>store_lineage = mst_lineage, store_write_page = memory_write_page reserve\<rparr>"

definition memory_observe_page ::
  "page_number \<Rightarrow> memory_page_store
     \<Rightarrow> page_recovery_observation_bytes_error + stored_page_snapshot_observation option" where
  "memory_observe_page n s =
     (case memory_page_store_page n s of
        None \<Rightarrow> Inr None
      | Some p \<Rightarrow> map_sum (\<lambda>e. e) Some (stored_page_recovery_observation p))"

end
