(* ===== verification/Memory_Laws.thy ===== *)
theory Memory_Laws
  imports Memory_Reclaim Memory_Page_Store
begin

text \<open>
  The laws of the in-memory adapters: the invariant of the log, what each of its operations does
  to the records and the durable prefix, and the interpretation of the port contracts of theories
  \<open>Wal\<close> and \<open>Page\<close> on the adapters.
\<close>

section \<open>The log invariant\<close>

lemma mr_collapse [simp]: "\<lparr>mr_position = mr_position r, mr_kind = mr_kind r\<rparr> = r"
  by (cases r) simp

lemma ml_same_fault: "ml_armed_fault l = f \<Longrightarrow> l\<lparr>ml_armed_fault := f\<rparr> = l"
  by (cases l) simp

abbreviation mr_value :: "memory_log_record \<Rightarrow> u64" where
  "mr_value r \<equiv> lsn_value (mr_position r)"

text \<open>
  Positions are non-zero, carry the log's lineage, increase strictly and stay below the allocator;
  the durable prefix lies within the records and its last position is the durable high-water.
\<close>

definition memory_log_inv :: "memory_log \<Rightarrow> bool" where
  "memory_log_inv l =
     (ml_durable_len l \<le> length (ml_records l)
      \<and> (\<forall>r \<in> set (ml_records l). lsn_lineage (mr_position r) = ml_lineage l \<and> 0 < mr_value r)
      \<and> sorted_wrt (<) (map mr_value (ml_records l))
      \<and> (\<forall>n. ml_next_position l = Some n \<longrightarrow> 0 < n \<and> (\<forall>r \<in> set (ml_records l). mr_value r < n))
      \<and> (0 < ml_durable_len l \<longrightarrow>
           ml_durable_logical_high_water l = Some (mr_position (ml_records l ! (ml_durable_len l - 1))))
      \<and> (\<forall>h. ml_durable_logical_high_water l = Some h \<longrightarrow> lsn_lineage h = ml_lineage l)
      \<and> (\<forall>e. ml_next_epoch l = Some e \<longrightarrow> 0 < e))"

lemma memory_log_invD:
  assumes "memory_log_inv l"
  shows "ml_durable_len l \<le> length (ml_records l)"
    and "r \<in> set (ml_records l) \<Longrightarrow> lsn_lineage (mr_position r) = ml_lineage l"
    and "r \<in> set (ml_records l) \<Longrightarrow> 0 < mr_value r"
    and "sorted_wrt (<) (map mr_value (ml_records l))"
    and "ml_next_position l = Some n \<Longrightarrow> r \<in> set (ml_records l) \<Longrightarrow> mr_value r < n"
    and "ml_next_position l = Some n \<Longrightarrow> 0 < n"
  using assms by (auto simp: memory_log_inv_def)

definition memory_entry :: "memory_log \<Rightarrow> log_sequence_number \<Rightarrow> memory_record_kind option" where
  "memory_entry l = map_of (map (\<lambda>r. (mr_position r, mr_kind r)) (ml_records l))"

definition memory_durable :: "memory_log \<Rightarrow> log_sequence_number \<Rightarrow> bool" where
  "memory_durable l p = (p \<in> mr_position ` set (memory_log_durable_records l))"

lemma memory_records_distinct:
  assumes "memory_log_inv l"
  shows "distinct (map mr_position (ml_records l))"
proof -
  have "distinct (map mr_value (ml_records l))"
    using memory_log_invD(4) [OF assms] by (simp add: strict_sorted_iff)
  then have "distinct (map lsn_value (map mr_position (ml_records l)))" by (simp add: comp_def)
  then show ?thesis by (rule distinct_map [THEN iffD1, THEN conjunct1])
qed

lemma memory_entry_iff:
  assumes "memory_log_inv l"
  shows "memory_entry l p = Some k \<longleftrightarrow> \<lparr>mr_position = p, mr_kind = k\<rparr> \<in> set (ml_records l)"
proof -
  have "distinct (map fst (map (\<lambda>r. (mr_position r, mr_kind r)) (ml_records l)))"
    using memory_records_distinct [OF assms] by (simp add: comp_def)
  then have "memory_entry l p = Some k \<longleftrightarrow> (p, k) \<in> set (map (\<lambda>r. (mr_position r, mr_kind r)) (ml_records l))"
    unfolding memory_entry_def by (rule map_of_eq_Some_iff)
  also have "\<dots> \<longleftrightarrow> \<lparr>mr_position = p, mr_kind = k\<rparr> \<in> set (ml_records l)"
    by (auto intro: image_eqI [rotated])
  finally show ?thesis .
qed

lemma memory_entry_None: "memory_entry l p = None \<longleftrightarrow> p \<notin> mr_position ` set (ml_records l)"
  by (force simp: memory_entry_def map_of_eq_None_iff)

lemma durable_record_in: "r \<in> set (memory_log_durable_records l) \<Longrightarrow> r \<in> set (ml_records l)"
  by (auto simp: memory_log_durable_records_def dest: in_set_takeD)

section \<open>Appends\<close>

text \<open>The parts of the log no append changes.\<close>

definition same_durable_part :: "memory_log \<Rightarrow> memory_log \<Rightarrow> bool" where
  "same_durable_part l l' = (ml_lineage l' = ml_lineage l \<and> ml_durable_len l' = ml_durable_len l
     \<and> ml_next_epoch l' = ml_next_epoch l \<and> ml_generation l' = ml_generation l
     \<and> ml_selected_checkpoint_anchor l' = ml_selected_checkpoint_anchor l
     \<and> ml_durable_logical_high_water l' = ml_durable_logical_high_water l)"

lemma append_record_cases:
  assumes "memory_log_append_record reserve k l = (res, l')"
  obtains (unchanged) e where "res = Inl e" and "same_durable_part l l'"
      and "ml_records l' = ml_records l" and "ml_next_position l' = ml_next_position l"
  | (appended) n where "same_durable_part l l'" and "ml_next_position l = Some n"
      and "ml_records l' = ml_records l @ [\<lparr>mr_position = lineage_position (ml_lineage l) n, mr_kind = k\<rparr>]"
      and "ml_next_position l' = checked_add n 1"
      and "res = Inr (lineage_position (ml_lineage l) n) \<or> res = Inl (LogInjectedFault AfterAppend)"
proof (cases "ml_next_position l")
  case None
  with assms have "res = Inl PositionSpaceExhausted" "l' = l"
    by (simp_all add: memory_log_append_record_def)
  then show ?thesis by (intro unchanged) (simp_all add: same_durable_part_def)
next
  case (Some n)
  show ?thesis
  proof (cases "ml_armed_fault l = Some BeforeAppend \<or> \<not> reserve (length (ml_records l))")
    case True
    with assms Some obtain e where "res = Inl e" "same_durable_part l l'"
      "ml_records l' = ml_records l" "ml_next_position l' = ml_next_position l"
      by (auto simp: memory_log_append_record_def consume_fault_def same_durable_part_def split: if_splits)
    then show ?thesis by (rule unchanged)
  next
    case False
    with assms Some have "same_durable_part l l'"
      "ml_records l' = ml_records l @ [\<lparr>mr_position = lineage_position (ml_lineage l) n, mr_kind = k\<rparr>]"
      "ml_next_position l' = checked_add n 1"
      "res = Inr (lineage_position (ml_lineage l) n) \<or> res = Inl (LogInjectedFault AfterAppend)"
      by (auto simp: memory_log_append_record_def consume_fault_def same_durable_part_def Let_def
          split: if_splits)
    with Some show ?thesis by (intro appended) simp_all
  qed
qed

lemma memory_append_inv:
  assumes "memory_log_inv l" and "memory_log_append_record reserve k l = (res, l')"
  shows "memory_log_inv l'"
  using assms(2)
proof (cases rule: append_record_cases)
  case (unchanged e)
  with assms(1) show ?thesis by (simp add: memory_log_inv_def same_durable_part_def)
next
  case (appended n)
  have pos: "0 < n" and below: "\<forall>r \<in> set (ml_records l). mr_value r < n"
    using assms(1) appended(2) by (auto simp: memory_log_inv_def)
  have next': "n < m" if "ml_next_position l' = Some m" for m
    using that appended(4) by (simp add: checked_add_one_less)
  have "\<forall>m. ml_next_position l' = Some m \<longrightarrow> 0 < m \<and> (\<forall>r \<in> set (ml_records l'). mr_value r < m)"
    using next' below pos by (auto simp: appended(3) dest: less_trans)
  moreover have "sorted_wrt (<) (map mr_value (ml_records l'))"
    using memory_log_invD(4) [OF assms(1)] below by (simp add: appended(3) sorted_wrt_append)
  moreover have "\<forall>r \<in> set (ml_records l'). lsn_lineage (mr_position r) = ml_lineage l' \<and> 0 < mr_value r"
    using assms(1) appended(1,3) pos by (simp add: memory_log_inv_def same_durable_part_def)
  moreover have "ml_durable_len l' \<le> length (ml_records l')"
    using assms(1) appended(1,3) by (simp add: memory_log_inv_def same_durable_part_def)
  moreover have "0 < ml_durable_len l' \<longrightarrow>
      ml_durable_logical_high_water l' = Some (mr_position (ml_records l' ! (ml_durable_len l' - 1)))"
    using assms(1) appended(1,3) by (auto simp: memory_log_inv_def same_durable_part_def nth_append)
  moreover have "\<forall>h. ml_durable_logical_high_water l' = Some h \<longrightarrow> lsn_lineage h = ml_lineage l'"
    using assms(1) appended(1) by (simp add: memory_log_inv_def same_durable_part_def)
  moreover have "\<forall>e. ml_next_epoch l' = Some e \<longrightarrow> 0 < e"
    using assms(1) appended(1) by (simp add: memory_log_inv_def same_durable_part_def)
  ultimately show ?thesis unfolding memory_log_inv_def by blast
qed

lemma append_record_entry:
  assumes "memory_log_inv l" and "memory_log_append_record reserve k l = (res, l')"
  shows "memory_entry l q = Some k' \<Longrightarrow> memory_entry l' q = Some k'"
    and "memory_durable l' q = memory_durable l q"
    and "res = Inr p \<Longrightarrow> memory_entry l' p = Some k \<and> memory_entry l p = None \<and> lsn_lineage p = ml_lineage l"
proof -
  note inv' = memory_append_inv [OF assms]
  show "memory_entry l q = Some k' \<Longrightarrow> memory_entry l' q = Some k'"
    using assms(2) by (cases rule: append_record_cases)
      (auto simp: memory_entry_iff [OF assms(1)] memory_entry_iff [OF inv'])
  show "memory_durable l' q = memory_durable l q"
    using assms(2) memory_log_invD(1) [OF assms(1)]
    by (cases rule: append_record_cases)
      (auto simp: memory_durable_def memory_log_durable_records_def same_durable_part_def)
  assume r: "res = Inr p"
  show "memory_entry l' p = Some k \<and> memory_entry l p = None \<and> lsn_lineage p = ml_lineage l"
    using assms(2)
  proof (cases rule: append_record_cases)
    case (unchanged e)
    with r show ?thesis by simp
  next
    case (appended n)
    then have p: "p = lineage_position (ml_lineage l) n" using r by simp
    have "p \<notin> mr_position ` set (ml_records l)"
    proof
      assume "p \<in> mr_position ` set (ml_records l)"
      then obtain r where "r \<in> set (ml_records l)" "mr_position r = p" by auto
      with memory_log_invD(5) [OF assms(1) appended(2)] p show False by fastforce
    qed
    then show ?thesis
      by (simp add: memory_entry_None memory_entry_iff [OF inv'] appended(3) p)
  qed
qed

section \<open>Flush\<close>

lemma record_index_Some:
  "record_index p rs = Some i \<Longrightarrow> i < length rs \<and> mr_position (rs ! i) = p"
  by (induction p rs arbitrary: i rule: record_index.induct) (auto split: if_splits)

lemma record_index_None: "record_index p rs = None \<longleftrightarrow> p \<notin> mr_position ` set rs"
  by (induction p rs rule: record_index.induct) auto

lemma flush_cases:
  assumes "memory_flush_through p l = (res, l')"
  obtains (refused) e where "res = Inl e" and "l' = l"
      and "lsn_lineage p \<noteq> ml_lineage l \<or> p \<notin> mr_position ` set (ml_records l)"
  | (covered) i where "res = Inr ()" and "l' = l" and "record_index p (ml_records l) = Some i"
      and "i < ml_durable_len l"
  | (before) "res = Inl (LogInjectedFault BeforeFlush)" and "l' = l\<lparr>ml_armed_fault := None\<rparr>"
  | (flushed) i f where "record_index p (ml_records l) = Some i" and "ml_durable_len l \<le> i"
      and "l' = l\<lparr>ml_durable_len := Suc i, ml_durable_logical_high_water := Some p, ml_armed_fault := f\<rparr>"
      and "res = Inr () \<or> res = Inl (LogInjectedFault AfterFlush)"
proof (cases "lsn_lineage p = ml_lineage l \<and> p \<in> mr_position ` set (ml_records l)")
  case False
  with assms have "(\<exists>e. res = Inl e) \<and> l' = l"
    by (cases "lsn_lineage p = ml_lineage l") (auto simp: memory_flush_through_def record_index_None [symmetric])
  with False refused show ?thesis by blast
next
  case True
  then obtain i where i: "record_index p (ml_records l) = Some i"
    using record_index_None [of p "ml_records l"] by (cases "record_index p (ml_records l)") auto
  note at_i = record_index_Some [OF i]
  show ?thesis
  proof (cases "i < ml_durable_len l")
    case low: True
    with assms True i have "res = Inr ()" "l' = l" by (simp_all add: memory_flush_through_def)
    with i low show ?thesis by (intro covered)
  next
    case high: False
    show ?thesis
    proof (cases "ml_armed_fault l = Some BeforeFlush")
      case fault: True
      with assms True i high have "res = Inl (LogInjectedFault BeforeFlush)" "l' = l\<lparr>ml_armed_fault := None\<rparr>"
        by (simp_all add: memory_flush_through_def consume_fault_def)
      then show ?thesis by (rule before)
    next
      case no_fault: False
      define f where "f = (if ml_armed_fault l = Some AfterFlush then None else ml_armed_fault l)"
      have "l' = l\<lparr>ml_durable_len := Suc i, ml_durable_logical_high_water := Some p, ml_armed_fault := f\<rparr>
          \<and> (res = Inr () \<or> res = Inl (LogInjectedFault AfterFlush))"
        using assms True i high at_i no_fault
        by (cases l) (auto simp: memory_flush_through_def consume_fault_def Let_def f_def split: if_splits)
      with i high show ?thesis by (intro flushed [of i f]) simp_all
    qed
  qed
qed

lemma take_durable_mono:
  "n \<le> m \<Longrightarrow> x \<in> set (take n xs) \<Longrightarrow> x \<in> set (take m xs)"
  by (metis in_set_takeD min.absorb1 take_take)

lemma flush_laws:
  assumes "memory_log_inv l" and "memory_flush_through p l = (res, l')"
  shows "memory_log_inv l'" and "ml_lineage l' = ml_lineage l" and "ml_records l' = ml_records l"
    and "memory_durable l q \<Longrightarrow> memory_durable l' q"
    and "res = Inr () \<Longrightarrow> memory_durable l' p"
    and "ml_next_position l' = ml_next_position l" and "ml_next_epoch l' = ml_next_epoch l"
proof -
  have all: "memory_log_inv l' \<and> ml_lineage l' = ml_lineage l \<and> ml_records l' = ml_records l
      \<and> (memory_durable l q \<longrightarrow> memory_durable l' q) \<and> (res = Inr () \<longrightarrow> memory_durable l' p)
      \<and> ml_next_position l' = ml_next_position l \<and> ml_next_epoch l' = ml_next_epoch l"
    using assms(2)
  proof (cases rule: flush_cases)
    case (refused e)
    with assms(1) show ?thesis by simp
  next
    case (covered i)
    then have "p \<in> mr_position ` set (take (ml_durable_len l) (ml_records l))"
      using record_index_Some [OF covered(3)]
      by (metis image_eqI in_set_conv_nth length_take min_less_iff_conj nth_take)
    with covered assms(1) show ?thesis by (simp add: memory_durable_def memory_log_durable_records_def)
  next
    case before
    with assms(1) show ?thesis
      by (simp add: memory_log_inv_def memory_durable_def memory_log_durable_records_def)
  next
    case (flushed i f)
    note at_i = record_index_Some [OF flushed(1)]
    then have "p \<in> mr_position ` set (take (Suc i) (ml_records l))"
      by (metis image_eqI in_set_conv_nth length_take lessI min_less_iff_conj nth_take)
    moreover have "memory_log_inv l'"
      using assms(1) at_i by (force simp: memory_log_inv_def flushed(3))
    ultimately show ?thesis
      using flushed(2) take_durable_mono [of "ml_durable_len l" "Suc i" _ "ml_records l"]
      by (auto simp: flushed(3) memory_durable_def memory_log_durable_records_def)
  qed
  from all show "memory_log_inv l'" by simp
  from all show "ml_lineage l' = ml_lineage l" by simp
  from all show "ml_records l' = ml_records l" by simp
  from all show "memory_durable l q \<Longrightarrow> memory_durable l' q" by simp
  from all show "res = Inr () \<Longrightarrow> memory_durable l' p" by simp
  from all show "ml_next_position l' = ml_next_position l" by simp
  from all show "ml_next_epoch l' = ml_next_epoch l" by simp
qed

lemma flush_entry_same:
  assumes "memory_log_inv l" and "memory_flush_through p l = (res, l')"
  shows "memory_entry l' q = memory_entry l q"
  using flush_laws(3) [OF assms] by (simp add: memory_entry_def)

lemma memory_durable_lineage:
  "memory_log_inv l \<Longrightarrow> memory_durable l p \<Longrightarrow> lsn_lineage p = ml_lineage l"
  by (auto simp: memory_durable_def dest!: durable_record_in dest: memory_log_invD(2))

lemma memory_durable_entry: "memory_durable l p \<Longrightarrow> memory_entry l p \<noteq> None"
  by (auto simp: memory_durable_def memory_entry_None dest!: durable_record_in)

interpretation memory_commits: fenced_log "memory_transaction_log reserve" memory_log_inv memory_durable
    memory_entry "memory_log_append_record reserve" "\<lambda>r. MemTransactionCommit (commit_record_id r)"
  for reserve
  by unfold_locales
    (auto simp: memory_transaction_log_def memory_append_commit_def fun_eq_iff
       dest: flush_laws memory_append_inv append_record_entry flush_entry_same
         memory_durable_lineage memory_durable_entry
       elim: append_record_cases [unfolded same_durable_part_def])

interpretation memory_pages: appending_log "memory_page_log reserve" memory_log_inv memory_durable
    memory_entry "memory_log_append_record reserve"
  for reserve
  by unfold_locales
    (auto simp: memory_page_log_def dest: flush_laws memory_append_inv append_record_entry flush_entry_same
         memory_durable_lineage memory_durable_entry
       elim: append_record_cases [unfolded same_durable_part_def])

section \<open>Restart and reopen\<close>

lemma restart_laws:
  assumes "memory_log_inv l"
  shows "memory_log_inv (memory_log_restart l)"
    and "memory_durable (memory_log_restart l) p = memory_durable l p"
    and "memory_entry (memory_log_restart l) p = (if memory_durable l p then memory_entry l p else None)"
proof -
  have sub: "set (take (ml_durable_len l) (ml_records l)) \<subseteq> set (ml_records l)" by (rule set_take_subset)
  have "sorted_wrt (<) (map mr_value (take (ml_durable_len l) (ml_records l)))"
    using memory_log_invD(4) [OF assms] by (simp add: take_map [symmetric] sorted_wrt_take)
  then show inv': "memory_log_inv (memory_log_restart l)"
    using assms sub by (auto simp: memory_log_inv_def memory_log_restart_def)
  show "memory_durable (memory_log_restart l) p = memory_durable l p"
    by (simp add: memory_durable_def memory_log_durable_records_def memory_log_restart_def)
  have dist: "distinct (map mr_position (ml_records l))" by (rule memory_records_distinct [OF assms])
  show "memory_entry (memory_log_restart l) p = (if memory_durable l p then memory_entry l p else None)"
  proof (cases "memory_durable l p")
    case True
    then obtain r where r: "r \<in> set (take (ml_durable_len l) (ml_records l))" "mr_position r = p"
      by (auto simp: memory_durable_def memory_log_durable_records_def)
    have rp: "\<lparr>mr_position = p, mr_kind = mr_kind r\<rparr> = r" using r(2) by auto
    have "memory_entry l p = Some (mr_kind r)" using r sub by (auto simp: memory_entry_iff [OF assms] rp)
    moreover have "memory_entry (memory_log_restart l) p = Some (mr_kind r)"
      using r by (simp add: memory_entry_iff [OF inv'] rp) (simp add: memory_log_restart_def)
    ultimately show ?thesis using True by simp
  next
    case False
    then show ?thesis
      by (simp add: memory_entry_None memory_durable_def memory_log_durable_records_def memory_log_restart_def)
  qed
qed

lemma reopen_is_restart:
  assumes "memory_log_inv l" and "memory_log_reopen l = (res, l')"
  shows "(res = Inr () \<and> l' = memory_log_restart l \<and> persistent_id (ml_lineage l) \<noteq> None)
    \<or> (res = Inl EphemeralLineage \<and> l' = l \<and> persistent_id (ml_lineage l) = None)"
proof (cases "persistent_id (ml_lineage l)")
  case None
  with assms(2) show ?thesis by (simp add: memory_log_reopen_def)
next
  case (Some p)
  then have lin: "ml_lineage l = Persistent p" by (auto simp: persistent_id_def split: log_lineage.splits)
  have rebuild: "lineage_position (Persistent p) (lsn_value q) = q" if "lsn_lineage q = Persistent p" for q
    using that by (cases q) (simp add: lineage_position_def)
  have "map (\<lambda>r. r\<lparr>mr_position := lineage_position (Persistent p) (lsn_value (mr_position r))\<rparr>)
      (take (ml_durable_len l) (ml_records l)) = take (ml_durable_len l) (ml_records l)"
    using memory_log_invD(2) [OF assms(1)] lin
    by (intro map_idI) (auto dest: in_set_takeD simp: rebuild)
  moreover have "map_option (\<lambda>h. lineage_position (Persistent p) (lsn_value h))
      (ml_durable_logical_high_water l) = ml_durable_logical_high_water l"
    using assms(1) lin by (cases "ml_durable_logical_high_water l") (auto simp: memory_log_inv_def rebuild)
  ultimately show ?thesis
    using assms(2) Some lin by (cases l) (auto simp: memory_log_reopen_def memory_log_restart_def)
qed

section \<open>Epochs and commit lookup\<close>

lemma next_epoch_after:
  "Option.bind (checked_add e 1) non_zero_u64 = Some e' \<Longrightarrow> e < e' \<and> 0 < e'"
  by (auto simp: bind_eq_Some_conv non_zero_u64_def word_gt_0 dest: checked_add_one_less split: if_splits)

lemma allocate_epoch_cases:
  assumes "memory_log_inv l" and "memory_allocate_epoch l = (res, l')"
  obtains (exhausted) e where "res = Inl e" and "l' = l"
  | (allocated) e where "res = Inr (e, ml_lineage l)" and "ml_next_epoch l = Some e"
      and "l' = l\<lparr>ml_next_epoch := Option.bind (checked_add e 1) non_zero_u64\<rparr>"
      and "memory_log_inv l'" and "\<And>e'. ml_next_epoch l' = Some e' \<Longrightarrow> e < e'"
proof (cases "ml_next_epoch l")
  case None
  with assms(2) have "res = Inl EpochSpaceExhausted" "l' = l"
    by (auto simp: memory_allocate_epoch_def)
  then show ?thesis by (rule exhausted)
next
  case (Some e)
  with assms(2) have l': "res = Inr (e, ml_lineage l)"
    "l' = l\<lparr>ml_next_epoch := Option.bind (checked_add e 1) non_zero_u64\<rparr>"
    by (simp_all add: memory_allocate_epoch_def)
  have "memory_log_inv l'"
    using assms(1) next_epoch_after [of e] by (simp add: memory_log_inv_def l'(2))
  with Some l' next_epoch_after [of e] show ?thesis by (intro allocated) auto
qed

text \<open>The scan finds the only commit record of a transaction, and whether it is durable.\<close>

lemma lookup_scan_Inr:
  "lookup_scan t d i m rs = Inr x \<longleftrightarrow>
     (\<forall>j < length rs. kind_transaction_id (mr_kind (rs ! j)) = Some t \<longrightarrow>
        m = None \<and> x = Some (mr_position (rs ! j), i + j < d)
        \<and> (\<forall>k < length rs. kind_transaction_id (mr_kind (rs ! k)) = Some t \<longrightarrow> k = j))
     \<and> ((\<forall>j < length rs. kind_transaction_id (mr_kind (rs ! j)) \<noteq> Some t) \<longrightarrow> x = m)"
proof (induction t d i m rs rule: lookup_scan.induct)
  case (1 t d i m)
  then show ?case by auto
next
  case (2 t d i m r rs)
  consider (skip) "kind_transaction_id (mr_kind r) \<noteq> Some t"
    | (dup) "kind_transaction_id (mr_kind r) = Some t" "m \<noteq> None"
    | (found) "kind_transaction_id (mr_kind r) = Some t" "m = None" by blast
  then show ?case
  proof cases
    case skip
    with 2 show ?thesis by (simp add: All_less_Suc2)
  next
    case dup
    then show ?thesis by (auto simp: All_less_Suc2)
  next
    case found
    with 2 show ?thesis by (auto simp: All_less_Suc2)
  qed
qed

lemma kind_commit_iff [simp]: "kind_transaction_id k = Some t \<longleftrightarrow> k = MemTransactionCommit t"
  by (cases k) auto

lemma lookup_cases:
  assumes "memory_lookup_durable_commit t l = (res, l')"
  obtains (failed) e where "res = Inl e" and "l' = l"
  | (found) r where "res = Inr (ml_lineage l, LookupFound (mr_position r))" and "l' = l"
      and "r \<in> set (memory_log_durable_records l)" and "mr_kind r = MemTransactionCommit t"
  | (absent) "res = Inr (ml_lineage l, LookupAbsent)" and "l' = l"
      and "\<And>r. r \<in> set (ml_records l) \<Longrightarrow> mr_kind r \<noteq> MemTransactionCommit t"
proof (cases "lookup_scan t (ml_durable_len l) 0 None (ml_records l)")
  case (Inl e)
  with assms show ?thesis by (intro failed [of e]) (simp_all add: memory_lookup_durable_commit_def)
next
  case (Inr x)
  note scan = Inr [unfolded lookup_scan_Inr kind_commit_iff]
  show ?thesis
  proof (cases x)
    case None
    with Inr assms have "res = Inr (ml_lineage l, LookupAbsent)" "l' = l"
      by (auto simp: memory_lookup_durable_commit_def)
    moreover have "mr_kind r \<noteq> MemTransactionCommit t" if "r \<in> set (ml_records l)" for r
      using that scan None by (auto simp: in_set_conv_nth)
    ultimately show ?thesis by (rule absent)
  next
    case (Some y)
    then obtain j where j: "j < length (ml_records l)" "mr_kind (ml_records l ! j) = MemTransactionCommit t"
      using scan by auto
    then have x: "x = Some (mr_position (ml_records l ! j), j < ml_durable_len l)" using scan by auto
    show ?thesis
    proof (cases "j < ml_durable_len l")
      case True
      with j have "ml_records l ! j \<in> set (memory_log_durable_records l)"
        by (auto simp: memory_log_durable_records_def in_set_conv_nth)
      moreover have "res = Inr (ml_lineage l, LookupFound (mr_position (ml_records l ! j)))" "l' = l"
        using Inr x True assms by (auto simp: memory_lookup_durable_commit_def)
      ultimately show ?thesis using j(2) by (intro found)
    next
      case False
      with Inr x assms have "res = Inl (VolatileCommitRecord t)" "l' = l"
        by (auto simp: memory_lookup_durable_commit_def)
      then show ?thesis by (rule failed)
    qed
  qed
qed

section \<open>The page store\<close>

definition memory_store_inv :: "memory_page_store \<Rightarrow> bool" where
  "memory_store_inv s = distinct (map ms_page_number (mst_pages s))"

definition page_content :: "memory_stored_page \<Rightarrow> stored_image" where
  "page_content p = (ms_page_version p, ms_bytes p, ms_required_position p)"

definition memory_stored :: "memory_page_store \<Rightarrow> page_number \<Rightarrow> stored_image option" where
  "memory_stored s n = map_option page_content (memory_page_store_page n s)"

lemma page_content_from_dirty [simp]: "page_content (stored_page_from_dirty d) = dirty_content d"
  by (simp add: page_content_def stored_page_from_dirty_def dirty_content_def)

lemma from_dirty_number [simp]: "ms_page_number (stored_page_from_dirty d) = pa_number (dp_address d)"
  by (simp add: stored_page_from_dirty_def)

lemma page_index_Some:
  "page_index n ps = Some i \<Longrightarrow> i < length ps \<and> ms_page_number (ps ! i) = n"
  by (induction n ps arbitrary: i rule: page_index.induct) (auto split: if_splits)

lemma page_index_None: "page_index n ps = None \<longleftrightarrow> n \<notin> ms_page_number ` set ps"
  by (induction n ps rule: page_index.induct) auto

lemma find_page_update:
  assumes "page_index (ms_page_number q) ps = Some i" and "distinct (map ms_page_number ps)"
  shows "find (\<lambda>p. ms_page_number p = n) (ps[i := q])
    = (if n = ms_page_number q then Some q else find (\<lambda>p. ms_page_number p = n) ps)"
    and "map ms_page_number (ps[i := q]) = map ms_page_number ps"
  using assms
proof (induction ps arbitrary: i)
  case Nil
  {
    case 1
    then show ?case by simp
  next
    case 2
    then show ?case by simp
  }
next
  case (Cons p ps)
  {
    case 1
    with Cons.IH(1) page_index_Some [of "ms_page_number q" ps] show ?case
      by (cases i) (auto split: if_splits)
  next
    case 2
    with Cons.IH(2) show ?case by (cases i) (auto split: if_splits)
  }
qed

lemma find_snoc:
  "find P (xs @ [x]) = (case find P xs of Some y \<Rightarrow> Some y | None \<Rightarrow> if P x then Some x else None)"
  by (induction xs) auto

lemma write_page_cases:
  assumes "memory_write_page reserve d permit s = (res, s')"
  obtains (unchanged) e where "res = Inl e" and "mst_pages s' = mst_pages s"
      and "mst_lineage s' = mst_lineage s"
  | (replaced) i where "page_index (pa_number (dp_address d)) (mst_pages s) = Some i"
      and "mst_pages s' = (mst_pages s)[i := stored_page_from_dirty d]" and "mst_lineage s' = mst_lineage s"
      and "lsn_lineage (dp_required_position d) = mst_lineage s"
  | (added) "page_index (pa_number (dp_address d)) (mst_pages s) = None"
      and "mst_pages s' = mst_pages s @ [stored_page_from_dirty d]" and "mst_lineage s' = mst_lineage s"
      and "lsn_lineage (dp_required_position d) = mst_lineage s"
proof (cases "mst_lineage s = pa_lineage (dp_address d)
    \<and> mst_lineage s = lsn_lineage (durable_position permit)
    \<and> durable_position permit = dp_required_position d \<and> mst_armed_fault s \<noteq> Some BeforeWrite")
  case False
  with assms obtain e where "res = Inl e" "mst_pages s' = mst_pages s" "mst_lineage s' = mst_lineage s"
    by (auto simp: memory_write_page_def ensure_def consume_store_fault_def split: if_splits)
  then show ?thesis by (rule unchanged)
next
  case True
  then have ok: "mst_lineage s = pa_lineage (dp_address d)" "durable_position permit = dp_required_position d"
    "mst_armed_fault s \<noteq> Some BeforeWrite" "lsn_lineage (dp_required_position d) = mst_lineage s" by auto
  show ?thesis
  proof (cases "page_index (pa_number (dp_address d)) (mst_pages s)")
    case None
    show ?thesis
    proof (cases "reserve (length (mst_pages s))")
      case False
      with assms ok None have "res = Inl PageCapacityExhausted" "s' = s"
        by (simp_all add: memory_write_page_def consume_store_fault_def)
      then show ?thesis by (intro unchanged) simp_all
    next
      case True
      with assms ok None have "mst_pages s' = mst_pages s @ [stored_page_from_dirty d]"
        "mst_lineage s' = mst_lineage s"
        by (auto simp: memory_write_page_def consume_store_fault_def Let_def split: if_splits)
      with None ok(4) show ?thesis by (intro added)
    qed
  next
    case (Some i)
    with assms ok have "mst_pages s' = (mst_pages s)[i := stored_page_from_dirty d]"
      "mst_lineage s' = mst_lineage s"
      by (auto simp: memory_write_page_def consume_store_fault_def Let_def split: if_splits)
    with Some ok(4) show ?thesis by (intro replaced)
  qed
qed

lemma write_page_laws:
  assumes "memory_store_inv s" and "memory_write_page reserve d permit s = (res, s')"
  shows "memory_store_inv s'" and "mst_lineage s' = mst_lineage s"
    and "memory_stored s' n = memory_stored s n
      \<or> (n = pa_number (dp_address d) \<and> memory_stored s' n = Some (dirty_content d))"
    and "res = Inr () \<Longrightarrow> memory_stored s' (pa_number (dp_address d)) = Some (dirty_content d)"
proof -
  let ?q = "stored_page_from_dirty d"
  have "memory_store_inv s' \<and> mst_lineage s' = mst_lineage s
    \<and> (\<forall>n. memory_stored s' n = memory_stored s n
      \<or> (n = pa_number (dp_address d) \<and> memory_stored s' n = Some (dirty_content d)))
    \<and> (res = Inr () \<longrightarrow> memory_stored s' (pa_number (dp_address d)) = Some (dirty_content d))"
    using assms(2)
  proof (cases rule: write_page_cases)
    case (unchanged e)
    with assms(1) show ?thesis by (simp add: memory_store_inv_def memory_stored_def memory_page_store_page_def)
  next
    case (replaced i)
    have d: "distinct (map ms_page_number (mst_pages s))" using assms(1) by (simp add: memory_store_inv_def)
    have i: "page_index (ms_page_number ?q) (mst_pages s) = Some i" using replaced(1) by simp
    note upd = find_page_update [OF i d]
    show ?thesis
      using replaced upd d
      by (auto simp: memory_store_inv_def memory_stored_def memory_page_store_page_def)
  next
    case added
    have new: "pa_number (dp_address d) \<notin> ms_page_number ` set (mst_pages s)"
      using added(1) by (simp add: page_index_None)
    then have "find (\<lambda>p. ms_page_number p = pa_number (dp_address d)) (mst_pages s) = None"
      by (force simp: find_None_iff)
    with added new assms(1) show ?thesis
      by (auto simp: memory_store_inv_def memory_stored_def memory_page_store_page_def find_snoc
          split: option.splits)
  qed
  then show "memory_store_inv s'" "mst_lineage s' = mst_lineage s"
    "memory_stored s' n = memory_stored s n
      \<or> (n = pa_number (dp_address d) \<and> memory_stored s' n = Some (dirty_content d))"
    "res = Inr () \<Longrightarrow> memory_stored s' (pa_number (dp_address d)) = Some (dirty_content d)" by blast+
qed

interpretation memory_flush: page_flushing "memory_transaction_log reserve" memory_log_inv memory_durable
    "memory_store_port reserve'" memory_store_inv memory_stored
  for reserve reserve'
  by unfold_locales (auto simp: memory_store_port_def dest: write_page_laws)

end
