(* ===== verification/Transaction_Laws.thy ===== *)
theory Transaction_Laws
  imports Transaction
begin

text \<open>
  The outcomes of the coordinator's operations over arbitrary ports: which coordinator and port
  states each of them can leave. The proofs about the runtime go through these case rules and
  never unfold an operation.
\<close>

lemma set_status_twice [simp]: "set_status t a (set_status t b c) = set_status t a c"
  by (simp add: set_status_def)

lemma set_status_sel [simp]:
  "tc_epoch (set_status t st c) = tc_epoch c" "tc_identity (set_status t st c) = tc_identity c"
  "tc_log_lineage (set_status t st c) = tc_log_lineage c"
  "tc_lifecycles (set_status t st c) = (tc_lifecycles c)(t \<mapsto> st)"
  "tc_staged_pages (set_status t st c) = tc_staged_pages c"
  "tc_next_transaction_id (set_status t st c) = tc_next_transaction_id c"
  by (simp_all add: set_status_def)

lemma coordinator_open_cases:
  assumes "coordinator_open port fresh source = (res, source')"
  obtains (failed) e where "port_allocate_epoch port source = (Inl e, source')" and "res = Inl e"
  | (opened) epoch lineage where "port_allocate_epoch port source = (Inr (epoch, lineage), source')"
      and "res = Inr (from_allocated_epoch fresh epoch lineage)"
proof -
  obtain a source1 where a: "port_allocate_epoch port source = (a, source1)" by (metis prod.collapse)
  show ?thesis
  proof (cases a)
    case (Inl e)
    with assms a have "res = Inl e" "source1 = source'" by (simp_all add: coordinator_open_def)
    with a Inl show ?thesis by (intro failed [of e]) simp_all
  next
    case (Inr b)
    obtain epoch lineage where b: "b = (epoch, lineage)" by (cases b)
    with assms a Inr have "res = Inr (from_allocated_epoch fresh epoch lineage)" "source1 = source'"
      by (simp_all add: coordinator_open_def)
    with a b Inr show ?thesis by (intro opened [of epoch lineage]) simp_all
  qed
qed

lemma coordinator_begin_cases:
  assumes "coordinator_begin c = (res, c')"
  obtains (failed) e where "res = Inl e" and "c' = c"
  | (begun) n where "tc_next_transaction_id c = Some n"
      and "tc_lifecycles c \<lparr>tt_epoch = tc_epoch c, tt_sequence = n\<rparr> = None"
      and "res = Inr \<lparr>at_transaction_id = \<lparr>tt_epoch = tc_epoch c, tt_sequence = n\<rparr>,
        at_coordinator_identity = tc_identity c\<rparr>"
      and "c' = (set_status \<lparr>tt_epoch = tc_epoch c, tt_sequence = n\<rparr> StActive c)
        \<lparr>tc_next_transaction_id := Option.bind (checked_add n 1) non_zero_u64\<rparr>"
proof (cases "tc_next_transaction_id c")
  case None
  with assms have "res = Inl IdentitySpaceExhausted" "c' = c" by (auto simp: coordinator_begin_def)
  then show ?thesis by (rule failed)
next
  case (Some n)
  show ?thesis
  proof (cases "tc_lifecycles c \<lparr>tt_epoch = tc_epoch c, tt_sequence = n\<rparr>")
    case None
    with Some assms have "res = Inr \<lparr>at_transaction_id = \<lparr>tt_epoch = tc_epoch c, tt_sequence = n\<rparr>,
        at_coordinator_identity = tc_identity c\<rparr>"
      "c' = (set_status \<lparr>tt_epoch = tc_epoch c, tt_sequence = n\<rparr> StActive c)
        \<lparr>tc_next_transaction_id := Option.bind (checked_add n 1) non_zero_u64\<rparr>"
      by (auto simp: coordinator_begin_def set_status_def Let_def)
    with Some None show ?thesis by (intro begun [of n])
  next
    case taken: (Some st)
    with Some assms have "res = Inl (IdentityAlreadyIssued \<lparr>tt_epoch = tc_epoch c, tt_sequence = n\<rparr>)"
      "c' = c" by (auto simp: coordinator_begin_def Let_def)
    then show ?thesis by (rule failed)
  qed
qed

abbreviation commit_token :: "active_transaction \<Rightarrow> log_sequence_number \<Rightarrow> committed_transaction" where
  "commit_token t position \<equiv> \<lparr>ct_transaction_id = at_transaction_id t, ct_log_position = position\<rparr>"

lemma coordinator_commit_cases:
  assumes "coordinator_commit port t c log = (res, c', log')"
  obtains (rejected) reason where "res = Inl (CommitRejected \<lparr>cr_transaction = t, cr_reason = reason\<rparr>)"
      and "c' = c" and "log' = log"
  | (committed) position where "tc_lifecycles c (at_transaction_id t) = Some StActive"
      and "tc_identity c = at_coordinator_identity t"
      and "commit_durability port (TransactionCommitRecord (at_transaction_id t)) (commit_token t) log
        = (Inr (commit_token t position), log')"
      and "res = Inr (commit_token t position)" and "c' = set_status (at_transaction_id t) StCommitted c"
  | (indeterminate) e where "tc_lifecycles c (at_transaction_id t) = Some StActive"
      and "commit_durability port (TransactionCommitRecord (at_transaction_id t)) (commit_token t) log
        = (Inl (ce_source e), log')"
      and "res = Inl (CommitIndeterminate e)" and "tc_identity c = at_coordinator_identity t"
      and "ce_transaction e = \<lparr>it_transaction_id = at_transaction_id t,
        it_coordinator_identity = at_coordinator_identity t, it_log_lineage = tc_log_lineage c\<rparr>"
      and "c' = set_status (at_transaction_id t) StIndeterminate c"
proof (cases "owns c t \<and> tc_log_lineage c = port_lineage port log
    \<and> tc_lifecycles c (at_transaction_id t) = Some StActive")
  case False
  with assms obtain reason where "res = Inl (CommitRejected \<lparr>cr_transaction = t, cr_reason = reason\<rparr>)"
    "c' = c" "log' = log"
    unfolding coordinator_commit_def Let_def by (auto split: if_splits)
  then show ?thesis by (rule rejected)
next
  case True
  then have ok: "owns c t" "tc_log_lineage c = port_lineage port log"
    "tc_lifecycles c (at_transaction_id t) = Some StActive" by simp_all
  obtain d log1 where d: "commit_durability port (TransactionCommitRecord (at_transaction_id t))
      (commit_token t) log = (d, log1)" by (metis prod.collapse)
  note ev = assms [unfolded coordinator_commit_def active_commit_def Let_def] ok d
  show ?thesis
  proof (cases d)
    case (Inr ct)
    with ev have r: "res = Inr ct" "c' = set_status (at_transaction_id t) StCommitted c" "log1 = log'"
      by simp_all
    from d Inr obtain position where "ct = commit_token t position"
      by (auto elim: commit_durability_Inr)
    with r d Inr ok show ?thesis by (intro committed [of position]) (simp_all add: owns_def)
  next
    case (Inl source)
    let ?e = "\<lparr>ce_transaction = \<lparr>it_transaction_id = at_transaction_id t,
        it_coordinator_identity = at_coordinator_identity t, it_log_lineage = tc_log_lineage c\<rparr>,
      ce_source = source\<rparr>"
    from Inl ev have "res = Inl (CommitIndeterminate ?e)" "log1 = log'"
      "c' = set_status (at_transaction_id t) StIndeterminate c" by auto
    with d Inl ok show ?thesis by (intro indeterminate [of ?e]) (simp_all add: owns_def)
  qed
qed

lemma coordinator_resolve_cases:
  assumes "coordinator_resolve port t c source = (res, c', source')"
  obtains (failed) f where "res = Inl \<lparr>re_transaction = t, re_failure = f\<rparr>" and "c' = c"
      and "source' = source \<or> source' = snd (port_lookup_durable_commit port (it_transaction_id t) source)"
  | (committed) lineage position where "tc_lifecycles c (it_transaction_id t) = Some StIndeterminate"
      and "port_lookup_durable_commit port (it_transaction_id t) source
        = (Inr (lineage, LookupFound position), source')"
      and "res = Inr (ResolvedCommitted
        \<lparr>ct_transaction_id = it_transaction_id t, ct_log_position = position\<rparr>)"
      and "c' = set_status (it_transaction_id t) StCommitted c"
  | (absent) lineage where "tc_lifecycles c (it_transaction_id t) = Some StIndeterminate"
      and "port_lookup_durable_commit port (it_transaction_id t) source = (Inr (lineage, LookupAbsent), source')"
      and "res = Inr (ResolvedAbsent (NoDurableCommitRecord (it_transaction_id t)))"
      and "c' = set_status (it_transaction_id t) StNoDurableCommitRecord c"
proof (cases "owns_indeterminate c t \<and> tc_lifecycles c (it_transaction_id t) = Some StIndeterminate")
  case False
  with assms obtain f where "res = Inl \<lparr>re_transaction = t, re_failure = f\<rparr>" "c' = c" "source' = source"
    unfolding coordinator_resolve_def Let_def coordinator_status_def by (auto split: if_splits)
  with failed show ?thesis by blast
next
  case True
  then have ok: "owns_indeterminate c t" "tc_lifecycles c (it_transaction_id t) = Some StIndeterminate"
    by simp_all
  obtain a source1 where a: "port_lookup_durable_commit port (it_transaction_id t) source = (a, source1)"
    by (metis prod.collapse)
  note ev = assms [unfolded coordinator_resolve_def Let_def coordinator_status_def] ok a
  show ?thesis
  proof (cases a)
    case (Inl e)
    with ev have "res = Inl \<lparr>re_transaction = t, re_failure = ResolveSource e\<rparr>" "c' = c" "source' = source1"
      by simp_all
    with a failed show ?thesis by simp
  next
    case (Inr b)
    obtain lineage found where b: "b = (lineage, found)" by (cases b)
    show ?thesis
    proof (cases "it_log_lineage t = lineage
        \<and> (\<forall>p. found = LookupFound p \<longrightarrow> lineage = lsn_lineage p)")
      case False
      with ev Inr b have "\<exists>f. res = Inl \<lparr>re_transaction = t, re_failure = f\<rparr>" "c' = c" "source' = source1"
        by (auto split: durable_commit_lookup.splits if_splits)
      with a failed show ?thesis by auto
    next
      case True
      show ?thesis
      proof (cases found)
        case (LookupFound position)
        with ev Inr b True have "res = Inr (ResolvedCommitted
            \<lparr>ct_transaction_id = it_transaction_id t, ct_log_position = position\<rparr>)"
          "c' = set_status (it_transaction_id t) StCommitted c" "source' = source1" by simp_all
        with a Inr b LookupFound ok show ?thesis by (intro committed [of lineage position]) simp_all
      next
        case LookupAbsent
        with ev Inr b True have "res = Inr (ResolvedAbsent (NoDurableCommitRecord (it_transaction_id t)))"
          "c' = set_status (it_transaction_id t) StNoDurableCommitRecord c" "source' = source1" by simp_all
        with a Inr b LookupAbsent ok show ?thesis by (intro absent [of lineage]) simp_all
      qed
    qed
  qed
qed

lemma bridge_sel [simp]:
  "port_lineage (transaction_page_append_bridge port t) = port_lineage port"
  "port_append_page (transaction_page_append_bridge port t) page
    = port_append_transaction_page port \<lparr>tw_transaction_id = t, tw_page = page\<rparr>"
  by (simp_all add: transaction_page_append_bridge_def)

abbreviation page_key :: "transaction_token_id \<Rightarrow> unlogged_page \<Rightarrow> transaction_token_id \<times> page_number" where
  "page_key t page \<equiv> (t, pa_number (up_address page))"

lemma coordinator_stage_cases:
  assumes "coordinator_stage_page_write port t page c log = (res, c', log')"
  obtains (rejected) r where "res = Inl (PageStageRejected r)" and "pr_transaction r = t"
      and "pr_page r = page" and "c' = c" and "log' = log"
  | (staged) position where "tc_lifecycles c (at_transaction_id t) = Some StActive"
      and "port_append_transaction_page port \<lparr>tw_transaction_id = at_transaction_id t, tw_page = page\<rparr> log
        = (Inr position, log')"
      and "page_key (at_transaction_id t) page \<notin> tc_staged_pages c"
      and "res = Inr (t, \<lparr>td_transaction_id = at_transaction_id t, td_dirty =
        \<lparr>dp_address = up_address page, dp_version = up_version page, dp_image = up_image page,
         dp_required_position = position\<rparr>\<rparr>)"
      and "lsn_lineage position = port_lineage port log"
      and "c' = c\<lparr>tc_staged_pages := insert (page_key (at_transaction_id t) page) (tc_staged_pages c)\<rparr>"
  | (poisoned) e a where "tc_lifecycles c (at_transaction_id t) = Some StActive"
      and "port_append_transaction_page port \<lparr>tw_transaction_id = at_transaction_id t, tw_page = page\<rparr> log
        = (a, log')"
      and "res = Inl e"
      and "c' = (set_status (at_transaction_id t) StPageAppendIndeterminate c)
        \<lparr>tc_staged_pages := insert (page_key (at_transaction_id t) page) (tc_staged_pages c)\<rparr>"
proof -
  let ?id = "at_transaction_id t" and ?key = "page_key (at_transaction_id t) page"
  show ?thesis
  proof (cases "owns c t \<and> tc_log_lineage c = port_lineage port log
      \<and> pa_lineage (up_address page) = port_lineage port log
      \<and> tc_lifecycles c ?id = Some StActive \<and> ?key \<notin> tc_staged_pages c")
    case False
    with assms obtain reason where "res = Inl (PageStageRejected
        \<lparr>pr_transaction = t, pr_page = page, pr_reason = reason\<rparr>)" "c' = c" "log' = log"
      unfolding coordinator_stage_page_write_def Let_def by (auto split: if_splits)
    then show ?thesis
      by (intro rejected [of "\<lparr>pr_transaction = t, pr_page = page, pr_reason = reason\<rparr>"]) simp_all
  next
    case True
    then have ok: "owns c t" "tc_log_lineage c = port_lineage port log"
      "pa_lineage (up_address page) = port_lineage port log"
      "tc_lifecycles c ?id = Some StActive" "?key \<notin> tc_staged_pages c" by simp_all
    obtain a log1 where a: "stage_page_write (transaction_page_append_bridge port ?id) page log = (a, log1)"
      by (metis prod.collapse)
    note ev = assms [unfolded coordinator_stage_page_write_def Let_def] ok a
    from a show ?thesis
    proof (cases rule: stage_page_write_cases)
      case rejected
      with ok show ?thesis by simp
    next
      case (append source)
      with ev have "\<exists>e. res = Inl e" "log1 = log'"
        "c' = (set_status ?id StPageAppendIndeterminate c)
          \<lparr>tc_staged_pages := insert ?key (tc_staged_pages c)\<rparr>"
        by (auto simp: mark_page_append_indeterminate_def set_status_def)
      with append(1) ok(4) poisoned show ?thesis by auto
    next
      case (evidence position reason)
      with ev have "\<exists>e. res = Inl e" "log1 = log'"
        "c' = (set_status ?id StPageAppendIndeterminate c)
          \<lparr>tc_staged_pages := insert ?key (tc_staged_pages c)\<rparr>"
        by (auto simp: mark_page_append_indeterminate_def set_status_def)
      with evidence(1) ok(4) poisoned show ?thesis by auto
    next
      case (staged position)
      with ev have "res = Inr (t, \<lparr>td_transaction_id = ?id, td_dirty =
          \<lparr>dp_address = up_address page, dp_version = up_version page, dp_image = up_image page,
           dp_required_position = position\<rparr>\<rparr>)" "log1 = log'"
        "c' = c\<lparr>tc_staged_pages := insert ?key (tc_staged_pages c)\<rparr>" by simp_all
      with staged ok that(2) [of position] show ?thesis by simp
    qed
  qed
qed

lemma flush_committed_page_cases:
  assumes "flush_committed_page lport sport committed page log store = (res, log', store')"
  obtains (rejected) reason where "res = Inl (CommittedFlushRejected \<lparr>fj_page = page, fj_reason = reason\<rparr>)"
      and "log' = log" and "store' = store"
  | (flushed) inner where "ct_transaction_id committed = td_transaction_id page"
      and "lsn_lineage (ct_log_position committed) = lsn_lineage (dp_required_position (td_dirty page))"
      and "lsn_value (dp_required_position (td_dirty page)) < lsn_value (ct_log_position committed)"
      and "flush_dirty_page lport sport (td_dirty page) log store = (inner, log', store')"
      and "\<And>clean. inner = Inr clean \<longleftrightarrow>
        res = Inr \<lparr>tk_transaction_id = td_transaction_id page, tk_clean = clean\<rparr>"
proof (cases "ct_transaction_id committed = td_transaction_id page
    \<and> lsn_lineage (ct_log_position committed) = lsn_lineage (dp_required_position (td_dirty page))
    \<and> lsn_value (dp_required_position (td_dirty page)) < lsn_value (ct_log_position committed)")
  case False
  with assms obtain reason where "res = Inl (CommittedFlushRejected \<lparr>fj_page = page, fj_reason = reason\<rparr>)"
    "log' = log" "store' = store"
    unfolding flush_committed_page_def Let_def by (auto simp: linorder_not_less split: if_splits)
  then show ?thesis by (rule rejected)
next
  case True
  then have ok: "ct_transaction_id committed = td_transaction_id page"
    "lsn_lineage (ct_log_position committed) = lsn_lineage (dp_required_position (td_dirty page))"
    "\<not> lsn_value (ct_log_position committed) \<le> lsn_value (dp_required_position (td_dirty page))"
    "lsn_value (dp_required_position (td_dirty page)) < lsn_value (ct_log_position committed)"
    by (simp_all add: linorder_not_le)
  obtain inner log1 store1 where inner:
    "flush_dirty_page lport sport (td_dirty page) log store = (inner, log1, store1)"
    by (metis prod.collapse)
  note ev = assms [unfolded flush_committed_page_def Let_def] ok inner
  have "log1 = log' \<and> store1 = store'
      \<and> (\<forall>clean. inner = Inr clean \<longleftrightarrow>
          res = Inr \<lparr>tk_transaction_id = td_transaction_id page, tk_clean = clean\<rparr>)"
  proof (cases inner)
    case (Inl e)
    with ev show ?thesis by (cases e) auto
  next
    case (Inr clean)
    with ev show ?thesis by auto
  qed
  with ok inner flushed show ?thesis by blast
qed

lemma flush_staged_committed_page_cases:
  assumes "flush_staged_committed_page lport sport committed page c log store = (res, c', log', store')"
  obtains (rejected) reason where "res = Inl (CoordinatedFlushRejected \<lparr>cf_page = page, cf_reason = reason\<rparr>)"
      and "c' = c" and "log' = log" and "store' = store"
  | (flushed) inner where "tc_lifecycles c (td_transaction_id page) = Some StCommitted"
      and "flush_committed_page lport sport committed page log store = (inner, log', store')"
      and "\<And>clean. inner = Inr clean \<longleftrightarrow> res = Inr clean"
      and "c' = (case inner of Inl _ \<Rightarrow> c | Inr _ \<Rightarrow> c\<lparr>tc_staged_pages :=
        tc_staged_pages c - {(td_transaction_id page, pa_number (dp_address (td_dirty page)))}\<rparr>)"
proof -
  let ?key = "(td_transaction_id page, pa_number (dp_address (td_dirty page)))"
  show ?thesis
  proof (cases "ct_transaction_id committed = td_transaction_id page
      \<and> tc_log_lineage c = lsn_lineage (dp_required_position (td_dirty page))
      \<and> tc_log_lineage c = lsn_lineage (ct_log_position committed)
      \<and> tc_lifecycles c (td_transaction_id page) = Some StCommitted \<and> ?key \<in> tc_staged_pages c")
    case False
    with assms obtain reason where "res = Inl (CoordinatedFlushRejected \<lparr>cf_page = page, cf_reason = reason\<rparr>)"
      "c' = c" "log' = log" "store' = store"
      unfolding flush_staged_committed_page_def Let_def coordinator_status_def by (auto split: if_splits)
    then show ?thesis by (rule rejected)
  next
    case True
    then have ok: "ct_transaction_id committed = td_transaction_id page"
      "tc_log_lineage c = lsn_lineage (dp_required_position (td_dirty page))"
      "tc_log_lineage c = lsn_lineage (ct_log_position committed)"
      "tc_lifecycles c (td_transaction_id page) = Some StCommitted" "?key \<in> tc_staged_pages c" by blast+
    obtain inner log1 store1 where inner:
      "flush_committed_page lport sport committed page log store = (inner, log1, store1)"
      by (metis prod.collapse)
    note ev = assms [unfolded flush_staged_committed_page_def Let_def coordinator_status_def] ok inner
    have "log1 = log' \<and> store1 = store' \<and> (\<forall>clean. inner = Inr clean \<longleftrightarrow> res = Inr clean)
        \<and> c' = (case inner of Inl _ \<Rightarrow> c | Inr _ \<Rightarrow> c\<lparr>tc_staged_pages := tc_staged_pages c - {?key}\<rparr>)"
      using ev by (cases inner) auto
    with ok(4) inner flushed show ?thesis by blast
  qed
qed

end
