(* ===== verification/Runtime.thy ===== *)
theory Runtime
  imports Memory_Laws Transaction_Laws
begin

text \<open>
  The storage runtime: any number of transaction coordinators over one in-memory log and one
  in-memory page store, with every operation of the four modelled components, the one-shot
  faults and the restart of the log as actions. The sets of tokens hold every token an operation
  has ever returned; the source's tokens are move-only, so what a program can pass to an operation
  is a subset of them. WAL-prefix reclamation is not an action: it needs a permit of the restart
  procedure.
\<close>

section \<open>State and actions\<close>

record runtime =
  rt_log :: memory_log
  rt_store :: memory_page_store
  rt_coordinators :: "transaction_coordinator list"
  rt_active :: "active_transaction set"
  rt_indeterminate :: "indeterminate_transaction set"
  rt_committed :: "committed_transaction set"
  rt_absent :: "no_durable_commit_record set"
  rt_staged :: "transaction_dirty_page set"
  rt_dirty :: "dirty_page set"

definition runtime_new :: "log_lineage \<Rightarrow> runtime" where
  "runtime_new lineage =
     \<lparr>rt_log = memory_log_with_lineage lineage,
      rt_store = memory_page_store_with_lineage lineage,
      rt_coordinators = [], rt_active = {}, rt_indeterminate = {}, rt_committed = {},
      rt_absent = {}, rt_staged = {}, rt_dirty = {}\<rparr>"

datatype runtime_action =
    OpenCoordinator
  | BeginTransaction nat
  | StageTransactionPage nat active_transaction unlogged_page
  | CommitTransaction nat active_transaction
  | ResolveTransaction nat indeterminate_transaction
  | FlushStagedPage nat committed_transaction transaction_dirty_page
  | FlushCommittedPage committed_transaction transaction_dirty_page
  | StageRawPage unlogged_page
  | FlushRawPage dirty_page
  | FlushLog log_sequence_number
  | ArmLogFault fault_point
  | ArmStoreFault page_store_fault_point
  | RestartLog
  | ReopenLog

text \<open>A coordinator is addressed by its index and a token must have been issued.\<close>

fun action_enabled :: "runtime_action \<Rightarrow> runtime \<Rightarrow> bool" where
  "action_enabled (BeginTransaction i) s = (i < length (rt_coordinators s))"
| "action_enabled (StageTransactionPage i t page) s =
     (i < length (rt_coordinators s) \<and> t \<in> rt_active s)"
| "action_enabled (CommitTransaction i t) s = (i < length (rt_coordinators s) \<and> t \<in> rt_active s)"
| "action_enabled (ResolveTransaction i t) s =
     (i < length (rt_coordinators s) \<and> t \<in> rt_indeterminate s)"
| "action_enabled (FlushStagedPage i ct td) s =
     (i < length (rt_coordinators s) \<and> ct \<in> rt_committed s \<and> td \<in> rt_staged s)"
| "action_enabled (FlushCommittedPage ct td) s = (ct \<in> rt_committed s \<and> td \<in> rt_staged s)"
| "action_enabled (FlushRawPage d) s = (d \<in> rt_dirty s)"
| "action_enabled _ s = True"

definition install :: "nat \<Rightarrow> transaction_coordinator \<Rightarrow> memory_log \<Rightarrow> runtime \<Rightarrow> runtime" where
  "install i c l s = s\<lparr>rt_coordinators := (rt_coordinators s)[i := c], rt_log := l\<rparr>"

fun runtime_exec :: "(nat \<Rightarrow> bool) \<Rightarrow> runtime_action \<Rightarrow> runtime \<Rightarrow> runtime" where
  "runtime_exec reserve OpenCoordinator s =
     (case coordinator_open memory_epoch_source (length (rt_coordinators s)) (rt_log s) of
        (Inl _, l) \<Rightarrow> s\<lparr>rt_log := l\<rparr>
      | (Inr c, l) \<Rightarrow> s\<lparr>rt_log := l, rt_coordinators := rt_coordinators s @ [c]\<rparr>)"
| "runtime_exec reserve (BeginTransaction i) s =
     (case coordinator_begin (rt_coordinators s ! i) of
        (Inl _, c) \<Rightarrow> install i c (rt_log s) s
      | (Inr t, c) \<Rightarrow> (install i c (rt_log s) s)\<lparr>rt_active := insert t (rt_active s)\<rparr>)"
| "runtime_exec reserve (StageTransactionPage i t page) s =
     (case coordinator_stage_page_write (memory_transaction_log reserve) t page
             (rt_coordinators s ! i) (rt_log s) of
        (Inl _, c, l) \<Rightarrow> install i c l s
      | (Inr (t', td), c, l) \<Rightarrow> (install i c l s)
          \<lparr>rt_active := insert t' (rt_active s), rt_staged := insert td (rt_staged s)\<rparr>)"
| "runtime_exec reserve (CommitTransaction i t) s =
     (case coordinator_commit (memory_transaction_log reserve) t (rt_coordinators s ! i) (rt_log s) of
        (Inl (CommitRejected _), c, l) \<Rightarrow> install i c l s
      | (Inl (CommitIndeterminate e), c, l) \<Rightarrow> (install i c l s)
          \<lparr>rt_indeterminate := insert (ce_transaction e) (rt_indeterminate s)\<rparr>
      | (Inr ct, c, l) \<Rightarrow> (install i c l s)\<lparr>rt_committed := insert ct (rt_committed s)\<rparr>)"
| "runtime_exec reserve (ResolveTransaction i t) s =
     (case coordinator_resolve memory_recovery_source t (rt_coordinators s ! i) (rt_log s) of
        (Inl _, c, l) \<Rightarrow> install i c l s
      | (Inr (ResolvedCommitted ct), c, l) \<Rightarrow> (install i c l s)
          \<lparr>rt_committed := insert ct (rt_committed s)\<rparr>
      | (Inr (ResolvedAbsent n), c, l) \<Rightarrow> (install i c l s)\<lparr>rt_absent := insert n (rt_absent s)\<rparr>)"
| "runtime_exec reserve (FlushStagedPage i ct td) s =
     (case flush_staged_committed_page (memory_transaction_log reserve) (memory_store_port reserve)
             ct td (rt_coordinators s ! i) (rt_log s) (rt_store s) of
        (_, c, l, st) \<Rightarrow> (install i c l s)\<lparr>rt_store := st\<rparr>)"
| "runtime_exec reserve (FlushCommittedPage ct td) s =
     (case flush_committed_page (memory_transaction_log reserve) (memory_store_port reserve)
             ct td (rt_log s) (rt_store s) of
        (_, l, st) \<Rightarrow> s\<lparr>rt_log := l, rt_store := st\<rparr>)"
| "runtime_exec reserve (StageRawPage page) s =
     (case stage_page_write (memory_page_log reserve) page (rt_log s) of
        (Inl _, l) \<Rightarrow> s\<lparr>rt_log := l\<rparr>
      | (Inr d, l) \<Rightarrow> s\<lparr>rt_log := l, rt_dirty := insert d (rt_dirty s)\<rparr>)"
| "runtime_exec reserve (FlushRawPage d) s =
     (case flush_dirty_page (memory_transaction_log reserve) (memory_store_port reserve)
             d (rt_log s) (rt_store s) of
        (_, l, st) \<Rightarrow> s\<lparr>rt_log := l, rt_store := st\<rparr>)"
| "runtime_exec reserve (FlushLog p) s = s\<lparr>rt_log := snd (memory_flush_through p (rt_log s))\<rparr>"
| "runtime_exec reserve (ArmLogFault f) s = s\<lparr>rt_log := snd (memory_log_arm_fault f (rt_log s))\<rparr>"
| "runtime_exec reserve (ArmStoreFault f) s =
     s\<lparr>rt_store := snd (memory_page_store_arm_fault f (rt_store s))\<rparr>"
| "runtime_exec reserve RestartLog s = s\<lparr>rt_log := memory_log_restart (rt_log s)\<rparr>"
| "runtime_exec reserve ReopenLog s = s\<lparr>rt_log := snd (memory_log_reopen (rt_log s))\<rparr>"

inductive runtime_step :: "(nat \<Rightarrow> bool) \<Rightarrow> runtime \<Rightarrow> runtime \<Rightarrow> bool" for reserve where
  step_action: "action_enabled a s \<Longrightarrow> runtime_step reserve s (runtime_exec reserve a s)"

inductive_cases runtime_stepE: "runtime_step reserve s s'"

abbreviation runtime_reachable :: "(nat \<Rightarrow> bool) \<Rightarrow> log_lineage \<Rightarrow> runtime \<Rightarrow> bool" where
  "runtime_reachable reserve lineage \<equiv> reachable_from (\<lambda>s. s = runtime_new lineage) (runtime_step reserve)"

text \<open>Running a list of actions, each of which must be enabled.\<close>

fun runtime_run :: "(nat \<Rightarrow> bool) \<Rightarrow> runtime_action list \<Rightarrow> runtime \<Rightarrow> runtime option" where
  "runtime_run reserve [] s = Some s"
| "runtime_run reserve (a # as) s =
     (if action_enabled a s then runtime_run reserve as (runtime_exec reserve a s) else None)"

lemma runtime_run_reachable:
  assumes "runtime_reachable reserve lineage s" and "runtime_run reserve as s = Some s'"
  shows "runtime_reachable reserve lineage s'"
  using assms
proof (induction as arbitrary: s)
  case Nil
  then show ?case by simp
next
  case (Cons a as)
  then have "action_enabled a s" "runtime_run reserve as (runtime_exec reserve a s) = Some s'"
    by (auto split: if_splits)
  with Cons step_action [of a s reserve] show ?case by (blast intro: reachable_from.intros)
qed

end
