(* ===== verification/Runtime_Invariant.thy ===== *)
theory Runtime_Invariant
  imports Runtime
begin

text \<open>
  The invariant of the storage runtime and the facts its preservation rests on: how an operation
  changes the log (\<open>log_evolves\<close>) and how it changes the coordinators' registries
  (\<open>registered\<close>).
\<close>

section \<open>How the log evolves\<close>

abbreviation durable_set :: "memory_log \<Rightarrow> memory_log_record set" where
  "durable_set l \<equiv> set (memory_log_durable_records l)"

text \<open>A position value that no later append can be given; likewise an epoch.\<close>

definition position_spent :: "memory_log \<Rightarrow> u64 \<Rightarrow> bool" where
  "position_spent l v = (\<forall>n. ml_next_position l = Some n \<longrightarrow> v < n)"

definition epoch_spent :: "memory_log \<Rightarrow> u64 \<Rightarrow> bool" where
  "epoch_spent l v = (\<forall>n. ml_next_epoch l = Some n \<longrightarrow> v < n)"

text \<open>
  From \<open>l\<close> to \<open>l'\<close> nothing durable is lost, what is spent stays spent, and at most one record was
  appended, at an unspent position and of the kind \<open>K\<close>.
\<close>

definition log_evolves :: "memory_record_kind option \<Rightarrow> memory_log \<Rightarrow> memory_log \<Rightarrow> bool" where
  "log_evolves K l l' =
     (memory_log_inv l' \<and> ml_lineage l' = ml_lineage l
      \<and> durable_set l \<subseteq> durable_set l'
      \<and> (\<forall>v. position_spent l v \<longrightarrow> position_spent l' v)
      \<and> (\<forall>v. epoch_spent l v \<longrightarrow> epoch_spent l' v)
      \<and> (\<exists>r. set (ml_records l') \<subseteq> insert r (set (ml_records l)) \<and>
          (r \<in> set (ml_records l') \<longrightarrow> r \<in> set (ml_records l)
            \<or> (K = Some (mr_kind r) \<and> \<not> position_spent l (mr_value r)))))"

lemma log_evolves_inv: "log_evolves K l l' \<Longrightarrow> memory_log_inv l'"
  and log_evolves_lineage: "log_evolves K l l' \<Longrightarrow> ml_lineage l' = ml_lineage l"
  and log_evolves_durable: "log_evolves K l l' \<Longrightarrow> r \<in> durable_set l \<Longrightarrow> r \<in> durable_set l'"
  and log_evolves_position: "log_evolves K l l' \<Longrightarrow> position_spent l v \<Longrightarrow> position_spent l' v"
  and log_evolves_epoch: "log_evolves K l l' \<Longrightarrow> epoch_spent l v \<Longrightarrow> epoch_spent l' v"
  by (auto simp: log_evolves_def)

lemma log_evolves_record:
  assumes "log_evolves K l l'" and "r \<in> set (ml_records l')" and "r \<notin> set (ml_records l)"
  shows "K = Some (mr_kind r)" and "\<not> position_spent l (mr_value r)"
    and "\<And>q. q \<in> set (ml_records l') \<Longrightarrow> q \<notin> set (ml_records l) \<Longrightarrow> q = r"
proof -
  obtain x where x: "set (ml_records l') \<subseteq> insert x (set (ml_records l))"
    "x \<in> set (ml_records l') \<longrightarrow> x \<in> set (ml_records l)
      \<or> (K = Some (mr_kind x) \<and> \<not> position_spent l (mr_value x))"
    using assms(1) by (auto simp: log_evolves_def)
  from x(1) assms(2,3) have "r = x" by blast
  with x(2) assms(2,3) show "K = Some (mr_kind r)" "\<not> position_spent l (mr_value r)" by blast+
  show "q = r" if "q \<in> set (ml_records l')" "q \<notin> set (ml_records l)" for q
    using that x(1) \<open>r = x\<close> by blast
qed

lemma log_evolves_old:
  assumes "log_evolves K l l'" and "r \<in> set (ml_records l')" and "position_spent l (mr_value r)"
  shows "r \<in> set (ml_records l)"
  using assms log_evolves_record by blast

lemma log_evolvesI:
  assumes "memory_log_inv l'" and "ml_lineage l' = ml_lineage l" and "durable_set l \<subseteq> durable_set l'"
    and "set (ml_records l') \<subseteq> set (ml_records l)"
    and "ml_next_position l' = ml_next_position l" and "\<And>v. epoch_spent l v \<Longrightarrow> epoch_spent l' v"
  shows "log_evolves K l l'"
  using assms by (auto simp: log_evolves_def position_spent_def)

lemma log_evolves_refl [intro]: "memory_log_inv l \<Longrightarrow> log_evolves K l l"
  by (rule log_evolvesI) auto

text \<open>The durable and the spent parts only matter up to a fault bit.\<close>

lemma durable_set_alt: "durable_set l = set (take (ml_durable_len l) (ml_records l))"
  by (simp add: memory_log_durable_records_def)

lemma append_evolves:
  assumes "memory_log_inv l" and "memory_log_append_record reserve k l = (res, l')"
  shows "log_evolves (Some k) l l'"
  using assms(2)
proof (cases rule: append_record_cases)
  case (unchanged e)
  with assms memory_append_inv [OF assms] show ?thesis
    by (intro log_evolvesI) (auto simp: same_durable_part_def durable_set_alt epoch_spent_def)
next
  case (appended n)
  let ?r = "\<lparr>mr_position = lineage_position (ml_lineage l) n, mr_kind = k\<rparr>"
  have fresh: "\<not> position_spent l (mr_value ?r)" using appended(2) by (simp add: position_spent_def)
  have "position_spent l' v" if "position_spent l v" for v
    unfolding position_spent_def
  proof (intro allI impI)
    fix m
    assume "ml_next_position l' = Some m"
    then have "n < m" using checked_add_one_less [of n m] appended(4) by simp
    with that appended(2) show "v < m" by (auto simp: position_spent_def)
  qed
  moreover have "durable_set l \<subseteq> durable_set l'"
    using appended(1,3) memory_log_invD(1) [OF assms(1)] by (simp add: same_durable_part_def durable_set_alt)
  ultimately show ?thesis
    using appended(1,3) fresh memory_append_inv [OF assms]
    by (auto simp: log_evolves_def same_durable_part_def epoch_spent_def)
qed

lemma flush_evolves:
  assumes "memory_log_inv l" and "memory_flush_through p l = (res, l')"
  shows "log_evolves K l l'"
proof (rule log_evolvesI)
  show "durable_set l \<subseteq> durable_set l'"
    using assms(2)
  proof (cases rule: flush_cases)
    case (flushed i f)
    then show ?thesis
      using take_durable_mono [of "ml_durable_len l" "Suc i" _ "ml_records l"] by (auto simp: durable_set_alt)
  qed (auto simp: durable_set_alt)
qed (use flush_laws [OF assms] in \<open>auto simp: epoch_spent_def\<close>)

lemma log_evolves_trans_flush:
  assumes "log_evolves K l l1" and "memory_flush_through p l1 = (res, l')"
  shows "log_evolves K l l'"
proof -
  note inv1 = log_evolves_inv [OF assms(1)]
  from flush_evolves [OF inv1 assms(2), of None] flush_laws(3) [OF inv1 assms(2)] assms(1)
  show ?thesis by (auto simp: log_evolves_def)
qed

lemma restart_evolves: "memory_log_inv l \<Longrightarrow> log_evolves K l (memory_log_restart l)"
proof (rule log_evolvesI)
  assume inv: "memory_log_inv l"
  show "memory_log_inv (memory_log_restart l)" by (rule restart_laws(1) [OF inv])
qed (auto simp: memory_log_restart_def durable_set_alt epoch_spent_def dest: in_set_takeD)

lemma reopen_evolves:
  assumes "memory_log_inv l" and "memory_log_reopen l = (res, l')"
  shows "log_evolves K l l'"
  using reopen_is_restart [OF assms] restart_evolves [OF assms(1)] assms(1) by auto

lemma arm_fault_evolves:
  assumes "memory_log_inv l" and "memory_log_arm_fault f l = (res, l')"
  shows "log_evolves K l l'"
proof -
  have "\<exists>g. l' = l\<lparr>ml_armed_fault := g\<rparr>"
    using assms(2) by (cases l) (auto simp: memory_log_arm_fault_def split: option.splits)
  with assms(1) show ?thesis
    by (intro log_evolvesI) (auto simp: memory_log_inv_def durable_set_alt epoch_spent_def)
qed

lemma epoch_evolves:
  assumes "memory_log_inv l" and "memory_allocate_epoch l = (res, l')"
  shows "log_evolves K l l'"
  using assms
proof (cases rule: allocate_epoch_cases)
  case (exhausted e)
  with assms(1) show ?thesis by auto
next
  case (allocated e)
  from allocated(5) have "epoch_spent l v \<Longrightarrow> epoch_spent l' v" for v
    using allocated(2) by (auto simp: epoch_spent_def dest: less_trans)
  with allocated(3,4) show ?thesis by (intro log_evolvesI) (auto simp: durable_set_alt)
qed

lemma commit_evolves:
  assumes "memory_log_inv l"
    and "commit_durability (memory_transaction_log reserve) r f l = (out, l')"
  shows "log_evolves (Some (MemTransactionCommit (commit_record_id r))) l l'"
proof -
  let ?port = "memory_transaction_log reserve"
  have app: "log_evolves (Some (MemTransactionCommit (commit_record_id r))) l l1"
    if "port_append_commit ?port r l = (a, l1)" for a l1
    using that append_evolves [OF assms(1)] by (simp add: memory_transaction_log_def memory_append_commit_def)
  have flush: "log_evolves (Some (MemTransactionCommit (commit_record_id r))) l l2"
    if "port_append_commit ?port r l = (a, l1)" and "port_flush_through ?port p l1 = (b, l2)" for a l1 p b l2
    using log_evolves_trans_flush [OF app [OF that(1)]] that(2) by (simp add: memory_transaction_log_def)
  show ?thesis
  proof (cases out)
    case (Inl e)
    from assms(2) [unfolded Inl] show ?thesis
      by (cases rule: commit_durability_Inl) (auto dest: app flush)
  next
    case (Inr x)
    from assms(2) [unfolded Inr] show ?thesis by (rule commit_durability_Inr) (auto dest: app flush)
  qed
qed

section \<open>The coordinators' registries\<close>

definition registered :: "transaction_coordinator list \<Rightarrow> transaction_token_id \<Rightarrow> transaction_lifecycle_status \<Rightarrow> bool" where
  "registered cs t st = (\<exists>c \<in> set cs. tc_lifecycles c t = Some st)"

definition registry_ok :: "transaction_coordinator \<Rightarrow> bool" where
  "registry_ok c = (\<forall>t st. tc_lifecycles c t = Some st \<longrightarrow>
     tt_epoch t = tc_epoch c \<and> st \<noteq> StCommitAttempted \<and> 0 < tt_sequence t
     \<and> (\<forall>n. tc_next_transaction_id c = Some n \<longrightarrow> tt_sequence t < n))"

definition coordinators_inv :: "memory_log \<Rightarrow> transaction_coordinator list \<Rightarrow> bool" where
  "coordinators_inv l cs =
     ((\<forall>i < length cs. tc_identity (cs ! i) = i)
      \<and> (\<forall>c \<in> set cs. tc_log_lineage c = ml_lineage l \<and> 0 < epoch_get (tc_epoch c)
           \<and> epoch_spent l (epoch_get (tc_epoch c)) \<and> registry_ok c
           \<and> (\<forall>n. tc_next_transaction_id c = Some n \<longrightarrow> 0 < n))
      \<and> distinct (map tc_epoch cs))"

lemma coordinators_invD:
  assumes "coordinators_inv l cs"
  shows "i < length cs \<Longrightarrow> tc_identity (cs ! i) = i"
    and "i < length cs \<Longrightarrow> tc_log_lineage (cs ! i) = ml_lineage l"
    and "i < length cs \<Longrightarrow> registry_ok (cs ! i)"
    and "c \<in> set cs \<Longrightarrow> registry_ok c"
    and "distinct (map tc_epoch cs)"
  using assms by (auto simp: coordinators_inv_def)

lemma coordinators_inv_evolves:
  assumes "coordinators_inv l cs" and "log_evolves K l l'"
  shows "coordinators_inv l' cs"
  using assms(1) log_evolves_lineage [OF assms(2)] log_evolves_epoch [OF assms(2)]
  by (simp add: coordinators_inv_def)

lemma registered_epoch:
  assumes "coordinators_inv l cs" and "i < length cs" and "tc_lifecycles c t = Some st" and "c \<in> set cs"
    and "tt_epoch t = tc_epoch (cs ! i)"
  shows "c = cs ! i"
proof -
  have "tc_epoch c = tc_epoch (cs ! i)"
    using coordinators_invD(4) [OF assms(1,4)] assms(3,5) by (auto simp: registry_ok_def)
  moreover have "inj_on tc_epoch (set cs)"
    using coordinators_invD(5) [OF assms(1)] by (simp add: distinct_map)
  ultimately show ?thesis using assms(2,4) by (simp add: inj_on_eq_iff)
qed

lemma registered_in:
  assumes "coordinators_inv l cs" and "i < length cs" and "tt_epoch t = tc_epoch (cs ! i)"
  shows "registered cs t st \<longleftrightarrow> tc_lifecycles (cs ! i) t = Some st"
proof
  assume "registered cs t st"
  then obtain c where c: "c \<in> set cs" "tc_lifecycles c t = Some st" by (auto simp: registered_def)
  with registered_epoch [OF assms(1,2) c(2,1) assms(3)] show "tc_lifecycles (cs ! i) t = Some st" by simp
qed (use assms(2) in \<open>auto simp: registered_def\<close>)

lemma registered_unique:
  assumes "coordinators_inv l cs" and "registered cs t x" and "registered cs t y"
  shows "x = y"
proof -
  from assms(2) obtain c where c: "c \<in> set cs" "tc_lifecycles c t = Some x" by (auto simp: registered_def)
  then obtain i where i: "i < length cs" "c = cs ! i" by (auto simp: in_set_conv_nth)
  have "tt_epoch t = tc_epoch (cs ! i)"
    using coordinators_invD(3) [OF assms(1) i(1)] c i by (auto simp: registry_ok_def)
  from registered_in [OF assms(1) i(1) this] c i assms(3) show ?thesis by auto
qed

lemma registered_not_attempted: "coordinators_inv l cs \<Longrightarrow> \<not> registered cs t StCommitAttempted"
  by (auto simp: registered_def registry_ok_def coordinators_inv_def)

text \<open>The parts of a coordinator an operation on a registered transaction never changes.\<close>

definition same_coordinator :: "transaction_coordinator \<Rightarrow> transaction_coordinator \<Rightarrow> bool" where
  "same_coordinator c c' = (tc_identity c' = tc_identity c \<and> tc_log_lineage c' = tc_log_lineage c
     \<and> tc_epoch c' = tc_epoch c \<and> tc_next_transaction_id c' = tc_next_transaction_id c)"

lemma map_epoch_update:
  "i < length cs \<Longrightarrow> tc_epoch c' = tc_epoch (cs ! i) \<Longrightarrow> map tc_epoch (cs[i := c']) = map tc_epoch cs"
  by (metis list_update_id map_update nth_map)

lemma update_coordinators_inv:
  assumes "coordinators_inv l cs" and "i < length cs" and "tc_identity c' = i"
    and "tc_log_lineage c' = ml_lineage l" and "tc_epoch c' = tc_epoch (cs ! i)" and "registry_ok c'"
    and "\<forall>n. tc_next_transaction_id c' = Some n \<longrightarrow> 0 < n"
  shows "coordinators_inv l (cs[i := c'])"
proof -
  have "0 < epoch_get (tc_epoch c') \<and> epoch_spent l (epoch_get (tc_epoch c'))"
    using assms(1,2,5) by (auto simp: coordinators_inv_def)
  with assms map_epoch_update [OF assms(2,5)] show ?thesis
    using set_update_subset_insert [of cs i c']
    by (auto simp: coordinators_inv_def nth_list_update dest!: subsetD)
qed

lemma update_registered:
  assumes "coordinators_inv l cs" and "i < length cs"
  shows "registered (cs[i := c']) u x \<longleftrightarrow>
    tc_lifecycles c' u = Some x \<or> (\<exists>c \<in> set cs. c \<noteq> cs ! i \<and> tc_lifecycles c u = Some x)"
proof -
  have "distinct cs" using coordinators_invD(5) [OF assms(1)] by (simp add: distinct_map)
  from set_update_distinct [OF this assms(2), of c'] show ?thesis by (auto simp: registered_def)
qed

lemma same_registry:
  assumes "coordinators_inv l cs" and "i < length cs" and "same_coordinator (cs ! i) c'"
    and "tc_lifecycles c' = tc_lifecycles (cs ! i)"
  shows "coordinators_inv l (cs[i := c'])" and "registered (cs[i := c']) = registered cs"
proof -
  show "coordinators_inv l (cs[i := c'])"
    using assms coordinators_invD(1-3) [OF assms(1,2)]
    by (intro update_coordinators_inv) (auto simp: same_coordinator_def registry_ok_def coordinators_inv_def)
  show "registered (cs[i := c']) = registered cs"
    unfolding fun_eq_iff update_registered [OF assms(1,2)] using assms(2,4)
    by (auto simp: registered_def)
qed

text \<open>Setting one entry of a coordinator's registry.\<close>

lemma entry_registered:
  assumes "coordinators_inv l cs" and "i < length cs" and "tt_epoch t = tc_epoch (cs ! i)"
    and "tc_lifecycles c' = (tc_lifecycles (cs ! i))(t \<mapsto> st)"
  shows "registered (cs[i := c']) u x \<longleftrightarrow> (if u = t then x = st else registered cs u x)"
  unfolding update_registered [OF assms(1,2)]
  using registered_epoch [OF assms(1,2) _ _ assms(3)] assms(2,4) by (auto simp: registered_def)

lemma status_change:
  assumes "coordinators_inv l cs" and "i < length cs" and "same_coordinator (cs ! i) c'"
    and "tc_lifecycles c' = (tc_lifecycles (cs ! i))(t \<mapsto> st)"
    and "tc_lifecycles (cs ! i) t = Some old" and "st \<noteq> StCommitAttempted"
  shows "coordinators_inv l (cs[i := c'])"
    and "registered (cs[i := c']) u x \<longleftrightarrow> (if u = t then x = st else registered cs u x)"
    and "registered cs t x \<longleftrightarrow> x = old"
proof -
  have reg: "registry_ok (cs ! i)" by (rule coordinators_invD(3) [OF assms(1,2)])
  then have t: "tt_epoch t = tc_epoch (cs ! i)" using assms(5) by (simp add: registry_ok_def)
  have "registry_ok c'"
    using reg assms(3-6) by (auto simp: registry_ok_def same_coordinator_def)
  then show "coordinators_inv l (cs[i := c'])"
    using assms coordinators_invD(1-3) [OF assms(1,2)]
    by (intro update_coordinators_inv) (auto simp: same_coordinator_def coordinators_inv_def)
  show "registered (cs[i := c']) u x \<longleftrightarrow> (if u = t then x = st else registered cs u x)"
    by (rule entry_registered [OF assms(1,2) t assms(4)])
  show "registered cs t x \<longleftrightarrow> x = old" using registered_in [OF assms(1,2) t] assms(5) by auto
qed

text \<open>
  The lifecycle only moves forward: an active transaction may go anywhere, an indeterminate one is
  resolved once, and every other status is final.
\<close>

definition lifecycle_step :: "transaction_lifecycle_status \<Rightarrow> transaction_lifecycle_status \<Rightarrow> bool" where
  "lifecycle_step st st' = (st' = st \<or> st = StActive
     \<or> (st = StIndeterminate \<and> (st' = StCommitted \<or> st' = StNoDurableCommitRecord)))"

definition registry_evolves :: "transaction_coordinator list \<Rightarrow> transaction_coordinator list \<Rightarrow> bool" where
  "registry_evolves cs cs' = (length cs \<le> length cs'
     \<and> (\<forall>i < length cs. \<forall>t st. tc_lifecycles (cs ! i) t = Some st \<longrightarrow>
          (\<exists>st'. tc_lifecycles (cs' ! i) t = Some st' \<and> lifecycle_step st st')))"

lemma registry_evolves_refl [intro]: "registry_evolves cs cs"
  by (auto simp: registry_evolves_def lifecycle_step_def)

lemma registry_evolves_append: "registry_evolves cs (cs @ [c])"
  by (auto simp: registry_evolves_def nth_append lifecycle_step_def)

lemma registry_evolves_same:
  "i < length cs \<Longrightarrow> tc_lifecycles c' = tc_lifecycles (cs ! i) \<Longrightarrow> registry_evolves cs (cs[i := c'])"
  by (auto simp: registry_evolves_def nth_list_update lifecycle_step_def)

lemma registry_evolves_change:
  assumes "i < length cs" and "tc_lifecycles c' = (tc_lifecycles (cs ! i))(t \<mapsto> st)"
    and "\<And>old. tc_lifecycles (cs ! i) t = Some old \<Longrightarrow> lifecycle_step old st"
  shows "registry_evolves cs (cs[i := c'])"
  using assms by (auto simp: registry_evolves_def nth_list_update lifecycle_step_def)

lemma registry_evolves_final:
  assumes "registry_evolves cs cs'" and "registered cs t st"
    and "st \<noteq> StActive" and "st \<noteq> StIndeterminate"
  shows "registered cs' t st"
proof -
  from assms(2) obtain i where i: "i < length cs" "tc_lifecycles (cs ! i) t = Some st"
    by (auto simp: registered_def in_set_conv_nth)
  with assms(1,3,4) have "tc_lifecycles (cs' ! i) t = Some st" "i < length cs'"
    by (auto simp: registry_evolves_def lifecycle_step_def dest!: spec)
  then show ?thesis by (auto simp: registered_def)
qed

section \<open>What an append leaves at its position\<close>

lemma append_position_ok:
  assumes "memory_log_inv l" and "memory_log_append_record reserve k l = (Inr p, l')"
  shows "position_spent l' (lsn_value p) \<and> 0 < lsn_value p \<and> lsn_lineage p = ml_lineage l
    \<and> (\<forall>r \<in> set (ml_records l'). mr_position r = p \<longrightarrow> mr_kind r = k)"
  using assms(2)
proof (cases rule: append_record_cases)
  case (appended n)
  then have p: "p = lineage_position (ml_lineage l) n" by simp
  have "position_spent l' n"
    using appended(4) checked_add_one_less(1) [of n] by (auto simp: position_spent_def)
  moreover have "mr_position r \<noteq> p" if "r \<in> set (ml_records l)" for r
    using memory_log_invD(5) [OF assms(1) appended(2) that] p by auto
  ultimately show ?thesis
    using memory_log_invD(6) [OF assms(1) appended(2)] by (auto simp: p appended(3))
qed simp

lemma lookup_keeps: "snd (memory_lookup_durable_commit t l) = l"
  by (cases "lookup_scan t (ml_durable_len l) 0 None (ml_records l)")
    (auto simp: memory_lookup_durable_commit_def split: option.splits bool.splits)

end
