(* ===== verification/Runtime_Preserves.thy ===== *)
theory Runtime_Preserves
  imports Runtime_Invariant
begin

text \<open>
  The invariant of the storage runtime and its preservation by every action: commit records and
  the registries agree, every token still means what it meant when it was issued, and the page
  store holds only what the durable log backs.
\<close>

section \<open>The invariant\<close>

text \<open>
  A commit record belongs to a transaction that reached the commit fence, a transaction registered
  as committed has a durable one, and no transaction has two.
\<close>

definition commits_inv :: "memory_log \<Rightarrow> transaction_coordinator list \<Rightarrow> bool" where
  "commits_inv l cs =
     ((\<forall>r \<in> set (ml_records l). \<forall>t. mr_kind r = MemTransactionCommit t \<longrightarrow>
         registered cs t StCommitted \<or> registered cs t StIndeterminate)
      \<and> (\<forall>t. registered cs t StCommitted \<longrightarrow> (\<exists>r \<in> durable_set l. mr_kind r = MemTransactionCommit t))
      \<and> (\<forall>r \<in> set (ml_records l). \<forall>q \<in> set (ml_records l). \<forall>t.
           mr_kind r = MemTransactionCommit t \<and> mr_kind q = MemTransactionCommit t \<longrightarrow> r = q))"

definition dirty_record :: "dirty_page \<Rightarrow> memory_page_write_record" where
  "dirty_record d = \<lparr>mp_page_number = pa_number (dp_address d), mp_page_version = dp_version d,
     mp_bytes = image_bytes (dp_image d)\<rparr>"

text \<open>What a page token asserts of the log: its position is spent and only its own record can be there.\<close>

definition page_token_ok :: "memory_log \<Rightarrow> memory_record_kind \<Rightarrow> dirty_page \<Rightarrow> bool" where
  "page_token_ok l k d =
     (position_spent l (lsn_value (dp_required_position d)) \<and> 0 < lsn_value (dp_required_position d)
      \<and> lsn_lineage (dp_required_position d) = ml_lineage l
      \<and> pa_lineage (dp_address d) = ml_lineage l
      \<and> (\<forall>r \<in> set (ml_records l). mr_position r = dp_required_position d \<longrightarrow> mr_kind r = k))"

abbreviation staged_kind :: "transaction_dirty_page \<Rightarrow> memory_record_kind" where
  "staged_kind td \<equiv> MemTransactionPageWrite
     \<lparr>mt_transaction_id = td_transaction_id td, mt_page = dirty_record (td_dirty td)\<rparr>"

definition committed_ok :: "memory_log \<Rightarrow> committed_transaction \<Rightarrow> bool" where
  "committed_ok l ct = (\<lparr>mr_position = ct_log_position ct,
     mr_kind = MemTransactionCommit (ct_transaction_id ct)\<rparr> \<in> durable_set l)"

definition stored_ok :: "memory_log \<Rightarrow> page_number \<Rightarrow> stored_image \<Rightarrow> bool" where
  "stored_ok l n img = (case img of (version, bytes, position) \<Rightarrow>
     \<exists>r \<in> durable_set l. mr_position r = position
       \<and> kind_page_write (mr_kind r) = Some \<lparr>mp_page_number = n, mp_page_version = version, mp_bytes = bytes\<rparr>
       \<and> (\<forall>t. kind_page_owner (mr_kind r) = Some t \<longrightarrow>
            (\<exists>q \<in> durable_set l. mr_kind q = MemTransactionCommit t \<and> mr_value r < mr_value q)))"

definition store_inv :: "memory_log \<Rightarrow> memory_page_store \<Rightarrow> bool" where
  "store_inv l st = (memory_store_inv st \<and> mst_lineage st = ml_lineage l
     \<and> (\<forall>n img. memory_stored st n = Some img \<longrightarrow> stored_ok l n img))"

text \<open>What the tokens of a transaction assert of the registry of their coordinator.\<close>

definition active_ok :: "transaction_coordinator list \<Rightarrow> active_transaction \<Rightarrow> bool" where
  "active_ok cs t = (at_coordinator_identity t < length cs
     \<and> tc_lifecycles (cs ! at_coordinator_identity t) (at_transaction_id t) \<noteq> None)"

definition indeterminate_ok ::
  "memory_log \<Rightarrow> transaction_coordinator list \<Rightarrow> indeterminate_transaction \<Rightarrow> bool" where
  "indeterminate_ok l cs t = (it_coordinator_identity t < length cs \<and> it_log_lineage t = ml_lineage l
     \<and> (\<exists>st. tc_lifecycles (cs ! it_coordinator_identity t) (it_transaction_id t) = Some st
          \<and> lifecycle_step StIndeterminate st))"

definition known :: "transaction_coordinator list \<Rightarrow> transaction_token_id \<Rightarrow> bool" where
  "known cs t = (\<exists>st. registered cs t st)"

definition tokens_inv :: "runtime \<Rightarrow> bool" where
  "tokens_inv s =
     ((\<forall>t \<in> rt_active s. active_ok (rt_coordinators s) t)
      \<and> (\<forall>t \<in> rt_indeterminate s. indeterminate_ok (rt_log s) (rt_coordinators s) t)
      \<and> (\<forall>ct \<in> rt_committed s. committed_ok (rt_log s) ct
           \<and> registered (rt_coordinators s) (ct_transaction_id ct) StCommitted)
      \<and> (\<forall>n \<in> rt_absent s. registered (rt_coordinators s) (absent_transaction_id n) StNoDurableCommitRecord)
      \<and> (\<forall>td \<in> rt_staged s. page_token_ok (rt_log s) (staged_kind td) (td_dirty td)
           \<and> known (rt_coordinators s) (td_transaction_id td))
      \<and> (\<forall>d \<in> rt_dirty s. page_token_ok (rt_log s) (MemPageWrite (dirty_record d)) d))"

definition runtime_inv :: "runtime \<Rightarrow> bool" where
  "runtime_inv s =
     (memory_log_inv (rt_log s) \<and> coordinators_inv (rt_log s) (rt_coordinators s)
      \<and> commits_inv (rt_log s) (rt_coordinators s) \<and> store_inv (rt_log s) (rt_store s) \<and> tokens_inv s)"

section \<open>What survives an evolution of the log\<close>

lemma committed_ok_evolves: "committed_ok l ct \<Longrightarrow> log_evolves K l l' \<Longrightarrow> committed_ok l' ct"
  by (auto simp: committed_ok_def dest: log_evolves_durable)

lemma stored_ok_evolves: "stored_ok l n img \<Longrightarrow> log_evolves K l l' \<Longrightarrow> stored_ok l' n img"
  unfolding stored_ok_def by (cases img) (force dest: log_evolves_durable)

lemma store_inv_evolves: "store_inv l st \<Longrightarrow> log_evolves K l l' \<Longrightarrow> store_inv l' st"
  using stored_ok_evolves [of l _ _ K l'] by (simp add: store_inv_def log_evolves_lineage)

lemma page_token_evolves:
  assumes "page_token_ok l k d" and "log_evolves K l l'"
  shows "page_token_ok l' k d"
proof -
  have "mr_kind r = k" if "r \<in> set (ml_records l')" "mr_position r = dp_required_position d" for r
    using that assms log_evolves_old [OF assms(2) that(1)] by (simp add: page_token_ok_def)
  with assms show ?thesis
    by (auto simp: page_token_ok_def log_evolves_lineage log_evolves_position)
qed

lemma commits_inv_evolves:
  assumes "commits_inv l cs" and "log_evolves K l l'" and "\<And>t. K \<noteq> Some (MemTransactionCommit t)"
  shows "commits_inv l' cs"
proof -
  have old: "r \<in> set (ml_records l)" if "r \<in> set (ml_records l')" "mr_kind r = MemTransactionCommit t" for r t
    using that log_evolves_record(1) [OF assms(2) that(1)] assms(3) by auto
  show ?thesis
    using assms(1) old unfolding commits_inv_def
    by (meson log_evolves_durable [OF assms(2)])
qed

text \<open>Tokens under a change of the log and of the registries.\<close>

lemma active_ok_evolves: "active_ok cs t \<Longrightarrow> registry_evolves cs cs' \<Longrightarrow> active_ok cs' t"
  by (fastforce simp: active_ok_def registry_evolves_def)

lemma indeterminate_ok_evolves:
  assumes "indeterminate_ok l cs t" and "registry_evolves cs cs'" and "ml_lineage l' = ml_lineage l"
  shows "indeterminate_ok l' cs' t"
proof -
  from assms(1) obtain st where st: "it_coordinator_identity t < length cs"
    "tc_lifecycles (cs ! it_coordinator_identity t) (it_transaction_id t) = Some st"
    "lifecycle_step StIndeterminate st" by (auto simp: indeterminate_ok_def)
  with assms(2) obtain st' where "it_coordinator_identity t < length cs'"
    "tc_lifecycles (cs' ! it_coordinator_identity t) (it_transaction_id t) = Some st'"
    "lifecycle_step st st'" unfolding registry_evolves_def by (metis less_le_trans)
  with assms(1,3) st(3) show ?thesis by (auto simp: indeterminate_ok_def lifecycle_step_def)
qed

lemma known_evolves:
  assumes "known cs t" and "registry_evolves cs cs'"
  shows "known cs' t"
proof -
  from assms(1) obtain i st where i: "i < length cs" "tc_lifecycles (cs ! i) t = Some st"
    by (auto simp: known_def registered_def in_set_conv_nth)
  with assms(2) obtain st' where "i < length cs'" "tc_lifecycles (cs' ! i) t = Some st'"
    unfolding registry_evolves_def by (metis less_le_trans)
  then show ?thesis unfolding known_def registered_def using nth_mem by blast
qed

lemma tokens_inv_evolves:
  assumes "tokens_inv s" and ev: "log_evolves K (rt_log s) (rt_log s')"
    and reg: "registry_evolves (rt_coordinators s) (rt_coordinators s')"
    and "rt_active s' \<subseteq> rt_active s \<union> {t. active_ok (rt_coordinators s') t}"
    and "rt_indeterminate s' \<subseteq> rt_indeterminate s \<union> {t. indeterminate_ok (rt_log s') (rt_coordinators s') t}"
    and "rt_committed s' \<subseteq> rt_committed s
      \<union> {ct. committed_ok (rt_log s') ct \<and> registered (rt_coordinators s') (ct_transaction_id ct) StCommitted}"
    and "rt_absent s' \<subseteq> rt_absent s
      \<union> {n. registered (rt_coordinators s') (absent_transaction_id n) StNoDurableCommitRecord}"
    and "rt_staged s' \<subseteq> rt_staged s \<union> {td. page_token_ok (rt_log s') (staged_kind td) (td_dirty td)
      \<and> known (rt_coordinators s') (td_transaction_id td)}"
    and "rt_dirty s' \<subseteq> rt_dirty s \<union> {d. page_token_ok (rt_log s') (MemPageWrite (dirty_record d)) d}"
  shows "tokens_inv s'"
  unfolding tokens_inv_def
proof (intro conjI ballI)
  show "active_ok (rt_coordinators s') t" if "t \<in> rt_active s'" for t
    using that assms(1,4) active_ok_evolves [OF _ reg] by (auto simp: tokens_inv_def)
  show "indeterminate_ok (rt_log s') (rt_coordinators s') t" if "t \<in> rt_indeterminate s'" for t
    using that assms(1,5) indeterminate_ok_evolves [OF _ reg log_evolves_lineage [OF ev]]
    by (auto simp: tokens_inv_def)
  show "committed_ok (rt_log s') ct" if "ct \<in> rt_committed s'" for ct
    using that assms(1,6) committed_ok_evolves [OF _ ev] by (auto simp: tokens_inv_def)
  show "registered (rt_coordinators s') (ct_transaction_id ct) StCommitted" if "ct \<in> rt_committed s'" for ct
    using that assms(1,6) registry_evolves_final [OF reg] by (auto simp: tokens_inv_def)
  show "registered (rt_coordinators s') (absent_transaction_id n) StNoDurableCommitRecord"
    if "n \<in> rt_absent s'" for n
    using that assms(1,7) registry_evolves_final [OF reg] by (auto simp: tokens_inv_def)
  show "page_token_ok (rt_log s') (staged_kind td) (td_dirty td)" if "td \<in> rt_staged s'" for td
    using that assms(1,8) page_token_evolves [OF _ ev] by (auto simp: tokens_inv_def)
  show "known (rt_coordinators s') (td_transaction_id td)" if "td \<in> rt_staged s'" for td
    using that assms(1,8) known_evolves [OF _ reg] by (auto simp: tokens_inv_def)
  show "page_token_ok (rt_log s') (MemPageWrite (dirty_record d)) d" if "d \<in> rt_dirty s'" for d
    using that assms(1,9) page_token_evolves [OF _ ev] by (auto simp: tokens_inv_def)
qed

text \<open>An action that only evolves the log, with no commit record.\<close>

lemma runtime_invD:
  assumes "runtime_inv s"
  shows "memory_log_inv (rt_log s)" and "coordinators_inv (rt_log s) (rt_coordinators s)"
    and "commits_inv (rt_log s) (rt_coordinators s)" and "store_inv (rt_log s) (rt_store s)"
    and "tokens_inv s"
  using assms by (simp_all add: runtime_inv_def)

lemma log_action_inv:
  assumes "runtime_inv s" and ev: "log_evolves K (rt_log s) l" and "\<And>t. K \<noteq> Some (MemTransactionCommit t)"
  shows "runtime_inv (s\<lparr>rt_log := l\<rparr>)"
proof -
  note inv = runtime_invD [OF assms(1)]
  have "tokens_inv (s\<lparr>rt_log := l\<rparr>)"
    by (rule tokens_inv_evolves [OF inv(5), of K]) (use ev in auto)
  with log_evolves_inv [OF ev] coordinators_inv_evolves [OF inv(2) ev]
    commits_inv_evolves [OF inv(3) ev assms(3)] store_inv_evolves [OF inv(4) ev]
  show ?thesis by (simp add: runtime_inv_def)
qed

section \<open>The actions on the log and the registries\<close>

lemma commits_inv_registered:
  assumes "commits_inv l cs" and "\<And>t. registered cs' t StCommitted \<longleftrightarrow> registered cs t StCommitted"
    and "\<And>t. registered cs t StIndeterminate \<Longrightarrow> registered cs' t StIndeterminate"
  shows "commits_inv l cs'"
  using assms unfolding commits_inv_def by blast

lemma install_same:
  "i < length (rt_coordinators s) \<Longrightarrow> install i (rt_coordinators s ! i) (rt_log s) s = s"
  by (cases s) (simp add: install_def)

lemma install_sel [simp]:
  "rt_log (install i c l s) = l" "rt_store (install i c l s) = rt_store s"
  "rt_coordinators (install i c l s) = (rt_coordinators s)[i := c]"
  "rt_active (install i c l s) = rt_active s" "rt_indeterminate (install i c l s) = rt_indeterminate s"
  "rt_committed (install i c l s) = rt_committed s" "rt_absent (install i c l s) = rt_absent s"
  "rt_staged (install i c l s) = rt_staged s" "rt_dirty (install i c l s) = rt_dirty s"
  by (simp_all add: install_def)

lemma open_inv:
  assumes "runtime_inv s"
  shows "runtime_inv (runtime_exec reserve OpenCoordinator s)"
proof -
  note inv = runtime_invD [OF assms]
  obtain a l where a: "memory_allocate_epoch (rt_log s) = (a, l)" by (metis prod.collapse)
  note ev = epoch_evolves [OF inv(1) a]
  from inv(1) a show ?thesis
  proof (cases rule: allocate_epoch_cases)
    case (exhausted e)
    with a have "runtime_exec reserve OpenCoordinator s = s\<lparr>rt_log := l\<rparr>"
      by (simp add: coordinator_open_def memory_epoch_source_def)
    with log_action_inv [OF assms ev [of None]] show ?thesis by simp
  next
    case (allocated e)
    let ?c = "from_allocated_epoch (length (rt_coordinators s)) e (ml_lineage (rt_log s))"
    let ?s = "s\<lparr>rt_log := l, rt_coordinators := rt_coordinators s @ [?c]\<rparr>"
    have exec: "runtime_exec reserve OpenCoordinator s = ?s"
      using a allocated(1) by (simp add: coordinator_open_def memory_epoch_source_def)
    have e: "0 < e" "\<not> epoch_spent (rt_log s) e" "epoch_spent l e"
      using inv(1) allocated(2,5) by (auto simp: memory_log_inv_def epoch_spent_def)
    have "tc_epoch c \<noteq> TransactionEpoch e" if "c \<in> set (rt_coordinators s)" for c
      using that inv(2) e(2) by (cases "tc_epoch c") (auto simp: coordinators_inv_def)
    then have "TransactionEpoch e \<notin> tc_epoch ` set (rt_coordinators s)" by (metis imageE)
    then have new: "tc_epoch ?c \<notin> set (map tc_epoch (rt_coordinators s))"
      by (simp add: from_allocated_epoch_def)
    have "coordinators_inv l (rt_coordinators ?s)"
      using coordinators_inv_evolves [OF inv(2) ev [of None]] new e(1,3) allocated(3)
      by (auto simp: coordinators_inv_def nth_append less_Suc_eq from_allocated_epoch_def registry_ok_def
          log_evolves_lineage [OF ev])
    moreover have reg: "registered (rt_coordinators ?s) = registered (rt_coordinators s)"
      by (auto simp: fun_eq_iff registered_def from_allocated_epoch_def)
    moreover have "commits_inv l (rt_coordinators ?s)"
      by (rule commits_inv_registered [OF commits_inv_evolves [OF inv(3) ev [of None]]]) (simp_all only: reg option.distinct not_False_eq_True)
    moreover have "tokens_inv ?s"
      by (rule tokens_inv_evolves [OF inv(5), of None]) (use ev registry_evolves_append in auto)
    ultimately show ?thesis
      using allocated(4) store_inv_evolves [OF inv(4) ev [of None]] unfolding exec runtime_inv_def by simp
  qed
qed

lemma begin_inv:
  assumes "runtime_inv s" and i: "i < length (rt_coordinators s)"
  shows "runtime_inv (runtime_exec reserve (BeginTransaction i) s)"
proof -
  note inv = runtime_invD [OF assms(1)]
  obtain a c' where a: "coordinator_begin (rt_coordinators s ! i) = (a, c')" by (metis prod.collapse)
  from a show ?thesis
  proof (cases rule: coordinator_begin_cases)
    case (failed e)
    with a assms show ?thesis by (simp add: install_same)
  next
    case (begun n)
    let ?c = "rt_coordinators s ! i" and ?cs = "(rt_coordinators s)[i := c']"
    let ?t = "\<lparr>tt_epoch = tc_epoch ?c, tt_sequence = n\<rparr>"
    let ?s = "(install i c' (rt_log s) s)\<lparr>rt_active := insert
      \<lparr>at_transaction_id = ?t, at_coordinator_identity = tc_identity ?c\<rparr> (rt_active s)\<rparr>"
    note reg = entry_registered [OF inv(2) i, of ?t c' StActive]
    have reg: "registered ?cs u x \<longleftrightarrow> (if u = ?t then x = StActive else registered (rt_coordinators s) u x)" for u x
      by (rule reg) (simp_all add: begun(4))
    have old: "\<not> registered (rt_coordinators s) ?t x" for x
      using registered_in [OF inv(2) i, of ?t x] begun(2) by simp
    have "0 < n" using inv(2) i begun(1) by (auto simp: coordinators_inv_def)
    have next': "n < m" if "tc_next_transaction_id c' = Some m" for m
      using that next_epoch_after [of n m] by (simp add: begun(4))
    have ok: "registry_ok ?c" by (rule coordinators_invD(3) [OF inv(2) i])
    have "tt_sequence u < m" if "tc_lifecycles ?c u = Some st" "tc_next_transaction_id c' = Some m" for u st m
      using ok that(1) begun(1) by (intro less_trans [OF _ next' [OF that(2)]]) (simp add: registry_ok_def)
    with ok \<open>0 < n\<close> next' have "registry_ok c'" by (auto simp: registry_ok_def begun(4))
    then have "coordinators_inv (rt_log s) ?cs"
      using coordinators_invD(1,2) [OF inv(2) i] next_epoch_after [of n]
      by (intro update_coordinators_inv [OF inv(2) i]) (auto simp: begun(4))
    moreover have "commits_inv (rt_log s) ?cs"
      by (rule commits_inv_registered [OF inv(3)]) (auto simp: reg old)
    moreover have "tokens_inv ?s"
    proof (rule tokens_inv_evolves [OF inv(5), of None])
      have "registry_evolves (rt_coordinators s) ?cs"
        by (rule registry_evolves_change [OF i, of c' ?t StActive]) (simp_all add: begun(2,4))
      then show "registry_evolves (rt_coordinators s) (rt_coordinators ?s)" by simp
      show "rt_active ?s \<subseteq> rt_active s \<union> {t. active_ok (rt_coordinators ?s) t}"
        using i coordinators_invD(1) [OF inv(2) i] by (auto simp: active_ok_def begun(4))
    qed (use inv(1) in auto)
    ultimately show ?thesis
      using inv a begun(3) by (simp add: runtime_inv_def)
  qed
qed

lemma dirty_record_unlogged:
  "dirty_record \<lparr>dp_address = up_address page, dp_version = up_version page, dp_image = up_image page,
     dp_required_position = p\<rparr> = page_record_from_unlogged page"
  by (simp add: dirty_record_def page_record_from_unlogged_def)

lemma stage_append_evolves:
  assumes "memory_log_inv l"
    and "port_append_transaction_page (memory_transaction_log reserve) w l = (a, l')"
  shows "log_evolves (Some (MemTransactionPageWrite (transaction_page_from_record w))) l l'"
    and "a = Inr p \<Longrightarrow> memory_log_append_record reserve
      (MemTransactionPageWrite (transaction_page_from_record w)) l = (Inr p, l')
      \<and> pa_lineage (up_address (tw_page w)) = ml_lineage l"
  using assms append_evolves [OF assms(1)]
  by (auto simp: memory_transaction_log_def memory_append_transaction_page_def split: if_splits)

lemma transaction_log_sel [simp]:
  "port_lineage (memory_transaction_log reserve) = ml_lineage"
  "port_flush_through (memory_transaction_log reserve) = memory_flush_through"
  by (simp_all add: memory_transaction_log_def)

lemma stage_inv:
  assumes "runtime_inv s" and i: "i < length (rt_coordinators s)" and t: "t \<in> rt_active s"
  shows "runtime_inv (runtime_exec reserve (StageTransactionPage i t page) s)"
proof -
  note inv = runtime_invD [OF assms(1)]
  let ?c = "rt_coordinators s ! i" and ?w = "\<lparr>tw_transaction_id = at_transaction_id t, tw_page = page\<rparr>"
  let ?k = "MemTransactionPageWrite (transaction_page_from_record ?w)"
  obtain a c' l where a: "coordinator_stage_page_write (memory_transaction_log reserve) t page ?c (rt_log s)
      = (a, c', l)" by (metis prod.collapse)
  from a show ?thesis
  proof (cases rule: coordinator_stage_cases)
    case (rejected r)
    with a assms show ?thesis by (simp add: install_same)
  next
    case (staged position)
    let ?d = "\<lparr>dp_address = up_address page, dp_version = up_version page, dp_image = up_image page,
        dp_required_position = position\<rparr>"
    let ?td = "\<lparr>td_transaction_id = at_transaction_id t, td_dirty = ?d\<rparr>"
    let ?s = "(install i c' l s)\<lparr>rt_active := insert t (rt_active s), rt_staged := insert ?td (rt_staged s)\<rparr>"
    note ev = stage_append_evolves(1) [OF inv(1) staged(2)]
    have app: "memory_log_append_record reserve ?k (rt_log s) = (Inr position, l)"
      "pa_lineage (up_address page) = ml_lineage (rt_log s)"
      using stage_append_evolves(2) [OF inv(1) staged(2)] by auto
    have "same_coordinator ?c c'" "tc_lifecycles c' = tc_lifecycles ?c"
      by (simp_all add: staged(6) same_coordinator_def)
    note reg = same_registry [OF inv(2) i this]
    have "page_token_ok l (staged_kind ?td) ?d"
      using append_position_ok [OF inv(1) app(1)] app(2) log_evolves_lineage [OF ev]
      by (simp add: page_token_ok_def dirty_record_unlogged transaction_page_from_record_def)
    moreover have "known (rt_coordinators ?s) (at_transaction_id t)"
    proof -
      have "c' \<in> set ((rt_coordinators s)[i := c'])" by (rule set_update_memI [OF i])
      moreover have "tc_lifecycles c' (at_transaction_id t) = Some StActive"
        using staged(1) by (simp add: staged(6))
      ultimately show ?thesis unfolding known_def registered_def by auto
    qed
    ultimately have "tokens_inv ?s"
      by (intro tokens_inv_evolves [OF inv(5), where s' = ?s])
        (use ev t i in \<open>auto intro: registry_evolves_same simp: staged(6)\<close>)
    moreover have "commits_inv l (rt_coordinators ?s)"
      by (rule commits_inv_registered [OF commits_inv_evolves [OF inv(3) ev]]) (simp_all add: reg)
    moreover have "coordinators_inv l (rt_coordinators ?s)"
      using coordinators_inv_evolves [OF reg(1) ev] by simp
    ultimately have "runtime_inv ?s"
      using log_evolves_inv [OF ev] store_inv_evolves [OF inv(4) ev] by (simp add: runtime_inv_def)
    then show ?thesis using a staged(4) by simp
  next
    case (poisoned e b)
    note ev = stage_append_evolves(1) [OF inv(1) poisoned(2)]
    have "same_coordinator ?c c'"
      "tc_lifecycles c' = (tc_lifecycles ?c)(at_transaction_id t \<mapsto> StPageAppendIndeterminate)"
      by (simp_all add: poisoned(4) same_coordinator_def)
    note reg = status_change [OF inv(2) i this poisoned(1), simplified]
    have "registry_evolves (rt_coordinators s) ((rt_coordinators s)[i := c'])"
      using poisoned(1) by (intro registry_evolves_change [OF i]) (auto simp: poisoned(4) lifecycle_step_def)
    then have "tokens_inv (install i c' l s)"
      by (intro tokens_inv_evolves [OF inv(5)]) (use ev in auto)
    moreover have "commits_inv l ((rt_coordinators s)[i := c'])"
      by (rule commits_inv_registered [OF commits_inv_evolves [OF inv(3) ev]]) (auto simp: reg)
    ultimately show ?thesis
      using log_evolves_inv [OF ev] store_inv_evolves [OF inv(4) ev] coordinators_inv_evolves [OF reg(1) ev]
        a poisoned(3) by (simp add: runtime_inv_def)
  qed
qed

lemma durable_commit_record:
  assumes "memory_log_inv l" and "memory_durable l p" and "memory_entry l p = Some k"
  shows "\<lparr>mr_position = p, mr_kind = k\<rparr> \<in> durable_set l"
proof -
  obtain r where r: "r \<in> durable_set l" "mr_position r = p" using assms(2) by (auto simp: memory_durable_def)
  then have rp: "r = \<lparr>mr_position = p, mr_kind = mr_kind r\<rparr>" by auto
  then have "memory_entry l p = Some (mr_kind r)"
    using durable_record_in [OF r(1)] by (simp add: memory_entry_iff [OF assms(1)])
  with assms(3) rp r(1) show ?thesis by simp
qed

lemma commits_invD:
  assumes "commits_inv l cs"
  shows "r \<in> set (ml_records l) \<Longrightarrow> mr_kind r = MemTransactionCommit t \<Longrightarrow>
      registered cs t StCommitted \<or> registered cs t StIndeterminate"
    and "registered cs t StCommitted \<Longrightarrow> \<exists>r \<in> durable_set l. mr_kind r = MemTransactionCommit t"
    and "r \<in> set (ml_records l) \<Longrightarrow> q \<in> set (ml_records l) \<Longrightarrow> mr_kind r = MemTransactionCommit t \<Longrightarrow>
      mr_kind q = MemTransactionCommit t \<Longrightarrow> r = q"
  using assms unfolding commits_inv_def by blast+

lemma commit_inv:
  assumes "runtime_inv s" and i: "i < length (rt_coordinators s)"
  shows "runtime_inv (runtime_exec reserve (CommitTransaction i t) s)"
proof -
  note inv = runtime_invD [OF assms(1)]
  let ?c = "rt_coordinators s ! i" and ?id = "at_transaction_id t"
  obtain a c' l where a: "coordinator_commit (memory_transaction_log reserve) t ?c (rt_log s) = (a, c', l)"
    by (metis prod.collapse)
  have fenced: "runtime_inv s'"
    if active: "tc_lifecycles ?c ?id = Some StActive" and c': "c' = set_status ?id st ?c"
      and st: "st = StCommitted \<or> st = StIndeterminate"
      and fence: "commit_durability (memory_transaction_log reserve) (TransactionCommitRecord ?id) f (rt_log s) = (out, l)"
      and durable: "st = StCommitted \<Longrightarrow> \<exists>r \<in> durable_set l. mr_kind r = MemTransactionCommit ?id"
      and s': "rt_log s' = l" "rt_coordinators s' = (rt_coordinators s)[i := c']" "rt_store s' = rt_store s"
        "rt_absent s' = rt_absent s" "rt_staged s' = rt_staged s" "rt_dirty s' = rt_dirty s"
        "rt_active s' = rt_active s"
      and ct: "rt_committed s' \<subseteq> rt_committed s
        \<union> {ct. committed_ok l ct \<and> st = StCommitted \<and> ct_transaction_id ct = ?id}"
      and it: "rt_indeterminate s' \<subseteq> rt_indeterminate s \<union> {x. st = StIndeterminate \<and> x =
        \<lparr>it_transaction_id = ?id, it_coordinator_identity = i, it_log_lineage = ml_lineage (rt_log s)\<rparr>}"
    for st f out s'
  proof -
    note ev = commit_evolves [OF inv(1) fence, simplified]
    have "same_coordinator ?c c'" "tc_lifecycles c' = (tc_lifecycles ?c)(?id \<mapsto> st)" "st \<noteq> StCommitAttempted"
      using st by (auto simp: c' same_coordinator_def)
    note reg = status_change [OF inv(2) i this(1,2) active this(3)]
    have none: "mr_kind r \<noteq> MemTransactionCommit ?id" if "r \<in> set (ml_records (rt_log s))" for r
      using commits_invD(1) [OF inv(3) that] reg(3) by blast
    have old: "r \<in> set (ml_records (rt_log s))"
      if "r \<in> set (ml_records l)" "mr_kind r = MemTransactionCommit u" "u \<noteq> ?id" for r u
      using that log_evolves_record(1) [OF ev that(1)] by auto
    have "commits_inv l ((rt_coordinators s)[i := c'])"
      unfolding commits_inv_def reg(2)
    proof (intro conjI ballI allI impI)
      fix r u assume r: "r \<in> set (ml_records l)" "mr_kind r = MemTransactionCommit u"
      show "(if u = ?id then StCommitted = st else registered (rt_coordinators s) u StCommitted)
          \<or> (if u = ?id then StIndeterminate = st else registered (rt_coordinators s) u StIndeterminate)"
        using st commits_invD(1) [OF inv(3) old [OF r] r(2)] by (cases "u = ?id") auto
    next
      fix u assume u: "if u = ?id then StCommitted = st else registered (rt_coordinators s) u StCommitted"
      show "\<exists>r\<in>durable_set l. mr_kind r = MemTransactionCommit u"
      proof (cases "u = ?id")
        case True
        with u durable show ?thesis by simp
      next
        case False
        with u commits_invD(2) [OF inv(3), of u] log_evolves_durable [OF ev] show ?thesis by auto
      qed
    next
      fix r q u assume r: "r \<in> set (ml_records l)" "q \<in> set (ml_records l)"
        and k: "mr_kind r = MemTransactionCommit u \<and> mr_kind q = MemTransactionCommit u"
      show "r = q"
      proof (cases "u = ?id")
        case True
        then have "r \<notin> set (ml_records (rt_log s))" "q \<notin> set (ml_records (rt_log s))" using k none by auto
        with log_evolves_record(3) [OF ev r(1) _ r(2)] show ?thesis by simp
      next
        case False
        with r k old commits_invD(3) [OF inv(3)] show ?thesis by blast
      qed
    qed
    moreover have "tokens_inv s'"
    proof (rule tokens_inv_evolves [OF inv(5), of "Some (MemTransactionCommit ?id)"])
      show "registry_evolves (rt_coordinators s) (rt_coordinators s')"
        unfolding s' by (rule registry_evolves_change [OF i]) (use active in \<open>auto simp: c' lifecycle_step_def\<close>)
      show "rt_indeterminate s' \<subseteq> rt_indeterminate s
          \<union> {t. indeterminate_ok (rt_log s') (rt_coordinators s') t}"
        using it i log_evolves_lineage [OF ev] by (auto simp: s' indeterminate_ok_def c' lifecycle_step_def)
    qed (use ev reg ct in \<open>auto simp: s'\<close>)
    moreover have "coordinators_inv l ((rt_coordinators s)[i := c'])"
      by (rule coordinators_inv_evolves [OF reg(1) ev])
    ultimately show ?thesis
      using log_evolves_inv [OF ev] store_inv_evolves [OF inv(4) ev] by (simp add: runtime_inv_def s')
  qed
  from a show ?thesis
  proof (cases rule: coordinator_commit_cases)
    case (rejected reason)
    with a assms show ?thesis by (simp add: install_same)
  next
    case (committed position)
    have "\<lparr>mr_position = position, mr_kind = MemTransactionCommit ?id\<rparr> \<in> durable_set l"
      using memory_commits.acknowledged_commit_durable [OF inv(1) committed(3)]
      by (simp add: durable_commit_record)
    moreover from this have "\<exists>r \<in> durable_set l. mr_kind r = MemTransactionCommit ?id"
      by (intro bexI) simp_all
    ultimately show ?thesis
      using a committed(4) by (intro fenced [OF committed(1,5) _ committed(3)]) (auto simp: committed_ok_def)
  next
    case (indeterminate e)
    have id: "at_coordinator_identity t = i" "tc_log_lineage ?c = ml_lineage (rt_log s)"
      using indeterminate(4) coordinators_invD(1,2) [OF inv(2) i] by simp_all
    show ?thesis
      using a indeterminate(3) by (intro fenced [OF indeterminate(1,6) _ indeterminate(2)])
        (auto simp: indeterminate(5) id)
  qed
qed

lemma resolve_inv:
  assumes "runtime_inv s" and i: "i < length (rt_coordinators s)"
  shows "runtime_inv (runtime_exec reserve (ResolveTransaction i t) s)"
proof -
  note inv = runtime_invD [OF assms(1)]
  let ?c = "rt_coordinators s ! i" and ?id = "it_transaction_id t"
  obtain a c' l where a: "coordinator_resolve memory_recovery_source t ?c (rt_log s) = (a, c', l)"
    by (metis prod.collapse)
  have resolved: "runtime_inv s'"
    if indeterminate: "tc_lifecycles ?c ?id = Some StIndeterminate" and c': "c' = set_status ?id st ?c"
      and committed: "st = StCommitted \<Longrightarrow> \<exists>r \<in> durable_set (rt_log s). mr_kind r = MemTransactionCommit ?id"
      and absent: "st \<noteq> StCommitted \<Longrightarrow>
        st = StNoDurableCommitRecord \<and> (\<forall>r \<in> set (ml_records (rt_log s)). mr_kind r \<noteq> MemTransactionCommit ?id)"
      and s': "rt_log s' = rt_log s" "rt_coordinators s' = (rt_coordinators s)[i := c']" "rt_store s' = rt_store s"
        "rt_staged s' = rt_staged s" "rt_dirty s' = rt_dirty s" "rt_active s' = rt_active s"
        "rt_indeterminate s' = rt_indeterminate s"
      and ct: "rt_committed s' \<subseteq> rt_committed s
        \<union> {ct. committed_ok (rt_log s) ct \<and> st = StCommitted \<and> ct_transaction_id ct = ?id}"
      and n: "rt_absent s' \<subseteq> rt_absent s \<union> {n. st = StNoDurableCommitRecord \<and> absent_transaction_id n = ?id}"
    for st s'
  proof -
    have st: "st = StCommitted \<or> st = StNoDurableCommitRecord" using absent by blast
    then have "same_coordinator ?c c'" "tc_lifecycles c' = (tc_lifecycles ?c)(?id \<mapsto> st)" "st \<noteq> StCommitAttempted"
      by (auto simp: c' same_coordinator_def)
    note reg = status_change [OF inv(2) i this(1,2) indeterminate this(3)]
    have "commits_inv (rt_log s) ((rt_coordinators s)[i := c'])"
      unfolding commits_inv_def reg(2)
    proof (intro conjI ballI allI impI)
      fix r u assume r: "r \<in> set (ml_records (rt_log s))" "mr_kind r = MemTransactionCommit u"
      show "(if u = ?id then StCommitted = st else registered (rt_coordinators s) u StCommitted)
          \<or> (if u = ?id then StIndeterminate = st else registered (rt_coordinators s) u StIndeterminate)"
        using absent r commits_invD(1) [OF inv(3) r] by (cases "u = ?id") auto
    next
      fix u assume u: "if u = ?id then StCommitted = st else registered (rt_coordinators s) u StCommitted"
      then show "\<exists>r\<in>durable_set (rt_log s). mr_kind r = MemTransactionCommit u"
        using committed commits_invD(2) [OF inv(3), of u] by (cases "u = ?id") simp_all
    qed (use commits_invD(3) [OF inv(3)] in blast)
    moreover have "tokens_inv s'"
    proof (rule tokens_inv_evolves [OF inv(5), of None])
      show "registry_evolves (rt_coordinators s) (rt_coordinators s')"
        unfolding s' by (rule registry_evolves_change [OF i])
          (use indeterminate st in \<open>auto simp: c' lifecycle_step_def\<close>)
    qed (use reg ct n in \<open>auto simp: s' inv(1)\<close>)
    ultimately show ?thesis using inv reg(1) by (simp add: runtime_inv_def s')
  qed
  from a show ?thesis
  proof (cases rule: coordinator_resolve_cases)
    case (failed f)
    then have "l = rt_log s" using lookup_keeps by (auto simp: memory_recovery_source_def)
    with failed a assms show ?thesis by (simp add: install_same)
  next
    case (committed lineage position)
    then have found: "memory_lookup_durable_commit ?id (rt_log s) = (Inr (lineage, LookupFound position), l)"
      by (simp add: memory_recovery_source_def)
    then obtain r where r: "position = mr_position r" "l = rt_log s" "r \<in> durable_set (rt_log s)"
      "mr_kind r = MemTransactionCommit ?id" by (cases rule: lookup_cases) auto
    then have "committed_ok (rt_log s) \<lparr>ct_transaction_id = ?id, ct_log_position = position\<rparr>"
      by (simp add: committed_ok_def) (metis mr_collapse)
    with r a committed(3) show ?thesis by (intro resolved [OF committed(1,4)]) auto
  next
    case (absent lineage)
    then have "memory_lookup_durable_commit ?id (rt_log s) = (Inr (lineage, LookupAbsent), l)"
      by (simp add: memory_recovery_source_def)
    then have "l = rt_log s" "\<forall>r \<in> set (ml_records (rt_log s)). mr_kind r \<noteq> MemTransactionCommit ?id"
      by (cases rule: lookup_cases; simp)+
    with a absent(3) show ?thesis by (intro resolved [OF absent(1,4)]) auto
  qed
qed

section \<open>The actions on the page store\<close>

lemma flush_page_effect:
  assumes l: "memory_log_inv l" and st: "store_inv l st"
    and flush: "flush_dirty_page (memory_transaction_log reserve) (memory_store_port reserve') d l st
      = (res, l', st')"
    and token: "page_token_ok l k d" and k: "kind_page_write k = Some (dirty_record d)"
    and owner: "\<And>t. kind_page_owner k = Some t \<Longrightarrow> \<exists>q \<in> durable_set l.
      mr_kind q = MemTransactionCommit t \<and> lsn_value (dp_required_position d) < mr_value q"
  shows "log_evolves K l l'" and "store_inv l' st'"
proof -
  have s: "memory_store_inv st" using st by (simp add: store_inv_def)
  note keeps = memory_flush.flush_dirty_page_keeps [OF l s flush]
  show ev: "log_evolves K l l'" for K
    using flush by (cases rule: flush_dirty_page_cases) (auto intro: flush_evolves l)
  have "stored_ok l' n img" if "memory_stored st' n = Some img" for n img
  proof (cases "memory_stored st' n = memory_stored st n")
    case True
    with that st have "stored_ok l n img" by (cases img) (simp add: store_inv_def)
    then show ?thesis by (rule stored_ok_evolves [OF _ ev [of None]])
  next
    case False
    from memory_flush.flush_dirty_page_wal_first [OF l s flush False] that
    have n: "n = pa_number (dp_address d)" "img = dirty_content d"
      and "memory_durable l' (dp_required_position d)" by auto
    then obtain r where r: "r \<in> durable_set l'" "mr_position r = dp_required_position d"
      by (auto simp: memory_durable_def)
    have "mr_kind r = k"
      using page_token_evolves [OF token ev [of None]] durable_record_in [OF r(1)] r(2)
      by (simp add: page_token_ok_def)
    moreover have "\<exists>q \<in> durable_set l'. mr_kind q = MemTransactionCommit t \<and> mr_value r < mr_value q"
      if "kind_page_owner k = Some t" for t
      using owner [OF that] log_evolves_durable [OF ev [of None]] r(2) by auto
    ultimately show ?thesis
      using r k by (auto simp: n stored_ok_def dirty_content_def dirty_record_def)
  qed
  with keeps st show "store_inv l' st'"
    by (simp add: store_inv_def memory_store_port_def)
qed

text \<open>A flush evolves the log, may change the store and the staged set of one coordinator.\<close>

lemma flush_action_inv:
  assumes "runtime_inv s" and ev: "log_evolves None (rt_log s) l" and st: "store_inv l st"
    and i: "i < length (rt_coordinators s)" and "same_coordinator (rt_coordinators s ! i) c'"
    and "tc_lifecycles c' = tc_lifecycles (rt_coordinators s ! i)"
  shows "runtime_inv ((install i c' l s)\<lparr>rt_store := st\<rparr>)"
proof -
  note inv = runtime_invD [OF assms(1)]
  note reg = same_registry [OF inv(2) i assms(5,6)]
  let ?s = "(install i c' l s)\<lparr>rt_store := st\<rparr>"
  have "commits_inv l ((rt_coordinators s)[i := c'])"
    by (rule commits_inv_registered [OF commits_inv_evolves [OF inv(3) ev]]) (simp_all add: reg)
  moreover have "tokens_inv ?s"
    by (rule tokens_inv_evolves [OF inv(5), of None])
      (use ev registry_evolves_same [OF i assms(6)] in auto)
  ultimately show ?thesis
    using log_evolves_inv [OF ev] coordinators_inv_evolves [OF reg(1) ev] st by (simp add: runtime_inv_def)
qed

lemma store_action_inv:
  assumes "runtime_inv s" and ev: "log_evolves None (rt_log s) l" and st: "store_inv l st"
  shows "runtime_inv (s\<lparr>rt_log := l, rt_store := st\<rparr>)"
proof -
  note inv = runtime_invD [OF assms(1)]
  have "tokens_inv (s\<lparr>rt_log := l, rt_store := st\<rparr>)"
    by (rule tokens_inv_evolves [OF inv(5), of None]) (use ev in auto)
  with log_evolves_inv [OF ev] coordinators_inv_evolves [OF inv(2) ev] commits_inv_evolves [OF inv(3) ev] st
  show ?thesis by (simp add: runtime_inv_def)
qed

lemma flush_committed_effect:
  assumes inv: "runtime_inv s" and ct: "ct \<in> rt_committed s" and td: "td \<in> rt_staged s"
    and flush: "flush_committed_page (memory_transaction_log reserve) (memory_store_port reserve') ct td
      (rt_log s) (rt_store s) = (res, l, st)"
  shows "log_evolves None (rt_log s) l \<and> store_inv l st"
  using flush
proof (cases rule: flush_committed_page_cases)
  case (rejected reason)
  with runtime_invD [OF inv] show ?thesis by auto
next
  case (flushed inner)
  note i = runtime_invD [OF inv]
  have token: "page_token_ok (rt_log s) (staged_kind td) (td_dirty td)" and c: "committed_ok (rt_log s) ct"
    using i(5) ct td by (auto simp: tokens_inv_def)
  have "\<exists>q \<in> durable_set (rt_log s). mr_kind q = MemTransactionCommit t
      \<and> lsn_value (dp_required_position (td_dirty td)) < mr_value q"
    if "kind_page_owner (staged_kind td) = Some t" for t
    using c that flushed(1,3) unfolding committed_ok_def by (intro bexI) simp_all
  from flush_page_effect [OF i(1,4) flushed(4) token _ this] show ?thesis by simp
qed

lemma flush_staged_inv:
  assumes inv: "runtime_inv s" and i: "i < length (rt_coordinators s)" and "ct \<in> rt_committed s"
    and "td \<in> rt_staged s"
  shows "runtime_inv (runtime_exec reserve (FlushStagedPage i ct td) s)"
proof -
  let ?c = "rt_coordinators s ! i"
  obtain a c' l st where a: "flush_staged_committed_page (memory_transaction_log reserve)
      (memory_store_port reserve) ct td ?c (rt_log s) (rt_store s) = (a, c', l, st)" by (metis prod.collapse)
  from a have "runtime_inv ((install i c' l s)\<lparr>rt_store := st\<rparr>)"
  proof (cases rule: flush_staged_committed_page_cases)
    case (rejected reason)
    with inv i show ?thesis by (simp add: install_same)
  next
    case (flushed inner)
    from flush_committed_effect [OF inv assms(3,4) flushed(2)]
    have "log_evolves None (rt_log s) l" "store_inv l st" by auto
    then show ?thesis
      by (rule flush_action_inv [OF inv _ _ i])
        (auto simp: flushed(4) same_coordinator_def split: sum.splits)
  qed
  then show ?thesis using a by simp
qed

lemma flush_committed_inv:
  assumes inv: "runtime_inv s" and "ct \<in> rt_committed s" and "td \<in> rt_staged s"
  shows "runtime_inv (runtime_exec reserve (FlushCommittedPage ct td) s)"
proof -
  obtain a l st where a: "flush_committed_page (memory_transaction_log reserve)
      (memory_store_port reserve) ct td (rt_log s) (rt_store s) = (a, l, st)" by (metis prod.collapse)
  with flush_committed_effect [OF inv assms(2,3) a] store_action_inv [OF inv] show ?thesis by simp
qed

lemma stage_raw_inv:
  assumes inv: "runtime_inv s"
  shows "runtime_inv (runtime_exec reserve (StageRawPage page) s)"
proof -
  note i = runtime_invD [OF inv]
  let ?k = "MemPageWrite (page_record_from_unlogged page)"
  have ev: "log_evolves (Some ?k) (rt_log s) l"
    if "port_append_page (memory_page_log reserve) page (rt_log s) = (a, l)" for a l
    using that append_evolves [OF i(1)] i(1)
    by (auto simp: memory_page_log_def memory_append_page_def split: if_splits)
  obtain a l where a: "stage_page_write (memory_page_log reserve) page (rt_log s) = (a, l)"
    by (metis prod.collapse)
  from a show ?thesis
  proof (cases rule: stage_page_write_cases)
    case rejected
    with a inv show ?thesis by simp
  next
    case (append source)
    with a log_action_inv [OF inv ev [OF append(1)]] show ?thesis by simp
  next
    case (evidence position reason)
    with a log_action_inv [OF inv ev [OF evidence(1)]] show ?thesis by simp
  next
    case (staged position)
    let ?d = "\<lparr>dp_address = up_address page, dp_version = up_version page, dp_image = up_image page,
        dp_required_position = position\<rparr>"
    let ?s = "s\<lparr>rt_log := l, rt_dirty := insert ?d (rt_dirty s)\<rparr>"
    note ev = ev [OF staged(1)]
    have "memory_log_append_record reserve ?k (rt_log s) = (Inr position, l)"
      using staged(1) by (auto simp: memory_page_log_def memory_append_page_def split: if_splits)
    from append_position_ok [OF i(1) this] staged(2) log_evolves_lineage [OF ev]
    have "page_token_ok l (MemPageWrite (dirty_record ?d)) ?d"
      by (simp add: page_token_ok_def dirty_record_unlogged memory_page_log_def)
    then have "tokens_inv ?s"
      by (intro tokens_inv_evolves [OF i(5), where s' = ?s]) (use ev in auto)
    with log_evolves_inv [OF ev] coordinators_inv_evolves [OF i(2) ev] commits_inv_evolves [OF i(3) ev]
      store_inv_evolves [OF i(4) ev]
    have "runtime_inv ?s" by (simp add: runtime_inv_def)
    with a staged(5) show ?thesis by simp
  qed
qed

lemma flush_raw_inv:
  assumes inv: "runtime_inv s" and d: "d \<in> rt_dirty s"
  shows "runtime_inv (runtime_exec reserve (FlushRawPage d) s)"
proof -
  note i = runtime_invD [OF inv]
  have token: "page_token_ok (rt_log s) (MemPageWrite (dirty_record d)) d"
    using i(5) d by (simp add: tokens_inv_def)
  obtain a l st where a: "flush_dirty_page (memory_transaction_log reserve) (memory_store_port reserve)
      d (rt_log s) (rt_store s) = (a, l, st)" by (metis prod.collapse)
  from flush_page_effect [OF i(1,4) a token] store_action_inv [OF inv] a show ?thesis by simp
qed

lemma arm_store_inv:
  assumes inv: "runtime_inv s"
  shows "runtime_inv (runtime_exec reserve (ArmStoreFault f) s)"
proof -
  note i = runtime_invD [OF inv]
  obtain a st where a: "memory_page_store_arm_fault f (rt_store s) = (a, st)" by (metis prod.collapse)
  then have "mst_pages st = mst_pages (rt_store s)" "mst_lineage st = mst_lineage (rt_store s)"
    by (auto simp: memory_page_store_arm_fault_def split: option.splits)
  with i(4) have "store_inv (rt_log s) st"
    by (simp add: store_inv_def memory_store_inv_def memory_stored_def memory_page_store_page_def)
  with store_action_inv [OF inv log_evolves_refl [OF i(1)], of st] a show ?thesis by (cases s) simp
qed

section \<open>Every action\<close>

lemma runtime_new_inv: "runtime_inv (runtime_new lineage)"
  by (simp add: runtime_inv_def runtime_new_def memory_log_inv_def memory_log_with_lineage_def
      coordinators_inv_def commits_inv_def registered_def memory_log_durable_records_def store_inv_def
      memory_store_inv_def memory_page_store_with_lineage_def memory_stored_def memory_page_store_page_def
      tokens_inv_def)

lemma runtime_step_inv:
  assumes "runtime_inv s" and "runtime_step reserve s s'"
  shows "runtime_inv s'"
  using assms(2)
proof (rule runtime_stepE)
  fix a
  assume s': "s' = runtime_exec reserve a s" and enabled: "action_enabled a s"
  note inv = runtime_invD [OF assms(1)]
  have logged: "runtime_inv (s\<lparr>rt_log := l\<rparr>)" if "log_evolves None (rt_log s) l" for l
    using log_action_inv [OF assms(1) that] by simp
  show ?thesis
    unfolding s' using enabled assms(1)
  proof (cases a)
    case (FlushLog p)
    then show "runtime_inv (runtime_exec reserve a s)"
      using logged flush_evolves [OF inv(1)] by (metis prod.collapse runtime_exec.simps(10))
  next
    case (ArmLogFault f)
    then show "runtime_inv (runtime_exec reserve a s)"
      using logged arm_fault_evolves [OF inv(1)] by (metis prod.collapse runtime_exec.simps(11))
  next
    case RestartLog
    then show "runtime_inv (runtime_exec reserve a s)" using logged restart_evolves [OF inv(1)] by simp
  next
    case ReopenLog
    then show "runtime_inv (runtime_exec reserve a s)"
      using logged reopen_evolves [OF inv(1)] by (metis prod.collapse runtime_exec.simps(14))
  qed (use open_inv begin_inv stage_inv commit_inv resolve_inv flush_staged_inv flush_committed_inv
      stage_raw_inv flush_raw_inv arm_store_inv in \<open>simp_all del: runtime_exec.simps\<close>)
qed

interpretation runtime: invariant_system "\<lambda>s. s = runtime_new lineage" "runtime_step reserve" runtime_inv
  for lineage reserve
  by unfold_locales (auto intro: runtime_new_inv runtime_step_inv)

end
