(* ===== verification/Runtime_History.thy ===== *)
theory Runtime_History
  imports Runtime_Preserves
begin

text \<open>
  How a run of the storage runtime moves forward: nothing durable is lost, what is spent stays
  spent, no issued token is forgotten, and every transaction only moves forward in its lifecycle.
  Then concrete runs, at which the properties are instantiated: a transaction that commits and
  flushes its page, and a commit whose durability barrier is interrupted before and after the flush.
\<close>

section \<open>The order of a history\<close>

definition runtime_grows :: "runtime \<Rightarrow> runtime \<Rightarrow> bool" where
  "runtime_grows s s' =
     (ml_lineage (rt_log s') = ml_lineage (rt_log s) \<and> durable_set (rt_log s) \<subseteq> durable_set (rt_log s')
      \<and> (\<forall>v. position_spent (rt_log s) v \<longrightarrow> position_spent (rt_log s') v)
      \<and> rt_active s \<subseteq> rt_active s' \<and> rt_indeterminate s \<subseteq> rt_indeterminate s'
      \<and> rt_committed s \<subseteq> rt_committed s' \<and> rt_absent s \<subseteq> rt_absent s'
      \<and> rt_staged s \<subseteq> rt_staged s' \<and> rt_dirty s \<subseteq> rt_dirty s')"

lemma runtime_growsD:
  assumes "runtime_grows s s'"
  shows "ml_lineage (rt_log s') = ml_lineage (rt_log s)"
    and "r \<in> durable_set (rt_log s) \<Longrightarrow> r \<in> durable_set (rt_log s')"
    and "position_spent (rt_log s) v \<Longrightarrow> position_spent (rt_log s') v"
    and "t \<in> rt_active s \<Longrightarrow> t \<in> rt_active s'" and "it \<in> rt_indeterminate s \<Longrightarrow> it \<in> rt_indeterminate s'"
    and "ct \<in> rt_committed s \<Longrightarrow> ct \<in> rt_committed s'" and "n \<in> rt_absent s \<Longrightarrow> n \<in> rt_absent s'"
    and "td \<in> rt_staged s \<Longrightarrow> td \<in> rt_staged s'" and "d \<in> rt_dirty s \<Longrightarrow> d \<in> rt_dirty s'"
  using assms by (auto simp: runtime_grows_def)

lemma runtime_grows_refl [intro]: "runtime_grows s s"
  by (simp add: runtime_grows_def)

lemma runtime_grows_trans: "runtime_grows s t \<Longrightarrow> runtime_grows t u \<Longrightarrow> runtime_grows s u"
  by (auto simp: runtime_grows_def)

section \<open>Every action\<close>

lemma exec_tokens:
  "rt_active s \<subseteq> rt_active (runtime_exec reserve a s)"
  "rt_indeterminate s \<subseteq> rt_indeterminate (runtime_exec reserve a s)"
  "rt_committed s \<subseteq> rt_committed (runtime_exec reserve a s)"
  "rt_absent s \<subseteq> rt_absent (runtime_exec reserve a s)"
  "rt_staged s \<subseteq> rt_staged (runtime_exec reserve a s)"
  "rt_dirty s \<subseteq> rt_dirty (runtime_exec reserve a s)"
  by (cases a; auto split: prod.splits sum.splits coordinated_commit_error.splits transaction_commit_resolution.splits)+

text \<open>The log under an operation of a coordinator.\<close>

lemma stage_evolves:
  assumes "memory_log_inv l" and "coordinator_stage_page_write (memory_transaction_log reserve) t page c l = (a, c', l')"
  shows "\<exists>K. log_evolves K l l'"
  using assms(2)
proof (cases rule: coordinator_stage_cases)
  case (rejected r)
  with assms(1) show ?thesis by auto
next
  case (staged position)
  with stage_append_evolves(1) [OF assms(1) staged(2)] show ?thesis by blast
next
  case (poisoned e b)
  with stage_append_evolves(1) [OF assms(1) poisoned(2)] show ?thesis by blast
qed

lemma coordinator_commit_evolves:
  assumes "memory_log_inv l" and "coordinator_commit (memory_transaction_log reserve) t c l = (a, c', l')"
  shows "\<exists>K. log_evolves K l l'"
  using assms(2)
proof (cases rule: coordinator_commit_cases)
  case (rejected reason)
  with assms(1) show ?thesis by auto
next
  case (committed position)
  with commit_evolves [OF assms(1) committed(3)] show ?thesis by blast
next
  case (indeterminate e)
  with commit_evolves [OF assms(1) indeterminate(2)] show ?thesis by blast
qed

lemma coordinator_resolve_keeps:
  assumes "coordinator_resolve memory_recovery_source t c l = (a, c', l')"
  shows "l' = l"
  using assms
proof (cases rule: coordinator_resolve_cases)
  case (failed f)
  with lookup_keeps show ?thesis by (auto simp: memory_recovery_source_def)
next
  case (committed lineage position)
  then have "snd (memory_lookup_durable_commit (it_transaction_id t) l) = l'"
    by (simp add: memory_recovery_source_def)
  with lookup_keeps show ?thesis by auto
next
  case (absent lineage)
  then have "snd (memory_lookup_durable_commit (it_transaction_id t) l) = l'"
    by (simp add: memory_recovery_source_def)
  with lookup_keeps show ?thesis by auto
qed

lemma flush_evolves_port:
  assumes "memory_log_inv l"
    and "flush_dirty_page (memory_transaction_log reserve) (memory_store_port reserve') d l st = (res, l', st')"
  shows "log_evolves None l l'"
  using assms(2) by (cases rule: flush_dirty_page_cases) (auto intro: flush_evolves assms(1))

lemma flush_committed_evolves:
  assumes "memory_log_inv l"
    and "flush_committed_page (memory_transaction_log reserve) (memory_store_port reserve') ct td l st = (res, l', st')"
  shows "log_evolves None l l'"
  using assms(2)
proof (cases rule: flush_committed_page_cases)
  case (rejected reason)
  with assms(1) show ?thesis by auto
next
  case (flushed inner)
  then show ?thesis by (blast intro: flush_evolves_port [OF assms(1)])
qed

lemma flush_staged_evolves:
  assumes "memory_log_inv l"
    and "flush_staged_committed_page (memory_transaction_log reserve) (memory_store_port reserve') ct td c l st
      = (res, c', l', st')"
  shows "log_evolves None l l'"
  using assms(2)
proof (cases rule: flush_staged_committed_page_cases)
  case (rejected reason)
  with assms(1) show ?thesis by auto
next
  case (flushed inner)
  then show ?thesis by (blast intro: flush_committed_evolves [OF assms(1)])
qed

lemma stage_raw_evolves:
  assumes "memory_log_inv l" and "stage_page_write (memory_page_log reserve) page l = (a, l')"
  shows "\<exists>K. log_evolves K l l'"
proof -
  have ev: "log_evolves (Some (MemPageWrite (page_record_from_unlogged page))) l l'"
    if "port_append_page (memory_page_log reserve) page l = (b, l')" for b
    using that append_evolves [OF assms(1)] assms(1)
    by (auto simp: memory_page_log_def memory_append_page_def split: if_splits)
  from assms(2) show ?thesis
    by (cases rule: stage_page_write_cases) (use assms(1) ev in auto)
qed

lemma exec_evolves:
  assumes inv: "memory_log_inv (rt_log s)"
  shows "\<exists>K. log_evolves K (rt_log s) (rt_log (runtime_exec reserve a s))"
proof (cases a)
  case OpenCoordinator
  then show ?thesis
    using epoch_evolves [OF inv]
    by (auto simp: coordinator_open_def memory_epoch_source_def split: prod.splits sum.splits)
next
  case (BeginTransaction i)
  then show ?thesis using inv by (auto split: prod.splits sum.splits)
next
  case (StageTransactionPage i t page)
  then show ?thesis using stage_evolves [OF inv] by (auto split: prod.splits sum.splits)
next
  case (CommitTransaction i t)
  then show ?thesis
    using coordinator_commit_evolves [OF inv] by (auto split: prod.splits sum.splits coordinated_commit_error.splits)
next
  case (ResolveTransaction i t)
  then show ?thesis
    using coordinator_resolve_keeps [of t "rt_coordinators s ! i" "rt_log s"] log_evolves_refl [OF inv, of None]
    by (auto split: prod.splits sum.splits transaction_commit_resolution.splits)
next
  case (FlushStagedPage i ct td)
  then show ?thesis using flush_staged_evolves [OF inv] by (auto split: prod.splits; blast)
next
  case (FlushCommittedPage ct td)
  then show ?thesis using flush_committed_evolves [OF inv] by (auto split: prod.splits; blast)
next
  case (StageRawPage page)
  then show ?thesis using stage_raw_evolves [OF inv] by (auto split: prod.splits sum.splits; blast)
next
  case (FlushRawPage d)
  then show ?thesis using flush_evolves_port [OF inv] by (auto split: prod.splits; blast)
next
  case (FlushLog p)
  then show ?thesis using flush_evolves [OF inv] by (metis prod.collapse runtime_exec.simps(10) runtime.select_convs(1) runtime.surjective runtime.update_convs(1))
next
  case (ArmLogFault f)
  then show ?thesis using arm_fault_evolves [OF inv] by (metis prod.collapse runtime_exec.simps(11) runtime.select_convs(1) runtime.surjective runtime.update_convs(1))
next
  case (ArmStoreFault f)
  then show ?thesis using inv by auto
next
  case RestartLog
  then show ?thesis using restart_evolves [OF inv] by auto
next
  case ReopenLog
  then show ?thesis using reopen_evolves [OF inv] by (metis prod.collapse runtime_exec.simps(14) runtime.select_convs(1) runtime.surjective runtime.update_convs(1))
qed

lemma exec_grows:
  assumes "runtime_inv s"
  shows "runtime_grows s (runtime_exec reserve a s)"
proof -
  obtain K where "log_evolves K (rt_log s) (rt_log (runtime_exec reserve a s))"
    using exec_evolves [OF runtime_invD(1) [OF assms]] by blast
  with exec_tokens [where s = s and reserve = reserve and a = a] show ?thesis
    by (auto simp: runtime_grows_def log_evolves_lineage log_evolves_position log_evolves_durable)
qed

section \<open>Every run\<close>

lemma run_grows:
  assumes "runtime_inv s" and "runtime_run reserve as s = Some s'"
  shows "runtime_inv s' \<and> runtime_grows s s'"
  using assms
proof (induction as arbitrary: s)
  case (Cons a as)
  then have enabled: "action_enabled a s" and run: "runtime_run reserve as (runtime_exec reserve a s) = Some s'"
    by (auto simp del: runtime_exec.simps split: if_splits)
  have "runtime_inv (runtime_exec reserve a s)"
    by (rule runtime_step_inv [OF Cons.prems(1) step_action [OF enabled]])
  from Cons.IH [OF this run] exec_grows [OF Cons.prems(1), of reserve a] show ?case
    by (blast intro: runtime_grows_trans)
qed auto

text \<open>Two records of an unbroken log with one position are one record.\<close>

lemma record_at_position:
  assumes "memory_log_inv l" and "r \<in> set (ml_records l)" and "q \<in> set (ml_records l)"
    and "mr_position r = mr_position q"
  shows "r = q"
  using memory_records_distinct [OF assms(1)] assms(2-4) by (metis distinct_map inj_onD)

section \<open>Values of the runs\<close>

abbreviation ex_lineage :: log_lineage where
  "ex_lineage \<equiv> Persistent (PersistentLogId 7)"

abbreviation ex_token :: transaction_token_id where
  "ex_token \<equiv> \<lparr>tt_epoch = TransactionEpoch 1, tt_sequence = 1\<rparr>"

abbreviation ex_active :: active_transaction where
  "ex_active \<equiv> \<lparr>at_transaction_id = ex_token, at_coordinator_identity = 0\<rparr>"

abbreviation ex_page :: unlogged_page where
  "ex_page \<equiv> \<lparr>up_address = \<lparr>pa_lineage = ex_lineage, pa_number = PageNumber 3\<rparr>,
     up_version = ImageVersion 5, up_image = PageImage [1, 2]\<rparr>"

abbreviation ex_position :: "u64 \<Rightarrow> log_sequence_number" where
  "ex_position v \<equiv> \<lparr>lsn_lineage = ex_lineage, lsn_value = v\<rparr>"

abbreviation ex_staged :: transaction_dirty_page where
  "ex_staged \<equiv> \<lparr>td_transaction_id = ex_token, td_dirty =
     \<lparr>dp_address = \<lparr>pa_lineage = ex_lineage, pa_number = PageNumber 3\<rparr>, dp_version = ImageVersion 5,
      dp_image = PageImage [1, 2], dp_required_position = ex_position 1\<rparr>\<rparr>"

abbreviation ex_committed :: "u64 \<Rightarrow> committed_transaction" where
  "ex_committed v \<equiv> \<lparr>ct_transaction_id = ex_token, ct_log_position = ex_position v\<rparr>"

abbreviation ex_indeterminate :: indeterminate_transaction where
  "ex_indeterminate \<equiv> \<lparr>it_transaction_id = ex_token, it_coordinator_identity = 0,
     it_log_lineage = ex_lineage\<rparr>"

abbreviation (input) room :: "nat \<Rightarrow> bool" where
  "room \<equiv> \<lambda>_. True"

section \<open>The runs\<close>

definition commit_run :: "runtime_action list" where
  "commit_run = [OpenCoordinator, BeginTransaction 0, StageTransactionPage 0 ex_active ex_page,
     CommitTransaction 0 ex_active]"

definition flush_run :: "runtime_action list" where
  "flush_run = commit_run @ [FlushStagedPage 0 (ex_committed 2) ex_staged]"

definition interrupted_run :: "fault_point \<Rightarrow> runtime_action list" where
  "interrupted_run f = [OpenCoordinator, BeginTransaction 0, ArmLogFault f, CommitTransaction 0 ex_active]"

definition absent_run :: "runtime_action list" where
  "absent_run = interrupted_run BeforeFlush @ [RestartLog, ResolveTransaction 0 ex_indeterminate]"

definition after_run :: "runtime_action list \<Rightarrow> runtime" where
  "after_run as = the (runtime_run room as (runtime_new ex_lineage))"

lemma runs_complete:
  "runtime_run room commit_run (runtime_new ex_lineage) = Some (after_run commit_run)"
  "runtime_run room flush_run (runtime_new ex_lineage) = Some (after_run flush_run)"
  "runtime_run room (interrupted_run f) (runtime_new ex_lineage) = Some (after_run (interrupted_run f))"
  "runtime_run room absent_run (runtime_new ex_lineage) = Some (after_run absent_run)"
proof -
  have "\<not> Option.is_none (runtime_run room commit_run (runtime_new ex_lineage))" by code_simp
  then show "runtime_run room commit_run (runtime_new ex_lineage) = Some (after_run commit_run)"
    by (simp add: after_run_def Option.is_none_def)
  have "\<not> Option.is_none (runtime_run room flush_run (runtime_new ex_lineage))" by code_simp
  then show "runtime_run room flush_run (runtime_new ex_lineage) = Some (after_run flush_run)"
    by (simp add: after_run_def Option.is_none_def)
  have "\<not> Option.is_none (runtime_run room (interrupted_run f) (runtime_new ex_lineage))"
    by (cases f) (simp_all only:, code_simp+)
  then show "runtime_run room (interrupted_run f) (runtime_new ex_lineage) = Some (after_run (interrupted_run f))"
    by (simp add: after_run_def Option.is_none_def)
  have "\<not> Option.is_none (runtime_run room absent_run (runtime_new ex_lineage))" by code_simp
  then show "runtime_run room absent_run (runtime_new ex_lineage) = Some (after_run absent_run)"
    by (simp add: after_run_def Option.is_none_def)
qed

lemma run_reachable:
  assumes "runtime_run room as (runtime_new ex_lineage) = Some (after_run as)"
  shows "runtime_reachable room ex_lineage (after_run as)"
  by (rule runtime_run_reachable [OF reach_start assms]) simp

lemmas runs_reachable = runs_complete [THEN run_reachable]

lemma run_facts:
  "ex_committed 2 \<in> rt_committed (after_run commit_run)"
  "memory_stored (rt_store (after_run flush_run)) (PageNumber 3) = Some (ImageVersion 5, [1, 2], ex_position 1)"
  "ex_indeterminate \<in> rt_indeterminate (after_run (interrupted_run BeforeFlush))"
  "NoDurableCommitRecord ex_token \<in> rt_absent (after_run absent_run)"
  unfolding after_run_def by code_simp+

end
