(* ===== verification/Runtime_Properties.thy ===== *)
theory Runtime_Properties
  imports Runtime_History
begin

text \<open>
  The properties of the storage runtime: what its tokens and its page store mean at every later
  moment of every history, through faults, restarts and reopens, and that a commit left
  indeterminate by a fault can always be decided.
\<close>

section \<open>The page store and the log\<close>

text \<open>C9: In every reachable state of the runtime, a stored page is the image of a durable log record
  with its position, page number, version and bytes; and when a transaction owns that record, a
  commit record of the transaction is durable at a later position. So no page of a transaction
  that did not commit ever reaches the store.
\<close>

theorem stored_page_backed_by_log:
  assumes "runtime_reachable reserve lineage s"
    and "memory_stored (rt_store s) n = Some (version, bytes, position)"
  shows "\<exists>r \<in> set (memory_log_durable_records (rt_log s)). mr_position r = position
    \<and> kind_page_write (mr_kind r) = Some \<lparr>mp_page_number = n, mp_page_version = version, mp_bytes = bytes\<rparr>
    \<and> (\<forall>t. kind_page_owner (mr_kind r) = Some t \<longrightarrow>
        (\<exists>q \<in> set (memory_log_durable_records (rt_log s)).
          mr_kind q = MemTransactionCommit t \<and> mr_value r < mr_value q))"
proof -
  from runtime.reachable_inv [OF assms(1)] have "store_inv (rt_log s) (rt_store s)"
    by (rule runtime_invD(4))
  with assms(2) have "stored_ok (rt_log s) n (version, bytes, position)" by (simp add: store_inv_def)
  then show ?thesis by (simp add: stored_ok_def)
qed

theorem stored_page_backed_by_log_witness:
  "\<exists>r \<in> set (memory_log_durable_records (rt_log (after_run flush_run))). mr_position r = ex_position 1
    \<and> kind_page_write (mr_kind r) =
        Some \<lparr>mp_page_number = PageNumber 3, mp_page_version = ImageVersion 5, mp_bytes = [1, 2]\<rparr>
    \<and> (\<forall>t. kind_page_owner (mr_kind r) = Some t \<longrightarrow>
        (\<exists>q \<in> set (memory_log_durable_records (rt_log (after_run flush_run))).
          mr_kind q = MemTransactionCommit t \<and> mr_value r < mr_value q))"
  by (rule stored_page_backed_by_log [OF runs_reachable(2) run_facts(2)])

section \<open>Acknowledged commits\<close>

text \<open>C7: A commit that was acknowledged stays durable: after any further run of the runtime, faults
  and restarts included, its commit record is in the durable prefix at the acknowledged position,
  it is the only record of that transaction's commit, and no resolution has ever reported the
  transaction as not durably committed.
\<close>

theorem acknowledged_commit_stays_durable:
  assumes "runtime_reachable reserve lineage s" and "ct \<in> rt_committed s"
    and "runtime_run reserve as s = Some s'"
  shows "\<lparr>mr_position = ct_log_position ct, mr_kind = MemTransactionCommit (ct_transaction_id ct)\<rparr>
      \<in> set (memory_log_durable_records (rt_log s'))
    \<and> (\<forall>r \<in> set (ml_records (rt_log s')). mr_kind r = MemTransactionCommit (ct_transaction_id ct) \<longrightarrow>
        mr_position r = ct_log_position ct)
    \<and> NoDurableCommitRecord (ct_transaction_id ct) \<notin> rt_absent s'"
proof (intro conjI)
  let ?id = "ct_transaction_id ct" and ?r = "\<lparr>mr_position = ct_log_position ct,
    mr_kind = MemTransactionCommit (ct_transaction_id ct)\<rparr>"
  from run_grows [OF runtime.reachable_inv [OF assms(1)] assms(3)]
  have inv: "runtime_inv s'" and ct: "ct \<in> rt_committed s'" using assms(2) runtime_growsD(6) by blast+
  note i = runtime_invD [OF inv]
  from i(5) ct have ok: "committed_ok (rt_log s') ct" "registered (rt_coordinators s') ?id StCommitted"
    by (auto simp: tokens_inv_def)
  then show durable: "?r \<in> durable_set (rt_log s')" by (simp add: committed_ok_def)
  show "\<forall>r \<in> set (ml_records (rt_log s')). mr_kind r = MemTransactionCommit ?id \<longrightarrow>
      mr_position r = ct_log_position ct"
    using commits_invD(3) [OF i(3) _ durable_record_in [OF durable]] by fastforce
  show "NoDurableCommitRecord ?id \<notin> rt_absent s'"
    using i(5) registered_unique [OF i(2) ok(2), of StNoDurableCommitRecord] by (force simp: tokens_inv_def)
qed

theorem acknowledged_commit_stays_durable_witness:
  "\<lparr>mr_position = ex_position 2, mr_kind = MemTransactionCommit ex_token\<rparr>
      \<in> set (memory_log_durable_records (rt_log (after_run commit_run)))
    \<and> NoDurableCommitRecord ex_token \<notin> rt_absent (after_run commit_run)"
  using acknowledged_commit_stays_durable [OF runs_reachable(1) run_facts(1), of "[]"] by simp

section \<open>Indeterminate commits\<close>

text \<open>C20: Once a transaction has been resolved as having no durable commit record, that is final: in
  no later state is there a commit record of it, durable or volatile, and no operation ever
  acknowledges its commit.
\<close>

theorem absent_resolution_is_final:
  assumes "runtime_reachable reserve lineage s" and "NoDurableCommitRecord t \<in> rt_absent s"
    and "runtime_run reserve as s = Some s'"
  shows "(\<forall>r \<in> set (ml_records (rt_log s')). mr_kind r \<noteq> MemTransactionCommit t)
    \<and> (\<forall>ct \<in> rt_committed s'. ct_transaction_id ct \<noteq> t)"
proof -
  from run_grows [OF runtime.reachable_inv [OF assms(1)] assms(3)]
  have inv: "runtime_inv s'" and n: "NoDurableCommitRecord t \<in> rt_absent s'"
    using assms(2) runtime_growsD(7) by blast+
  note i = runtime_invD [OF inv]
  from i(5) n have "registered (rt_coordinators s') t StNoDurableCommitRecord"
    by (force simp: tokens_inv_def)
  then have no: "\<not> registered (rt_coordinators s') t StCommitted"
    "\<not> registered (rt_coordinators s') t StIndeterminate"
    using registered_unique [OF i(2)] by blast+
  with commits_invD(1) [OF i(3)] i(5) show ?thesis by (auto simp: tokens_inv_def)
qed

theorem absent_resolution_is_final_witness:
  "ex_committed 2 \<notin> rt_committed (after_run absent_run)
    \<and> \<lparr>mr_position = ex_position 1, mr_kind = MemTransactionCommit ex_token\<rparr>
        \<notin> set (ml_records (rt_log (after_run absent_run)))"
  using absent_resolution_is_final [OF runs_reachable(4) run_facts(4), of "[]"] by auto

text \<open>A lookup fails only on a volatile or a repeated commit record.\<close>

lemma lookup_decides:
  assumes "memory_log_inv l" and "ml_durable_len l = length (ml_records l)"
    and unique: "\<And>r q. r \<in> set (ml_records l) \<Longrightarrow> q \<in> set (ml_records l) \<Longrightarrow> mr_kind r = MemTransactionCommit t \<Longrightarrow>
      mr_kind q = MemTransactionCommit t \<Longrightarrow> r = q"
  shows "(\<exists>r \<in> durable_set l. mr_kind r = MemTransactionCommit t
        \<and> memory_lookup_durable_commit t l = (Inr (ml_lineage l, LookupFound (mr_position r)), l))
    \<or> ((\<forall>r \<in> set (ml_records l). mr_kind r \<noteq> MemTransactionCommit t)
        \<and> memory_lookup_durable_commit t l = (Inr (ml_lineage l, LookupAbsent), l))"
proof (cases "\<exists>r \<in> set (ml_records l). mr_kind r = MemTransactionCommit t")
  case True
  then obtain j where j: "j < length (ml_records l)" "mr_kind (ml_records l ! j) = MemTransactionCommit t"
    by (auto simp: in_set_conv_nth)
  have "distinct (ml_records l)" using memory_records_distinct [OF assms(1)] by (simp add: distinct_map)
  then have only: "mr_kind (ml_records l ! k) = MemTransactionCommit t \<longleftrightarrow> k = j" if "k < length (ml_records l)" for k
    using unique [of "ml_records l ! k" "ml_records l ! j"] that j by (auto simp: nth_eq_iff_index_eq)
  have "lookup_scan t (ml_durable_len l) 0 None (ml_records l)
      = Inr (Some (mr_position (ml_records l ! j), True))"
    unfolding lookup_scan_Inr kind_commit_iff using j(1) assms(2) by (auto simp: only)
  then have "memory_lookup_durable_commit t l = (Inr (ml_lineage l, LookupFound (mr_position (ml_records l ! j))), l)"
    by (simp add: memory_lookup_durable_commit_def)
  moreover have "ml_records l ! j \<in> durable_set l" using j(1) assms(2) by (simp add: durable_set_alt)
  ultimately show ?thesis using j(2) by blast
next
  case False
  then have "lookup_scan t (ml_durable_len l) 0 None (ml_records l) = Inr None"
    unfolding lookup_scan_Inr kind_commit_iff by auto
  with False show ?thesis by (simp add: memory_lookup_durable_commit_def)
qed

text \<open>C21: A commit left indeterminate can always be decided: after a restart of the log, resolving its
  token with the coordinator that issued it always returns a resolution, never an error. The
  resolution is Committed exactly when the durable prefix before the restart held the
  transaction's commit record, and then it names that record's position.
\<close>

theorem resolution_decides:
  assumes "runtime_reachable reserve lineage s" and "t \<in> rt_indeterminate s"
    and "c = rt_coordinators s ! it_coordinator_identity t"
    and "coordinator_status c (it_transaction_id t) = Some StIndeterminate"
  shows "\<exists>resolution c'. coordinator_resolve memory_recovery_source t c (memory_log_restart (rt_log s))
      = (Inr resolution, c', memory_log_restart (rt_log s))
    \<and> (\<forall>position. resolution = ResolvedCommitted
          \<lparr>ct_transaction_id = it_transaction_id t, ct_log_position = position\<rparr> \<longleftrightarrow>
        \<lparr>mr_position = position, mr_kind = MemTransactionCommit (it_transaction_id t)\<rparr>
          \<in> set (memory_log_durable_records (rt_log s)))"
proof -
  let ?l = "memory_log_restart (rt_log s)" and ?id = "it_transaction_id t"
  note i = runtime_invD [OF runtime.reachable_inv [OF assms(1)]]
  have inv: "memory_log_inv ?l" by (rule restart_laws(1) [OF i(1)])
  have records: "ml_records ?l = memory_log_durable_records (rt_log s)"
    "ml_lineage ?l = ml_lineage (rt_log s)" "durable_set ?l = durable_set (rt_log s)"
    by (simp_all add: memory_log_restart_def memory_log_durable_records_def)
  have len: "ml_durable_len ?l = length (ml_records ?l)"
    using memory_log_invD(1) [OF i(1)] by (simp add: memory_log_restart_def)
  have unique: "r = q" if "r \<in> set (ml_records ?l)" "q \<in> set (ml_records ?l)"
      "mr_kind r = MemTransactionCommit ?id" "mr_kind q = MemTransactionCommit ?id" for r q
    using that commits_invD(3) [OF i(3)] durable_record_in records(1) by metis
  from i(5) assms(2) have t: "indeterminate_ok (rt_log s) (rt_coordinators s) t"
    by (simp add: tokens_inv_def)
  then have own: "owns_indeterminate c t" "it_log_lineage t = ml_lineage (rt_log s)"
    using coordinators_invD(1) [OF i(2)] assms(3)
    by (simp_all add: indeterminate_ok_def owns_indeterminate_def)
  have "(\<exists>r \<in> durable_set ?l. mr_kind r = MemTransactionCommit ?id
        \<and> memory_lookup_durable_commit ?id ?l = (Inr (ml_lineage ?l, LookupFound (mr_position r)), ?l))
    \<or> ((\<forall>r \<in> set (ml_records ?l). mr_kind r \<noteq> MemTransactionCommit ?id)
        \<and> memory_lookup_durable_commit ?id ?l = (Inr (ml_lineage ?l, LookupAbsent), ?l))"
    by (rule lookup_decides [OF inv len]) (rule unique)
  then show ?thesis
  proof (elim disjE bexE conjE)
    fix r
    assume r: "r \<in> durable_set ?l" "mr_kind r = MemTransactionCommit ?id"
      and found: "memory_lookup_durable_commit ?id ?l = (Inr (ml_lineage ?l, LookupFound (mr_position r)), ?l)"
    have "lsn_lineage (mr_position r) = ml_lineage (rt_log s)"
      using r(1) memory_log_invD(2) [OF i(1) durable_record_in] records(3) by simp
    then have "coordinator_resolve memory_recovery_source t c ?l = (Inr (ResolvedCommitted
        \<lparr>ct_transaction_id = ?id, ct_log_position = mr_position r\<rparr>), set_status ?id StCommitted c, ?l)"
      using found own assms(4) records(2)
      by (simp add: coordinator_resolve_def memory_recovery_source_def coordinator_status_def Let_def)
    moreover have "\<lparr>mr_position = position, mr_kind = MemTransactionCommit ?id\<rparr> \<in> durable_set (rt_log s)
        \<longleftrightarrow> mr_position r = position" for position
    proof
      assume "\<lparr>mr_position = position, mr_kind = MemTransactionCommit ?id\<rparr> \<in> durable_set (rt_log s)"
      with unique [OF durable_record_in [OF r(1)] _ r(2)] show "mr_position r = position"
        by (fastforce simp: records(1))
    next
      assume "mr_position r = position"
      with r(2) have "r = \<lparr>mr_position = position, mr_kind = MemTransactionCommit ?id\<rparr>" by (cases r) simp
      with r(1) records(3)
      show "\<lparr>mr_position = position, mr_kind = MemTransactionCommit ?id\<rparr> \<in> durable_set (rt_log s)" by simp
    qed
    ultimately show ?thesis by auto
  next
    assume none: "\<forall>r \<in> set (ml_records ?l). mr_kind r \<noteq> MemTransactionCommit ?id"
      and "memory_lookup_durable_commit ?id ?l = (Inr (ml_lineage ?l, LookupAbsent), ?l)"
    then have "coordinator_resolve memory_recovery_source t c ?l = (Inr (ResolvedAbsent
        (NoDurableCommitRecord ?id)), set_status ?id StNoDurableCommitRecord c, ?l)"
      using own assms(4) records(2)
      by (simp add: coordinator_resolve_def memory_recovery_source_def coordinator_status_def Let_def)
    with none records(1) show ?thesis by fastforce
  qed
qed

theorem resolution_decides_witness:
  "\<exists>resolution c'. coordinator_resolve memory_recovery_source ex_indeterminate
        (rt_coordinators (after_run (interrupted_run BeforeFlush)) ! it_coordinator_identity ex_indeterminate)
        (memory_log_restart (rt_log (after_run (interrupted_run BeforeFlush))))
      = (Inr resolution, c', memory_log_restart (rt_log (after_run (interrupted_run BeforeFlush))))
    \<and> (\<forall>position. resolution = ResolvedCommitted
          \<lparr>ct_transaction_id = it_transaction_id ex_indeterminate, ct_log_position = position\<rparr> \<longleftrightarrow>
        \<lparr>mr_position = position, mr_kind = MemTransactionCommit (it_transaction_id ex_indeterminate)\<rparr>
          \<in> set (memory_log_durable_records (rt_log (after_run (interrupted_run BeforeFlush)))))"
  by (rule resolution_decides [OF runs_reachable(3) run_facts(3) refl]) (unfold after_run_def, code_simp)

section \<open>Types and bounds of what the runtime issues\<close>

text \<open>A transaction identity a coordinator has given out: its own epoch, a sequence below its next one.\<close>

definition issued_identity :: "transaction_coordinator \<Rightarrow> transaction_token_id \<Rightarrow> bool" where
  "issued_identity c t \<longleftrightarrow> tt_epoch t = tc_epoch c \<and> 0 < epoch_get (tt_epoch t) \<and> 0 < tt_sequence t
     \<and> (\<forall>n. tc_next_transaction_id c = Some n \<longrightarrow> tt_sequence t < n)"

text \<open>A position of the log that is in use: of its lineage, non-zero, below the allocator.\<close>

definition issued_position :: "memory_log \<Rightarrow> log_sequence_number \<Rightarrow> bool" where
  "issued_position l p \<longleftrightarrow> lsn_lineage p = ml_lineage l \<and> 0 < lsn_value p
     \<and> (\<forall>n. ml_next_position l = Some n \<longrightarrow> lsn_value p < n)"

lemma registered_issued:
  assumes "coordinators_inv l cs" and "c \<in> set cs" and "tc_lifecycles c t = Some st"
  shows "issued_identity c t"
  using assms by (auto simp: coordinators_inv_def registry_ok_def issued_identity_def)

lemma known_issued:
  assumes "coordinators_inv l cs" and "known cs t"
  shows "\<exists>c \<in> set cs. issued_identity c t"
  using assms(2) registered_issued [OF assms(1)] unfolding known_def registered_def by blast

lemma runtime_lineage:
  assumes "runtime_reachable reserve lineage s"
  shows "ml_lineage (rt_log s) = lineage"
  using assms
proof induction
  case (reach_start s)
  then show ?case by (simp add: runtime_new_def memory_log_with_lineage_def)
next
  case (reach_step s t)
  from reach_step.hyps(2) obtain a where "t = runtime_exec reserve a s" by (rule runtime_stepE)
  with reach_step runtime_growsD(1) [OF exec_grows [OF runtime.reachable_inv [OF reach_step.hyps(1)]]]
  show ?case by simp
qed

text \<open>C30: Every token the runtime has issued is well typed. An active and an indeterminate token name
  an open coordinator, by its index, and an identity that coordinator has given out; the identities
  of committed, absent and staged-page tokens were given out by some coordinator. An identity given
  out has its coordinator's non-zero epoch and a non-zero sequence below the coordinator's next one.
  The positions of commit tokens, staged pages and raw dirty pages, the addresses of the pages and
  indeterminate tokens carry the log's lineage; the positions are non-zero and below the log's
  allocator.\<close>

theorem issued_tokens_typed:
  assumes "runtime_reachable reserve lineage s"
  shows "ml_lineage (rt_log s) = lineage
    \<and> (\<forall>i < length (rt_coordinators s). tc_identity (rt_coordinators s ! i) = i)
    \<and> (\<forall>t \<in> rt_active s. at_coordinator_identity t < length (rt_coordinators s)
        \<and> issued_identity (rt_coordinators s ! at_coordinator_identity t) (at_transaction_id t))
    \<and> (\<forall>t \<in> rt_indeterminate s. it_coordinator_identity t < length (rt_coordinators s)
        \<and> issued_identity (rt_coordinators s ! it_coordinator_identity t) (it_transaction_id t)
        \<and> it_log_lineage t = lineage)
    \<and> (\<forall>ct \<in> rt_committed s. issued_position (rt_log s) (ct_log_position ct)
        \<and> (\<exists>c \<in> set (rt_coordinators s). issued_identity c (ct_transaction_id ct)))
    \<and> (\<forall>n \<in> rt_absent s. \<exists>c \<in> set (rt_coordinators s). issued_identity c (absent_transaction_id n))
    \<and> (\<forall>td \<in> rt_staged s. \<exists>c \<in> set (rt_coordinators s). issued_identity c (td_transaction_id td))
    \<and> (\<forall>d \<in> rt_dirty s \<union> td_dirty ` rt_staged s.
        pa_lineage (dp_address d) = lineage \<and> issued_position (rt_log s) (dp_required_position d))"
proof (intro conjI ballI allI impI)
  note i = runtime_invD [OF runtime.reachable_inv [OF assms]]
  note lin = runtime_lineage [OF assms]
  note issued = registered_issued [OF i(2)] known_issued [OF i(2)]
  show "ml_lineage (rt_log s) = lineage" by (rule lin)
  show "tc_identity (rt_coordinators s ! k) = k" if "k < length (rt_coordinators s)" for k
    using coordinators_invD(1) [OF i(2) that] .
  show "at_coordinator_identity t < length (rt_coordinators s)"
    "issued_identity (rt_coordinators s ! at_coordinator_identity t) (at_transaction_id t)"
    if "t \<in> rt_active s" for t
    using that i(5) issued(1) by (auto simp: tokens_inv_def active_ok_def)
  show "it_coordinator_identity t < length (rt_coordinators s)"
    "issued_identity (rt_coordinators s ! it_coordinator_identity t) (it_transaction_id t)"
    "it_log_lineage t = lineage" if "t \<in> rt_indeterminate s" for t
    using that i(5) issued(1) lin by (auto simp: tokens_inv_def indeterminate_ok_def)
  show "issued_position (rt_log s) (ct_log_position ct)" if "ct \<in> rt_committed s" for ct
  proof -
    from that i(5) have "committed_ok (rt_log s) ct" by (simp add: tokens_inv_def)
    from durable_record_in [OF this [unfolded committed_ok_def]] memory_log_invD(2,3,5) [OF i(1)]
    show ?thesis by (fastforce simp: issued_position_def)
  qed
  show "\<exists>c \<in> set (rt_coordinators s). issued_identity c (ct_transaction_id ct)" if "ct \<in> rt_committed s" for ct
    by (rule issued(2)) (use that i(5) in \<open>auto simp: tokens_inv_def known_def\<close>)
  show "\<exists>c \<in> set (rt_coordinators s). issued_identity c (absent_transaction_id n)" if "n \<in> rt_absent s" for n
    by (rule issued(2)) (use that i(5) in \<open>auto simp: tokens_inv_def known_def\<close>)
  show "\<exists>c \<in> set (rt_coordinators s). issued_identity c (td_transaction_id td)" if "td \<in> rt_staged s" for td
    using that i(5) issued(2) by (auto simp: tokens_inv_def)
  show "pa_lineage (dp_address d) = lineage" "issued_position (rt_log s) (dp_required_position d)"
    if "d \<in> rt_dirty s \<union> td_dirty ` rt_staged s" for d
  proof -
    from that i(5) obtain k where "page_token_ok (rt_log s) k d" by (auto simp: tokens_inv_def)
    with lin show "pa_lineage (dp_address d) = lineage" "issued_position (rt_log s) (dp_required_position d)"
      by (auto simp: page_token_ok_def issued_position_def position_spent_def)
  qed
qed

theorem issued_tokens_typed_witness:
  "ex_committed 2 \<in> rt_committed (after_run flush_run)
    \<and> issued_position (rt_log (after_run flush_run)) (ct_log_position (ex_committed 2))
    \<and> (\<exists>c \<in> set (rt_coordinators (after_run flush_run)). issued_identity c (ct_transaction_id (ex_committed 2)))"
proof -
  have "ex_committed 2 \<in> rt_committed (after_run flush_run)" unfolding after_run_def by code_simp
  with issued_tokens_typed [OF runs_reachable(2)] show ?thesis by blast
qed

text \<open>C31: The positions of the log stay within their bounds in every reachable state: they are
  strictly ascending non-zero u64 values below the allocator's next one, so k records need an
  allocator of at least k + 1 and the counter never wraps; the durable prefix lies within the
  records; and once the allocator is exhausted every append is refused with
  PositionSpaceExhausted and changes nothing.
\<close>

theorem position_bounds:
  assumes "runtime_reachable reserve lineage s"
  shows "sorted_wrt (<) (map mr_value (ml_records (rt_log s)))
    \<and> (\<forall>r \<in> set (ml_records (rt_log s)). 0 < mr_value r)
    \<and> (\<forall>n. ml_next_position (rt_log s) = Some n \<longrightarrow>
        length (ml_records (rt_log s)) < unat n \<and> (\<forall>r \<in> set (ml_records (rt_log s)). mr_value r < n))
    \<and> ml_durable_len (rt_log s) \<le> length (ml_records (rt_log s))
    \<and> (ml_next_position (rt_log s) = None \<longrightarrow> (\<forall>kind.
        memory_log_append_record reserve kind (rt_log s) = (Inl PositionSpaceExhausted, rt_log s)))"
proof -
  note inv = runtime_invD(1) [OF runtime.reachable_inv [OF assms]]
  let ?l = "rt_log s"
  have "length (ml_records ?l) < unat n" if n: "ml_next_position ?l = Some n" for n
  proof -
    have "distinct (map mr_value (ml_records ?l))"
      using memory_log_invD(4) [OF inv] by (simp add: strict_sorted_iff)
    then have "length (ml_records ?l) = card (set (map mr_value (ml_records ?l)))"
      using distinct_card [of "map mr_value (ml_records ?l)"] by simp
    also have "\<dots> = card (unat ` set (map mr_value (ml_records ?l)))"
      by (rule card_image [symmetric]) (simp add: inj_on_def word_unat_eq_iff)
    also have "\<dots> \<le> card {1..<unat n}"
      using memory_log_invD(3,5) [OF inv] n
      by (intro card_mono) (auto simp: word_less_nat_alt Suc_le_eq)
    also have "\<dots> < unat n" using memory_log_invD(6) [OF inv n] by (simp add: word_less_nat_alt)
    finally show ?thesis .
  qed
  with memory_log_invD [OF inv] show ?thesis by (auto simp: memory_log_append_record_def)
qed

theorem position_bounds_witness:
  "sorted_wrt (<) (map mr_value (ml_records (rt_log (after_run flush_run))))
    \<and> length (ml_records (rt_log (after_run flush_run))) < unat (3 :: u64)"
proof -
  have "ml_next_position (rt_log (after_run flush_run)) = Some 3" unfolding after_run_def by code_simp
  with position_bounds [OF runs_reachable(2)] show ?thesis by blast
qed

end
