(* ===== verification/Page_Recovery.thy ===== *)
theory Page_Recovery
  imports Transaction Page_Reconcile
begin

text \<open>
  Committed-page recovery of \<open>ntsql-transaction\<close>, the pure part: observations of persisted
  identities, owned pages and commits; the classification of one owned page against the commit
  prefix; the selection of the latest committed image; its reconciliation with the stored
  snapshot; and the derivation and comparison of a recovery candidate.
\<close>

section \<open>Observations\<close>

datatype identity_observation_error_reason = ZeroEpoch | ZeroSequence

record identity_observation_error =
  ie_epoch :: u64
  ie_sequence :: u64
  ie_reason :: identity_observation_error_reason

record identity_observation =
  io_epoch :: u64
  io_sequence :: u64

definition identity_observation_new ::
  "u64 \<Rightarrow> u64 \<Rightarrow> identity_observation_error + identity_observation" where
  "identity_observation_new epoch sequence =
     (let error = (\<lambda>reason. \<lparr>ie_epoch = epoch, ie_sequence = sequence, ie_reason = reason\<rparr>) in
      if non_zero_u64 epoch = None then Inl (error ZeroEpoch)
      else if non_zero_u64 sequence = None then Inl (error ZeroSequence)
      else Inr \<lparr>io_epoch = epoch, io_sequence = sequence\<rparr>)"

definition matches_transaction_id :: "identity_observation \<Rightarrow> transaction_token_id \<Rightarrow> bool" where
  "matches_transaction_id o' t = (io_epoch o' = epoch_get (tt_epoch t) \<and> io_sequence o' = tt_sequence t)"

definition show_identity_observation :: "identity_observation \<Rightarrow> string" where
  "show_identity_observation o' = dec (io_epoch o') @ '':'' @ dec (io_sequence o')"

record transaction_page_observation =
  xo_owner :: identity_observation
  xo_page :: durable_page_wal_observation

abbreviation xo_position :: "transaction_page_observation \<Rightarrow> log_sequence_number" where
  "xo_position x \<equiv> wo_position (xo_page x)"

datatype transaction_page_observation_error_reason =
    OwnedPageIdentity identity_observation_error_reason
  | OwnedPagePage page_recovery_observation_bytes_error_reason

record transaction_page_observation_error =
  xe_epoch :: u64
  xe_sequence :: u64
  xe_page_number :: page_number
  xe_page_version :: image_version
  xe_bytes :: "u8 list"
  xe_position :: log_sequence_number
  xe_reason :: transaction_page_observation_error_reason

definition transaction_page_observation_from_bytes ::
  "u64 \<Rightarrow> u64 \<Rightarrow> page_number \<Rightarrow> image_version \<Rightarrow> u8 list \<Rightarrow> log_sequence_number
     \<Rightarrow> transaction_page_observation_error + transaction_page_observation" where
  "transaction_page_observation_from_bytes epoch sequence number version bytes position =
     (case identity_observation_new epoch sequence of
        Inl e \<Rightarrow> Inl \<lparr>xe_epoch = epoch, xe_sequence = sequence, xe_page_number = number,
          xe_page_version = version, xe_bytes = bytes, xe_position = position,
          xe_reason = OwnedPageIdentity (ie_reason e)\<rparr>
      | Inr owner \<Rightarrow>
          (case durable_page_wal_observation_from_bytes number version bytes position of
             Inl e \<Rightarrow> Inl \<lparr>xe_epoch = epoch, xe_sequence = sequence, xe_page_number = ob_page_number e,
               xe_page_version = ob_page_version e, xe_bytes = ob_bytes e, xe_position = ob_position e,
               xe_reason = OwnedPagePage (ob_reason e)\<rparr>
           | Inr page \<Rightarrow> Inr \<lparr>xo_owner = owner, xo_page = page\<rparr>))"

record commit_observation =
  co_transaction :: identity_observation
  co_position :: log_sequence_number

record commit_observation_error =
  cx_transaction :: identity_observation
  cx_position :: log_sequence_number

definition commit_observation_new ::
  "identity_observation \<Rightarrow> log_sequence_number \<Rightarrow> commit_observation_error + commit_observation" where
  "commit_observation_new t position =
     (if lsn_value position = 0 then Inl \<lparr>cx_transaction = t, cx_position = position\<rparr>
      else Inr \<lparr>co_transaction = t, co_position = position\<rparr>)"

datatype commit_observation_fields_error_reason =
    CommitFieldsIdentity identity_observation_error_reason
  | CommitFieldsZeroPosition

record commit_observation_fields_error =
  cy_epoch :: u64
  cy_sequence :: u64
  cy_position :: log_sequence_number
  cy_reason :: commit_observation_fields_error_reason

definition commit_observation_from_fields ::
  "u64 \<Rightarrow> u64 \<Rightarrow> log_sequence_number \<Rightarrow> commit_observation_fields_error + commit_observation" where
  "commit_observation_from_fields epoch sequence position =
     (case identity_observation_new epoch sequence of
        Inl e \<Rightarrow> Inl \<lparr>cy_epoch = epoch, cy_sequence = sequence, cy_position = position,
          cy_reason = CommitFieldsIdentity (ie_reason e)\<rparr>
      | Inr t \<Rightarrow>
          (case commit_observation_new t position of
             Inr observation \<Rightarrow> Inr observation
           | Inl e \<Rightarrow> Inl \<lparr>cy_epoch = epoch, cy_sequence = sequence, cy_position = cx_position e,
               cy_reason = CommitFieldsZeroPosition\<rparr>))"

section \<open>Classification of one owned page\<close>

datatype page_commit_classification =
    PageCommitted log_sequence_number log_sequence_number
  | PageUncommitted log_sequence_number

datatype page_classification_error =
    ClassifyForeignPageLineage log_sequence_number
  | ClassifyForeignCommitLineage log_sequence_number
  | RepeatedCommitPosition log_sequence_number
  | ContradictoryCommitPosition log_sequence_number
  | NonAdvancingCommitPosition log_sequence_number log_sequence_number
  | DuplicateMatchingCommit identity_observation log_sequence_number log_sequence_number
  | CommitNotAfterPage identity_observation log_sequence_number log_sequence_number

fun show_page_classification_error :: "page_classification_error \<Rightarrow> string" where
  "show_page_classification_error (ClassifyForeignPageLineage position) =
     ''transaction-owned page position '' @ show_lsn position @ '' belongs to another WAL lineage''"
| "show_page_classification_error (ClassifyForeignCommitLineage position) =
     ''durable commit position '' @ show_lsn position @ '' belongs to another WAL lineage''"
| "show_page_classification_error (RepeatedCommitPosition position) =
     ''durable commit position '' @ show_lsn position @ '' repeats with the same identity''"
| "show_page_classification_error (ContradictoryCommitPosition position) =
     ''durable commit position '' @ show_lsn position @ '' repeats with a different identity''"
| "show_page_classification_error (NonAdvancingCommitPosition previous actual) =
     ''durable commit position '' @ show_lsn actual @ '' does not advance beyond '' @ show_lsn previous"
| "show_page_classification_error (DuplicateMatchingCommit t first duplicate) =
     ''transaction '' @ show_identity_observation t @ '' has matching durable commits at positions ''
       @ show_lsn first @ '' and '' @ show_lsn duplicate"
| "show_page_classification_error (CommitNotAfterPage t page_position commit_position) =
     ''transaction '' @ show_identity_observation t @ '' commit position '' @ show_lsn commit_position
       @ '' is not after owned-page position '' @ show_lsn page_position"

definition check_matching_commit ::
  "identity_observation option \<Rightarrow> log_sequence_number option \<Rightarrow> commit_observation
     \<Rightarrow> page_classification_error + log_sequence_number option" where
  "check_matching_commit matching found c =
     (if matching = Some (co_transaction c)
      then (case found of
              Some first \<Rightarrow> Inl (DuplicateMatchingCommit (co_transaction c) first (co_position c))
            | None \<Rightarrow> Inr (Some (co_position c)))
      else Inr found)"

definition check_previous_commit ::
  "commit_observation option \<Rightarrow> commit_observation \<Rightarrow> page_classification_error + unit" where
  "check_previous_commit previous c =
     (case previous of
        None \<Rightarrow> Inr ()
      | Some p \<Rightarrow>
          if lsn_value (co_position c) = lsn_value (co_position p)
          then Inl (if co_transaction c = co_transaction p then RepeatedCommitPosition (co_position c)
                    else ContradictoryCommitPosition (co_position c))
          else ensure (\<not> lsn_value (co_position c) < lsn_value (co_position p))
                 (NonAdvancingCommitPosition (co_position p) (co_position c)))"

fun scan_commits ::
  "log_lineage \<Rightarrow> identity_observation option \<Rightarrow> commit_observation option \<Rightarrow> log_sequence_number option
     \<Rightarrow> commit_observation list \<Rightarrow> page_classification_error + log_sequence_number option" where
  "scan_commits expected_lineage matching previous found [] = Inr found"
| "scan_commits expected_lineage matching previous found (c # cs) =
     and_then (ensure (same_lineage expected_lineage (lsn_lineage (co_position c)))
       (ClassifyForeignCommitLineage (co_position c))) (\<lambda>_.
     and_then (check_matching_commit matching found c) (\<lambda>found1.
     and_then (check_previous_commit previous c) (\<lambda>_.
     scan_commits expected_lineage matching (Some c) found1 cs)))"

definition scan_durable_transaction_commits ::
  "log_lineage \<Rightarrow> identity_observation option \<Rightarrow> commit_observation list
     \<Rightarrow> page_classification_error + log_sequence_number option" where
  "scan_durable_transaction_commits expected_lineage matching cs =
     scan_commits expected_lineage matching None None cs"

definition classify_durable_transaction_page ::
  "log_lineage \<Rightarrow> transaction_page_observation \<Rightarrow> commit_observation list
     \<Rightarrow> page_classification_error + page_commit_classification" where
  "classify_durable_transaction_page expected_lineage page cs =
     and_then (ensure (same_lineage expected_lineage (lsn_lineage (xo_position page)))
       (ClassifyForeignPageLineage (xo_position page))) (\<lambda>_.
     and_then (scan_durable_transaction_commits expected_lineage (Some (xo_owner page)) cs) (\<lambda>matching.
     case matching of
       None \<Rightarrow> Inr (PageUncommitted (xo_position page))
     | Some commit_position \<Rightarrow>
         and_then (ensure (\<not> lsn_value commit_position \<le> lsn_value (xo_position page))
           (CommitNotAfterPage (xo_owner page) (xo_position page) commit_position)) (\<lambda>_.
         Inr (PageCommitted (xo_position page) commit_position))))"

end
