(* ===== verification/Page_Selection.thy ===== *)
theory Page_Selection
  imports Page_Recovery
begin

text \<open>
  Selection of the latest committed image of a page, its reconciliation with the physical log
  records and the stored snapshot, and the recovery candidate derived from it.
\<close>

section \<open>Selection\<close>

record latest_committed_page =
  lc_observation :: transaction_page_observation
  lc_commit_position :: log_sequence_number

datatype page_selection =
    SelectedNone page_number
  | SelectedLatest latest_committed_page

datatype page_selection_error =
    SelectCommitPrefix page_classification_error
  | UnexpectedOwnedPage page_number page_number log_sequence_number
  | ForeignOwnedPageLineage page_number log_sequence_number
  | RepeatedOwnedPagePosition page_number log_sequence_number
  | ContradictoryOwnedPagePosition page_number log_sequence_number
  | NonAdvancingOwnedPagePosition page_number log_sequence_number log_sequence_number
  | SelectPageClassification page_number log_sequence_number page_classification_error

fun show_page_selection_error :: "page_selection_error \<Rightarrow> string" where
  "show_page_selection_error (SelectCommitPrefix source) =
     ''complete durable commit prefix is invalid: '' @ show_page_classification_error source"
| "show_page_selection_error (UnexpectedOwnedPage expected actual position) =
     ''owned-page observation at position '' @ show_lsn position @ '' describes page ''
       @ show_page_number actual @ '', expected page '' @ show_page_number expected"
| "show_page_selection_error (ForeignOwnedPageLineage n position) =
     ''page '' @ show_page_number n @ '' owned-page position '' @ show_lsn position
       @ '' belongs to another WAL lineage''"
| "show_page_selection_error (RepeatedOwnedPagePosition n position) =
     ''page '' @ show_page_number n @ '' owned-page position '' @ show_lsn position
       @ '' repeats identical evidence''"
| "show_page_selection_error (ContradictoryOwnedPagePosition n position) =
     ''page '' @ show_page_number n @ '' owned-page position '' @ show_lsn position
       @ '' repeats contradictory evidence''"
| "show_page_selection_error (NonAdvancingOwnedPagePosition n previous actual) =
     ''page '' @ show_page_number n @ '' owned-page position '' @ show_lsn actual
       @ '' does not advance beyond '' @ show_lsn previous"
| "show_page_selection_error (SelectPageClassification n position source) =
     ''page '' @ show_page_number n @ '' owned-page observation at position '' @ show_lsn position
       @ '' cannot be classified: '' @ show_page_classification_error source"

definition same_owned_page_evidence ::
  "transaction_page_observation \<Rightarrow> transaction_page_observation \<Rightarrow> bool" where
  "same_owned_page_evidence a b = (xo_owner a = xo_owner b
     \<and> same_payload (wal_observation (xo_page a)) (wal_observation (xo_page b)))"

abbreviation xo_number :: "transaction_page_observation \<Rightarrow> page_number" where
  "xo_number x \<equiv> po_page_number (wal_observation (xo_page x))"

definition check_previous_owned ::
  "page_number \<Rightarrow> transaction_page_observation option \<Rightarrow> transaction_page_observation
     \<Rightarrow> page_selection_error + unit" where
  "check_previous_owned n previous x =
     (case previous of
        None \<Rightarrow> Inr ()
      | Some p \<Rightarrow>
          if lsn_value (xo_position x) = lsn_value (xo_position p)
          then Inl (if same_owned_page_evidence p x then RepeatedOwnedPagePosition n (xo_position x)
                    else ContradictoryOwnedPagePosition n (xo_position x))
          else ensure (\<not> lsn_value (xo_position x) < lsn_value (xo_position p))
                 (NonAdvancingOwnedPagePosition n (xo_position p) (xo_position x)))"

fun select_loop ::
  "log_lineage \<Rightarrow> page_number \<Rightarrow> commit_observation list \<Rightarrow> transaction_page_observation option
     \<Rightarrow> latest_committed_page option \<Rightarrow> transaction_page_observation list
     \<Rightarrow> page_selection_error + latest_committed_page option" where
  "select_loop expected_lineage n cs previous selected [] = Inr selected"
| "select_loop expected_lineage n cs previous selected (x # xs) =
     and_then (ensure (xo_number x = n) (UnexpectedOwnedPage n (xo_number x) (xo_position x))) (\<lambda>_.
     and_then (ensure (same_lineage expected_lineage (lsn_lineage (xo_position x)))
       (ForeignOwnedPageLineage (xo_number x) (xo_position x))) (\<lambda>_.
     and_then (check_previous_owned (xo_number x) previous x) (\<lambda>_.
     and_then (map_err (SelectPageClassification (xo_number x) (xo_position x))
       (classify_durable_transaction_page expected_lineage x cs)) (\<lambda>classification.
     select_loop expected_lineage n cs (Some x)
       (case classification of
          PageCommitted _ commit_position \<Rightarrow>
            Some \<lparr>lc_observation = x, lc_commit_position = commit_position\<rparr>
        | PageUncommitted _ \<Rightarrow> selected) xs))))"

definition select_latest_committed_transaction_page ::
  "log_lineage \<Rightarrow> page_number \<Rightarrow> transaction_page_observation list \<Rightarrow> commit_observation list
     \<Rightarrow> page_selection_error + page_selection" where
  "select_latest_committed_transaction_page expected_lineage n xs cs =
     and_then (map_err SelectCommitPrefix (scan_durable_transaction_commits expected_lineage None cs)) (\<lambda>_.
     and_then (select_loop expected_lineage n cs None None xs) (\<lambda>selected.
     Inr (case selected of Some s \<Rightarrow> SelectedLatest s | None \<Rightarrow> SelectedNone n)))"

section \<open>Committed-relative reconciliation\<close>

datatype committed_page_reconciliation =
    CommittedNone page_number
  | CommittedStoreMissing latest_committed_page
  | CommittedExactCurrent latest_committed_page
  | CommittedStoreBehind log_sequence_number log_sequence_number latest_committed_page

datatype committed_page_reconciliation_error =
    ReconcileSelection page_selection_error
  | ReconcilePhysical durable_page_reconciliation_error
  | OwnedPagePositionUnbacked page_number log_sequence_number
  | OwnedPagePayloadContradiction page_number log_sequence_number
  | SnapshotBackedByRawPage page_number log_sequence_number
  | SnapshotBackedByUncommittedPage page_number identity_observation log_sequence_number
  | SnapshotBackingClassification page_number log_sequence_number page_classification_error
  | CommittedSnapshotWithoutSelection page_number log_sequence_number log_sequence_number
  | CommittedSnapshotAfterSelection page_number log_sequence_number log_sequence_number

fun show_committed_page_reconciliation_error :: "committed_page_reconciliation_error \<Rightarrow> string" where
  "show_committed_page_reconciliation_error (ReconcileSelection source) =
     ''committed page selection failed: '' @ show_page_selection_error source"
| "show_committed_page_reconciliation_error (ReconcilePhysical source) =
     ''physical page reconciliation failed: '' @ show_durable_page_reconciliation_error source"
| "show_committed_page_reconciliation_error (OwnedPagePositionUnbacked n position) =
     ''page '' @ show_page_number n @ '' owned observation at position '' @ show_lsn position
       @ '' has no physical projection''"
| "show_committed_page_reconciliation_error (OwnedPagePayloadContradiction n position) =
     ''page '' @ show_page_number n @ '' owned and physical projections contradict at position ''
       @ show_lsn position"
| "show_committed_page_reconciliation_error (SnapshotBackedByRawPage n position) =
     ''page '' @ show_page_number n @ '' snapshot is backed by raw physical position '' @ show_lsn position"
| "show_committed_page_reconciliation_error (SnapshotBackedByUncommittedPage n t position) =
     ''page '' @ show_page_number n @ '' snapshot is backed by uncommitted transaction ''
       @ show_identity_observation t @ '' at position '' @ show_lsn position"
| "show_committed_page_reconciliation_error (SnapshotBackingClassification n position source) =
     ''page '' @ show_page_number n @ '' snapshot backing at position '' @ show_lsn position
       @ '' cannot be classified: '' @ show_page_classification_error source"
| "show_committed_page_reconciliation_error (CommittedSnapshotWithoutSelection n page commit) =
     ''page '' @ show_page_number n @ '' snapshot has committed backing at positions '' @ show_lsn page
       @ ''/'' @ show_lsn commit @ '' but selection found no committed page''"
| "show_committed_page_reconciliation_error (CommittedSnapshotAfterSelection n stored selected) =
     ''page '' @ show_page_number n @ '' committed snapshot position '' @ show_lsn stored
       @ '' is after selected committed position '' @ show_lsn selected"

text \<open>
  The index into the physical pages only moves forward: it is the remaining list.
\<close>

fun validate_owned_physical_page_projections ::
  "page_number \<Rightarrow> durable_page_wal_observation list \<Rightarrow> transaction_page_observation list
     \<Rightarrow> committed_page_reconciliation_error + unit" where
  "validate_owned_physical_page_projections n physical [] = Inr ()"
| "validate_owned_physical_page_projections n physical (x # xs) =
     (case dropWhile (\<lambda>w. lsn_value (wo_position w) < lsn_value (xo_position x)) physical of
        [] \<Rightarrow> Inl (OwnedPagePositionUnbacked n (xo_position x))
      | w # ws \<Rightarrow>
          and_then (ensure (lsn_value (wo_position w) = lsn_value (xo_position x))
            (OwnedPagePositionUnbacked n (xo_position x))) (\<lambda>_.
          and_then (ensure (same_payload (wal_observation w) (wal_observation (xo_page x)))
            (OwnedPagePayloadContradiction n (xo_position x))) (\<lambda>_.
          validate_owned_physical_page_projections n ws xs)))"

definition resolve_committed_snapshot_reconciliation ::
  "page_number \<Rightarrow> page_selection \<Rightarrow> log_sequence_number \<Rightarrow> log_sequence_number
     \<Rightarrow> committed_page_reconciliation_error + committed_page_reconciliation" where
  "resolve_committed_snapshot_reconciliation n selection stored_page stored_commit =
     (case selection of
        SelectedNone _ \<Rightarrow> Inl (CommittedSnapshotWithoutSelection n stored_page stored_commit)
      | SelectedLatest latest \<Rightarrow>
          let selected = xo_position (lc_observation latest) in
          if lsn_value stored_page = lsn_value selected then Inr (CommittedExactCurrent latest)
          else if lsn_value stored_page < lsn_value selected
          then Inr (CommittedStoreBehind stored_page stored_commit latest)
          else Inl (CommittedSnapshotAfterSelection n stored_page selected))"

text \<open>
  \<open>binary_search_by_key\<close> on a slice strictly sorted by the key finds the one element with the
  key, if there is one; the selection has validated that order before the search.
\<close>

definition find_owned_page ::
  "u64 \<Rightarrow> transaction_page_observation list \<Rightarrow> transaction_page_observation option" where
  "find_owned_page position xs = find (\<lambda>x. lsn_value (xo_position x) = position) xs"

definition reconcile_committed_transaction_page ::
  "log_lineage \<Rightarrow> page_number \<Rightarrow> stored_page_snapshot_observation option
     \<Rightarrow> durable_page_wal_observation list \<Rightarrow> transaction_page_observation list
     \<Rightarrow> commit_observation list
     \<Rightarrow> committed_page_reconciliation_error + committed_page_reconciliation" where
  "reconcile_committed_transaction_page expected_lineage n snapshot physical xs cs =
     and_then (map_err ReconcileSelection
       (select_latest_committed_transaction_page expected_lineage n xs cs)) (\<lambda>selection.
     and_then (map_err ReconcilePhysical
       (reconcile_durable_page expected_lineage n snapshot physical)) (\<lambda>_.
     and_then (validate_owned_physical_page_projections n physical xs) (\<lambda>_.
     case snapshot of
       None \<Rightarrow> Inr (case selection of
           SelectedNone m \<Rightarrow> CommittedNone m
         | SelectedLatest latest \<Rightarrow> CommittedStoreMissing latest)
     | Some s \<Rightarrow>
         (case find_owned_page (lsn_value (so_position s)) xs of
            None \<Rightarrow> Inl (SnapshotBackedByRawPage n (so_position s))
          | Some backing \<Rightarrow>
              and_then (map_err (SnapshotBackingClassification n (xo_position backing))
                (classify_durable_transaction_page expected_lineage backing cs)) (\<lambda>classification.
              case classification of
                PageUncommitted page_position \<Rightarrow>
                  Inl (SnapshotBackedByUncommittedPage n (xo_owner backing) page_position)
              | PageCommitted page_position commit_position \<Rightarrow>
                  resolve_committed_snapshot_reconciliation n selection page_position commit_position)))))"

section \<open>The recovery candidate\<close>

datatype recovery_precondition =
    PreconditionStoreMissing
  | PreconditionExactSnapshot stored_page_snapshot_observation log_sequence_number

record recovery_candidate =
  rc_precondition :: recovery_precondition
  rc_latest_committed :: latest_committed_page

datatype recovery_decision =
    DecisionNoCommittedPage page_number
  | DecisionExactCurrent latest_committed_page
  | DecisionCandidate recovery_candidate

datatype recovery_planning_error =
    PlanningReconciliation committed_page_reconciliation_error
  | UnexpectedSnapshotForAbsentStore page_number log_sequence_number
  | MissingSnapshotForPresentStore page_number log_sequence_number
  | SnapshotPositionContradiction page_number log_sequence_number log_sequence_number

fun show_recovery_planning_error :: "recovery_planning_error \<Rightarrow> string" where
  "show_recovery_planning_error (PlanningReconciliation source) =
     ''committed page reconciliation failed: '' @ show_committed_page_reconciliation_error source"
| "show_recovery_planning_error (UnexpectedSnapshotForAbsentStore n position) =
     ''page '' @ show_page_number n @ '' reconciliation reported an absent store despite snapshot position ''
       @ show_lsn position"
| "show_recovery_planning_error (MissingSnapshotForPresentStore n expected) =
     ''page '' @ show_page_number n @ '' reconciliation reported stored position '' @ show_lsn expected
       @ '' without a snapshot''"
| "show_recovery_planning_error (SnapshotPositionContradiction n reconciled snapshot) =
     ''page '' @ show_page_number n @ '' reconciliation position '' @ show_lsn reconciled
       @ '' contradicts snapshot position '' @ show_lsn snapshot"

text \<open>The snapshot a reconciliation must be matched with, and the position it must have.\<close>

definition snapshot_absent ::
  "page_number \<Rightarrow> stored_page_snapshot_observation option \<Rightarrow> recovery_planning_error + unit" where
  "snapshot_absent n snapshot =
     (case snapshot of Some s \<Rightarrow> Inl (UnexpectedSnapshotForAbsentStore n (so_position s)) | None \<Rightarrow> Inr ())"

definition snapshot_at ::
  "page_number \<Rightarrow> log_sequence_number \<Rightarrow> stored_page_snapshot_observation option
     \<Rightarrow> recovery_planning_error + stored_page_snapshot_observation" where
  "snapshot_at n position snapshot =
     (case snapshot of
        None \<Rightarrow> Inl (MissingSnapshotForPresentStore n position)
      | Some s \<Rightarrow>
          and_then (ensure (lsn_eq (so_position s) position)
            (SnapshotPositionContradiction n position (so_position s))) (\<lambda>_. Inr s))"

definition derive_recovery_candidate ::
  "log_lineage \<Rightarrow> page_number \<Rightarrow> stored_page_snapshot_observation option
     \<Rightarrow> durable_page_wal_observation list \<Rightarrow> transaction_page_observation list
     \<Rightarrow> commit_observation list \<Rightarrow> recovery_planning_error + recovery_decision" where
  "derive_recovery_candidate expected_lineage n snapshot physical xs cs =
     and_then (map_err PlanningReconciliation
       (reconcile_committed_transaction_page expected_lineage n snapshot physical xs cs)) (\<lambda>reconciliation.
     case reconciliation of
       CommittedNone m \<Rightarrow>
         and_then (snapshot_absent m snapshot) (\<lambda>_. Inr (DecisionNoCommittedPage m))
     | CommittedStoreMissing latest \<Rightarrow>
         and_then (snapshot_absent n snapshot) (\<lambda>_.
           Inr (DecisionCandidate \<lparr>rc_precondition = PreconditionStoreMissing,
             rc_latest_committed = latest\<rparr>))
     | CommittedExactCurrent latest \<Rightarrow>
         and_then (snapshot_at n (xo_position (lc_observation latest)) snapshot) (\<lambda>_.
           Inr (DecisionExactCurrent latest))
     | CommittedStoreBehind stored_page stored_commit latest \<Rightarrow>
         and_then (snapshot_at n stored_page snapshot) (\<lambda>s.
           Inr (DecisionCandidate \<lparr>rc_precondition = PreconditionExactSnapshot s stored_commit,
             rc_latest_committed = latest\<rparr>)))"

section \<open>Comparison with the current store\<close>

datatype recovery_comparison = SourceMatches | TargetAlreadyPresent

datatype recovery_comparison_error =
    UnexpectedCurrentSnapshotPage page_number page_number log_sequence_number
  | ForeignCurrentSnapshotLineage page_number log_sequence_number
  | TargetSnapshotPayloadContradiction page_number log_sequence_number
  | SourceSnapshotPayloadContradiction page_number log_sequence_number
  | StoreChanged page_number "log_sequence_number option" "log_sequence_number option"

fun show_recovery_comparison_error :: "recovery_comparison_error \<Rightarrow> string" where
  "show_recovery_comparison_error (UnexpectedCurrentSnapshotPage expected actual position) =
     ''recovery candidate for page '' @ show_page_number expected @ '' received page ''
       @ show_page_number actual @ '' at position '' @ show_lsn position"
| "show_recovery_comparison_error (ForeignCurrentSnapshotLineage n position) =
     ''page '' @ show_page_number n @ '' current snapshot position '' @ show_lsn position
       @ '' belongs to another log lineage''"
| "show_recovery_comparison_error (TargetSnapshotPayloadContradiction n position) =
     ''page '' @ show_page_number n @ '' current snapshot contradicts target payload at position ''
       @ show_lsn position"
| "show_recovery_comparison_error (SourceSnapshotPayloadContradiction n position) =
     ''page '' @ show_page_number n @ '' current snapshot contradicts source payload at position ''
       @ show_lsn position"
| "show_recovery_comparison_error (StoreChanged n expected actual) =
     ''page '' @ show_page_number n @ '' store changed from source position ''
       @ debug_u64_option (map_option lsn_value expected) @ '' to position ''
       @ debug_u64_option (map_option lsn_value actual)"

definition snapshot_matches_owned_page ::
  "stored_page_snapshot_observation \<Rightarrow> transaction_page_observation \<Rightarrow> bool" where
  "snapshot_matches_owned_page s x = (po_page_number (snapshot_observation s) = xo_number x
     \<and> lsn_eq (so_position s) (xo_position x)
     \<and> same_payload (snapshot_observation s) (wal_observation (xo_page x)))"

definition snapshots_match ::
  "stored_page_snapshot_observation \<Rightarrow> stored_page_snapshot_observation \<Rightarrow> bool" where
  "snapshots_match a b = (po_page_number (snapshot_observation a) = po_page_number (snapshot_observation b)
     \<and> lsn_eq (so_position a) (so_position b)
     \<and> same_payload (snapshot_observation a) (snapshot_observation b))"

definition compare_recovery_candidate ::
  "recovery_candidate \<Rightarrow> stored_page_snapshot_observation option
     \<Rightarrow> recovery_comparison_error + recovery_comparison" where
  "compare_recovery_candidate candidate current =
     (let target = lc_observation (rc_latest_committed candidate); n = xo_number target in
      case current of
        None \<Rightarrow>
          (case rc_precondition candidate of
             PreconditionStoreMissing \<Rightarrow> Inr SourceMatches
           | PreconditionExactSnapshot s _ \<Rightarrow> Inl (StoreChanged n (Some (so_position s)) None))
      | Some c \<Rightarrow>
          if po_page_number (snapshot_observation c) \<noteq> n
          then Inl (UnexpectedCurrentSnapshotPage n (po_page_number (snapshot_observation c)) (so_position c))
          else if \<not> same_lineage (lsn_lineage (xo_position target)) (lsn_lineage (so_position c))
          then Inl (ForeignCurrentSnapshotLineage n (so_position c))
          else if lsn_value (so_position c) = lsn_value (xo_position target)
          then (if snapshot_matches_owned_page c target then Inr TargetAlreadyPresent
                else Inl (TargetSnapshotPayloadContradiction n (so_position c)))
          else
            (case rc_precondition candidate of
               PreconditionStoreMissing \<Rightarrow> Inl (StoreChanged n None (Some (so_position c)))
             | PreconditionExactSnapshot s _ \<Rightarrow>
                 if lsn_value (so_position c) = lsn_value (so_position s)
                 then (if snapshots_match c s then Inr SourceMatches
                       else Inl (SourceSnapshotPayloadContradiction n (so_position c)))
                 else Inl (StoreChanged n (Some (so_position s)) (Some (so_position c)))))"

end
