(* ===== verification/Page_Recovery_Gate.thy ===== *)
theory Page_Recovery_Gate
  imports Page_Selection
begin

text \<open>
  The committed-page recovery gate of \<open>ntsql-transaction\<close> over arbitrary ports: one page
  (\<open>recover_committed_transaction_page\<close>) and the whole durable inventory
  (\<open>recover_committed_transaction_pages\<close>). The source lends its evidence to a callback; the
  callback's captured variables, the store and the recorded write attempt, are passed through the
  port as a state \<open>'st\<close>.
\<close>

section \<open>The ports\<close>

record ('src, 'e, 'st, 'out) page_recovery_source =
  source_lineage :: "'src \<Rightarrow> log_lineage"
  with_durable_page_evidence ::
    "page_number
      \<Rightarrow> (durable_page_wal_observation list \<Rightarrow> transaction_page_observation list
           \<Rightarrow> commit_observation list \<Rightarrow> 'st \<Rightarrow> 'out \<times> 'st)
      \<Rightarrow> 'src \<Rightarrow> 'st \<Rightarrow> ('e + 'out) \<times> 'src \<times> 'st"

record ('src, 'ie, 'e, 'st, 'out) page_recovery_inventory = "('src, 'e, 'st, 'out) page_recovery_source" +
  durable_transaction_page_numbers :: "'src \<Rightarrow> ('ie + page_number list) \<times> 'src"

record ('s, 'oe) page_store_snapshot_source =
  snapshot_lineage :: "'s \<Rightarrow> log_lineage"
  snapshot_observe_page :: "page_number \<Rightarrow> 's \<Rightarrow> 'oe + stored_page_snapshot_observation option"

record recovery_write_permit =
  wp_page_position :: log_sequence_number
  wp_commit_position :: log_sequence_number

record ('s, 'oe, 'we) page_recovery_store = "('s, 'oe) page_store_snapshot_source" +
  compare_and_replace :: "recovery_candidate \<Rightarrow> recovery_write_permit \<Rightarrow> 's \<Rightarrow> ('we + unit) \<times> 's"

definition with_committed_page_recovery_write_permit ::
  "log_sequence_number \<Rightarrow> log_sequence_number \<Rightarrow> (recovery_write_permit \<Rightarrow> 'a) \<Rightarrow> 'a" where
  "with_committed_page_recovery_write_permit page_position commit_position operation =
     operation \<lparr>wp_page_position = page_position, wp_commit_position = commit_position\<rparr>"

section \<open>Outcomes\<close>

datatype recovery_source_state =
    SourceStoreMissing page_number log_sequence_number
  | SourceExactSnapshot page_number image_version "u8 list" log_sequence_number log_sequence_number

fun source_state_page_number :: "recovery_source_state \<Rightarrow> page_number" where
  "source_state_page_number (SourceStoreMissing n _) = n"
| "source_state_page_number (SourceExactSnapshot n _ _ _ _) = n"

record recovery_target =
  rg_transaction :: identity_observation
  rg_page_number :: page_number
  rg_page_version :: image_version
  rg_bytes :: "u8 list"
  rg_page_position :: log_sequence_number
  rg_commit_position :: log_sequence_number

definition owned_recovery_source_state :: "recovery_candidate \<Rightarrow> recovery_source_state" where
  "owned_recovery_source_state candidate =
     (case rc_precondition candidate of
        PreconditionStoreMissing \<Rightarrow>
          (let target = lc_observation (rc_latest_committed candidate) in
           SourceStoreMissing (xo_number target) (xo_position target))
      | PreconditionExactSnapshot s commit_position \<Rightarrow>
          SourceExactSnapshot (po_page_number (snapshot_observation s))
            (po_page_version (snapshot_observation s)) (image_bytes (po_image (snapshot_observation s)))
            (so_position s) commit_position)"

definition owned_recovery_target :: "latest_committed_page \<Rightarrow> recovery_target" where
  "owned_recovery_target latest =
     (let x = lc_observation latest; page = wal_observation (xo_page x) in
      \<lparr>rg_transaction = xo_owner x, rg_page_number = po_page_number page,
       rg_page_version = po_page_version page, rg_bytes = image_bytes (po_image page),
       rg_page_position = xo_position x, rg_commit_position = lc_commit_position latest\<rparr>)"

datatype recovery_outcome =
    OutcomeNoCommittedPage page_number
  | OutcomeAlreadyCurrent recovery_target
  | OutcomeRecovered recovery_target

fun outcome_page_number :: "recovery_outcome \<Rightarrow> page_number" where
  "outcome_page_number (OutcomeNoCommittedPage n) = n"
| "outcome_page_number (OutcomeAlreadyCurrent target) = rg_page_number target"
| "outcome_page_number (OutcomeRecovered target) = rg_page_number target"

record 'we indeterminate_recovery =
  ir_source_state :: recovery_source_state
  ir_target :: recovery_target
  ir_source :: 'we

definition show_indeterminate_recovery :: "('we \<Rightarrow> string) \<Rightarrow> 'we indeterminate_recovery \<Rightarrow> string" where
  "show_indeterminate_recovery show_error r =
     ''committed recovery write for page '' @ show_page_number (rg_page_number (ir_target r))
       @ '' at position '' @ show_lsn (rg_page_position (ir_target r)) @ '' failed: ''
       @ show_error (ir_source r)"

datatype ('e, 'oe, 'we) page_recovery_error =
    RecoveryLineageMismatch log_lineage log_lineage
  | RecoverySource 'e
  | RecoveryStoreObservation 'oe
  | RecoveryPlanning recovery_planning_error
  | RecoveryCandidateComparison recovery_comparison_error
  | RecoveryUnexpectedComparison recovery_comparison
  | RecoveryStoreWrite "'we indeterminate_recovery"
  | AttemptResultMissing page_number

fun debug_recovery_comparison :: "recovery_comparison \<Rightarrow> string" where
  "debug_recovery_comparison SourceMatches = ''SourceMatches''"
| "debug_recovery_comparison TargetAlreadyPresent = ''TargetAlreadyPresent''"

fun show_page_recovery_error ::
  "('e \<Rightarrow> string) \<Rightarrow> ('oe \<Rightarrow> string) \<Rightarrow> ('we \<Rightarrow> string) \<Rightarrow> ('e, 'oe, 'we) page_recovery_error \<Rightarrow> string" where
  "show_page_recovery_error fe fo fw (RecoveryLineageMismatch _ _) =
     ''recovery source and page store belong to different lineages''"
| "show_page_recovery_error fe fo fw (RecoverySource source) = ''recovery source failed: '' @ fe source"
| "show_page_recovery_error fe fo fw (RecoveryStoreObservation source) =
     ''page-store observation failed: '' @ fo source"
| "show_page_recovery_error fe fo fw (RecoveryPlanning source) =
     ''recovery planning failed: '' @ show_recovery_planning_error source"
| "show_page_recovery_error fe fo fw (RecoveryCandidateComparison source) =
     ''recovery candidate comparison failed: '' @ show_recovery_comparison_error source"
| "show_page_recovery_error fe fo fw (RecoveryUnexpectedComparison actual) =
     ''recovery candidate self-comparison unexpectedly returned '' @ debug_recovery_comparison actual"
| "show_page_recovery_error fe fo fw (RecoveryStoreWrite state) = show_indeterminate_recovery fw state"
| "show_page_recovery_error fe fo fw (AttemptResultMissing n) =
     ''page '' @ show_page_number n @ '' recovery source returned a write marker without an attempt result''"

section \<open>One page\<close>

datatype 'oe recovery_before_write_error =
    BeforeStoreObservation 'oe
  | BeforePlanning recovery_planning_error
  | BeforeCandidateComparison recovery_comparison_error
  | BeforeUnexpectedComparison recovery_comparison

datatype 'oe recovery_callback_outcome =
    CallbackCompleted "'oe recovery_before_write_error + recovery_outcome"
  | CallbackWriteAttempted

datatype 'we recovery_write_attempt =
    AttemptSucceeded recovery_target
  | AttemptFailed "'we indeterminate_recovery"

fun map_recovery_before_write_error ::
  "'oe recovery_before_write_error \<Rightarrow> ('e, 'oe, 'we) page_recovery_error" where
  "map_recovery_before_write_error (BeforeStoreObservation source) = RecoveryStoreObservation source"
| "map_recovery_before_write_error (BeforePlanning source) = RecoveryPlanning source"
| "map_recovery_before_write_error (BeforeCandidateComparison source) = RecoveryCandidateComparison source"
| "map_recovery_before_write_error (BeforeUnexpectedComparison actual) = RecoveryUnexpectedComparison actual"

text \<open>The write: the permit for the candidate's positions, and what is recorded of the attempt.\<close>

definition attempt_recovery_write ::
  "('s, 'oe, 'we) page_recovery_store \<Rightarrow> recovery_candidate \<Rightarrow> 's
     \<Rightarrow> 'we recovery_write_attempt \<times> 's" where
  "attempt_recovery_write sport candidate store =
     (let source_state = owned_recovery_source_state candidate;
          target = owned_recovery_target (rc_latest_committed candidate);
          (res, store1) = with_committed_page_recovery_write_permit (rg_page_position target)
            (rg_commit_position target) (\<lambda>permit. compare_and_replace sport candidate permit store) in
      case res of
        Inr _ \<Rightarrow> (AttemptSucceeded target, store1)
      | Inl source \<Rightarrow> (AttemptFailed \<lparr>ir_source_state = source_state, ir_target = target,
          ir_source = source\<rparr>, store1))"

type_synonym ('s, 'we) gate_state = "'s \<times> 'we recovery_write_attempt option"

definition recovery_callback ::
  "('s, 'oe, 'we) page_recovery_store \<Rightarrow> log_lineage \<Rightarrow> page_number
     \<Rightarrow> durable_page_wal_observation list \<Rightarrow> transaction_page_observation list \<Rightarrow> commit_observation list
     \<Rightarrow> ('s, 'we) gate_state \<Rightarrow> 'oe recovery_callback_outcome \<times> ('s, 'we) gate_state" where
  "recovery_callback sport lineage n physical xs cs st =
     (let (store, attempt) = st; stop = (\<lambda>e. (CallbackCompleted (Inl e), st)) in
      case snapshot_observe_page sport n store of
        Inl source \<Rightarrow> stop (BeforeStoreObservation source)
      | Inr snapshot \<Rightarrow>
      (case derive_recovery_candidate lineage n snapshot physical xs cs of
        Inl source \<Rightarrow> stop (BeforePlanning source)
      | Inr (DecisionNoCommittedPage m) \<Rightarrow> (CallbackCompleted (Inr (OutcomeNoCommittedPage m)), st)
      | Inr (DecisionExactCurrent latest) \<Rightarrow>
          (CallbackCompleted (Inr (OutcomeAlreadyCurrent (owned_recovery_target latest))), st)
      | Inr (DecisionCandidate candidate) \<Rightarrow>
      (case compare_recovery_candidate candidate snapshot of
        Inl source \<Rightarrow> stop (BeforeCandidateComparison source)
      | Inr TargetAlreadyPresent \<Rightarrow> stop (BeforeUnexpectedComparison TargetAlreadyPresent)
      | Inr SourceMatches \<Rightarrow>
          (let (attempt1, store1) = attempt_recovery_write sport candidate store in
           (CallbackWriteAttempted, (store1, Some attempt1))))))"

text \<open>The end of the gate: the recorded attempt takes priority over the source's answer.\<close>

definition gate_result ::
  "page_number \<Rightarrow> 'we recovery_write_attempt option \<Rightarrow> 'e + 'oe recovery_callback_outcome
     \<Rightarrow> ('e, 'oe, 'we) page_recovery_error + recovery_outcome" where
  "gate_result n attempt res =
     (case attempt of
        Some (AttemptSucceeded target) \<Rightarrow> Inr (OutcomeRecovered target)
      | Some (AttemptFailed state) \<Rightarrow> Inl (RecoveryStoreWrite state)
      | None \<Rightarrow>
          (case res of
             Inl source \<Rightarrow> Inl (RecoverySource source)
           | Inr (CallbackCompleted r) \<Rightarrow> map_err map_recovery_before_write_error r
           | Inr CallbackWriteAttempted \<Rightarrow> Inl (AttemptResultMissing n)))"

definition recover_committed_transaction_page ::
  "('src, 'e, ('s, 'we) gate_state, 'oe recovery_callback_outcome, 'z) page_recovery_source_scheme
     \<Rightarrow> ('s, 'oe, 'we) page_recovery_store \<Rightarrow> page_number \<Rightarrow> 'src \<Rightarrow> 's
     \<Rightarrow> (('e, 'oe, 'we) page_recovery_error + recovery_outcome) \<times> 'src \<times> 's" where
  "recover_committed_transaction_page rport sport n source store =
     (let lineage = source_lineage rport source in
      if \<not> same_lineage lineage (snapshot_lineage sport store)
      then (Inl (RecoveryLineageMismatch lineage (snapshot_lineage sport store)), source, store)
      else
        let (res, source1, store1, attempt) =
          with_durable_page_evidence rport n (recovery_callback sport lineage n) source (store, None)
        in (gate_result n attempt res, source1, store1))"

section \<open>The whole inventory\<close>

datatype ('ie, 'e, 'oe, 'we) pages_recovery_error =
    PagesLineageMismatch log_lineage log_lineage
  | PagesInventory 'ie
  | InventoryNotStrictlyIncreasing page_number page_number
  | OutcomeCapacityExhausted nat
  | PagesPage "recovery_outcome list" page_number "('e, 'oe, 'we) page_recovery_error"

fun show_pages_recovery_error ::
  "('ie \<Rightarrow> string) \<Rightarrow> ('e \<Rightarrow> string) \<Rightarrow> ('oe \<Rightarrow> string) \<Rightarrow> ('we \<Rightarrow> string)
     \<Rightarrow> ('ie, 'e, 'oe, 'we) pages_recovery_error \<Rightarrow> string" where
  "show_pages_recovery_error fi fe fo fw (PagesLineageMismatch _ _) =
     ''recovery inventory source and page store belong to different lineages''"
| "show_pages_recovery_error fi fe fo fw (PagesInventory source) = ''recovery inventory failed: '' @ fi source"
| "show_pages_recovery_error fi fe fo fw (InventoryNotStrictlyIncreasing previous actual) =
     ''recovery inventory page '' @ show_page_number actual @ '' is not strictly greater than page ''
       @ show_page_number previous"
| "show_pages_recovery_error fi fe fo fw (OutcomeCapacityExhausted page_count) =
     ''recovery outcome capacity is exhausted for '' @ dec_nat page_count @ '' inventoried pages''"
| "show_pages_recovery_error fi fe fo fw (PagesPage completed n source) =
     ''committed recovery failed at inventoried page '' @ show_page_number n @ '': ''
       @ show_page_recovery_error fe fo fw source"

text \<open>The first adjacent pair that does not ascend.\<close>

fun check_inventory :: "page_number list \<Rightarrow> ('ie, 'e, 'oe, 'we) pages_recovery_error + unit" where
  "check_inventory (previous # actual # ns) =
     (if page_number_get actual \<le> page_number_get previous
      then Inl (InventoryNotStrictlyIncreasing previous actual)
      else check_inventory (actual # ns))"
| "check_inventory _ = Inr ()"

fun recover_pages_loop ::
  "('src, 'e, ('s, 'we) gate_state, 'oe recovery_callback_outcome, 'z) page_recovery_source_scheme
     \<Rightarrow> ('s, 'oe, 'we) page_recovery_store \<Rightarrow> recovery_outcome list \<Rightarrow> page_number list \<Rightarrow> 'src \<Rightarrow> 's
     \<Rightarrow> (('ie, 'e, 'oe, 'we) pages_recovery_error + recovery_outcome list) \<times> 'src \<times> 's" where
  "recover_pages_loop rport sport pages [] source store = (Inr pages, source, store)"
| "recover_pages_loop rport sport pages (n # ns) source store =
     (case recover_committed_transaction_page rport sport n source store of
        (Inr outcome, source1, store1) \<Rightarrow>
          recover_pages_loop rport sport (pages @ [outcome]) ns source1 store1
      | (Inl e, source1, store1) \<Rightarrow> (Inl (PagesPage pages n e), source1, store1))"

definition recover_committed_transaction_pages ::
  "(nat \<Rightarrow> bool)
     \<Rightarrow> ('src, 'ie, 'e, ('s, 'we) gate_state, 'oe recovery_callback_outcome) page_recovery_inventory
     \<Rightarrow> ('s, 'oe, 'we) page_recovery_store \<Rightarrow> 'src \<Rightarrow> 's
     \<Rightarrow> (('ie, 'e, 'oe, 'we) pages_recovery_error + recovery_outcome list) \<times> 'src \<times> 's" where
  "recover_committed_transaction_pages alloc rport sport source store =
     (let lineage = source_lineage rport source in
      if \<not> same_lineage lineage (snapshot_lineage sport store)
      then (Inl (PagesLineageMismatch lineage (snapshot_lineage sport store)), source, store)
      else case durable_transaction_page_numbers rport source of
        (Inl e, source1) \<Rightarrow> (Inl (PagesInventory e), source1, store)
      | (Inr ns, source1) \<Rightarrow>
          (case check_inventory ns of
             Inl e \<Rightarrow> (Inl e, source1, store)
           | Inr _ \<Rightarrow>
               if \<not> alloc (length ns) then (Inl (OutcomeCapacityExhausted (length ns)), source1, store)
               else recover_pages_loop rport sport [] ns source1 store))"

end
