(* ===== verification/Memory_Recovery.thy ===== *)
theory Memory_Recovery
  imports Page_Recovery_Gate Memory_Page_Store
begin

text \<open>
  The in-memory adapters of the committed-page recovery gate: the projection of log records into
  recovery evidence, the inventory of owned pages, and the compare-and-replace write of the page
  store. \<open>alloc n\<close> says whether an empty vector can reserve \<open>n\<close> elements. At the end, how the
  rejected observations and the evidence errors print themselves.
\<close>

section \<open>Projection of log records\<close>

definition kind_transaction_page_write ::
  "memory_record_kind \<Rightarrow> memory_transaction_page_write_record option" where
  "kind_transaction_page_write k = (case k of
     MemTransactionPageWrite r \<Rightarrow> Some r | MemTransactionCommit _ \<Rightarrow> None | MemPageWrite _ \<Rightarrow> None)"

definition project_page_recovery_observation ::
  "log_sequence_number \<Rightarrow> memory_page_write_record
     \<Rightarrow> page_recovery_observation_bytes_error + durable_page_wal_observation" where
  "project_page_recovery_observation position r = durable_page_wal_observation_from_bytes
     (mp_page_number r) (mp_page_version r) (mp_bytes r) position"

definition project_transaction_page_recovery_observation ::
  "log_sequence_number \<Rightarrow> memory_transaction_page_write_record
     \<Rightarrow> transaction_page_observation_error + transaction_page_observation" where
  "project_transaction_page_recovery_observation position r =
     (let page = mt_page r; t = mt_transaction_id r in
      transaction_page_observation_from_bytes (epoch_get (tt_epoch t)) (tt_sequence t)
        (mp_page_number page) (mp_page_version page) (mp_bytes page) position)"

definition project_transaction_commit_recovery_observation ::
  "log_sequence_number \<Rightarrow> transaction_token_id
     \<Rightarrow> commit_observation_fields_error + commit_observation" where
  "project_transaction_commit_recovery_observation position t =
     commit_observation_from_fields (epoch_get (tt_epoch t)) (tt_sequence t) position"

definition record_page_observation ::
  "memory_log_record \<Rightarrow> page_recovery_observation_bytes_error + durable_page_wal_observation option" where
  "record_page_observation r =
     (case kind_page_write (mr_kind r) of
        None \<Rightarrow> Inr None
      | Some w \<Rightarrow> map_sum (\<lambda>e. e) Some (project_page_recovery_observation (mr_position r) w))"

definition record_transaction_page_observation ::
  "memory_log_record \<Rightarrow> transaction_page_observation_error + transaction_page_observation option" where
  "record_transaction_page_observation r =
     (case kind_transaction_page_write (mr_kind r) of
        None \<Rightarrow> Inr None
      | Some w \<Rightarrow> map_sum (\<lambda>e. e) Some (project_transaction_page_recovery_observation (mr_position r) w))"

definition record_commit_observation ::
  "memory_log_record \<Rightarrow> commit_observation_fields_error + commit_observation option" where
  "record_commit_observation r =
     (case kind_transaction_id (mr_kind r) of
        None \<Rightarrow> Inr None
      | Some t \<Rightarrow> map_sum (\<lambda>e. e) Some (project_transaction_commit_recovery_observation (mr_position r) t))"

section \<open>Inventory and evidence\<close>

datatype memory_recovery_inventory_error = InventoryPageCapacityExhausted

definition show_memory_recovery_inventory_error :: "memory_recovery_inventory_error \<Rightarrow> string" where
  "show_memory_recovery_inventory_error e =
     ''in-memory recovery page inventory capacity is exhausted''"

definition memory_durable_transaction_page_numbers ::
  "(nat \<Rightarrow> bool) \<Rightarrow> memory_log \<Rightarrow> (memory_recovery_inventory_error + page_number list) \<times> memory_log" where
  "memory_durable_transaction_page_numbers alloc l =
     (if \<not> alloc (ml_durable_len l) then (Inl InventoryPageCapacityExhausted, l)
      else
        let ns = map (\<lambda>w. mp_page_number (mt_page w))
          (List.map_filter (\<lambda>r. kind_transaction_page_write (mr_kind r)) (memory_log_durable_records l))
        in (Inr (remdups_adj (sort_key page_number_get ns)), l))"

datatype memory_recovery_projection = PhysicalPages | TransactionPages | Commits

fun show_memory_recovery_projection :: "memory_recovery_projection \<Rightarrow> string" where
  "show_memory_recovery_projection PhysicalPages = ''physical page''"
| "show_memory_recovery_projection TransactionPages = ''transaction page''"
| "show_memory_recovery_projection Commits = ''commit''"

datatype memory_recovery_source_error =
    EvidenceCapacityExhausted memory_recovery_projection
  | PhysicalPageProjection page_recovery_observation_bytes_error
  | TransactionPageProjection transaction_page_observation_error
  | CommitProjection commit_observation_fields_error

type_synonym page_evidence =
  "durable_page_wal_observation list \<times> transaction_page_observation list \<times> commit_observation list"

text \<open>The evidence of one record, appended to what was collected before it.\<close>

definition add_evidence ::
  "page_number \<Rightarrow> memory_log_record \<Rightarrow> page_evidence \<Rightarrow> memory_recovery_source_error + page_evidence" where
  "add_evidence n r evidence =
     (case evidence of (ws, xs, cs) \<Rightarrow>
      and_then (if (case kind_page_write (mr_kind r) of None \<Rightarrow> False | Some w \<Rightarrow> mp_page_number w = n)
                then map_err PhysicalPageProjection (record_page_observation r) else Inr None) (\<lambda>w.
      and_then (if (case kind_transaction_page_write (mr_kind r) of None \<Rightarrow> False
                    | Some x \<Rightarrow> mp_page_number (mt_page x) = n)
                then map_err TransactionPageProjection (record_transaction_page_observation r)
                else Inr None) (\<lambda>x.
      and_then (map_err CommitProjection (record_commit_observation r)) (\<lambda>c.
      Inr (ws @ (case w of None \<Rightarrow> [] | Some w \<Rightarrow> [w]), xs @ (case x of None \<Rightarrow> [] | Some x \<Rightarrow> [x]),
           cs @ (case c of None \<Rightarrow> [] | Some c \<Rightarrow> [c]))))))"

fun collect_evidence ::
  "page_number \<Rightarrow> memory_log_record list \<Rightarrow> page_evidence \<Rightarrow> memory_recovery_source_error + page_evidence" where
  "collect_evidence n [] evidence = Inr evidence"
| "collect_evidence n (r # rs) evidence =
     and_then (add_evidence n r evidence) (collect_evidence n rs)"

definition memory_with_durable_page_evidence ::
  "(memory_recovery_projection \<Rightarrow> nat \<Rightarrow> bool) \<Rightarrow> page_number
     \<Rightarrow> (durable_page_wal_observation list \<Rightarrow> transaction_page_observation list
          \<Rightarrow> commit_observation list \<Rightarrow> 'st \<Rightarrow> 'out \<times> 'st)
     \<Rightarrow> memory_log \<Rightarrow> 'st \<Rightarrow> (memory_recovery_source_error + 'out) \<times> memory_log \<times> 'st" where
  "memory_with_durable_page_evidence alloc n operation l st =
     (let durable_len = ml_durable_len l in
      case and_then (ensure (alloc PhysicalPages durable_len) (EvidenceCapacityExhausted PhysicalPages)) (\<lambda>_.
           and_then (ensure (alloc TransactionPages durable_len) (EvidenceCapacityExhausted TransactionPages)) (\<lambda>_.
           and_then (ensure (alloc Commits durable_len) (EvidenceCapacityExhausted Commits)) (\<lambda>_.
           collect_evidence n (memory_log_durable_records l) ([], [], [])))) of
        Inl e \<Rightarrow> (Inl e, l, st)
      | Inr (ws, xs, cs) \<Rightarrow> (case operation ws xs cs st of (out, st1) \<Rightarrow> (Inr out, l, st1)))"

definition memory_page_recovery_inventory ::
  "(nat \<Rightarrow> bool) \<Rightarrow> (memory_recovery_projection \<Rightarrow> nat \<Rightarrow> bool)
     \<Rightarrow> (memory_log, memory_recovery_inventory_error, memory_recovery_source_error, 'st, 'out)
          page_recovery_inventory" where
  "memory_page_recovery_inventory alloc evidence_alloc =
     \<lparr>source_lineage = ml_lineage,
      with_durable_page_evidence = memory_with_durable_page_evidence evidence_alloc,
      durable_transaction_page_numbers = memory_durable_transaction_page_numbers alloc\<rparr>"

section \<open>The page store\<close>

definition stored_page_from_recovery_candidate :: "recovery_candidate \<Rightarrow> memory_stored_page" where
  "stored_page_from_recovery_candidate candidate =
     (let target = lc_observation (rc_latest_committed candidate); page = wal_observation (xo_page target) in
      \<lparr>ms_page_number = po_page_number page, ms_page_version = po_page_version page,
       ms_bytes = image_bytes (po_image page), ms_required_position = xo_position target\<rparr>)"

datatype memory_recovery_store_error =
    RecoveryInjectedFault page_store_fault_point
  | ForeignTargetPagePosition log_sequence_number
  | ForeignTargetCommitPosition log_sequence_number
  | ForeignPermitPagePosition log_sequence_number
  | ForeignPermitCommitPosition log_sequence_number
  | PermitPagePositionMismatch log_sequence_number log_sequence_number
  | PermitCommitPositionMismatch log_sequence_number log_sequence_number
  | CurrentObservation page_recovery_observation_bytes_error
  | SourceComparison recovery_comparison_error
  | SourceNotMatched recovery_comparison
  | RecoveryPageCapacityExhausted

fun show_memory_recovery_store_error :: "memory_recovery_store_error \<Rightarrow> string" where
  "show_memory_recovery_store_error (RecoveryInjectedFault point) =
     ''injected recovery page-store failure '' @ show_page_store_fault_point point"
| "show_memory_recovery_store_error (ForeignTargetPagePosition position) =
     ''recovery target page position '' @ show_lsn position @ '' belongs to another lineage''"
| "show_memory_recovery_store_error (ForeignTargetCommitPosition position) =
     ''recovery target commit position '' @ show_lsn position @ '' belongs to another lineage''"
| "show_memory_recovery_store_error (ForeignPermitPagePosition position) =
     ''recovery permit page position '' @ show_lsn position @ '' belongs to another lineage''"
| "show_memory_recovery_store_error (ForeignPermitCommitPosition position) =
     ''recovery permit commit position '' @ show_lsn position @ '' belongs to another lineage''"
| "show_memory_recovery_store_error (PermitPagePositionMismatch expected actual) =
     ''recovery permit page position '' @ show_lsn actual @ '' does not match target position ''
       @ show_lsn expected"
| "show_memory_recovery_store_error (PermitCommitPositionMismatch expected actual) =
     ''recovery permit commit position '' @ show_lsn actual @ '' does not match target position ''
       @ show_lsn expected"
| "show_memory_recovery_store_error (CurrentObservation source) =
     ''recovery current-page observation failed: '' @ show_page_recovery_observation_bytes_error source"
| "show_memory_recovery_store_error (SourceComparison source) =
     ''recovery source comparison failed: '' @ show_recovery_comparison_error source"
| "show_memory_recovery_store_error (SourceNotMatched actual) =
     ''recovery source no longer matches the candidate: '' @ debug_recovery_comparison actual"
| "show_memory_recovery_store_error RecoveryPageCapacityExhausted =
     ''recovery page-store capacity is exhausted''"

definition require_in_memory_recovery_source_match ::
  "recovery_candidate \<Rightarrow> stored_page_snapshot_observation option \<Rightarrow> memory_recovery_store_error + unit" where
  "require_in_memory_recovery_source_match candidate current =
     (case compare_recovery_candidate candidate current of
        Inr SourceMatches \<Rightarrow> Inr ()
      | Inr actual \<Rightarrow> Inl (SourceNotMatched actual)
      | Inl source \<Rightarrow> Inl (SourceComparison source))"

text \<open>The lineage and permit checks, in the code's order.\<close>

definition check_recovery_permit ::
  "log_lineage \<Rightarrow> latest_committed_page \<Rightarrow> recovery_write_permit \<Rightarrow> memory_recovery_store_error + unit" where
  "check_recovery_permit lineage latest permit' =
     (let page_position = xo_position (lc_observation latest); commit_position = lc_commit_position latest in
      and_then (ensure (same_lineage lineage (lsn_lineage page_position))
        (ForeignTargetPagePosition page_position)) (\<lambda>_.
      and_then (ensure (same_lineage lineage (lsn_lineage commit_position))
        (ForeignTargetCommitPosition commit_position)) (\<lambda>_.
      and_then (ensure (same_lineage lineage (lsn_lineage (wp_page_position permit')))
        (ForeignPermitPagePosition (wp_page_position permit'))) (\<lambda>_.
      and_then (ensure (same_lineage lineage (lsn_lineage (wp_commit_position permit')))
        (ForeignPermitCommitPosition (wp_commit_position permit'))) (\<lambda>_.
      and_then (ensure (lsn_eq (wp_page_position permit') page_position)
        (PermitPagePositionMismatch page_position (wp_page_position permit'))) (\<lambda>_.
      ensure (lsn_eq (wp_commit_position permit') commit_position)
        (PermitCommitPositionMismatch commit_position (wp_commit_position permit'))))))))"

text \<open>
  The replacement both recovery writes end with: capacity for a missing page, the fault before the
  write, the write, the fault after it.
\<close>

definition replace_stored_page ::
  "(nat \<Rightarrow> bool) \<Rightarrow> 'e \<Rightarrow> (page_store_fault_point \<Rightarrow> 'e) \<Rightarrow> memory_stored_page \<Rightarrow> memory_page_store
     \<Rightarrow> ('e + unit) \<times> memory_page_store" where
  "replace_stored_page reserve exhausted injected snapshot s =
     (let index = page_index (ms_page_number snapshot) (mst_pages s) in
      if index = None \<and> \<not> reserve (length (mst_pages s)) then (Inl exhausted, s)
      else
        let (fired, s1) = consume_store_fault BeforeWrite s in
        if fired then (Inl (injected BeforeWrite), s1)
        else
          let pages = (case index of Some i \<Rightarrow> (mst_pages s1)[i := snapshot]
                                   | None \<Rightarrow> mst_pages s1 @ [snapshot]);
              (fired, s2) = consume_store_fault AfterStoreWrite (s1\<lparr>mst_pages := pages\<rparr>)
          in if fired then (Inl (injected AfterStoreWrite), s2) else (Inr (), s2))"

definition memory_compare_and_replace ::
  "(nat \<Rightarrow> bool) \<Rightarrow> recovery_candidate \<Rightarrow> recovery_write_permit \<Rightarrow> memory_page_store
     \<Rightarrow> (memory_recovery_store_error + unit) \<times> memory_page_store" where
  "memory_compare_and_replace reserve candidate permit' s =
     with_result (check_recovery_permit (mst_lineage s) (rc_latest_committed candidate) permit') s (\<lambda>_.
     with_result (map_err CurrentObservation
       (memory_observe_page (xo_number (lc_observation (rc_latest_committed candidate))) s)) s (\<lambda>current.
     with_result (require_in_memory_recovery_source_match candidate current) s (\<lambda>_.
     replace_stored_page reserve RecoveryPageCapacityExhausted RecoveryInjectedFault
       (stored_page_from_recovery_candidate candidate) s)))"

definition memory_page_recovery_store ::
  "(nat \<Rightarrow> bool) \<Rightarrow> (memory_page_store, page_recovery_observation_bytes_error, memory_recovery_store_error)
     page_recovery_store" where
  "memory_page_recovery_store reserve =
     \<lparr>snapshot_lineage = mst_lineage, snapshot_observe_page = memory_observe_page,
      compare_and_replace = memory_compare_and_replace reserve\<rparr>"

section \<open>The store inventory\<close>

datatype memory_store_inventory_error =
    StoreInventoryCapacityExhausted nat
  | StoreInventoryProjection page_number page_recovery_observation_bytes_error

fun inventory_loop ::
  "memory_stored_page list \<Rightarrow> memory_store_inventory_error + stored_page_snapshot_observation list" where
  "inventory_loop [] = Inr []"
| "inventory_loop (p # ps) =
     and_then (map_err (StoreInventoryProjection (ms_page_number p)) (stored_page_recovery_observation p)) (\<lambda>s.
     and_then (inventory_loop ps) (\<lambda>ss. Inr (s # ss)))"

definition memory_page_store_inventory ::
  "(nat \<Rightarrow> bool) \<Rightarrow> memory_page_store
     \<Rightarrow> (memory_store_inventory_error + stored_page_snapshot_observation list) \<times> memory_page_store" where
  "memory_page_store_inventory alloc s =
     (let page_count = length (mst_pages s) in
      if \<not> alloc page_count then (Inl (StoreInventoryCapacityExhausted page_count), s)
      else with_result (inventory_loop (mst_pages s)) s (\<lambda>ss.
        (Inr (sort_key (\<lambda>o'. page_number_get (po_page_number (snapshot_observation o'))) ss), s)))"

section \<open>Display\<close>

fun debug_identity_reason :: "identity_observation_error_reason \<Rightarrow> string" where
  "debug_identity_reason ZeroEpoch = ''ZeroEpoch''"
| "debug_identity_reason ZeroSequence = ''ZeroSequence''"

definition show_identity_observation_error :: "identity_observation_error \<Rightarrow> string" where
  "show_identity_observation_error e =
     ''persisted transaction identity '' @ dec (ie_epoch e) @ '':'' @ dec (ie_sequence e)
       @ '' is invalid: '' @ debug_identity_reason (ie_reason e)"

fun debug_observation_bytes_reason :: "page_recovery_observation_bytes_error_reason \<Rightarrow> string" where
  "debug_observation_bytes_reason BytesZeroPageWidth = ''ZeroPageWidth''"
| "debug_observation_bytes_reason BytesZeroPosition = ''ZeroPosition''"

fun debug_owned_page_reason :: "transaction_page_observation_error_reason \<Rightarrow> string" where
  "debug_owned_page_reason (OwnedPageIdentity reason) = ''Identity('' @ debug_identity_reason reason @ '')''"
| "debug_owned_page_reason (OwnedPagePage reason) = ''Page('' @ debug_observation_bytes_reason reason @ '')''"

definition show_transaction_page_observation_error :: "transaction_page_observation_error \<Rightarrow> string" where
  "show_transaction_page_observation_error e =
     ''transaction '' @ dec (xe_epoch e) @ '':'' @ dec (xe_sequence e) @ '' page ''
       @ show_page_number (xe_page_number e) @ '' recovery observation is invalid: ''
       @ debug_owned_page_reason (xe_reason e)"

definition show_commit_observation_error :: "commit_observation_error \<Rightarrow> string" where
  "show_commit_observation_error e =
     ''transaction '' @ show_identity_observation (cx_transaction e)
       @ '' durable commit position must be nonzero''"

fun debug_commit_fields_reason :: "commit_observation_fields_error_reason \<Rightarrow> string" where
  "debug_commit_fields_reason (CommitFieldsIdentity reason) =
     ''Identity('' @ debug_identity_reason reason @ '')''"
| "debug_commit_fields_reason CommitFieldsZeroPosition = ''ZeroPosition''"

definition show_commit_observation_fields_error :: "commit_observation_fields_error \<Rightarrow> string" where
  "show_commit_observation_fields_error e =
     ''transaction '' @ dec (cy_epoch e) @ '':'' @ dec (cy_sequence e)
       @ '' durable commit observation is invalid: '' @ debug_commit_fields_reason (cy_reason e)"

fun show_memory_recovery_source_error :: "memory_recovery_source_error \<Rightarrow> string" where
  "show_memory_recovery_source_error (EvidenceCapacityExhausted projection) =
     ''in-memory '' @ show_memory_recovery_projection projection
       @ '' recovery evidence capacity is exhausted''"
| "show_memory_recovery_source_error (PhysicalPageProjection source) =
     ''physical page recovery projection failed: '' @ show_page_recovery_observation_bytes_error source"
| "show_memory_recovery_source_error (TransactionPageProjection source) =
     ''transaction page recovery projection failed: '' @ show_transaction_page_observation_error source"
| "show_memory_recovery_source_error (CommitProjection source) =
     ''commit recovery projection failed: '' @ show_commit_observation_fields_error source"

fun show_memory_store_inventory_error :: "memory_store_inventory_error \<Rightarrow> string" where
  "show_memory_store_inventory_error (StoreInventoryCapacityExhausted page_count) =
     ''in-memory page inventory capacity is exhausted for '' @ dec_nat page_count @ '' pages''"
| "show_memory_store_inventory_error (StoreInventoryProjection n source) =
     ''in-memory page '' @ show_page_number n @ '' inventory projection failed: ''
       @ show_page_recovery_observation_bytes_error source"

end
