(* ===== verification/Page_Recovery_Laws.thy ===== *)
theory Page_Recovery_Laws
  imports Page_Recovery_Gate
begin

text \<open>
  What the steps of committed-page recovery establish when they succeed: a scan of the commits,
  a classification, a selection, a reconciliation and a derivation of a candidate.
\<close>

section \<open>Commits and classification\<close>

definition committed_at ::
  "commit_observation list \<Rightarrow> identity_observation \<Rightarrow> log_sequence_number \<Rightarrow> bool" where
  "committed_at cs t q = (\<exists>c \<in> set cs. co_transaction c = t \<and> co_position c = q)"

abbreviation uncommitted_in :: "commit_observation list \<Rightarrow> identity_observation \<Rightarrow> bool" where
  "uncommitted_in cs t \<equiv> \<forall>q. \<not> committed_at cs t q"

lemma scan_commits_Inr:
  assumes "scan_commits l (Some t) prev found cs = Inr res"
  shows "case res of
      Some q \<Rightarrow> found = Some q \<or> committed_at cs t q
    | None \<Rightarrow> found = None \<and> uncommitted_in cs t"
  using assms
proof (induction cs arbitrary: prev found)
  case Nil
  then show ?case by (simp add: committed_at_def split: option.splits)
next
  case (Cons c cs)
  from Cons.prems obtain found1 where found1: "check_matching_commit (Some t) found c = Inr found1"
    and rest: "scan_commits l (Some t) (Some c) found1 cs = Inr res"
    by (auto simp: and_then_Inr_iff)
  have "found1 = found \<and> co_transaction c \<noteq> t \<or> found = None \<and> found1 = Some (co_position c) \<and> co_transaction c = t"
    using found1 by (auto simp: check_matching_commit_def split: if_splits option.splits)
  with Cons.IH [OF rest] show ?case
    by (auto simp: committed_at_def split: option.splits)
qed

lemma classify_Inr:
  assumes "classify_durable_transaction_page l x cs = Inr c"
  obtains (committed) q where "c = PageCommitted (xo_position x) q" and "committed_at cs (xo_owner x) q"
      and "lsn_value (xo_position x) < lsn_value q"
  | (uncommitted) "c = PageUncommitted (xo_position x)" and "uncommitted_in cs (xo_owner x)"
proof -
  from assms obtain m where m: "scan_commits l (Some (xo_owner x)) None None cs = Inr m"
    and c: "(case m of None \<Rightarrow> Inr (PageUncommitted (xo_position x))
      | Some q \<Rightarrow> and_then (ensure (\<not> lsn_value q \<le> lsn_value (xo_position x))
          (CommitNotAfterPage (xo_owner x) (xo_position x) q)) (\<lambda>_. Inr (PageCommitted (xo_position x) q))) = Inr c"
    by (auto simp: classify_durable_transaction_page_def scan_durable_transaction_commits_def and_then_Inr_iff)
  show ?thesis
  proof (cases m)
    case None
    with scan_commits_Inr [OF m] c show ?thesis by (intro uncommitted) auto
  next
    case (Some q)
    with scan_commits_Inr [OF m] c show ?thesis by (intro committed [of q]) (auto simp: and_then_Inr_iff)
  qed
qed

section \<open>Selection\<close>

text \<open>\<open>x\<close> is the last owned page of the list whose owner has a commit, which is at \<open>q\<close>.\<close>

definition latest_committed ::
  "commit_observation list \<Rightarrow> transaction_page_observation list \<Rightarrow> latest_committed_page \<Rightarrow> bool" where
  "latest_committed cs xs latest =
     (\<exists>ys zs. xs = ys @ lc_observation latest # zs \<and> (\<forall>z \<in> set zs. uncommitted_in cs (xo_owner z))
       \<and> committed_at cs (xo_owner (lc_observation latest)) (lc_commit_position latest)
       \<and> lsn_value (xo_position (lc_observation latest)) < lsn_value (lc_commit_position latest))"

definition owned_pages_of :: "log_lineage \<Rightarrow> page_number \<Rightarrow> transaction_page_observation list \<Rightarrow> bool" where
  "owned_pages_of l n xs =
     ((\<forall>x \<in> set xs. xo_number x = n \<and> lsn_lineage (xo_position x) = l)
      \<and> sorted_wrt (<) (map (\<lambda>x. lsn_value (xo_position x)) xs))"

lemma check_previous_owned_Inr:
  "check_previous_owned n prev x = Inr u \<longleftrightarrow>
     (\<forall>p. prev = Some p \<longrightarrow> lsn_value (xo_position p) < lsn_value (xo_position x))"
  by (cases prev) (auto simp: check_previous_owned_def)

lemma select_loop_Inr:
  assumes "select_loop l n cs prev selected xs = Inr res"
  shows "owned_pages_of l n xs
    \<and> (\<forall>p. prev = Some p \<longrightarrow> (\<forall>x \<in> set xs. lsn_value (xo_position p) < lsn_value (xo_position x)))
    \<and> (\<forall>x \<in> set xs. \<exists>c. classify_durable_transaction_page l x cs = Inr c)
    \<and> (if \<forall>x \<in> set xs. uncommitted_in cs (xo_owner x) then res = selected
       else \<exists>latest. res = Some latest \<and> latest_committed cs xs latest)"
  using assms
proof (induction xs arbitrary: prev selected)
  case Nil
  then show ?case by (simp add: owned_pages_of_def)
next
  case (Cons x xs)
  from Cons.prems obtain c where x: "xo_number x = n" "lsn_lineage (xo_position x) = l"
    "\<forall>p. prev = Some p \<longrightarrow> lsn_value (xo_position p) < lsn_value (xo_position x)"
    and c: "classify_durable_transaction_page l x cs = Inr c"
    and rest: "select_loop l n cs (Some x) (case c of
        PageCommitted _ q \<Rightarrow> Some \<lparr>lc_observation = x, lc_commit_position = q\<rparr>
      | PageUncommitted _ \<Rightarrow> selected) xs = Inr res"
    by (auto simp: and_then_Inr_iff check_previous_owned_Inr map_err_Inr_iff)
  note IH = Cons.IH [OF rest]
  have order: "owned_pages_of l n (x # xs)" using IH x(1,2) by (simp add: owned_pages_of_def)
  have later: "latest_committed cs (x # xs) latest" if "latest_committed cs xs latest" for latest
    using that unfolding latest_committed_def by (metis append_Cons)
  from c show ?case
  proof (cases rule: classify_Inr)
    case (committed q)
    have "latest_committed cs (x # xs) \<lparr>lc_observation = x, lc_commit_position = q\<rparr>"
      if "\<forall>z \<in> set xs. uncommitted_in cs (xo_owner z)"
      unfolding latest_committed_def using that committed(2,3) by (intro exI [of _ "[]"] exI [of _ xs]) auto
    with IH order x(3) c committed later show ?thesis by (auto split: if_splits dest: less_trans)
  next
    case uncommitted
    with IH order x(3) c later show ?thesis by (auto split: if_splits dest: less_trans)
  qed
qed

lemma select_Inr:
  assumes "select_latest_committed_transaction_page l n xs cs = Inr res"
  obtains (latest) latest where "res = SelectedLatest latest" and "latest_committed cs xs latest"
      and "owned_pages_of l n xs"
  | (none) "res = SelectedNone n" and "\<forall>x \<in> set xs. uncommitted_in cs (xo_owner x)" and "owned_pages_of l n xs"
proof -
  from assms obtain selected where s: "select_loop l n cs None None xs = Inr selected"
    and res: "res = (case selected of Some s \<Rightarrow> SelectedLatest s | None \<Rightarrow> SelectedNone n)"
    by (auto simp: select_latest_committed_transaction_page_def and_then_Inr_iff)
  from select_loop_Inr [OF s] show ?thesis
    by (cases "\<forall>x \<in> set xs. uncommitted_in cs (xo_owner x)") (use res in \<open>auto intro: latest none\<close>)
qed

section \<open>Reconciliation\<close>

definition snapshot_backed ::
  "log_lineage \<Rightarrow> page_number \<Rightarrow> durable_page_wal_observation list
     \<Rightarrow> stored_page_snapshot_observation \<Rightarrow> bool" where
  "snapshot_backed l n ws s = (po_page_number (snapshot_observation s) = n \<and> lsn_lineage (so_position s) = l
     \<and> (\<exists>w \<in> set ws. backs s w))"

lemma check_snapshot_Inr:
  "check_snapshot l n snap = Inr u \<longleftrightarrow>
     (\<forall>s. snap = Some s \<longrightarrow> po_page_number (snapshot_observation s) = n \<and> lsn_lineage (so_position s) = l)"
  by (cases snap) (auto simp: check_snapshot_def and_then_Inr_iff)

definition reconciliation_spec ::
  "log_lineage \<Rightarrow> durable_page_wal_observation list \<Rightarrow> stored_page_snapshot_observation option
     \<Rightarrow> durable_page_reconciliation" where
  "reconciliation_spec l ws snap =
     (if ws = [] then NoDurableState
      else
        let latest = lsn_value (wo_position (last ws)) in
        case snap of
          None \<Rightarrow> StoreMissing (lineage_position l latest)
        | Some s \<Rightarrow> if lsn_value (so_position s) = latest then ExactCurrent (lineage_position l latest)
            else StoreBehind (so_position s) (lineage_position l latest))"

lemma reconcile_durable_Inr:
  "reconcile_durable_page l n snap ws = Inr res \<longleftrightarrow>
     ordered_observations l n ws \<and> (\<forall>s. snap = Some s \<longrightarrow> snapshot_backed l n ws s)
     \<and> res = reconciliation_spec l ws snap"
proof -
  have "reconcile_durable_page l n snap ws = Inr res \<longleftrightarrow>
      (\<forall>s. snap = Some s \<longrightarrow> po_page_number (snapshot_observation s) = n \<and> lsn_lineage (so_position s) = l)
      \<and> ordered_observations l n ws \<and> (\<forall>s. snap = Some s \<longrightarrow> (\<forall>w \<in> set ws. \<not> contradicts s w))
      \<and> (\<forall>s. snap = Some s \<longrightarrow> (\<exists>w \<in> set ws. backs s w)) \<and> res = reconciliation_spec l ws snap"
    by (cases snap; cases "ws = []")
      (auto simp: reconcile_durable_page_def and_then_Inr_iff check_snapshot_Inr reconcile_loop_Inr
        reconciliation_spec_def Let_def ordered_observations_def [of l n "[]"])
  then show ?thesis
    using ordered_backs_unique [of l n ws] unfolding snapshot_backed_def by blast
qed

lemma validate_projections_Inr:
  assumes "validate_owned_physical_page_projections n ws xs = Inr ()"
  shows "\<forall>x \<in> set xs. \<exists>w \<in> set ws. lsn_value (wo_position w) = lsn_value (xo_position x)
    \<and> same_payload (wal_observation w) (wal_observation (xo_page x))"
  using assms
proof (induction xs arbitrary: ws)
  case (Cons x xs)
  let ?drop = "dropWhile (\<lambda>w. lsn_value (wo_position w) < lsn_value (xo_position x)) ws"
  from Cons.prems obtain w vs where d: "?drop = w # vs"
    "lsn_value (wo_position w) = lsn_value (xo_position x)"
    "same_payload (wal_observation w) (wal_observation (xo_page x))"
    "validate_owned_physical_page_projections n vs xs = Inr ()"
    by (auto simp: and_then_Inr_iff split: list.splits)
  have "set ?drop \<subseteq> set ws" by (rule set_dropWhileD [THEN subsetI])
  with d(1) have "w \<in> set ws" "set vs \<subseteq> set ws" by auto
  with Cons.IH [OF d(4)] d(2,3) show ?case by auto
qed simp

lemma same_payload_equiv:
  "same_payload a a" "same_payload a b \<Longrightarrow> same_payload b a"
  "same_payload a b \<Longrightarrow> same_payload b c \<Longrightarrow> same_payload a c"
  by (auto simp: same_payload_def)

lemma ordered_unique:
  assumes "ordered_observations l n ws" and "v \<in> set ws" and "w \<in> set ws"
    and "lsn_value (wo_position v) = lsn_value (wo_position w)"
  shows "v = w"
proof -
  have "distinct (map (\<lambda>w. lsn_value (wo_position w)) ws)"
    using assms(1) by (simp add: ordered_observations_def strict_sorted_iff)
  with assms(2-4) show ?thesis by (auto simp: distinct_map dest: inj_onD)
qed

lemma owned_unique:
  assumes "owned_pages_of l n xs" and "x \<in> set xs" and "y \<in> set xs"
    and "lsn_value (xo_position x) = lsn_value (xo_position y)"
  shows "x = y"
proof -
  have "distinct (map (\<lambda>x. lsn_value (xo_position x)) xs)"
    using assms(1) by (simp add: owned_pages_of_def strict_sorted_iff)
  with assms(2-4) show ?thesis by (auto simp: distinct_map dest: inj_onD)
qed

lemma latest_committed_in: "latest_committed cs xs latest \<Longrightarrow> lc_observation latest \<in> set xs"
  by (auto simp: latest_committed_def)

lemma lsn_eqI:
  fixes p q :: log_sequence_number
  shows "lsn_lineage p = lsn_lineage q \<Longrightarrow> lsn_value p = lsn_value q \<Longrightarrow> p = q"
  by simp

text \<open>The snapshot the store holds is the image of the owned page \<open>x\<close>.\<close>

lemma reconcile_committed_Inr:
  assumes "reconcile_committed_transaction_page l n snap ws xs cs = Inr res"
  obtains (none) "res = CommittedNone n" and "snap = None" and "\<forall>x \<in> set xs. uncommitted_in cs (xo_owner x)"
      and "owned_pages_of l n xs"
  | (missing) latest where "res = CommittedStoreMissing latest" and "snap = None"
      and "latest_committed cs xs latest" and "owned_pages_of l n xs"
  | (current) latest s where "res = CommittedExactCurrent latest" and "snap = Some s"
      and "latest_committed cs xs latest" and "owned_pages_of l n xs"
      and "snapshot_matches_owned_page s (lc_observation latest)"
  | (behind) latest s q where "res = CommittedStoreBehind (so_position s) q latest" and "snap = Some s"
      and "latest_committed cs xs latest" and "owned_pages_of l n xs"
      and "po_page_number (snapshot_observation s) = n" and "lsn_lineage (so_position s) = l"
      and "lsn_value (so_position s) < lsn_value (xo_position (lc_observation latest))"
proof -
  from assms obtain selection where sel: "select_latest_committed_transaction_page l n xs cs = Inr selection"
    and phys: "reconcile_durable_page l n snap ws = Inr (reconciliation_spec l ws snap)"
    and valid: "validate_owned_physical_page_projections n ws xs = Inr ()"
    and rest: "(case snap of
       None \<Rightarrow> Inr (case selection of SelectedNone m \<Rightarrow> CommittedNone m
         | SelectedLatest latest \<Rightarrow> CommittedStoreMissing latest)
     | Some s \<Rightarrow> (case find_owned_page (lsn_value (so_position s)) xs of
            None \<Rightarrow> Inl (SnapshotBackedByRawPage n (so_position s))
          | Some backing \<Rightarrow>
              and_then (map_err (SnapshotBackingClassification n (xo_position backing))
                (classify_durable_transaction_page l backing cs)) (\<lambda>classification.
              case classification of
                PageUncommitted page_position \<Rightarrow>
                  Inl (SnapshotBackedByUncommittedPage n (xo_owner backing) page_position)
              | PageCommitted page_position commit_position \<Rightarrow>
                  resolve_committed_snapshot_reconciliation n selection page_position commit_position))) = Inr res"
    by (auto simp: reconcile_committed_transaction_page_def and_then_Inr_iff reconcile_durable_Inr)
  show ?thesis
  proof (cases snap)
    case None
    from sel show ?thesis
      by (cases rule: select_Inr) (use None rest in \<open>auto intro: none missing\<close>)
  next
    case (Some s)
    from phys Some have ordered: "ordered_observations l n ws" and backed: "snapshot_backed l n ws s"
      by (auto simp: reconcile_durable_Inr)
    from rest Some obtain x c where x: "find_owned_page (lsn_value (so_position s)) xs = Some x"
      and c: "classify_durable_transaction_page l x cs = Inr c"
      and res: "(case c of PageUncommitted p \<Rightarrow> Inl (SnapshotBackedByUncommittedPage n (xo_owner x) p)
        | PageCommitted p q \<Rightarrow> resolve_committed_snapshot_reconciliation n selection p q) = Inr res"
      by (auto simp: and_then_Inr_iff split: option.splits)
    have xs: "x \<in> set xs" "lsn_value (xo_position x) = lsn_value (so_position s)"
      using x by (auto simp: find_owned_page_def find_Some_iff)
    from c res obtain q where q: "resolve_committed_snapshot_reconciliation n selection (xo_position x) q = Inr res"
      by (cases rule: classify_Inr) auto
    then obtain latest where latest: "selection = SelectedLatest latest"
      by (cases selection) (auto simp: resolve_committed_snapshot_reconciliation_def)
    from sel latest have com: "latest_committed cs xs latest" and owned: "owned_pages_of l n xs"
      by (cases rule: select_Inr; simp)+
    have pos: "xo_position x = so_position s"
      using owned xs backed by (intro lsn_eqI) (auto simp: owned_pages_of_def snapshot_backed_def)
    obtain w where w: "w \<in> set ws" "backs s w" using backed by (auto simp: snapshot_backed_def)
    obtain v where v: "v \<in> set ws" "lsn_value (wo_position v) = lsn_value (xo_position x)"
      "same_payload (wal_observation v) (wal_observation (xo_page x))"
      using validate_projections_Inr [OF valid] xs(1) by blast
    have "v = w" using ordered_unique [OF ordered v(1) w(1)] v(2) w(2) xs(2) by (simp add: backs_def)
    with v(3) w(2) have "same_payload (snapshot_observation s) (wal_observation (xo_page x))"
      by (auto simp: backs_def intro: same_payload_equiv(2,3))
    then have match: "snapshot_matches_owned_page s x"
      using owned xs(1) backed pos
      by (auto simp: snapshot_matches_owned_page_def owned_pages_of_def snapshot_backed_def lsn_eq_def)
    show ?thesis
    proof (cases "lsn_value (xo_position x) = lsn_value (xo_position (lc_observation latest))")
      case True
      then have "x = lc_observation latest"
        by (rule owned_unique [OF owned xs(1) latest_committed_in [OF com]])
      with q latest True match Some com owned show ?thesis
        by (intro current) (auto simp: resolve_committed_snapshot_reconciliation_def Let_def)
    next
      case False
      with q latest pos have "res = CommittedStoreBehind (so_position s) q latest"
        "lsn_value (so_position s) < lsn_value (xo_position (lc_observation latest))"
        by (auto simp: resolve_committed_snapshot_reconciliation_def Let_def split: if_splits)
      with Some com owned backed show ?thesis by (intro behind) (auto simp: snapshot_backed_def)
    qed
  qed
qed

section \<open>The candidate\<close>

text \<open>
  A candidate agrees with the snapshot it was derived from, so the gate's comparison of the two
  never reports an error or a target that is already present.
\<close>

lemma derive_Inr:
  assumes "derive_recovery_candidate l n snap ws xs cs = Inr res"
  obtains (none) "res = DecisionNoCommittedPage n" and "snap = None"
      and "\<forall>x \<in> set xs. uncommitted_in cs (xo_owner x)" and "owned_pages_of l n xs"
  | (current) latest s where "res = DecisionExactCurrent latest" and "snap = Some s"
      and "latest_committed cs xs latest" and "owned_pages_of l n xs"
      and "snapshot_matches_owned_page s (lc_observation latest)"
  | (candidate) c where "res = DecisionCandidate c" and "latest_committed cs xs (rc_latest_committed c)"
      and "owned_pages_of l n xs" and "compare_recovery_candidate c snap = Inr SourceMatches"
proof -
  from assms obtain r where r: "reconcile_committed_transaction_page l n snap ws xs cs = Inr r"
    and d: "(case r of
       CommittedNone m \<Rightarrow> and_then (snapshot_absent m snap) (\<lambda>_. Inr (DecisionNoCommittedPage m))
     | CommittedStoreMissing latest \<Rightarrow>
         and_then (snapshot_absent n snap) (\<lambda>_.
           Inr (DecisionCandidate \<lparr>rc_precondition = PreconditionStoreMissing, rc_latest_committed = latest\<rparr>))
     | CommittedExactCurrent latest \<Rightarrow>
         and_then (snapshot_at n (xo_position (lc_observation latest)) snap) (\<lambda>_. Inr (DecisionExactCurrent latest))
     | CommittedStoreBehind stored_page stored_commit latest \<Rightarrow>
         and_then (snapshot_at n stored_page snap) (\<lambda>s.
           Inr (DecisionCandidate \<lparr>rc_precondition = PreconditionExactSnapshot s stored_commit,
             rc_latest_committed = latest\<rparr>))) = Inr res"
    by (auto simp: derive_recovery_candidate_def and_then_Inr_iff)
  from r show ?thesis
  proof (cases rule: reconcile_committed_Inr)
    case none
    with d show ?thesis by (intro that(1)) (auto simp: snapshot_absent_def)
  next
    case (missing latest)
    let ?c = "\<lparr>rc_precondition = PreconditionStoreMissing, rc_latest_committed = latest\<rparr>"
    from missing d have "res = DecisionCandidate ?c" by (simp add: snapshot_absent_def)
    with missing show ?thesis by (intro candidate [of ?c]) (simp_all add: compare_recovery_candidate_def Let_def)
  next
    case (current latest s)
    with d show ?thesis by (intro that(2) [of latest s]) (auto simp: and_then_Inr_iff)
  next
    case (behind latest s q)
    let ?c = "\<lparr>rc_precondition = PreconditionExactSnapshot s q, rc_latest_committed = latest\<rparr>"
    from behind d have "res = DecisionCandidate ?c" by (simp add: snapshot_at_def lsn_eq_def)
    moreover have "xo_number (lc_observation latest) = n" "lsn_lineage (xo_position (lc_observation latest)) = l"
      using behind(4) latest_committed_in [OF behind(3)] by (auto simp: owned_pages_of_def)
    ultimately show ?thesis
      using behind by (intro candidate [of ?c])
        (auto simp: compare_recovery_candidate_def Let_def snapshots_match_def same_payload_def lsn_eq_def)
  qed
qed

text \<open>The outcomes of the callback, for any store port.\<close>

lemma recovery_callback_cases:
  assumes "recovery_callback sport l n ws xs cs (store, attempt) = (out, store', attempt')"
  obtains (stopped) e where "out = CallbackCompleted (Inl e)" and "store' = store" and "attempt' = attempt"
  | (none) "out = CallbackCompleted (Inr (OutcomeNoCommittedPage n))" and "store' = store" and "attempt' = attempt"
      and "snapshot_observe_page sport n store = Inr None"
      and "\<forall>x \<in> set xs. uncommitted_in cs (xo_owner x)" and "owned_pages_of l n xs"
  | (current) latest s where "out = CallbackCompleted (Inr (OutcomeAlreadyCurrent (owned_recovery_target latest)))"
      and "store' = store" and "attempt' = attempt" and "snapshot_observe_page sport n store = Inr (Some s)"
      and "latest_committed cs xs latest" and "owned_pages_of l n xs"
      and "snapshot_matches_owned_page s (lc_observation latest)"
  | (attempted) c result where "out = CallbackWriteAttempted"
      and "latest_committed cs xs (rc_latest_committed c)" and "owned_pages_of l n xs"
      and "compare_and_replace sport c \<lparr>wp_page_position = xo_position (lc_observation (rc_latest_committed c)),
             wp_commit_position = lc_commit_position (rc_latest_committed c)\<rparr> store = (result, store')"
      and "attempt' = Some (case result of
             Inr _ \<Rightarrow> AttemptSucceeded (owned_recovery_target (rc_latest_committed c))
           | Inl e \<Rightarrow> AttemptFailed \<lparr>ir_source_state = owned_recovery_source_state c,
               ir_target = owned_recovery_target (rc_latest_committed c), ir_source = e\<rparr>)"
proof (cases "snapshot_observe_page sport n store")
  case (Inl e)
  with assms show ?thesis by (intro stopped [of "BeforeStoreObservation e"]) (simp_all add: recovery_callback_def Let_def)
next
  case snap: (Inr snap)
  show ?thesis
  proof (cases "derive_recovery_candidate l n snap ws xs cs")
    case (Inl e)
    with snap assms show ?thesis
      by (intro stopped [of "BeforePlanning e"]) (simp_all add: recovery_callback_def Let_def)
  next
    case (Inr decision)
    from Inr show ?thesis
    proof (cases rule: derive_Inr)
      case none
      with assms Inr snap show ?thesis by (intro that(2)) (simp_all add: recovery_callback_def Let_def)
    next
      case (current latest s)
      with assms Inr snap show ?thesis
        by (intro that(3) [of latest s]) (simp_all add: recovery_callback_def Let_def)
    next
      case (candidate c)
      let ?permit = "\<lparr>wp_page_position = xo_position (lc_observation (rc_latest_committed c)),
        wp_commit_position = lc_commit_position (rc_latest_committed c)\<rparr>"
      obtain result store1 where w: "compare_and_replace sport c ?permit store = (result, store1)"
        by (metis prod.collapse)
      then have "attempt_recovery_write sport c store = (case result of
          Inr _ \<Rightarrow> AttemptSucceeded (owned_recovery_target (rc_latest_committed c))
        | Inl e \<Rightarrow> AttemptFailed \<lparr>ir_source_state = owned_recovery_source_state c,
            ir_target = owned_recovery_target (rc_latest_committed c), ir_source = e\<rparr>, store1)"
        by (cases result) (simp_all add: attempt_recovery_write_def
            with_committed_page_recovery_write_permit_def owned_recovery_target_def Let_def)
      with assms Inr snap candidate have "out = CallbackWriteAttempted" "store' = store1"
        "attempt' = Some (case result of
           Inr _ \<Rightarrow> AttemptSucceeded (owned_recovery_target (rc_latest_committed c))
         | Inl e \<Rightarrow> AttemptFailed \<lparr>ir_source_state = owned_recovery_source_state c,
             ir_target = owned_recovery_target (rc_latest_committed c), ir_source = e\<rparr>)"
        by (simp_all add: recovery_callback_def Let_def)
      with w candidate show ?thesis by (intro attempted [of c result]) simp_all
    qed
  qed
qed

end
