(* ===== verification/Memory_Recovery_Laws.thy ===== *)
theory Memory_Recovery_Laws
  imports Memory_Recovery Page_Recovery_Laws Memory_Laws
begin

text \<open>
  What the in-memory adapters hand to the recovery gate, and what its write does to the store.
\<close>

section \<open>The evidence is the durable prefix\<close>

definition identity_of :: "transaction_token_id \<Rightarrow> identity_observation" where
  "identity_of t = \<lparr>io_epoch = epoch_get (tt_epoch t), io_sequence = tt_sequence t\<rparr>"

lemma identity_of_inject [simp]: "identity_of s = identity_of t \<longleftrightarrow> s = t"
  by (cases s; cases t) (auto simp: identity_of_def transaction_epoch.expand)

abbreviation observation_of ::
  "memory_page_write_record \<Rightarrow> log_sequence_number \<Rightarrow> page_recovery_observation" where
  "observation_of w position \<equiv> \<lparr>po_page_number = mp_page_number w, po_page_version = mp_page_version w,
     po_image = PageImage (mp_bytes w), po_position = position\<rparr>"

definition owned_observations :: "page_number \<Rightarrow> memory_log_record \<Rightarrow> transaction_page_observation list" where
  "owned_observations n r = (case mr_kind r of
     MemTransactionPageWrite w \<Rightarrow>
       if mp_page_number (mt_page w) = n
       then [\<lparr>xo_owner = identity_of (mt_transaction_id w),
              xo_page = DurablePageWalObservation (observation_of (mt_page w) (mr_position r))\<rparr>]
       else []
   | _ \<Rightarrow> [])"

definition commit_observations :: "memory_log_record \<Rightarrow> commit_observation list" where
  "commit_observations r = (case mr_kind r of
     MemTransactionCommit t \<Rightarrow> [\<lparr>co_transaction = identity_of t, co_position = mr_position r\<rparr>]
   | _ \<Rightarrow> [])"

definition physical_observations :: "page_number \<Rightarrow> memory_log_record \<Rightarrow> durable_page_wal_observation list" where
  "physical_observations n r = (case kind_page_write (mr_kind r) of
     Some w \<Rightarrow> if mp_page_number w = n
       then [DurablePageWalObservation (observation_of w (mr_position r))] else []
   | None \<Rightarrow> [])"

lemma identity_observation_new_Inr:
  "identity_observation_new e q = Inr i \<longleftrightarrow> e \<noteq> 0 \<and> q \<noteq> 0 \<and> i = \<lparr>io_epoch = e, io_sequence = q\<rparr>"
  by (auto simp: identity_observation_new_def non_zero_u64_def Let_def)

lemma wal_from_bytes_Inr:
  "durable_page_wal_observation_from_bytes n v b p = Inr w \<longleftrightarrow> b \<noteq> [] \<and> lsn_value p \<noteq> 0
     \<and> w = DurablePageWalObservation \<lparr>po_page_number = n, po_page_version = v, po_image = PageImage b, po_position = p\<rparr>"
  by (auto simp: durable_page_wal_observation_from_bytes_def page_recovery_observation_from_bytes_def Let_def)

lemma snapshot_from_bytes_Inr:
  "stored_page_snapshot_observation_from_bytes n v b p = Inr s \<longleftrightarrow> b \<noteq> [] \<and> lsn_value p \<noteq> 0
     \<and> s = StoredPageSnapshotObservation \<lparr>po_page_number = n, po_page_version = v, po_image = PageImage b, po_position = p\<rparr>"
  by (auto simp: stored_page_snapshot_observation_from_bytes_def page_recovery_observation_from_bytes_def Let_def)

lemma owned_from_bytes_Inr:
  "transaction_page_observation_from_bytes e q n v b p = Inr x \<longleftrightarrow> e \<noteq> 0 \<and> q \<noteq> 0 \<and> b \<noteq> [] \<and> lsn_value p \<noteq> 0
     \<and> x = \<lparr>xo_owner = \<lparr>io_epoch = e, io_sequence = q\<rparr>, xo_page = DurablePageWalObservation
         \<lparr>po_page_number = n, po_page_version = v, po_image = PageImage b, po_position = p\<rparr>\<rparr>"
  by (auto simp: transaction_page_observation_from_bytes_def identity_observation_new_def non_zero_u64_def
      durable_page_wal_observation_from_bytes_def page_recovery_observation_from_bytes_def Let_def)

lemma commit_from_fields_Inr:
  "commit_observation_from_fields e q p = Inr c \<longleftrightarrow> e \<noteq> 0 \<and> q \<noteq> 0 \<and> lsn_value p \<noteq> 0
     \<and> c = \<lparr>co_transaction = \<lparr>io_epoch = e, io_sequence = q\<rparr>, co_position = p\<rparr>"
  by (auto simp: commit_observation_from_fields_def identity_observation_new_def non_zero_u64_def
      commit_observation_new_def Let_def)

lemma map_sum_Inr: "map_sum (\<lambda>e. e) f r = Inr y \<longleftrightarrow> (\<exists>x. r = Inr x \<and> y = f x)"
  by (cases r) auto

lemmas projection_Inr = record_page_observation_def record_transaction_page_observation_def
  record_commit_observation_def project_page_recovery_observation_def
  project_transaction_page_recovery_observation_def project_transaction_commit_recovery_observation_def
  wal_from_bytes_Inr owned_from_bytes_Inr commit_from_fields_Inr map_sum_Inr Let_def

text \<open>What one record needs for its projections to succeed.\<close>

definition observable :: "page_number \<Rightarrow> memory_log_record \<Rightarrow> bool" where
  "observable n r = (case mr_kind r of
     MemTransactionCommit t \<Rightarrow> epoch_get (tt_epoch t) \<noteq> 0 \<and> tt_sequence t \<noteq> 0 \<and> mr_value r \<noteq> 0
   | MemPageWrite w \<Rightarrow> mp_page_number w = n \<longrightarrow> mp_bytes w \<noteq> [] \<and> mr_value r \<noteq> 0
   | MemTransactionPageWrite w \<Rightarrow> mp_page_number (mt_page w) = n \<longrightarrow> mp_bytes (mt_page w) \<noteq> [] \<and> mr_value r \<noteq> 0
       \<and> epoch_get (tt_epoch (mt_transaction_id w)) \<noteq> 0 \<and> tt_sequence (mt_transaction_id w) \<noteq> 0)"

lemma add_evidence_Inr:
  "add_evidence n r (ws, xs, cs) = Inr res \<longleftrightarrow> observable n r
     \<and> res = (ws @ physical_observations n r, xs @ owned_observations n r, cs @ commit_observations r)"
proof (cases "mr_kind r")
  case (MemTransactionCommit t)
  then show ?thesis
    by (auto simp: add_evidence_def and_then_Inr_iff projection_Inr kind_transaction_page_write_def
        observable_def identity_of_def physical_observations_def owned_observations_def commit_observations_def)
next
  case (MemPageWrite w)
  then show ?thesis
    by (auto simp: add_evidence_def and_then_Inr_iff projection_Inr kind_transaction_page_write_def
        observable_def identity_of_def physical_observations_def owned_observations_def commit_observations_def)
next
  case (MemTransactionPageWrite w)
  then show ?thesis
    by (auto simp: add_evidence_def and_then_Inr_iff projection_Inr kind_transaction_page_write_def
        observable_def identity_of_def physical_observations_def owned_observations_def commit_observations_def)
qed

lemma collect_evidence_Inr:
  "collect_evidence n rs (ws, xs, cs) = Inr res \<longleftrightarrow> (\<forall>r \<in> set rs. observable n r)
     \<and> res = (ws @ concat (map (physical_observations n) rs), xs @ concat (map (owned_observations n) rs),
         cs @ concat (map commit_observations rs))"
  by (induction rs arbitrary: ws xs cs) (auto simp: and_then_Inr_iff add_evidence_Inr)

section \<open>The gate over the log\<close>

lemma memory_evidence_cases:
  assumes "memory_with_durable_page_evidence alloc n operation l st = (res, l', st')"
  obtains (failed) e where "res = Inl e" and "l' = l" and "st' = st"
  | (called) out where "res = Inr out" and "l' = l"
      and "operation (concat (map (physical_observations n) (memory_log_durable_records l)))
        (concat (map (owned_observations n) (memory_log_durable_records l)))
        (concat (map commit_observations (memory_log_durable_records l))) st = (out, st')"
      and "\<forall>r \<in> set (memory_log_durable_records l). observable n r"
proof -
  let ?r = "and_then (ensure (alloc PhysicalPages (ml_durable_len l)) (EvidenceCapacityExhausted PhysicalPages)) (\<lambda>_.
    and_then (ensure (alloc TransactionPages (ml_durable_len l)) (EvidenceCapacityExhausted TransactionPages)) (\<lambda>_.
    and_then (ensure (alloc Commits (ml_durable_len l)) (EvidenceCapacityExhausted Commits)) (\<lambda>_.
    collect_evidence n (memory_log_durable_records l) ([], [], []))))"
  show ?thesis
  proof (cases ?r)
    case (Inl e)
    with assms show ?thesis by (intro failed [of e]) (simp_all add: memory_with_durable_page_evidence_def Let_def)
  next
    case (Inr ev)
    then have "collect_evidence n (memory_log_durable_records l) ([], [], []) = Inr ev"
      by (auto simp: and_then_Inr_iff)
    from this [unfolded collect_evidence_Inr] Inr assms show ?thesis
      by (auto simp: memory_with_durable_page_evidence_def Let_def split: prod.splits intro: called)
  qed
qed

lemma owned_in_record:
  "x \<in> set (owned_observations n r) \<longleftrightarrow> (\<exists>w. mr_kind r = MemTransactionPageWrite w
     \<and> mp_page_number (mt_page w) = n \<and> x = \<lparr>xo_owner = identity_of (mt_transaction_id w),
         xo_page = DurablePageWalObservation (observation_of (mt_page w) (mr_position r))\<rparr>)"
  by (cases "mr_kind r") (auto simp: owned_observations_def)

lemma owned_in:
  "x \<in> set (concat (map (owned_observations n) rs)) \<longleftrightarrow> (\<exists>r \<in> set rs. \<exists>w. mr_kind r = MemTransactionPageWrite w
     \<and> mp_page_number (mt_page w) = n \<and> x = \<lparr>xo_owner = identity_of (mt_transaction_id w),
         xo_page = DurablePageWalObservation (observation_of (mt_page w) (mr_position r))\<rparr>)"
  by (simp only: set_concat set_map UN_iff bex_simps image_iff owned_in_record)

lemma commit_in_record:
  "c \<in> set (commit_observations r) \<longleftrightarrow> (\<exists>t. mr_kind r = MemTransactionCommit t
     \<and> c = \<lparr>co_transaction = identity_of t, co_position = mr_position r\<rparr>)"
  by (cases "mr_kind r") (auto simp: commit_observations_def)

lemma committed_at_log:
  "committed_at (concat (map commit_observations rs)) (identity_of t) q \<longleftrightarrow>
     (\<exists>r \<in> set rs. mr_kind r = MemTransactionCommit t \<and> mr_position r = q)"
proof -
  have "committed_at (concat (map commit_observations rs)) (identity_of t) q \<longleftrightarrow>
      (\<exists>r \<in> set rs. \<exists>c \<in> set (commit_observations r). co_transaction c = identity_of t \<and> co_position c = q)"
    by (auto simp: committed_at_def)
  also have "\<dots> \<longleftrightarrow> (\<exists>r \<in> set rs. mr_kind r = MemTransactionCommit t \<and> mr_position r = q)"
    by (rule bex_cong [OF refl]) (auto simp: commit_in_record)
  finally show ?thesis .
qed

section \<open>The write\<close>

definition target_content :: "recovery_target \<Rightarrow> stored_image" where
  "target_content t = (rg_page_version t, rg_bytes t, rg_page_position t)"

lemma page_content_candidate:
  "page_content (stored_page_from_recovery_candidate c) = target_content (owned_recovery_target (rc_latest_committed c))"
  "ms_page_number (stored_page_from_recovery_candidate c) = xo_number (lc_observation (rc_latest_committed c))"
  by (simp_all add: page_content_def stored_page_from_recovery_candidate_def target_content_def
      owned_recovery_target_def Let_def)

lemma replace_stored_page_laws:
  assumes "memory_store_inv s" and "replace_stored_page reserve exhausted injected p s = (res, s')"
  shows "memory_store_inv s'" and "mst_lineage s' = mst_lineage s"
    and "\<And>m. m \<noteq> ms_page_number p \<Longrightarrow> memory_stored s' m = memory_stored s m"
    and "memory_stored s' (ms_page_number p) = memory_stored s (ms_page_number p)
      \<or> memory_stored s' (ms_page_number p) = Some (page_content p)"
    and "res = Inr () \<Longrightarrow> memory_stored s' (ms_page_number p) = Some (page_content p)"
proof -
  let ?n = "ms_page_number p"
  have d: "distinct (map ms_page_number (mst_pages s))" using assms(1) by (simp add: memory_store_inv_def)
  have same: "memory_store_inv t \<and> memory_stored t = memory_stored s"
    if "mst_pages t = mst_pages s" for t
    using that assms(1) by (auto simp: memory_store_inv_def memory_stored_def memory_page_store_page_def)
  have written: "memory_store_inv t \<and> (\<forall>m. memory_stored t m = (if m = ?n then Some (page_content p) else memory_stored s m))"
    if t: "mst_pages t = (case page_index ?n (mst_pages s) of Some i \<Rightarrow> (mst_pages s)[i := p] | None \<Rightarrow> mst_pages s @ [p])"
    for t
  proof (cases "page_index ?n (mst_pages s)")
    case (Some i)
    from find_page_update [OF Some d] t Some d show ?thesis
      by (simp add: memory_store_inv_def memory_stored_def memory_page_store_page_def)
  next
    case None
    then have new: "?n \<notin> ms_page_number ` set (mst_pages s)" by (simp add: page_index_None)
    then have "find (\<lambda>q. ms_page_number q = ?n) (mst_pages s) = None"
      unfolding find_None_iff by (metis image_eqI)
    with t None d new show ?thesis
      by (auto simp: memory_store_inv_def memory_stored_def memory_page_store_page_def find_snoc
          split: option.splits)
  qed
  have "(\<exists>e. res = Inl e) \<and> mst_pages s' = mst_pages s \<and> mst_lineage s' = mst_lineage s
    \<or> mst_pages s' = (case page_index ?n (mst_pages s) of Some i \<Rightarrow> (mst_pages s)[i := p] | None \<Rightarrow> mst_pages s @ [p])
      \<and> mst_lineage s' = mst_lineage s"
    using assms(2) by (auto simp: replace_stored_page_def consume_store_fault_def Let_def split: if_splits option.splits)
  then have "memory_store_inv s' \<and> mst_lineage s' = mst_lineage s
    \<and> (\<forall>m. m \<noteq> ?n \<longrightarrow> memory_stored s' m = memory_stored s m)
    \<and> (memory_stored s' ?n = memory_stored s ?n \<or> memory_stored s' ?n = Some (page_content p))
    \<and> (res = Inr () \<longrightarrow> memory_stored s' ?n = Some (page_content p))"
    using same [of s'] written [of s'] by auto
  then show "memory_store_inv s'" "mst_lineage s' = mst_lineage s"
    "\<And>m. m \<noteq> ?n \<Longrightarrow> memory_stored s' m = memory_stored s m"
    "memory_stored s' ?n = memory_stored s ?n \<or> memory_stored s' ?n = Some (page_content p)"
    "res = Inr () \<Longrightarrow> memory_stored s' ?n = Some (page_content p)" by blast+
qed

lemma compare_and_replace_laws:
  assumes "memory_store_inv s" and "memory_compare_and_replace reserve c permit' s = (res, s')"
  shows "memory_store_inv s'" and "mst_lineage s' = mst_lineage s"
    and "\<And>m. m \<noteq> xo_number (lc_observation (rc_latest_committed c)) \<Longrightarrow> memory_stored s' m = memory_stored s m"
    and "memory_stored s' (xo_number (lc_observation (rc_latest_committed c)))
        = memory_stored s (xo_number (lc_observation (rc_latest_committed c)))
      \<or> memory_stored s' (xo_number (lc_observation (rc_latest_committed c)))
        = Some (target_content (owned_recovery_target (rc_latest_committed c)))"
    and "res = Inr () \<Longrightarrow> memory_stored s' (xo_number (lc_observation (rc_latest_committed c)))
        = Some (target_content (owned_recovery_target (rc_latest_committed c)))"
proof -
  let ?p = "stored_page_from_recovery_candidate c"
  have "(\<exists>e. res = Inl e) \<and> s' = s \<or>
      replace_stored_page reserve RecoveryPageCapacityExhausted RecoveryInjectedFault ?p s = (res, s')"
    using assms(2) [unfolded memory_compare_and_replace_def]
    by (cases res) (auto simp: with_result_Inl_iff with_result_Inr_iff)
  then have "memory_store_inv s' \<and> mst_lineage s' = mst_lineage s
    \<and> (\<forall>m. m \<noteq> ms_page_number ?p \<longrightarrow> memory_stored s' m = memory_stored s m)
    \<and> (memory_stored s' (ms_page_number ?p) = memory_stored s (ms_page_number ?p)
      \<or> memory_stored s' (ms_page_number ?p) = Some (page_content ?p))
    \<and> (res = Inr () \<longrightarrow> memory_stored s' (ms_page_number ?p) = Some (page_content ?p))"
  proof
    assume "(\<exists>e. res = Inl e) \<and> s' = s"
    with assms(1) show ?thesis by auto
  next
    assume w: "replace_stored_page reserve RecoveryPageCapacityExhausted RecoveryInjectedFault ?p s = (res, s')"
    from replace_stored_page_laws [OF assms(1) w] show ?thesis by simp
  qed
  then show "memory_store_inv s'" "mst_lineage s' = mst_lineage s"
    "\<And>m. m \<noteq> xo_number (lc_observation (rc_latest_committed c)) \<Longrightarrow> memory_stored s' m = memory_stored s m"
    "memory_stored s' (xo_number (lc_observation (rc_latest_committed c)))
        = memory_stored s (xo_number (lc_observation (rc_latest_committed c)))
      \<or> memory_stored s' (xo_number (lc_observation (rc_latest_committed c)))
        = Some (target_content (owned_recovery_target (rc_latest_committed c)))"
    "res = Inr () \<Longrightarrow> memory_stored s' (xo_number (lc_observation (rc_latest_committed c)))
        = Some (target_content (owned_recovery_target (rc_latest_committed c)))"
    unfolding page_content_candidate by blast+
qed

end
