(* ===== verification/Memory_Recovery_Properties.thy ===== *)
theory Memory_Recovery_Properties
  imports Memory_Recovery_Laws Runtime_History
begin

text \<open>
  Committed-page recovery over the in-memory log and store: what every outcome of the gate says
  of the log and of the store.
\<close>

section \<open>The image recovery must install\<close>

definition durably_committed :: "memory_log \<Rightarrow> transaction_token_id \<Rightarrow> bool" where
  "durably_committed l t = (\<exists>q \<in> set (memory_log_durable_records l). mr_kind q = MemTransactionCommit t)"

definition owned_page_record ::
  "page_number \<Rightarrow> memory_log_record \<Rightarrow> memory_transaction_page_write_record \<Rightarrow> bool" where
  "owned_page_record n r w = (mr_kind r = MemTransactionPageWrite w \<and> mp_page_number (mt_page w) = n)"

definition no_committed_image :: "memory_log \<Rightarrow> page_number \<Rightarrow> bool" where
  "no_committed_image l n = (\<forall>r \<in> set (memory_log_durable_records l). \<forall>w.
     owned_page_record n r w \<longrightarrow> \<not> durably_committed l (mt_transaction_id w))"

text \<open>
  The target is the last durable page record of page \<open>n\<close> whose transaction has a durable commit
  record, and that commit record is at a later position.
\<close>

definition latest_committed_image :: "memory_log \<Rightarrow> page_number \<Rightarrow> recovery_target \<Rightarrow> bool" where
  "latest_committed_image l n t = (\<exists>r \<in> set (memory_log_durable_records l). \<exists>w.
     owned_page_record n r w
     \<and> target_content t = (mp_page_version (mt_page w), mp_bytes (mt_page w), mr_position r)
     \<and> (\<exists>q \<in> set (memory_log_durable_records l). mr_kind q = MemTransactionCommit (mt_transaction_id w)
          \<and> mr_position q = rg_commit_position t \<and> mr_value r < mr_value q)
     \<and> (\<forall>r' \<in> set (memory_log_durable_records l). \<forall>w'. owned_page_record n r' w' \<and> mr_value r < mr_value r'
          \<longrightarrow> \<not> durably_committed l (mt_transaction_id w')))"

abbreviation log_pages :: "memory_log \<Rightarrow> page_number \<Rightarrow> transaction_page_observation list" where
  "log_pages l n \<equiv> concat (map (owned_observations n) (memory_log_durable_records l))"

abbreviation log_commits :: "memory_log \<Rightarrow> commit_observation list" where
  "log_commits l \<equiv> concat (map commit_observations (memory_log_durable_records l))"

lemma uncommitted_log: "uncommitted_in (log_commits l) (identity_of t) \<longleftrightarrow> \<not> durably_committed l t"
  by (auto simp: committed_at_log durably_committed_def)

lemma no_committed_log:
  "(\<forall>x \<in> set (log_pages l n). uncommitted_in (log_commits l) (xo_owner x)) \<longleftrightarrow> no_committed_image l n"
proof
  assume un: "\<forall>x \<in> set (log_pages l n). uncommitted_in (log_commits l) (xo_owner x)"
  show "no_committed_image l n"
    unfolding no_committed_image_def owned_page_record_def
  proof (intro ballI allI impI)
    fix r w
    assume r: "r \<in> set (memory_log_durable_records l)"
      and w: "mr_kind r = MemTransactionPageWrite w \<and> mp_page_number (mt_page w) = n"
    let ?x = "\<lparr>xo_owner = identity_of (mt_transaction_id w),
      xo_page = DurablePageWalObservation (observation_of (mt_page w) (mr_position r))\<rparr>"
    have "?x \<in> set (log_pages l n)" unfolding owned_in using r w by blast
    with un have "uncommitted_in (log_commits l) (xo_owner ?x)" by blast
    then show "\<not> durably_committed l (mt_transaction_id w)" by (simp only: uncommitted_log transaction_page_observation.select_convs not_False_eq_True)
  qed
next
  assume no: "no_committed_image l n"
  show "\<forall>x \<in> set (log_pages l n). uncommitted_in (log_commits l) (xo_owner x)"
  proof
    fix x
    assume "x \<in> set (log_pages l n)"
    then obtain r w where "r \<in> set (memory_log_durable_records l)" "owned_page_record n r w"
      and x: "xo_owner x = identity_of (mt_transaction_id w)"
      unfolding owned_in owned_page_record_def by auto
    with no have "\<not> durably_committed l (mt_transaction_id w)" by (simp add: no_committed_image_def)
    then show "uncommitted_in (log_commits l) (xo_owner x)" unfolding x uncommitted_log .
  qed
qed

lemma latest_committed_log:
  assumes "latest_committed (log_commits l) (log_pages l n) latest"
    and "owned_pages_of lin n (log_pages l n)"
  shows "latest_committed_image l n (owned_recovery_target latest)"
proof -
  let ?x = "lc_observation latest"
  from assms(1) obtain ys zs where split: "log_pages l n = ys @ ?x # zs"
    and un: "\<forall>z \<in> set zs. uncommitted_in (log_commits l) (xo_owner z)"
    and com: "committed_at (log_commits l) (xo_owner ?x) (lc_commit_position latest)"
    and less: "lsn_value (xo_position ?x) < lsn_value (lc_commit_position latest)"
    by (auto simp: latest_committed_def)
  have "?x \<in> set (log_pages l n)" by (simp add: split)
  then obtain r w where r: "r \<in> set (memory_log_durable_records l)" "owned_page_record n r w"
    and x: "?x = \<lparr>xo_owner = identity_of (mt_transaction_id w),
      xo_page = DurablePageWalObservation (observation_of (mt_page w) (mr_position r))\<rparr>"
    unfolding owned_in owned_page_record_def by blast
  have content: "target_content (owned_recovery_target latest)
      = (mp_page_version (mt_page w), mp_bytes (mt_page w), mr_position r)"
    by (simp add: target_content_def owned_recovery_target_def Let_def x)
  have commit: "\<exists>q \<in> set (memory_log_durable_records l). mr_kind q = MemTransactionCommit (mt_transaction_id w)
      \<and> mr_position q = rg_commit_position (owned_recovery_target latest) \<and> mr_value r < mr_value q"
  proof -
    from com obtain q where "q \<in> set (memory_log_durable_records l)"
      "mr_kind q = MemTransactionCommit (mt_transaction_id w)" "mr_position q = lc_commit_position latest"
      unfolding x by (auto simp: committed_at_log)
    with less show ?thesis by (intro bexI [of _ q]) (simp_all add: owned_recovery_target_def Let_def x)
  qed
  have later: "\<not> durably_committed l (mt_transaction_id w')"
    if "r' \<in> set (memory_log_durable_records l)" "owned_page_record n r' w'" "mr_value r < mr_value r'" for r' w'
  proof -
    let ?y = "\<lparr>xo_owner = identity_of (mt_transaction_id w'),
      xo_page = DurablePageWalObservation (observation_of (mt_page w') (mr_position r'))\<rparr>"
    have "?y \<in> set (log_pages l n)" unfolding owned_in using that(1,2) by (auto simp: owned_page_record_def)
    moreover have "\<forall>y \<in> set ys. lsn_value (xo_position y) < mr_value r"
      using assms(2) unfolding split owned_pages_of_def by (simp add: sorted_wrt_append x)
    ultimately have "?y \<in> set zs"
      using that(3) by (auto simp: split x)
    with un have "uncommitted_in (log_commits l) (xo_owner ?y)" by blast
    then show ?thesis by (simp only: uncommitted_log transaction_page_observation.select_convs not_False_eq_True)
  qed
  show ?thesis
    unfolding latest_committed_image_def using r content commit later by blast
qed

section \<open>The gate\<close>

lemma observe_page_Inr:
  "memory_observe_page n st = Inr snap \<Longrightarrow>
     memory_stored st n = map_option (\<lambda>s. (po_page_version (snapshot_observation s),
       image_bytes (po_image (snapshot_observation s)), so_position s)) snap"
  by (auto simp: memory_observe_page_def memory_stored_def page_content_def stored_page_recovery_observation_def
      map_sum_Inr snapshot_from_bytes_Inr split: option.splits)

lemma matching_snapshot_content:
  assumes "snapshot_matches_owned_page s (lc_observation latest)"
  shows "(po_page_version (snapshot_observation s), image_bytes (po_image (snapshot_observation s)), so_position s)
    = target_content (owned_recovery_target latest)"
  using assms by (auto simp: snapshot_matches_owned_page_def same_payload_def target_content_def
      owned_recovery_target_def Let_def lsn_eq_def intro: lsn_eqI)

lemma recover_page_effect:
  assumes "memory_store_inv st"
    and "recover_committed_transaction_page (memory_page_recovery_inventory alloc evidence_alloc)
      (memory_page_recovery_store reserve) n l st = (res, l', st')"
  shows "memory_store_inv st' \<and> l' = l \<and> (\<forall>m. m \<noteq> n \<longrightarrow> memory_stored st' m = memory_stored st m)
    \<and> (case res of
        Inr (OutcomeNoCommittedPage m) \<Rightarrow>
          m = n \<and> st' = st \<and> memory_stored st n = None \<and> no_committed_image l n
      | Inr (OutcomeAlreadyCurrent t) \<Rightarrow>
          st' = st \<and> memory_stored st n = Some (target_content t) \<and> latest_committed_image l n t
      | Inr (OutcomeRecovered t) \<Rightarrow>
          memory_stored st' n = Some (target_content t) \<and> latest_committed_image l n t
      | Inl (RecoveryStoreWrite e) \<Rightarrow> latest_committed_image l n (ir_target e)
          \<and> (memory_stored st' n = memory_stored st n \<or> memory_stored st' n = Some (target_content (ir_target e)))
      | Inl _ \<Rightarrow> st' = st)"
proof (cases "same_lineage (ml_lineage l) (mst_lineage st)")
  case False
  with assms show ?thesis
    by (auto simp: recover_committed_transaction_page_def memory_page_recovery_inventory_def
        memory_page_recovery_store_def Let_def)
next
  case True
  let ?sport = "memory_page_recovery_store reserve"
  let ?op = "recovery_callback ?sport (ml_lineage l) n"
  obtain r l1 st1 attempt where ev: "memory_with_durable_page_evidence evidence_alloc n ?op l (st, None)
      = (r, l1, st1, attempt)" by (metis prod.collapse)
  have res: "res = gate_result n attempt r" "l' = l1" "st' = st1"
    using assms(2) True ev
    by (simp_all add: recover_committed_transaction_page_def memory_page_recovery_inventory_def
        memory_page_recovery_store_def Let_def)
  have ports: "snapshot_observe_page ?sport = memory_observe_page"
    "compare_and_replace ?sport = memory_compare_and_replace reserve"
    by (simp_all add: memory_page_recovery_store_def)
  from ev show ?thesis
  proof (cases rule: memory_evidence_cases)
    case (failed e)
    with assms(1) show ?thesis by (auto simp: res gate_result_def)
  next
    case (called out)
    from called(3) show ?thesis
    proof (cases rule: recovery_callback_cases)
      case (stopped e)
      with assms(1) called show ?thesis by (cases e) (auto simp: res gate_result_def)
    next
      case none
      have "no_committed_image l n" using none(5) unfolding no_committed_log .
      with assms(1) none(1-4) called(1,2) observe_page_Inr [of n st None] show ?thesis
        by (simp add: res gate_result_def ports)
    next
      case (current latest s)
      with assms(1) called observe_page_Inr [of n st "Some s"] latest_committed_log [OF current(5,6)]
        matching_snapshot_content [OF current(7)]
      show ?thesis by (simp add: res gate_result_def ports)
    next
      case (attempted c result)
      note latest = latest_committed_log [OF attempted(2,3)]
      have n: "xo_number (lc_observation (rc_latest_committed c)) = n"
        using attempted(3) latest_committed_in [OF attempted(2)] unfolding owned_pages_of_def by blast
      note w = compare_and_replace_laws [OF assms(1) attempted(4) [unfolded ports], unfolded n]
      show ?thesis
        using w(1,3-5) latest called(1,2) attempted(5)
        by (cases result) (auto simp: res gate_result_def)
    qed
  qed
qed

text \<open>C19: Recovering page n over the in-memory log and store never changes the log and never touches
  another page. If it reports that there is no committed page, the durable log has no committed
  image of the page and the store no page at all; if it reports the page current or recovered, the
  store holds exactly the last durable image of the page whose transaction has a durable commit
  record; if the write fails, the store holds for the page what it held before or that image; and
  on every other error the store is untouched.
\<close>

theorem recover_page_correct:
  assumes "memory_store_inv st"
    and "recover_committed_transaction_page (memory_page_recovery_inventory alloc evidence_alloc)
      (memory_page_recovery_store reserve) n l st = (res, l', st')"
  shows "l' = l \<and> (\<forall>m. m \<noteq> n \<longrightarrow> memory_stored st' m = memory_stored st m)
    \<and> (case res of
        Inr (OutcomeNoCommittedPage m) \<Rightarrow>
          m = n \<and> st' = st \<and> memory_stored st n = None \<and> no_committed_image l n
      | Inr (OutcomeAlreadyCurrent t) \<Rightarrow>
          st' = st \<and> memory_stored st n = Some (target_content t) \<and> latest_committed_image l n t
      | Inr (OutcomeRecovered t) \<Rightarrow>
          memory_stored st' n = Some (target_content t) \<and> latest_committed_image l n t
      | Inl (RecoveryStoreWrite e) \<Rightarrow> latest_committed_image l n (ir_target e)
          \<and> (memory_stored st' n = memory_stored st n \<or> memory_stored st' n = Some (target_content (ir_target e)))
      | Inl _ \<Rightarrow> st' = st)"
  using recover_page_effect [OF assms] by (rule conjunct2)

text \<open>The crashed run: a transaction committed and the page is in the durable log only.\<close>

theorem recover_page_correct_witness:
  "\<exists>t l' st'. recover_committed_transaction_page (memory_page_recovery_inventory (\<lambda>_. True) (\<lambda>_ _. True))
      (memory_page_recovery_store (\<lambda>_. True)) (PageNumber 3) (rt_log (after_run commit_run))
      (rt_store (after_run commit_run)) = (Inr (OutcomeRecovered t), l', st')
    \<and> l' = rt_log (after_run commit_run)
    \<and> memory_stored st' (PageNumber 3) = Some (target_content t)
    \<and> latest_committed_image (rt_log (after_run commit_run)) (PageNumber 3) t"
proof -
  let ?run = "recover_committed_transaction_page (memory_page_recovery_inventory (\<lambda>_. True) (\<lambda>_ _. True))
    (memory_page_recovery_store (\<lambda>_. True)) (PageNumber 3) (rt_log (after_run commit_run))
    (rt_store (after_run commit_run))"
  have inv: "memory_store_inv (rt_store (after_run commit_run))"
    unfolding after_run_def by code_simp
  have "case fst ?run of Inr (OutcomeRecovered _) \<Rightarrow> True | _ \<Rightarrow> False"
    unfolding after_run_def by code_simp
  then obtain t where "fst ?run = Inr (OutcomeRecovered t)" by (auto split: sum.splits recovery_outcome.splits)
  then obtain l' st' where run: "?run = (Inr (OutcomeRecovered t), l', st')" by (metis prod.collapse)
  with recover_page_correct [OF inv run] show ?thesis by auto
qed

section \<open>The whole inventory\<close>

lemma sorted_remdups_strict: "sorted xs \<Longrightarrow> sorted_wrt (<) (remdups_adj xs)"
  for xs :: "'a::linorder list"
  by (induction xs rule: remdups_adj.induct) (auto simp: less_le)

lemma map_remdups_adj: "inj f \<Longrightarrow> map f (remdups_adj xs) = remdups_adj (map f xs)"
  by (induction xs rule: remdups_adj.induct) (auto dest: injD)

lemma page_number_get_inj: "inj page_number_get"
  by (rule injI) (simp add: page_number.expand)

lemma check_inventory_ok: "sorted_wrt (<) (map page_number_get ns) \<Longrightarrow> check_inventory ns = Inr ()"
  by (induction ns rule: check_inventory.induct) auto

lemma inventory_laws:
  assumes "memory_durable_transaction_page_numbers alloc l = (Inr ns, l')"
  shows "l' = l" and "sorted_wrt (<) (map page_number_get ns)"
    and "n \<in> set ns \<longleftrightarrow> (\<exists>r \<in> set (memory_log_durable_records l). \<exists>w. owned_page_record n r w)"
proof -
  let ?f = "\<lambda>r. kind_transaction_page_write (mr_kind r)"
  let ?ns = "map (\<lambda>w. mp_page_number (mt_page w)) (List.map_filter ?f (memory_log_durable_records l))"
  have ns: "ns = remdups_adj (sort_key page_number_get ?ns)" and "l' = l"
    using assms by (auto simp: memory_durable_transaction_page_numbers_def Let_def split: if_splits)
  then show "l' = l" by simp
  show "sorted_wrt (<) (map page_number_get ns)"
    unfolding ns map_remdups_adj [OF page_number_get_inj]
    by (rule sorted_remdups_strict) (rule sorted_sort_key)
  have kind: "?f r = Some w \<longleftrightarrow> mr_kind r = MemTransactionPageWrite w" for r w
    by (cases "mr_kind r") (auto simp: kind_transaction_page_write_def)
  have "set (List.map_filter ?f rs) = {w. \<exists>r \<in> set rs. ?f r = Some w}" for rs
    by (induction rs) (auto simp: map_filter_simps split: option.splits)
  then show "n \<in> set ns \<longleftrightarrow> (\<exists>r \<in> set (memory_log_durable_records l). \<exists>w. owned_page_record n r w)"
    unfolding ns owned_page_record_def by (force simp: kind)
qed

text \<open>The last committed image of a page is unique.\<close>

lemma latest_image_unique:
  assumes "memory_log_inv l" and "latest_committed_image l n s" and "latest_committed_image l n t"
  shows "target_content s = target_content t"
proof -
  from assms(2) obtain r w where r: "r \<in> set (memory_log_durable_records l)" "owned_page_record n r w"
    "target_content s = (mp_page_version (mt_page w), mp_bytes (mt_page w), mr_position r)"
    "durably_committed l (mt_transaction_id w)"
    and later: "\<And>r' w'. r' \<in> set (memory_log_durable_records l) \<Longrightarrow> owned_page_record n r' w' \<Longrightarrow>
      mr_value r < mr_value r' \<Longrightarrow> \<not> durably_committed l (mt_transaction_id w')"
    unfolding latest_committed_image_def durably_committed_def by blast
  from assms(3) obtain q v where q: "q \<in> set (memory_log_durable_records l)" "owned_page_record n q v"
    "target_content t = (mp_page_version (mt_page v), mp_bytes (mt_page v), mr_position q)"
    "durably_committed l (mt_transaction_id v)"
    and later': "\<And>r' w'. r' \<in> set (memory_log_durable_records l) \<Longrightarrow> owned_page_record n r' w' \<Longrightarrow>
      mr_value q < mr_value r' \<Longrightarrow> \<not> durably_committed l (mt_transaction_id w')"
    unfolding latest_committed_image_def durably_committed_def by blast
  have "\<not> mr_value r < mr_value q" using later [OF q(1,2)] q(4) by blast
  moreover have "\<not> mr_value q < mr_value r" using later' [OF r(1,2)] r(4) by blast
  ultimately have "mr_value r = mr_value q" by simp
  moreover note in_log = durable_record_in [OF r(1)] durable_record_in [OF q(1)]
  ultimately have "mr_position r = mr_position q"
    using memory_log_invD(2) [OF assms(1) in_log(1)] memory_log_invD(2) [OF assms(1) in_log(2)]
    by (intro lsn_eqI) simp_all
  then have "r = q" by (rule record_at_position [OF assms(1) in_log])
  with r q show ?thesis by (simp add: owned_page_record_def)
qed

text \<open>What recovery leaves in the store for one page.\<close>

definition recovered_page :: "memory_log \<Rightarrow> memory_page_store \<Rightarrow> page_number \<Rightarrow> bool" where
  "recovered_page l st n =
     (if no_committed_image l n then memory_stored st n = None
      else \<forall>t. latest_committed_image l n t \<longrightarrow> memory_stored st n = Some (target_content t))"

lemma latest_not_none: "latest_committed_image l n t \<Longrightarrow> \<not> no_committed_image l n"
  unfolding latest_committed_image_def no_committed_image_def durably_committed_def by blast

lemma recover_page_step:
  assumes "memory_log_inv l" and "memory_store_inv st"
    and "recover_committed_transaction_page (memory_page_recovery_inventory alloc evidence_alloc)
      (memory_page_recovery_store reserve) n l st = (Inr outcome, l', st')"
  shows "l' = l" and "memory_store_inv st'" and "recovered_page l st' n"
    and "m \<noteq> n \<Longrightarrow> memory_stored st' m = memory_stored st m"
proof -
  note effect = recover_page_effect [OF assms(2,3)]
  then show "l' = l" "memory_store_inv st'" "m \<noteq> n \<Longrightarrow> memory_stored st' m = memory_stored st m" by blast+
  have latest: "recovered_page l st' n"
    if "latest_committed_image l n t" "memory_stored st' n = Some (target_content t)" for t
  proof -
    have "memory_stored st' n = Some (target_content u)" if u: "latest_committed_image l n u" for u
      using \<open>memory_stored st' n = Some (target_content t)\<close> latest_image_unique [OF assms(1) \<open>latest_committed_image l n t\<close> u] by simp
    then show ?thesis using latest_not_none [OF that(1)] by (simp add: recovered_page_def)
  qed
  show "recovered_page l st' n"
  proof (cases outcome)
    case (OutcomeNoCommittedPage m)
    with effect show ?thesis by (simp add: recovered_page_def)
  next
    case (OutcomeAlreadyCurrent t)
    with effect have "latest_committed_image l n t" "memory_stored st' n = Some (target_content t)" by auto
    then show ?thesis by (rule latest)
  next
    case (OutcomeRecovered t)
    with effect have "latest_committed_image l n t" "memory_stored st' n = Some (target_content t)" by auto
    then show ?thesis by (rule latest)
  qed
qed

lemma recover_pages_loop_laws:
  assumes "memory_log_inv l" and "memory_store_inv st" and "distinct ns"
    and "recover_pages_loop (memory_page_recovery_inventory alloc evidence_alloc)
      (memory_page_recovery_store reserve) pages ns l st = (Inr outcomes, l', st')"
  shows "l' = l \<and> (\<forall>n \<in> set ns. recovered_page l st' n)
    \<and> (\<forall>m. m \<notin> set ns \<longrightarrow> memory_stored st' m = memory_stored st m)
    \<and> length outcomes = length pages + length ns"
  using assms(2-4)
proof (induction ns arbitrary: pages st)
  case Nil
  then show ?case by simp
next
  case (Cons n ns)
  obtain a l1 st1 where step: "recover_committed_transaction_page
      (memory_page_recovery_inventory alloc evidence_alloc) (memory_page_recovery_store reserve) n l st
      = (a, l1, st1)" by (metis prod.collapse)
  with Cons.prems(3) obtain outcome where a: "a = Inr outcome" by (cases a) auto
  note step = step [unfolded a]
  note rest = Cons.prems(3) [unfolded recover_pages_loop.simps step prod.case sum.case]
  note one = recover_page_step [OF assms(1) Cons.prems(1) step]
  note IH = Cons.IH [OF one(2) _ rest [unfolded one(1)]]
  have n: "n \<notin> set ns" "distinct ns" using Cons.prems(2) by auto
  from IH n have "memory_stored st' n = memory_stored st1 n" by blast
  with one(3) have "recovered_page l st' n" by (simp add: recovered_page_def)
  with IH n(2) one(4) show ?case by auto
qed

text \<open>C8: Recovering the whole inventory over the in-memory log and store: when it succeeds the log is
  unchanged, there is one outcome per distinct transaction-owned page of the durable prefix, every
  such page is in the store exactly as the last durable image whose transaction has a durable
  commit record, a page with owned images but no committed one is not in the store, and pages no
  transaction wrote are untouched.
\<close>

theorem recover_pages_correct:
  assumes "memory_log_inv l" and "memory_store_inv st"
    and "recover_committed_transaction_pages outcome_alloc (memory_page_recovery_inventory alloc evidence_alloc)
      (memory_page_recovery_store reserve) l st = (Inr outcomes, l', st')"
  shows "l' = l
    \<and> length outcomes = card {n. \<exists>r \<in> set (memory_log_durable_records l). \<exists>w. owned_page_record n r w}
    \<and> (\<forall>n t. latest_committed_image l n t \<longrightarrow> memory_stored st' n = Some (target_content t))
    \<and> (\<forall>n. if \<exists>r \<in> set (memory_log_durable_records l). \<exists>w. owned_page_record n r w
          then no_committed_image l n \<longrightarrow> memory_stored st' n = None
          else memory_stored st' n = memory_stored st n)"
proof -
  obtain a l1 where inventory: "memory_durable_transaction_page_numbers alloc l = (a, l1)"
    by (metis prod.collapse)
  have port: "durable_transaction_page_numbers (memory_page_recovery_inventory alloc evidence_alloc)
      = memory_durable_transaction_page_numbers alloc" by (simp add: memory_page_recovery_inventory_def)
  note run = assms(3) [unfolded recover_committed_transaction_pages_def Let_def port inventory]
  from run obtain ns where a: "a = Inr ns" by (cases a) (simp_all split: if_splits)
  note inventory = inventory [unfolded a]
  from run have loop: "recover_pages_loop (memory_page_recovery_inventory alloc evidence_alloc)
      (memory_page_recovery_store reserve) [] ns l1 st
      = (Inr outcomes :: (memory_recovery_inventory_error, _, _, _) pages_recovery_error + _, l', st')"
    unfolding a by (simp split: if_splits sum.splits)
  note inv = inventory_laws [OF inventory]
  have "distinct (map page_number_get ns)" using inv(2) by (simp add: strict_sorted_iff)
  then have d: "distinct ns" by (rule distinct_map [THEN iffD1, THEN conjunct1])
  note laws = recover_pages_loop_laws [OF assms(1,2) d loop [unfolded inv(1)]]
  have "set ns = {n. \<exists>r \<in> set (memory_log_durable_records l). \<exists>w. owned_page_record n r w}"
    using inv(3) by blast
  then have "length outcomes = card {n. \<exists>r \<in> set (memory_log_durable_records l). \<exists>w. owned_page_record n r w}"
    using laws distinct_card [OF d] by simp
  moreover have "memory_stored st' n = Some (target_content t)" if "latest_committed_image l n t" for n t
  proof -
    from that have "n \<in> set ns" unfolding inv(3) by (auto simp: latest_committed_image_def)
    with laws that latest_not_none show ?thesis by (auto simp: recovered_page_def)
  qed
  moreover have "if \<exists>r \<in> set (memory_log_durable_records l). \<exists>w. owned_page_record n r w
      then no_committed_image l n \<longrightarrow> memory_stored st' n = None
      else memory_stored st' n = memory_stored st n" for n
    using laws inv(3) [of n] by (auto simp: recovered_page_def)
  ultimately show ?thesis using laws by blast
qed

theorem recover_pages_correct_witness:
  "\<exists>outcomes l' st'. recover_committed_transaction_pages (\<lambda>_. True)
      (memory_page_recovery_inventory (\<lambda>_. True) (\<lambda>_ _. True)) (memory_page_recovery_store (\<lambda>_. True))
      (rt_log (after_run commit_run)) (rt_store (after_run commit_run)) = (Inr outcomes, l', st')
    \<and> l' = rt_log (after_run commit_run)"
proof -
  let ?run = "recover_committed_transaction_pages (\<lambda>_. True)
      (memory_page_recovery_inventory (\<lambda>_. True) (\<lambda>_ _. True)) (memory_page_recovery_store (\<lambda>_. True))
      (rt_log (after_run commit_run)) (rt_store (after_run commit_run))"
  have inv: "memory_store_inv (rt_store (after_run commit_run))"
    unfolding after_run_def by code_simp
  have log: "memory_log_inv (rt_log (after_run commit_run))"
    by (rule runtime_invD(1) [OF runtime.reachable_inv [OF runs_reachable(1)]])
  have "case fst ?run of Inr _ \<Rightarrow> True | _ \<Rightarrow> False" unfolding after_run_def by code_simp
  then obtain outcomes where "fst ?run = Inr outcomes" by (auto split: sum.splits)
  then obtain l' st' where run: "?run = (Inr outcomes, l', st')" by (metis prod.collapse)
  with recover_pages_correct [OF log inv run] show ?thesis by auto
qed

end
