(* ===== verification/Memory_Reclaim_Properties.thy ===== *)
theory Memory_Reclaim_Properties
  imports Memory_Reclaim Runtime_History Page_Recovery_Laws
begin

text \<open>
  WAL-prefix reclamation of the in-memory log, and the characterisation of the pure page
  reconciliation and candidate derivation.
\<close>

section \<open>Reclamation\<close>

lemma drop_is_filter:
  fixes f :: "'a \<Rightarrow> 'b::linorder"
  assumes "sorted_wrt (<) (map f xs)" and "k < length xs"
  shows "drop k xs = filter (\<lambda>x. f (xs ! k) \<le> f x) xs"
  using assms
proof (induction xs arbitrary: k)
  case (Cons x xs)
  show ?case
  proof (cases k)
    case 0
    with Cons.prems(1) have "filter (\<lambda>y. f x \<le> f y) xs = xs" by (simp add: filter_id_conv less_imp_le)
    with 0 show ?thesis by simp
  next
    case (Suc j)
    with Cons.prems have j: "j < length xs" "sorted_wrt (<) (map f xs)" and "f x < f (xs ! j)" by simp_all
    then have "\<not> f (xs ! j) \<le> f x" by (simp add: not_le)
    with Suc Cons.IH [OF j(2,1)] show ?thesis by simp
  qed
qed simp

lemma index_record:
  "record_index p rs = Some i \<Longrightarrow> i < length rs \<and> mr_position (rs ! i) = p"
proof (induction p rs arbitrary: i rule: record_index.induct)
  case (2 p r rs)
  then show ?case by (cases "lsn_eq (mr_position r) p") (auto simp: lsn_eq_def intro: lsn_eqI)
qed simp

text \<open>
  The swap has happened: every record was durable, exactly those at or after the permit's boundary
  remain, the generation is one higher and the permit's checkpoint is the selected one; allocators,
  lineage and the durable high-water are as before.
\<close>

definition reclaimed :: "reclamation_permit \<Rightarrow> memory_log \<Rightarrow> memory_log \<Rightarrow> bool" where
  "reclaimed permit l l' =
     (ml_durable_len l = length (ml_records l)
      \<and> ml_records l' = filter (\<lambda>r. case rp_retained_first permit of
            None \<Rightarrow> False | Some p \<Rightarrow> lsn_value p \<le> mr_value r) (ml_records l)
      \<and> ml_durable_len l' = length (ml_records l')
      \<and> (\<forall>p. rp_retained_first permit = Some p \<longrightarrow> p \<in> mr_position ` set (ml_records l'))
      \<and> unat (ml_generation l') = Suc (unat (ml_generation l))
      \<and> ml_selected_checkpoint_anchor l' = Some (sa_version (rp_selected_checkpoint_anchor permit),
            sa_value (rp_selected_checkpoint_anchor permit))
      \<and> ml_lineage l' = ml_lineage l \<and> ml_next_epoch l' = ml_next_epoch l
      \<and> ml_next_position l' = ml_next_position l
      \<and> ml_durable_logical_high_water l' = ml_durable_logical_high_water l)"

lemma retained_start_filter:
  assumes "memory_log_inv l" and "ml_durable_len l = length (ml_records l)"
    and "retained_start permit l = Inr k"
  shows "drop k (ml_records l) = filter (\<lambda>r. case rp_retained_first permit of
      None \<Rightarrow> False | Some p \<Rightarrow> lsn_value p \<le> mr_value r) (ml_records l)"
    and "\<And>p. rp_retained_first permit = Some p \<Longrightarrow> p \<in> mr_position ` set (drop k (ml_records l))"
    and "k \<le> length (ml_records l)"
proof -
  have "drop k (ml_records l) = filter (\<lambda>r. case rp_retained_first permit of
      None \<Rightarrow> False | Some p \<Rightarrow> lsn_value p \<le> mr_value r) (ml_records l)
    \<and> (\<forall>p. rp_retained_first permit = Some p \<longrightarrow> p \<in> mr_position ` set (drop k (ml_records l)))
    \<and> k \<le> length (ml_records l)"
  proof (cases "rp_retained_first permit")
    case None
    with assms(2,3) show ?thesis by (simp add: retained_start_def)
  next
    case (Some p)
    with assms(2,3) have "record_index p (ml_records l) = Some k" by (simp add: retained_start_def)
    then have k: "k < length (ml_records l)" "mr_position (ml_records l ! k) = p"
      using index_record by auto
    then have "ml_records l ! k \<in> set (drop k (ml_records l))"
      by (metis Cons_nth_drop_Suc list.set_intros(1))
    then have "p \<in> mr_position ` set (drop k (ml_records l))" using k(2) by (metis image_eqI)
    moreover have "drop k (ml_records l) = filter (\<lambda>r. lsn_value p \<le> mr_value r) (ml_records l)"
      using drop_is_filter [OF memory_log_invD(4) [OF assms(1)] k(1)] k(2) by simp
    ultimately show ?thesis using Some k(1) by simp
  qed
  then show "drop k (ml_records l) = filter (\<lambda>r. case rp_retained_first permit of
      None \<Rightarrow> False | Some p \<Rightarrow> lsn_value p \<le> mr_value r) (ml_records l)"
    "\<And>p. rp_retained_first permit = Some p \<Longrightarrow> p \<in> mr_position ` set (drop k (ml_records l))"
    "k \<le> length (ml_records l)" by blast+
qed

lemma swap_reclaimed:
  assumes "memory_log_inv l" and "ml_durable_len l = length (ml_records l)"
    and "retained_start permit l = Inr k" and "checked_add (ml_generation l) 1 = Some g"
    and "ml_armed_fault l1 = f" and "l1 = l\<lparr>ml_armed_fault := f\<rparr>"
  shows "reclaimed permit l (generation_swap permit k g l1)"
proof -
  note start = retained_start_filter [OF assms(1-3)]
  have "length (ml_records l) - k = length (drop k (ml_records l))" by simp
  with start assms checked_add_Some_unat [OF assms(4)] show ?thesis
    unfolding reclaimed_def generation_swap_def start(1) [symmetric] by simp
qed

lemma fault_observation_point [simp]: "mf_fault_point (reclamation_fault_observation point epoch l) = point"
  unfolding reclamation_fault_observation_def by (rule memory_reclamation_fault_observation.select_convs(1))

lemma reclaim_cases:
  assumes "memory_log_inv l" and "memory_reclaim_wal_prefix permit l = (res, l')"
  obtains (refused) e where "res = Inl e" and "l' = l" and "\<forall>o'. e \<noteq> ReclaimInjectedFault o'"
  | (before) o' where "res = Inl (ReclaimInjectedFault o')" and "mf_fault_point o' = BeforeGenerationSwap"
      and "l' = l\<lparr>ml_armed_fault := None\<rparr>"
  | (after) o' where "res = Inl (ReclaimInjectedFault o')" and "mf_fault_point o' = AfterGenerationSwap"
      and "reclaimed permit l l'"
  | (swapped) effect where "res = Inr effect" and "reclaimed permit l l'"
      and "reo_retained_first effect = first_record_position (ml_records l')"
      and "reo_retained_logical_record_count effect = of_nat (length (ml_records l'))"
      and "reo_logical_position_high_water effect = ml_durable_logical_high_water l"
proof -
  let ?run = "\<lambda>epoch k g. (let (fired, l1) = consume_fault BeforeGenerationSwap l in
     if fired
     then (Inl (ReclaimInjectedFault (reclamation_fault_observation BeforeGenerationSwap epoch l1)), l1)
     else
       let (fired, l2) = consume_fault AfterGenerationSwap (generation_swap permit k g l1) in
       if fired
       then (Inl (ReclaimInjectedFault (reclamation_fault_observation AfterGenerationSwap epoch l2)), l2)
       else (Inr
         \<lparr>reo_replacement = \<lparr>rro_old_generation = ml_generation l, rro_new_generation = g,
            rro_physical_format_version = in_memory_wal_physical_format_version\<rparr>,
          reo_retained_first = first_record_position (memory_log_durable_records l2),
          reo_logical_position_high_water = ml_durable_logical_high_water l,
          reo_retained_logical_record_count = of_nat (ml_durable_len l2),
          reo_retained_physical_unit_count = of_nat (ml_durable_len l2),
          reo_allocated_epoch_high_water = epoch\<rparr>, l2))"
  consider (stop) e where "res = Inl e" "l' = l" "\<forall>o'. e \<noteq> ReclaimInjectedFault o'"
    | (run) epoch k g where "(res, l') = ?run epoch k g" "ml_durable_len l = length (ml_records l)"
        "retained_start permit l = Inr k" "checked_add (ml_generation l) 1 = Some g"
  proof (cases "allocated_epoch_high_water l")
    case None
    with assms(2) have "res = Inl NoAllocatedEpoch" "l' = l" by (simp_all add: memory_reclaim_wal_prefix_def)
    then show ?thesis by (intro stop [of NoAllocatedEpoch]) auto
  next
    case (Some epoch)
    note epoch = this
    show ?thesis
    proof (cases "permit_matches permit epoch l \<and> length (ml_records l) = ml_durable_len l")
      case False
      with assms(2) epoch have "\<exists>e. res = Inl e \<and> l' = l \<and> (\<forall>o'. e \<noteq> ReclaimInjectedFault o')"
        by (cases "permit_matches permit epoch l") (auto simp: memory_reclaim_wal_prefix_def)
      then show ?thesis using stop by blast
    next
      case True
      show ?thesis
      proof (cases "retained_start permit l")
        case (Inl e)
        then have "\<forall>o'. e \<noteq> ReclaimInjectedFault o'"
          by (cases "rp_retained_first permit") (auto simp: retained_start_def ok_or_def split: option.splits)
        moreover from assms(2) epoch True Inl have "res = Inl e" "l' = l"
          by (simp_all add: memory_reclaim_wal_prefix_def)
        ultimately show ?thesis by (intro stop)
      next
        case (Inr k)
        show ?thesis
        proof (cases "checked_add (ml_generation l) 1")
          case None
          with assms(2) epoch True Inr have "res = Inl ReclaimGenerationExhausted" "l' = l"
            by (simp_all add: memory_reclaim_wal_prefix_def)
          then show ?thesis by (intro stop [of ReclaimGenerationExhausted]) auto
        next
          case (Some g)
          with assms(2) epoch True Inr have "(res, l') = ?run epoch k g"
            by (simp add: memory_reclaim_wal_prefix_def Let_def)
          with True Inr Some show ?thesis by (intro run [of epoch k g]) simp_all
        qed
      qed
    qed
  qed
  then show ?thesis
  proof cases
    case (stop e)
    then show ?thesis by (rule refused)
  next
    case (run epoch k g)
    note swap = swap_reclaimed [OF assms(1) run(2-4)]
    consider (f1) "ml_armed_fault l = Some BeforeGenerationSwap" | (f2) "ml_armed_fault l = Some AfterGenerationSwap"
      | (f3) "ml_armed_fault l \<noteq> Some BeforeGenerationSwap" "ml_armed_fault l \<noteq> Some AfterGenerationSwap" by blast
    then show ?thesis
    proof cases
      case f1
      with run(1) have "res = Inl (ReclaimInjectedFault (reclamation_fault_observation BeforeGenerationSwap epoch
          (l\<lparr>ml_armed_fault := None\<rparr>)))" "l' = l\<lparr>ml_armed_fault := None\<rparr>"
        by (simp_all add: consume_fault_def)
      then show ?thesis by (intro before [OF _ fault_observation_point])
    next
      case f2
      let ?l2 = "(generation_swap permit k g l)\<lparr>ml_armed_fault := None\<rparr>"
      from f2 run(1) have r: "res = Inl (ReclaimInjectedFault (reclamation_fault_observation AfterGenerationSwap epoch ?l2))"
        "l' = ?l2" by (simp_all add: consume_fault_def generation_swap_def)
      moreover have "?l2 = generation_swap permit k g (l\<lparr>ml_armed_fault := None\<rparr>)" by (simp add: generation_swap_def)
      ultimately have "reclaimed permit l l'" using swap [of "l\<lparr>ml_armed_fault := None\<rparr>" None] by simp
      with r show ?thesis by (intro after [OF _ fault_observation_point]) simp_all
    next
      case f3
      let ?l2 = "generation_swap permit k g l"
      have "(res, l') = (Inr
         \<lparr>reo_replacement = \<lparr>rro_old_generation = ml_generation l, rro_new_generation = g,
            rro_physical_format_version = in_memory_wal_physical_format_version\<rparr>,
          reo_retained_first = first_record_position (memory_log_durable_records ?l2),
          reo_logical_position_high_water = ml_durable_logical_high_water l,
          reo_retained_logical_record_count = of_nat (ml_durable_len ?l2),
          reo_retained_physical_unit_count = of_nat (ml_durable_len ?l2),
          reo_allocated_epoch_high_water = epoch\<rparr>, ?l2)"
        using run(1) f3 by (simp add: consume_fault_def generation_swap_def)
      moreover have rec: "reclaimed permit l ?l2" using swap [of l "ml_armed_fault l"] by simp
      moreover have "ml_durable_len ?l2 = length (ml_records ?l2)"
        "memory_log_durable_records ?l2 = ml_records ?l2"
        using rec by (simp_all add: reclaimed_def memory_log_durable_records_def)
      ultimately show ?thesis by (intro swapped) auto
    qed
  qed
qed

lemma reclaimed_inv:
  assumes inv: "memory_log_inv l" and "reclaimed permit l l'"
  shows "memory_log_inv l'"
proof -
  note r = assms(2) [unfolded reclaimed_def]
  let ?P = "\<lambda>r. case rp_retained_first permit of None \<Rightarrow> False | Some p \<Rightarrow> lsn_value p \<le> mr_value r"
  have sub: "set (ml_records l') \<subseteq> set (ml_records l)" using r by auto
  have sorted: "sorted_wrt (<) (map mr_value (ml_records l'))"
  proof -
    have "sorted_wrt (\<lambda>x y. mr_value x < mr_value y) (ml_records l)"
      using memory_log_invD(4) [OF inv] by (simp add: sorted_wrt_map)
    then have "sorted_wrt (\<lambda>x y. mr_value x < mr_value y) (filter ?P (ml_records l))"
      by (rule sorted_wrt_filter)
    with r show ?thesis by (simp add: sorted_wrt_map)
  qed
  have last: "ml_durable_logical_high_water l' = Some (mr_position (ml_records l' ! (ml_durable_len l' - 1)))"
    if pos: "0 < ml_durable_len l'"
  proof -
    from pos r have ne: "ml_records l' \<noteq> []" by auto
    then obtain p where p: "rp_retained_first permit = Some p" using r by (cases "rp_retained_first permit") auto
    have "ml_records l \<noteq> []" using ne r by auto
    then obtain ys y where l: "ml_records l = ys @ [y]" by (metis rev_exhaust)
    have less: "\<forall>z \<in> set ys. mr_value z < mr_value y"
      using memory_log_invD(4) [OF inv] by (simp add: l sorted_wrt_append)
    from ne r p obtain x where x: "x \<in> set (ml_records l)" "lsn_value p \<le> mr_value x"
      by (auto simp: filter_empty_conv)
    with less have "lsn_value p \<le> mr_value y" by (fastforce simp: l)
    then have "last (ml_records l') = y" using r by (simp add: l p)
    moreover have "ml_durable_logical_high_water l = Some (mr_position y)"
      using inv r by (simp add: memory_log_inv_def l)
    ultimately show ?thesis using r ne by (simp add: last_conv_nth)
  qed
  show ?thesis
    unfolding memory_log_inv_def
  proof (intro conjI)
    show "\<forall>r \<in> set (ml_records l'). lsn_lineage (mr_position r) = ml_lineage l' \<and> 0 < mr_value r"
      using memory_log_invD(2,3) [OF inv] sub r by auto
    show "\<forall>n. ml_next_position l' = Some n \<longrightarrow> 0 < n \<and> (\<forall>r \<in> set (ml_records l'). mr_value r < n)"
      using memory_log_invD(5,6) [OF inv] sub r by auto
    show "\<forall>h. ml_durable_logical_high_water l' = Some h \<longrightarrow> lsn_lineage h = ml_lineage l'"
      using inv r by (simp add: memory_log_inv_def)
    show "\<forall>e. ml_next_epoch l' = Some e \<longrightarrow> 0 < e" using inv r by (simp add: memory_log_inv_def)
  qed (use sorted last r in simp_all)
qed

text \<open>C22: Reclaiming the WAL prefix of the in-memory log either happens completely or not at all. On
  success, and also when the fault after the swap fires, every record was durable, exactly the
  records at or after the permit's boundary remain and all of them are durable, the boundary record
  is among them, the generation is one higher, and allocators, lineage and durable high-water are
  unchanged; the reported effect describes the new state. When the fault before the swap fires only
  that fault is disarmed, and on every other refusal nothing changes. The log invariant holds
  afterwards in every case.
\<close>

theorem reclaim_wal_prefix_correct:
  assumes "memory_log_inv l" and "memory_reclaim_wal_prefix permit l = (res, l')"
  shows "memory_log_inv l'
    \<and> (case res of
        Inr effect \<Rightarrow> reclaimed permit l l'
          \<and> reo_retained_first effect = first_record_position (ml_records l')
          \<and> reo_retained_logical_record_count effect = of_nat (length (ml_records l'))
          \<and> reo_logical_position_high_water effect = ml_durable_logical_high_water l
      | Inl (ReclaimInjectedFault o') \<Rightarrow>
          (if mf_fault_point o' = AfterGenerationSwap then reclaimed permit l l'
           else l' = l\<lparr>ml_armed_fault := None\<rparr>)
      | Inl _ \<Rightarrow> l' = l)"
  using assms
proof (cases rule: reclaim_cases)
  case (refused e)
  with assms(1) show ?thesis by (cases e) simp_all
next
  case (before o')
  with assms(1) show ?thesis by (simp add: memory_log_inv_def)
next
  case (after o')
  with reclaimed_inv [OF assms(1)] show ?thesis by simp
next
  case (swapped effect)
  with reclaimed_inv [OF assms(1)] show ?thesis by simp
qed

text \<open>The permit that retains the commit record of the example run.\<close>

definition example_permit :: reclamation_permit where
  "example_permit = \<lparr>rp_persistent_log_id = PersistentLogId 7, rp_lineage = ex_lineage,
     rp_durable_frontier = Some (ex_position 2), rp_retained_first = Some (ex_position 2),
     rp_allocated_epoch_high_water = 1, rp_physical_format_version = 4, rp_source_generation = 0,
     rp_selected_checkpoint_anchor = \<lparr>sa_version = 1, sa_value = 9\<rparr>\<rparr>"

theorem reclaim_wal_prefix_correct_witness:
  "\<exists>effect l'. memory_reclaim_wal_prefix example_permit (rt_log (after_run commit_run)) = (Inr effect, l')
    \<and> reclaimed example_permit (rt_log (after_run commit_run)) l'"
proof -
  let ?l = "rt_log (after_run commit_run)"
  have inv: "memory_log_inv ?l" by (rule runtime_invD(1) [OF runtime.reachable_inv [OF runs_reachable(1)]])
  have "case fst (memory_reclaim_wal_prefix example_permit ?l) of Inr _ \<Rightarrow> True | Inl _ \<Rightarrow> False"
    unfolding after_run_def by code_simp
  then obtain effect where "fst (memory_reclaim_wal_prefix example_permit ?l) = Inr effect"
    by (auto split: sum.splits)
  then obtain l' where run: "memory_reclaim_wal_prefix example_permit ?l = (Inr effect, l')" by (metis prod.collapse)
  with reclaim_wal_prefix_correct [OF inv run] show ?thesis by auto
qed

text \<open>
  The trait documents that flushing through an already durable position is safe and idempotent.
  After a reclamation it is not: a position whose record was flushed successfully and then
  reclaimed is refused.
\<close>

lemma flush_of_reclaimed_position_refused:
  "fst (memory_flush_through (ex_position 1) (rt_log (after_run commit_run))) = Inr ()
    \<and> fst (memory_flush_through (ex_position 1)
        (snd (memory_reclaim_wal_prefix example_permit (rt_log (after_run commit_run)))))
      = Inl (UnknownFlushPosition (ex_position 1))"
  unfolding after_run_def by code_simp

section \<open>Page reconciliation\<close>

text \<open>C38: Reconciling a page succeeds exactly when the durable observations are the page's own in one
  lineage and strictly ascending, and the stored snapshot, if there is one, is the page's, of that
  lineage, and equal to one of them; the verdict then compares the snapshot with the last one.
\<close>

theorem reconcile_durable_page_characterised:
  "reconcile_durable_page l n snap ws = Inr res \<longleftrightarrow>
     ordered_observations l n ws
     \<and> (case snap of None \<Rightarrow> True | Some s \<Rightarrow> snapshot_backed l n ws s)
     \<and> res = reconciliation_spec l ws snap"
  unfolding reconcile_durable_Inr by (simp split: option.splits)

text \<open>A recovery candidate always agrees with the snapshot it was derived from: the comparison the
  gate runs before it writes can only answer that the source matches, so the gate's two
  comparison errors are unreachable, and the write it attempts installs the last committed image.
\<close>

theorem candidate_matches_its_snapshot:
  assumes "derive_recovery_candidate l n snap ws xs cs = Inr (DecisionCandidate c)"
  shows "compare_recovery_candidate c snap = Inr SourceMatches
    \<and> latest_committed cs xs (rc_latest_committed c)"
  using assms by (cases rule: derive_Inr) simp_all

definition example_owned_page :: transaction_page_observation where
  "example_owned_page = \<lparr>xo_owner = \<lparr>io_epoch = 1, io_sequence = 1\<rparr>, xo_page = DurablePageWalObservation
     \<lparr>po_page_number = PageNumber 3, po_page_version = ImageVersion 5, po_image = PageImage [1, 2],
      po_position = ex_position 1\<rparr>\<rparr>"

definition example_commits :: "commit_observation list" where
  "example_commits = [\<lparr>co_transaction = \<lparr>io_epoch = 1, io_sequence = 1\<rparr>, co_position = ex_position 2\<rparr>]"

definition example_candidate :: recovery_candidate where
  "example_candidate = \<lparr>rc_precondition = PreconditionStoreMissing,
     rc_latest_committed = \<lparr>lc_observation = example_owned_page, lc_commit_position = ex_position 2\<rparr>\<rparr>"

theorem candidate_matches_its_snapshot_witness:
  "derive_recovery_candidate ex_lineage (PageNumber 3) None [xo_page example_owned_page]
      [example_owned_page] example_commits = Inr (DecisionCandidate example_candidate)
    \<and> compare_recovery_candidate example_candidate None = Inr SourceMatches
    \<and> latest_committed example_commits [example_owned_page] (rc_latest_committed example_candidate)"
proof -
  have "derive_recovery_candidate ex_lineage (PageNumber 3) None [xo_page example_owned_page]
      [example_owned_page] example_commits = Inr (DecisionCandidate example_candidate)"
    by code_simp
  with candidate_matches_its_snapshot [OF this] show ?thesis by simp
qed

end
