(* ===== verification/Transaction_Display.thy ===== *)
theory Transaction_Display
  imports Memory_Page_Store
begin

text \<open>
  What the errors of the transaction coordinator and of the memory adapters print. The status in
  a lifecycle mismatch is printed with the derived \<open>Debug\<close> format.
\<close>

section \<open>Debug formats\<close>

fun debug_lifecycle_status :: "transaction_lifecycle_status \<Rightarrow> string" where
  "debug_lifecycle_status StActive = ''Active''"
| "debug_lifecycle_status StCommitAttempted = ''CommitAttempted''"
| "debug_lifecycle_status StCommitted = ''Committed''"
| "debug_lifecycle_status StIndeterminate = ''Indeterminate''"
| "debug_lifecycle_status StPageAppendIndeterminate = ''PageAppendIndeterminate''"
| "debug_lifecycle_status StNoDurableCommitRecord = ''NoDurableCommitRecord''"

fun debug_status_option :: "transaction_lifecycle_status option \<Rightarrow> string" where
  "debug_status_option None = ''None''"
| "debug_status_option (Some st) = ''Some('' @ debug_lifecycle_status st @ '')''"

fun debug_evidence_reason :: "stage_page_write_evidence_error_reason \<Rightarrow> string" where
  "debug_evidence_reason ForeignPosition = ''ForeignPosition''"
| "debug_evidence_reason LogLineageChanged = ''LogLineageChanged''"

section \<open>Commit and resolution\<close>

definition show_transaction_commit_rejection :: "transaction_commit_rejection \<Rightarrow> string" where
  "show_transaction_commit_rejection r =
     (let t = show_transaction_token_id (at_transaction_id (cr_transaction r)) in
      case cr_reason r of
        CommitForeignCoordinator \<Rightarrow> ''transaction '' @ t @ '' belongs to another coordinator''
      | CommitForeignLogLineage \<Rightarrow> ''transaction '' @ t @ '' belongs to another commit-log lineage''
      | CommitLifecycleMismatch actual \<Rightarrow>
          ''transaction '' @ t @ '' is not active in its coordinator registry: ''
            @ debug_status_option actual)"

definition show_transaction_commit_error ::
  "('e \<Rightarrow> string) \<Rightarrow> 'e transaction_commit_error \<Rightarrow> string" where
  "show_transaction_commit_error f e =
     ''transaction '' @ show_transaction_token_id (it_transaction_id (ce_transaction e))
       @ '' commit outcome is indeterminate: '' @ show_commit_error f (ce_source e)"

fun show_coordinated_commit_error ::
  "('e \<Rightarrow> string) \<Rightarrow> 'e coordinated_commit_error \<Rightarrow> string" where
  "show_coordinated_commit_error f (CommitRejected r) = show_transaction_commit_rejection r"
| "show_coordinated_commit_error f (CommitIndeterminate e) = show_transaction_commit_error f e"

definition show_transaction_resolution_error ::
  "('e \<Rightarrow> string) \<Rightarrow> 'e transaction_resolution_error \<Rightarrow> string" where
  "show_transaction_resolution_error f e =
     (let t = show_transaction_token_id (it_transaction_id (re_transaction e)) in
      case re_failure e of
        ResolveForeignCoordinator \<Rightarrow> ''transaction '' @ t @ '' belongs to another coordinator''
      | ResolveForeignLogLineage \<Rightarrow>
          ''transaction '' @ t @ '' recovery source belongs to another log lineage''
      | ResolveLifecycleMismatch actual \<Rightarrow>
          ''transaction '' @ t @ '' is not indeterminate in its coordinator registry: ''
            @ debug_status_option actual
      | ResolveSource source \<Rightarrow>
          ''transaction '' @ t @ '' durable commit lookup failed: '' @ f source)"

section \<open>Staging\<close>

definition show_transaction_page_stage_rejection :: "transaction_page_stage_rejection \<Rightarrow> string" where
  "show_transaction_page_stage_rejection r =
     (let t = show_transaction_token_id (at_transaction_id (pr_transaction r)) in
      case pr_reason r of
        PageStageForeignCoordinator \<Rightarrow> ''transaction '' @ t @ '' belongs to another coordinator''
      | PageStageForeignLogLineage \<Rightarrow>
          ''transaction '' @ t @ '' belongs to another transaction-page log lineage''
      | PageStageForeignPageLineage \<Rightarrow> ''transaction '' @ t @ '' page belongs to another log lineage''
      | PageStageLifecycleMismatch actual \<Rightarrow>
          ''transaction '' @ t @ '' is not active in its coordinator registry: ''
            @ debug_status_option actual
      | PageAlreadyStaged \<Rightarrow>
          ''transaction '' @ t @ '' already staged page ''
            @ show_page_number (pa_number (up_address (pr_page r)))
      | InternalPageLogRejection \<Rightarrow>
          ''transaction '' @ t @ '' page composition was rejected before append'')"

definition show_transaction_page_append_error ::
  "('e \<Rightarrow> string) \<Rightarrow> 'e transaction_page_append_error \<Rightarrow> string" where
  "show_transaction_page_append_error f e =
     ''transaction '' @ show_transaction_token_id (pa_error_transaction_id e) @ '' page ''
       @ show_page_number (pa_number (ia_address (pa_error_page e))) @ '' WAL append failed: ''
       @ f (pa_error_source e)"

definition show_transaction_page_evidence_error :: "transaction_page_evidence_error \<Rightarrow> string" where
  "show_transaction_page_evidence_error e =
     ''transaction '' @ show_transaction_token_id (pe_error_transaction_id e) @ '' page ''
       @ show_page_number (pa_number (ia_address (pe_error_page e)))
       @ '' WAL append evidence is invalid: '' @ debug_evidence_reason (pe_error_reason e)"

fun show_transaction_page_stage_error ::
  "('e \<Rightarrow> string) \<Rightarrow> 'e transaction_page_stage_error \<Rightarrow> string" where
  "show_transaction_page_stage_error f (PageStageRejected r) = show_transaction_page_stage_rejection r"
| "show_transaction_page_stage_error f (PageStageAppend e) = show_transaction_page_append_error f e"
| "show_transaction_page_stage_error f (PageStageInvalidEvidence e) =
     show_transaction_page_evidence_error e"

section \<open>Committed flush\<close>

definition show_transaction_committed_flush_rejection ::
  "transaction_committed_flush_rejection \<Rightarrow> string" where
  "show_transaction_committed_flush_rejection r =
     (let page = td_dirty (fj_page r); n = show_page_number (pa_number (dp_address page)) in
      case fj_reason r of
        FlushWrongTransaction \<Rightarrow> ''committed flush transaction does not own page '' @ n
      | FlushForeignCommitLineage \<Rightarrow>
          ''committed flush position belongs to another lineage than page '' @ n
      | CommitPositionNotAfterPage \<Rightarrow>
          ''committed flush position is not strictly after page '' @ n @ '' WAL position ''
            @ show_lsn (dp_required_position page)
      | InternalFlushRejection \<Rightarrow>
          ''committed flush of page '' @ n @ '' was rejected before any port'')"

definition show_transaction_committed_flush_log_error ::
  "('e \<Rightarrow> string) \<Rightarrow> 'e transaction_committed_flush_log_error \<Rightarrow> string" where
  "show_transaction_committed_flush_log_error f e =
     (let page = td_dirty (fe_page e) in
      ''transaction '' @ show_transaction_token_id (td_transaction_id (fe_page e)) @ '' page ''
        @ show_page_number (pa_number (dp_address page)) @ '' WAL flush through ''
        @ show_lsn (dp_required_position page) @ '' failed: '' @ f (fe_source e))"

definition show_transaction_committed_flush_store_error ::
  "('e \<Rightarrow> string) \<Rightarrow> 'e transaction_committed_flush_store_error \<Rightarrow> string" where
  "show_transaction_committed_flush_store_error f e =
     ''transaction '' @ show_transaction_token_id (fx_transaction_id e) @ '' page ''
       @ show_page_number (pa_number (iw_address (fx_page e))) @ '' durable write after WAL position ''
       @ show_lsn (iw_required_position (fx_page e)) @ '' failed: '' @ f (fx_source e)"

fun show_transaction_committed_flush_error ::
  "('le \<Rightarrow> string) \<Rightarrow> ('se \<Rightarrow> string) \<Rightarrow> ('le, 'se) transaction_committed_flush_error \<Rightarrow> string" where
  "show_transaction_committed_flush_error f g (CommittedFlushRejected r) =
     show_transaction_committed_flush_rejection r"
| "show_transaction_committed_flush_error f g (CommittedFlushLog e) =
     show_transaction_committed_flush_log_error f e"
| "show_transaction_committed_flush_error f g (CommittedFlushStore e) =
     show_transaction_committed_flush_store_error g e"

definition show_coordinated_flush_rejection :: "coordinated_flush_rejection \<Rightarrow> string" where
  "show_coordinated_flush_rejection r =
     (let n = show_page_number (pa_number (dp_address (td_dirty (cf_page r)))) in
      case cf_reason r of
        CoordinatedWrongTransaction \<Rightarrow>
          ''coordinated committed flush transaction does not own page '' @ n
      | ForeignCoordinatorLineage \<Rightarrow>
          ''coordinated committed flush page '' @ n @ '' belongs to another WAL lineage''
      | CoordinatedLifecycleMismatch actual \<Rightarrow>
          ''coordinated committed flush transaction ''
            @ show_transaction_token_id (td_transaction_id (cf_page r)) @ '' is not committed: ''
            @ debug_status_option actual
      | PageNotStaged \<Rightarrow> ''coordinated committed flush page '' @ n @ '' is not staged'')"

fun show_coordinated_flush_error ::
  "('le \<Rightarrow> string) \<Rightarrow> ('se \<Rightarrow> string) \<Rightarrow> ('le, 'se) coordinated_flush_error \<Rightarrow> string" where
  "show_coordinated_flush_error f g (CoordinatedFlushRejected r) = show_coordinated_flush_rejection r"
| "show_coordinated_flush_error f g (CoordinatedFlush e) = show_transaction_committed_flush_error f g e"

section \<open>Memory adapters\<close>

definition show_fault_already_armed :: "fault_already_armed \<Rightarrow> string" where
  "show_fault_already_armed e = ''fault '' @ show_fault_point (fa_armed e)
     @ '' is already armed; cannot arm '' @ show_fault_point (fa_requested e)"

definition show_page_store_fault_already_armed :: "page_store_fault_already_armed \<Rightarrow> string" where
  "show_page_store_fault_already_armed e =
     ''page-store fault '' @ show_page_store_fault_point (sf_armed e)
       @ '' is already armed; cannot arm '' @ show_page_store_fault_point (sf_requested e)"

fun show_memory_epoch_error :: "memory_epoch_error \<Rightarrow> string" where
  "show_memory_epoch_error EpochSpaceExhausted = ''transaction epoch space is exhausted''"

fun show_memory_log_reopen_error :: "memory_log_reopen_error \<Rightarrow> string" where
  "show_memory_log_reopen_error EphemeralLineage =
     ''ephemeral commit-log lineage cannot be reopened''"

end
