(* ===== verification/Database_Identity.thy ===== *)
theory Database_Identity
  imports Wal
begin

text \<open>
  The identity and manifest values of \<open>ntsql-database\<close>: non-zero database, file and generation
  numbers, the three role-bound child files, the composition they form, the clean-close
  certificate and the manifest with its successor rules. All of it is inert data: the ownership
  typestates are built over it.
\<close>

unbundle bit_operations_syntax

section \<open>Numbers\<close>

datatype database_id = DatabaseId (database_id_get: u128)
datatype database_file_id = DatabaseFileId (file_id_get: u128)
datatype lifecycle_generation = LifecycleGeneration (generation_get: u64)
datatype storage_format_version = StorageFormatVersion (format_version_get: u16)

definition database_id_new :: "u128 \<Rightarrow> database_id option" where
  "database_id_new v = (if v \<noteq> 0 then Some (DatabaseId v) else None)"

definition database_file_id_new :: "u128 \<Rightarrow> database_file_id option" where
  "database_file_id_new v = (if v \<noteq> 0 then Some (DatabaseFileId v) else None)"

definition lifecycle_generation_new :: "u64 \<Rightarrow> lifecycle_generation option" where
  "lifecycle_generation_new v = (if v \<noteq> 0 then Some (LifecycleGeneration v) else None)"

definition storage_format_version_new :: "u16 \<Rightarrow> storage_format_version option" where
  "storage_format_version_new v = (if v \<noteq> 0 then Some (StorageFormatVersion v) else None)"

section \<open>Generations\<close>

record generation_exhausted =
  gx_current :: lifecycle_generation

definition show_generation_exhausted :: "generation_exhausted \<Rightarrow> string" where
  "show_generation_exhausted e =
     ''database lifecycle generation '' @ dec (generation_get (gx_current e)) @ '' is exhausted''"

definition lifecycle_generation_checked_next ::
  "lifecycle_generation \<Rightarrow> generation_exhausted + lifecycle_generation" where
  "lifecycle_generation_checked_next g =
     (case checked_add (generation_get g) 1 of
        None \<Rightarrow> Inl \<lparr>gx_current = g\<rparr>
      | Some v \<Rightarrow> (case lifecycle_generation_new v of None \<Rightarrow> Inl \<lparr>gx_current = g\<rparr> | Some n \<Rightarrow> Inr n))"

datatype generation_transition_error =
    TransitionExhausted lifecycle_generation
  | NotStrictlyIncreasing lifecycle_generation lifecycle_generation
  | GenerationSkipped lifecycle_generation lifecycle_generation

fun show_generation_transition_error :: "generation_transition_error \<Rightarrow> string" where
  "show_generation_transition_error (TransitionExhausted current) =
     ''database lifecycle generation '' @ dec (generation_get current) @ '' is exhausted''"
| "show_generation_transition_error (NotStrictlyIncreasing current proposed) =
     ''database lifecycle generation '' @ dec (generation_get proposed)
       @ '' does not advance current generation '' @ dec (generation_get current)"
| "show_generation_transition_error (GenerationSkipped expected proposed) =
     ''database lifecycle generation '' @ dec (generation_get proposed)
       @ '' skips required successor '' @ dec (generation_get expected)"

definition require_successor ::
  "lifecycle_generation \<Rightarrow> lifecycle_generation \<Rightarrow> generation_transition_error + unit" where
  "require_successor g proposed =
     (case lifecycle_generation_checked_next g of
        Inl _ \<Rightarrow> Inl (TransitionExhausted g)
      | Inr expected \<Rightarrow>
          if generation_get proposed \<le> generation_get g then Inl (NotStrictlyIncreasing g proposed)
          else ensure (generation_get proposed = generation_get expected)
                 (GenerationSkipped expected proposed))"

section \<open>Child files\<close>

datatype file_role = RoleWal | RolePageStore | RoleRestartCheckpoint

fun show_file_role :: "file_role \<Rightarrow> string" where
  "show_file_role RoleWal = ''WAL''"
| "show_file_role RolePageStore = ''page store''"
| "show_file_role RoleRestartCheckpoint = ''restart checkpoint''"

record file_identity =
  fi_role :: file_role
  fi_file_id :: database_file_id

record file_header_identity =
  fh_database_id :: database_id
  fh_file :: file_identity

datatype composition_identity_error =
    DuplicateRole file_role database_file_id database_file_id
  | MissingRole file_role
  | DuplicateFileIdentity database_file_id file_role file_role

fun show_composition_identity_error :: "composition_identity_error \<Rightarrow> string" where
  "show_composition_identity_error (DuplicateRole role first duplicate) =
     ''database composition has duplicate '' @ show_file_role role @ '' roles with file identities ''
       @ dec (file_id_get first) @ '' and '' @ dec (file_id_get duplicate)"
| "show_composition_identity_error (MissingRole role) =
     ''database composition is missing the '' @ show_file_role role @ '' role''"
| "show_composition_identity_error (DuplicateFileIdentity file first second) =
     ''database composition reuses file identity '' @ dec (file_id_get file) @ '' for ''
       @ show_file_role first @ '' and '' @ show_file_role second"

text \<open>The three slots of the scan, one per role.\<close>

type_synonym file_slots = "file_role \<Rightarrow> database_file_id option"

fun fill_slots :: "file_slots \<Rightarrow> file_identity list \<Rightarrow> composition_identity_error + file_slots" where
  "fill_slots slots [] = Inr slots"
| "fill_slots slots (f # fs) =
     (case slots (fi_role f) of
        Some first \<Rightarrow> Inl (DuplicateRole (fi_role f) first (fi_file_id f))
      | None \<Rightarrow> fill_slots (slots(fi_role f \<mapsto> fi_file_id f)) fs)"

definition validate_database_files ::
  "file_identity list
     \<Rightarrow> composition_identity_error + database_file_id \<times> database_file_id \<times> database_file_id" where
  "validate_database_files files =
     and_then (fill_slots (\<lambda>_. None) files) (\<lambda>slots.
     and_then (ok_or (slots RoleWal) (MissingRole RoleWal)) (\<lambda>wal.
     and_then (ok_or (slots RolePageStore) (MissingRole RolePageStore)) (\<lambda>page_store.
     and_then (ok_or (slots RoleRestartCheckpoint) (MissingRole RoleRestartCheckpoint)) (\<lambda>checkpoint.
     and_then (ensure (wal \<noteq> page_store) (DuplicateFileIdentity wal RoleWal RolePageStore)) (\<lambda>_.
     and_then (ensure (wal \<noteq> checkpoint) (DuplicateFileIdentity wal RoleWal RoleRestartCheckpoint)) (\<lambda>_.
     and_then (ensure (page_store \<noteq> checkpoint)
       (DuplicateFileIdentity page_store RolePageStore RoleRestartCheckpoint)) (\<lambda>_.
     Inr (wal, page_store, checkpoint))))))))"

section \<open>Storage and composition identities\<close>

record storage_identity =
  si_database_id :: database_id
  si_persistent_log_id :: persistent_log_id
  si_wal_file_id :: database_file_id
  si_page_store_file_id :: database_file_id
  si_restart_checkpoint_file_id :: database_file_id

definition storage_identity_new ::
  "database_id \<Rightarrow> persistent_log_id \<Rightarrow> file_identity list
     \<Rightarrow> composition_identity_error + storage_identity" where
  "storage_identity_new database log files =
     and_then (validate_database_files files) (\<lambda>(wal, page_store, checkpoint).
     Inr \<lparr>si_database_id = database, si_persistent_log_id = log, si_wal_file_id = wal,
          si_page_store_file_id = page_store, si_restart_checkpoint_file_id = checkpoint\<rparr>)"

fun storage_file_id :: "storage_identity \<Rightarrow> file_role \<Rightarrow> database_file_id" where
  "storage_file_id s RoleWal = si_wal_file_id s"
| "storage_file_id s RolePageStore = si_page_store_file_id s"
| "storage_file_id s RoleRestartCheckpoint = si_restart_checkpoint_file_id s"

definition storage_ordered_files :: "storage_identity \<Rightarrow> file_identity list" where
  "storage_ordered_files s =
     [\<lparr>fi_role = RoleWal, fi_file_id = si_wal_file_id s\<rparr>,
      \<lparr>fi_role = RolePageStore, fi_file_id = si_page_store_file_id s\<rparr>,
      \<lparr>fi_role = RoleRestartCheckpoint, fi_file_id = si_restart_checkpoint_file_id s\<rparr>]"

definition storage_file_header_identity :: "storage_identity \<Rightarrow> file_role \<Rightarrow> file_header_identity" where
  "storage_file_header_identity s role =
     \<lparr>fh_database_id = si_database_id s, fh_file = \<lparr>fi_role = role, fi_file_id = storage_file_id s role\<rparr>\<rparr>"

datatype composition_identity_mismatch =
    MismatchDatabaseId database_id database_id
  | MismatchLifecycleGeneration lifecycle_generation lifecycle_generation
  | MismatchFileId file_role database_file_id database_file_id
  | MismatchPersistentLogId persistent_log_id persistent_log_id

fun show_composition_identity_mismatch :: "composition_identity_mismatch \<Rightarrow> string" where
  "show_composition_identity_mismatch (MismatchDatabaseId expected actual) =
     ''database identity mismatch: expected '' @ dec (database_id_get expected) @ '', observed ''
       @ dec (database_id_get actual)"
| "show_composition_identity_mismatch (MismatchLifecycleGeneration expected actual) =
     ''database lifecycle generation mismatch: expected '' @ dec (generation_get expected)
       @ '', observed '' @ dec (generation_get actual)"
| "show_composition_identity_mismatch (MismatchFileId role expected actual) =
     show_file_role role @ '' identity mismatch: expected '' @ dec (file_id_get expected)
       @ '', observed '' @ dec (file_id_get actual)"
| "show_composition_identity_mismatch (MismatchPersistentLogId expected actual) =
     ''persistent WAL identity mismatch: expected '' @ dec (persistent_log_id_get expected)
       @ '', observed '' @ dec (persistent_log_id_get actual)"

definition file_roles :: "file_role list" where
  "file_roles = [RoleWal, RolePageStore, RoleRestartCheckpoint]"

fun match_file_ids ::
  "(file_role \<Rightarrow> database_file_id) \<Rightarrow> (file_role \<Rightarrow> database_file_id) \<Rightarrow> file_role list
     \<Rightarrow> composition_identity_mismatch + unit" where
  "match_file_ids expected actual [] = Inr ()"
| "match_file_ids expected actual (role # roles) =
     (if expected role \<noteq> actual role then Inl (MismatchFileId role (expected role) (actual role))
      else match_file_ids expected actual roles)"

definition storage_require_exact_match ::
  "storage_identity \<Rightarrow> storage_identity \<Rightarrow> composition_identity_mismatch + unit" where
  "storage_require_exact_match s actual =
     and_then (ensure (si_database_id s = si_database_id actual)
       (MismatchDatabaseId (si_database_id s) (si_database_id actual))) (\<lambda>_.
     and_then (match_file_ids (storage_file_id s) (storage_file_id actual) file_roles) (\<lambda>_.
     ensure (si_persistent_log_id s = si_persistent_log_id actual)
       (MismatchPersistentLogId (si_persistent_log_id s) (si_persistent_log_id actual))))"

record composition_identity =
  ci_database_id :: database_id
  ci_lifecycle_generation :: lifecycle_generation
  ci_persistent_log_id :: persistent_log_id
  ci_wal_file_id :: database_file_id
  ci_page_store_file_id :: database_file_id
  ci_restart_checkpoint_file_id :: database_file_id

definition composition_identity_new ::
  "database_id \<Rightarrow> lifecycle_generation \<Rightarrow> persistent_log_id \<Rightarrow> file_identity list
     \<Rightarrow> composition_identity_error + composition_identity" where
  "composition_identity_new database generation log files =
     and_then (storage_identity_new database log files) (\<lambda>s.
     Inr \<lparr>ci_database_id = database, ci_lifecycle_generation = generation, ci_persistent_log_id = log,
          ci_wal_file_id = si_wal_file_id s, ci_page_store_file_id = si_page_store_file_id s,
          ci_restart_checkpoint_file_id = si_restart_checkpoint_file_id s\<rparr>)"

fun composition_file_id :: "composition_identity \<Rightarrow> file_role \<Rightarrow> database_file_id" where
  "composition_file_id c RoleWal = ci_wal_file_id c"
| "composition_file_id c RolePageStore = ci_page_store_file_id c"
| "composition_file_id c RoleRestartCheckpoint = ci_restart_checkpoint_file_id c"

definition composition_ordered_files :: "composition_identity \<Rightarrow> file_identity list" where
  "composition_ordered_files c =
     [\<lparr>fi_role = RoleWal, fi_file_id = ci_wal_file_id c\<rparr>,
      \<lparr>fi_role = RolePageStore, fi_file_id = ci_page_store_file_id c\<rparr>,
      \<lparr>fi_role = RoleRestartCheckpoint, fi_file_id = ci_restart_checkpoint_file_id c\<rparr>]"

definition composition_storage_identity :: "composition_identity \<Rightarrow> storage_identity" where
  "composition_storage_identity c =
     \<lparr>si_database_id = ci_database_id c, si_persistent_log_id = ci_persistent_log_id c,
      si_wal_file_id = ci_wal_file_id c, si_page_store_file_id = ci_page_store_file_id c,
      si_restart_checkpoint_file_id = ci_restart_checkpoint_file_id c\<rparr>"

definition composition_file_header_identity ::
  "composition_identity \<Rightarrow> file_role \<Rightarrow> file_header_identity" where
  "composition_file_header_identity c role =
     storage_file_header_identity (composition_storage_identity c) role"

definition next_generation :: "composition_identity \<Rightarrow> generation_exhausted + composition_identity" where
  "next_generation c =
     and_then (lifecycle_generation_checked_next (ci_lifecycle_generation c)) (\<lambda>g.
     Inr (c\<lparr>ci_lifecycle_generation := g\<rparr>))"

definition with_successor_generation ::
  "composition_identity \<Rightarrow> lifecycle_generation \<Rightarrow> generation_transition_error + composition_identity" where
  "with_successor_generation c proposed =
     and_then (require_successor (ci_lifecycle_generation c) proposed) (\<lambda>_.
     Inr (c\<lparr>ci_lifecycle_generation := proposed\<rparr>))"

definition require_same_storage_identity ::
  "composition_identity \<Rightarrow> composition_identity \<Rightarrow> composition_identity_mismatch + unit" where
  "require_same_storage_identity c actual =
     storage_require_exact_match (composition_storage_identity c) (composition_storage_identity actual)"

definition composition_require_exact_match ::
  "composition_identity \<Rightarrow> composition_identity \<Rightarrow> composition_identity_mismatch + unit" where
  "composition_require_exact_match c actual =
     and_then (ensure (ci_database_id c = ci_database_id actual)
       (MismatchDatabaseId (ci_database_id c) (ci_database_id actual))) (\<lambda>_.
     and_then (ensure (ci_lifecycle_generation c = ci_lifecycle_generation actual)
       (MismatchLifecycleGeneration (ci_lifecycle_generation c) (ci_lifecycle_generation actual))) (\<lambda>_.
     and_then (match_file_ids (composition_file_id c) (composition_file_id actual) file_roles) (\<lambda>_.
     ensure (ci_persistent_log_id c = ci_persistent_log_id actual)
       (MismatchPersistentLogId (ci_persistent_log_id c) (ci_persistent_log_id actual)))))"

end
