(* ===== verification/Database_Manifest.thy ===== *)
theory Database_Manifest
  imports Database_Identity
begin

text \<open>
  The database manifest of \<open>ntsql-database\<close>: required child formats and features, the clean-close
  certificate, the lifecycle state, and which manifest may follow which.
\<close>

unbundle bit_operations_syntax

section \<open>Formats and features\<close>

record storage_format_requirements =
  fq_wal :: storage_format_version
  fq_page_store :: storage_format_version
  fq_restart_checkpoint :: storage_format_version

fun required_format :: "storage_format_requirements \<Rightarrow> file_role \<Rightarrow> storage_format_version" where
  "required_format f RoleWal = fq_wal f"
| "required_format f RolePageStore = fq_page_store f"
| "required_format f RoleRestartCheckpoint = fq_restart_checkpoint f"

record required_features_error =
  rf_actual :: u64
  rf_unknown :: u64

text \<open>The format \<open>{:#0k x}\<close>: the prefix \<open>0x\<close>, then zeros up to a total width of \<open>k\<close>.\<close>

definition hex_padded :: "nat \<Rightarrow> 'a::len word \<Rightarrow> string" where
  "hex_padded k w = ''0x'' @ replicate (k - 2 - length (hex w)) (CHR ''0'') @ hex w"

definition show_required_features_error :: "required_features_error \<Rightarrow> string" where
  "show_required_features_error e =
     ''database required feature bits '' @ hex_padded 18 (rf_actual e) @ '' contain unknown bits ''
       @ hex_padded 18 (rf_unknown e)"

datatype required_features = RequiredFeatures (feature_bits: u64)

definition known_bits :: u64 where "known_bits = 0"

definition features_none :: required_features where "features_none = RequiredFeatures 0"

definition features_from_bits :: "u64 \<Rightarrow> required_features_error + required_features" where
  "features_from_bits bits =
     (let unknown = bits AND NOT known_bits in
      if unknown \<noteq> 0 then Inl \<lparr>rf_actual = bits, rf_unknown = unknown\<rparr> else Inr (RequiredFeatures bits))"

section \<open>The clean-close certificate\<close>

datatype clean_close_certificate_error =
    DurableWalFrontierZero
  | AllocatedTransactionEpochHighWaterZero
  | CheckpointAnchorVersionZero

fun show_clean_close_certificate_error :: "clean_close_certificate_error \<Rightarrow> string" where
  "show_clean_close_certificate_error DurableWalFrontierZero =
     ''database clean-close certificate durable WAL frontier is zero''"
| "show_clean_close_certificate_error AllocatedTransactionEpochHighWaterZero =
     ''database clean-close certificate allocated transaction epoch high-water is zero''"
| "show_clean_close_certificate_error CheckpointAnchorVersionZero =
     ''database clean-close certificate checkpoint anchor version is zero''"

record clean_close_certificate =
  cc_source_generation :: lifecycle_generation
  cc_durable_wal_frontier :: "u64 option"
  cc_allocated_transaction_epoch_high_water :: u64
  cc_checkpoint_anchor_version :: u16
  cc_checkpoint_anchor_value :: u128
  cc_transaction_entry_count :: u64
  cc_page_entry_count :: u64

definition clean_close_certificate_new ::
  "lifecycle_generation \<Rightarrow> u64 option \<Rightarrow> u64 \<Rightarrow> u16 \<Rightarrow> u128 \<Rightarrow> u64 \<Rightarrow> u64
     \<Rightarrow> clean_close_certificate_error + clean_close_certificate" where
  "clean_close_certificate_new source frontier epoch version anchor transactions pages =
     and_then (ensure (frontier \<noteq> Some 0) DurableWalFrontierZero) (\<lambda>_.
     and_then (ensure (epoch \<noteq> 0) AllocatedTransactionEpochHighWaterZero) (\<lambda>_.
     and_then (ensure (version \<noteq> 0) CheckpointAnchorVersionZero) (\<lambda>_.
     Inr \<lparr>cc_source_generation = source, cc_durable_wal_frontier = frontier,
          cc_allocated_transaction_epoch_high_water = epoch, cc_checkpoint_anchor_version = version,
          cc_checkpoint_anchor_value = anchor, cc_transaction_entry_count = transactions,
          cc_page_entry_count = pages\<rparr>)))"

section \<open>The manifest\<close>

datatype manifest_lifecycle_state = RecoveryRequired | Clean clean_close_certificate

fun show_manifest_lifecycle_state :: "manifest_lifecycle_state \<Rightarrow> string" where
  "show_manifest_lifecycle_state RecoveryRequired = ''recovery required''"
| "show_manifest_lifecycle_state (Clean _) = ''clean''"

fun is_clean :: "manifest_lifecycle_state \<Rightarrow> bool" where
  "is_clean RecoveryRequired = False"
| "is_clean (Clean _) = True"

record database_manifest =
  dm_composition_identity :: composition_identity
  dm_lifecycle_state :: manifest_lifecycle_state
  dm_storage_formats :: storage_format_requirements
  dm_required_features :: required_features

definition manifest_recovery_required ::
  "composition_identity \<Rightarrow> storage_format_requirements \<Rightarrow> required_features \<Rightarrow> database_manifest" where
  "manifest_recovery_required composition formats features =
     \<lparr>dm_composition_identity = composition, dm_lifecycle_state = RecoveryRequired,
      dm_storage_formats = formats, dm_required_features = features\<rparr>"

definition manifest_clean ::
  "composition_identity \<Rightarrow> storage_format_requirements \<Rightarrow> required_features \<Rightarrow> clean_close_certificate
     \<Rightarrow> generation_transition_error + database_manifest" where
  "manifest_clean composition formats features certificate =
     and_then (require_successor (cc_source_generation certificate)
       (ci_lifecycle_generation composition)) (\<lambda>_.
     Inr \<lparr>dm_composition_identity = composition, dm_lifecycle_state = Clean certificate,
          dm_storage_formats = formats, dm_required_features = features\<rparr>)"

definition next_recovery_required :: "database_manifest \<Rightarrow> generation_exhausted + database_manifest" where
  "next_recovery_required m =
     and_then (next_generation (dm_composition_identity m)) (\<lambda>composition.
     Inr (manifest_recovery_required composition (dm_storage_formats m) (dm_required_features m)))"

datatype manifest_transition_error = CleanToClean

definition show_manifest_transition_error :: "manifest_transition_error \<Rightarrow> string" where
  "show_manifest_transition_error e =
     ''database manifest lifecycle cannot transition from clean directly to clean''"

datatype manifest_clean_successor_error =
    CleanLifecycleTransition manifest_transition_error
  | CleanExhausted generation_exhausted
  | CleanSourceGeneration generation_transition_error

fun show_manifest_clean_successor_error :: "manifest_clean_successor_error \<Rightarrow> string" where
  "show_manifest_clean_successor_error (CleanLifecycleTransition source) =
     ''database manifest clean successor lifecycle is invalid: '' @ show_manifest_transition_error source"
| "show_manifest_clean_successor_error (CleanExhausted source) =
     ''database manifest clean successor is invalid: '' @ show_generation_exhausted source"
| "show_manifest_clean_successor_error (CleanSourceGeneration source) =
     ''database manifest clean successor certificate is invalid: ''
       @ show_generation_transition_error source"

definition next_clean ::
  "database_manifest \<Rightarrow> clean_close_certificate \<Rightarrow> manifest_clean_successor_error + database_manifest" where
  "next_clean m certificate =
     and_then (ensure (\<not> is_clean (dm_lifecycle_state m)) (CleanLifecycleTransition CleanToClean)) (\<lambda>_.
     and_then (map_err CleanExhausted (next_generation (dm_composition_identity m))) (\<lambda>composition.
     map_err CleanSourceGeneration
       (manifest_clean composition (dm_storage_formats m) (dm_required_features m) certificate)))"

datatype manifest_successor_error =
    SuccessorCompositionIdentity composition_identity_mismatch
  | SuccessorLifecycleGeneration generation_transition_error
  | SuccessorLifecycleTransition manifest_transition_error
  | SuccessorStorageFormatVersion file_role storage_format_version storage_format_version
  | SuccessorRequiredFeatures required_features required_features

fun show_manifest_successor_error :: "manifest_successor_error \<Rightarrow> string" where
  "show_manifest_successor_error (SuccessorCompositionIdentity source) =
     ''database manifest identity changed: '' @ show_composition_identity_mismatch source"
| "show_manifest_successor_error (SuccessorLifecycleGeneration source) =
     ''database manifest generation is invalid: '' @ show_generation_transition_error source"
| "show_manifest_successor_error (SuccessorLifecycleTransition source) =
     ''database manifest lifecycle is invalid: '' @ show_manifest_transition_error source"
| "show_manifest_successor_error (SuccessorStorageFormatVersion role expected actual) =
     ''database manifest '' @ show_file_role role @ '' format changed from ''
       @ dec (format_version_get expected) @ '' to '' @ dec (format_version_get actual)"
| "show_manifest_successor_error (SuccessorRequiredFeatures expected actual) =
     ''database manifest required features changed from '' @ hex_padded 18 (feature_bits expected)
       @ '' to '' @ hex_padded 18 (feature_bits actual)"

fun match_formats ::
  "storage_format_requirements \<Rightarrow> storage_format_requirements \<Rightarrow> file_role list
     \<Rightarrow> manifest_successor_error + unit" where
  "match_formats expected actual [] = Inr ()"
| "match_formats expected actual (role # roles) =
     (if required_format expected role \<noteq> required_format actual role
      then Inl (SuccessorStorageFormatVersion role (required_format expected role) (required_format actual role))
      else match_formats expected actual roles)"

definition require_successor_of ::
  "database_manifest \<Rightarrow> database_manifest \<Rightarrow> manifest_successor_error + unit" where
  "require_successor_of m previous =
     and_then (map_err SuccessorCompositionIdentity
       (require_same_storage_identity (dm_composition_identity previous) (dm_composition_identity m))) (\<lambda>_.
     and_then (map_err SuccessorLifecycleGeneration
       (require_successor (ci_lifecycle_generation (dm_composition_identity previous))
         (ci_lifecycle_generation (dm_composition_identity m)))) (\<lambda>_.
     and_then (ensure (\<not> (is_clean (dm_lifecycle_state previous) \<and> is_clean (dm_lifecycle_state m)))
       (SuccessorLifecycleTransition CleanToClean)) (\<lambda>_.
     and_then (match_formats (dm_storage_formats previous) (dm_storage_formats m) file_roles) (\<lambda>_.
     ensure (dm_required_features previous = dm_required_features m)
       (SuccessorRequiredFeatures (dm_required_features previous) (dm_required_features m))))))"

text \<open>Selecting a manifest for a requested database.\<close>

datatype manifest_selection_rejection = ForeignDatabaseId database_id database_id

fun show_manifest_selection_rejection :: "manifest_selection_rejection \<Rightarrow> string" where
  "show_manifest_selection_rejection (ForeignDatabaseId expected actual) =
     ''manifest database identity '' @ dec (database_id_get actual)
       @ '' does not match requested database '' @ dec (database_id_get expected)"

record 'o unbound_database =
  ub_owner :: 'o
  ub_expected_database_id :: database_id

record 'o manifest_selected_database =
  ms_owner :: 'o
  ms_manifest :: database_manifest

record 'o manifest_selection_error =
  mx_database :: "'o unbound_database"
  mx_selected_manifest :: database_manifest
  mx_reason :: manifest_selection_rejection

definition select_manifest ::
  "'o unbound_database \<Rightarrow> database_manifest
     \<Rightarrow> 'o manifest_selection_error + 'o manifest_selected_database" where
  "select_manifest u m =
     (if ub_expected_database_id u \<noteq> ci_database_id (dm_composition_identity m)
      then Inl \<lparr>mx_database = u, mx_selected_manifest = m,
        mx_reason = ForeignDatabaseId (ub_expected_database_id u)
          (ci_database_id (dm_composition_identity m))\<rparr>
      else Inr \<lparr>ms_owner = ub_owner u, ms_manifest = m\<rparr>)"

end
