(* ===== verification/File_Bytes.thy ===== *)
theory File_Bytes
  imports Prelude
begin

text \<open>
  Byte-level primitives of \<open>ntsql-storage-file\<close>: big-endian fields read from and written into
  fixed arrays, and the checksum every header and frame carries. An array is a list of its length;
  the code only ever indexes inside it. The laws say how fields and writes interact and that the
  checksum tells apart any two inputs that differ in one byte.
\<close>

named_theorems byte_simps \<open>fields of spliced byte arrays\<close>

unbundle bit_operations_syntax

section \<open>Big-endian words\<close>

primrec be_bytes :: "nat \<Rightarrow> 'a::len word \<Rightarrow> u8 list" where
  "be_bytes 0 w = []"
| "be_bytes (Suc n) w = be_bytes n (drop_bit 8 w) @ [ucast w]"

definition of_be_bytes :: "u8 list \<Rightarrow> 'a::len word" where
  "of_be_bytes bs = foldl (\<lambda>acc b. push_bit 8 acc + ucast b) 0 bs"

lemma length_be_bytes [simp]: "length (be_bytes n w) = n"
  by (induction n arbitrary: w) simp_all

lemma of_be_bytes_Nil [simp]: "of_be_bytes [] = 0"
  by (simp add: of_be_bytes_def)

lemma of_be_bytes_snoc [simp]: "of_be_bytes (bs @ [b]) = push_bit 8 (of_be_bytes bs) + ucast b"
  by (simp add: of_be_bytes_def)

lemma ucast_byte: "(ucast (ucast w :: u8) :: 'a::len word) = take_bit 8 (w :: 'a word)"
  by (rule bit_word_eqI) (auto simp: bit_ucast_iff bit_take_bit_iff bit_imp_le_length)

lemma of_be_bytes_be_bytes: "of_be_bytes (be_bytes n (w :: 'a::len word)) = take_bit (8 * n) w"
proof (induction n arbitrary: w)
  case (Suc n)
  have "take_bit (8 * Suc n) w
      = push_bit 8 (drop_bit 8 (take_bit (8 * Suc n) w)) + take_bit 8 (take_bit (8 * Suc n) w)"
    by (simp only: bits_ident)
  also have "\<dots> = push_bit 8 (take_bit (8 * n) (drop_bit 8 w)) + take_bit 8 w"
    by (simp add: drop_bit_take_bit take_bit_take_bit)
  finally show ?case by (simp add: Suc ucast_byte)
qed simp

lemma of_be_bytes_inverse [simp]:
  fixes w :: "'a::len word"
  assumes "LENGTH('a) = 8 * n"
  shows "of_be_bytes (be_bytes n w) = w"
  using assms by (simp add: of_be_bytes_be_bytes flip: assms)

lemma push_byte:
  fixes w :: "'a::len word"
  assumes "8 \<le> LENGTH('a)" and "take_bit (LENGTH('a) - 8) w = w"
  shows "drop_bit 8 (push_bit 8 w + ucast (b :: u8)) = w" and "ucast (push_bit 8 w + ucast b) = b"
proof -
  have "push_bit 8 w + ucast b = push_bit 8 w OR ucast b"
    by (rule disjunctive_add) (auto simp: bit_push_bit_iff bit_ucast_iff dest: bit_imp_le_length)
  moreover have small: "8 + i < LENGTH('a)" if "bit w i" for i
    using that assms(2) by (metis bit_take_bit_iff less_diff_conv add.commute)
  moreover have "\<not> bit b (8 + i)" for i
    using bit_imp_le_length [of b "8 + i"] by auto
  ultimately show "drop_bit 8 (push_bit 8 w + ucast b) = w" and "ucast (push_bit 8 w + ucast b) = b"
    using assms(1)
    by (auto intro!: bit_word_eqI simp: bit_simps dest: bit_imp_le_length small)
qed

lemma be_bytes_of_be_bytes:
  assumes "8 * length bs \<le> LENGTH('a::len)"
  shows "be_bytes (length bs) (of_be_bytes bs :: 'a word) = bs
    \<and> take_bit (8 * length bs) (of_be_bytes bs :: 'a word) = of_be_bytes bs"
  using assms
proof (induction bs rule: rev_induct)
  case (snoc b bs)
  let ?w = "of_be_bytes bs :: 'a word"
  have IH: "be_bytes (length bs) ?w = bs" "take_bit (8 * length bs) ?w = ?w"
    using snoc by simp_all
  have "take_bit (LENGTH('a) - 8) (take_bit (8 * length bs) ?w) = take_bit (8 * length bs) ?w"
    using snoc.prems by (simp add: take_bit_take_bit min.absorb2)
  then have fits: "take_bit (LENGTH('a) - 8) ?w = ?w" by (simp only: IH(2))
  have bytes: "be_bytes (length (bs @ [b])) (of_be_bytes (bs @ [b]) :: 'a word) = bs @ [b]"
    using push_byte [OF _ fits] snoc.prems IH(1) by simp
  moreover have "of_be_bytes (be_bytes (length (bs @ [b])) (of_be_bytes (bs @ [b]) :: 'a word))
      = take_bit (8 * length (bs @ [b])) (of_be_bytes (bs @ [b]) :: 'a word)"
    by (rule of_be_bytes_be_bytes)
  ultimately show ?case by simp
qed simp

section \<open>Fields of an array\<close>

definition bytes_at :: "nat \<Rightarrow> nat \<Rightarrow> u8 list \<Rightarrow> u8 list" where
  "bytes_at offset n bytes = take n (drop offset bytes)"

definition copy_into :: "nat \<Rightarrow> u8 list \<Rightarrow> u8 list \<Rightarrow> u8 list" where
  "copy_into offset new bytes =
     map (\<lambda>i. if offset \<le> i \<and> i < offset + length new then new ! (i - offset) else bytes ! i)
       [0..<length bytes]"

definition read_u16 :: "u8 list \<Rightarrow> nat \<Rightarrow> u16" where
  "read_u16 bytes offset = of_be_bytes (bytes_at offset 2 bytes)"

definition read_u32 :: "u8 list \<Rightarrow> nat \<Rightarrow> u32" where
  "read_u32 bytes offset = of_be_bytes (bytes_at offset 4 bytes)"

definition read_u64 :: "u8 list \<Rightarrow> nat \<Rightarrow> u64" where
  "read_u64 bytes offset = of_be_bytes (bytes_at offset 8 bytes)"

definition read_u128 :: "u8 list \<Rightarrow> nat \<Rightarrow> u128" where
  "read_u128 bytes offset = of_be_bytes (bytes_at offset 16 bytes)"

definition write_u16 :: "nat \<Rightarrow> u16 \<Rightarrow> u8 list \<Rightarrow> u8 list" where
  "write_u16 offset value bytes = copy_into offset (be_bytes 2 value) bytes"

definition write_u32 :: "nat \<Rightarrow> u32 \<Rightarrow> u8 list \<Rightarrow> u8 list" where
  "write_u32 offset value bytes = copy_into offset (be_bytes 4 value) bytes"

definition write_u64 :: "nat \<Rightarrow> u64 \<Rightarrow> u8 list \<Rightarrow> u8 list" where
  "write_u64 offset value bytes = copy_into offset (be_bytes 8 value) bytes"

definition write_u128 :: "nat \<Rightarrow> u128 \<Rightarrow> u8 list \<Rightarrow> u8 list" where
  "write_u128 offset value bytes = copy_into offset (be_bytes 16 value) bytes"

definition all_zero :: "u8 list \<Rightarrow> bool" where
  "all_zero bytes = list_all (\<lambda>b. b = 0) bytes"

text \<open>An ASCII byte string literal.\<close>

definition ascii :: "string \<Rightarrow> u8 list" where
  "ascii s = map (\<lambda>c. of_char c) s"

lemma length_ascii [simp]: "length (ascii s) = length s"
  by (simp add: ascii_def)

lemma length_bytes_at [simp]: "length (bytes_at offset n bytes) = min n (length bytes - offset)"
  by (simp add: bytes_at_def)

lemma length_copy_into [simp]: "length (copy_into offset new bytes) = length bytes"
  by (simp add: copy_into_def)

lemma nth_copy_into [byte_simps]:
  assumes "i < length bytes"
  shows "i < offset \<Longrightarrow> copy_into offset new bytes ! i = bytes ! i"
    and "offset + length new \<le> i \<Longrightarrow> copy_into offset new bytes ! i = bytes ! i"
    and "offset \<le> i \<Longrightarrow> i < offset + length new \<Longrightarrow> copy_into offset new bytes ! i = new ! (i - offset)"
  using assms by (auto simp: copy_into_def)

lemma nth_bytes_at: "i < n \<Longrightarrow> at + n \<le> length bytes \<Longrightarrow> bytes_at at n bytes ! i = bytes ! (at + i)"
  by (simp add: bytes_at_def)

lemma bytes_at_cong:
  assumes "length a = length b" and "\<And>i. at \<le> i \<Longrightarrow> i < at + n \<Longrightarrow> i < length a \<Longrightarrow> a ! i = b ! i"
  shows "bytes_at at n a = bytes_at at n b"
  by (rule nth_equalityI) (use assms in \<open>auto simp: bytes_at_def\<close>)

lemma bytes_at_copy_into [byte_simps]:
  shows "at + n \<le> offset \<Longrightarrow> bytes_at at n (copy_into offset new bytes) = bytes_at at n bytes"
    and "offset + length new \<le> at \<Longrightarrow> bytes_at at n (copy_into offset new bytes) = bytes_at at n bytes"
    and "offset + length new \<le> length bytes \<Longrightarrow> offset \<le> at \<Longrightarrow> at + n \<le> offset + length new
           \<Longrightarrow> bytes_at at n (copy_into offset new bytes) = bytes_at (at - offset) n new"
proof -
  show "bytes_at at n (copy_into offset new bytes) = bytes_at (at - offset) n new"
    if "offset + length new \<le> length bytes" "offset \<le> at" "at + n \<le> offset + length new"
    by (rule nth_equalityI) (use that in \<open>auto simp: bytes_at_def copy_into_def\<close>)
qed (auto intro!: bytes_at_cong simp: nth_copy_into)

lemma take_copy_into [byte_simps]:
  "m \<le> offset \<Longrightarrow> take m (copy_into offset new bytes) = take m bytes"
  by (rule nth_equalityI) (auto simp: copy_into_def)

lemma bytes_at_whole [byte_simps]: "length bytes = n \<Longrightarrow> bytes_at 0 n bytes = bytes"
  by (simp add: bytes_at_def)

lemma bytes_at_take [byte_simps]: "at + n \<le> m \<Longrightarrow> bytes_at at n (take m bytes) = bytes_at at n bytes"
  by (simp add: bytes_at_def drop_take)

lemma bytes_at_replicate [byte_simps]: "at + n \<le> m \<Longrightarrow> bytes_at at n (replicate m b) = replicate n b"
  by (simp add: bytes_at_def)

lemma all_zero_replicate [simp]: "all_zero (replicate n 0)"
  by (simp add: all_zero_def list_all_iff)

lemmas read_simps = read_u16_def read_u32_def read_u64_def read_u128_def
lemmas write_simps = write_u16_def write_u32_def write_u64_def write_u128_def

lemma list_update_bytes_at [byte_simps]:
  shows "at + n \<le> i \<Longrightarrow> bytes_at at n (bytes[i := b]) = bytes_at at n bytes"
    and "i < at \<Longrightarrow> bytes_at at n (bytes[i := b]) = bytes_at at n bytes"
  by (auto intro!: bytes_at_cong)

text \<open>
  Two arrays are equal when they agree on every field of a partition. A layout is the list of
  the field lengths in order.
\<close>

primrec layout_fields :: "nat \<Rightarrow> nat list \<Rightarrow> u8 list \<Rightarrow> u8 list list" where
  "layout_fields at [] bytes = []"
| "layout_fields at (n # ns) bytes = bytes_at at n bytes # layout_fields (at + n) ns bytes"

lemma layout_fields_concat: "concat (layout_fields at ns bytes) = bytes_at at (sum_list ns) bytes"
proof (induction ns arbitrary: at)
  case (Cons n ns)
  then show ?case by (simp add: bytes_at_def take_add add.commute)
qed (simp add: bytes_at_def)

lemma bytes_eqI:
  assumes "length a = sum_list ns" and "length b = sum_list ns"
    and "layout_fields 0 ns a = layout_fields 0 ns b"
  shows "a = b"
proof -
  have "bytes_at 0 (sum_list ns) a = bytes_at 0 (sum_list ns) b"
    using arg_cong [OF assms(3), of concat] by (simp only: layout_fields_concat)
  with assms(1,2) show ?thesis by (simp only: bytes_at_whole)
qed

lemma bytes_at_read:
  "at + 2 \<le> length bytes \<Longrightarrow> bytes_at at 2 bytes = be_bytes 2 (read_u16 bytes at)"
  "at + 4 \<le> length bytes \<Longrightarrow> bytes_at at 4 bytes = be_bytes 4 (read_u32 bytes at)"
  "at + 8 \<le> length bytes \<Longrightarrow> bytes_at at 8 bytes = be_bytes 8 (read_u64 bytes at)"
  "at + 16 \<le> length bytes \<Longrightarrow> bytes_at at 16 bytes = be_bytes 16 (read_u128 bytes at)"
  using be_bytes_of_be_bytes [of "bytes_at at 2 bytes", where ?'a = 16]
    be_bytes_of_be_bytes [of "bytes_at at 4 bytes", where ?'a = 32]
    be_bytes_of_be_bytes [of "bytes_at at 8 bytes", where ?'a = 64]
    be_bytes_of_be_bytes [of "bytes_at at 16 bytes", where ?'a = 128]
  by (simp_all add: read_simps)

lemma bytes_at_one: "at < length bytes \<Longrightarrow> bytes_at at 1 bytes = [bytes ! at]"
  by (rule nth_equalityI) (auto simp: nth_bytes_at)

lemma bytes_at_zeros:
  assumes "at + n \<le> length bytes"
  shows "bytes_at at n bytes = replicate n 0 \<longleftrightarrow> (\<forall>i \<in> {at..<at + n}. bytes ! i = 0)"
proof -
  have "bytes_at at n bytes = replicate n 0 \<longleftrightarrow> (\<forall>i < n. bytes ! (at + i) = 0)"
    using assms by (simp add: list_eq_iff_nth_eq nth_bytes_at)
  also have "\<dots> \<longleftrightarrow> (\<forall>i \<in> {at..<at + n}. bytes ! i = 0)"
    by (metis add_less_cancel_left atLeastLessThan_iff le_add1 le_iff_add)
  finally show ?thesis .
qed

lemma all_zero_iff: "all_zero bytes \<longleftrightarrow> bytes = replicate (length bytes) 0"
  by (simp add: all_zero_def list_all_length list_eq_iff_nth_eq)

section \<open>The checksum\<close>

definition checksum_seed :: u64 where "checksum_seed = 0x4e5453514c434b31"
definition checksum_multiplier :: u64 where "checksum_multiplier = 0x4e5453514c57414d"
definition checksum_xor :: u64 where "checksum_xor = 0x434845434b53554d"

definition checksum_step :: "u64 \<Rightarrow> u8 \<Rightarrow> u64" where
  "checksum_step state byte =
     word_rotl 7 ((state XOR ucast byte) * checksum_multiplier) XOR checksum_xor"

definition checksum_v1 :: "u8 list \<Rightarrow> u64" where
  "checksum_v1 bytes = foldl checksum_step checksum_seed bytes XOR of_nat (length bytes)"

text \<open>
  The multiplier is odd, so one step is injective in the state and in the byte. The inverse of
  the multiplier modulo \<open>2 ^ 64\<close> is the witness.
\<close>

lemma multiplier_inverse: "checksum_multiplier * 0x4b7e576b236ddf85 = (1 :: u64)"
  unfolding checksum_multiplier_def by simp

lemma xor_right_cancel: "(a :: 'a::len word) XOR c = b XOR c \<longleftrightarrow> a = b"
  by (auto simp: bit_eq_iff bit_xor_iff)

lemma xor_left_cancel: "(c :: 'a::len word) XOR a = c XOR b \<longleftrightarrow> a = b"
  by (auto simp: bit_eq_iff bit_xor_iff)

lemma checksum_step_eq_iff:
  "checksum_step s b = checksum_step t c \<longleftrightarrow> s XOR ucast b = t XOR ucast c"
proof -
  have inverse: "x * checksum_multiplier * 0x4b7e576b236ddf85 = x" for x :: u64
    by (simp only: mult.assoc multiplier_inverse mult_1_right)
  have "x * checksum_multiplier = y * checksum_multiplier \<longleftrightarrow> x = y" for x y :: u64
    by (metis inverse)
  moreover have "word_rotl 7 x = word_rotl 7 y \<longleftrightarrow> x = y" for x y :: u64
    by (metis word_rot_lr)
  ultimately show ?thesis by (simp add: checksum_step_def xor_right_cancel)
qed

lemma checksum_step_inject_state: "checksum_step s b = checksum_step t b \<longleftrightarrow> s = t"
  by (simp add: checksum_step_eq_iff xor_right_cancel)

lemma checksum_step_inject_byte: "checksum_step s b = checksum_step s c \<longleftrightarrow> b = c"
proof -
  have "(ucast (ucast d :: u64) :: u8) = d" for d
    by (rule bit_word_eqI) (simp add: bit_ucast_iff)
  then have "(ucast b :: u64) = ucast c \<longleftrightarrow> b = c" by metis
  then show ?thesis by (simp add: checksum_step_eq_iff xor_left_cancel)
qed

lemma checksum_fold_inject: "foldl checksum_step s bs = foldl checksum_step t bs \<longleftrightarrow> s = t"
  by (induction bs arbitrary: s t) (simp_all add: checksum_step_inject_state)

lemma checksum_update:
  assumes "i < length bytes" and "b \<noteq> bytes ! i"
  shows "checksum_v1 (bytes[i := b]) \<noteq> checksum_v1 bytes"
proof -
  let ?pre = "take i bytes" and ?post = "drop (Suc i) bytes"
  have split: "bytes = ?pre @ bytes ! i # ?post" "bytes[i := b] = ?pre @ b # ?post"
    using assms(1) by (simp_all add: id_take_nth_drop upd_conv_take_nth_drop)
  let ?s = "foldl checksum_step checksum_seed ?pre"
  have "foldl checksum_step (checksum_step ?s b) ?post
      \<noteq> foldl checksum_step (checksum_step ?s (bytes ! i)) ?post"
    using assms(2) by (simp add: checksum_fold_inject checksum_step_inject_byte)
  then have "foldl checksum_step checksum_seed (bytes[i := b]) \<noteq> foldl checksum_step checksum_seed bytes"
    by (metis split foldl_append foldl_Cons)
  then show ?thesis
    by (simp add: checksum_v1_def xor_right_cancel)
qed

end
