(* ===== verification/Child_Identity_Codec.thy ===== *)
theory Child_Identity_Codec
  imports Database_Identity Database_Manifest File_Bytes
begin

text \<open>
  The 48-byte child-identity extension (\<open>database_child_identity_codec.rs\<close>) that a version-5
  log header and a version-2 page-store header carry.
\<close>

definition child_identity_magic :: "u8 list" where "child_identity_magic = ascii ''NTSQCFI1''"
definition child_identity_length :: nat where "child_identity_length = 48"

datatype child_identity_reason =
    ChildMagic
  | ChildVersion u16
  | ChildLength u16
  | ChildRole u8
  | ChildReserved u8
  | ChildDatabaseIdZero
  | ChildFileIdZero

primrec show_child_identity_reason :: "child_identity_reason \<Rightarrow> string" where
  "show_child_identity_reason ChildMagic = ''database child identity magic does not match''"
| "show_child_identity_reason (ChildVersion actual) =
     ''database child identity version '' @ dec actual @ '' is unsupported''"
| "show_child_identity_reason (ChildLength actual) =
     ''database child identity length '' @ dec actual @ '' is not '' @ dec_nat child_identity_length"
| "show_child_identity_reason (ChildRole actual) =
     ''database child identity role '' @ dec actual @ '' is unsupported''"
| "show_child_identity_reason (ChildReserved actual) =
     ''database child identity reserved byte is nonzero: '' @ hex_padded 4 actual"
| "show_child_identity_reason ChildDatabaseIdZero = ''database child identity database ID is zero''"
| "show_child_identity_reason ChildFileIdZero = ''database child identity file ID is zero''"

record child_identity_error =
  ce_offset :: nat
  ce_reason :: child_identity_reason

definition show_child_identity_error :: "child_identity_error \<Rightarrow> string" where
  "show_child_identity_error e =
     ''database child identity format error at byte '' @ dec_nat (ce_offset e) @ '': ''
       @ show_child_identity_reason (ce_reason e)"

fun encode_role :: "file_role \<Rightarrow> u8" where
  "encode_role RoleWal = 1"
| "encode_role RolePageStore = 2"
| "encode_role RoleRestartCheckpoint = 3"

definition decode_role :: "u8 \<Rightarrow> child_identity_error + file_role" where
  "decode_role role =
     (if role = 1 then Inr RoleWal
      else if role = 2 then Inr RolePageStore
      else if role = 3 then Inr RoleRestartCheckpoint
      else Inl \<lparr>ce_offset = 12, ce_reason = ChildRole role\<rparr>)"

definition encode_database_child_identity :: "file_header_identity \<Rightarrow> u8 list" where
  "encode_database_child_identity identity =
     (let encoded = replicate child_identity_length 0;
          encoded = copy_into 0 child_identity_magic encoded;
          encoded = write_u16 8 1 encoded;
          encoded = write_u16 10 48 encoded;
          encoded = encoded[12 := encode_role (fi_role (fh_file identity))];
          encoded = write_u128 16 (database_id_get (fh_database_id identity)) encoded
      in write_u128 32 (file_id_get (fi_file_id (fh_file identity))) encoded)"

text \<open>The reserved bytes, with their offset from the start of the extension.\<close>

fun check_reserved_bytes :: "u8 list \<Rightarrow> nat list \<Rightarrow> child_identity_error + unit" where
  "check_reserved_bytes encoded [] = Inr ()"
| "check_reserved_bytes encoded (offset # offsets) =
     (if encoded ! offset \<noteq> 0 then Inl \<lparr>ce_offset = offset, ce_reason = ChildReserved (encoded ! offset)\<rparr>
      else check_reserved_bytes encoded offsets)"

definition decode_database_child_identity ::
  "u8 list \<Rightarrow> child_identity_error + file_header_identity" where
  "decode_database_child_identity encoded =
     (let error = (\<lambda>offset reason. \<lparr>ce_offset = offset, ce_reason = reason\<rparr>);
          version = read_u16 encoded 8; declared = read_u16 encoded 10 in
      and_then (ensure (bytes_at 0 8 encoded = child_identity_magic) (error 0 ChildMagic)) (\<lambda>_.
      and_then (ensure (version = 1) (error 8 (ChildVersion version))) (\<lambda>_.
      and_then (ensure (declared = 48) (error 10 (ChildLength declared))) (\<lambda>_.
      and_then (decode_role (encoded ! 12)) (\<lambda>role.
      and_then (check_reserved_bytes encoded [13..<16]) (\<lambda>_.
      and_then (ok_or (database_id_new (read_u128 encoded 16)) (error 16 ChildDatabaseIdZero)) (\<lambda>database.
      and_then (ok_or (database_file_id_new (read_u128 encoded 32)) (error 32 ChildFileIdZero)) (\<lambda>file.
      Inr \<lparr>fh_database_id = database, fh_file = \<lparr>fi_role = role, fi_file_id = file\<rparr>\<rparr>))))))))"

section \<open>Round trip\<close>

definition header_identity_wf :: "file_header_identity \<Rightarrow> bool" where
  "header_identity_wf i \<longleftrightarrow> database_id_get (fh_database_id i) \<noteq> 0
     \<and> file_id_get (fi_file_id (fh_file i)) \<noteq> 0"

lemma length_encoded_child [simp]: "length (encode_database_child_identity i) = 48"
  by (simp add: encode_database_child_identity_def write_simps child_identity_length_def Let_def)

lemma decode_role_encode [simp]: "decode_role (encode_role r) = Inr r"
  by (cases r) (simp_all add: decode_role_def)

lemma child_identity_decodes:
  assumes "header_identity_wf i"
  shows "decode_database_child_identity (encode_database_child_identity i) = Inr i"
proof -
  define e where "e = encode_database_child_identity i"
  note simps = e_def encode_database_child_identity_def write_simps read_simps byte_simps
    child_identity_length_def child_identity_magic_def Let_def
  have "bytes_at 0 8 e = child_identity_magic" "read_u16 e 8 = 1" "read_u16 e 10 = 48"
    "e ! 12 = encode_role (fi_role (fh_file i))" "e ! 13 = 0" "e ! 14 = 0" "e ! 15 = 0"
    "read_u128 e 16 = database_id_get (fh_database_id i)"
    "read_u128 e 32 = file_id_get (fi_file_id (fh_file i))"
    by (simp_all add: simps)
  with assms show ?thesis
    by (simp add: decode_database_child_identity_def header_identity_wf_def database_id_new_def
        database_file_id_new_def upt_rec_numeral flip: e_def)
qed

end
