(* ===== verification/File_Format_Error.thy ===== *)
theory File_Format_Error
  imports Child_Identity_Codec
begin

text \<open>
  What opening a file log can report: page-width errors, the boundaries at which input or output
  can fail, and every reason a header or a frame is malformed, each with its message.
\<close>

section \<open>Page widths and I/O\<close>

datatype file_page_width_error = WidthZero | WidthNotRepresentable usize

primrec show_file_page_width_error :: "file_page_width_error \<Rightarrow> string" where
  "show_file_page_width_error WidthZero = ''page width must be nonzero for the v2 file format''"
| "show_file_page_width_error (WidthNotRepresentable actual) =
     ''page width '' @ dec actual @ '' does not fit the persistent v2 file format''"

datatype (plugins only:) file_io_stage =
    StageCreateFile
  | StageOpenFile
  | StageAcquireExclusiveLock
  | StageOpenParentDirectory
  | StageReadMetadata
  | StageReadHeader
  | StageReadFrame
  | StageWriteHeader
  | StageSyncCreatedFile
  | StageSyncOpenedFile
  | StageSyncParentDirectory
  | StageTruncateIncompleteTail
  | StageSyncTruncatedTail
  | StageSeekEnd
  | StageWriteEpochFrame
  | StageSyncEpochFrame
  | StageWriteCommitFrame
  | StageWritePageHeaderFrame
  | StageWriteTransactionPageHeaderFrame
  | StageWriteTransactionPageOwnerFrame
  | StageWritePageDataFrame
  | StageSyncCommitPrefix
  | StageWriteDurableMarker
  | StageSyncDurableMarker
  | StageReadReclamationCandidateMetadata
  | StageRemoveReclamationCandidate
  | StageCreateReclamationCandidate
  | StageAcquireReclamationCandidateLock
  | StageWriteReclamationHeader
  | StageWriteReclamationFrame
  | StageSyncReclamationCandidate
  | StageRenameReclamationCandidate
  | StageSyncReclamationDirectory

primrec show_file_io_stage :: "file_io_stage \<Rightarrow> string" where
  "show_file_io_stage StageCreateFile =
     ''creating the commit-log file''"
| "show_file_io_stage StageOpenFile =
     ''opening the commit-log file''"
| "show_file_io_stage StageAcquireExclusiveLock =
     ''acquiring the exclusive commit-log file lock''"
| "show_file_io_stage StageOpenParentDirectory =
     ''opening the parent directory''"
| "show_file_io_stage StageReadMetadata =
     ''reading commit-log metadata''"
| "show_file_io_stage StageReadHeader =
     ''reading the commit-log header''"
| "show_file_io_stage StageReadFrame =
     ''reading a commit-log frame''"
| "show_file_io_stage StageWriteHeader =
     ''writing the commit-log header''"
| "show_file_io_stage StageSyncCreatedFile =
     ''synchronizing the created file''"
| "show_file_io_stage StageSyncOpenedFile =
     ''synchronizing the opened file''"
| "show_file_io_stage StageSyncParentDirectory =
     ''synchronizing the parent directory''"
| "show_file_io_stage StageTruncateIncompleteTail =
     ''truncating an incomplete tail frame or record''"
| "show_file_io_stage StageSyncTruncatedTail =
     ''synchronizing a repaired file tail''"
| "show_file_io_stage StageSeekEnd =
     ''seeking to the end of the commit-log file''"
| "show_file_io_stage StageWriteEpochFrame =
     ''writing an epoch-allocation frame''"
| "show_file_io_stage StageSyncEpochFrame =
     ''synchronizing an epoch-allocation frame''"
| "show_file_io_stage StageWriteCommitFrame =
     ''writing a commit frame''"
| "show_file_io_stage StageWritePageHeaderFrame =
     ''writing a page-header frame''"
| "show_file_io_stage StageWriteTransactionPageHeaderFrame =
     ''writing a transaction-page-header frame''"
| "show_file_io_stage StageWriteTransactionPageOwnerFrame =
     ''writing a transaction-page-owner frame''"
| "show_file_io_stage StageWritePageDataFrame =
     ''writing a page-data frame''"
| "show_file_io_stage StageSyncCommitPrefix =
     ''synchronizing the requested durable prefix''"
| "show_file_io_stage StageWriteDurableMarker =
     ''writing a durable-through marker''"
| "show_file_io_stage StageSyncDurableMarker =
     ''synchronizing a durable-through marker''"
| "show_file_io_stage StageReadReclamationCandidateMetadata =
     ''reading reclamation candidate metadata''"
| "show_file_io_stage StageRemoveReclamationCandidate =
     ''removing the fixed reclamation candidate''"
| "show_file_io_stage StageCreateReclamationCandidate =
     ''creating the fixed reclamation candidate''"
| "show_file_io_stage StageAcquireReclamationCandidateLock =
     ''acquiring the reclamation candidate lock''"
| "show_file_io_stage StageWriteReclamationHeader =
     ''writing the reclaimed WAL header''"
| "show_file_io_stage StageWriteReclamationFrame =
     ''writing a retained reclamation frame''"
| "show_file_io_stage StageSyncReclamationCandidate =
     ''synchronizing the reclamation candidate''"
| "show_file_io_stage StageRenameReclamationCandidate =
     ''renaming the reclamation candidate over the selected WAL''"
| "show_file_io_stage StageSyncReclamationDirectory =
     ''synchronizing the reclamation parent directory''"

text \<open>An operating-system error is opaque: its kind and code, as the code compares them; one the
  code makes itself has a message.\<close>

datatype io_error = IoError nat | CustomIoError string

record file_io_error =
  io_stage :: file_io_stage
  io_source :: io_error

definition show_file_io_error :: "(io_error \<Rightarrow> string) \<Rightarrow> file_io_error \<Rightarrow> string" where
  "show_file_io_error show_io e =
     show_file_io_stage (io_stage e) @ '' failed: '' @ show_io (io_source e)"

section \<open>Malformed bytes\<close>

datatype (plugins only:) file_format_reason =
    HeaderTooShort u64
  | HeaderMagic
  | HeaderVersion u16
  | HeaderLength u16
  | HeaderV4Length u16
  | HeaderV5Length u16
  | HeaderFlags u32
  | HeaderPageWidthZero
  | HeaderPageWidthMismatch u64 u64
  | HeaderReserved
  | HeaderV4GenerationZero
  | HeaderV4RetainedFirstPresence u8
  | HeaderV4LogicalHighWaterPresence u8
  | HeaderV4RetainedFirstZero
  | HeaderV4LogicalHighWaterZero
  | HeaderV4RetainedFirstWithoutHighWater
  | HeaderV4RetainedFirstBeyondHighWater u64 u64
  | HeaderV4AllocatedEpochHighWaterZero
  | HeaderV4AnchorVersionZero
  | HeaderV4Reserved
  | HeaderV5ReclamationPresence u8
  | HeaderDatabaseChildIdentity child_identity_reason
  | HeaderV4RetainedFirstMismatch "u64 option" "u64 option"
  | HeaderV4LogicalHighWaterMismatch "u64 option" "u64 option"
  | HeaderChecksum u64 u64
  | LineageIdZero
  | FrameMagic
  | FrameKind u16
  | FrameVersion u16
  | FrameLength u16
  | FrameFlags u32
  | FrameReserved
  | FrameChecksum u64 u64
  | UnexpectedNonzeroPayload string u64
  | EpochValueZero
  | EpochOutOfSequence u64 u64
  | EpochSpaceExhausted
  | CommitPositionZero
  | CommitPositionOutOfSequence u64 u64
  | CommitPositionSpaceExhausted
  | CommitEpochZero
  | CommitEpochUnallocated u64 u64
  | CommitSequenceZero
  | DuplicateTransactionIdentity u64 u64
  | MarkerPositionZero
  | MarkerDoesNotAdvance u64 u64
  | MarkerReferencesUnknownCommit u64 u64
  | PageHeaderPositionZero
  | PageHeaderPositionOutOfSequence u64 u64
  | PageHeaderPositionSpaceExhausted
  | PageNumberZero
  | TransactionPageOwnerWithoutHeader
  | TransactionPageOwnerInterruptedByFrameKind u16
  | TransactionPageOwnerDuplicate
  | TransactionPageOwnerParentPositionZero
  | TransactionPageOwnerParentMismatch u64 u64
  | TransactionPageOwnerEpochZero
  | TransactionPageOwnerEpochUnallocated u64 u64
  | TransactionPageOwnerSequenceZero
  | TransactionPageOwnerMissing
  | PageDataWithoutHeader
  | PageDataParentPositionZero
  | PageDataParentMismatch u64 u64
  | PageDataChunkIndexOutOfSequence u64 u64
  | PageDataInterruptedByFrameKind u16
  | PageDataFinalPaddingNonzero

primrec show_file_format_reason :: "file_format_reason \<Rightarrow> string" where
  "show_file_format_reason (HeaderTooShort actual) =
     ''header is shorter than 64 bytes: found '' @ dec actual"
| "show_file_format_reason HeaderMagic =
     ''header magic does not match ntsql format''"
| "show_file_format_reason (HeaderVersion actual) =
     ''unsupported header version '' @ dec actual"
| "show_file_format_reason (HeaderLength actual) =
     ''header length '' @ dec actual @ '' does not equal 64''"
| "show_file_format_reason (HeaderV4Length actual) =
     ''v4 header length '' @ dec actual @ '' does not equal 128''"
| "show_file_format_reason (HeaderV5Length actual) =
     ''v5 header length '' @ dec actual @ '' does not equal 192''"
| "show_file_format_reason (HeaderFlags actual) =
     ''header flags are nonzero: '' @ dec actual"
| "show_file_format_reason HeaderPageWidthZero =
     ''v2 header page width is zero''"
| "show_file_format_reason (HeaderPageWidthMismatch expected actual) =
     ''v2 header page width '' @ dec actual @ '' does not equal required width '' @ dec expected"
| "show_file_format_reason HeaderReserved =
     ''header reserved bytes are nonzero''"
| "show_file_format_reason HeaderV4GenerationZero =
     ''v4 WAL generation is zero''"
| "show_file_format_reason (HeaderV4RetainedFirstPresence actual) =
     ''v4 retained-first presence byte is not canonical: '' @ dec actual"
| "show_file_format_reason (HeaderV4LogicalHighWaterPresence actual) =
     ''v4 logical-high-water presence byte is not canonical: '' @ dec actual"
| "show_file_format_reason HeaderV4RetainedFirstZero =
     ''v4 retained-first position is zero''"
| "show_file_format_reason HeaderV4LogicalHighWaterZero =
     ''v4 logical high-water is zero''"
| "show_file_format_reason HeaderV4RetainedFirstWithoutHighWater =
     ''v4 retained-first exists without a logical high-water''"
| "show_file_format_reason (HeaderV4RetainedFirstBeyondHighWater retained_first high_water) =
     ''v4 retained-first position '' @ dec retained_first @ '' exceeds logical high-water ''
       @ dec high_water"
| "show_file_format_reason HeaderV4AllocatedEpochHighWaterZero =
     ''v4 allocated epoch high-water is zero''"
| "show_file_format_reason HeaderV4AnchorVersionZero =
     ''v4 selected-checkpoint anchor version is zero''"
| "show_file_format_reason HeaderV4Reserved =
     ''v4 header reserved bytes are nonzero''"
| "show_file_format_reason (HeaderV5ReclamationPresence actual) =
     ''v5 reclamation-metadata presence byte is not canonical: '' @ dec actual"
| "show_file_format_reason (HeaderDatabaseChildIdentity source) =
     show_child_identity_reason source"
| "show_file_format_reason (HeaderV4RetainedFirstMismatch expected actual) =
     ''v4 retained-first metadata '' @ debug_u64_option expected
       @ '' does not match retained records '' @ debug_u64_option actual"
| "show_file_format_reason (HeaderV4LogicalHighWaterMismatch expected actual) =
     ''v4 logical high-water metadata '' @ debug_u64_option expected
       @ '' does not match durable records '' @ debug_u64_option actual"
| "show_file_format_reason (HeaderChecksum expected actual) =
     ''header checksum mismatch: expected '' @ hex_padded 18 expected @ '', found ''
       @ hex_padded 18 actual"
| "show_file_format_reason LineageIdZero =
     ''persistent lineage ID is zero''"
| "show_file_format_reason FrameMagic =
     ''frame magic does not match ntsql format''"
| "show_file_format_reason (FrameKind actual) =
     ''unknown frame kind '' @ dec actual"
| "show_file_format_reason (FrameVersion actual) =
     ''unsupported frame version '' @ dec actual"
| "show_file_format_reason (FrameLength actual) =
     ''frame length '' @ dec actual @ '' does not equal 56''"
| "show_file_format_reason (FrameFlags actual) =
     ''frame flags are nonzero: '' @ dec actual"
| "show_file_format_reason FrameReserved =
     ''frame reserved bytes are nonzero''"
| "show_file_format_reason (FrameChecksum expected actual) =
     ''frame checksum mismatch: expected '' @ hex_padded 18 expected @ '', found ''
       @ hex_padded 18 actual"
| "show_file_format_reason (UnexpectedNonzeroPayload field actual) =
     ''payload field '' @ field @ '' is nonzero when the frame kind requires zero: '' @ dec actual"
| "show_file_format_reason EpochValueZero =
     ''epoch allocation is zero''"
| "show_file_format_reason (EpochOutOfSequence expected actual) =
     ''epoch allocation '' @ dec actual @ '' does not equal the next contiguous epoch ''
       @ dec expected"
| "show_file_format_reason EpochSpaceExhausted =
     ''found another epoch allocation after the maximum persisted epoch was already used''"
| "show_file_format_reason CommitPositionZero =
     ''commit position is zero''"
| "show_file_format_reason (CommitPositionOutOfSequence expected actual) =
     ''commit position '' @ dec actual @ '' does not equal the next contiguous position ''
       @ dec expected"
| "show_file_format_reason CommitPositionSpaceExhausted =
     ''found another commit record after the maximum persisted position was already used''"
| "show_file_format_reason CommitEpochZero =
     ''commit epoch is zero''"
| "show_file_format_reason (CommitEpochUnallocated actual highest_allocated) =
     ''commit epoch '' @ dec actual @ '' was never allocated; highest allocated epoch is ''
       @ dec highest_allocated"
| "show_file_format_reason CommitSequenceZero =
     ''commit sequence is zero''"
| "show_file_format_reason (DuplicateTransactionIdentity epoch sequence) =
     ''duplicate transaction identity '' @ dec epoch @ '':'' @ dec sequence"
| "show_file_format_reason MarkerPositionZero =
     ''durable-through marker position is zero''"
| "show_file_format_reason (MarkerDoesNotAdvance previous actual) =
     ''durable-through marker '' @ dec actual @ '' does not advance past '' @ dec previous"
| "show_file_format_reason (MarkerReferencesUnknownCommit actual highest_committed) =
     ''durable-through marker '' @ dec actual
       @ '' does not reference an earlier completed record; highest completed position is ''
       @ dec highest_committed"
| "show_file_format_reason PageHeaderPositionZero =
     ''page header position is zero''"
| "show_file_format_reason (PageHeaderPositionOutOfSequence expected actual) =
     ''page header position '' @ dec actual @ '' does not equal the next contiguous position ''
       @ dec expected"
| "show_file_format_reason PageHeaderPositionSpaceExhausted =
     ''found another page record after the maximum persisted position was already used''"
| "show_file_format_reason PageNumberZero =
     ''page header page number is zero''"
| "show_file_format_reason TransactionPageOwnerWithoutHeader =
     ''transaction-page owner frame has no pending transaction-page header''"
| "show_file_format_reason (TransactionPageOwnerInterruptedByFrameKind actual) =
     ''transaction-page record expected an owner frame but found frame kind '' @ dec actual"
| "show_file_format_reason TransactionPageOwnerDuplicate =
     ''transaction-page record has more than one owner frame''"
| "show_file_format_reason TransactionPageOwnerParentPositionZero =
     ''transaction-page owner parent position is zero''"
| "show_file_format_reason (TransactionPageOwnerParentMismatch expected actual) =
     ''transaction-page owner parent position '' @ dec actual
       @ '' does not match pending page position '' @ dec expected"
| "show_file_format_reason TransactionPageOwnerEpochZero =
     ''transaction-page owner epoch is zero''"
| "show_file_format_reason (TransactionPageOwnerEpochUnallocated actual highest_allocated) =
     ''transaction-page owner epoch '' @ dec actual
       @ '' was never allocated; highest allocated epoch is '' @ dec highest_allocated"
| "show_file_format_reason TransactionPageOwnerSequenceZero =
     ''transaction-page owner sequence is zero''"
| "show_file_format_reason TransactionPageOwnerMissing =
     ''transaction-page record is missing its owner''"
| "show_file_format_reason PageDataWithoutHeader =
     ''page data frame has no pending page header''"
| "show_file_format_reason PageDataParentPositionZero =
     ''page data frame parent position is zero''"
| "show_file_format_reason (PageDataParentMismatch expected actual) =
     ''page data frame parent position '' @ dec actual
       @ '' does not match pending page position '' @ dec expected"
| "show_file_format_reason (PageDataChunkIndexOutOfSequence expected actual) =
     ''page data chunk index '' @ dec actual @ '' does not equal required contiguous chunk ''
       @ dec expected"
| "show_file_format_reason (PageDataInterruptedByFrameKind actual) =
     ''page record expected a page-data frame but found frame kind '' @ dec actual"
| "show_file_format_reason PageDataFinalPaddingNonzero =
     ''page data frame final-chunk padding bytes are nonzero''"

record file_format_error =
  ff_offset :: u64
  ff_reason :: file_format_reason

definition format_error :: "u64 \<Rightarrow> file_format_reason \<Rightarrow> file_format_error" where
  "format_error offset reason = \<lparr>ff_offset = offset, ff_reason = reason\<rparr>"

definition show_file_format_error :: "file_format_error \<Rightarrow> string" where
  "show_file_format_error e =
     ''format error at byte '' @ dec (ff_offset e) @ '': '' @ show_file_format_reason (ff_reason e)"

datatype file_create_error =
    MissingParentDirectory
  | CreatePageWidth file_page_width_error
  | CreateIo file_io_error

primrec show_file_create_error :: "(io_error \<Rightarrow> string) \<Rightarrow> file_create_error \<Rightarrow> string" where
  "show_file_create_error show_io MissingParentDirectory =
     ''commit-log path does not have an existing parent directory''"
| "show_file_create_error show_io (CreatePageWidth source) = show_file_page_width_error source"
| "show_file_create_error show_io (CreateIo source) = show_file_io_error show_io source"

datatype file_open_error =
    OpenPageWidth file_page_width_error
  | OpenIo file_io_error
  | OpenFormat file_format_error
  | OpenRecordCapacityExhausted

primrec show_file_open_error :: "(io_error \<Rightarrow> string) \<Rightarrow> file_open_error \<Rightarrow> string" where
  "show_file_open_error show_io (OpenPageWidth source) = show_file_page_width_error source"
| "show_file_open_error show_io (OpenIo source) = show_file_io_error show_io source"
| "show_file_open_error show_io (OpenFormat source) = show_file_format_error source"
| "show_file_open_error show_io OpenRecordCapacityExhausted =
     ''commit-log record snapshot capacity is exhausted''"

end
