(* ===== verification/File_Format.thy ===== *)
theory File_Format
  imports File_Format_Error
begin

text \<open>
  The byte format of the file log (\<open>ntsql-storage-file/src/lib.rs\<close>): format versions, page
  layouts, the five header versions and the fixed 56-byte frame, with their builders and parsers.
  A header or a frame is a list of exactly its array's length.
\<close>

section \<open>Formats and layouts\<close>

datatype log_format = FormatV1 | FormatV2 | FormatV3 | FormatV4 | FormatV5

primrec format_version :: "log_format \<Rightarrow> u16" where
  "format_version FormatV1 = 1"
| "format_version FormatV2 = 2"
| "format_version FormatV3 = 3"
| "format_version FormatV4 = 4"
| "format_version FormatV5 = 5"

definition frame_version :: "log_format \<Rightarrow> u16" where
  "frame_version f = (if f = FormatV4 \<or> f = FormatV5 then 3 else format_version f)"

definition supports_pages :: "log_format \<Rightarrow> bool" where
  "supports_pages f = (f \<noteq> FormatV1)"

definition supports_transaction_pages :: "log_format \<Rightarrow> bool" where
  "supports_transaction_pages f = (f = FormatV3 \<or> f = FormatV4 \<or> f = FormatV5)"

definition page_chunk_width :: nat where "page_chunk_width = 8"
definition frame_length :: nat where "frame_length = 56"
definition header_length :: nat where "header_length = 64"
definition header_v4_length :: nat where "header_v4_length = 128"
definition header_v5_length :: nat where "header_v5_length = 192"
definition header_magic :: "u8 list" where "header_magic = ascii ''NTSQLOG1''"
definition frame_magic :: "u8 list" where "frame_magic = ascii ''NTSQ''"

record page_layout =
  pl_width :: u64
  pl_chunk_count :: nat
  pl_final_chunk_len :: nat

text \<open>The const-generic width \<open>N\<close> is an argument, a \<open>usize\<close> of 64 bits.\<close>

definition page_layout_for :: "usize \<Rightarrow> file_page_width_error + page_layout" where
  "page_layout_for n =
     (if n = 0 then Inl WidthZero
      else case checked_add n 7 of
        None \<Rightarrow> Inl (WidthNotRepresentable n)
      | Some padded \<Rightarrow> Inr \<lparr>pl_width = n, pl_chunk_count = unat padded div page_chunk_width,
          pl_final_chunk_len = (if unat n mod page_chunk_width = 0 then page_chunk_width
                                else unat n mod page_chunk_width)\<rparr>)"

definition logical_bytes_for_chunk :: "page_layout \<Rightarrow> nat \<Rightarrow> nat" where
  "logical_bytes_for_chunk layout chunk_index =
     (if chunk_index + 1 = pl_chunk_count layout then pl_final_chunk_len layout else page_chunk_width)"

datatype header_expectation = ExpectV1 | ExpectV2 page_layout | ExpectV3OrLater page_layout

fun expectation_accepts :: "header_expectation \<Rightarrow> log_format \<Rightarrow> bool" where
  "expectation_accepts ExpectV1 f = (f = FormatV1)"
| "expectation_accepts (ExpectV2 _) f = (f = FormatV2)"
| "expectation_accepts (ExpectV3OrLater _) f = (f = FormatV3 \<or> f = FormatV4 \<or> f = FormatV5)"

fun expectation_page_layout :: "header_expectation \<Rightarrow> page_layout option" where
  "expectation_page_layout ExpectV1 = None"
| "expectation_page_layout (ExpectV2 layout) = Some layout"
| "expectation_page_layout (ExpectV3OrLater layout) = Some layout"

section \<open>Frames\<close>

datatype frame_kind =
    EpochAllocation | CommitRecord | DurableThrough | PageHeader | PageData
  | TransactionPageHeader | TransactionPageOwner

definition frame_kind_from_u16 :: "u16 \<Rightarrow> log_format \<Rightarrow> frame_kind option" where
  "frame_kind_from_u16 value f =
     (if value = 1 then Some EpochAllocation
      else if value = 2 then Some CommitRecord
      else if value = 3 then Some DurableThrough
      else if value = 4 \<and> supports_pages f then Some PageHeader
      else if value = 5 \<and> supports_pages f then Some PageData
      else if value = 6 \<and> supports_transaction_pages f then Some TransactionPageHeader
      else if value = 7 \<and> supports_transaction_pages f then Some TransactionPageOwner
      else None)"

primrec frame_kind_code :: "frame_kind \<Rightarrow> u16" where
  "frame_kind_code EpochAllocation = 1"
| "frame_kind_code CommitRecord = 2"
| "frame_kind_code DurableThrough = 3"
| "frame_kind_code PageHeader = 4"
| "frame_kind_code PageData = 5"
| "frame_kind_code TransactionPageHeader = 6"
| "frame_kind_code TransactionPageOwner = 7"

record decoded_frame =
  fr_kind :: frame_kind
  fr_payload0 :: u64
  fr_payload1 :: u64
  fr_payload2 :: u64
  fr_payload2_bytes :: "u8 list"

definition build_frame_with_payload2_bytes ::
  "log_format \<Rightarrow> frame_kind \<Rightarrow> u64 \<Rightarrow> u64 \<Rightarrow> u8 list \<Rightarrow> u8 list" where
  "build_frame_with_payload2_bytes f kind payload0 payload1 payload2_bytes =
     (let frame = replicate frame_length 0;
          frame = copy_into 0 frame_magic frame;
          frame = write_u16 4 (frame_kind_code kind) frame;
          frame = write_u16 6 (frame_version f) frame;
          frame = write_u32 8 0 frame;
          frame = write_u16 12 56 frame;
          frame = write_u16 14 0 frame;
          frame = write_u64 16 payload0 frame;
          frame = write_u64 24 payload1 frame;
          frame = copy_into 32 payload2_bytes frame
      in write_u64 48 (checksum_v1 (take 48 frame)) frame)"

definition build_frame :: "log_format \<Rightarrow> frame_kind \<Rightarrow> u64 \<Rightarrow> u64 \<Rightarrow> u64 \<Rightarrow> u8 list" where
  "build_frame f kind payload0 payload1 payload2 =
     build_frame_with_payload2_bytes f kind payload0 payload1 (be_bytes 8 payload2)"

definition parse_frame :: "u8 list \<Rightarrow> u64 \<Rightarrow> log_format \<Rightarrow> file_format_error + decoded_frame" where
  "parse_frame frame offset f =
     (let kind_raw = read_u16 frame 4; version = read_u16 frame 6; flags = read_u32 frame 8;
          declared = read_u16 frame 12; actual = read_u64 frame 48;
          expected = checksum_v1 (take 48 frame) in
      and_then (ensure (bytes_at 0 4 frame = frame_magic) (format_error offset FrameMagic)) (\<lambda>_.
      and_then (ok_or (frame_kind_from_u16 kind_raw f) (format_error (offset + 4) (FrameKind kind_raw)))
        (\<lambda>kind.
      and_then (ensure (version = frame_version f) (format_error (offset + 6) (FrameVersion version))) (\<lambda>_.
      and_then (ensure (flags = 0) (format_error (offset + 8) (FrameFlags flags))) (\<lambda>_.
      and_then (ensure (declared = 56) (format_error (offset + 12) (FrameLength declared))) (\<lambda>_.
      and_then (ensure (read_u16 frame 14 = 0 \<and> all_zero (bytes_at 40 8 frame))
        (format_error (offset + 14) FrameReserved)) (\<lambda>_.
      and_then (ensure (actual = expected) (format_error (offset + 48) (FrameChecksum expected actual)))
        (\<lambda>_.
      Inr \<lparr>fr_kind = kind, fr_payload0 = read_u64 frame 16, fr_payload1 = read_u64 frame 24,
           fr_payload2 = read_u64 frame 32, fr_payload2_bytes = bytes_at 32 8 frame\<rparr>))))))))"

section \<open>Headers of versions 1 to 3\<close>

definition build_header :: "log_format \<Rightarrow> persistent_log_id \<Rightarrow> u64 \<Rightarrow> u8 list" where
  "build_header f log_id page_width =
     (let header = replicate header_length 0;
          header = copy_into 0 header_magic header;
          header = write_u16 8 (format_version f) header;
          header = write_u16 10 64 header;
          header = write_u32 12 0 header;
          header = write_u128 16 (persistent_log_id_get log_id) header;
          header = (if supports_pages f then write_u64 32 page_width header else header)
      in write_u64 56 (checksum_v1 (take 56 header)) header)"

definition build_header_v1 :: "persistent_log_id \<Rightarrow> u8 list" where
  "build_header_v1 log_id = build_header FormatV1 log_id 0"

definition build_header_v2 :: "persistent_log_id \<Rightarrow> u64 \<Rightarrow> u8 list" where
  "build_header_v2 log_id page_width = build_header FormatV2 log_id page_width"

definition build_header_v3 :: "persistent_log_id \<Rightarrow> u64 \<Rightarrow> u8 list" where
  "build_header_v3 log_id page_width = build_header FormatV3 log_id page_width"

definition small_format_from_u16 :: "u16 \<Rightarrow> log_format option" where
  "small_format_from_u16 version =
     (if version = 1 then Some FormatV1 else if version = 2 then Some FormatV2
      else if version = 3 then Some FormatV3 else None)"

text \<open>The page width every page-capable header states at byte 32.\<close>

definition check_page_width :: "u8 list \<Rightarrow> page_layout \<Rightarrow> file_format_error + unit" where
  "check_page_width header layout =
     (let page_width = read_u64 header 32 in
      and_then (ensure (page_width \<noteq> 0) (format_error 32 HeaderPageWidthZero)) (\<lambda>_.
      ensure (page_width = pl_width layout)
        (format_error 32 (HeaderPageWidthMismatch (pl_width layout) page_width))))"

definition parse_header :: "u8 list \<Rightarrow> header_expectation \<Rightarrow> file_format_error + persistent_log_id" where
  "parse_header header expectation =
     (let version = read_u16 header 8; declared = read_u16 header 10; flags = read_u32 header 12;
          actual = read_u64 header 56; expected = checksum_v1 (take 56 header) in
      and_then (ensure (bytes_at 0 8 header = header_magic) (format_error 0 HeaderMagic)) (\<lambda>_.
      and_then (ok_or (small_format_from_u16 version) (format_error 8 (HeaderVersion version))) (\<lambda>f.
      and_then (ensure (expectation_accepts expectation f) (format_error 8 (HeaderVersion version))) (\<lambda>_.
      and_then (ensure (declared = 64) (format_error 10 (HeaderLength declared))) (\<lambda>_.
      and_then (ensure (flags = 0) (format_error 12 (HeaderFlags flags))) (\<lambda>_.
      and_then (ok_or (persistent_log_id_new (read_u128 header 16)) (format_error 16 LineageIdZero)) (\<lambda>log_id.
      and_then (case expectation_page_layout expectation of
          None \<Rightarrow> ensure (all_zero (bytes_at 32 24 header)) (format_error 32 HeaderReserved)
        | Some layout \<Rightarrow>
            and_then (check_page_width header layout) (\<lambda>_.
            ensure (all_zero (bytes_at 40 16 header)) (format_error 40 HeaderReserved))) (\<lambda>_.
      and_then (ensure (actual = expected) (format_error 56 (HeaderChecksum expected actual))) (\<lambda>_.
      Inr log_id)))))))))"

end
