(* ===== verification/File_Header.thy ===== *)
theory File_Header
  imports File_Format
begin

text \<open>
  Headers of versions 4 and 5 of the file log: the metadata a WAL-prefix reclamation leaves in the
  header it writes, and the child identity a database log carries.
\<close>

record v4_header_metadata =
  h4_persistent_id :: persistent_log_id
  h4_generation :: u64
  h4_retained_first :: "u64 option"
  h4_logical_high_water :: "u64 option"
  h4_allocated_epoch_high_water :: u64
  h4_selected_checkpoint_anchor :: "u16 \<times> u128"

record v5_header_metadata =
  h5_persistent_id :: persistent_log_id
  h5_generation :: u64
  h5_retained_first :: "u64 option"
  h5_logical_high_water :: "u64 option"
  h5_allocated_epoch_high_water :: "u64 option"
  h5_selected_checkpoint_anchor :: "(u16 \<times> u128) option"
  h5_database_file_identity :: file_header_identity

section \<open>Building\<close>

text \<open>An optional position: the value at its offset and a presence byte.\<close>

definition write_optional_position :: "nat \<Rightarrow> nat \<Rightarrow> u64 option \<Rightarrow> u8 list \<Rightarrow> u8 list" where
  "write_optional_position offset presence value header =
     (case value of None \<Rightarrow> header | Some position \<Rightarrow> (write_u64 offset position header)[presence := 1])"

definition build_header_v4 ::
  "persistent_log_id \<Rightarrow> u64 \<Rightarrow> u64 \<Rightarrow> u64 option \<Rightarrow> u64 option \<Rightarrow> u64 \<Rightarrow> u16 \<times> u128 \<Rightarrow> u8 list" where
  "build_header_v4 log_id page_width generation retained_first logical_high_water epoch anchor =
     (let header = replicate header_v4_length 0;
          header = copy_into 0 header_magic header;
          header = write_u16 8 4 header;
          header = write_u16 10 128 header;
          header = write_u32 12 0 header;
          header = write_u128 16 (persistent_log_id_get log_id) header;
          header = write_u64 32 page_width header;
          header = write_u64 40 generation header;
          header = write_optional_position 48 74 retained_first header;
          header = write_optional_position 56 75 logical_high_water header;
          header = write_u64 64 epoch header;
          header = write_u16 72 (fst anchor) header;
          header = write_u128 80 (snd anchor) header
      in write_u64 120 (checksum_v1 (take 120 header)) header)"

definition build_header_v5_initial :: "persistent_log_id \<Rightarrow> u64 \<Rightarrow> file_header_identity \<Rightarrow> u8 list" where
  "build_header_v5_initial log_id page_width identity =
     (let header = replicate header_v5_length 0;
          header = copy_into 0 header_magic header;
          header = write_u16 8 5 header;
          header = write_u16 10 192 header;
          header = write_u128 16 (persistent_log_id_get log_id) header;
          header = write_u64 32 page_width header;
          header = copy_into 128 (encode_database_child_identity identity) header
      in write_u64 184 (checksum_v1 (take 184 header)) header)"

definition build_header_v5_reclaimed ::
  "v4_header_metadata \<Rightarrow> u64 \<Rightarrow> file_header_identity \<Rightarrow> u8 list" where
  "build_header_v5_reclaimed metadata page_width identity =
     (let v4 = build_header_v4 (h4_persistent_id metadata) page_width (h4_generation metadata)
            (h4_retained_first metadata) (h4_logical_high_water metadata)
            (h4_allocated_epoch_high_water metadata) (h4_selected_checkpoint_anchor metadata);
          header = replicate header_v5_length 0;
          header = copy_into 0 (take 120 v4) header;
          header = write_u16 8 5 header;
          header = write_u16 10 192 header;
          header = header[76 := 1];
          header = copy_into 128 (encode_database_child_identity identity) header
      in write_u64 184 (checksum_v1 (take 184 header)) header)"

section \<open>Parsing\<close>

text \<open>An optional position read back: absent only with a zero value, present with any.\<close>

definition read_optional_position ::
  "nat \<Rightarrow> nat \<Rightarrow> (u8 \<Rightarrow> file_format_reason) \<Rightarrow> file_format_reason \<Rightarrow> u8 list
     \<Rightarrow> file_format_error + u64 option" where
  "read_optional_position offset presence bad_presence zero header =
     (let raw = read_u64 header offset; present = header ! presence in
      if present = 0
      then (if raw = 0 then Inr None else Inl (format_error (of_nat offset) HeaderV4Reserved))
      else if present = 1
      then and_then (ensure (raw \<noteq> 0) (format_error (of_nat offset) zero)) (\<lambda>_. Inr (Some raw))
      else Inl (format_error (of_nat presence) (bad_presence present)))"

definition check_retained_bounds :: "u64 option \<Rightarrow> u64 option \<Rightarrow> file_format_error + unit" where
  "check_retained_bounds retained_first logical_high_water =
     (case (retained_first, logical_high_water) of
        (Some _, None) \<Rightarrow> Inl (format_error 48 HeaderV4RetainedFirstWithoutHighWater)
      | (Some r, Some h) \<Rightarrow>
          ensure (\<not> h < r) (format_error 48 (HeaderV4RetainedFirstBeyondHighWater r h))
      | _ \<Rightarrow> Inr ())"

definition parse_header_v4 :: "u8 list \<Rightarrow> page_layout \<Rightarrow> file_format_error + v4_header_metadata" where
  "parse_header_v4 header layout =
     (let version = read_u16 header 8; declared = read_u16 header 10; flags = read_u32 header 12;
          generation = read_u64 header 40; epoch = read_u64 header 64; anchor_version = read_u16 header 72;
          actual = read_u64 header 120; expected = checksum_v1 (take 120 header) in
      and_then (ensure (bytes_at 0 8 header = header_magic) (format_error 0 HeaderMagic)) (\<lambda>_.
      and_then (ensure (version = 4) (format_error 8 (HeaderVersion version))) (\<lambda>_.
      and_then (ensure (declared = 128) (format_error 10 (HeaderV4Length declared))) (\<lambda>_.
      and_then (ensure (flags = 0) (format_error 12 (HeaderFlags flags))) (\<lambda>_.
      and_then (ok_or (persistent_log_id_new (read_u128 header 16)) (format_error 16 LineageIdZero)) (\<lambda>log_id.
      and_then (check_page_width header layout) (\<lambda>_.
      and_then (ensure (generation \<noteq> 0) (format_error 40 HeaderV4GenerationZero)) (\<lambda>_.
      and_then (read_optional_position 48 74 HeaderV4RetainedFirstPresence HeaderV4RetainedFirstZero header)
        (\<lambda>retained_first.
      and_then (read_optional_position 56 75 HeaderV4LogicalHighWaterPresence HeaderV4LogicalHighWaterZero
        header) (\<lambda>logical_high_water.
      and_then (check_retained_bounds retained_first logical_high_water) (\<lambda>_.
      and_then (ensure (epoch \<noteq> 0) (format_error 64 HeaderV4AllocatedEpochHighWaterZero)) (\<lambda>_.
      and_then (ensure (anchor_version \<noteq> 0) (format_error 72 HeaderV4AnchorVersionZero)) (\<lambda>_.
      and_then (ensure (all_zero (bytes_at 76 4 header) \<and> all_zero (bytes_at 96 24 header))
        (format_error 76 HeaderV4Reserved)) (\<lambda>_.
      and_then (ensure (actual = expected) (format_error 120 (HeaderChecksum expected actual))) (\<lambda>_.
      Inr \<lparr>h4_persistent_id = log_id, h4_generation = generation, h4_retained_first = retained_first,
           h4_logical_high_water = logical_high_water, h4_allocated_epoch_high_water = epoch,
           h4_selected_checkpoint_anchor = (anchor_version, read_u128 header 80)\<rparr>)))))))))))))))"

text \<open>
  A reclaimed version-5 header is parsed by rebuilding the version-4 header of its first 120
  bytes, checksum included, and parsing that.
\<close>

definition v4_of_v5 :: "u8 list \<Rightarrow> u8 list" where
  "v4_of_v5 header =
     (let v4 = copy_into 0 (take 120 header) (replicate header_v4_length 0);
          v4 = write_u16 8 4 v4;
          v4 = write_u16 10 128 v4;
          v4 = v4[76 := 0]
      in write_u64 120 (checksum_v1 (take 120 v4)) v4)"

definition parse_header_v5 :: "u8 list \<Rightarrow> page_layout \<Rightarrow> file_format_error + v5_header_metadata" where
  "parse_header_v5 header layout =
     (let version = read_u16 header 8; declared = read_u16 header 10; flags = read_u32 header 12;
          presence = header ! 76; actual = read_u64 header 184; expected = checksum_v1 (take 184 header) in
      and_then (ensure (bytes_at 0 8 header = header_magic) (format_error 0 HeaderMagic)) (\<lambda>_.
      and_then (ensure (version = 5) (format_error 8 (HeaderVersion version))) (\<lambda>_.
      and_then (ensure (declared = 192) (format_error 10 (HeaderV5Length declared))) (\<lambda>_.
      and_then (ensure (flags = 0) (format_error 12 (HeaderFlags flags))) (\<lambda>_.
      and_then (ok_or (persistent_log_id_new (read_u128 header 16)) (format_error 16 LineageIdZero)) (\<lambda>log_id.
      and_then (check_page_width header layout) (\<lambda>_.
      and_then (if presence = 0
          then and_then (ensure (all_zero (bytes_at 40 88 header)) (format_error 40 HeaderV4Reserved))
                 (\<lambda>_. Inr (0, None, None, None, None))
          else if presence = 1
          then and_then (parse_header_v4 (v4_of_v5 header) layout) (\<lambda>m.
            Inr (h4_generation m, h4_retained_first m, h4_logical_high_water m,
                 Some (h4_allocated_epoch_high_water m), Some (h4_selected_checkpoint_anchor m)))
          else Inl (format_error 76 (HeaderV5ReclamationPresence presence)))
        (\<lambda>(generation, retained_first, logical_high_water, epoch, anchor).
      and_then (ensure (all_zero (bytes_at 120 8 header)) (format_error 120 HeaderV4Reserved)) (\<lambda>_.
      and_then (map_err (\<lambda>source. format_error (of_nat (128 + ce_offset source))
          (HeaderDatabaseChildIdentity (ce_reason source)))
        (decode_database_child_identity (bytes_at 128 48 header))) (\<lambda>identity.
      and_then (ensure (all_zero (bytes_at 176 8 header)) (format_error 176 HeaderV4Reserved)) (\<lambda>_.
      and_then (ensure (actual = expected) (format_error 184 (HeaderChecksum expected actual))) (\<lambda>_.
      Inr \<lparr>h5_persistent_id = log_id, h5_generation = generation, h5_retained_first = retained_first,
           h5_logical_high_water = logical_high_water, h5_allocated_epoch_high_water = epoch,
           h5_selected_checkpoint_anchor = anchor, h5_database_file_identity = identity\<rparr>))))))))))))"

end
