(* ===== verification/File_Open.thy ===== *)
theory File_Open
  imports File_Header Transaction
begin

text \<open>
  Reading a file log back (\<open>OpenState\<close> of \<open>ntsql-storage-file/src/lib.rs\<close>): the records, the
  state machine over decoded frames that reassembles multi-frame page records, and its checks.
\<close>

section \<open>Records\<close>

record stored_transaction_identity =
  sti_epoch :: u64
  sti_sequence :: u64

definition stored_identity_of :: "transaction_token_id \<Rightarrow> stored_transaction_identity" where
  "stored_identity_of t = \<lparr>sti_epoch = epoch_get (tt_epoch t), sti_sequence = tt_sequence t\<rparr>"

definition stored_identity_matches :: "stored_transaction_identity \<Rightarrow> transaction_token_id \<Rightarrow> bool" where
  "stored_identity_matches s t = (sti_epoch s = epoch_get (tt_epoch t) \<and> sti_sequence s = tt_sequence t)"

record file_page_record =
  fp_page_number :: page_number
  fp_page_version :: image_version
  fp_bytes :: "u8 list"

record file_transaction_page_record =
  ft_transaction_epoch :: u64
  ft_transaction_sequence :: u64
  ft_page :: file_page_record

datatype file_record_kind =
    FileTransactionCommit u64 u64
  | FilePageWrite file_page_record
  | FileTransactionPageWrite file_transaction_page_record

record file_log_record =
  flr_position :: log_sequence_number
  flr_kind :: file_record_kind

definition record_transaction_identity :: "file_log_record \<Rightarrow> stored_transaction_identity option" where
  "record_transaction_identity r =
     (case flr_kind r of
        FileTransactionCommit epoch sequence \<Rightarrow> Some \<lparr>sti_epoch = epoch, sti_sequence = sequence\<rparr>
      | FilePageWrite _ \<Rightarrow> None
      | FileTransactionPageWrite _ \<Rightarrow> None)"

abbreviation flr_value :: "file_log_record \<Rightarrow> u64" where
  "flr_value r \<equiv> lsn_value (flr_position r)"

section \<open>The pending page record\<close>

datatype pending_ownership = PendingRaw | AwaitingOwner | PendingOwned stored_transaction_identity

record pending_page =
  pp_header_offset :: u64
  pp_position :: u64
  pp_page_number :: page_number
  pp_page_version :: image_version
  pp_ownership :: pending_ownership
  pp_bytes :: "u8 list"
  pp_next_chunk_index :: nat
  pp_expected_chunk_count :: nat

definition pending_page_new ::
  "nat \<Rightarrow> u64 \<Rightarrow> u64 \<Rightarrow> page_number \<Rightarrow> image_version \<Rightarrow> pending_ownership \<Rightarrow> page_layout \<Rightarrow> pending_page" where
  "pending_page_new width header_offset position number version ownership layout =
     \<lparr>pp_header_offset = header_offset, pp_position = position, pp_page_number = number,
      pp_page_version = version, pp_ownership = ownership, pp_bytes = replicate width 0,
      pp_next_chunk_index = 0, pp_expected_chunk_count = pl_chunk_count layout\<rparr>"

definition copy_chunk :: "u8 list \<Rightarrow> page_layout \<Rightarrow> pending_page \<Rightarrow> pending_page" where
  "copy_chunk chunk layout p =
     (let chunk_index = pp_next_chunk_index p;
          logical_len = logical_bytes_for_chunk layout chunk_index in
      p\<lparr>pp_bytes := copy_into (chunk_index * page_chunk_width) (take logical_len chunk) (pp_bytes p),
        pp_next_chunk_index := chunk_index + 1\<rparr>)"

definition requires_zero_padding :: "page_layout \<Rightarrow> pending_page \<Rightarrow> bool" where
  "requires_zero_padding layout p =
     (0 < pp_next_chunk_index p \<and> pp_next_chunk_index p = pp_expected_chunk_count p
       \<and> pl_final_chunk_len layout < page_chunk_width)"

definition pending_is_complete :: "page_layout \<Rightarrow> pending_page \<Rightarrow> bool" where
  "pending_is_complete layout p = (pp_next_chunk_index p = pl_chunk_count layout)"

definition open_error :: "u64 \<Rightarrow> file_format_reason \<Rightarrow> file_open_error + 'a" where
  "open_error offset reason = Inl (OpenFormat (format_error offset reason))"

definition require_format :: "bool \<Rightarrow> u64 \<Rightarrow> file_format_reason \<Rightarrow> file_open_error + unit" where
  "require_format b offset reason = (if b then Inr () else open_error offset reason)"

definition pending_into_record :: "log_lineage \<Rightarrow> pending_page \<Rightarrow> file_open_error + file_log_record" where
  "pending_into_record lineage p =
     (let page = \<lparr>fp_page_number = pp_page_number p, fp_page_version = pp_page_version p,
        fp_bytes = pp_bytes p\<rparr>;
          result = (\<lambda>kind. Inr \<lparr>flr_position = lineage_position lineage (pp_position p), flr_kind = kind\<rparr>) in
      case pp_ownership p of
        PendingRaw \<Rightarrow> result (FilePageWrite page)
      | PendingOwned owner \<Rightarrow> result (FileTransactionPageWrite
          \<lparr>ft_transaction_epoch = sti_epoch owner, ft_transaction_sequence = sti_sequence owner, ft_page = page\<rparr>)
      | AwaitingOwner \<Rightarrow> open_error (pp_header_offset p + 4) TransactionPageOwnerMissing)"

section \<open>The state\<close>

record open_state =
  os_lineage :: log_lineage
  os_page_layout :: "page_layout option"
  os_records :: "file_log_record list"
  os_durable_len :: nat
  os_last_durable_position :: "u64 option"
  os_last_completed_position :: u64
  os_highest_allocated_epoch :: u64
  os_next_epoch :: "u64 option"
  os_next_position :: "u64 option"
  os_pending_page :: "pending_page option"

text \<open>\<open>checked_add(1).and_then(NonZeroU64::new)\<close>.\<close>

definition next_nonzero :: "u64 \<Rightarrow> u64 option" where
  "next_nonzero v = Option.bind (checked_add v 1) non_zero_u64"

definition open_state_new ::
  "log_lineage \<Rightarrow> page_layout option \<Rightarrow> u64 \<Rightarrow> u64 option \<Rightarrow> u64 \<Rightarrow> u64 option \<Rightarrow> open_state" where
  "open_state_new lineage layout highest_epoch next_position last_completed last_durable =
     \<lparr>os_lineage = lineage, os_page_layout = layout, os_records = [], os_durable_len = 0,
      os_last_durable_position = last_durable, os_last_completed_position = last_completed,
      os_highest_allocated_epoch = highest_epoch, os_next_epoch = next_nonzero highest_epoch,
      os_next_position = next_position, os_pending_page = None\<rparr>"

section \<open>Frames outside a page record\<close>

text \<open>Kinds whose payload beyond the first word must be zero.\<close>

definition require_zero_payloads :: "decoded_frame \<Rightarrow> u64 \<Rightarrow> file_open_error + unit" where
  "require_zero_payloads frame offset =
     and_then (require_format (fr_payload1 frame = 0) (offset + 24)
       (UnexpectedNonzeroPayload ''payload1'' (fr_payload1 frame))) (\<lambda>_.
     require_format (fr_payload2 frame = 0) (offset + 32)
       (UnexpectedNonzeroPayload ''payload2'' (fr_payload2 frame)))"

definition apply_epoch_frame :: "decoded_frame \<Rightarrow> u64 \<Rightarrow> open_state \<Rightarrow> file_open_error + open_state" where
  "apply_epoch_frame frame offset s =
     and_then (require_format (fr_payload0 frame \<noteq> 0) (offset + 16) EpochValueZero) (\<lambda>_.
     and_then (require_zero_payloads frame offset) (\<lambda>_.
     case os_next_epoch s of
       None \<Rightarrow> open_error (offset + 16) EpochSpaceExhausted
     | Some expected \<Rightarrow>
         and_then (require_format (fr_payload0 frame = expected) (offset + 16)
           (EpochOutOfSequence expected (fr_payload0 frame))) (\<lambda>_.
         Inr (s\<lparr>os_highest_allocated_epoch := fr_payload0 frame,
                os_next_epoch := next_nonzero (fr_payload0 frame)\<rparr>))))"

definition apply_commit_frame ::
  "(nat \<Rightarrow> bool) \<Rightarrow> decoded_frame \<Rightarrow> u64 \<Rightarrow> open_state \<Rightarrow> file_open_error + open_state" where
  "apply_commit_frame reserve frame offset s =
     and_then (require_format (fr_payload0 frame \<noteq> 0) (offset + 16) CommitPositionZero) (\<lambda>_.
     and_then (require_format (fr_payload1 frame \<noteq> 0) (offset + 24) CommitEpochZero) (\<lambda>_.
     and_then (require_format (fr_payload2 frame \<noteq> 0) (offset + 32) CommitSequenceZero) (\<lambda>_.
     case os_next_position s of
       None \<Rightarrow> open_error (offset + 16) CommitPositionSpaceExhausted
     | Some expected \<Rightarrow>
         and_then (require_format (fr_payload0 frame = expected) (offset + 16)
           (CommitPositionOutOfSequence expected (fr_payload0 frame))) (\<lambda>_.
         and_then (require_format (\<not> os_highest_allocated_epoch s < fr_payload1 frame) (offset + 24)
           (CommitEpochUnallocated (fr_payload1 frame) (os_highest_allocated_epoch s))) (\<lambda>_.
         let transaction = \<lparr>sti_epoch = fr_payload1 frame, sti_sequence = fr_payload2 frame\<rparr> in
         and_then (require_format
             (\<not> list_ex (\<lambda>r. record_transaction_identity r = Some transaction) (os_records s)) (offset + 24)
             (DuplicateTransactionIdentity (fr_payload1 frame) (fr_payload2 frame))) (\<lambda>_.
         and_then (ensure (reserve (length (os_records s))) OpenRecordCapacityExhausted) (\<lambda>_.
         Inr (s\<lparr>os_records := os_records s @
                  [\<lparr>flr_position = lineage_position (os_lineage s) (fr_payload0 frame),
                    flr_kind = FileTransactionCommit (fr_payload1 frame) (fr_payload2 frame)\<rparr>],
                os_last_completed_position := fr_payload0 frame,
                os_next_position := checked_add (fr_payload0 frame) 1\<rparr>))))))))"

text \<open>The number of records up to and including the one with a position.\<close>

definition prefix_len :: "u64 \<Rightarrow> file_log_record list \<Rightarrow> nat option" where
  "prefix_len position rs =
     (let n = length (takeWhile (\<lambda>r. flr_value r \<noteq> position) rs) in
      if n < length rs then Some (n + 1) else None)"

definition apply_marker_frame :: "decoded_frame \<Rightarrow> u64 \<Rightarrow> open_state \<Rightarrow> file_open_error + open_state" where
  "apply_marker_frame frame offset s =
     and_then (require_format (fr_payload0 frame \<noteq> 0) (offset + 16) MarkerPositionZero) (\<lambda>_.
     and_then (require_zero_payloads frame offset) (\<lambda>_.
     let previous = (case os_last_durable_position s of None \<Rightarrow> 0 | Some p \<Rightarrow> p);
         unknown = MarkerReferencesUnknownCommit (fr_payload0 frame) (os_last_completed_position s) in
     and_then (require_format (\<not> fr_payload0 frame \<le> previous) (offset + 16)
       (MarkerDoesNotAdvance previous (fr_payload0 frame))) (\<lambda>_.
     and_then (require_format (\<not> os_last_completed_position s < fr_payload0 frame) (offset + 16) unknown)
       (\<lambda>_.
     case prefix_len (fr_payload0 frame) (os_records s) of
       None \<Rightarrow> open_error (offset + 16) unknown
     | Some durable_len \<Rightarrow> Inr (s\<lparr>os_durable_len := durable_len,
         os_last_durable_position := Some (fr_payload0 frame)\<rparr>)))))"

definition apply_page_header_frame ::
  "nat \<Rightarrow> decoded_frame \<Rightarrow> u64 \<Rightarrow> pending_ownership \<Rightarrow> open_state \<Rightarrow> file_open_error + open_state" where
  "apply_page_header_frame width frame offset ownership s =
     and_then (require_format (fr_payload0 frame \<noteq> 0) (offset + 16) PageHeaderPositionZero) (\<lambda>_.
     case os_next_position s of
       None \<Rightarrow> open_error (offset + 16) PageHeaderPositionSpaceExhausted
     | Some expected \<Rightarrow>
         and_then (require_format (fr_payload0 frame = expected) (offset + 16)
           (PageHeaderPositionOutOfSequence expected (fr_payload0 frame))) (\<lambda>_.
         case page_number_new (fr_payload1 frame) of
           None \<Rightarrow> open_error (offset + 24) PageNumberZero
         | Some number \<Rightarrow>
             (case os_page_layout s of
                None \<Rightarrow> open_error (offset + 24) PageDataWithoutHeader
              | Some layout \<Rightarrow> Inr (s\<lparr>os_pending_page := Some (pending_page_new width offset
                  (fr_payload0 frame) number (ImageVersion (fr_payload2 frame)) ownership layout)\<rparr>))))"

section \<open>Frames inside a page record\<close>

definition apply_pending_owner ::
  "decoded_frame \<Rightarrow> u64 \<Rightarrow> pending_page \<Rightarrow> open_state \<Rightarrow> file_open_error + open_state" where
  "apply_pending_owner frame offset p s =
     and_then (require_format (fr_kind frame = TransactionPageOwner) (offset + 4)
       (TransactionPageOwnerInterruptedByFrameKind (frame_kind_code (fr_kind frame)))) (\<lambda>_.
     and_then (require_format (fr_payload0 frame \<noteq> 0) (offset + 16) TransactionPageOwnerParentPositionZero) (\<lambda>_.
     and_then (require_format (fr_payload0 frame = pp_position p) (offset + 16)
       (TransactionPageOwnerParentMismatch (pp_position p) (fr_payload0 frame))) (\<lambda>_.
     and_then (require_format (fr_payload1 frame \<noteq> 0) (offset + 24) TransactionPageOwnerEpochZero) (\<lambda>_.
     and_then (require_format (\<not> os_highest_allocated_epoch s < fr_payload1 frame) (offset + 24)
       (TransactionPageOwnerEpochUnallocated (fr_payload1 frame) (os_highest_allocated_epoch s))) (\<lambda>_.
     and_then (require_format (fr_payload2 frame \<noteq> 0) (offset + 32) TransactionPageOwnerSequenceZero) (\<lambda>_.
     Inr (s\<lparr>os_pending_page := Some (p\<lparr>pp_ownership :=
       PendingOwned \<lparr>sti_epoch = fr_payload1 frame, sti_sequence = fr_payload2 frame\<rparr>\<rparr>)\<rparr>)))))))"

definition apply_pending_data ::
  "(nat \<Rightarrow> bool) \<Rightarrow> decoded_frame \<Rightarrow> u64 \<Rightarrow> pending_page \<Rightarrow> open_state \<Rightarrow> file_open_error + open_state" where
  "apply_pending_data reserve frame offset p s =
     and_then (require_format (fr_kind frame = PageData) (offset + 4)
       (PageDataInterruptedByFrameKind (frame_kind_code (fr_kind frame)))) (\<lambda>_.
     and_then (require_format (fr_payload0 frame \<noteq> 0) (offset + 16) PageDataParentPositionZero) (\<lambda>_.
     and_then (require_format (fr_payload0 frame = pp_position p) (offset + 16)
       (PageDataParentMismatch (pp_position p) (fr_payload0 frame))) (\<lambda>_.
     let expected = of_nat (pp_next_chunk_index p) in
     and_then (require_format (fr_payload1 frame = expected) (offset + 24)
       (PageDataChunkIndexOutOfSequence expected (fr_payload1 frame))) (\<lambda>_.
     case os_page_layout s of
       None \<Rightarrow> open_error (offset + 32) PageDataWithoutHeader
     | Some layout \<Rightarrow>
         let q = copy_chunk (fr_payload2_bytes frame) layout p;
             logical_len = logical_bytes_for_chunk layout (pp_next_chunk_index q - 1) in
         and_then (require_format
             (requires_zero_padding layout q \<longrightarrow> all_zero (drop logical_len (fr_payload2_bytes frame)))
             (offset + 32) PageDataFinalPaddingNonzero) (\<lambda>_.
         if pending_is_complete layout q
         then and_then (ensure (reserve (length (os_records s))) OpenRecordCapacityExhausted) (\<lambda>_.
              and_then (pending_into_record (os_lineage s) q) (\<lambda>r.
              Inr (s\<lparr>os_pending_page := None, os_last_completed_position := flr_value r,
                     os_next_position := checked_add (flr_value r) 1, os_records := os_records s @ [r]\<rparr>)))
         else Inr (s\<lparr>os_pending_page := Some q\<rparr>))))))"

definition apply_pending_page_frame ::
  "(nat \<Rightarrow> bool) \<Rightarrow> decoded_frame \<Rightarrow> u64 \<Rightarrow> pending_page \<Rightarrow> open_state \<Rightarrow> file_open_error + open_state" where
  "apply_pending_page_frame reserve frame offset p s =
     (case pp_ownership p of
        AwaitingOwner \<Rightarrow> apply_pending_owner frame offset p s
      | PendingRaw \<Rightarrow>
          if fr_kind frame = TransactionPageOwner
          then open_error (offset + 4) TransactionPageOwnerWithoutHeader
          else apply_pending_data reserve frame offset p s
      | PendingOwned _ \<Rightarrow>
          if fr_kind frame = TransactionPageOwner
          then open_error (offset + 4) TransactionPageOwnerDuplicate
          else apply_pending_data reserve frame offset p s)"

definition apply_frame ::
  "(nat \<Rightarrow> bool) \<Rightarrow> nat \<Rightarrow> decoded_frame \<Rightarrow> u64 \<Rightarrow> open_state \<Rightarrow> file_open_error + open_state" where
  "apply_frame reserve width frame offset s =
     (case os_pending_page s of
        Some p \<Rightarrow> apply_pending_page_frame reserve frame offset p s
      | None \<Rightarrow>
          (case fr_kind frame of
             EpochAllocation \<Rightarrow> apply_epoch_frame frame offset s
           | CommitRecord \<Rightarrow> apply_commit_frame reserve frame offset s
           | DurableThrough \<Rightarrow> apply_marker_frame frame offset s
           | PageHeader \<Rightarrow> apply_page_header_frame width frame offset PendingRaw s
           | TransactionPageHeader \<Rightarrow> apply_page_header_frame width frame offset AwaitingOwner s
           | TransactionPageOwner \<Rightarrow> open_error (offset + 4) TransactionPageOwnerWithoutHeader
           | PageData \<Rightarrow> open_error (offset + 4) PageDataWithoutHeader))"

end
