(* ===== verification/File_Log.thy ===== *)
theory File_Log
  imports File_Open
begin

text \<open>
  The file-backed commit log \<open>FileCommitLog\<close> of \<open>ntsql-storage-file/src/lib.rs\<close>: creation,
  opening with the repair of an incomplete tail, appends, flushes and epoch allocation.

  The file is its contents and the length of the prefix known to have reached the disk. The
  operating system is the argument \<open>io\<close>: for a stage and a place (the length of the file, or the
  offset read) it says whether the call fails, and after how many bytes a failing write stops.
  The const generic \<open>N\<close> is the argument \<open>n\<close>.
\<close>

section \<open>Faults and errors\<close>

datatype file_fault_point =
    FileBeforeAppend
  | FileAfterAppend
  | FileBeforeFlush
  | FileAfterFlush
  | FileBeforeReclamationCandidateCleanup
  | FileBeforeReclamationWrite
  | FileDuringReclamationCopy
  | FileBeforeReclamationCandidateSync
  | FileAfterReclamationCandidateSync
  | FileBeforeReclamationRename
  | FileAfterReclamationRename
  | FileDuringReclamationDirectorySync

primrec show_file_fault_point :: "file_fault_point \<Rightarrow> string" where
  "show_file_fault_point FileBeforeAppend = ''before append''"
| "show_file_fault_point FileAfterAppend = ''after append''"
| "show_file_fault_point FileBeforeFlush = ''before flush''"
| "show_file_fault_point FileAfterFlush = ''after flush''"
| "show_file_fault_point FileBeforeReclamationCandidateCleanup = ''before reclamation candidate cleanup''"
| "show_file_fault_point FileBeforeReclamationWrite = ''before reclamation candidate write''"
| "show_file_fault_point FileDuringReclamationCopy = ''during reclamation copy''"
| "show_file_fault_point FileBeforeReclamationCandidateSync = ''before reclamation candidate sync''"
| "show_file_fault_point FileAfterReclamationCandidateSync = ''after reclamation candidate sync''"
| "show_file_fault_point FileBeforeReclamationRename = ''before reclamation candidate rename''"
| "show_file_fault_point FileAfterReclamationRename = ''after reclamation candidate rename''"
| "show_file_fault_point FileDuringReclamationDirectorySync = ''during reclamation directory sync''"

record file_fault_already_armed =
  ff_armed :: file_fault_point
  ff_requested :: file_fault_point

definition show_file_fault_already_armed :: "file_fault_already_armed \<Rightarrow> string" where
  "show_file_fault_already_armed e =
     ''fault '' @ show_file_fault_point (ff_armed e) @ '' is already armed; cannot arm ''
       @ show_file_fault_point (ff_requested e)"

datatype file_log_error =
    FileLogInjectedFault file_fault_point
  | FileLogPageWidth file_page_width_error
  | FilePageSupportUnavailable
  | FileTransactionPageSupportUnavailable
  | FilePageWidthMismatch usize usize
  | FileForeignPageLineage page_number
  | FileLogIo file_io_error
  | FileLogPoisonedWriter
  | FileUnknownFlushPosition log_sequence_number
  | FileForeignFlushPosition log_sequence_number
  | FileRecordCapacityExhausted
  | FilePositionSpaceExhausted

primrec show_file_log_error :: "(io_error \<Rightarrow> string) \<Rightarrow> file_log_error \<Rightarrow> string" where
  "show_file_log_error show_io (FileLogInjectedFault point) =
     ''injected commit-log failure '' @ show_file_fault_point point"
| "show_file_log_error show_io (FileLogPageWidth source) = show_file_page_width_error source"
| "show_file_log_error show_io FilePageSupportUnavailable =
     ''this file commit-log format does not support page records''"
| "show_file_log_error show_io FileTransactionPageSupportUnavailable =
     ''this file commit-log format does not support transaction-owned page records''"
| "show_file_log_error show_io (FilePageWidthMismatch expected actual) =
     ''page width '' @ dec actual @ '' does not match log page width '' @ dec expected"
| "show_file_log_error show_io (FileForeignPageLineage number) =
     ''commit-log page '' @ dec (page_number_get number) @ '' belongs to another lineage''"
| "show_file_log_error show_io (FileLogIo source) = show_file_io_error show_io source"
| "show_file_log_error show_io FileLogPoisonedWriter =
     ''commit-log writer is poisoned; reopen the file before retrying''"
| "show_file_log_error show_io (FileUnknownFlushPosition position) =
     ''commit-log position '' @ dec (lsn_value position) @ '' was not appended''"
| "show_file_log_error show_io (FileForeignFlushPosition position) =
     ''commit-log position '' @ dec (lsn_value position) @ '' belongs to another lineage''"
| "show_file_log_error show_io FileRecordCapacityExhausted =
     ''commit-log record snapshot capacity is exhausted''"
| "show_file_log_error show_io FilePositionSpaceExhausted = ''commit-log position space is exhausted''"

datatype file_epoch_error = FileEpochIo file_io_error | FileEpochPoisonedWriter | FileEpochSpaceExhausted

primrec show_file_epoch_error :: "(io_error \<Rightarrow> string) \<Rightarrow> file_epoch_error \<Rightarrow> string" where
  "show_file_epoch_error show_io (FileEpochIo source) = show_file_io_error show_io source"
| "show_file_epoch_error show_io FileEpochPoisonedWriter =
     ''commit-log writer is poisoned; reopen the file before retrying''"
| "show_file_epoch_error show_io FileEpochSpaceExhausted = ''transaction epoch space is exhausted''"

datatype file_recovery_error =
    FileRecoveryPoisonedWriter
  | FileVolatileCommitRecord transaction_token_id
  | FileDuplicateCommitRecord transaction_token_id

primrec show_file_recovery_error :: "file_recovery_error \<Rightarrow> string" where
  "show_file_recovery_error FileRecoveryPoisonedWriter =
     ''commit-log writer is poisoned; reopen the file before retrying''"
| "show_file_recovery_error (FileVolatileCommitRecord t) =
     ''transaction '' @ show_transaction_token_id t @ '' has a complete unmarked commit record''"
| "show_file_recovery_error (FileDuplicateCommitRecord t) =
     ''transaction '' @ show_transaction_token_id t @ '' has duplicate commit records''"

section \<open>The log and its file\<close>

text \<open>
  Of a path, whether it has a parent and a file name. What the directory has under the name of
  the reclamation candidate: nothing, a link to nothing, another name of the log itself, or a file.
\<close>

record log_path =
  lp_has_parent :: bool
  lp_has_file_name :: bool

datatype reclamation_candidate = CandidateAbsent | CandidateDangling | CandidateAlias | CandidateFile "u8 list"

record file_log =
  fl_contents :: "u8 list"
  fl_synced :: nat
  fl_reclamation_old_file :: "u8 list option"
  fl_path :: log_path
  fl_candidate :: reclamation_candidate
  fl_format :: log_format
  fl_lineage :: log_lineage
  fl_persistent_id :: persistent_log_id
  fl_database_file_identity :: "file_header_identity option"
  fl_generation :: u64
  fl_reclaimed_retained_first :: "log_sequence_number option"
  fl_reclaimed_logical_high_water :: "log_sequence_number option"
  fl_reclaimed_epoch_high_water :: "u64 option"
  fl_selected_checkpoint_anchor :: "(u16 \<times> u128) option"
  fl_records :: "file_log_record list"
  fl_durable_len :: nat
  fl_next_epoch :: "u64 option"
  fl_next_position :: "u64 option"
  fl_armed_fault :: "file_fault_point option"
  fl_poisoned :: bool

type_synonym file_io = "file_io_stage \<Rightarrow> nat \<Rightarrow> (io_error \<times> nat) option"

definition io_failure :: "file_io_stage \<Rightarrow> io_error \<Rightarrow> file_io_error" where
  "io_failure stage source = \<lparr>io_stage = stage, io_source = source\<rparr>"

text \<open>A call that changes no contents.\<close>

definition file_try :: "file_io \<Rightarrow> file_io_stage \<Rightarrow> nat \<Rightarrow> file_io_error + unit" where
  "file_try io stage at =
     (case io stage at of None \<Rightarrow> Inr () | Some (source, _) \<Rightarrow> Inl (io_failure stage source))"

text \<open>\<open>?\<close> after a call on \<open>&mut self\<close>, and its errors converted.\<close>

definition chain :: "('e + 'a) \<times> 's \<Rightarrow> ('a \<Rightarrow> 's \<Rightarrow> ('e + 'b) \<times> 's) \<Rightarrow> ('e + 'b) \<times> 's" where
  "chain r f = (case r of (Inl e, s) \<Rightarrow> (Inl e, s) | (Inr x, s) \<Rightarrow> f x s)"

definition converted :: "('e \<Rightarrow> 'f) \<Rightarrow> ('e + 'a) \<times> 's \<Rightarrow> ('f + 'a) \<times> 's" where
  "converted f r = (map_err f (fst r), snd r)"

lemma chain_simps [simp, result_simps]:
  "chain (Inl e, s) f = (Inl e, s)" "chain (Inr x, s) f = f x s"
  by (simp_all add: chain_def)

lemma converted_simps [simp, result_simps]:
  "converted f (Inl e, s) = (Inl (f e), s)" "converted f (Inr x, s) = (Inr x, s)"
  by (simp_all add: converted_def)

definition write_frame ::
  "file_io \<Rightarrow> u8 list \<Rightarrow> file_io_stage \<Rightarrow> bool \<Rightarrow> file_log \<Rightarrow> (file_io_error + unit) \<times> file_log" where
  "write_frame io frame stage poison_on_error l =
     (case io stage (length (fl_contents l)) of
        None \<Rightarrow> (Inr (), l\<lparr>fl_contents := fl_contents l @ frame\<rparr>)
      | Some (source, written) \<Rightarrow>
          let l1 = l\<lparr>fl_contents := fl_contents l @ take written frame\<rparr> in
          (Inl (io_failure stage source), if poison_on_error then l1\<lparr>fl_poisoned := True\<rparr> else l1))"

definition sync_file ::
  "file_io \<Rightarrow> file_io_stage \<Rightarrow> bool \<Rightarrow> file_log \<Rightarrow> (file_io_error + unit) \<times> file_log" where
  "sync_file io stage poison_on_error l =
     (case io stage (length (fl_contents l)) of
        None \<Rightarrow> (Inr (), l\<lparr>fl_synced := length (fl_contents l)\<rparr>)
      | Some (source, _) \<Rightarrow>
          (Inl (io_failure stage source), if poison_on_error then l\<lparr>fl_poisoned := True\<rparr> else l))"

section \<open>Creating\<close>

definition sync_parent_directory :: "file_io \<Rightarrow> log_path \<Rightarrow> file_create_error + unit" where
  "sync_parent_directory io path =
     and_then (ensure (lp_has_parent path) MissingParentDirectory) (\<lambda>_.
     and_then (map_err CreateIo (file_try io StageOpenParentDirectory 0)) (\<lambda>_.
     map_err CreateIo (file_try io StageSyncParentDirectory 0)))"

definition create_new_internal ::
  "file_io \<Rightarrow> log_path \<Rightarrow> reclamation_candidate \<Rightarrow> persistent_log_id \<Rightarrow> log_format \<Rightarrow> u8 list
     \<Rightarrow> file_header_identity option \<Rightarrow> file_create_error + file_log" where
  "create_new_internal io path entry log_id f header identity =
     and_then (map_err CreateIo (file_try io StageCreateFile 0)) (\<lambda>_.
     and_then (map_err CreateIo (file_try io StageAcquireExclusiveLock 0)) (\<lambda>_.
     and_then (map_err CreateIo (file_try io StageWriteHeader 0)) (\<lambda>_.
     and_then (map_err CreateIo (file_try io StageSyncCreatedFile 0)) (\<lambda>_.
     and_then (sync_parent_directory io path) (\<lambda>_.
     and_then (map_err CreateIo (file_try io StageSeekEnd 0)) (\<lambda>_.
     Inr \<lparr>fl_contents = header, fl_synced = length header, fl_reclamation_old_file = None, fl_path = path,
          fl_candidate = entry, fl_format = f, fl_lineage = Persistent log_id, fl_persistent_id = log_id,
          fl_database_file_identity = identity, fl_generation = 0, fl_reclaimed_retained_first = None,
          fl_reclaimed_logical_high_water = None, fl_reclaimed_epoch_high_water = None,
          fl_selected_checkpoint_anchor = None, fl_records = [], fl_durable_len = 0,
          fl_next_epoch = Some 1, fl_next_position = Some 1, fl_armed_fault = None,
          fl_poisoned = False\<rparr>))))))"

definition file_create_new ::
  "file_io \<Rightarrow> log_path \<Rightarrow> reclamation_candidate \<Rightarrow> persistent_log_id \<Rightarrow> file_create_error + file_log" where
  "file_create_new io path entry log_id =
     create_new_internal io path entry log_id FormatV1 (build_header_v1 log_id) None"

definition file_create_new_page_capable ::
  "file_io \<Rightarrow> usize \<Rightarrow> log_path \<Rightarrow> reclamation_candidate \<Rightarrow> persistent_log_id \<Rightarrow> file_create_error + file_log" where
  "file_create_new_page_capable io n path entry log_id =
     and_then (map_err CreatePageWidth (page_layout_for n)) (\<lambda>layout.
     create_new_internal io path entry log_id FormatV2 (build_header_v2 log_id (pl_width layout)) None)"

definition file_create_new_transaction_page_capable ::
  "file_io \<Rightarrow> usize \<Rightarrow> log_path \<Rightarrow> reclamation_candidate \<Rightarrow> persistent_log_id \<Rightarrow> file_create_error + file_log" where
  "file_create_new_transaction_page_capable io n path entry log_id =
     and_then (map_err CreatePageWidth (page_layout_for n)) (\<lambda>layout.
     create_new_internal io path entry log_id FormatV3 (build_header_v3 log_id (pl_width layout)) None)"

definition file_create_new_database_transaction_page_capable ::
  "file_io \<Rightarrow> usize \<Rightarrow> log_path \<Rightarrow> reclamation_candidate \<Rightarrow> storage_identity \<Rightarrow> file_create_error + file_log" where
  "file_create_new_database_transaction_page_capable io n path entry identity =
     and_then (map_err CreatePageWidth (page_layout_for n)) (\<lambda>layout.
     let file_identity = storage_file_header_identity identity RoleWal;
         log_id = si_persistent_log_id identity in
     create_new_internal io path entry log_id FormatV5
       (build_header_v5_initial log_id (pl_width layout) file_identity) (Some file_identity))"

section \<open>Opening\<close>

text \<open>What opening learns from a header, and where its frames start.\<close>

record opened_header =
  oh_format :: log_format
  oh_persistent_id :: persistent_log_id
  oh_generation :: u64
  oh_retained_first :: "u64 option"
  oh_logical_high_water :: "u64 option"
  oh_epoch_high_water :: "u64 option"
  oh_selected_checkpoint_anchor :: "(u16 \<times> u128) option"
  oh_database_file_identity :: "file_header_identity option"
  oh_length :: nat

definition read_header_v5 :: "file_io \<Rightarrow> header_expectation \<Rightarrow> u8 list \<Rightarrow> file_open_error + opened_header" where
  "read_header_v5 io expectation bytes =
     and_then (require_format (expectation_accepts expectation FormatV5) 8 (HeaderVersion 5)) (\<lambda>_.
     and_then (require_format (header_v5_length \<le> length bytes) 0 (HeaderTooShort (of_nat (length bytes)))) (\<lambda>_.
     and_then (map_err OpenIo (file_try io StageReadHeader header_length)) (\<lambda>_.
     and_then (ok_or (expectation_page_layout expectation) (OpenFormat (format_error 32 HeaderPageWidthZero)))
       (\<lambda>layout.
     and_then (map_err OpenFormat (parse_header_v5 (take header_v5_length bytes) layout)) (\<lambda>m.
     Inr \<lparr>oh_format = FormatV5, oh_persistent_id = h5_persistent_id m, oh_generation = h5_generation m,
          oh_retained_first = h5_retained_first m, oh_logical_high_water = h5_logical_high_water m,
          oh_epoch_high_water = h5_allocated_epoch_high_water m,
          oh_selected_checkpoint_anchor = h5_selected_checkpoint_anchor m,
          oh_database_file_identity = Some (h5_database_file_identity m),
          oh_length = header_v5_length\<rparr>)))))"

definition read_header_v4 :: "file_io \<Rightarrow> header_expectation \<Rightarrow> u8 list \<Rightarrow> file_open_error + opened_header" where
  "read_header_v4 io expectation bytes =
     and_then (require_format (expectation_accepts expectation FormatV4) 8 (HeaderVersion 4)) (\<lambda>_.
     and_then (require_format (header_v4_length \<le> length bytes) 0 (HeaderTooShort (of_nat (length bytes)))) (\<lambda>_.
     and_then (map_err OpenIo (file_try io StageReadHeader header_length)) (\<lambda>_.
     and_then (ok_or (expectation_page_layout expectation) (OpenFormat (format_error 32 HeaderPageWidthZero)))
       (\<lambda>layout.
     and_then (map_err OpenFormat (parse_header_v4 (take header_v4_length bytes) layout)) (\<lambda>m.
     Inr \<lparr>oh_format = FormatV4, oh_persistent_id = h4_persistent_id m, oh_generation = h4_generation m,
          oh_retained_first = h4_retained_first m, oh_logical_high_water = h4_logical_high_water m,
          oh_epoch_high_water = Some (h4_allocated_epoch_high_water m),
          oh_selected_checkpoint_anchor = Some (h4_selected_checkpoint_anchor m),
          oh_database_file_identity = None, oh_length = header_v4_length\<rparr>)))))"

definition read_header_small :: "header_expectation \<Rightarrow> u8 list \<Rightarrow> file_open_error + opened_header" where
  "read_header_small expectation bytes =
     (let header = take header_length bytes in
      and_then (map_err OpenFormat (parse_header header expectation)) (\<lambda>log_id.
      and_then (ok_or (small_format_from_u16 (read_u16 header 8))
        (OpenFormat (format_error 8 (HeaderVersion (read_u16 header 8))))) (\<lambda>f.
      Inr \<lparr>oh_format = f, oh_persistent_id = log_id, oh_generation = 0, oh_retained_first = None,
           oh_logical_high_water = None, oh_epoch_high_water = None, oh_selected_checkpoint_anchor = None,
           oh_database_file_identity = None, oh_length = header_length\<rparr>)))"

definition read_log_header :: "file_io \<Rightarrow> header_expectation \<Rightarrow> u8 list \<Rightarrow> file_open_error + opened_header" where
  "read_log_header io expectation bytes =
     and_then (require_format (header_length \<le> length bytes) 0 (HeaderTooShort (of_nat (length bytes)))) (\<lambda>_.
     and_then (map_err OpenIo (file_try io StageReadHeader 0)) (\<lambda>_.
     let version = read_u16 bytes 8 in
     if version = 5 then read_header_v5 io expectation bytes
     else if version = 4 then read_header_v4 io expectation bytes
     else read_header_small expectation bytes))"

text \<open>The state the frames are applied to: what the header says was reclaimed lies before it.\<close>

definition initial_open_state :: "page_layout option \<Rightarrow> opened_header \<Rightarrow> open_state" where
  "initial_open_state layout h =
     (let retained = oh_retained_first h; high_water = oh_logical_high_water h in
      open_state_new (Persistent (oh_persistent_id h)) layout
        (case oh_epoch_high_water h of None \<Rightarrow> 0 | Some epoch \<Rightarrow> epoch)
        (case retained of
           Some position \<Rightarrow> Some position
         | None \<Rightarrow> (case high_water of Some position \<Rightarrow> checked_add position 1 | None \<Rightarrow> Some 1))
        (case retained of
           Some position \<Rightarrow>
             if 1 \<le> position then position - 1 else (case high_water of Some h \<Rightarrow> h | None \<Rightarrow> 0)
         | None \<Rightarrow> (case high_water of Some h \<Rightarrow> h | None \<Rightarrow> 0))
        (if retained = None then high_water else None))"

text \<open>The loop over the complete frames; what is left is shorter than a frame.\<close>

function scan_frames ::
  "file_io \<Rightarrow> (nat \<Rightarrow> bool) \<Rightarrow> nat \<Rightarrow> log_format \<Rightarrow> nat \<Rightarrow> u8 list \<Rightarrow> open_state \<Rightarrow> file_open_error + open_state"
where
  "scan_frames io reserve width f offset bytes s =
     (if length bytes < frame_length then Inr s
      else and_then (map_err OpenIo (file_try io StageReadFrame offset)) (\<lambda>_.
           and_then (map_err OpenFormat (parse_frame (take frame_length bytes) (of_nat offset) f)) (\<lambda>frame.
           and_then (apply_frame reserve width frame (of_nat offset) s) (\<lambda>s'.
           scan_frames io reserve width f (offset + frame_length) (drop frame_length bytes) s'))))"
  by pat_completeness auto
termination
  by (relation "measure (\<lambda>(_, _, _, _, _, bytes, _). length bytes)") (auto simp: frame_length_def)

declare scan_frames.simps [simp del]

definition reclaimed_format :: "log_format \<Rightarrow> bool" where
  "reclaimed_format f = (f = FormatV4 \<or> f = FormatV5)"

definition check_completed :: "opened_header \<Rightarrow> nat \<Rightarrow> open_state \<Rightarrow> file_open_error + unit" where
  "check_completed h frames_end s =
     require_format
       (\<not> (reclaimed_format (oh_format h)
           \<and> os_last_completed_position s < (case oh_logical_high_water h of None \<Rightarrow> 0 | Some p \<Rightarrow> p)))
       (of_nat frames_end)
       (HeaderV4LogicalHighWaterMismatch (oh_logical_high_water h) (non_zero_u64 (os_last_completed_position s)))"

definition first_durable_value :: "open_state \<Rightarrow> u64 option" where
  "first_durable_value s =
     (case take (os_durable_len s) (os_records s) of [] \<Rightarrow> None | r # _ \<Rightarrow> Some (flr_value r))"

definition check_retained :: "opened_header \<Rightarrow> open_state \<Rightarrow> file_open_error + unit" where
  "check_retained h s =
     (if reclaimed_format (oh_format h)
      then and_then (require_format
               (oh_retained_first h = None \<or> first_durable_value s = oh_retained_first h) 48
               (HeaderV4RetainedFirstMismatch (oh_retained_first h) (first_durable_value s))) (\<lambda>_.
           require_format
             (case oh_logical_high_water h of
                None \<Rightarrow> True
              | Some expected \<Rightarrow>
                  (case os_last_durable_position s of None \<Rightarrow> False | Some actual \<Rightarrow> \<not> actual < expected)) 56
             (HeaderV4LogicalHighWaterMismatch (oh_logical_high_water h) (os_last_durable_position s)))
      else Inr ())"

definition open_parent_directory :: "file_io \<Rightarrow> log_path \<Rightarrow> file_open_error + unit" where
  "open_parent_directory io path =
     and_then (ensure (lp_has_parent path) (OpenIo (io_failure StageOpenParentDirectory
       (CustomIoError ''commit-log path has no parent directory'')))) (\<lambda>_.
     map_err OpenIo (file_try io StageOpenParentDirectory 0))"

definition opened_log :: "log_path \<Rightarrow> reclamation_candidate \<Rightarrow> u8 list \<Rightarrow> opened_header \<Rightarrow> open_state \<Rightarrow> file_log" where
  "opened_log path entry bytes h s =
     (let lineage = Persistent (oh_persistent_id h) in
      \<lparr>fl_contents = bytes, fl_synced = length bytes, fl_reclamation_old_file = None, fl_path = path,
       fl_candidate = entry, fl_format = oh_format h, fl_lineage = lineage,
       fl_persistent_id = oh_persistent_id h, fl_database_file_identity = oh_database_file_identity h,
       fl_generation = oh_generation h,
       fl_reclaimed_retained_first = map_option (lineage_position lineage) (oh_retained_first h),
       fl_reclaimed_logical_high_water = map_option (lineage_position lineage) (oh_logical_high_water h),
       fl_reclaimed_epoch_high_water = oh_epoch_high_water h,
       fl_selected_checkpoint_anchor = oh_selected_checkpoint_anchor h, fl_records = os_records s,
       fl_durable_len = os_durable_len s, fl_next_epoch = os_next_epoch s,
       fl_next_position = os_next_position s, fl_armed_fault = None, fl_poisoned = False\<rparr>)"

text \<open>The inspected log with the length its tail has to be cut to.\<close>

definition inspect_internal ::
  "file_io \<Rightarrow> (nat \<Rightarrow> bool) \<Rightarrow> nat \<Rightarrow> log_path \<Rightarrow> reclamation_candidate \<Rightarrow> header_expectation \<Rightarrow> u8 list
     \<Rightarrow> file_open_error + file_log \<times> u64 option" where
  "inspect_internal io reserve width path entry expectation bytes =
     and_then (map_err OpenIo (file_try io StageOpenFile 0)) (\<lambda>_.
     and_then (map_err OpenIo (file_try io StageAcquireExclusiveLock 0)) (\<lambda>_.
     and_then (map_err OpenIo (file_try io StageSyncOpenedFile 0)) (\<lambda>_.
     and_then (map_err OpenIo (file_try io StageReadMetadata 0)) (\<lambda>_.
     and_then (read_log_header io expectation bytes) (\<lambda>h.
     let region = length bytes - oh_length h;
         frames_end = oh_length h + region div frame_length * frame_length in
     and_then (scan_frames io reserve width (oh_format h) (oh_length h) (drop (oh_length h) bytes)
       (initial_open_state (expectation_page_layout expectation) h)) (\<lambda>s.
     and_then (check_completed h frames_end s) (\<lambda>_.
     let repaired = (case os_pending_page s of
           Some p \<Rightarrow> Some (pp_header_offset p)
         | None \<Rightarrow> if 0 < region mod frame_length then Some (of_nat frames_end) else None) in
     and_then (check_retained h s) (\<lambda>_.
     and_then (open_parent_directory io path) (\<lambda>_.
     Inr (opened_log path entry bytes h s, repaired))))))))))"

definition cleanup_reclamation_candidate :: "file_io \<Rightarrow> file_log \<Rightarrow> file_open_error + file_log" where
  "cleanup_reclamation_candidate io l =
     (if \<not> lp_has_file_name (fl_path l) then Inr l
      else
        let remove = and_then (map_err OpenIo (file_try io StageRemoveReclamationCandidate 0)) (\<lambda>_.
              and_then (map_err OpenIo (file_try io StageSyncReclamationDirectory 0)) (\<lambda>_.
              Inr (l\<lparr>fl_candidate := CandidateAbsent\<rparr>)));
            target = (\<lambda>k. and_then (map_err OpenIo (file_try io StageReadReclamationCandidateMetadata 1)) (\<lambda>_.
              and_then (map_err OpenIo (file_try io StageReadMetadata 1)) (\<lambda>_. k))) in
        and_then (map_err OpenIo (file_try io StageReadReclamationCandidateMetadata 0)) (\<lambda>_.
        case fl_candidate l of
          CandidateAbsent \<Rightarrow> Inr l
        | CandidateDangling \<Rightarrow> remove
        | CandidateAlias \<Rightarrow> target (Inl (OpenIo (io_failure StageReadReclamationCandidateMetadata
            (CustomIoError ''reclamation candidate aliases selected WAL''))))
        | CandidateFile _ \<Rightarrow> target remove))"

definition finish_open :: "file_io \<Rightarrow> file_log \<times> u64 option \<Rightarrow> file_open_error + file_log" where
  "finish_open io locked =
     (let (l, repaired) = locked in
      and_then (case repaired of
          None \<Rightarrow> Inr l
        | Some repaired_len \<Rightarrow>
            and_then (map_err OpenIo (file_try io StageTruncateIncompleteTail 0)) (\<lambda>_.
            and_then (map_err OpenIo (file_try io StageSyncTruncatedTail 0)) (\<lambda>_.
            let contents = take (unat repaired_len) (fl_contents l) in
            Inr (l\<lparr>fl_contents := contents, fl_synced := length contents\<rparr>)))) (\<lambda>l.
      and_then (map_err OpenIo (file_try io StageSeekEnd 0)) (\<lambda>_.
      cleanup_reclamation_candidate io l)))"

definition finish_for_database_create :: "file_io \<Rightarrow> file_log \<times> u64 option \<Rightarrow> file_open_error + file_log" where
  "finish_for_database_create io locked =
     and_then (map_err OpenIo (file_try io StageSeekEnd 0)) (\<lambda>_. Inr (fst locked))"

definition is_exact_initial_database_file :: "file_log \<times> u64 option \<Rightarrow> bool" where
  "is_exact_initial_database_file locked =
     (let (l, repaired) = locked in
      repaired = None \<and> fl_format l = FormatV5 \<and> fl_generation l = 0
      \<and> fl_reclaimed_retained_first l = None \<and> fl_reclaimed_logical_high_water l = None
      \<and> fl_reclaimed_epoch_high_water l = None \<and> fl_selected_checkpoint_anchor l = None
      \<and> fl_records l = [] \<and> fl_durable_len l = 0 \<and> fl_next_epoch l = Some 1
      \<and> fl_next_position l = Some 1)"

definition open_internal ::
  "file_io \<Rightarrow> (nat \<Rightarrow> bool) \<Rightarrow> nat \<Rightarrow> log_path \<Rightarrow> reclamation_candidate \<Rightarrow> header_expectation \<Rightarrow> u8 list
     \<Rightarrow> file_open_error + file_log" where
  "open_internal io reserve width path entry expectation bytes =
     and_then (inspect_internal io reserve width path entry expectation bytes) (finish_open io)"

definition file_open_v1 ::
  "file_io \<Rightarrow> (nat \<Rightarrow> bool) \<Rightarrow> log_path \<Rightarrow> reclamation_candidate \<Rightarrow> u8 list \<Rightarrow> file_open_error + file_log" where
  "file_open_v1 io reserve path entry bytes = open_internal io reserve 0 path entry ExpectV1 bytes"

definition file_open_page_capable ::
  "file_io \<Rightarrow> (nat \<Rightarrow> bool) \<Rightarrow> usize \<Rightarrow> log_path \<Rightarrow> reclamation_candidate \<Rightarrow> u8 list \<Rightarrow> file_open_error + file_log"
where
  "file_open_page_capable io reserve n path entry bytes =
     and_then (map_err OpenPageWidth (page_layout_for n)) (\<lambda>layout.
     open_internal io reserve (unat n) path entry (ExpectV2 layout) bytes)"

definition file_open_transaction_page_capable ::
  "file_io \<Rightarrow> (nat \<Rightarrow> bool) \<Rightarrow> usize \<Rightarrow> log_path \<Rightarrow> reclamation_candidate \<Rightarrow> u8 list \<Rightarrow> file_open_error + file_log"
where
  "file_open_transaction_page_capable io reserve n path entry bytes =
     and_then (map_err OpenPageWidth (page_layout_for n)) (\<lambda>layout.
     open_internal io reserve (unat n) path entry (ExpectV3OrLater layout) bytes)"

definition inspect_transaction_page_capable ::
  "file_io \<Rightarrow> (nat \<Rightarrow> bool) \<Rightarrow> usize \<Rightarrow> log_path \<Rightarrow> reclamation_candidate \<Rightarrow> u8 list
     \<Rightarrow> file_open_error + file_log \<times> u64 option" where
  "inspect_transaction_page_capable io reserve n path entry bytes =
     and_then (map_err OpenPageWidth (page_layout_for n)) (\<lambda>layout.
     inspect_internal io reserve (unat n) path entry (ExpectV3OrLater layout) bytes)"

section \<open>Queries and faults\<close>

definition file_durable_records :: "file_log \<Rightarrow> file_log_record list" where
  "file_durable_records l = take (fl_durable_len l) (fl_records l)"

definition file_durable_position :: "file_log \<Rightarrow> log_sequence_number option" where
  "file_durable_position l =
     (if fl_durable_len l \<noteq> 0 \<and> fl_durable_len l - 1 < length (fl_records l)
      then Some (flr_position (fl_records l ! (fl_durable_len l - 1)))
      else fl_reclaimed_logical_high_water l)"

definition file_arm_fault ::
  "file_fault_point \<Rightarrow> file_log \<Rightarrow> (file_fault_already_armed + unit) \<times> file_log" where
  "file_arm_fault fault l =
     (case fl_armed_fault l of
        Some armed \<Rightarrow> (Inl \<lparr>ff_armed = armed, ff_requested = fault\<rparr>, l)
      | None \<Rightarrow> (Inr (), l\<lparr>fl_armed_fault := Some fault\<rparr>))"

text \<open>\<open>consume_fault\<close> on this log: whether the fault was armed, and the log without it.\<close>

definition file_consume_fault :: "file_fault_point \<Rightarrow> file_log \<Rightarrow> bool \<times> file_log" where
  "file_consume_fault point l =
     (if fl_armed_fault l = Some point then (True, l\<lparr>fl_armed_fault := None\<rparr>) else (False, l))"

text \<open>An armed fault as an error to return at once.\<close>

definition fault_gate :: "file_fault_point \<Rightarrow> 'a \<Rightarrow> file_log \<Rightarrow> (file_log_error + 'a) \<times> file_log" where
  "fault_gate point result l =
     (let (fired, l1) = file_consume_fault point l in
      (if fired then Inl (FileLogInjectedFault point) else Inr result, l1))"

section \<open>Appends\<close>

definition file_push_record :: "u64 \<Rightarrow> file_record_kind \<Rightarrow> file_log \<Rightarrow> file_log" where
  "file_push_record position_value kind l =
     l\<lparr>fl_records := fl_records l @
         [\<lparr>flr_position = lineage_position (fl_lineage l) position_value, flr_kind = kind\<rparr>],
       fl_next_position := checked_add position_value 1\<rparr>"

definition file_append_commit ::
  "file_io \<Rightarrow> (nat \<Rightarrow> bool) \<Rightarrow> transaction_commit_record \<Rightarrow> file_log
     \<Rightarrow> (file_log_error + log_sequence_number) \<times> file_log" where
  "file_append_commit io reserve r l =
     with_result (ensure (\<not> fl_poisoned l) FileLogPoisonedWriter) l (\<lambda>_.
     with_result (ok_or (fl_next_position l) FilePositionSpaceExhausted) l (\<lambda>position_value.
     chain (fault_gate FileBeforeAppend () l) (\<lambda>_ l.
     with_result (ensure (reserve (length (fl_records l))) FileRecordCapacityExhausted) l (\<lambda>_.
     let transaction = stored_identity_of (commit_record_id r);
         frame = build_frame (fl_format l) CommitRecord position_value (sti_epoch transaction)
           (sti_sequence transaction) in
     chain (converted FileLogIo (write_frame io frame StageWriteCommitFrame True l)) (\<lambda>_ l.
     fault_gate FileAfterAppend (lineage_position (fl_lineage l) position_value)
       (file_push_record position_value
         (FileTransactionCommit (sti_epoch transaction) (sti_sequence transaction)) l))))))"

text \<open>The chunk of a page image that a data frame carries, zero-padded.\<close>

definition page_chunk :: "page_layout \<Rightarrow> u8 list \<Rightarrow> nat \<Rightarrow> u8 list" where
  "page_chunk layout bytes chunk_index =
     copy_into 0 (bytes_at (chunk_index * page_chunk_width) (logical_bytes_for_chunk layout chunk_index) bytes)
       (replicate page_chunk_width 0)"

primrec write_page_data ::
  "file_io \<Rightarrow> page_layout \<Rightarrow> u64 \<Rightarrow> u8 list \<Rightarrow> nat list \<Rightarrow> file_log \<Rightarrow> (file_log_error + unit) \<times> file_log"
where
  "write_page_data io layout position_value bytes [] l = (Inr (), l)"
| "write_page_data io layout position_value bytes (chunk_index # rest) l =
     chain (converted FileLogIo (write_frame io
         (build_frame_with_payload2_bytes (fl_format l) PageData position_value (of_nat chunk_index)
           (page_chunk layout bytes chunk_index)) StageWritePageDataFrame True l)) (\<lambda>_ l.
     write_page_data io layout position_value bytes rest l)"

definition write_owner ::
  "file_io \<Rightarrow> u64 \<Rightarrow> stored_transaction_identity option \<Rightarrow> file_log \<Rightarrow> (file_log_error + unit) \<times> file_log"
where
  "write_owner io position_value owner l =
     (case owner of
        None \<Rightarrow> (Inr (), l)
      | Some identity \<Rightarrow> converted FileLogIo (write_frame io
          (build_frame (fl_format l) TransactionPageOwner position_value (sti_epoch identity)
            (sti_sequence identity)) StageWriteTransactionPageOwnerFrame True l))"

definition page_record_kind ::
  "stored_transaction_identity option \<Rightarrow> file_page_record \<Rightarrow> file_record_kind" where
  "page_record_kind owner page =
     (case owner of
        None \<Rightarrow> FilePageWrite page
      | Some identity \<Rightarrow> FileTransactionPageWrite \<lparr>ft_transaction_epoch = sti_epoch identity,
          ft_transaction_sequence = sti_sequence identity, ft_page = page\<rparr>)"

definition append_page_group ::
  "file_io \<Rightarrow> (nat \<Rightarrow> bool) \<Rightarrow> usize \<Rightarrow> unlogged_page \<Rightarrow> stored_transaction_identity option \<Rightarrow> file_log
     \<Rightarrow> (file_log_error + log_sequence_number) \<times> file_log" where
  "append_page_group io reserve n page owner l =
     (let bytes = image_bytes (up_image page); number = pa_number (up_address page) in
      with_result (ensure (\<not> fl_poisoned l) FileLogPoisonedWriter) l (\<lambda>_.
      with_result (ensure (supports_pages (fl_format l)) FilePageSupportUnavailable) l (\<lambda>_.
      with_result (ensure (unat n = length bytes) (FilePageWidthMismatch n (of_nat (length bytes)))) l (\<lambda>_.
      with_result (ensure (same_lineage (fl_lineage l) (pa_lineage (up_address page)))
        (FileForeignPageLineage number)) l (\<lambda>_.
      with_result (map_err FileLogPageWidth (page_layout_for n)) l (\<lambda>layout.
      with_result (ok_or (fl_next_position l) FilePositionSpaceExhausted) l (\<lambda>position_value.
      chain (fault_gate FileBeforeAppend () l) (\<lambda>_ l.
      with_result (ensure (reserve (length (fl_records l))) FileRecordCapacityExhausted) l (\<lambda>_.
      let (header_kind, header_stage) = (case owner of
            Some _ \<Rightarrow> (TransactionPageHeader, StageWriteTransactionPageHeaderFrame)
          | None \<Rightarrow> (PageHeader, StageWritePageHeaderFrame));
          header = build_frame (fl_format l) header_kind position_value (page_number_get number)
            (image_version_get (up_version page)) in
      chain (converted FileLogIo (write_frame io header header_stage True l)) (\<lambda>_ l.
      chain (write_owner io position_value owner l) (\<lambda>_ l.
      chain (write_page_data io layout position_value bytes [0..<pl_chunk_count layout] l) (\<lambda>_ l.
      let stored = copy_into 0 bytes (replicate (unat n) 0);
          record_page = \<lparr>fp_page_number = number, fp_page_version = up_version page, fp_bytes = stored\<rparr> in
      fault_gate FileAfterAppend (lineage_position (fl_lineage l) position_value)
        (file_push_record position_value (page_record_kind owner record_page) l)))))))))))))"

definition file_append_page ::
  "file_io \<Rightarrow> (nat \<Rightarrow> bool) \<Rightarrow> usize \<Rightarrow> unlogged_page \<Rightarrow> file_log
     \<Rightarrow> (file_log_error + log_sequence_number) \<times> file_log" where
  "file_append_page io reserve n page l = append_page_group io reserve n page None l"

definition file_append_transaction_page ::
  "file_io \<Rightarrow> (nat \<Rightarrow> bool) \<Rightarrow> usize \<Rightarrow> transaction_page_write_record \<Rightarrow> file_log
     \<Rightarrow> (file_log_error + log_sequence_number) \<times> file_log" where
  "file_append_transaction_page io reserve n r l =
     with_result (ensure (supports_transaction_pages (fl_format l)) FileTransactionPageSupportUnavailable) l
       (\<lambda>_. append_page_group io reserve n (tw_page r) (Some (stored_identity_of (tw_transaction_id r))) l)"

section \<open>Flush and epochs\<close>

primrec file_record_index :: "log_sequence_number \<Rightarrow> file_log_record list \<Rightarrow> nat option" where
  "file_record_index p [] = None"
| "file_record_index p (r # rs) =
     (if lsn_eq (flr_position r) p then Some 0 else map_option Suc (file_record_index p rs))"

definition file_flush_through ::
  "file_io \<Rightarrow> log_sequence_number \<Rightarrow> file_log \<Rightarrow> (file_log_error + unit) \<times> file_log" where
  "file_flush_through io position l =
     with_result (ensure (\<not> fl_poisoned l) FileLogPoisonedWriter) l (\<lambda>_.
     with_result (ensure (same_lineage (fl_lineage l) (lsn_lineage position))
       (FileForeignFlushPosition position)) l (\<lambda>_.
     with_result (ok_or (file_record_index position (fl_records l)) (FileUnknownFlushPosition position)) l
       (\<lambda>index.
     let requested = index + 1 in
     if requested \<le> fl_durable_len l then (Inr (), l)
     else
       chain (fault_gate FileBeforeFlush () l) (\<lambda>_ l.
       chain (converted FileLogIo (sync_file io StageSyncCommitPrefix False l)) (\<lambda>_ l.
       chain (converted FileLogIo (write_frame io
         (build_frame (fl_format l) DurableThrough (lsn_value position) 0 0) StageWriteDurableMarker True l))
         (\<lambda>_ l.
       chain (converted FileLogIo (sync_file io StageSyncDurableMarker True l)) (\<lambda>_ l.
       fault_gate FileAfterFlush () (l\<lparr>fl_durable_len := requested\<rparr>))))))))"

definition allocate_transaction_epoch_frame ::
  "file_io \<Rightarrow> file_log \<Rightarrow> (file_epoch_error + u64 \<times> log_lineage) \<times> file_log" where
  "allocate_transaction_epoch_frame io l =
     with_result (ensure (\<not> fl_poisoned l) FileEpochPoisonedWriter) l (\<lambda>_.
     with_result (ok_or (fl_next_epoch l) FileEpochSpaceExhausted) l (\<lambda>epoch.
     chain (converted FileEpochIo (write_frame io
       (build_frame (fl_format l) EpochAllocation epoch 0 0) StageWriteEpochFrame True l)) (\<lambda>_ l.
     chain (converted FileEpochIo (sync_file io StageSyncEpochFrame True l)) (\<lambda>_ l.
     (Inr (epoch, fl_lineage l), l\<lparr>fl_next_epoch := next_nonzero epoch\<rparr>)))))"

text \<open>The highest epoch allocated: one below the next (\<open>saturating_sub\<close>), none when that is zero.\<close>

definition file_allocated_epoch_high_water :: "file_log \<Rightarrow> u64 option" where
  "file_allocated_epoch_high_water l =
     (case fl_next_epoch l of
        Some epoch \<Rightarrow> non_zero_u64 (if epoch = 0 then 0 else epoch - 1)
      | None \<Rightarrow> Some (- 1))"

definition restart_epoch_error :: "u64 option \<Rightarrow> file_epoch_error \<Rightarrow> file_epoch_error restart_epoch_allocation_error" where
  "restart_epoch_error persisted source =
     (case source of
        FileEpochSpaceExhausted \<Rightarrow> RestartIdentitySpaceExhausted persisted
      | FileEpochIo _ \<Rightarrow> RestartEpochSource source
      | FileEpochPoisonedWriter \<Rightarrow> RestartEpochSource source)"

definition file_allocate_restart_epoch ::
  "file_io \<Rightarrow> u64 option \<Rightarrow> file_log \<Rightarrow> (file_epoch_error restart_epoch_allocation_error + u64 \<times> log_lineage) \<times> file_log" where
  "file_allocate_restart_epoch io persisted l =
     with_result (ok_or (fl_next_epoch l) (RestartIdentitySpaceExhausted persisted)) l (\<lambda>next_epoch.
     with_result (case persisted of
         None \<Rightarrow> Inr ()
       | Some high_water \<Rightarrow> ensure (\<not> next_epoch \<le> high_water)
           (PersistedEpochHighWaterNotAdvanced high_water next_epoch)) l (\<lambda>_.
     converted (restart_epoch_error persisted) (allocate_transaction_epoch_frame io l)))"

section \<open>Looking up a commit\<close>

definition record_matches_transaction_id :: "file_log_record \<Rightarrow> transaction_token_id \<Rightarrow> bool" where
  "record_matches_transaction_id r t =
     (case record_transaction_identity r of None \<Rightarrow> False | Some s \<Rightarrow> stored_identity_matches s t)"

primrec file_lookup_scan ::
  "transaction_token_id \<Rightarrow> nat \<Rightarrow> nat \<Rightarrow> (log_sequence_number \<times> bool) option \<Rightarrow> file_log_record list
     \<Rightarrow> file_recovery_error + (log_sequence_number \<times> bool) option" where
  "file_lookup_scan t durable_len index matching [] = Inr matching"
| "file_lookup_scan t durable_len index matching (r # rs) =
     (if \<not> record_matches_transaction_id r t then file_lookup_scan t durable_len (Suc index) matching rs
      else if matching \<noteq> None then Inl (FileDuplicateCommitRecord t)
      else file_lookup_scan t durable_len (Suc index) (Some (flr_position r, index < durable_len)) rs)"

definition file_lookup_durable_commit ::
  "transaction_token_id \<Rightarrow> file_log
     \<Rightarrow> (file_recovery_error + log_lineage \<times> durable_commit_lookup) \<times> file_log" where
  "file_lookup_durable_commit t l =
     with_result (ensure (\<not> fl_poisoned l) FileRecoveryPoisonedWriter) l (\<lambda>_.
     with_result (file_lookup_scan t (fl_durable_len l) 0 None (fl_records l)) l (\<lambda>matching.
       (case matching of
          Some (position, True) \<Rightarrow> (Inr (fl_lineage l, LookupFound position), l)
        | Some (_, False) \<Rightarrow> (Inl (FileVolatileCommitRecord t), l)
        | None \<Rightarrow> (Inr (fl_lineage l, LookupAbsent), l))))"

end
