(* ===== verification/File_Frame_Laws.thy ===== *)
theory File_Frame_Laws
  imports File_Log
begin

text \<open>
  A frame and a header of every version parse back to what they were built from, and a frame or a
  small header with one byte changed never parses.
\<close>

section \<open>Frames\<close>

definition frame_kind_supported :: "log_format \<Rightarrow> frame_kind \<Rightarrow> bool" where
  "frame_kind_supported f kind \<longleftrightarrow>
     (kind \<in> {PageHeader, PageData} \<longrightarrow> supports_pages f)
     \<and> (kind \<in> {TransactionPageHeader, TransactionPageOwner} \<longrightarrow> supports_transaction_pages f)"

lemma frame_kind_from_code:
  "frame_kind_supported f kind \<Longrightarrow> frame_kind_from_u16 (frame_kind_code kind) f = Some kind"
  by (cases kind) (auto simp: frame_kind_from_u16_def frame_kind_supported_def)

lemma length_build_frame [simp]:
  "length (build_frame_with_payload2_bytes f kind p0 p1 b) = frame_length"
  "length (build_frame f kind p0 p1 p2) = frame_length"
  by (simp_all add: build_frame_def build_frame_with_payload2_bytes_def write_simps Let_def)

lemma frame_fields:
  fixes f :: log_format and kind :: frame_kind and p0 p1 :: u64
  assumes "length b = 8"
  defines "e \<equiv> build_frame_with_payload2_bytes f kind p0 p1 b"
  shows "bytes_at 0 4 e = frame_magic" and "read_u16 e 4 = frame_kind_code kind"
    and "read_u16 e 6 = frame_version f" and "read_u32 e 8 = 0" and "read_u16 e 12 = 56"
    and "read_u16 e 14 = 0" and "read_u64 e 16 = p0" and "read_u64 e 24 = p1"
    and "bytes_at 32 8 e = b" and "bytes_at 40 8 e = replicate 8 0"
    and "read_u64 e 48 = checksum_v1 (take 48 e)"
  using assms(1)
  by (simp_all add: e_def build_frame_with_payload2_bytes_def write_simps read_simps byte_simps
      frame_length_def frame_magic_def Let_def)

lemma parse_built_frame:
  assumes "length b = 8" and "frame_kind_supported f kind"
  shows "parse_frame (build_frame_with_payload2_bytes f kind p0 p1 b) offset f
    = Inr \<lparr>fr_kind = kind, fr_payload0 = p0, fr_payload1 = p1, fr_payload2 = of_be_bytes b,
           fr_payload2_bytes = b\<rparr>"
proof -
  define e where "e = build_frame_with_payload2_bytes f kind p0 p1 b"
  note fields = frame_fields [OF assms(1), of f kind p0 p1, folded e_def]
  have "read_u64 e 32 = of_be_bytes b" by (simp add: read_u64_def fields)
  with fields show ?thesis
    by (simp add: parse_frame_def Let_def frame_kind_from_code [OF assms(2)] flip: e_def)
qed

lemma parse_build_frame:
  assumes "frame_kind_supported f kind"
  shows "parse_frame (build_frame f kind p0 p1 p2) offset f
    = Inr \<lparr>fr_kind = kind, fr_payload0 = p0, fr_payload1 = p1, fr_payload2 = p2,
           fr_payload2_bytes = be_bytes 8 p2\<rparr>"
  using parse_built_frame [of "be_bytes 8 p2", OF _ assms] by (simp add: build_frame_def)

text \<open>The checksum guards the first 48 bytes, and the checksum field itself the last 8.\<close>

lemma parse_frame_checksum:
  "parse_frame frame offset f = Inr d \<Longrightarrow> read_u64 frame 48 = checksum_v1 (take 48 frame)"
  by (auto simp: parse_frame_def Let_def result_simps)

lemma checksum_guarded:
  assumes "length a = m + 8" and "i < length a" and "b \<noteq> a ! i"
    and "read_u64 a m = checksum_v1 (take m a)"
  shows "read_u64 (a[i := b]) m \<noteq> checksum_v1 (take m (a[i := b]))"
proof (cases "i < m")
  case True
  then have "read_u64 (a[i := b]) m = read_u64 a m" by (simp add: read_u64_def byte_simps)
  moreover have "checksum_v1 (take m (a[i := b])) \<noteq> checksum_v1 (take m a)"
    using True assms checksum_update [of i "take m a" b] by (simp add: take_update_swap)
  ultimately show ?thesis using assms(4) by simp
next
  case False
  then have "take m (a[i := b]) = take m a" by simp
  moreover have "read_u64 (a[i := b]) m \<noteq> read_u64 a m"
  proof
    assume "read_u64 (a[i := b]) m = read_u64 a m"
    then have "bytes_at m 8 (a[i := b]) = bytes_at m 8 a" using assms(1) by (simp add: bytes_at_read)
    then have "a[i := b] ! i = a ! i"
      using False assms(1,2) nth_bytes_at [of "i - m" 8 m a] nth_bytes_at [of "i - m" 8 m "a[i := b]"]
      by simp
    with assms(2,3) show False by simp
  qed
  ultimately show ?thesis using assms(4) by simp
qed

lemma corrupted_frame_rejected:
  assumes "length frame = frame_length" and "parse_frame frame offset f = Inr d"
    and "i < frame_length" and "b \<noteq> frame ! i"
  shows "\<exists>e. parse_frame (frame[i := b]) offset f = Inl e"
proof (cases "parse_frame (frame[i := b]) offset f")
  case (Inr d')
  from parse_frame_checksum [OF this] checksum_guarded [of frame 48 i b] parse_frame_checksum [OF assms(2)]
  show ?thesis using assms by (simp add: frame_length_def)
qed simp

section \<open>Headers\<close>

definition log_id_wf :: "persistent_log_id \<Rightarrow> bool" where
  "log_id_wf p \<longleftrightarrow> persistent_log_id_get p \<noteq> 0"

lemma persistent_log_id_new_get: "log_id_wf p \<Longrightarrow> persistent_log_id_new (persistent_log_id_get p) = Some p"
  by (simp add: persistent_log_id_new_def log_id_wf_def)

lemma length_build_header [simp]: "length (build_header f p w) = 64"
  by (simp add: build_header_def write_simps header_length_def Let_def)

lemma length_build_header_v4 [simp]: "length (build_header_v4 p w g r h e a) = 128"
  by (simp add: build_header_v4_def write_optional_position_def write_simps header_v4_length_def Let_def
      split: option.split)

lemma length_build_header_v5 [simp]:
  "length (build_header_v5_initial p w i) = 192" "length (build_header_v5_reclaimed m w i) = 192"
  by (simp_all add: build_header_v5_initial_def build_header_v5_reclaimed_def write_simps
      header_v5_length_def Let_def)

lemma small_header_fields:
  fixes f :: log_format and p :: persistent_log_id and w :: u64
  defines "e \<equiv> build_header f p w"
  shows "bytes_at 0 8 e = header_magic" and "read_u16 e 8 = format_version f" and "read_u16 e 10 = 64"
    and "read_u32 e 12 = 0" and "read_u128 e 16 = persistent_log_id_get p"
    and "read_u64 e 32 = (if supports_pages f then w else 0)"
    and "\<not> supports_pages f \<Longrightarrow> bytes_at 32 24 e = replicate 24 0"
    and "bytes_at 40 16 e = replicate 16 0"
    and "read_u64 e 56 = checksum_v1 (take 56 e)"
proof -
  have "of_be_bytes (replicate 8 0) = (0 :: u64)" by code_simp
  then show "read_u64 e 32 = (if supports_pages f then w else 0)"
    by (simp add: e_def build_header_def write_simps read_simps byte_simps header_length_def
        header_magic_def Let_def)
qed (simp_all add: e_def build_header_def write_simps read_simps byte_simps header_length_def
      header_magic_def Let_def)

definition layout_wf :: "page_layout \<Rightarrow> bool" where
  "layout_wf layout \<longleftrightarrow> pl_width layout \<noteq> 0"

lemma layout_for_wf: "page_layout_for n = Inr layout \<Longrightarrow> layout_wf layout \<and> pl_width layout = n"
  by (auto simp: page_layout_for_def layout_wf_def split: if_splits option.splits)

lemma parse_small_header:
  assumes "log_id_wf p" and "f = FormatV1 \<or> f = FormatV2 \<or> f = FormatV3" and "expectation_accepts x f"
    and "case expectation_page_layout x of None \<Rightarrow> True | Some layout \<Rightarrow> layout_wf layout \<and> w = pl_width layout"
  shows "parse_header (build_header f p w) x = Inr p"
proof -
  note fields = small_header_fields [of f p w]
  have format: "small_format_from_u16 (format_version f) = Some f"
    using assms(2) by (auto simp: small_format_from_u16_def)
  show ?thesis
  proof (cases x)
    case ExpectV1
    with assms(3) have "f = FormatV1" by simp
    with fields format ExpectV1 show ?thesis
      by (simp add: parse_header_def Let_def persistent_log_id_new_get [OF assms(1)] supports_pages_def)
  next
    case (ExpectV2 layout)
    with assms(3) have "f = FormatV2" by simp
    with fields format ExpectV2 assms(4) show ?thesis
      by (simp add: parse_header_def Let_def persistent_log_id_new_get [OF assms(1)] supports_pages_def
          check_page_width_def layout_wf_def)
  next
    case (ExpectV3OrLater layout)
    with assms(2,3) have "f = FormatV3" by auto
    with fields format ExpectV3OrLater assms(4) show ?thesis
      by (simp add: parse_header_def Let_def persistent_log_id_new_get [OF assms(1)] supports_pages_def
          check_page_width_def layout_wf_def)
  qed
qed

section \<open>Versions 4 and 5\<close>

definition metadata_wf :: "v4_header_metadata \<Rightarrow> bool" where
  "metadata_wf m \<longleftrightarrow> log_id_wf (h4_persistent_id m) \<and> h4_generation m \<noteq> 0
     \<and> h4_retained_first m \<noteq> Some 0 \<and> h4_logical_high_water m \<noteq> Some 0
     \<and> check_retained_bounds (h4_retained_first m) (h4_logical_high_water m) = Inr ()
     \<and> h4_allocated_epoch_high_water m \<noteq> 0 \<and> fst (h4_selected_checkpoint_anchor m) \<noteq> 0"

lemma zero_word_bytes: "of_be_bytes (replicate 8 0) = (0 :: u64)"
  by code_simp

definition option_value :: "u64 option \<Rightarrow> u64" where
  "option_value v = (case v of None \<Rightarrow> 0 | Some x \<Rightarrow> x)"

definition option_flag :: "u64 option \<Rightarrow> u8" where
  "option_flag v = (case v of None \<Rightarrow> 0 | Some _ \<Rightarrow> 1)"

text \<open>The fields both versions share, in any array that agrees with the version-4 one on them.\<close>

definition v4_fields :: "v4_header_metadata \<Rightarrow> u64 \<Rightarrow> u8 list \<Rightarrow> bool" where
  "v4_fields m w e \<longleftrightarrow> bytes_at 0 8 e = header_magic \<and> read_u32 e 12 = 0
     \<and> read_u128 e 16 = persistent_log_id_get (h4_persistent_id m) \<and> read_u64 e 32 = w
     \<and> read_u64 e 40 = h4_generation m \<and> read_u64 e 48 = option_value (h4_retained_first m)
     \<and> e ! 74 = option_flag (h4_retained_first m)
     \<and> read_u64 e 56 = option_value (h4_logical_high_water m)
     \<and> e ! 75 = option_flag (h4_logical_high_water m)
     \<and> read_u64 e 64 = h4_allocated_epoch_high_water m
     \<and> read_u16 e 72 = fst (h4_selected_checkpoint_anchor m)
     \<and> read_u128 e 80 = snd (h4_selected_checkpoint_anchor m)
     \<and> bytes_at 96 24 e = replicate 24 0 \<and> bytes_at 77 3 e = replicate 3 0"

definition built_v4 :: "v4_header_metadata \<Rightarrow> u64 \<Rightarrow> u8 list" where
  "built_v4 m w = build_header_v4 (h4_persistent_id m) w (h4_generation m) (h4_retained_first m)
     (h4_logical_high_water m) (h4_allocated_epoch_high_water m) (h4_selected_checkpoint_anchor m)"

lemmas v4_build_simps = built_v4_def build_header_v4_def write_optional_position_def write_simps read_simps
  byte_simps header_v4_length_def header_magic_def Let_def

lemma built_v4_fields: "v4_fields m w (built_v4 m w)"
  by (cases "h4_retained_first m"; cases "h4_logical_high_water m")
    (simp_all add: v4_fields_def option_value_def option_flag_def v4_build_simps zero_word_bytes)

lemma built_v4_rest:
  shows "length (built_v4 m w) = 128" and "read_u16 (built_v4 m w) 8 = 4"
    and "read_u16 (built_v4 m w) 10 = 128" and "built_v4 m w ! 76 = 0"
    and "read_u64 (built_v4 m w) 120 = checksum_v1 (take 120 (built_v4 m w))"
proof -
  show "length (built_v4 m w) = 128" by (simp add: built_v4_def)
qed (cases "h4_retained_first m"; cases "h4_logical_high_water m"; simp add: v4_build_simps)+

lemma read_optional_position_value:
  assumes "read_u64 e offset = option_value v" and "e ! presence = option_flag v" and "v \<noteq> Some 0"
  shows "read_optional_position offset presence bad zero e = Inr v"
  using assms
  by (cases v) (auto simp: read_optional_position_def option_value_def option_flag_def)

lemma parse_v4_fields:
  assumes "metadata_wf m" and "v4_fields m (pl_width layout) e" and "layout_wf layout"
    and "length e = 128" and "read_u16 e 8 = 4" and "read_u16 e 10 = 128" and "e ! 76 = 0"
    and "read_u64 e 120 = checksum_v1 (take 120 e)"
  shows "parse_header_v4 e layout = Inr m"
proof -
  have "bytes_at 76 4 e = bytes_at 76 1 e @ bytes_at 77 3 e"
    using take_add [of 1 3 "drop 76 e"] by (simp add: bytes_at_def)
  moreover have "bytes_at 76 1 e = [0]"
    using assms(4,7) bytes_at_one [of 76 e] by simp
  ultimately have pad: "all_zero (bytes_at 76 4 e)"
    using assms(2) by (simp add: v4_fields_def all_zero_def list_all_iff)
  show ?thesis
    using assms pad
    by (cases m) (auto simp: parse_header_v4_def Let_def v4_fields_def metadata_wf_def check_page_width_def
        layout_wf_def persistent_log_id_new_get read_optional_position_value ensure_def)
qed

lemma parse_built_v4:
  assumes "metadata_wf m" and "layout_wf layout"
  shows "parse_header_v4 (built_v4 m (pl_width layout)) layout = Inr m"
  by (rule parse_v4_fields [OF assms(1) built_v4_fields assms(2)]) (simp_all add: built_v4_rest)

section \<open>Version 5\<close>

lemma v5_initial_fields:
  fixes p :: persistent_log_id and w :: u64 and i :: file_header_identity
  defines "e \<equiv> build_header_v5_initial p w i"
  shows "bytes_at 0 8 e = header_magic" and "read_u16 e 8 = 5" and "read_u16 e 10 = 192"
    and "read_u32 e 12 = 0" and "read_u128 e 16 = persistent_log_id_get p" and "read_u64 e 32 = w"
    and "bytes_at 40 88 e = replicate 88 0" and "e ! 76 = 0" and "bytes_at 120 8 e = replicate 8 0"
    and "bytes_at 128 48 e = encode_database_child_identity i"
    and "bytes_at 176 8 e = replicate 8 0" and "read_u64 e 184 = checksum_v1 (take 184 e)"
proof -
  have "of_be_bytes (replicate 4 0) = (0 :: u32)" by code_simp
  then show "read_u32 e 12 = 0"
    by (simp add: e_def build_header_v5_initial_def write_simps read_simps byte_simps header_v5_length_def
        header_magic_def Let_def)
qed (simp_all add: e_def build_header_v5_initial_def write_simps read_simps byte_simps header_v5_length_def
      header_magic_def Let_def)

lemma parse_v5_initial:
  assumes "log_id_wf p" and "layout_wf layout" and "header_identity_wf i"
  shows "parse_header_v5 (build_header_v5_initial p (pl_width layout) i) layout
    = Inr \<lparr>h5_persistent_id = p, h5_generation = 0, h5_retained_first = None,
           h5_logical_high_water = None, h5_allocated_epoch_high_water = None,
           h5_selected_checkpoint_anchor = None, h5_database_file_identity = i\<rparr>"
  using assms
  by (simp add: parse_header_v5_def Let_def v5_initial_fields persistent_log_id_new_get
      check_page_width_def layout_wf_def child_identity_decodes)

lemma v5_reclaimed_fields:
  fixes m :: v4_header_metadata and w :: u64 and i :: file_header_identity
  defines "e \<equiv> build_header_v5_reclaimed m w i"
  shows "v4_fields m w e" and "read_u16 e 8 = 5" and "read_u16 e 10 = 192" and "e ! 76 = 1"
    and "bytes_at 120 8 e = replicate 8 0" and "bytes_at 128 48 e = encode_database_child_identity i"
    and "bytes_at 176 8 e = replicate 8 0" and "read_u64 e 184 = checksum_v1 (take 184 e)"
proof -
  have e: "e = (let header = copy_into 0 (take 120 (built_v4 m w)) (replicate header_v5_length 0);
          header = write_u16 8 5 header;
          header = write_u16 10 192 header;
          header = header[76 := 1];
          header = copy_into 128 (encode_database_child_identity i) header
      in write_u64 184 (checksum_v1 (take 184 header)) header)"
    by (simp add: e_def build_header_v5_reclaimed_def built_v4_def Let_def)
  note simps = e Let_def write_simps read_simps byte_simps header_v5_length_def built_v4_rest(1)
  show "read_u16 e 8 = 5" "read_u16 e 10 = 192" "e ! 76 = 1"
    "bytes_at 120 8 e = replicate 8 0" "bytes_at 128 48 e = encode_database_child_identity i"
    "bytes_at 176 8 e = replicate 8 0" "read_u64 e 184 = checksum_v1 (take 184 e)"
    by (simp_all add: simps)
  show "v4_fields m w e"
    using built_v4_fields [of m w] unfolding v4_fields_def by (simp add: simps)
qed

lemma v4_of_v5_reclaimed:
  fixes m :: v4_header_metadata and w :: u64 and i :: file_header_identity
  defines "e \<equiv> v4_of_v5 (build_header_v5_reclaimed m w i)"
  shows "v4_fields m w e" and "length e = 128" and "read_u16 e 8 = 4" and "read_u16 e 10 = 128"
    and "e ! 76 = 0" and "read_u64 e 120 = checksum_v1 (take 120 e)"
proof -
  note simps = e_def v4_of_v5_def Let_def write_simps read_simps byte_simps header_v4_length_def
  show "length e = 128" "read_u16 e 8 = 4" "read_u16 e 10 = 128" "e ! 76 = 0"
    "read_u64 e 120 = checksum_v1 (take 120 e)"
    by (simp_all add: simps)
  show "v4_fields m w e"
    using v5_reclaimed_fields(1) [of m w i] unfolding v4_fields_def by (simp add: simps)
qed

lemma parse_v5_reclaimed:
  assumes "metadata_wf m" and "layout_wf layout" and "header_identity_wf i"
  shows "parse_header_v5 (build_header_v5_reclaimed m (pl_width layout) i) layout
    = Inr \<lparr>h5_persistent_id = h4_persistent_id m, h5_generation = h4_generation m,
           h5_retained_first = h4_retained_first m, h5_logical_high_water = h4_logical_high_water m,
           h5_allocated_epoch_high_water = Some (h4_allocated_epoch_high_water m),
           h5_selected_checkpoint_anchor = Some (h4_selected_checkpoint_anchor m),
           h5_database_file_identity = i\<rparr>"
proof -
  have "parse_header_v4 (v4_of_v5 (build_header_v5_reclaimed m (pl_width layout) i)) layout = Inr m"
    by (rule parse_v4_fields [OF assms(1) v4_of_v5_reclaimed(1) assms(2)]) (simp_all add: v4_of_v5_reclaimed)
  moreover have "log_id_wf (h4_persistent_id m)" using assms(1) by (simp add: metadata_wf_def)
  ultimately show ?thesis
    using v5_reclaimed_fields(1) [of m "pl_width layout" i] assms(2,3)
    by (simp add: parse_header_v5_def Let_def v5_reclaimed_fields(2-) persistent_log_id_new_get v4_fields_def
        check_page_width_def layout_wf_def child_identity_decodes)
qed

end
