(* ===== verification/File_Scan_Laws.thy ===== *)
theory File_Scan_Laws
  imports File_Frame_Laws "HOL-Library.Sublist"
begin

text \<open>
  The scan of the frames of a file, seen as a transition system: what one accepted frame does to
  the state, what every accepted sequence of frames preserves, and how scans of a prefix, of an
  extension and of a file cut at a pending page record relate.
\<close>

section \<open>The effect of one frame\<close>

text \<open>The offset is where the frame starts, the state before and after it.\<close>

inductive frame_effect :: "u64 \<Rightarrow> open_state \<Rightarrow> open_state \<Rightarrow> bool" where
  epoch: "os_pending_page s = None \<Longrightarrow> os_next_epoch s = Some v \<Longrightarrow> v \<noteq> 0
    \<Longrightarrow> frame_effect offset s (s\<lparr>os_highest_allocated_epoch := v, os_next_epoch := next_nonzero v\<rparr>)"
| commit: "os_pending_page s = None \<Longrightarrow> os_next_position s = Some v \<Longrightarrow> v \<noteq> 0
    \<Longrightarrow> flr_position r = lineage_position (os_lineage s) v
    \<Longrightarrow> frame_effect offset s (s\<lparr>os_records := os_records s @ [r], os_last_completed_position := v,
          os_next_position := checked_add v 1\<rparr>)"
| marker: "os_pending_page s = None \<Longrightarrow> prefix_len v (os_records s) = Some d
    \<Longrightarrow> (case os_last_durable_position s of None \<Rightarrow> 0 | Some p \<Rightarrow> p) < v
    \<Longrightarrow> frame_effect offset s (s\<lparr>os_durable_len := d, os_last_durable_position := Some v\<rparr>)"
| page_header: "os_pending_page s = None \<Longrightarrow> os_next_position s = Some (pp_position p)
    \<Longrightarrow> pp_header_offset p = offset \<Longrightarrow> pp_position p \<noteq> 0
    \<Longrightarrow> frame_effect offset s (s\<lparr>os_pending_page := Some p\<rparr>)"
| page_part: "os_pending_page s = Some p \<Longrightarrow> pp_header_offset q = pp_header_offset p
    \<Longrightarrow> pp_position q = pp_position p
    \<Longrightarrow> frame_effect offset s (s\<lparr>os_pending_page := Some q\<rparr>)"
| page_end: "os_pending_page s = Some p \<Longrightarrow> flr_position r = lineage_position (os_lineage s) (pp_position p)
    \<Longrightarrow> frame_effect offset s (s\<lparr>os_pending_page := None, os_last_completed_position := pp_position p,
          os_next_position := checked_add (pp_position p) 1, os_records := os_records s @ [r]\<rparr>)"

lemma require_format_Inr [simp, result_simps]: "require_format b offset reason = Inr u \<longleftrightarrow> b"
  by (simp add: require_format_def open_error_def)

lemma require_format_True [simp]: "require_format True offset reason = Inr ()"
  by (simp add: require_format_def)

lemma open_error_not_Inr [simp, result_simps]: "open_error offset reason \<noteq> Inr x"
  by (simp add: open_error_def)

lemma copy_chunk_keeps [simp]:
  "pp_header_offset (copy_chunk c layout p) = pp_header_offset p"
  "pp_position (copy_chunk c layout p) = pp_position p"
  "pp_ownership (copy_chunk c layout p) = pp_ownership p"
  by (simp_all add: copy_chunk_def Let_def)

lemma pending_into_record_position:
  "pending_into_record lineage p = Inr r \<Longrightarrow> flr_position r = lineage_position lineage (pp_position p)"
  by (auto simp: pending_into_record_def Let_def split: pending_ownership.splits)

lemma apply_pending_data_effect:
  assumes "apply_pending_data reserve frame offset p s = Inr s'" and "os_pending_page s = Some p"
  shows "frame_effect offset s s'"
proof -
  obtain layout where layout: "os_page_layout s = Some layout"
    using assms(1) by (cases "os_page_layout s") (auto simp: apply_pending_data_def Let_def result_simps)
  let ?q = "copy_chunk (fr_payload2_bytes frame) layout p"
  show ?thesis
  proof (cases "pending_is_complete layout ?q")
    case True
    then obtain r where "pending_into_record (os_lineage s) ?q = Inr r"
      and s': "s' = s\<lparr>os_pending_page := None, os_last_completed_position := flr_value r,
        os_next_position := checked_add (flr_value r) 1, os_records := os_records s @ [r]\<rparr>"
      using assms(1) layout by (auto simp: apply_pending_data_def Let_def result_simps)
    then have "flr_position r = lineage_position (os_lineage s) (pp_position p)"
      using pending_into_record_position by fastforce
    with assms(2) show ?thesis by (simp add: s' frame_effect.page_end)
  next
    case False
    with assms layout show ?thesis
      by (auto simp: apply_pending_data_def Let_def result_simps intro: frame_effect.page_part)
  qed
qed

lemma apply_pending_effect:
  assumes "apply_pending_page_frame reserve frame offset p s = Inr s'" and "os_pending_page s = Some p"
  shows "frame_effect offset s s'"
  using assms apply_pending_data_effect [OF _ assms(2)]
  by (auto simp: apply_pending_page_frame_def apply_pending_owner_def result_simps
      intro: frame_effect.page_part split: pending_ownership.splits if_splits)

lemma apply_frame_effect:
  assumes "apply_frame reserve width frame offset s = Inr s'"
  shows "frame_effect offset s s'"
proof (cases "os_pending_page s")
  case (Some p)
  with assms show ?thesis by (intro apply_pending_effect) (simp_all add: apply_frame_def)
next
  case None
  show ?thesis
  proof (cases "fr_kind frame")
    case EpochAllocation
    with assms None show ?thesis
      by (auto simp: apply_frame_def apply_epoch_frame_def result_simps intro: frame_effect.epoch
          split: option.splits)
  next
    case CommitRecord
    with assms None show ?thesis
      by (auto simp: apply_frame_def apply_commit_frame_def result_simps Let_def intro!: frame_effect.commit
          split: option.splits)
  next
    case DurableThrough
    with assms None show ?thesis
      by (auto simp: apply_frame_def apply_marker_frame_def result_simps Let_def word_neq_0_conv intro!: frame_effect.marker
          split: option.splits)
  next
    case PageHeader
    with assms None show ?thesis
      by (auto simp: apply_frame_def apply_page_header_frame_def pending_page_new_def result_simps
          intro!: frame_effect.page_header split: option.splits)
  next
    case TransactionPageHeader
    with assms None show ?thesis
      by (auto simp: apply_frame_def apply_page_header_frame_def pending_page_new_def result_simps
          intro!: frame_effect.page_header split: option.splits)
  qed (use assms None in \<open>simp_all add: apply_frame_def\<close>)
qed

section \<open>What scanning preserves\<close>

definition open_state_wf :: "open_state \<Rightarrow> bool" where
  "open_state_wf s \<longleftrightarrow>
     os_next_position s = checked_add (os_last_completed_position s) 1
     \<and> os_next_epoch s = next_nonzero (os_highest_allocated_epoch s)
     \<and> (\<forall>p. os_pending_page s = Some p \<longrightarrow> os_next_position s = Some (pp_position p))
     \<and> sorted_wrt (<) (map flr_value (os_records s))
     \<and> (\<forall>r \<in> set (os_records s). flr_value r \<le> os_last_completed_position s
          \<and> lsn_lineage (flr_position r) = os_lineage s)
     \<and> os_durable_len s \<le> length (os_records s)
     \<and> (os_durable_len s \<noteq> 0 \<longrightarrow>
          os_last_durable_position s = Some (flr_value (os_records s ! (os_durable_len s - 1))))
     \<and> (\<forall>r \<in> set (os_records s). flr_value r \<noteq> 0)
     \<and> (\<forall>p. os_last_durable_position s = Some p \<longrightarrow> p \<le> os_last_completed_position s)
     \<and> (\<forall>p. os_durable_len s = 0 \<longrightarrow> os_last_durable_position s = Some p \<longrightarrow>
          (\<forall>r \<in> set (os_records s). p < flr_value r))"

text \<open>The order of progress: nothing known is lost.\<close>

definition open_state_le :: "open_state \<Rightarrow> open_state \<Rightarrow> bool" where
  "open_state_le s s' \<longleftrightarrow>
     os_lineage s' = os_lineage s \<and> os_page_layout s' = os_page_layout s
     \<and> prefix (os_records s) (os_records s') \<and> os_durable_len s \<le> os_durable_len s'
     \<and> os_last_completed_position s \<le> os_last_completed_position s'
     \<and> (\<forall>p. os_last_durable_position s = Some p \<longrightarrow>
          (\<exists>q. os_last_durable_position s' = Some q \<and> p \<le> q))"

lemma open_state_le_refl [simp]: "open_state_le s s"
  by (simp add: open_state_le_def)

lemma open_state_le_trans: "open_state_le s t \<Longrightarrow> open_state_le t u \<Longrightarrow> open_state_le s u"
  unfolding open_state_le_def by (auto dest: prefix_order.trans) (metis order_trans)

lemma prefix_len_Some:
  assumes "prefix_len v rs = Some d"
  shows "0 < d" and "d \<le> length rs" and "flr_value (rs ! (d - 1)) = v"
proof -
  let ?n = "length (takeWhile (\<lambda>r. flr_value r \<noteq> v) rs)"
  have d: "?n < length rs" "d = ?n + 1" using assms by (auto simp: prefix_len_def Let_def split: if_splits)
  show "flr_value (rs ! (d - 1)) = v"
    using nth_length_takeWhile [OF d(1)] d(2) by simp
  from d show "0 < d" "d \<le> length rs" by simp_all
qed

lemma sorted_index_le:
  assumes "sorted_wrt (<) (map flr_value rs)" and "i < length rs" and "j < length rs"
    and "flr_value (rs ! i) < flr_value (rs ! j)"
  shows "i < j"
proof (rule ccontr)
  assume "\<not> i < j"
  then have "j = i \<or> j < i" by auto
  then have "flr_value (rs ! j) \<le> flr_value (rs ! i)"
    using sorted_wrt_nth_less [OF assms(1), of j i] assms(2) by auto
  with assms(4) show False by simp
qed

lemma frame_effect_le:
  assumes "frame_effect offset s s'" and "open_state_wf s"
  shows "open_state_le s s'"
  using assms
proof (induction rule: frame_effect.induct)
  case (commit s v r offset)
  then have "checked_add (os_last_completed_position s) 1 = Some v" by (simp add: open_state_wf_def)
  from checked_add_one_less(1) [OF this] show ?case by (simp add: open_state_le_def)
next
  case (marker s v d offset)
  note d = prefix_len_Some [OF marker(2)]
  have "os_durable_len s \<le> d"
  proof (cases "os_durable_len s = 0")
    case False
    with marker(3,4) have "flr_value (os_records s ! (os_durable_len s - 1)) < flr_value (os_records s ! (d - 1))"
      by (simp add: open_state_wf_def d(3) [unfolded One_nat_def])
    then have "os_durable_len s - 1 < d - 1"
      by (rule sorted_index_le [rotated 3]) (use marker(4) d False in \<open>auto simp: open_state_wf_def\<close>)
    then show ?thesis by simp
  qed simp
  with marker(3) show ?case by (auto simp: open_state_le_def)
next
  case (page_end s p r offset)
  then have "checked_add (os_last_completed_position s) 1 = Some (pp_position p)"
    by (auto simp: open_state_wf_def)
  from checked_add_one_less(1) [OF this] show ?case by (simp add: open_state_le_def)
qed (simp_all add: open_state_le_def)

lemma push_record_wf:
  assumes "open_state_wf s" and "os_next_position s = Some v"
    and "flr_position r = lineage_position (os_lineage s) v"
  shows "open_state_wf (s\<lparr>os_pending_page := None, os_last_completed_position := v,
    os_next_position := checked_add v 1, os_records := os_records s @ [r]\<rparr>)"
proof -
  have "checked_add (os_last_completed_position s) 1 = Some v"
    using assms by (simp add: open_state_wf_def)
  then have v: "os_last_completed_position s < v" "v \<noteq> 0" by (rule checked_add_one_less)+
  then have "\<forall>q \<in> set (os_records s). flr_value q < v"
    and "\<forall>p. os_last_durable_position s = Some p \<longrightarrow> p < v"
    using assms(1) by (auto simp: open_state_wf_def)
  with v(2) assms show ?thesis by (auto simp: open_state_wf_def sorted_wrt_append nth_append)
qed

lemma frame_effect_wf:
  assumes "frame_effect offset s s'" and "open_state_wf s"
  shows "open_state_wf s'"
  using assms
proof (induction rule: frame_effect.induct)
  case (commit s v r offset)
  then show ?case using push_record_wf [OF commit(5,2,4)] by (cases s) simp
next
  case (marker s v d offset)
  with prefix_len_Some [OF marker(2)] show ?case by (auto simp: open_state_wf_def)
next
  case (page_end s p r offset)
  then have "os_next_position s = Some (pp_position p)" unfolding open_state_wf_def by blast
  from push_record_wf [OF page_end(3) this page_end(2)] show ?case by simp
qed (auto simp: open_state_wf_def)

section \<open>Scans\<close>

text \<open>The scan when every call of the operating system and of the allocator succeeds.\<close>

definition working_io :: file_io where
  "working_io stage at = None"

lemma file_try_working [simp]: "file_try working_io stage at = Inr ()"
  by (simp add: file_try_def working_io_def)

definition scan_step :: "nat \<Rightarrow> log_format \<Rightarrow> nat \<Rightarrow> u8 list \<Rightarrow> open_state \<Rightarrow> file_open_error + open_state" where
  "scan_step width f offset frame s =
     and_then (map_err OpenFormat (parse_frame frame (of_nat offset) f)) (\<lambda>d.
     apply_frame (\<lambda>_. True) width d (of_nat offset) s)"

abbreviation scan :: "nat \<Rightarrow> log_format \<Rightarrow> nat \<Rightarrow> u8 list \<Rightarrow> open_state \<Rightarrow> file_open_error + open_state" where
  "scan \<equiv> scan_frames working_io (\<lambda>_. True)"

lemma scan_short: "length bytes < frame_length \<Longrightarrow> scan width f offset bytes s = Inr s"
  by (simp add: scan_frames.simps)

lemma scan_long:
  "frame_length \<le> length bytes \<Longrightarrow> scan width f offset bytes s =
     and_then (scan_step width f offset (take frame_length bytes) s)
       (scan width f (offset + frame_length) (drop frame_length bytes))"
  by (subst scan_frames.simps) (auto simp: scan_step_def and_then_def split: sum.splits)

lemma scan_Nil [simp]: "scan width f offset [] s = Inr s"
  by (rule scan_short) (simp add: frame_length_def)

lemma scan_append:
  assumes "length a = k * frame_length"
  shows "scan width f offset (a @ b) s =
    and_then (scan width f offset a s) (scan width f (offset + length a) b)"
  using assms
proof (induction k arbitrary: a offset s)
  case (Suc k)
  let ?n = frame_length
  have len: "?n \<le> length a" "length (drop ?n a) = k * ?n" using Suc.prems by simp_all
  have off: "offset + ?n + length (drop ?n a) = offset + length a" using len(1) by simp
  show ?case
  proof (cases "scan_step width f offset (take ?n a) s")
    case (Inr s')
    then show ?thesis
      using Suc.IH [OF len(2), of "offset + ?n" s'] len(1) off by (simp add: scan_long)
  qed (use len(1) in \<open>simp add: scan_long\<close>)
qed (simp add: scan_short)

lemma scan_one: "length frame = frame_length \<Longrightarrow> scan width f offset frame s = scan_step width f offset frame s"
  by (subst scan_long) (simp_all add: and_then_def split: sum.split)

lemma scan_snoc:
  assumes "length a = k * frame_length" and "length frame = frame_length"
  shows "scan width f offset (a @ frame) s =
    and_then (scan width f offset a s) (scan_step width f (offset + length a) frame)"
proof -
  have "scan width f (offset + length a) frame = scan_step width f (offset + length a) frame"
    by (rule ext) (rule scan_one [OF assms(2)])
  then show ?thesis by (simp only: scan_append [OF assms(1)])
qed

text \<open>An incomplete frame at the end is not looked at.\<close>

lemma scan_complete_frames:
  "scan width f offset bytes s =
     scan width f offset (take (length bytes div frame_length * frame_length) bytes) s"
proof -
  let ?m = "length bytes div frame_length * frame_length"
  have "scan width f offset (take ?m bytes @ drop ?m bytes) s =
      and_then (scan width f offset (take ?m bytes) s) (scan width f (offset + ?m) (drop ?m bytes))"
    by (subst scan_append [where k = "length bytes div frame_length"]) (simp_all add: min_absorb2)
  moreover have "length (drop ?m bytes) < frame_length"
    by (simp add: minus_div_mult_eq_mod frame_length_def)
  ultimately show ?thesis
    by (simp add: scan_short and_then_def split: sum.splits)
qed

text \<open>What holds before the first frame and is kept by every frame holds after the last.\<close>

lemma scan_induct [consumes 1, case_names start step]:
  assumes "scan width f offset bytes s0 = Inr s"
    and "P 0 s0"
    and "\<And>n s s'. P n s \<Longrightarrow> n < length bytes div frame_length
      \<Longrightarrow> scan width f offset (take (n * frame_length) bytes) s0 = Inr s
      \<Longrightarrow> frame_effect (of_nat (offset + n * frame_length)) s s' \<Longrightarrow> P (Suc n) s'"
  shows "P (length bytes div frame_length) s"
proof -
  have "\<exists>s1. scan width f offset (take (n * frame_length) bytes) s0 = Inr s1 \<and> P n s1"
    if "n \<le> length bytes div frame_length"
      and "scan width f offset (take (n * frame_length) bytes) s0 = Inr s1" for n s1
    using that
  proof (induction n arbitrary: s1)
    case (Suc n)
    let ?a = "take (n * frame_length) bytes" and ?frame = "bytes_at (n * frame_length) frame_length bytes"
    have n: "Suc n * frame_length \<le> length bytes"
      using Suc.prems(1) by (metis div_times_less_eq_dividend mult_le_mono1 order_trans)
    then have len: "length ?a = n * frame_length" "length ?frame = frame_length" by simp_all
    have "take (Suc n * frame_length) bytes = ?a @ ?frame"
      using take_add [of "n * frame_length" frame_length bytes] by (simp add: bytes_at_def add.commute)
    with Suc.prems(2) scan_snoc [OF len] obtain s where s: "scan width f offset ?a s0 = Inr s"
      and "scan_step width f (offset + length ?a) ?frame s = Inr s1"
      by (auto simp: and_then_Inr_iff)
    then have "frame_effect (of_nat (offset + n * frame_length)) s s1"
      unfolding len by (auto simp: scan_step_def and_then_Inr_iff intro: apply_frame_effect)
    moreover have "P n s" using Suc.IH [OF _ s] Suc.prems(1) s by auto
    ultimately show ?case using assms(3) [OF _ _ s] Suc.prems by auto
  qed (use assms(2) in simp)
  then show ?thesis using assms(1) scan_complete_frames [of width f offset bytes s0] by fastforce
qed

lemma scan_wf:
  assumes "scan width f offset bytes s0 = Inr s" and "open_state_wf s0"
  shows "open_state_wf s"
  using assms(1)
  by (induction rule: scan_induct [where P = "\<lambda>_. open_state_wf"]) (use assms(2) frame_effect_wf in blast)+

lemma scan_le:
  assumes "scan width f offset bytes s0 = Inr s" and "open_state_wf s0"
  shows "open_state_le s0 s"
proof -
  have "open_state_wf s \<and> open_state_le s0 s"
    using assms(1)
    by (induction rule: scan_induct [where P = "\<lambda>_ s. open_state_wf s \<and> open_state_le s0 s"])
      (use assms(2) open_state_le_refl in blast,
        meson frame_effect_wf frame_effect_le open_state_le_trans)
  then show ?thesis ..
qed

text \<open>A prefix of what scans scans to an earlier state.\<close>

lemma scan_prefix:
  assumes "scan width f offset bytes s0 = Inr s" and "open_state_wf s0"
  obtains s1 where "scan width f offset (take k bytes) s0 = Inr s1" and "open_state_le s1 s"
    and "open_state_wf s1"
proof -
  let ?m = "length (take k bytes) div frame_length * frame_length"
  have m: "?m \<le> length (take k bytes)" by (rule div_times_less_eq_dividend)
  then have "?m \<le> k" by simp
  then have split: "bytes = take ?m bytes @ drop ?m bytes" "take ?m (take k bytes) = take ?m bytes"
    by (simp_all only: take_take append_take_drop_id min_absorb1)
  have "length (take ?m bytes) = length (take k bytes) div frame_length * frame_length"
    using m by (simp add: min_absorb2)
  from scan_append [OF this, of width f offset "drop ?m bytes" s0]
  have "and_then (scan width f offset (take ?m bytes) s0)
      (scan width f (offset + length (take ?m bytes)) (drop ?m bytes)) = Inr s"
    using assms(1) by (simp only: append_take_drop_id)
  then obtain s1 where s1: "scan width f offset (take ?m bytes) s0 = Inr s1"
    and rest: "scan width f (offset + length (take ?m bytes)) (drop ?m bytes) s1 = Inr s"
    unfolding and_then_Inr_iff by blast
  have "open_state_wf s1" by (rule scan_wf [OF s1 assms(2)])
  moreover from this have "open_state_le s1 s" by (rule scan_le [OF rest])
  moreover have "scan width f offset (take k bytes) s0 = Inr s1"
    using s1 split(2) scan_complete_frames [of width f offset "take k bytes" s0] by simp
  ultimately show thesis by (blast intro: that)
qed

section \<open>Cutting a pending page record\<close>

text \<open>
  A pending page record remembers where its header frame starts; the frames before that
  scan to the same state without it.
\<close>

lemma pending_cut:
  assumes "scan width f offset bytes s0 = Inr s" and "os_pending_page s0 = None"
    and "os_pending_page s = Some p"
  obtains n where "n < length bytes div frame_length"
    and "pp_header_offset p = of_nat (offset + n * frame_length)"
    and "scan width f offset (take (n * frame_length) bytes) s0 = Inr (s\<lparr>os_pending_page := None\<rparr>)"
proof -
  let ?at = "\<lambda>n. scan width f offset (take (n * frame_length) bytes) s0"
  define P where "P = (\<lambda>m s. \<forall>p. os_pending_page s = Some p \<longrightarrow>
    (\<exists>n < m. pp_header_offset p = of_nat (offset + n * frame_length)
      \<and> ?at n = Inr (s\<lparr>os_pending_page := None\<rparr>)))"
  have "P (length bytes div frame_length) s"
    using assms(1)
  proof (induction rule: scan_induct)
    case start
    with assms(2) show ?case by (simp add: P_def)
  next
    case (step n s s')
    have none: "os_pending_page s = None \<Longrightarrow> s\<lparr>os_pending_page := None\<rparr> = s" by (cases s) simp
    from step(4) show ?case
    proof (cases rule: frame_effect.cases)
      case (page_header p)
      with none step(3) show ?thesis by (auto simp: P_def)
    next
      case (page_part p q)
      with step(1) obtain k where "k < n" "pp_header_offset p = of_nat (offset + k * frame_length)"
        "?at k = Inr (s\<lparr>os_pending_page := None\<rparr>)" by (auto simp: P_def)
      with page_part show ?thesis by (auto simp: P_def intro!: exI [of _ k])
    qed (simp_all add: P_def)
  qed
  with assms(3) that show thesis by (auto simp: P_def)
qed

end
