(* ===== verification/File_Write_Laws.thy ===== *)
theory File_Write_Laws
  imports File_Scan_Laws File_Log
begin

text \<open>
  What scanning makes of the frames the log writes: each frame or group of frames takes the state
  to the one the writer keeps in memory. Then the interface of writers of bytes, whose calls append
  bytes or fail after a part of them and poison the writer: the log and the page store are two.
\<close>

section \<open>Single frames\<close>

lemma scan_step_build:
  assumes "frame_kind_supported f kind"
  shows "scan_step width f offset (build_frame f kind p0 p1 p2) s
    = apply_frame (\<lambda>_. True) width \<lparr>fr_kind = kind, fr_payload0 = p0, fr_payload1 = p1, fr_payload2 = p2,
        fr_payload2_bytes = be_bytes 8 p2\<rparr> (of_nat offset) s"
  by (simp add: scan_step_def parse_build_frame [OF assms])

lemma next_nonzero_Some: "next_nonzero v = Some e \<Longrightarrow> e \<noteq> 0 \<and> e = v + 1 \<and> v < e"
  using checked_add_one_less [of v]
  by (auto simp: next_nonzero_def non_zero_u64_def split: if_splits Option.bind_splits)

lemma step_epoch:
  assumes "os_pending_page s = None" and "open_state_wf s" and "os_next_epoch s = Some v"
  shows "scan_step width f offset (build_frame f EpochAllocation v 0 0) s
    = Inr (s\<lparr>os_highest_allocated_epoch := v, os_next_epoch := next_nonzero v\<rparr>)"
proof -
  have "next_nonzero (os_highest_allocated_epoch s) = Some v"
    using assms(2,3) by (simp add: open_state_wf_def)
  then have "v \<noteq> 0" by (auto dest: next_nonzero_Some)
  with assms show ?thesis
    by (simp add: scan_step_build frame_kind_supported_def apply_frame_def apply_epoch_frame_def
        require_format_def require_zero_payloads_def)
qed

text \<open>What the log leaves to its caller: the identity was issued under an epoch allocated here.\<close>

definition identity_issued :: "u64 option \<Rightarrow> stored_transaction_identity \<Rightarrow> bool" where
  "identity_issued next_epoch t \<longleftrightarrow> sti_epoch t \<noteq> 0 \<and> sti_sequence t \<noteq> 0
     \<and> (case next_epoch of None \<Rightarrow> True | Some e \<Rightarrow> sti_epoch t < e)"

definition commit_fresh :: "stored_transaction_identity \<Rightarrow> file_log_record list \<Rightarrow> bool" where
  "commit_fresh t rs \<longleftrightarrow> \<not> list_ex (\<lambda>r. record_transaction_identity r = Some t) rs"

lemma issued_le_highest:
  assumes "open_state_wf s" and "identity_issued (os_next_epoch s) t"
  shows "\<not> os_highest_allocated_epoch s < sti_epoch t"
proof (cases "checked_add (os_highest_allocated_epoch s) 1")
  case None
  moreover have "unat (sti_epoch t) < 2 ^ LENGTH(64)" by (rule unsigned_less)
  ultimately show ?thesis
    by (simp add: checked_add_None_iff not_less word_le_nat_alt)
next
  case (Some e)
  then have "e \<noteq> 0" and e: "unat e = unat (os_highest_allocated_epoch s) + 1"
    using checked_add_one_less(3) checked_add_Some_unat by fastforce+
  with Some have "os_next_epoch s = Some e"
    using assms(1) by (simp add: open_state_wf_def next_nonzero_def non_zero_u64_def)
  with assms(2) e show ?thesis
    by (auto simp: identity_issued_def not_less word_le_nat_alt word_less_nat_alt)
qed

lemma step_commit:
  assumes "os_pending_page s = None" and "open_state_wf s" and "os_next_position s = Some v"
    and "identity_issued (os_next_epoch s) t" and "commit_fresh t (os_records s)"
  shows "scan_step width f offset (build_frame f CommitRecord v (sti_epoch t) (sti_sequence t)) s
    = Inr (s\<lparr>os_records := os_records s @ [\<lparr>flr_position = lineage_position (os_lineage s) v,
                 flr_kind = FileTransactionCommit (sti_epoch t) (sti_sequence t)\<rparr>],
             os_last_completed_position := v, os_next_position := checked_add v 1\<rparr>)"
proof -
  have "checked_add (os_last_completed_position s) 1 = Some v"
    using assms(2,3) by (simp add: open_state_wf_def)
  then have "v \<noteq> 0" by (rule checked_add_one_less)
  moreover have "\<not> os_highest_allocated_epoch s < sti_epoch t" by (rule issued_le_highest [OF assms(2,4)])
  moreover obtain e q where "t = \<lparr>sti_epoch = e, sti_sequence = q\<rparr>" by (cases t)
  ultimately show ?thesis
    using assms
    by (simp add: scan_step_build frame_kind_supported_def apply_frame_def apply_commit_frame_def
        require_format_def identity_issued_def commit_fresh_def Let_def)
qed

lemma prefix_len_sorted:
  assumes "sorted_wrt (<) (map flr_value rs)" and "i < length rs"
  shows "prefix_len (flr_value (rs ! i)) rs = Some (i + 1)"
proof -
  have "takeWhile (\<lambda>r. flr_value r \<noteq> flr_value (rs ! i)) rs = take i rs"
  proof (rule takeWhile_eq_take_P_nth)
    show "flr_value (rs ! j) \<noteq> flr_value (rs ! i)" if "j < i" "j < length rs" for j
      using sorted_wrt_nth_less [OF assms(1), of j i] that assms(2) by auto
  qed simp
  with assms(2) show ?thesis by (simp add: prefix_len_def)
qed

text \<open>A marker may name any record after the durable ones.\<close>

lemma step_marker:
  assumes "os_pending_page s = None" and "open_state_wf s"
    and "i < length (os_records s)" and "os_durable_len s \<le> i"
  shows "scan_step width f offset (build_frame f DurableThrough (flr_value (os_records s ! i)) 0 0) s
    = Inr (s\<lparr>os_durable_len := i + 1, os_last_durable_position := Some (flr_value (os_records s ! i))\<rparr>)"
proof -
  let ?v = "flr_value (os_records s ! i)"
  have sorted: "sorted_wrt (<) (map flr_value (os_records s))" and "?v \<le> os_last_completed_position s"
    using assms(2,3) by (auto simp: open_state_wf_def)
  moreover have nonzero: "?v \<noteq> 0" using assms(2,3) by (simp add: open_state_wf_def)
  moreover have "(case os_last_durable_position s of None \<Rightarrow> 0 | Some p \<Rightarrow> p) < ?v"
  proof (cases "os_durable_len s = 0")
    case True
    with assms(2,3) nonzero show ?thesis
      by (auto simp: open_state_wf_def word_neq_0_conv split: option.split)
  next
    case False
    with assms(2) have "os_last_durable_position s = Some (flr_value (os_records s ! (os_durable_len s - 1)))"
      by (simp add: open_state_wf_def)
    moreover have "flr_value (os_records s ! (os_durable_len s - 1)) < ?v"
      using sorted_wrt_nth_less [OF sorted, of "os_durable_len s - 1" i] assms(3,4) False by simp
    ultimately show ?thesis by simp
  qed
  ultimately show ?thesis
    using assms(1,3) prefix_len_sorted [OF sorted assms(3)]
    by (simp add: scan_step_build frame_kind_supported_def apply_frame_def apply_marker_frame_def
        require_format_def require_zero_payloads_def Let_def not_less not_le)
qed

section \<open>Page records\<close>

definition layout_covers :: "page_layout \<Rightarrow> nat \<Rightarrow> bool" where
  "layout_covers layout width \<longleftrightarrow> 0 < pl_chunk_count layout
     \<and> width = (pl_chunk_count layout - 1) * page_chunk_width + pl_final_chunk_len layout
     \<and> 0 < pl_final_chunk_len layout \<and> pl_final_chunk_len layout \<le> page_chunk_width"

lemma layout_for_covers:
  assumes "page_layout_for n = Inr layout"
  shows "layout_covers layout (unat n)"
proof -
  obtain padded where padded: "checked_add n 7 = Some padded" and n: "n \<noteq> 0"
    and layout: "layout = \<lparr>pl_width = n, pl_chunk_count = unat padded div page_chunk_width,
        pl_final_chunk_len = (if unat n mod page_chunk_width = 0 then page_chunk_width
          else unat n mod page_chunk_width)\<rparr>"
    using assms by (auto simp: page_layout_for_def split: if_splits option.splits)
  have unats: "unat padded = unat n + 7" "0 < unat n"
    using checked_add_Some_unat [OF padded] n by (simp_all add: unat_gt_0)
  show ?thesis
  proof (cases "unat n mod 8 = 0")
    case True
    define q where "q = unat n div 8"
    with True have n8: "unat n = 8 * q" using mult_div_mod_eq [of 8 "unat n"] by linarith
    moreover have "(8 * q + 7) div 8 = q" by simp
    ultimately show ?thesis
      using unats by (cases q) (simp_all add: n8 layout layout_covers_def page_chunk_width_def)
  next
    case False
    define q r where "q = unat n div 8" and "r = unat n mod 8"
    then have n8: "unat n = 8 * q + r" and r: "0 < r" "r < 8" using False by simp_all
    then have "(8 * q + r + 7) div 8 = q + 1" by linarith
    with unats n8 r show ?thesis
      by (simp add: layout layout_covers_def page_chunk_width_def)
  qed
qed

text \<open>The frames of a page record in the order they are written.\<close>

definition data_frame :: "log_format \<Rightarrow> page_layout \<Rightarrow> u64 \<Rightarrow> u8 list \<Rightarrow> nat \<Rightarrow> u8 list" where
  "data_frame f layout v bytes i =
     build_frame_with_payload2_bytes f PageData v (of_nat i) (page_chunk layout bytes i)"

definition owner_frames :: "log_format \<Rightarrow> u64 \<Rightarrow> stored_transaction_identity option \<Rightarrow> u8 list list" where
  "owner_frames f v owner =
     (case owner of None \<Rightarrow> [] | Some t \<Rightarrow> [build_frame f TransactionPageOwner v (sti_epoch t) (sti_sequence t)])"

definition page_header_kind :: "stored_transaction_identity option \<Rightarrow> frame_kind" where
  "page_header_kind owner = (if owner = None then PageHeader else TransactionPageHeader)"

definition page_frames ::
  "log_format \<Rightarrow> page_layout \<Rightarrow> u64 \<Rightarrow> file_page_record \<Rightarrow> stored_transaction_identity option \<Rightarrow> u8 list list"
where
  "page_frames f layout v page owner =
     build_frame f (page_header_kind owner) v (page_number_get (fp_page_number page))
         (image_version_get (fp_page_version page))
       # owner_frames f v owner @ map (data_frame f layout v (fp_bytes page)) [0..<pl_chunk_count layout]"

definition pending_with ::
  "nat \<Rightarrow> u64 \<Rightarrow> u64 \<Rightarrow> file_page_record \<Rightarrow> page_layout \<Rightarrow> pending_ownership \<Rightarrow> nat \<Rightarrow> pending_page" where
  "pending_with width offset v page layout ownership k =
     \<lparr>pp_header_offset = offset, pp_position = v, pp_page_number = fp_page_number page,
      pp_page_version = fp_page_version page, pp_ownership = ownership,
      pp_bytes = take (k * page_chunk_width) (fp_bytes page) @ replicate (width - k * page_chunk_width) 0,
      pp_next_chunk_index = k, pp_expected_chunk_count = pl_chunk_count layout\<rparr>"

lemma pending_with_sel [simp]:
  "pp_next_chunk_index (pending_with w off v page layout own k) = k"
  "pp_position (pending_with w off v page layout own k) = v"
  "pp_ownership (pending_with w off v page layout own k) = own"
  by (simp_all add: pending_with_def)

lemma page_chunk_length [simp]: "length (page_chunk layout bytes i) = 8"
  by (simp add: page_chunk_def page_chunk_width_def)

lemma logical_bytes_le: "layout_covers layout w \<Longrightarrow> logical_bytes_for_chunk layout i \<le> page_chunk_width"
  by (simp add: logical_bytes_for_chunk_def layout_covers_def)

lemma chunk_end:
  assumes "layout_covers layout w" and "i < pl_chunk_count layout"
  shows "i * page_chunk_width + logical_bytes_for_chunk layout i = min w ((i + 1) * page_chunk_width)"
proof -
  obtain c where c: "pl_chunk_count layout = Suc c" "w = c * page_chunk_width + pl_final_chunk_len layout"
    "pl_final_chunk_len layout \<le> page_chunk_width" "0 < pl_final_chunk_len layout"
    using assms(1) by (cases "pl_chunk_count layout") (auto simp: layout_covers_def)
  show ?thesis
  proof (cases "i = c")
    case False
    with assms(2) c(1) have "i + 1 \<le> c" by simp
    then have "(i + 1) * page_chunk_width \<le> c * page_chunk_width" by (rule mult_le_mono1)
    with False c show ?thesis by (simp add: logical_bytes_for_chunk_def)
  qed (use c in \<open>simp add: logical_bytes_for_chunk_def\<close>)
qed

lemma page_chunk_split:
  assumes "layout_covers layout w" and "i < pl_chunk_count layout" and "length bytes = w"
  defines "k \<equiv> logical_bytes_for_chunk layout i"
  shows "page_chunk layout bytes i = bytes_at (i * page_chunk_width) k bytes @ replicate (page_chunk_width - k) 0"
proof -
  have "i * page_chunk_width + k \<le> w" using chunk_end [OF assms(1,2)] by (simp add: k_def)
  then have len: "length (bytes_at (i * page_chunk_width) k bytes) = k" using assms(3) by simp
  moreover have "k \<le> page_chunk_width" using logical_bytes_le [OF assms(1)] by (simp add: k_def)
  ultimately show ?thesis
    by (auto intro!: nth_equalityI simp: page_chunk_def copy_into_def nth_append simp flip: k_def)
qed

text \<open>The chunks copied one after the other rebuild the page.\<close>

lemma copy_chunk_prefix:
  assumes "layout_covers layout w" and "i < pl_chunk_count layout" and "length bytes = w"
  shows "copy_into (i * page_chunk_width) (take (logical_bytes_for_chunk layout i) (page_chunk layout bytes i))
      (take (i * page_chunk_width) bytes @ replicate (w - i * page_chunk_width) 0)
    = take ((i + 1) * page_chunk_width) bytes @ replicate (w - (i + 1) * page_chunk_width) 0" (is "?l = ?r")
proof -
  let ?k = "logical_bytes_for_chunk layout i" and ?c = page_chunk_width
  have e: "i * ?c + ?k = min w ((i + 1) * ?c)" by (rule chunk_end [OF assms(1,2)])
  have chunk: "take ?k (page_chunk layout bytes i) = bytes_at (i * ?c) ?k bytes"
    using e assms(3) by (simp add: page_chunk_split [OF assms])
  show ?thesis
  proof (rule nth_equalityI)
    show "length ?l = length ?r" using assms(3) by (simp add: chunk)
    fix j assume "j < length ?l"
    then have "j < w" using e assms(3) by (simp add: chunk split: if_splits)
    then show "?l ! j = ?r ! j"
      using e assms(3)
      by (auto simp: chunk copy_into_def nth_append bytes_at_def min_def not_less split: if_splits)
  qed
qed

lemma whole_prefix:
  assumes "layout_covers layout w" and "length bytes = w"
  shows "take (pl_chunk_count layout * page_chunk_width) bytes
    @ replicate (w - pl_chunk_count layout * page_chunk_width) 0 = bytes"
proof -
  have "w \<le> pl_chunk_count layout * page_chunk_width"
    using assms(1) by (cases "pl_chunk_count layout") (simp_all add: layout_covers_def)
  then show ?thesis using assms(2) by simp
qed

lemma copy_chunk_pending:
  assumes "layout_covers layout w" and "i < pl_chunk_count layout" and "length (fp_bytes page) = w"
  shows "copy_chunk (page_chunk layout (fp_bytes page) i) layout (pending_with w offset v page layout ownership i)
    = pending_with w offset v page layout ownership (i + 1)"
  using copy_chunk_prefix [OF assms] by (simp add: copy_chunk_def pending_with_def Let_def)

definition owner_supported :: "log_format \<Rightarrow> stored_transaction_identity option \<Rightarrow> bool" where
  "owner_supported f owner \<longleftrightarrow> supports_pages f \<and> (owner \<noteq> None \<longrightarrow> supports_transaction_pages f)"

definition ownership_before :: "stored_transaction_identity option \<Rightarrow> pending_ownership" where
  "ownership_before owner = (if owner = None then PendingRaw else AwaitingOwner)"

definition ownership_of :: "stored_transaction_identity option \<Rightarrow> pending_ownership" where
  "ownership_of owner = (case owner of None \<Rightarrow> PendingRaw | Some t \<Rightarrow> PendingOwned t)"

definition owner_issued :: "u64 option \<Rightarrow> stored_transaction_identity option \<Rightarrow> bool" where
  "owner_issued next_epoch owner \<longleftrightarrow> (\<forall>t. owner = Some t \<longrightarrow> identity_issued next_epoch t)"

lemma next_position_nonzero: "open_state_wf s \<Longrightarrow> os_next_position s = Some v \<Longrightarrow> v \<noteq> 0"
  using checked_add_one_less(3) [of "os_last_completed_position s" v] by (auto simp: open_state_wf_def)

lemma step_page_header:
  assumes "os_pending_page s = None" and "open_state_wf s" and "os_next_position s = Some v"
    and "os_page_layout s = Some layout" and "page_number_get (fp_page_number page) \<noteq> 0"
    and "owner_supported f owner"
  shows "scan_step width f offset (build_frame f (page_header_kind owner) v
      (page_number_get (fp_page_number page)) (image_version_get (fp_page_version page))) s
    = Inr (s\<lparr>os_pending_page := Some (pending_with width (of_nat offset) v page layout
        (ownership_before owner) 0)\<rparr>)"
proof -
  have "frame_kind_supported f (page_header_kind owner)"
    using assms(6) by (auto simp: owner_supported_def page_header_kind_def frame_kind_supported_def)
  with assms next_position_nonzero [OF assms(2,3)] show ?thesis
    by (simp add: scan_step_build apply_frame_def page_header_kind_def apply_page_header_frame_def
        require_format_def page_number_new_def pending_page_new_def pending_with_def ownership_before_def)
qed

lemma step_owner:
  assumes "os_pending_page s = Some (pending_with width off v page layout AwaitingOwner 0)"
    and "open_state_wf s" and "v \<noteq> 0" and "identity_issued (os_next_epoch s) t"
    and "supports_transaction_pages f"
  shows "scan_step width f offset (build_frame f TransactionPageOwner v (sti_epoch t) (sti_sequence t)) s
    = Inr (s\<lparr>os_pending_page := Some (pending_with width off v page layout (PendingOwned t) 0)\<rparr>)"
proof -
  obtain e q where t: "t = \<lparr>sti_epoch = e, sti_sequence = q\<rparr>" by (cases t)
  have "\<not> os_highest_allocated_epoch s < sti_epoch t" by (rule issued_le_highest [OF assms(2,4)])
  with assms t show ?thesis
    by (simp add: scan_step_build frame_kind_supported_def apply_frame_def apply_pending_page_frame_def
        apply_pending_owner_def require_format_def pending_with_def identity_issued_def)
qed

lemma data_padding_zero:
  assumes "layout_covers layout w" and "i < pl_chunk_count layout" and "length bytes = w"
  shows "all_zero (drop (logical_bytes_for_chunk layout i) (page_chunk layout bytes i))"
proof -
  let ?k = "logical_bytes_for_chunk layout i"
  have "i * page_chunk_width + ?k \<le> w" using chunk_end [OF assms(1,2)] by simp
  then show ?thesis using assms(3) by (simp add: page_chunk_split [OF assms])
qed

definition page_log_record :: "log_lineage \<Rightarrow> u64 \<Rightarrow> file_page_record \<Rightarrow> stored_transaction_identity option \<Rightarrow> file_log_record"
where
  "page_log_record lineage v page owner =
     \<lparr>flr_position = lineage_position lineage v, flr_kind = page_record_kind owner page\<rparr>"

lemma step_data:
  assumes "os_pending_page s = Some (pending_with w off v page layout (ownership_of owner) i)"
    and "os_page_layout s = Some layout" and "v \<noteq> 0" and "supports_pages f"
    and "layout_covers layout w" and "i < pl_chunk_count layout" and "length (fp_bytes page) = w"
  shows "scan_step w f offset (data_frame f layout v (fp_bytes page) i) s
    = Inr (if i + 1 = pl_chunk_count layout
           then s\<lparr>os_pending_page := None, os_last_completed_position := v,
                  os_next_position := checked_add v 1,
                  os_records := os_records s @ [page_log_record (os_lineage s) v page owner]\<rparr>
           else s\<lparr>os_pending_page := Some (pending_with w off v page layout (ownership_of owner) (i + 1))\<rparr>)"
proof -
  let ?p = "pending_with w off v page layout (ownership_of owner)"
  let ?d = "\<lparr>fr_kind = PageData, fr_payload0 = v, fr_payload1 = of_nat i,
    fr_payload2 = of_be_bytes (page_chunk layout (fp_bytes page) i),
    fr_payload2_bytes = page_chunk layout (fp_bytes page) i\<rparr>"
  have copy: "copy_chunk (page_chunk layout (fp_bytes page) i) layout (?p i) = ?p (i + 1)"
    by (rule copy_chunk_pending [OF assms(5-7)])
  have whole: "take ((i + 1) * page_chunk_width) (fp_bytes page)
      @ replicate (w - (i + 1) * page_chunk_width) 0 = fp_bytes page" if "i + 1 = pl_chunk_count layout"
    using whole_prefix [OF assms(5,7)] that by simp
  have finished: "pending_into_record lineage (?p (i + 1)) = Inr (page_log_record lineage v page owner)"
    if "i + 1 = pl_chunk_count layout" for lineage
    using whole [OF that]
    by (cases owner) (simp_all add: pending_into_record_def pending_with_def ownership_of_def
        page_log_record_def page_record_kind_def Let_def)
  have "scan_step w f offset (data_frame f layout v (fp_bytes page) i) s
      = apply_frame (\<lambda>_. True) w ?d (of_nat offset) s"
    using assms(4) by (simp add: scan_step_def data_frame_def parse_built_frame frame_kind_supported_def)
  also have "\<dots> = apply_pending_data (\<lambda>_. True) ?d (of_nat offset) (?p i) s"
    using assms(1) by (cases owner) (simp_all add: apply_frame_def apply_pending_page_frame_def
        ownership_of_def)
  also have "\<dots> = Inr (if i + 1 = pl_chunk_count layout
           then s\<lparr>os_pending_page := None, os_last_completed_position := v,
                  os_next_position := checked_add v 1,
                  os_records := os_records s @ [page_log_record (os_lineage s) v page owner]\<rparr>
           else s\<lparr>os_pending_page := Some (?p (i + 1))\<rparr>)"
    using assms(2,3) data_padding_zero [OF assms(5-7)] finished
    by (auto simp: apply_pending_data_def copy require_format_def pending_is_complete_def Let_def
        page_log_record_def)
  finally show ?thesis .
qed

lemma scan_data_frames:
  assumes "os_pending_page s = Some (pending_with w off v page layout (ownership_of owner) i)"
    and "os_page_layout s = Some layout" and "v \<noteq> 0" and "supports_pages f"
    and "layout_covers layout w" and "i < pl_chunk_count layout" and "length (fp_bytes page) = w"
  shows "scan w f offset (concat (map (data_frame f layout v (fp_bytes page)) [i..<pl_chunk_count layout])) s
    = Inr (s\<lparr>os_pending_page := None, os_last_completed_position := v,
             os_next_position := checked_add v 1,
             os_records := os_records s @ [page_log_record (os_lineage s) v page owner]\<rparr>)"
  using assms(1,2,6)
proof (induction "pl_chunk_count layout - i" arbitrary: i s offset)
  case (Suc k)
  let ?frame = "data_frame f layout v (fp_bytes page)"
  have len: "length (?frame i) = 1 * frame_length" by (simp add: data_frame_def)
  have list: "[i..<pl_chunk_count layout] = i # [i + 1..<pl_chunk_count layout]"
    using Suc.prems(3) by (simp add: upt_rec)
  note step = step_data [OF Suc.prems(1,2) assms(3-5) Suc.prems(3) assms(7)]
  show ?case
  proof (cases "i + 1 = pl_chunk_count layout")
    case True
    then show ?thesis unfolding list by (simp add: scan_one len [simplified] step)
  next
    case False
    let ?s = "s\<lparr>os_pending_page := Some (pending_with w off v page layout (ownership_of owner) (i + 1))\<rparr>"
    have "scan w f (offset + length (?frame i))
        (concat (map ?frame [i + 1..<pl_chunk_count layout])) ?s
      = Inr (?s\<lparr>os_pending_page := None, os_last_completed_position := v,
             os_next_position := checked_add v 1,
             os_records := os_records ?s @ [page_log_record (os_lineage ?s) v page owner]\<rparr>)"
      by (rule Suc.hyps(1)) (use Suc.hyps(2) Suc.prems False in simp_all)
    with False show ?thesis
      unfolding list by (simp add: scan_append [OF len] scan_one len [simplified] step)
  qed
qed simp

lemma scan_page_frames:
  assumes "os_pending_page s = None" and "open_state_wf s" and "os_next_position s = Some v"
    and "os_page_layout s = Some layout" and "page_number_get (fp_page_number page) \<noteq> 0"
    and "owner_supported f owner" and "owner_issued (os_next_epoch s) owner"
    and "layout_covers layout w" and "length (fp_bytes page) = w"
  shows "scan w f offset (concat (page_frames f layout v page owner)) s
    = Inr (s\<lparr>os_last_completed_position := v, os_next_position := checked_add v 1,
             os_records := os_records s @ [page_log_record (os_lineage s) v page owner]\<rparr>)"
proof -
  let ?p = "\<lambda>own. pending_with w (of_nat offset) v page layout own 0"
  let ?header = "build_frame f (page_header_kind owner) v (page_number_get (fp_page_number page))
    (image_version_get (fp_page_version page))"
  let ?data = "concat (map (data_frame f layout v (fp_bytes page)) [0..<pl_chunk_count layout])"
  let ?final = "s\<lparr>os_pending_page := None, os_last_completed_position := v,
    os_next_position := checked_add v 1,
    os_records := os_records s @ [page_log_record (os_lineage s) v page owner]\<rparr>"
  note v = next_position_nonzero [OF assms(2,3)]
  have covers: "0 < pl_chunk_count layout" and pages: "supports_pages f"
    using assms(6,8) by (simp_all add: layout_covers_def owner_supported_def)
  have header: "scan_step w f offset ?header s = Inr (s\<lparr>os_pending_page := Some (?p (ownership_before owner))\<rparr>)"
    by (rule step_page_header [OF assms(1-6)])
  have len: "length ?header = 1 * frame_length" by simp
  have data: "scan w f at ?data (s\<lparr>os_pending_page := Some (?p (ownership_of owner))\<rparr>) = Inr ?final" for at
    using scan_data_frames [where s = "s\<lparr>os_pending_page := Some (?p (ownership_of owner))\<rparr>", OF _ _ v pages
      assms(8) covers assms(9)] assms(4) by simp
  have rest: "scan w f at (concat (owner_frames f v owner) @ ?data)
      (s\<lparr>os_pending_page := Some (?p (ownership_before owner))\<rparr>) = Inr ?final" for at
  proof (cases owner)
    case None
    with data [of at] show ?thesis by (simp add: owner_frames_def ownership_before_def ownership_of_def)
  next
    case (Some t)
    let ?frame = "build_frame f TransactionPageOwner v (sti_epoch t) (sti_sequence t)"
    have len1: "length ?frame = 1 * frame_length" by simp
    have "open_state_wf (s\<lparr>os_pending_page := Some (?p AwaitingOwner)\<rparr>)"
      using assms(2,3) by (simp add: open_state_wf_def pending_with_def)
    then have "scan_step w f at ?frame (s\<lparr>os_pending_page := Some (?p AwaitingOwner)\<rparr>)
        = Inr (s\<lparr>os_pending_page := Some (?p (PendingOwned t))\<rparr>)"
      using step_owner [of "s\<lparr>os_pending_page := Some (?p AwaitingOwner)\<rparr>" w "of_nat offset" v page layout t f at]
        assms(6,7) Some v by (simp add: owner_supported_def owner_issued_def)
    with Some data [of "at + frame_length"] show ?thesis
      by (simp add: owner_frames_def ownership_before_def ownership_of_def scan_append [OF len1] scan_one)
  qed
  have "?final = s\<lparr>os_last_completed_position := v, os_next_position := checked_add v 1,
             os_records := os_records s @ [page_log_record (os_lineage s) v page owner]\<rparr>"
    using assms(1) by (cases s) simp
  with rest [of "offset + frame_length"] show ?thesis
    by (simp add: page_frames_def scan_append [OF len] scan_one header)
qed

section \<open>Writers of bytes\<close>

definition emits_to ::
  "('s \<Rightarrow> u8 list \<Rightarrow> 's) \<Rightarrow> ('s \<Rightarrow> 's) \<Rightarrow> 's \<Rightarrow> u8 list \<Rightarrow> ('e + 'a) \<times> 's \<Rightarrow> bool" where
  "emits_to put poison s new result =
     (case result of
        (Inr _, s') \<Rightarrow> s' = put s new
      | (Inl _, s') \<Rightarrow> \<exists>k. s' = poison (put s (take k new)))"

locale byte_writer =
  fixes put :: "'s \<Rightarrow> u8 list \<Rightarrow> 's" and poison :: "'s \<Rightarrow> 's"
  assumes put_put: "put (put s a) b = put s (a @ b)"
    and put_nothing: "put s [] = s"
begin

lemma emits_failed: "emits_to put poison s new (Inl e, poison (put s (take k new)))"
  by (auto simp: emits_to_def)

lemma emits_done: "emits_to put poison s [] (Inr x, s)"
  by (simp add: emits_to_def put_nothing)

lemma emits_whole: "emits_to put poison s new (Inl e, poison (put s new))"
  using emits_failed [of s new e "length new"] by simp

lemma emits_converting: "emits_to put poison s new (converted g r) \<longleftrightarrow> emits_to put poison s new r"
  by (cases r; cases "fst r") (auto simp: emits_to_def)

lemma emits_chained:
  assumes "emits_to put poison s a r" and "\<And>x. emits_to put poison (put s a) b (f x (put s a))"
  shows "emits_to put poison s (a @ b) (chain r f)"
proof -
  obtain res s1 where r: "r = (res, s1)" by (cases r)
  show ?thesis
  proof (cases res)
    case (Inl e)
    then obtain k where k: "s1 = poison (put s (take k a))" using assms(1) r by (auto simp: emits_to_def)
    have "take k a = take (min k (length a)) (a @ b)" by (simp add: min_def)
    with k Inl r show ?thesis by (auto simp: emits_to_def intro: exI [of _ "min k (length a)"])
  next
    case (Inr x)
    have s1: "s1 = put s a" using assms(1) r Inr by (simp add: emits_to_def)
    obtain res2 s2 where r2: "f x (put s a) = (res2, s2)" by (cases "f x (put s a)")
    note second = assms(2) [of x, unfolded r2]
    show ?thesis
    proof (cases res2)
      case (Inl e)
      then obtain k where "s2 = poison (put (put s a) (take k b))"
        using second by (auto simp: emits_to_def)
      then have "s2 = poison (put s (take (length a + k) (a @ b)))" by (simp add: put_put)
      moreover have "chain r f = (Inl e, s2)" using Inl Inr s1 r r2 by simp
      ultimately show ?thesis using emits_failed by (simp only:)
    qed (use second Inr s1 r r2 in \<open>simp add: emits_to_def put_put\<close>)
  qed
qed

end

lemma chain_assoc: "chain (chain r f) g = chain r (\<lambda>x s. chain (f x s) g)"
  by (auto simp: chain_def split: prod.splits sum.splits)

end
