(* ===== verification/File_Log_Invariant.thy ===== *)
theory File_Log_Invariant
  imports File_Write_Laws File_Frame_Laws
begin

text \<open>
  The invariant of the file log. What the file holds scans to what the log keeps in memory, and
  the synchronized part of it already scans to every record the log has acknowledged as durable.
\<close>

section \<open>Reading the header\<close>

lemma parse_v4_retained: "parse_header_v4 e layout = Inr m \<Longrightarrow> h4_retained_first m \<noteq> Some 0"
  by (auto simp: parse_header_v4_def Let_def result_simps read_optional_position_def split: if_splits)

lemma parse_v5_retained: "parse_header_v5 e layout = Inr m \<Longrightarrow> h5_retained_first m \<noteq> Some 0"
  by (auto simp: parse_header_v5_def Let_def result_simps dest: parse_v4_retained split: if_splits prod.splits)

lemma read_log_header_cases:
  assumes "read_log_header io x bytes = Inr h"
  obtains (v5) "read_u16 bytes 8 = 5" "read_header_v5 io x bytes = Inr h" "oh_length h = header_v5_length"
  | (v4) "read_u16 bytes 8 = 4" "read_header_v4 io x bytes = Inr h" "oh_length h = header_v4_length"
  | (small) "read_u16 bytes 8 \<noteq> 5" "read_u16 bytes 8 \<noteq> 4" "read_header_small x bytes = Inr h"
      "oh_length h = header_length"
proof -
  have v: "read_header_v5 io x bytes = Inr h \<Longrightarrow> oh_length h = header_v5_length"
    "read_header_v4 io x bytes = Inr h \<Longrightarrow> oh_length h = header_v4_length"
    "read_header_small x bytes = Inr h \<Longrightarrow> oh_length h = header_length"
    by (auto simp: read_header_v5_def read_header_v4_def read_header_small_def result_simps Let_def)
  consider "read_u16 bytes 8 = 5" | "read_u16 bytes 8 = 4" | "read_u16 bytes 8 \<noteq> 5" "read_u16 bytes 8 \<noteq> 4"
    by blast
  then show thesis
    using assms v that by cases (auto simp: read_log_header_def result_simps Let_def)
qed

lemmas header_lengths = header_length_def header_v4_length_def header_v5_length_def

lemma read_log_header_length:
  assumes "read_log_header io x bytes = Inr h"
  shows "header_length \<le> oh_length h" and "oh_length h \<le> length bytes"
  using assms
  by (cases rule: read_log_header_cases;
      auto simp: read_log_header_def read_header_v5_def read_header_v4_def result_simps Let_def header_lengths)+

lemma read_log_header_prefix:
  assumes "read_log_header io x bytes = Inr h"
    and "take (oh_length h) bytes' = take (oh_length h) bytes" and "oh_length h \<le> length bytes'"
  shows "read_log_header io x bytes' = Inr h"
proof -
  have small: "take header_length bytes' = take header_length bytes"
    using arg_cong [OF assms(2), of "take header_length"] read_log_header_length(1) [OF assms(1)]
    by (simp add: min_absorb1)
  then have "bytes_at 8 2 (take header_length bytes') = bytes_at 8 2 (take header_length bytes)" by simp
  then have version: "read_u16 bytes' 8 = read_u16 bytes 8"
    by (simp add: read_u16_def byte_simps header_length_def)
  from assms(1) show ?thesis
  proof (cases rule: read_log_header_cases)
    case v5
    with assms version small show ?thesis
      by (auto simp: read_log_header_def read_header_v5_def result_simps Let_def header_lengths)
  next
    case v4
    with assms version small show ?thesis
      by (auto simp: read_log_header_def read_header_v4_def result_simps Let_def header_lengths)
  next
    case small': small
    from small have "bytes_at 8 2 (take header_length bytes') = bytes_at 8 2 (take header_length bytes)" by simp
    with assms version small small' show ?thesis
      by (auto simp: read_log_header_def read_header_small_def result_simps Let_def header_lengths)
  qed
qed

lemma read_log_header_retained:
  assumes "read_log_header io x bytes = Inr h"
  shows "oh_retained_first h \<noteq> Some 0"
  using assms
  by (cases rule: read_log_header_cases)
    (auto simp: read_header_v5_def read_header_v4_def read_header_small_def result_simps Let_def
      dest: parse_v5_retained parse_v4_retained)

lemma initial_state_wf:
  assumes "oh_retained_first h \<noteq> Some 0"
  shows "open_state_wf (initial_open_state layout h)"
proof (cases "oh_retained_first h")
  case (Some p)
  with assms have p: "p \<noteq> 0" by simp
  then have "p - 1 \<le> p" by (simp add: word_le_nat_alt unat_minus_one)
  then have "checked_add (p - 1) 1 = Some p" by (auto simp: checked_add_def Let_def)
  moreover have "1 \<le> p" using p by (simp add: word_le_nat_alt Suc_le_eq unat_gt_0)
  ultimately show ?thesis
    using Some by (simp add: open_state_wf_def initial_open_state_def open_state_new_def Let_def)
qed (simp add: open_state_wf_def initial_open_state_def open_state_new_def Let_def checked_add_def
    split: option.split)

section \<open>The invariant\<close>

definition header_matches :: "opened_header \<Rightarrow> file_log \<Rightarrow> bool" where
  "header_matches h l \<longleftrightarrow> oh_format h = fl_format l \<and> oh_persistent_id h = fl_persistent_id l
     \<and> fl_lineage l = Persistent (fl_persistent_id l) \<and> oh_generation h = fl_generation l
     \<and> fl_reclaimed_retained_first l = map_option (lineage_position (fl_lineage l)) (oh_retained_first h)
     \<and> fl_reclaimed_logical_high_water l = map_option (lineage_position (fl_lineage l)) (oh_logical_high_water h)
     \<and> oh_epoch_high_water h = fl_reclaimed_epoch_high_water l
     \<and> oh_selected_checkpoint_anchor h = fl_selected_checkpoint_anchor l
     \<and> oh_database_file_identity h = fl_database_file_identity l"

definition width_agrees :: "header_expectation \<Rightarrow> usize \<Rightarrow> log_format \<Rightarrow> bool" where
  "width_agrees x n f \<longleftrightarrow> (supports_pages f \<longrightarrow>
     (\<exists>layout. expectation_page_layout x = Some layout \<and> page_layout_for n = Inr layout))"

definition scan_log :: "header_expectation \<Rightarrow> usize \<Rightarrow> opened_header \<Rightarrow> u8 list \<Rightarrow> file_open_error + open_state"
where
  "scan_log x n h bytes =
     scan (unat n) (oh_format h) (oh_length h) (drop (oh_length h) bytes)
       (initial_open_state (expectation_page_layout x) h)"

definition log_matches :: "file_log \<Rightarrow> open_state \<Rightarrow> bool" where
  "log_matches l s \<longleftrightarrow> os_records s = fl_records l \<and> os_durable_len s = fl_durable_len l
     \<and> os_next_epoch s = fl_next_epoch l \<and> os_next_position s = fl_next_position l
     \<and> os_pending_page s = None"

definition header_checks :: "opened_header \<Rightarrow> open_state \<Rightarrow> bool" where
  "header_checks h s \<longleftrightarrow> check_completed h 0 s = Inr () \<and> check_retained h s = Inr ()"

definition scans_to ::
  "header_expectation \<Rightarrow> usize \<Rightarrow> file_log \<Rightarrow> opened_header \<Rightarrow> open_state \<Rightarrow> open_state \<Rightarrow> bool" where
  "scans_to x n l h s s0 \<longleftrightarrow>
     read_log_header working_io x (fl_contents l) = Inr h \<and> header_matches h l
     \<and> width_agrees x n (fl_format l)
     \<and> scan_log x n h (fl_contents l) = Inr s
     \<and> scan_log x n h (take (fl_synced l) (fl_contents l)) = Inr s0
     \<and> oh_length h \<le> fl_synced l \<and> fl_synced l \<le> length (fl_contents l)
     \<and> header_checks h s0
     \<and> fl_durable_len l \<le> os_durable_len s0 \<and> fl_durable_len l \<le> length (fl_records l)
     \<and> prefix (fl_records l) (os_records s)
     \<and> (\<not> fl_poisoned l \<longrightarrow> log_matches l s \<and> frame_length dvd length (fl_contents l) - oh_length h)"

definition file_log_inv :: "header_expectation \<Rightarrow> usize \<Rightarrow> file_log \<Rightarrow> bool" where
  "file_log_inv x n l \<longleftrightarrow> (\<exists>h s s0. scans_to x n l h s s0)"

lemma scans_to_wf:
  assumes "scans_to x n l h s s0"
  shows "open_state_wf s" and "open_state_wf s0" and "open_state_le s0 s"
proof -
  have "oh_retained_first h \<noteq> Some 0"
    using assms read_log_header_retained by (auto simp: scans_to_def)
  then have wf: "open_state_wf (initial_open_state (expectation_page_layout x) h)"
    by (rule initial_state_wf)
  have sc: "scan_log x n h (fl_contents l) = Inr s"
    "scan_log x n h (take (fl_synced l) (fl_contents l)) = Inr s0" and le: "oh_length h \<le> fl_synced l"
    using assms by (simp_all add: scans_to_def)
  then show "open_state_wf s" "open_state_wf s0"
    using scan_wf wf unfolding scan_log_def by blast+
  obtain s1 where "scan (unat n) (oh_format h) (oh_length h)
      (take (fl_synced l - oh_length h) (drop (oh_length h) (fl_contents l)))
      (initial_open_state (expectation_page_layout x) h) = Inr s1" "open_state_le s1 s"
    using scan_prefix [OF sc(1) [unfolded scan_log_def] wf] by blast
  with sc(2) show "open_state_le s0 s" by (simp add: scan_log_def drop_take)
qed

text \<open>What the header demands of a state is kept by progress.\<close>

lemma header_checks_le:
  assumes "header_checks h s" and "open_state_le s s'"
  shows "header_checks h s'"
proof -
  have first: "first_durable_value s' = Some v" if first: "first_durable_value s = Some v" for v
  proof -
    obtain r rs where "take (os_durable_len s) (os_records s) = r # rs" "v = flr_value r"
      using first by (auto simp: first_durable_value_def split: list.splits)
    moreover from this obtain d rs' where "os_durable_len s = Suc d" "os_records s = r # rs'"
      by (cases "os_durable_len s"; cases "os_records s") auto
    moreover obtain zs where "os_records s' = os_records s @ zs"
      using assms(2) by (auto simp: open_state_le_def prefix_def)
    moreover have "os_durable_len s \<le> os_durable_len s'" using assms(2) by (simp add: open_state_le_def)
    ultimately show ?thesis
      by (cases "os_durable_len s'") (auto simp: first_durable_value_def)
  qed
  have durable: "\<exists>q. os_last_durable_position s' = Some q \<and> p \<le> q" if "os_last_durable_position s = Some p" for p
    using that assms(2) by (auto simp: open_state_le_def)
  have completed: "os_last_completed_position s \<le> os_last_completed_position s'"
    using assms(2) by (simp add: open_state_le_def)
  show ?thesis
    using assms(1) first durable completed
    unfolding header_checks_def check_completed_def check_retained_def require_format_Inr
    by (cases "oh_retained_first h") (auto simp: result_simps not_less split: if_splits option.splits)
qed

section \<open>Extending the file\<close>

text \<open>Only the frames after the old end are scanned anew.\<close>

lemma scan_log_extend:
  assumes "scan_log x n h bytes = Inr s" and "oh_length h \<le> length bytes"
    and "frame_length dvd length bytes - oh_length h"
  shows "scan_log x n h (bytes @ new) = scan (unat n) (oh_format h) (length bytes) new s"
proof -
  obtain k where k: "length (drop (oh_length h) bytes) = k * frame_length"
    using assms(3) by (metis dvd_def length_drop mult.commute)
  have "oh_length h + length (drop (oh_length h) bytes) = length bytes" using assms(2) by simp
  with assms(1,2) scan_append [OF k, of "unat n" "oh_format h" "oh_length h" new
      "initial_open_state (expectation_page_layout x) h"]
  show ?thesis by (simp add: scan_log_def)
qed

lemma scans_to_extended_header:
  assumes "scans_to x n l h s s0"
  shows "read_log_header working_io x (fl_contents l @ new) = Inr h"
proof -
  have "oh_length h \<le> length (fl_contents l)" using assms by (simp add: scans_to_def)
  moreover have header: "read_log_header working_io x (fl_contents l) = Inr h"
    using assms by (simp add: scans_to_def)
  ultimately show ?thesis by (intro read_log_header_prefix [OF header]) simp_all
qed

text \<open>A write that stopped anywhere inside frames that would have been accepted.\<close>

definition torn_write :: "file_log \<Rightarrow> u8 list \<Rightarrow> file_log \<Rightarrow> bool" where
  "torn_write l new l' \<longleftrightarrow> (\<exists>armed synced k. l' = l\<lparr>fl_armed_fault := armed, fl_synced := synced,
     fl_contents := fl_contents l @ take k new, fl_poisoned := True\<rparr>
     \<and> (synced = fl_synced l \<or> synced = length (fl_contents l)))"

lemma scans_to_synced:
  assumes "scans_to x n l h s s0" and "\<not> fl_poisoned l"
  shows "header_checks h s" and "fl_durable_len l \<le> os_durable_len s"
  using assms scans_to_wf(3) [OF assms(1)] header_checks_le
  by (auto simp: scans_to_def log_matches_def)

lemma torn_write_inv:
  assumes "scans_to x n l h s s0" and "\<not> fl_poisoned l"
    and "scan (unat n) (fl_format l) (length (fl_contents l)) new s = Inr s'"
    and "torn_write l new l'"
  shows "file_log_inv x n l'"
proof -
  note inv = assms(1) [unfolded scans_to_def]
  obtain armed synced k where l': "l' = l\<lparr>fl_armed_fault := armed, fl_synced := synced,
      fl_contents := fl_contents l @ take k new, fl_poisoned := True\<rparr>"
    and synced: "synced = fl_synced l \<or> synced = length (fl_contents l)"
    using assms(4) by (auto simp: torn_write_def)
  note wf = scans_to_wf [OF assms(1)]
  obtain s1 where s1: "scan (unat n) (fl_format l) (length (fl_contents l)) (take k new) s = Inr s1"
    using scan_prefix [OF assms(3) wf(1)] by blast
  have le: "open_state_le s s1" by (rule scan_le [OF s1 wf(1)])
  have "scan_log x n h (fl_contents l @ take k new) = Inr s1"
    using inv assms(2) s1 by (subst scan_log_extend) (auto simp: header_matches_def)
  moreover have "prefix (fl_records l) (os_records s1)"
    using inv le by (auto simp: open_state_le_def dest: prefix_order.trans)
  moreover have "header_matches h l'" using inv by (simp add: l' header_matches_def)
  moreover obtain t where "scan_log x n h (take synced (fl_contents l @ take k new)) = Inr t"
    "header_checks h t" "fl_durable_len l \<le> os_durable_len t"
  proof (cases "synced = fl_synced l")
    case True
    with inv that [of s0] show ?thesis by simp
  next
    case False
    with synced inv that [of s] scans_to_synced [OF assms(1,2)] show ?thesis by simp
  qed
  ultimately have "scans_to x n l' h s1 t"
    using inv synced scans_to_extended_header [OF assms(1), of "take k new"]
    by (auto simp: scans_to_def l')
  then show ?thesis unfolding file_log_inv_def by blast
qed

text \<open>A complete write, synchronized or not.\<close>

lemma complete_write_inv:
  assumes "scans_to x n l h s s0" and "\<not> fl_poisoned l"
    and "scan (unat n) (fl_format l) (length (fl_contents l)) new s = Inr s'"
    and "frame_length dvd length new"
    and "header_matches h l'" and "fl_contents l' = fl_contents l @ new" and "\<not> fl_poisoned l'"
    and "log_matches l' s'"
    and "fl_synced l' = length (fl_contents l')
      \<or> fl_durable_len l' = fl_durable_len l \<and> (fl_synced l' = fl_synced l \<or> fl_synced l' = length (fl_contents l))"
  shows "file_log_inv x n l'"
proof -
  note inv = assms(1) [unfolded scans_to_def]
  note wf = scans_to_wf [OF assms(1)]
  have le: "open_state_le s s'" and wf': "open_state_wf s'"
    by (rule scan_le [OF assms(3) wf(1)], rule scan_wf [OF assms(3) wf(1)])
  have scan': "scan_log x n h (fl_contents l @ new) = Inr s'"
    using inv assms(2,3) by (subst scan_log_extend) (auto simp: header_matches_def)
  have "frame_length dvd length (fl_contents l) - oh_length h" "oh_length h \<le> length (fl_contents l)"
    using inv assms(2) by auto
  then have "frame_length dvd (length (fl_contents l) - oh_length h) + length new" 
    using assms(4) by (intro dvd_add)
  then have aligned: "frame_length dvd length (fl_contents l @ new) - oh_length h"
    using \<open>oh_length h \<le> length (fl_contents l)\<close> by simp
  have records: "fl_durable_len l' \<le> length (fl_records l')"
    using wf' assms(8) by (simp add: open_state_wf_def log_matches_def)
  obtain t where "scan_log x n h (take (fl_synced l') (fl_contents l @ new)) = Inr t"
    "header_checks h t" "fl_durable_len l' \<le> os_durable_len t"
  proof (cases "fl_synced l' = length (fl_contents l')")
    case True
    with scan' that [of s'] assms(6,8) header_checks_le [OF scans_to_synced(1) [OF assms(1,2)] le]
    show ?thesis by (simp add: log_matches_def)
  next
    case False
    with assms(9) have same: "fl_durable_len l' = fl_durable_len l" by simp
    show ?thesis
    proof (cases "fl_synced l' = fl_synced l")
      case True
      with inv that [of s0] same show ?thesis by simp
    next
      case False
      with assms(9) \<open>fl_synced l' \<noteq> length (fl_contents l')\<close> inv that [of s] same
        scans_to_synced [OF assms(1,2)] show ?thesis by simp
    qed
  qed
  moreover have "fl_format l' = fl_format l"
    using inv assms(5) by (simp add: header_matches_def)
  ultimately have "scans_to x n l' h s' t"
    using inv scan' aligned records assms(5-9) scans_to_extended_header [OF assms(1), of new]
    by (auto simp: scans_to_def log_matches_def)
  then show ?thesis unfolding file_log_inv_def by blast
qed

lemma armed_fault_inv: "file_log_inv x n l \<Longrightarrow> file_log_inv x n (l\<lparr>fl_armed_fault := armed\<rparr>)"
  by (auto simp: file_log_inv_def scans_to_def header_matches_def log_matches_def)

end
