(* ===== verification/File_Log_Effects.thy ===== *)
theory File_Log_Effects
  imports File_Log_Invariant File_Write_Laws
begin

text \<open>
  What each operation of the file log does to it: refuse and change nothing but the armed fault,
  stop inside the frames it writes and poison the log, or write them all and extend the records.
\<close>

section \<open>Writing frames\<close>

abbreviation log_extend :: "file_log \<Rightarrow> u8 list \<Rightarrow> file_log" where
  "log_extend \<equiv> \<lambda>l new. l\<lparr>fl_contents := fl_contents l @ new\<rparr>"

abbreviation log_poison :: "file_log \<Rightarrow> file_log" where
  "log_poison \<equiv> \<lambda>l. l\<lparr>fl_poisoned := True\<rparr>"

abbreviation emits :: "file_log \<Rightarrow> u8 list \<Rightarrow> ('e + 'a) \<times> file_log \<Rightarrow> bool" where
  "emits \<equiv> emits_to log_extend log_poison"

interpretation log_writer: byte_writer log_extend log_poison
  by unfold_locales simp_all

lemma emits_write_frame: "emits l frame (write_frame io frame stage True l)"
  by (auto simp: emits_to_def write_frame_def Let_def split: option.splits)

lemmas emits_converted = log_writer.emits_converting
lemmas emits_nothing = log_writer.emits_done
lemmas emits_chain = log_writer.emits_chained

lemma emits_page_data:
  "emits l (concat (map (data_frame (fl_format l) layout v bytes) is))
     (write_page_data io layout v bytes is l)"
proof (induction "is" arbitrary: l)
  case (Cons i "is")
  let ?first = "converted FileLogIo (write_frame io (data_frame (fl_format l) layout v bytes i)
    StageWritePageDataFrame True l)"
  have "write_page_data io layout v bytes (i # is) l
      = chain ?first (\<lambda>_ l. write_page_data io layout v bytes is l)"
    by (simp add: data_frame_def)
  moreover have "emits l (data_frame (fl_format l) layout v bytes i) ?first"
    by (simp only: emits_converted emits_write_frame)
  moreover have "emits l1 (concat (map (data_frame (fl_format l) layout v bytes) is))
      (write_page_data io layout v bytes is l1)" if "fl_format l1 = fl_format l" for l1
    using Cons.IH [of l1] that by simp
  ultimately show ?case
    by (auto intro!: emits_chain)
qed (simp add: emits_nothing)

lemma emits_owner: "emits l (concat (owner_frames (fl_format l) v owner)) (write_owner io v owner l)"
  by (cases owner) (simp_all add: owner_frames_def write_owner_def emits_nothing emits_converted emits_write_frame)

lemma fault_gate_cases:
  obtains (fired) "fault_gate point x l = (Inl (FileLogInjectedFault point), l\<lparr>fl_armed_fault := None\<rparr>)"
  | (quiet) "fault_gate point x l = (Inr x, l)"
proof (cases "fl_armed_fault l = Some point")
  case True
  then have "fault_gate point x l = (Inl (FileLogInjectedFault point), l\<lparr>fl_armed_fault := None\<rparr>)"
    by (simp add: fault_gate_def file_consume_fault_def)
  then show thesis by (rule fired)
next
  case False
  then have "fault_gate point x l = (Inr x, l)"
    by (simp add: fault_gate_def file_consume_fault_def)
  then show thesis by (rule quiet)
qed

section \<open>Appends\<close>

text \<open>The end every append shares: the frames, the record, the fault after it.\<close>

definition append_frames ::
  "u64 \<Rightarrow> file_record_kind \<Rightarrow> (file_log_error + unit) \<times> file_log \<Rightarrow> (file_log_error + log_sequence_number) \<times> file_log"
where
  "append_frames v kind w =
     chain w (\<lambda>_ l. fault_gate FileAfterAppend (lineage_position (fl_lineage l) v) (file_push_record v kind l))"

definition appended :: "file_log \<Rightarrow> u64 \<Rightarrow> file_record_kind \<Rightarrow> u8 list \<Rightarrow> file_log \<Rightarrow> bool" where
  "appended l v kind new l' \<longleftrightarrow>
     (\<exists>armed. l' = file_push_record v kind (l\<lparr>fl_armed_fault := armed, fl_contents := fl_contents l @ new\<rparr>))"

lemma appended_same: "appended l v kind new (file_push_record v kind (l\<lparr>fl_contents := fl_contents l @ new\<rparr>))"
  unfolding appended_def by (rule exI [of _ "fl_armed_fault l"]) simp

lemma append_frames_cases:
  assumes "append_frames v kind w = (r, l')" and "emits l new w"
  obtains (torn) e where "r = Inl e" and "torn_write l new l'"
  | (appended) "appended l v kind new l'"
      and "r = Inr (lineage_position (fl_lineage l) v) \<or> r = Inl (FileLogInjectedFault FileAfterAppend)"
proof -
  obtain res l1 where w: "w = (res, l1)" by (cases w)
  show thesis
  proof (cases res)
    case (Inl e)
    with assms(2) w obtain k where "l1 = l\<lparr>fl_contents := fl_contents l @ take k new, fl_poisoned := True\<rparr>"
      by (auto simp: emits_to_def)
    then have "torn_write l new l1"
      unfolding torn_write_def
      by (intro exI [of _ "fl_armed_fault l"] exI [of _ "fl_synced l"] exI [of _ k]) simp
    with assms(1) w Inl show ?thesis by (intro torn [of e]) (auto simp: append_frames_def)
  next
    case (Inr u)
    with assms(2) w have l1: "l1 = l\<lparr>fl_contents := fl_contents l @ new\<rparr>" by (simp add: emits_to_def)
    show ?thesis
    proof (cases rule: fault_gate_cases [of FileAfterAppend "lineage_position (fl_lineage l) v" "file_push_record v kind l1"])
      case fired
      then have "l' = file_push_record v kind (l\<lparr>fl_armed_fault := None, fl_contents := fl_contents l @ new\<rparr>)"
        and "r = Inl (FileLogInjectedFault FileAfterAppend)"
        using assms(1) w Inr l1 by (auto simp: append_frames_def file_push_record_def)
      then show ?thesis by (intro appended) (auto simp: appended_def)
    next
      case quiet
      then have "l' = file_push_record v kind (l\<lparr>fl_contents := fl_contents l @ new\<rparr>)"
        and "r = Inr (lineage_position (fl_lineage l) v)"
        using assms(1) w Inr l1 by (auto simp: append_frames_def file_push_record_def)
      then show ?thesis by (intro appended) (simp_all add: appended_same)
    qed
  qed
qed

definition rejected :: "file_log \<Rightarrow> ('e + 'a) \<times> file_log \<Rightarrow> bool" where
  "rejected l result \<longleftrightarrow> (\<exists>e armed. result = (Inl e, l\<lparr>fl_armed_fault := armed\<rparr>))"

lemma rejected_same [simp]: "rejected l (Inl e, l)"
  unfolding rejected_def by (intro exI [of _ e] exI [of _ "fl_armed_fault l"]) simp

lemma rejected_gate: "rejected l (Inl e, l\<lparr>fl_armed_fault := None\<rparr>)"
  unfolding rejected_def by blast

definition commit_frame :: "file_log \<Rightarrow> u64 \<Rightarrow> stored_transaction_identity \<Rightarrow> u8 list" where
  "commit_frame l v t = build_frame (fl_format l) CommitRecord v (sti_epoch t) (sti_sequence t)"

lemma append_commit_effect:
  fixes c :: transaction_commit_record
  defines "t \<equiv> stored_identity_of (commit_record_id c)"
  assumes "file_append_commit io reserve c l = (r, l')"
  obtains (rejected) "rejected l (r, l')"
  | (torn) e v where "r = Inl e" and "\<not> fl_poisoned l" and "fl_next_position l = Some v"
      and "torn_write l (commit_frame l v t) l'"
  | (appended) v where "\<not> fl_poisoned l" and "fl_next_position l = Some v"
      and "appended l v (FileTransactionCommit (sti_epoch t) (sti_sequence t)) (commit_frame l v t) l'"
      and "r = Inr (lineage_position (fl_lineage l) v) \<or> r = Inl (FileLogInjectedFault FileAfterAppend)"
proof (cases "fl_poisoned l \<or> fl_next_position l = None \<or> fl_armed_fault l = Some FileBeforeAppend
    \<or> \<not> reserve (length (fl_records l))")
  case True
  have "rejected l (file_append_commit io reserve c l)"
    using True
    by (auto simp: file_append_commit_def fault_gate_def file_consume_fault_def rejected_gate with_result_def
        split: sum.splits)
  with assms(2) rejected show thesis by simp
next
  case False
  then obtain v where v: "\<not> fl_poisoned l" "fl_next_position l = Some v" by auto
  define w where "w = converted FileLogIo (write_frame io (commit_frame l v t) StageWriteCommitFrame True l)"
  have eq: "file_append_commit io reserve c l
      = append_frames v (FileTransactionCommit (sti_epoch t) (sti_sequence t)) w"
    using False v
    by (simp add: file_append_commit_def fault_gate_def file_consume_fault_def append_frames_def w_def
        commit_frame_def t_def Let_def)
  have "emits l (commit_frame l v t) w" by (simp add: w_def emits_converted emits_write_frame)
  from assms(2) [unfolded eq] this show thesis
    by (rule append_frames_cases) (rule torn [OF _ v], assumption+, rule appended [OF v], assumption+)
qed

section \<open>Page appends\<close>

definition page_of :: "unlogged_page \<Rightarrow> file_page_record" where
  "page_of page = \<lparr>fp_page_number = pa_number (up_address page), fp_page_version = up_version page,
     fp_bytes = image_bytes (up_image page)\<rparr>"

definition page_group_bytes ::
  "file_log \<Rightarrow> page_layout \<Rightarrow> u64 \<Rightarrow> unlogged_page \<Rightarrow> stored_transaction_identity option \<Rightarrow> u8 list" where
  "page_group_bytes l layout v page owner = concat (page_frames (fl_format l) layout v (page_of page) owner)"

definition page_accepted ::
  "usize \<Rightarrow> unlogged_page \<Rightarrow> file_log \<Rightarrow> page_layout \<Rightarrow> u64 \<Rightarrow> bool" where
  "page_accepted n page l layout v \<longleftrightarrow> \<not> fl_poisoned l \<and> supports_pages (fl_format l)
     \<and> unat n = length (image_bytes (up_image page)) \<and> fl_lineage l = pa_lineage (up_address page)
     \<and> page_layout_for n = Inr layout \<and> fl_next_position l = Some v"

lemma copy_into_whole: "length new = length bytes \<Longrightarrow> copy_into 0 new bytes = new"
  by (rule nth_equalityI) (simp_all add: copy_into_def)

definition write_page_group ::
  "file_io \<Rightarrow> page_layout \<Rightarrow> u64 \<Rightarrow> unlogged_page \<Rightarrow> stored_transaction_identity option \<Rightarrow> file_log
     \<Rightarrow> (file_log_error + unit) \<times> file_log" where
  "write_page_group io layout v page owner l =
     chain (converted FileLogIo (write_frame io (build_frame (fl_format l) (page_header_kind owner) v
         (page_number_get (pa_number (up_address page))) (image_version_get (up_version page)))
         (if owner = None then StageWritePageHeaderFrame else StageWriteTransactionPageHeaderFrame) True l)) (\<lambda>_ l.
     chain (write_owner io v owner l) (\<lambda>_ l.
     write_page_data io layout v (image_bytes (up_image page)) [0..<pl_chunk_count layout] l))"

lemma emits_page_group: "emits l (page_group_bytes l layout v page owner) (write_page_group io layout v page owner l)"
proof -
  let ?header = "build_frame (fl_format l) (page_header_kind owner) v
    (page_number_get (pa_number (up_address page))) (image_version_get (up_version page))"
  let ?owner = "concat (owner_frames (fl_format l) v owner)"
  let ?data = "concat (map (data_frame (fl_format l) layout v (image_bytes (up_image page)))
    [0..<pl_chunk_count layout])"
  have "emits l1 ?owner (write_owner io v owner l1)" if "fl_format l1 = fl_format l" for l1
    using emits_owner [of l1 v owner io] that by simp
  moreover have "emits l1 ?data (write_page_data io layout v (image_bytes (up_image page))
      [0..<pl_chunk_count layout] l1)" if "fl_format l1 = fl_format l" for l1
    using emits_page_data [of l1 layout v "image_bytes (up_image page)"] that by simp
  ultimately have "emits l (?header @ ?owner @ ?data) (write_page_group io layout v page owner l)"
    unfolding write_page_group_def
    by (auto intro!: emits_chain simp: emits_converted emits_write_frame)
  then show ?thesis by (simp add: page_group_bytes_def page_frames_def page_of_def)
qed

lemma append_page_effect:
  assumes "append_page_group io reserve n page owner l = (r, l')"
  obtains (rejected) "rejected l (r, l')"
  | (torn) e layout v where "r = Inl e" and "page_accepted n page l layout v"
      and "torn_write l (page_group_bytes l layout v page owner) l'"
  | (appended) layout v where "page_accepted n page l layout v"
      and "appended l v (page_record_kind owner (page_of page)) (page_group_bytes l layout v page owner) l'"
      and "r = Inr (lineage_position (fl_lineage l) v) \<or> r = Inl (FileLogInjectedFault FileAfterAppend)"
proof (cases "(\<exists>layout v. page_accepted n page l layout v) \<and> fl_armed_fault l \<noteq> Some FileBeforeAppend
    \<and> reserve (length (fl_records l))")
  case False
  have "rejected l (append_page_group io reserve n page owner l)"
    using False
    by (auto simp: append_page_group_def page_accepted_def fault_gate_def file_consume_fault_def rejected_gate
        with_result_def ensure_def ok_or_def map_err_def Let_def split: sum.splits option.splits)
  with assms rejected show thesis by simp
next
  case True
  then obtain layout v where acc: "page_accepted n page l layout v" by blast
  have stored: "copy_into 0 bytes (replicate (length bytes) 0) = bytes" for bytes
    by (rule copy_into_whole) simp
  have gate: "fault_gate FileBeforeAppend () l = (Inr (), l)"
    using True by (simp add: fault_gate_def file_consume_fault_def)
  have eq: "append_page_group io reserve n page owner l
      = append_frames v (page_record_kind owner (page_of page)) (write_page_group io layout v page owner l)"
    using True acc
    by (cases owner) (simp_all add: append_page_group_def page_accepted_def gate stored
        append_frames_def write_page_group_def chain_assoc page_header_kind_def page_of_def Let_def)
  from assms [unfolded eq] emits_page_group show thesis
    by (rule append_frames_cases) (rule torn [OF _ acc], assumption+, rule appended [OF acc], assumption+)
qed

section \<open>Flush and epochs\<close>

lemma file_record_index_Some:
  assumes "file_record_index p rs = Some i"
  shows "i < length rs" and "flr_position (rs ! i) = p"
  using assms by (induction rs arbitrary: i) (auto split: if_splits)

definition marker_frame :: "file_log \<Rightarrow> u64 \<Rightarrow> u8 list" where
  "marker_frame l v = build_frame (fl_format l) DurableThrough v 0 0"

definition epoch_frame :: "file_log \<Rightarrow> u64 \<Rightarrow> u8 list" where
  "epoch_frame l v = build_frame (fl_format l) EpochAllocation v 0 0"

lemma torn_writeI:
  assumes "synced = fl_synced l \<or> synced = length (fl_contents l)"
  shows "torn_write l new (l\<lparr>fl_armed_fault := armed, fl_synced := synced,
    fl_contents := fl_contents l @ take k new, fl_poisoned := True\<rparr>)"
  using assms unfolding torn_write_def by blast

lemma torn_whole:
  assumes "synced = fl_synced l \<or> synced = length (fl_contents l)"
  shows "torn_write l new (l\<lparr>fl_armed_fault := armed, fl_synced := synced,
    fl_contents := fl_contents l @ new, fl_poisoned := True\<rparr>)"
  using torn_writeI [OF assms, where new = new and armed = armed and k = "length new"] by simp

text \<open>A frame written and synchronized, before what follows it: it may stop torn or unsynchronized.\<close>

lemma write_sync_cases:
  assumes "chain (converted g (write_frame io frame stage True l)) (\<lambda>_ l.
      chain (converted g (sync_file io stage' True l)) f) = (r, l')"
  obtains (torn) e where "r = Inl e" and "torn_write l frame l'"
  | (written) "f () (l\<lparr>fl_contents := fl_contents l @ frame,
        fl_synced := length (fl_contents l @ frame)\<rparr>) = (r, l')"
proof (cases "io stage (length (fl_contents l))")
  case (Some failure)
  obtain source k where "failure = (source, k)" by (cases failure)
  with assms Some have "r = Inl (g (io_failure stage source))"
    "l' = l\<lparr>fl_contents := fl_contents l @ take k frame, fl_poisoned := True\<rparr>"
    by (auto simp: write_frame_def Let_def)
  then show thesis
    using torn torn_writeI [where synced = "fl_synced l" and l = l and new = frame and armed = "fl_armed_fault l" and k = k]
    by simp
next
  case None
  show thesis
  proof (cases "io stage' (length (fl_contents l @ frame))")
    case (Some failure)
    obtain source k where "failure = (source, k)" by (cases failure)
    with assms None Some have "r = Inl (g (io_failure stage' source))"
      "l' = l\<lparr>fl_contents := fl_contents l @ frame, fl_poisoned := True\<rparr>"
      by (auto simp: write_frame_def sync_file_def)
    then show thesis
      using torn torn_whole [where synced = "fl_synced l" and l = l and new = frame and armed = "fl_armed_fault l"]
      by simp
  next
    case sync: None
    with assms None written show thesis by (simp add: write_frame_def sync_file_def)
  qed
qed

lemma torn_after_sync:
  assumes "torn_write (l\<lparr>fl_synced := length (fl_contents l)\<rparr>) new l'"
  shows "torn_write l new l'"
  using assms by (auto simp: torn_write_def)

lemma allocate_epoch_effect:
  assumes "allocate_transaction_epoch_frame io l = (r, l')"
  obtains (rejected) "rejected l (r, l')"
  | (torn) e v where "r = Inl e" and "\<not> fl_poisoned l" and "fl_next_epoch l = Some v"
      and "torn_write l (epoch_frame l v) l'"
  | (allocated) v where "r = Inr (v, fl_lineage l)" and "\<not> fl_poisoned l" and "fl_next_epoch l = Some v"
      and "l' = l\<lparr>fl_contents := fl_contents l @ epoch_frame l v,
        fl_synced := length (fl_contents l @ epoch_frame l v), fl_next_epoch := next_nonzero v\<rparr>"
proof (cases "\<not> fl_poisoned l \<and> fl_next_epoch l \<noteq> None")
  case False
  then have "rejected l (allocate_transaction_epoch_frame io l)"
    by (auto simp: allocate_transaction_epoch_frame_def with_result_def split: sum.splits)
  with assms rejected show thesis by simp
next
  case True
  then obtain v where v: "\<not> fl_poisoned l" "fl_next_epoch l = Some v" by auto
  with assms have "chain (converted FileEpochIo (write_frame io (epoch_frame l v) StageWriteEpochFrame True l))
    (\<lambda>_ l. chain (converted FileEpochIo (sync_file io StageSyncEpochFrame True l))
      (\<lambda>_ l. (Inr (v, fl_lineage l), l\<lparr>fl_next_epoch := next_nonzero v\<rparr>))) = (r, l')"
    by (simp add: allocate_transaction_epoch_frame_def epoch_frame_def)
  then show thesis
  proof (cases rule: write_sync_cases)
    case (torn e)
    with v show ?thesis by (intro that(2)) simp_all
  next
    case written
    then have "r = Inr (v, fl_lineage l)" "l' = l\<lparr>fl_contents := fl_contents l @ epoch_frame l v,
        fl_synced := length (fl_contents l @ epoch_frame l v), fl_next_epoch := next_nonzero v\<rparr>"
      by auto
    with v show ?thesis by (intro that(3))
  qed
qed

text \<open>The part of a flush after the prefix is synchronized.\<close>

definition flush_tail ::
  "file_io \<Rightarrow> log_sequence_number \<Rightarrow> nat \<Rightarrow> file_log \<Rightarrow> (file_log_error + unit) \<times> file_log" where
  "flush_tail io p i l =
     chain (converted FileLogIo (write_frame io (marker_frame l (lsn_value p)) StageWriteDurableMarker True l))
       (\<lambda>_ l. chain (converted FileLogIo (sync_file io StageSyncDurableMarker True l))
         (\<lambda>_ l. fault_gate FileAfterFlush () (l\<lparr>fl_durable_len := i + 1\<rparr>)))"

definition flushed_log :: "file_log \<Rightarrow> u64 \<Rightarrow> nat \<Rightarrow> file_fault_point option \<Rightarrow> file_log" where
  "flushed_log l v i armed = l\<lparr>fl_armed_fault := armed, fl_contents := fl_contents l @ marker_frame l v,
     fl_synced := length (fl_contents l @ marker_frame l v), fl_durable_len := i + 1\<rparr>"

lemma marker_frame_synced: "marker_frame (l\<lparr>fl_synced := k\<rparr>) v = marker_frame l v"
  by (simp add: marker_frame_def)

lemma flushed_log_synced:
  "flushed_log (l\<lparr>fl_synced := k\<rparr>) v i armed = flushed_log l v i armed"
  by (cases l) (simp add: flushed_log_def marker_frame_def)

lemma flush_tail_cases:
  assumes "flush_tail io p i l = (r, l')"
  obtains (torn) e where "r = Inl e" and "torn_write l (marker_frame l (lsn_value p)) l'"
  | (flushed) armed where "r = Inr () \<or> r = Inl (FileLogInjectedFault FileAfterFlush)"
      and "l' = flushed_log l (lsn_value p) i armed"
  using assms unfolding flush_tail_def
proof (cases rule: write_sync_cases)
  case (torn e)
  then show thesis by (rule that(1))
next
  case written
  let ?final = "l\<lparr>fl_contents := fl_contents l @ marker_frame l (lsn_value p),
    fl_synced := length (fl_contents l @ marker_frame l (lsn_value p))\<rparr>\<lparr>fl_durable_len := i + 1\<rparr>"
  show thesis
  proof (cases rule: fault_gate_cases [of FileAfterFlush "()" ?final])
    case fired
    with written have "(Inl (FileLogInjectedFault FileAfterFlush), ?final\<lparr>fl_armed_fault := None\<rparr>) = (r, l')"
      by (simp only:)
    then show thesis by (intro flushed [of None]) (auto simp: flushed_log_def)
  next
    case quiet
    with written have "(Inr (), ?final) = (r, l')" by (simp only:)
    then show thesis by (intro flushed [of "fl_armed_fault l"]) (auto simp: flushed_log_def)
  qed
qed

definition flush_ready :: "log_sequence_number \<Rightarrow> nat \<Rightarrow> file_log \<Rightarrow> bool" where
  "flush_ready p i l \<longleftrightarrow> \<not> fl_poisoned l \<and> fl_lineage l = lsn_lineage p
     \<and> file_record_index p (fl_records l) = Some i"

lemma flush_refused:
  assumes "\<And>i. \<not> flush_ready p i l"
  shows "rejected l (file_flush_through io p l)"
proof (cases "fl_poisoned l")
  case False
  show ?thesis
  proof (cases "same_lineage (fl_lineage l) (lsn_lineage p)")
    case True
    have "file_record_index p (fl_records l) = None"
    proof (rule ccontr)
      assume "file_record_index p (fl_records l) \<noteq> None"
      then obtain i where "flush_ready p i l" using False True by (auto simp: flush_ready_def)
      with assms show False by simp
    qed
    with False True show ?thesis by (simp add: file_flush_through_def del: same_lineage_iff)
  qed (use False in \<open>simp add: file_flush_through_def del: same_lineage_iff\<close>)
qed (simp add: file_flush_through_def)

lemma flush_ready_eval:
  assumes "flush_ready p i l"
  shows "file_flush_through io p l =
    (if i + 1 \<le> fl_durable_len l then (Inr (), l)
     else chain (fault_gate FileBeforeFlush () l) (\<lambda>_ l.
          chain (converted FileLogIo (sync_file io StageSyncCommitPrefix False l)) (\<lambda>_ l. flush_tail io p i l)))"
  using assms
  by (simp add: flush_ready_def file_flush_through_def flush_tail_def marker_frame_def Let_def)

lemma flush_start_cases:
  assumes "chain (fault_gate FileBeforeFlush () l) (\<lambda>_ l.
      chain (converted FileLogIo (sync_file io StageSyncCommitPrefix False l)) f) = (r, l')"
  obtains (rejected) "rejected l (r, l')"
  | (synced) "f () (l\<lparr>fl_synced := length (fl_contents l)\<rparr>) = (r, l')"
proof (cases rule: fault_gate_cases [of FileBeforeFlush "()" l])
  case fired
  have "rejected l (r, l')" unfolding assms [symmetric] fired by (simp add: rejected_gate)
  then show thesis by (rule rejected)
next
  case quiet
  show thesis
  proof (cases "io StageSyncCommitPrefix (length (fl_contents l))")
    case (Some failure)
    have "rejected l (r, l')"
      unfolding assms [symmetric] quiet by (cases failure) (simp add: sync_file_def Some)
    then show thesis by (rule rejected)
  next
    case None
    have "f () (l\<lparr>fl_synced := length (fl_contents l)\<rparr>) = (r, l')"
      unfolding assms [symmetric] quiet by (simp add: sync_file_def None)
    then show thesis by (rule synced)
  qed
qed

lemma flush_effect:
  assumes "file_flush_through io p l = (r, l')"
  obtains (rejected) "rejected l (r, l')"
  | (covered) i where "r = Inr ()" and "l' = l" and "flush_ready p i l" and "i < fl_durable_len l"
  | (torn) e i where "r = Inl e" and "flush_ready p i l" and "fl_durable_len l \<le> i"
      and "torn_write l (marker_frame l (lsn_value p)) l'"
  | (flushed) i armed where "r = Inr () \<or> r = Inl (FileLogInjectedFault FileAfterFlush)"
      and "flush_ready p i l" and "fl_durable_len l \<le> i" and "l' = flushed_log l (lsn_value p) i armed"
proof (cases "\<exists>i. flush_ready p i l")
  case False
  then have "rejected l (r, l')"
    unfolding assms [symmetric] using flush_refused by blast
  then show thesis by (rule rejected)
next
  case True
  then obtain i where ready: "flush_ready p i l" by blast
  show thesis
  proof (cases "i < fl_durable_len l")
    case True
    have "(r, l') = (Inr (), l)"
      unfolding assms [symmetric] flush_ready_eval [OF ready] using True by simp
    then show thesis by (intro covered [OF _ _ ready True]) (simp_all only: prod.inject)
  next
    case False
    then have "fl_durable_len l \<le> i" by simp
    have "chain (fault_gate FileBeforeFlush () l) (\<lambda>_ l.
        chain (converted FileLogIo (sync_file io StageSyncCommitPrefix False l)) (\<lambda>_. flush_tail io p i)) = (r, l')"
      unfolding assms [symmetric] flush_ready_eval [OF ready] using False by simp
    then show thesis
    proof (cases rule: flush_start_cases)
      case rejected
      then show thesis by (rule that(1))
    next
      case synced
      from synced show thesis
      proof (cases rule: flush_tail_cases)
        case (torn e)
        note torn_after_sync [OF torn(2) [unfolded marker_frame_synced]]
        with torn(1) show thesis by (rule that(3) [OF _ ready \<open>fl_durable_len l \<le> i\<close>])
      next
        case (flushed armed)
        from flushed(2) have "l' = flushed_log l (lsn_value p) i armed"
          unfolding flushed_log_synced .
        with flushed(1) show thesis by (rule that(4) [OF _ ready \<open>fl_durable_len l \<le> i\<close>])
      qed
    qed
  qed
qed

end
