(* ===== verification/File_Log_Preserves.thy ===== *)
theory File_Log_Preserves
  imports File_Log_Effects
begin

text \<open>
  Every operation of the file log keeps its invariant, whatever the operating system does and
  wherever a write stops, as long as callers pass the identities and pages they may pass.
\<close>

section \<open>The scanned state of a log\<close>

lemma scans_to_fixed:
  assumes "scans_to x n l h s s0"
  shows "os_lineage s = fl_lineage l" and "os_page_layout s = expectation_page_layout x"
proof -
  have "oh_retained_first h \<noteq> Some 0"
    using assms read_log_header_retained by (auto simp: scans_to_def)
  then have wf: "open_state_wf (initial_open_state (expectation_page_layout x) h)"
    by (rule initial_state_wf)
  have "scan_log x n h (fl_contents l) = Inr s" using assms by (simp add: scans_to_def)
  then have "open_state_le (initial_open_state (expectation_page_layout x) h) s"
    unfolding scan_log_def using wf by (rule scan_le)
  moreover have "header_matches h l" using assms by (simp add: scans_to_def)
  ultimately show "os_lineage s = fl_lineage l" "os_page_layout s = expectation_page_layout x"
    by (simp_all add: open_state_le_def initial_open_state_def open_state_new_def header_matches_def Let_def)
qed

lemma scans_to_exact:
  assumes "scans_to x n l h s s0" and "\<not> fl_poisoned l"
  shows "os_records s = fl_records l" and "os_durable_len s = fl_durable_len l"
    and "os_next_epoch s = fl_next_epoch l" and "os_next_position s = fl_next_position l"
    and "os_pending_page s = None" and "open_state_wf s" and "header_matches h l"
  using assms scans_to_wf(1) [OF assms(1)] by (simp_all add: scans_to_def log_matches_def)

lemma rejected_inv:
  assumes "file_log_inv x n l" and "rejected l (r, l')"
  shows "file_log_inv x n l'"
  using assms armed_fault_inv by (auto simp: rejected_def)

text \<open>
  The common case: the frames are accepted by a scan, and the log they lead to is the state
  that scan ends in.
\<close>

lemma accepted_append_inv:
  assumes "scans_to x n l h s s0" and "\<not> fl_poisoned l"
    and "scan (unat n) (fl_format l) (length (fl_contents l)) new s
      = Inr (s\<lparr>os_last_completed_position := v, os_next_position := checked_add v 1,
               os_records := os_records s @ [\<lparr>flr_position = lineage_position (fl_lineage l) v, flr_kind = kind\<rparr>]\<rparr>)"
    and "frame_length dvd length new" and "appended l v kind new l'"
  shows "file_log_inv x n l'"
proof -
  note exact = scans_to_exact [OF assms(1,2)]
  obtain armed where "l' = file_push_record v kind (l\<lparr>fl_armed_fault := armed, fl_contents := fl_contents l @ new\<rparr>)"
    using assms(5) by (auto simp: appended_def)
  then show ?thesis
    using exact by (intro complete_write_inv [OF assms(1-4)])
      (simp_all add: file_push_record_def header_matches_def log_matches_def assms(2))
qed

section \<open>Commits\<close>

definition commit_allowed :: "file_log \<Rightarrow> transaction_commit_record \<Rightarrow> bool" where
  "commit_allowed l c \<longleftrightarrow> identity_issued (fl_next_epoch l) (stored_identity_of (commit_record_id c))
     \<and> commit_fresh (stored_identity_of (commit_record_id c)) (fl_records l)"

lemma commit_scan:
  assumes "scans_to x n l h s s0" and "\<not> fl_poisoned l" and "fl_next_position l = Some v"
    and "identity_issued (fl_next_epoch l) t" and "commit_fresh t (fl_records l)"
  shows "scan (unat n) (fl_format l) (length (fl_contents l)) (commit_frame l v t) s
    = Inr (s\<lparr>os_last_completed_position := v, os_next_position := checked_add v 1,
             os_records := os_records s @ [\<lparr>flr_position = lineage_position (fl_lineage l) v,
               flr_kind = FileTransactionCommit (sti_epoch t) (sti_sequence t)\<rparr>]\<rparr>)"
proof -
  note exact = scans_to_exact [OF assms(1,2)]
  have "scan_step (unat n) (fl_format l) (length (fl_contents l)) (commit_frame l v t) s
    = Inr (s\<lparr>os_records := os_records s @ [\<lparr>flr_position = lineage_position (os_lineage s) v,
                 flr_kind = FileTransactionCommit (sti_epoch t) (sti_sequence t)\<rparr>],
             os_last_completed_position := v, os_next_position := checked_add v 1\<rparr>)"
    unfolding commit_frame_def
    by (rule step_commit) (use exact assms(3-5) in simp_all)
  then show ?thesis by (simp add: scan_one commit_frame_def scans_to_fixed(1) [OF assms(1)])
qed

lemma append_commit_inv:
  assumes "file_log_inv x n l" and "commit_allowed l c" and "file_append_commit io reserve c l = (r, l')"
  shows "file_log_inv x n l'"
proof -
  obtain h s s0 where scans: "scans_to x n l h s s0" using assms(1) by (auto simp: file_log_inv_def)
  have allowed: "identity_issued (fl_next_epoch l) (stored_identity_of (commit_record_id c))"
    "commit_fresh (stored_identity_of (commit_record_id c)) (fl_records l)"
    using assms(2) by (simp_all add: commit_allowed_def)
  from assms(3) show ?thesis
  proof (cases rule: append_commit_effect)
    case rejected
    then show ?thesis by (rule rejected_inv [OF assms(1)])
  next
    case (torn e v)
    show ?thesis
      by (rule torn_write_inv [OF scans torn(2) commit_scan [OF scans torn(2,3) allowed] torn(4)])
  next
    case (appended v)
    show ?thesis
      by (rule accepted_append_inv [OF scans appended(1) commit_scan [OF scans appended(1,2) allowed] _ appended(3)])
        (simp add: commit_frame_def)
  qed
qed

section \<open>Pages\<close>

definition page_allowed :: "file_log \<Rightarrow> unlogged_page \<Rightarrow> stored_transaction_identity option \<Rightarrow> bool" where
  "page_allowed l page owner \<longleftrightarrow> page_number_get (pa_number (up_address page)) \<noteq> 0
     \<and> owner_issued (fl_next_epoch l) owner
     \<and> (owner \<noteq> None \<longrightarrow> supports_transaction_pages (fl_format l))"

lemma page_group_scan:
  assumes "scans_to x n l h s s0" and "page_accepted n page l layout v" and "page_allowed l page owner"
  shows "scan (unat n) (fl_format l) (length (fl_contents l)) (page_group_bytes l layout v page owner) s
    = Inr (s\<lparr>os_last_completed_position := v, os_next_position := checked_add v 1,
             os_records := os_records s @ [\<lparr>flr_position = lineage_position (fl_lineage l) v,
               flr_kind = page_record_kind owner (page_of page)\<rparr>]\<rparr>)"
proof -
  have accepted: "\<not> fl_poisoned l" "supports_pages (fl_format l)" "unat n = length (fp_bytes (page_of page))"
    "page_layout_for n = Inr layout" "fl_next_position l = Some v"
    using assms(2) by (simp_all add: page_accepted_def page_of_def)
  note exact = scans_to_exact [OF assms(1) accepted(1)] and fixed = scans_to_fixed [OF assms(1)]
  have "width_agrees x n (fl_format l)" using assms(1) by (simp add: scans_to_def)
  then have "os_page_layout s = Some layout"
    using accepted fixed by (auto simp: width_agrees_def)
  then show ?thesis
    unfolding page_group_bytes_def fixed(1) [symmetric] page_log_record_def [symmetric]
    by (intro scan_page_frames)
      (use exact accepted assms(3) layout_for_covers [OF accepted(4)] in
        \<open>simp_all add: page_allowed_def page_of_def owner_supported_def\<close>)
qed

lemma page_group_aligned: "frame_length dvd length (page_group_bytes l layout v page owner)"
proof -
  have "\<forall>frame \<in> set (page_frames (fl_format l) layout v (page_of page) owner). length frame = frame_length"
    by (auto simp: page_frames_def owner_frames_def data_frame_def split: option.splits)
  then have "length (concat (page_frames (fl_format l) layout v (page_of page) owner))
      = length (page_frames (fl_format l) layout v (page_of page) owner) * frame_length"
    by (induction "page_frames (fl_format l) layout v (page_of page) owner" rule: list.induct)
      (auto simp: length_concat sum_list_triv cong: map_cong)
  then show ?thesis by (simp add: page_group_bytes_def)
qed

lemma append_page_group_inv:
  assumes "file_log_inv x n l" and "page_allowed l page owner"
    and "append_page_group io reserve n page owner l = (r, l')"
  shows "file_log_inv x n l'"
proof -
  obtain h s s0 where scans: "scans_to x n l h s s0" using assms(1) by (auto simp: file_log_inv_def)
  from assms(3) show ?thesis
  proof (cases rule: append_page_effect)
    case rejected
    then show ?thesis by (rule rejected_inv [OF assms(1)])
  next
    case (torn e layout v)
    then have "\<not> fl_poisoned l" by (simp add: page_accepted_def)
    then show ?thesis
      by (rule torn_write_inv [OF scans _ page_group_scan [OF scans torn(2) assms(2)] torn(3)])
  next
    case (appended layout v)
    then have "\<not> fl_poisoned l" by (simp add: page_accepted_def)
    then show ?thesis
      by (rule accepted_append_inv [OF scans _ page_group_scan [OF scans appended(1) assms(2)]
            page_group_aligned appended(2)])
  qed
qed

lemma append_page_inv:
  assumes "file_log_inv x n l" and "page_number_get (pa_number (up_address page)) \<noteq> 0"
    and "file_append_page io reserve n page l = (r, l')"
  shows "file_log_inv x n l'"
  using assms(1)
  by (rule append_page_group_inv [where owner = None and page = page and io = io and reserve = reserve and r = r])
    (use assms in \<open>simp_all add: file_append_page_def page_allowed_def owner_issued_def\<close>)

definition owned_page_allowed :: "file_log \<Rightarrow> transaction_page_write_record \<Rightarrow> bool" where
  "owned_page_allowed l w \<longleftrightarrow> page_number_get (pa_number (up_address (tw_page w))) \<noteq> 0
     \<and> identity_issued (fl_next_epoch l) (stored_identity_of (tw_transaction_id w))"

lemma file_append_transaction_page_inv:
  assumes "file_log_inv x n l" and "owned_page_allowed l w"
    and "file_append_transaction_page io reserve n w l = (r, l')"
  shows "file_log_inv x n l'"
proof (cases "supports_transaction_pages (fl_format l)")
  case True
  then have "append_page_group io reserve n (tw_page w) (Some (stored_identity_of (tw_transaction_id w))) l = (r, l')"
    using assms(3) by (simp add: file_append_transaction_page_def)
  then show ?thesis
    by (rule append_page_group_inv [OF assms(1), rotated])
      (use assms(2) True in \<open>simp add: page_allowed_def owner_issued_def owned_page_allowed_def\<close>)
qed (use assms in \<open>simp add: file_append_transaction_page_def\<close>)

section \<open>Flushes and epochs\<close>

lemma flush_inv:
  assumes "file_log_inv x n l" and "file_flush_through io p l = (r, l')"
  shows "file_log_inv x n l'"
proof -
  obtain h s s0 where scans: "scans_to x n l h s s0" using assms(1) by (auto simp: file_log_inv_def)
  have scan_marker: "scan (unat n) (fl_format l) (length (fl_contents l)) (marker_frame l (lsn_value p)) s
      = Inr (s\<lparr>os_durable_len := i + 1, os_last_durable_position := Some (lsn_value p)\<rparr>)"
    and live: "\<not> fl_poisoned l"
    if "flush_ready p i l" "fl_durable_len l \<le> i" for i
  proof -
    have ready: "\<not> fl_poisoned l" "file_record_index p (fl_records l) = Some i"
      using that(1) by (simp_all add: flush_ready_def)
    note index = file_record_index_Some [OF ready(2)] and exact = scans_to_exact [OF scans ready(1)]
    have "scan_step (unat n) (fl_format l) (length (fl_contents l))
        (build_frame (fl_format l) DurableThrough (flr_value (os_records s ! i)) 0 0) s
      = Inr (s\<lparr>os_durable_len := i + 1, os_last_durable_position := Some (flr_value (os_records s ! i))\<rparr>)"
      by (rule step_marker) (use exact index that(2) in simp_all)
    then show "scan (unat n) (fl_format l) (length (fl_contents l)) (marker_frame l (lsn_value p)) s
      = Inr (s\<lparr>os_durable_len := i + 1, os_last_durable_position := Some (lsn_value p)\<rparr>)"
      using exact(1) index by (simp add: scan_one marker_frame_def)
    show "\<not> fl_poisoned l" by (rule ready(1))
  qed
  from assms(2) show ?thesis
  proof (cases rule: flush_effect)
    case rejected
    then show ?thesis by (rule rejected_inv [OF assms(1)])
  next
    case (covered i)
    with assms(1) show ?thesis by simp
  next
    case (torn e i)
    show ?thesis by (rule torn_write_inv [OF scans live [OF torn(2,3)] scan_marker [OF torn(2,3)] torn(4)])
  next
    case (flushed i armed)
    note exact = scans_to_exact [OF scans live [OF flushed(2,3)]]
    show ?thesis
      by (rule complete_write_inv [OF scans live [OF flushed(2,3)] scan_marker [OF flushed(2,3)]])
        (use exact live [OF flushed(2,3)] in
          \<open>simp_all add: flushed(4) flushed_log_def marker_frame_def header_matches_def log_matches_def\<close>)
  qed
qed

lemma allocate_epoch_inv:
  assumes "file_log_inv x n l" and "allocate_transaction_epoch_frame io l = (r, l')"
  shows "file_log_inv x n l'"
proof -
  obtain h s s0 where scans: "scans_to x n l h s s0" using assms(1) by (auto simp: file_log_inv_def)
  have scan_epoch: "scan (unat n) (fl_format l) (length (fl_contents l)) (epoch_frame l v) s
      = Inr (s\<lparr>os_highest_allocated_epoch := v, os_next_epoch := next_nonzero v\<rparr>)"
    if "\<not> fl_poisoned l" "fl_next_epoch l = Some v" for v
  proof -
    note exact = scans_to_exact [OF scans that(1)]
    have "scan_step (unat n) (fl_format l) (length (fl_contents l))
        (build_frame (fl_format l) EpochAllocation v 0 0) s
      = Inr (s\<lparr>os_highest_allocated_epoch := v, os_next_epoch := next_nonzero v\<rparr>)"
      by (rule step_epoch) (use exact that(2) in simp_all)
    then show ?thesis by (simp add: scan_one epoch_frame_def)
  qed
  from assms(2) show ?thesis
  proof (cases rule: allocate_epoch_effect)
    case rejected
    then show ?thesis by (rule rejected_inv [OF assms(1)])
  next
    case (torn e v)
    show ?thesis by (rule torn_write_inv [OF scans torn(2) scan_epoch [OF torn(2,3)] torn(4)])
  next
    case (allocated v)
    note exact = scans_to_exact [OF scans allocated(2)]
    show ?thesis
      by (rule complete_write_inv [OF scans allocated(2) scan_epoch [OF allocated(2,3)]])
        (use exact allocated(2) in
          \<open>simp_all add: allocated(4) epoch_frame_def header_matches_def log_matches_def\<close>)
  qed
qed

lemma allocate_restart_epoch_inv:
  assumes "file_log_inv x n l" and "file_allocate_restart_epoch io persisted l = (r, l')"
  shows "file_log_inv x n l'"
proof (cases "l' = l")
  case False
  have "snd (allocate_transaction_epoch_frame io l) = l'"
    using assms(2) False
    by (auto simp: file_allocate_restart_epoch_def with_result_def converted_def split: sum.splits)
  then show ?thesis using allocate_epoch_inv [OF assms(1)] by (metis prod.collapse)
qed (use assms(1) in simp)

lemma arm_fault_inv:
  assumes "file_log_inv x n l" and "file_arm_fault fault l = (r, l')"
  shows "file_log_inv x n l'"
  using assms armed_fault_inv by (auto simp: file_arm_fault_def split: option.splits)

end
