(* ===== verification/File_Log_Recovery.thy ===== *)
theory File_Log_Recovery
  imports File_Log_Preserves
begin

text \<open>
  Opening a file log again: after a crash that kept any prefix of the file including what was
  synchronized, the opened log satisfies the invariant and has every durable record, and a file
  that lost nothing opens to the log that was writing it.
\<close>

section \<open>Opening with a working system\<close>

definition openable :: "log_path \<Rightarrow> reclamation_candidate \<Rightarrow> bool" where
  "openable path entry \<longleftrightarrow> lp_has_parent path \<and> (lp_has_file_name path \<longrightarrow> entry \<noteq> CandidateAlias)"

definition cleaned :: "log_path \<Rightarrow> reclamation_candidate \<Rightarrow> reclamation_candidate" where
  "cleaned path entry = (if lp_has_file_name path then CandidateAbsent else entry)"

definition repaired_length :: "opened_header \<Rightarrow> u8 list \<Rightarrow> open_state \<Rightarrow> u64 option" where
  "repaired_length h bytes s =
     (case os_pending_page s of
        Some p \<Rightarrow> Some (pp_header_offset p)
      | None \<Rightarrow> if 0 < (length bytes - oh_length h) mod frame_length
          then Some (of_nat (oh_length h + (length bytes - oh_length h) div frame_length * frame_length)) else None)"

lemma inspect_working:
  assumes "read_log_header working_io x bytes = Inr h" and "scan_log x n h bytes = Inr s"
    and "header_checks h s" and "lp_has_parent path"
  shows "inspect_internal working_io (\<lambda>_. True) (unat n) path entry x bytes
    = Inr (opened_log path entry bytes h s, repaired_length h bytes s)"
proof -
  have "check_completed h at s = Inr ()" for at
    using assms(3) by (simp add: header_checks_def check_completed_def)
  then show ?thesis
    using assms
    by (simp add: inspect_internal_def open_parent_directory_def scan_log_def header_checks_def
        repaired_length_def Let_def)
qed

lemma cleanup_working:
  assumes "openable (fl_path l) (fl_candidate l)"
  shows "cleanup_reclamation_candidate working_io l
    = Inr (l\<lparr>fl_candidate := cleaned (fl_path l) (fl_candidate l)\<rparr>)"
  using assms
  by (cases "fl_candidate l") (simp_all add: cleanup_reclamation_candidate_def openable_def cleaned_def Let_def)

lemma finish_working:
  assumes "openable path entry"
  shows "finish_open working_io (opened_log path entry bytes h s, repaired)
    = Inr (opened_log path (cleaned path entry)
        (case repaired of None \<Rightarrow> bytes | Some m \<Rightarrow> take (unat m) bytes) h s)"
  using assms
  by (cases repaired) (simp_all add: finish_open_def cleanup_working opened_log_def Let_def)

section \<open>Where the file is cut\<close>

text \<open>
  The file is cut to whole records: what is left scans to the same state without the pending
  page record.
\<close>

definition cut_length :: "opened_header \<Rightarrow> u8 list \<Rightarrow> open_state \<Rightarrow> nat" where
  "cut_length h bytes s = (case repaired_length h bytes s of None \<Rightarrow> length bytes | Some m \<Rightarrow> unat m)"

lemma scan_log_cut:
  assumes "scan_log x n h bytes = Inr s" and "oh_length h \<le> length bytes" and "length bytes < 2 ^ 64"
  shows "scan_log x n h (take (cut_length h bytes s) bytes) = Inr (s\<lparr>os_pending_page := None\<rparr>)"
    and "oh_length h \<le> cut_length h bytes s" and "cut_length h bytes s \<le> length bytes"
    and "frame_length dvd cut_length h bytes s - oh_length h"
proof -
  let ?start = "initial_open_state (expectation_page_layout x) h"
  let ?region = "drop (oh_length h) bytes"
  have fits: "unat (of_nat m :: u64) = m" if "m \<le> length bytes" for m
    using that assms(3) by (simp add: unsigned_of_nat take_bit_nat_eq_self)
  have cut: "scan_log x n h (take m bytes) = scan (unat n) (oh_format h) (oh_length h) (take (m - oh_length h) ?region) ?start"
    for m by (simp add: scan_log_def drop_take)
  have scan: "scan (unat n) (oh_format h) (oh_length h) ?region ?start = Inr s"
    using assms(1) by (simp add: scan_log_def)
  have none: "os_pending_page ?start = None"
    by (simp add: initial_open_state_def open_state_new_def Let_def)
  have "\<exists>j. cut_length h bytes s = oh_length h + j * frame_length \<and> j \<le> length ?region div frame_length
      \<and> scan (unat n) (oh_format h) (oh_length h) (take (j * frame_length) ?region) ?start
        = Inr (s\<lparr>os_pending_page := None\<rparr>)"
  proof (cases "os_pending_page s")
    case (Some p)
    from pending_cut [OF scan none Some] obtain j where j: "j < length ?region div frame_length"
      "pp_header_offset p = of_nat (oh_length h + j * frame_length)"
      "scan (unat n) (oh_format h) (oh_length h) (take (j * frame_length) ?region) ?start
        = Inr (s\<lparr>os_pending_page := None\<rparr>)" by blast
    have "j * frame_length \<le> length ?region"
      using j(1) by (metis div_times_less_eq_dividend less_imp_le mult_le_mono1 order_trans)
    then have "unat (pp_header_offset p) = oh_length h + j * frame_length"
      unfolding j(2) using assms(2) by (intro fits) simp
    with Some j show ?thesis
      by (intro exI [of _ j]) (simp add: cut_length_def repaired_length_def)
  next
    case None
    let ?j = "length ?region div frame_length"
    have same: "s\<lparr>os_pending_page := None\<rparr> = s" using None by (cases s) simp
    have le: "?j * frame_length \<le> length ?region" by (rule div_times_less_eq_dividend)
    have "cut_length h bytes s = oh_length h + ?j * frame_length"
    proof (cases "(length bytes - oh_length h) mod frame_length = 0")
      case True
      then have "?j * frame_length = length ?region" by auto
      with None True assms(2) show ?thesis by (simp add: cut_length_def repaired_length_def)
    next
      case False
      have "oh_length h + ?j * frame_length \<le> length bytes"
        using le assms(2) unfolding length_drop by linarith
      from fits [OF this] None False show ?thesis by (simp add: cut_length_def repaired_length_def)
    qed
    moreover have "scan (unat n) (oh_format h) (oh_length h) (take (?j * frame_length) ?region) ?start = Inr s"
      using scan scan_complete_frames [of "unat n" "oh_format h" "oh_length h" ?region ?start] by simp
    ultimately show ?thesis unfolding same by blast
  qed
  then obtain j where j: "cut_length h bytes s = oh_length h + j * frame_length"
    "j \<le> length ?region div frame_length"
    "scan (unat n) (oh_format h) (oh_length h) (take (j * frame_length) ?region) ?start
        = Inr (s\<lparr>os_pending_page := None\<rparr>)" by blast
  have "j * frame_length \<le> length ?region"
    using j(2) by (metis div_times_less_eq_dividend mult_le_mono1 order_trans)
  with j(1) assms(2) show "oh_length h \<le> cut_length h bytes s" "cut_length h bytes s \<le> length bytes"
    "frame_length dvd cut_length h bytes s - oh_length h" by simp_all
  show "scan_log x n h (take (cut_length h bytes s) bytes) = Inr (s\<lparr>os_pending_page := None\<rparr>)"
    unfolding cut j(1) using j(3) by simp
qed

section \<open>Opening after a crash\<close>

definition log_after_open :: "log_path \<Rightarrow> reclamation_candidate \<Rightarrow> u8 list \<Rightarrow> opened_header \<Rightarrow> open_state \<Rightarrow> file_log" where
  "log_after_open path entry bytes h s =
     opened_log path (cleaned path entry) (take (cut_length h bytes s) bytes) h s"

lemma open_working:
  assumes "read_log_header working_io x bytes = Inr h" and "scan_log x n h bytes = Inr s"
    and "header_checks h s" and "openable path entry"
  shows "open_internal working_io (\<lambda>_. True) (unat n) path entry x bytes = Inr (log_after_open path entry bytes h s)"
proof -
  have "lp_has_parent path" using assms(4) by (simp add: openable_def)
  from inspect_working [OF assms(1-3) this] finish_working [OF assms(4)] show ?thesis
    by (simp add: open_internal_def log_after_open_def cut_length_def split: option.split)
qed

lemma header_checks_pending: "header_checks h (s\<lparr>os_pending_page := p\<rparr>) = header_checks h s"
proof -
  have "first_durable_value (s\<lparr>os_pending_page := p\<rparr>) = first_durable_value s"
    by (simp add: first_durable_value_def)
  then show ?thesis
    by (cases "oh_logical_high_water h") (simp_all add: header_checks_def check_completed_def check_retained_def)
qed

lemma opened_scans:
  assumes "read_log_header working_io x bytes = Inr h" and "scan_log x n h bytes = Inr s"
    and "header_checks h s" and "open_state_wf s" and "width_agrees x n (oh_format h)" and "length bytes < 2 ^ 64"
  shows "scans_to x n (log_after_open path entry bytes h s) h (s\<lparr>os_pending_page := None\<rparr>)
    (s\<lparr>os_pending_page := None\<rparr>)"
proof -
  have len: "oh_length h \<le> length bytes" by (rule read_log_header_length [OF assms(1)])
  note cut = scan_log_cut [OF assms(2) len assms(6)]
  have "read_log_header working_io x (take (cut_length h bytes s) bytes) = Inr h"
    by (rule read_log_header_prefix [OF assms(1)]) (use cut(2,3) in \<open>simp_all add: min_absorb1\<close>)
  moreover have "header_checks h (s\<lparr>os_pending_page := None\<rparr>)"
    using assms(3) by (simp only: header_checks_pending)
  ultimately show ?thesis
    using cut assms(4,5)
    by (simp add: scans_to_def log_after_open_def opened_log_def header_matches_def log_matches_def
        open_state_wf_def Let_def)
qed

text \<open>What a crash leaves: a prefix of the file with everything that was synchronized.\<close>

definition crash_image :: "file_log \<Rightarrow> u8 list \<Rightarrow> bool" where
  "crash_image l bytes \<longleftrightarrow> (\<exists>k. fl_synced l \<le> k \<and> bytes = take k (fl_contents l))"

lemma crash_scan:
  assumes "scans_to x n l h s s0" and "crash_image l bytes"
  obtains s1 where "read_log_header working_io x bytes = Inr h" and "scan_log x n h bytes = Inr s1"
    and "open_state_le s0 s1" and "open_state_le s1 s" and "open_state_wf s1" and "header_checks h s1"
proof -
  obtain k where k: "fl_synced l \<le> k" "bytes = take k (fl_contents l)"
    using assms(2) by (auto simp: crash_image_def)
  let ?start = "initial_open_state (expectation_page_layout x) h"
  note facts = assms(1) [unfolded scans_to_def]
  have "oh_retained_first h \<noteq> Some 0" using facts read_log_header_retained by blast
  then have wf: "open_state_wf ?start" by (rule initial_state_wf)
  have scan: "scan (unat n) (oh_format h) (oh_length h) (drop (oh_length h) (fl_contents l)) ?start = Inr s"
    using facts by (simp add: scan_log_def)
  obtain s1 where s1: "scan_log x n h bytes = Inr s1" "open_state_le s1 s" "open_state_wf s1"
    using scan_prefix [OF scan wf, of "k - oh_length h"] k(2) by (auto simp: scan_log_def drop_take)
  obtain s2 where s2: "scan (unat n) (oh_format h) (oh_length h)
      (take (fl_synced l - oh_length h) (drop (oh_length h) bytes)) ?start = Inr s2" "open_state_le s2 s1"
    using scan_prefix [OF s1(1) [unfolded scan_log_def] wf] by blast
  have "take (fl_synced l - oh_length h) (drop (oh_length h) bytes)
      = drop (oh_length h) (take (fl_synced l) (fl_contents l))"
    using k by (simp add: drop_take min_absorb1 diff_le_mono)
  with s2(1) facts have "s2 = s0" by (simp add: scan_log_def)
  with s2(2) have le: "open_state_le s0 s1" by simp
  have "header_checks h s1" using facts le header_checks_le by blast
  moreover have "read_log_header working_io x bytes = Inr h"
    by (rule read_log_header_prefix [of working_io x "fl_contents l"])
      (use facts k in \<open>auto simp: min_absorb1\<close>)
  ultimately show thesis using that s1 le by blast
qed

lemma durable_after_open:
  assumes "scans_to x n l h s s0" and "open_state_le s0 s1" and "open_state_le s1 s"
  shows "prefix (file_durable_records l) (take (os_durable_len s1) (os_records s1))"
proof -
  note wf = scans_to_wf [OF assms(1)]
  have d: "fl_durable_len l \<le> os_durable_len s0" "fl_durable_len l \<le> length (fl_records l)"
    and records: "prefix (fl_records l) (os_records s)"
    using assms(1) by (simp_all add: scans_to_def)
  have "os_durable_len s0 \<le> length (os_records s0)" using wf(2) by (simp add: open_state_wf_def)
  then have len: "fl_durable_len l \<le> length (os_records s1)"
    using d(1) assms(2) by (auto simp: open_state_le_def dest: prefix_length_le)
  obtain ys zs where "os_records s = fl_records l @ ys" "os_records s = os_records s1 @ zs"
    using records assms(3) by (auto simp: open_state_le_def prefix_def)
  then have "take (fl_durable_len l) (fl_records l) = take (fl_durable_len l) (os_records s1)"
    using d(2) len by (metis append_eq_append_conv_if take_all_iff take_append diff_is_0_eq' take_0 append_Nil2)
  moreover have "fl_durable_len l \<le> os_durable_len s1"
    using d(1) assms(2) by (simp add: open_state_le_def)
  ultimately show ?thesis
    unfolding file_durable_records_def by (metis min_absorb1 take_is_prefix take_take)
qed

end
