(* ===== verification/File_Log_Port.thy ===== *)
theory File_Log_Port
  imports File_Log_Effects
begin

text \<open>
  The file log as a port of the WAL: the contract \<open>fenced_log\<close> of theory \<open>Wal\<close> interpreted on its
  operations, for any behaviour of the operating system and of the allocator.
\<close>

section \<open>The port\<close>

definition file_log_port ::
  "file_io \<Rightarrow> (nat \<Rightarrow> bool) \<Rightarrow> (file_log, file_log_error, transaction_commit_record) commit_log" where
  "file_log_port io reserve =
     \<lparr>port_lineage = fl_lineage, port_flush_through = file_flush_through io,
      port_append_commit = file_append_commit io reserve\<rparr>"

text \<open>The append of a record of any kind, through the method of its kind.\<close>

definition unlogged_of :: "file_log \<Rightarrow> file_page_record \<Rightarrow> unlogged_page" where
  "unlogged_of l page = \<lparr>up_address = page_address_new (fl_lineage l) (fp_page_number page),
     up_version = fp_page_version page, up_image = PageImage (fp_bytes page)\<rparr>"

definition file_append_kind ::
  "file_io \<Rightarrow> (nat \<Rightarrow> bool) \<Rightarrow> usize \<Rightarrow> file_record_kind \<Rightarrow> file_log
     \<Rightarrow> (file_log_error + log_sequence_number) \<times> file_log" where
  "file_append_kind io reserve n kind l =
     (case kind of
        FileTransactionCommit epoch sequence \<Rightarrow> file_append_commit io reserve
          (TransactionCommitRecord \<lparr>tt_epoch = TransactionEpoch epoch, tt_sequence = sequence\<rparr>) l
      | FilePageWrite page \<Rightarrow> file_append_page io reserve n (unlogged_of l page) l
      | FileTransactionPageWrite owned \<Rightarrow> file_append_transaction_page io reserve n
          \<lparr>tw_transaction_id = \<lparr>tt_epoch = TransactionEpoch (ft_transaction_epoch owned),
             tt_sequence = ft_transaction_sequence owned\<rparr>, tw_page = unlogged_of l (ft_page owned)\<rparr> l)"

definition commit_kind :: "transaction_commit_record \<Rightarrow> file_record_kind" where
  "commit_kind c = FileTransactionCommit (epoch_get (tt_epoch (commit_record_id c))) (tt_sequence (commit_record_id c))"

lemma file_append_commit_kind: "file_append_commit io reserve c = file_append_kind io reserve n (commit_kind c)"
proof
  fix l
  obtain e q where "c = TransactionCommitRecord \<lparr>tt_epoch = TransactionEpoch e, tt_sequence = q\<rparr>"
    by (metis epoch_get_def transaction_commit_record.exhaust transaction_epoch.exhaust
        transaction_token_id.cases)
  then show "file_append_commit io reserve c l = file_append_kind io reserve n (commit_kind c) l"
    by (simp add: file_append_kind_def commit_kind_def)
qed

section \<open>What an append does\<close>

lemma append_kind_effect:
  assumes "file_append_kind io reserve n kind l = (r, l')"
  obtains (unchanged) e where "r = Inl e" and "fl_records l' = fl_records l"
      and "fl_durable_len l' = fl_durable_len l" and "fl_lineage l' = fl_lineage l"
      and "fl_next_position l' = fl_next_position l"
  | (appended) v where "fl_next_position l = Some v"
      and "fl_records l' = fl_records l @ [\<lparr>flr_position = lineage_position (fl_lineage l) v, flr_kind = kind\<rparr>]"
      and "fl_durable_len l' = fl_durable_len l" and "fl_lineage l' = fl_lineage l"
      and "fl_next_position l' = checked_add v 1"
      and "r = Inr (lineage_position (fl_lineage l) v) \<or> (\<exists>e. r = Inl e)"
proof -
  note pushed = appended
  have page: thesis
    if "append_page_group io reserve n (unlogged_of l page) owner l = (r, l')"
      and kind: "kind = page_record_kind owner page" for page owner
    using that(1)
  proof (cases rule: append_page_effect)
    case rejected
    then show ?thesis by (auto simp: rejected_def intro: unchanged)
  next
    case (torn e layout v)
    then show ?thesis by (auto simp: torn_write_def intro: unchanged)
  next
    case (appended layout v)
    have "page_of (unlogged_of l page) = page" by (simp add: page_of_def unlogged_of_def page_address_new_def)
    with appended kind show ?thesis
      by (auto simp: appended_def file_push_record_def page_accepted_def intro!: pushed [of v])
  qed
  show thesis
  proof (cases kind)
    case (FileTransactionCommit epoch sequence)
    let ?c = "TransactionCommitRecord \<lparr>tt_epoch = TransactionEpoch epoch, tt_sequence = sequence\<rparr>"
    have "file_append_commit io reserve ?c l = (r, l')"
      using assms FileTransactionCommit by (simp add: file_append_kind_def)
    then show ?thesis
    proof (cases rule: append_commit_effect)
      case rejected
      then show ?thesis by (auto simp: rejected_def intro: unchanged)
    next
      case (torn e v)
      then show ?thesis by (auto simp: torn_write_def intro: unchanged)
    next
      case (appended v)
      with FileTransactionCommit show ?thesis
        by (auto simp: appended_def file_push_record_def stored_identity_of_def intro!: pushed [of v])
    qed
  next
    case (FilePageWrite p)
    with assms have "append_page_group io reserve n (unlogged_of l p) None l = (r, l')"
      by (simp add: file_append_kind_def file_append_page_def)
    with FilePageWrite show ?thesis by (intro page [of p None]) (simp_all add: page_record_kind_def)
  next
    case (FileTransactionPageWrite owned)
    let ?owner = "Some \<lparr>sti_epoch = ft_transaction_epoch owned, sti_sequence = ft_transaction_sequence owned\<rparr>"
    show ?thesis
    proof (cases "supports_transaction_pages (fl_format l)")
      case True
      with assms FileTransactionPageWrite
      have "append_page_group io reserve n (unlogged_of l (ft_page owned)) ?owner l = (r, l')"
        by (simp add: file_append_kind_def file_append_transaction_page_def stored_identity_of_def)
      with FileTransactionPageWrite show ?thesis
        by (intro page [of "ft_page owned" ?owner]) (simp_all add: page_record_kind_def)
    next
      case False
      with assms FileTransactionPageWrite show ?thesis
        by (auto simp: file_append_kind_def file_append_transaction_page_def intro: unchanged)
    qed
  qed
qed

section \<open>The contract\<close>

definition file_records_wf :: "file_log \<Rightarrow> bool" where
  "file_records_wf l \<longleftrightarrow> sorted_wrt (<) (map flr_value (fl_records l))
     \<and> (\<forall>r \<in> set (fl_records l). lsn_lineage (flr_position r) = fl_lineage l)
     \<and> (\<forall>v. fl_next_position l = Some v \<longrightarrow> (\<forall>r \<in> set (fl_records l). flr_value r < v))
     \<and> fl_durable_len l \<le> length (fl_records l)"

definition file_durable :: "file_log \<Rightarrow> log_sequence_number \<Rightarrow> bool" where
  "file_durable l p \<longleftrightarrow> p \<in> flr_position ` set (file_durable_records l)"

definition file_entry :: "file_log \<Rightarrow> log_sequence_number \<Rightarrow> file_record_kind option" where
  "file_entry l p = map_option flr_kind (find (\<lambda>r. flr_position r = p) (fl_records l))"

lemma records_wf_push:
  assumes "file_records_wf l" and "fl_next_position l = Some v"
    and "fl_records l' = fl_records l @ [\<lparr>flr_position = lineage_position (fl_lineage l) v, flr_kind = kind\<rparr>]"
    and "fl_durable_len l' = fl_durable_len l" and "fl_lineage l' = fl_lineage l"
    and "fl_next_position l' = checked_add v 1"
  shows "file_records_wf l'"
  using assms checked_add_one_less(1) [of v]
  by (auto simp: file_records_wf_def sorted_wrt_append dest: less_trans)

lemma append_kind_wf:
  assumes "file_records_wf l" and "file_append_kind io reserve n kind l = (r, l')"
  shows "file_records_wf l'"
  using assms(2)
proof (cases rule: append_kind_effect)
  case (appended v)
  show ?thesis by (rule records_wf_push [OF assms(1) appended(1-5)])
qed (use assms(1) in \<open>simp add: file_records_wf_def\<close>)

lemma find_none: "(\<And>r. r \<in> set rs \<Longrightarrow> \<not> P r) \<Longrightarrow> find P rs = None"
  by (simp add: find_None_iff)

lemma find_append: "find P (xs @ ys) = (case find P xs of None \<Rightarrow> find P ys | Some x \<Rightarrow> Some x)"
  by (induction xs) auto

lemma append_kind_entry:
  assumes "file_records_wf l" and "file_append_kind io reserve n kind l = (Inr p, l')"
  shows "file_entry l' p = Some kind \<and> file_entry l p = None"
  using assms(2)
proof (cases rule: append_kind_effect)
  case (appended v)
  then have p: "p = lineage_position (fl_lineage l) v" by simp
  have "find (\<lambda>r. flr_position r = p) (fl_records l) = None"
    using assms(1) appended(1) p by (intro find_none) (auto simp: file_records_wf_def)
  with appended(2) p show ?thesis by (simp add: file_entry_def find_append)
qed simp

lemma append_kind_keeps:
  "file_append_kind io reserve n kind l = (r, l') \<Longrightarrow> file_entry l q = Some k \<Longrightarrow> file_entry l' q = Some k"
  by (elim append_kind_effect) (auto simp: file_entry_def find_append)

lemma append_kind_durable:
  "file_records_wf l \<Longrightarrow> file_append_kind io reserve n kind l = (r, l') \<Longrightarrow> file_durable l' q = file_durable l q"
  by (elim append_kind_effect) (simp_all add: file_durable_def file_durable_records_def file_records_wf_def)

lemma flush_records:
  assumes "file_flush_through io p l = (r, l')"
  shows "fl_records l' = fl_records l \<and> fl_lineage l' = fl_lineage l \<and> fl_next_position l' = fl_next_position l
    \<and> fl_durable_len l \<le> fl_durable_len l' \<and> (fl_durable_len l \<le> length (fl_records l) \<longrightarrow> fl_durable_len l' \<le> length (fl_records l))"
  using assms
proof (cases rule: flush_effect)
  case (flushed i armed)
  then have "file_record_index p (fl_records l) = Some i" by (simp add: flush_ready_def)
  then have "i < length (fl_records l)" by (rule file_record_index_Some)
  with flushed show ?thesis by (simp add: flushed_log_def)
qed (auto simp: rejected_def torn_write_def)

lemma flush_wf: "file_records_wf l \<Longrightarrow> file_flush_through io p l = (r, l') \<Longrightarrow> file_records_wf l'"
  using flush_records [of io p l r l'] by (simp add: file_records_wf_def)

lemma durable_mono:
  "fl_records l' = fl_records l \<Longrightarrow> fl_durable_len l \<le> fl_durable_len l' \<Longrightarrow> file_durable l q \<Longrightarrow> file_durable l' q"
  unfolding file_durable_def file_durable_records_def by (metis image_mono set_take_subset_set_take subset_iff)

lemma flush_makes_durable:
  assumes "file_flush_through io p l = (Inr (), l')"
  shows "file_durable l' p"
  using assms
proof (cases rule: flush_effect)
  case (covered i)
  then have "file_record_index p (fl_records l) = Some i" by (simp add: flush_ready_def)
  note index = file_record_index_Some [OF this]
  have "fl_records l ! i \<in> set (take (fl_durable_len l) (fl_records l))"
    using index(1) covered(4) by (auto simp: in_set_conv_nth intro!: exI [of _ i])
  with index(2) covered(2) show ?thesis by (auto simp: file_durable_def file_durable_records_def)
next
  case (flushed i armed)
  then have "file_record_index p (fl_records l) = Some i" by (simp add: flush_ready_def)
  note index = file_record_index_Some [OF this]
  have "fl_records l ! i \<in> set (take (i + 1) (fl_records l))"
    using index(1) by (auto simp: in_set_conv_nth intro!: exI [of _ i])
  with index(2) flushed(4) show ?thesis by (auto simp: file_durable_def file_durable_records_def flushed_log_def)
qed (simp_all add: rejected_def)

interpretation file_commits: fenced_log "file_log_port io reserve" file_records_wf file_durable file_entry
    "file_append_kind io reserve n" commit_kind
  for io reserve n
proof unfold_locales
  fix l l' p q r f k k' c
  show "file_durable l' p" if "port_flush_through (file_log_port io reserve) p l = (Inr (), l')"
    using that by (simp add: file_log_port_def flush_makes_durable)
  show "file_records_wf l'" if "file_records_wf l" "port_flush_through (file_log_port io reserve) p l = (f, l')"
    using that by (simp add: file_log_port_def flush_wf)
  show "port_lineage (file_log_port io reserve) l' = port_lineage (file_log_port io reserve) l"
    if "port_flush_through (file_log_port io reserve) p l = (f, l')"
    using that flush_records by (simp add: file_log_port_def)
  show "file_durable l' q" if "port_flush_through (file_log_port io reserve) p l = (f, l')" "file_durable l q"
    using that flush_records durable_mono by (simp add: file_log_port_def)
  show "lsn_lineage p = port_lineage (file_log_port io reserve) l" if "file_records_wf l" "file_durable l p"
    using that by (auto simp: file_log_port_def file_records_wf_def file_durable_def file_durable_records_def
        dest: in_set_takeD)
  show "file_records_wf l'" if "file_records_wf l" "file_append_kind io reserve n k l = (r, l')"
    using that by (rule append_kind_wf)
  show "port_lineage (file_log_port io reserve) l' = port_lineage (file_log_port io reserve) l"
    if "file_append_kind io reserve n k l = (r, l')"
    using that by (auto simp: file_log_port_def elim: append_kind_effect)
  show "file_entry l' p = Some k \<and> file_entry l p = None"
    if "file_records_wf l" "file_append_kind io reserve n k l = (Inr p, l')"
    using that by (rule append_kind_entry)
  show "lsn_lineage p = port_lineage (file_log_port io reserve) l"
    if "file_append_kind io reserve n k l = (Inr p, l')"
    using that by (auto simp: file_log_port_def elim: append_kind_effect)
  show "file_entry l' q = Some k'" if "file_append_kind io reserve n k l = (r, l')" "file_entry l q = Some k'"
    using that by (rule append_kind_keeps)
  show "file_durable l' q = file_durable l q" if "file_records_wf l" "file_append_kind io reserve n k l = (r, l')"
    using that by (rule append_kind_durable)
  show "file_entry l' q = file_entry l q" if "port_flush_through (file_log_port io reserve) p l = (f, l')"
    using that flush_records by (simp add: file_log_port_def file_entry_def)
  show "file_entry l p \<noteq> None" if "file_durable l p"
    using that by (auto simp: file_durable_def file_durable_records_def file_entry_def find_None_iff dest: in_set_takeD)
  show "port_append_commit (file_log_port io reserve) c l = file_append_kind io reserve n (commit_kind c) l"
    by (simp add: file_log_port_def flip: file_append_commit_kind)
qed

end
