(* ===== verification/File_Log_Reopen.thy ===== *)
theory File_Log_Reopen
  imports File_Log_Recovery File_Log_Port
begin

text \<open>
  The life of a file log: creation, its operations under any behaviour of the operating system,
  crashes that keep any prefix with the synchronized part, and opening again. A file that had one
  byte changed is never opened, wherever the byte is: every header and every frame carries a
  checksum that tells the two apart.
\<close>

section \<open>Opening under any behaviour of the system\<close>

lemma file_try_any: "file_try io stage at = Inr u \<Longrightarrow> file_try working_io stage at' = Inr u"
  by simp

lemma apply_frame_reserve:
  "apply_frame reserve width frame offset s = Inr s' \<Longrightarrow> apply_frame (\<lambda>_. True) width frame offset s = Inr s'"
  by (auto simp: apply_frame_def apply_commit_frame_def apply_pending_page_frame_def apply_pending_data_def
      result_simps Let_def split: option.splits frame_kind.splits pending_ownership.splits if_splits)

lemma scan_frames_any:
  "scan_frames io reserve width f offset bytes s = Inr s' \<Longrightarrow> scan width f offset bytes s = Inr s'"
proof (induction bytes arbitrary: offset s rule: length_induct)
  case (1 bytes)
  show ?case
  proof (cases "length bytes < frame_length")
    case True
    with "1.prems" show ?thesis by (simp add: scan_frames.simps)
  next
    case False
    with "1.prems" obtain frame s1 where frame: "parse_frame (take frame_length bytes) (of_nat offset) f = Inr frame"
      and "apply_frame reserve width frame (of_nat offset) s = Inr s1"
      and rest: "scan_frames io reserve width f (offset + frame_length) (drop frame_length bytes) s1 = Inr s'"
      by (subst (asm) scan_frames.simps) (auto simp: result_simps)
    then have "scan_step width f offset (take frame_length bytes) s = Inr s1"
      by (simp add: scan_step_def apply_frame_reserve)
    moreover have "length (drop frame_length bytes) < length bytes"
      using False by (simp add: frame_length_def)
    ultimately show ?thesis using "1.IH" rest False by (simp add: scan_long)
  qed
qed

lemma read_log_header_any:
  "read_log_header io x bytes = Inr h \<Longrightarrow> read_log_header working_io x bytes = Inr h"
  by (auto simp: read_log_header_def read_header_v5_def read_header_v4_def result_simps Let_def split: if_splits)

lemma cleanup_any:
  "cleanup_reclamation_candidate io l = Inr l' \<Longrightarrow> cleanup_reclamation_candidate working_io l = Inr l'"
  by (cases "fl_candidate l") (auto simp: cleanup_reclamation_candidate_def result_simps Let_def)

lemma finish_any: "finish_open io locked = Inr l' \<Longrightarrow> finish_open working_io locked = Inr l'"
  by (cases locked; cases "snd locked") (auto simp: finish_open_def result_simps Let_def intro: cleanup_any)

lemma finish_open_openable:
  assumes "finish_open io (l, repaired) = Inr l'"
  shows "lp_has_file_name (fl_path l) \<longrightarrow> fl_candidate l \<noteq> CandidateAlias"
proof (rule ccontr)
  assume aliased: "\<not> ?thesis"
  obtain l1 where "cleanup_reclamation_candidate io l1 = Inr l'" "fl_path l1 = fl_path l"
    "fl_candidate l1 = fl_candidate l"
    using assms by (cases repaired) (auto simp: finish_open_def result_simps Let_def)
  with aliased show False by (auto simp: cleanup_reclamation_candidate_def result_simps Let_def)
qed

text \<open>Whatever the system did, an open that succeeded is the open of a working system.\<close>

lemma open_any:
  assumes "open_internal io reserve width path entry x bytes = Inr l'"
  obtains h s where "read_log_header working_io x bytes = Inr h"
    and "scan width (oh_format h) (oh_length h) (drop (oh_length h) bytes)
      (initial_open_state (expectation_page_layout x) h) = Inr s"
    and "openable path entry" and "header_checks h s" and "l' = log_after_open path entry bytes h s"
proof -
  obtain l repaired where inspect: "inspect_internal io reserve width path entry x bytes = Inr (l, repaired)"
    and finish: "finish_open io (l, repaired) = Inr l'"
    using assms by (auto simp: open_internal_def result_simps)
  obtain h s where h: "read_log_header io x bytes = Inr h"
    and s: "scan_frames io reserve width (oh_format h) (oh_length h) (drop (oh_length h) bytes)
      (initial_open_state (expectation_page_layout x) h) = Inr s"
    and checks: "check_completed h 0 s = Inr ()" "check_retained h s = Inr ()"
    and parent: "lp_has_parent path" and l: "l = opened_log path entry bytes h s"
    and repaired: "repaired = repaired_length h bytes s"
    using inspect
    by (auto simp: inspect_internal_def repaired_length_def open_parent_directory_def check_completed_def result_simps Let_def)
  have "openable path entry"
    using parent finish_open_openable [OF finish] by (simp add: openable_def l opened_log_def Let_def)
  moreover from this have "l' = log_after_open path entry bytes h s"
    using finish_any [OF finish]
    by (simp add: l repaired finish_working log_after_open_def cut_length_def split: option.splits)
  ultimately show thesis
    using that read_log_header_any [OF h] scan_frames_any [OF s] checks by (simp add: header_checks_def)
qed

lemma file_reopen_inv:
  assumes "file_log_inv x n l" and "crash_image l bytes" and "length bytes < 2 ^ 64"
    and "openable path entry"
  obtains l' where "open_internal working_io (\<lambda>_. True) (unat n) path entry x bytes = Inr l'"
    and "file_log_inv x n l'" and "\<not> fl_poisoned l'"
    and "prefix (file_durable_records l) (file_durable_records l')"
    and "fl_persistent_id l' = fl_persistent_id l" and "fl_generation l' = fl_generation l"
    and "prefix (fl_contents l') bytes"
    and "\<not> fl_poisoned l \<Longrightarrow> prefix (fl_records l') (fl_records l)"
proof -
  obtain h s s0 where scans: "scans_to x n l h s s0" using assms(1) by (auto simp: file_log_inv_def)
  from crash_scan [OF scans assms(2)] obtain s1 where s1: "read_log_header working_io x bytes = Inr h"
    "scan_log x n h bytes = Inr s1" "open_state_le s0 s1" "open_state_le s1 s" "open_state_wf s1"
    "header_checks h s1" by metis
  let ?l = "log_after_open path entry bytes h s1"
  have matches: "header_matches h l" "width_agrees x n (oh_format h)"
    using scans by (auto simp: scans_to_def header_matches_def)
  have "file_log_inv x n ?l"
    using opened_scans [OF s1(1,2,6,5) matches(2) assms(3)] unfolding file_log_inv_def by blast
  moreover have "prefix (file_durable_records l) (file_durable_records ?l)"
    using durable_after_open [OF scans s1(3,4)]
    by (simp add: file_durable_records_def log_after_open_def opened_log_def Let_def)
  moreover have "prefix (fl_records ?l) (fl_records l)" if "\<not> fl_poisoned l"
    using s1(4) scans_to_exact(1) [OF scans that]
    by (simp add: open_state_le_def log_after_open_def opened_log_def Let_def)
  ultimately show thesis
    using that open_working [OF s1(1,2,6) assms(4)] matches(1)
    by (simp add: log_after_open_def opened_log_def header_matches_def take_is_prefix Let_def)
qed

section \<open>Creation\<close>

inductive file_created :: "header_expectation \<Rightarrow> usize \<Rightarrow> file_log \<Rightarrow> bool" where
  version1: "file_create_new io path entry log_id = Inr l \<Longrightarrow> log_id_wf log_id \<Longrightarrow> file_created ExpectV1 n l"
| version2: "file_create_new_page_capable io n path entry log_id = Inr l \<Longrightarrow> log_id_wf log_id
    \<Longrightarrow> page_layout_for n = Inr layout \<Longrightarrow> file_created (ExpectV2 layout) n l"
| version3: "file_create_new_transaction_page_capable io n path entry log_id = Inr l \<Longrightarrow> log_id_wf log_id
    \<Longrightarrow> page_layout_for n = Inr layout \<Longrightarrow> file_created (ExpectV3OrLater layout) n l"
| version5: "file_create_new_database_transaction_page_capable io n path entry identity = Inr l
    \<Longrightarrow> log_id_wf (si_persistent_log_id identity)
    \<Longrightarrow> header_identity_wf (storage_file_header_identity identity RoleWal)
    \<Longrightarrow> page_layout_for n = Inr layout \<Longrightarrow> file_created (ExpectV3OrLater layout) n l"

lemma created_scans:
  assumes "create_new_internal io path entry log_id f header identity = Inr l"
    and "read_log_header working_io x header = Inr \<lparr>oh_format = f, oh_persistent_id = log_id, oh_generation = 0,
      oh_retained_first = None, oh_logical_high_water = None, oh_epoch_high_water = None,
      oh_selected_checkpoint_anchor = None, oh_database_file_identity = identity, oh_length = length header\<rparr>"
    and "width_agrees x n f"
  shows "file_log_inv x n l"
proof -
  let ?h = "\<lparr>oh_format = f, oh_persistent_id = log_id, oh_generation = 0,
      oh_retained_first = None, oh_logical_high_water = None, oh_epoch_high_water = None,
      oh_selected_checkpoint_anchor = None, oh_database_file_identity = identity, oh_length = length header\<rparr>"
  let ?s = "initial_open_state (expectation_page_layout x) ?h"
  have l: "l = \<lparr>fl_contents = header, fl_synced = length header, fl_reclamation_old_file = None, fl_path = path,
          fl_candidate = entry, fl_format = f, fl_lineage = Persistent log_id, fl_persistent_id = log_id,
          fl_database_file_identity = identity, fl_generation = 0, fl_reclaimed_retained_first = None,
          fl_reclaimed_logical_high_water = None, fl_reclaimed_epoch_high_water = None,
          fl_selected_checkpoint_anchor = None, fl_records = [], fl_durable_len = 0,
          fl_next_epoch = Some 1, fl_next_position = Some 1, fl_armed_fault = None,
          fl_poisoned = False\<rparr>"
    using assms(1) by (auto simp: create_new_internal_def result_simps)
  have "next_nonzero 0 = Some 1" by (simp add: next_nonzero_def non_zero_u64_def checked_add_def)
  then have "scans_to x n l ?h ?s ?s"
    using assms(2,3)
    by (simp add: l scans_to_def header_matches_def scan_log_def header_checks_def check_completed_def
        check_retained_def log_matches_def initial_open_state_def open_state_new_def Let_def)
  then show ?thesis unfolding file_log_inv_def by blast
qed

lemma small_header_read:
  assumes "log_id_wf p" and "f = FormatV1 \<or> f = FormatV2 \<or> f = FormatV3" and "expectation_accepts x f"
    and "case expectation_page_layout x of None \<Rightarrow> True | Some layout \<Rightarrow> layout_wf layout \<and> w = pl_width layout"
  shows "read_log_header working_io x (build_header f p w) = Inr \<lparr>oh_format = f, oh_persistent_id = p,
    oh_generation = 0, oh_retained_first = None, oh_logical_high_water = None, oh_epoch_high_water = None,
    oh_selected_checkpoint_anchor = None, oh_database_file_identity = None, oh_length = length (build_header f p w)\<rparr>"
proof -
  have "small_format_from_u16 (format_version f) = Some f" "format_version f \<noteq> 5" "format_version f \<noteq> 4"
    using assms(2) by (auto simp: small_format_from_u16_def)
  then show ?thesis
    using parse_small_header [OF assms]
    by (simp add: read_log_header_def read_header_small_def header_length_def small_header_fields(2) Let_def)
qed

lemma v5_header_read:
  assumes "log_id_wf p" and "layout_wf layout" and "header_identity_wf i"
  shows "read_log_header working_io (ExpectV3OrLater layout) (build_header_v5_initial p (pl_width layout) i)
    = Inr \<lparr>oh_format = FormatV5, oh_persistent_id = p, oh_generation = 0, oh_retained_first = None,
           oh_logical_high_water = None, oh_epoch_high_water = None, oh_selected_checkpoint_anchor = None,
           oh_database_file_identity = Some i, oh_length = length (build_header_v5_initial p (pl_width layout) i)\<rparr>"
  using parse_v5_initial [OF assms]
  by (simp add: read_log_header_def read_header_v5_def header_lengths v5_initial_fields(2) Let_def)

lemma created_inv: "file_created x n l \<Longrightarrow> file_log_inv x n l"
proof (induction rule: file_created.induct)
  case (version1 io path entry log_id l n)
  from version1(1) show ?case
    unfolding file_create_new_def
    by (rule created_scans)
      (use version1 in \<open>simp_all add: build_header_v1_def width_agrees_def supports_pages_def small_header_read\<close>)
next
  case (version2 io n path entry log_id l layout)
  then have "create_new_internal io path entry log_id FormatV2 (build_header_v2 log_id (pl_width layout)) None = Inr l"
    by (simp add: file_create_new_page_capable_def)
  then show ?case
    by (rule created_scans)
      (use version2 layout_for_wf [OF version2(3), THEN conjunct1] in
        \<open>simp_all add: build_header_v2_def width_agrees_def small_header_read\<close>)
next
  case (version3 io n path entry log_id l layout)
  then have "create_new_internal io path entry log_id FormatV3 (build_header_v3 log_id (pl_width layout)) None = Inr l"
    by (simp add: file_create_new_transaction_page_capable_def)
  then show ?case
    by (rule created_scans)
      (use version3 layout_for_wf [OF version3(3), THEN conjunct1] in
        \<open>simp_all add: build_header_v3_def width_agrees_def small_header_read\<close>)
next
  case (version5 io n path entry identity l layout)
  then have "create_new_internal io path entry (si_persistent_log_id identity) FormatV5
      (build_header_v5_initial (si_persistent_log_id identity) (pl_width layout)
        (storage_file_header_identity identity RoleWal))
      (Some (storage_file_header_identity identity RoleWal)) = Inr l"
    by (simp add: file_create_new_database_transaction_page_capable_def Let_def)
  then show ?case
    by (rule created_scans)
      (use version5 layout_for_wf [OF version5(4), THEN conjunct1] in
        \<open>simp_all add: width_agrees_def v5_header_read\<close>)
qed

section \<open>Steps\<close>

inductive file_step :: "header_expectation \<Rightarrow> usize \<Rightarrow> file_log \<Rightarrow> file_log \<Rightarrow> bool" for x n where
  commit: "commit_allowed l c \<Longrightarrow> file_append_commit io reserve c l = (rc, l') \<Longrightarrow> file_step x n l l'"
| page: "page_number_get (pa_number (up_address page)) \<noteq> 0 \<Longrightarrow> file_append_page io reserve n page l = (rc, l')
    \<Longrightarrow> file_step x n l l'"
| owned_page: "owned_page_allowed l w \<Longrightarrow> file_append_transaction_page io reserve n w l = (rc, l')
    \<Longrightarrow> file_step x n l l'"
| flush: "file_flush_through io p l = (rf, l') \<Longrightarrow> file_step x n l l'"
| epoch: "allocate_transaction_epoch_frame io l = (re, l') \<Longrightarrow> file_step x n l l'"
| restart_epoch: "file_allocate_restart_epoch io persisted l = (rr, l') \<Longrightarrow> file_step x n l l'"
| arm: "file_arm_fault fault l = (ra, l') \<Longrightarrow> file_step x n l l'"
| crash_reopen: "crash_image l bytes \<Longrightarrow> length bytes < 2 ^ 64
    \<Longrightarrow> open_internal io reserve (unat n) path entry x bytes = Inr l' \<Longrightarrow> file_step x n l l'"

inductive file_reachable :: "header_expectation \<Rightarrow> usize \<Rightarrow> file_log \<Rightarrow> bool" for x n where
  start: "file_created x n l \<Longrightarrow> file_reachable x n l"
| step: "file_reachable x n l \<Longrightarrow> file_step x n l l' \<Longrightarrow> file_reachable x n l'"

lemma open_any_working:
  fixes n :: usize
  assumes "open_internal io reserve (unat n) path entry x bytes = Inr l'"
  shows "openable path entry" and "open_internal working_io (\<lambda>_. True) (unat n) path entry x bytes = Inr l'"
proof -
  obtain h s where "read_log_header working_io x bytes = Inr h" "scan_log x n h bytes = Inr s"
    "openable path entry" "header_checks h s" "l' = log_after_open path entry bytes h s"
    using open_any [OF assms] by (auto simp: scan_log_def)
  then show "openable path entry" "open_internal working_io (\<lambda>_. True) (unat n) path entry x bytes = Inr l'"
    using open_working by simp_all
qed

lemma reopened:
  assumes "file_log_inv x n l" and "crash_image l bytes" and "length bytes < 2 ^ 64"
    and "open_internal io reserve (unat n) path entry x bytes = Inr l'"
  shows "file_log_inv x n l'" and "\<not> fl_poisoned l'"
    and "prefix (file_durable_records l) (file_durable_records l')"
  using file_reopen_inv [OF assms(1-3) open_any_working(1) [OF assms(4)]] open_any_working(2) [OF assms(4)]
  by (metis sum.inject(2))+

lemma step_inv: "file_step x n l l' \<Longrightarrow> file_log_inv x n l \<Longrightarrow> file_log_inv x n l'"
  by (induction rule: file_step.induct)
    (blast intro: append_commit_inv append_page_inv file_append_transaction_page_inv flush_inv allocate_epoch_inv
      allocate_restart_epoch_inv arm_fault_inv reopened(1))+

lemma file_reachable_inv: "file_reachable x n l \<Longrightarrow> file_log_inv x n l"
  by (induction rule: file_reachable.induct) (blast intro: created_inv step_inv)+

text \<open>No step takes durability away.\<close>

lemma durable_prefix:
  assumes "fl_durable_len l \<le> length (fl_records l)" and "prefix (fl_records l) (fl_records l')"
    and "fl_durable_len l \<le> fl_durable_len l'"
  shows "prefix (file_durable_records l) (file_durable_records l')"
proof -
  obtain ys where "fl_records l' = fl_records l @ ys" using assms(2) by (auto simp: prefix_def)
  then have "file_durable_records l = take (fl_durable_len l) (fl_records l')"
    using assms(1) by (simp add: file_durable_records_def)
  then show ?thesis
    using assms(3) unfolding file_durable_records_def by (metis min_absorb1 take_is_prefix take_take)
qed

lemma inv_durable_len: "file_log_inv x n l \<Longrightarrow> fl_durable_len l \<le> length (fl_records l)"
  by (auto simp: file_log_inv_def scans_to_def)

lemma append_extends:
  "rejected l (rc, l') \<Longrightarrow> prefix (fl_records l) (fl_records l') \<and> fl_durable_len l' = fl_durable_len l"
  "torn_write l new l' \<Longrightarrow> prefix (fl_records l) (fl_records l') \<and> fl_durable_len l' = fl_durable_len l"
  "appended l v kind new l' \<Longrightarrow> prefix (fl_records l) (fl_records l') \<and> fl_durable_len l' = fl_durable_len l"
  by (auto simp: rejected_def torn_write_def appended_def file_push_record_def)

lemma group_extends:
  "append_page_group io reserve n page owner l = (r, l')
    \<Longrightarrow> prefix (fl_records l) (fl_records l') \<and> fl_durable_len l' = fl_durable_len l"
  by (elim append_page_effect) (blast dest: append_extends)+

lemma epoch_extends:
  "allocate_transaction_epoch_frame io l = (r, l')
    \<Longrightarrow> prefix (fl_records l) (fl_records l') \<and> fl_durable_len l' = fl_durable_len l"
  by (elim allocate_epoch_effect) (auto dest: append_extends)

lemma step_durable:
  assumes "file_step x n l l'" and "file_log_inv x n l"
  shows "prefix (file_durable_records l) (file_durable_records l')"
  using assms(1)
proof cases
  case (commit c io reserve rc)
  from commit(2) have "prefix (fl_records l) (fl_records l') \<and> fl_durable_len l' = fl_durable_len l"
    by (elim append_commit_effect) (blast dest: append_extends)+
  then show ?thesis using inv_durable_len [OF assms(2)] by (intro durable_prefix) simp_all
next
  case (page page io reserve rc)
  then show ?thesis
    using group_extends inv_durable_len [OF assms(2)]
    by (intro durable_prefix) (auto simp: file_append_page_def)
next
  case (owned_page w io reserve rc)
  have "prefix (fl_records l) (fl_records l') \<and> fl_durable_len l' = fl_durable_len l"
    using owned_page(2) group_extends
    by (cases "supports_transaction_pages (fl_format l)") (auto simp: file_append_transaction_page_def)
  then show ?thesis using inv_durable_len [OF assms(2)] by (intro durable_prefix) simp_all
next
  case (flush io p rf)
  then show ?thesis
    using flush_records inv_durable_len [OF assms(2)] by (intro durable_prefix) fastforce+
next
  case (epoch io re)
  then show ?thesis using epoch_extends inv_durable_len [OF assms(2)] by (intro durable_prefix) fastforce+
next
  case (restart_epoch io persisted rr)
  have "l' = l \<or> snd (allocate_transaction_epoch_frame io l) = l'"
    using restart_epoch
    by (auto simp: file_allocate_restart_epoch_def with_result_def converted_def split: sum.splits)
  then have "prefix (fl_records l) (fl_records l') \<and> fl_durable_len l' = fl_durable_len l"
    using epoch_extends by (metis prefix_order.refl prod.collapse)
  then show ?thesis using inv_durable_len [OF assms(2)] by (intro durable_prefix) simp_all
next
  case (arm fault ra)
  then show ?thesis by (auto simp: file_arm_fault_def file_durable_records_def split: option.splits)
next
  case (crash_reopen bytes io reserve path entry)
  then show ?thesis using reopened(3) [OF assms(2)] by blast
qed

lemma steps_durable:
  assumes "(file_step x n)\<^sup>*\<^sup>* l l'" and "file_log_inv x n l"
  shows "file_log_inv x n l' \<and> prefix (file_durable_records l) (file_durable_records l')"
  using assms
  by (induction rule: rtranclp_induct) (blast intro: step_inv dest: step_durable prefix_order.trans)+

section \<open>Corruption\<close>

lemma parse_header_guard:
  "parse_header e x = Inr p \<Longrightarrow> read_u64 e 56 = checksum_v1 (take 56 e) \<and> read_u16 e 10 = 64"
  by (auto simp: parse_header_def Let_def result_simps)

lemma parse_header_v4_guard:
  "parse_header_v4 e layout = Inr m \<Longrightarrow> read_u64 e 120 = checksum_v1 (take 120 e) \<and> read_u16 e 10 = 128"
  by (auto simp: parse_header_v4_def Let_def result_simps)

lemma parse_header_v5_guard:
  "parse_header_v5 e layout = Inr m \<Longrightarrow> read_u64 e 184 = checksum_v1 (take 184 e) \<and> read_u16 e 10 = 192"
  by (auto simp: parse_header_v5_def Let_def result_simps)

text \<open>The declared length of an accepted header is its length, and its last word guards the rest.\<close>

lemma header_guard:
  assumes "read_log_header io x bytes = Inr h"
  shows "read_u16 bytes 10 = of_nat (oh_length h)"
    and "read_u64 (take (oh_length h) bytes) (oh_length h - 8)
      = checksum_v1 (take (oh_length h - 8) (take (oh_length h) bytes))"
    and "oh_length h \<in> {64, 128, 192}"
proof -
  have field: "read_u16 (take m bytes) 10 = read_u16 bytes 10" if "12 \<le> m" for m
    using that by (simp add: read_u16_def bytes_at_take)
  have "read_u16 bytes 10 = of_nat (oh_length h)
      \<and> read_u64 (take (oh_length h) bytes) (oh_length h - 8)
        = checksum_v1 (take (oh_length h - 8) (take (oh_length h) bytes)) \<and> oh_length h \<in> {64, 128, 192}"
    using assms
  proof (cases rule: read_log_header_cases)
    case v5
    then obtain layout m where "parse_header_v5 (take 192 bytes) layout = Inr m"
      by (auto simp: read_header_v5_def header_lengths result_simps)
    with parse_header_v5_guard [OF this] field [of 192] v5(3) show ?thesis by (simp add: header_lengths)
  next
    case v4
    then obtain layout m where "parse_header_v4 (take 128 bytes) layout = Inr m"
      by (auto simp: read_header_v4_def header_lengths result_simps)
    with parse_header_v4_guard [OF this] field [of 128] v4(3) show ?thesis by (simp add: header_lengths)
  next
    case small
    then obtain p where "parse_header (take 64 bytes) x = Inr p"
      by (auto simp: read_header_small_def header_lengths result_simps Let_def)
    with parse_header_guard [OF this] field [of 64] small(4) show ?thesis by (simp add: header_lengths)
  qed
  then show "read_u16 bytes 10 = of_nat (oh_length h)"
    "read_u64 (take (oh_length h) bytes) (oh_length h - 8)
      = checksum_v1 (take (oh_length h - 8) (take (oh_length h) bytes))"
    "oh_length h \<in> {64, 128, 192}" by blast+
qed

lemma header_length_version:
  assumes "read_log_header io x bytes = Inr h"
  shows "oh_length h = (if read_u16 bytes 8 = 5 then 192 else if read_u16 bytes 8 = 4 then 128 else 64)"
  using assms by (cases rule: read_log_header_cases) (simp_all add: header_lengths)

lemma corrupted_header_refused:
  assumes "read_log_header io x bytes = Inr h" and "i < oh_length h" and "b \<noteq> bytes ! i"
  shows "read_log_header io' x' (bytes[i := b]) \<noteq> Inr h'"
proof
  assume other: "read_log_header io' x' (bytes[i := b]) = Inr h'"
  note guard = header_guard [OF assms(1)] and guard' = header_guard [OF other]
  have len: "oh_length h \<le> length bytes" by (rule read_log_header_length [OF assms(1)])
  show False
  proof (cases "oh_length h' = oh_length h")
    case True
    let ?header = "take (oh_length h) bytes" and ?m = "oh_length h - 8"
    have "8 \<le> oh_length h" using guard(3) by auto
    then have "length ?header = ?m + 8" using len by simp
    from checksum_guarded [OF this, of i b] guard(2) assms(2,3) len
    have "read_u64 (?header[i := b]) ?m \<noteq> checksum_v1 (take ?m (?header[i := b]))" by simp
    with guard'(2) True show False by (simp add: take_update_swap)
  next
    case False
    have "i = 10 \<or> i = 11"
    proof (rule ccontr)
      assume "\<not> (i = 10 \<or> i = 11)"
      then have "i < 10 \<or> 12 \<le> i" by auto
      then have "read_u16 (bytes[i := b]) 10 = read_u16 bytes 10"
        by (auto simp: read_u16_def list_update_bytes_at)
      with guard(1,3) guard'(1,3) False show False by auto
    qed
    then have "read_u16 (bytes[i := b]) 8 = read_u16 bytes 8"
      by (auto simp: read_u16_def list_update_bytes_at)
    then have "oh_length h' = oh_length h"
      by (subst header_length_version [OF assms(1)], subst header_length_version [OF other]) (simp only:)
    with False show False by contradiction
  qed
qed

lemma corrupted_frame_stops_scan:
  assumes "scan width f offset bytes s = Inr s'" and "length bytes = k * frame_length"
    and "i < length bytes" and "b \<noteq> bytes ! i"
  shows "scan width f offset (bytes[i := b]) s \<noteq> Inr s''"
proof
  assume other: "scan width f offset (bytes[i := b]) s = Inr s''"
  obtain j r where i: "i = j * frame_length + r" and r: "r < frame_length"
    using div_mult_mod_eq [of i frame_length] by (metis frame_length_def mod_less_divisor zero_less_numeral)
  let ?a = "take (j * frame_length) bytes" and ?frame = "bytes_at (j * frame_length) frame_length bytes"
    and ?rest = "drop (Suc j * frame_length) bytes"
  have "j < k" using assms(2,3) i by (metis add_lessD1 mult_less_cancel2)
  then have "Suc j * frame_length \<le> k * frame_length" by (intro mult_le_mono1) simp
  then have end_le: "Suc j * frame_length \<le> length bytes" using assms(2) by simp
  have len: "length ?a = j * frame_length" "length ?frame = frame_length" using end_le by simp_all
  have split: "bytes = ?a @ ?frame @ ?rest"
    using append_take_drop_id [of frame_length "drop (j * frame_length) bytes"]
    by (simp add: bytes_at_def add.commute)
  then have "bytes[i := b] = (?a @ ?frame @ ?rest)[i := b]" by simp
  also have "\<dots> = ?a @ (?frame @ ?rest)[r := b]"
    using len(1) i by (simp only: list_update_append) simp
  also have "(?frame @ ?rest)[r := b] = ?frame[r := b] @ ?rest"
    using len(2) r by (simp only: list_update_append if_True)
  finally have split': "bytes[i := b] = ?a @ ?frame[r := b] @ ?rest" .
  have nth: "b \<noteq> ?frame ! r" using assms(4) r end_le i by (simp add: nth_bytes_at)
  have one: "length ?frame = 1 * frame_length" "length (?frame[r := b]) = 1 * frame_length" using len by simp_all
  have "scan width f offset (?a @ ?frame @ ?rest) s = Inr s'" using assms(1) split by simp
  then obtain t where t: "scan width f offset ?a s = Inr t"
    and "scan width f (offset + length ?a) (?frame @ ?rest) t = Inr s'"
    by (auto simp only: scan_append [OF len(1)] and_then_Inr_iff)
  then obtain u where "scan width f (offset + length ?a) ?frame t = Inr u"
    by (auto simp only: scan_append [OF one(1)] and_then_Inr_iff)
  then obtain d where "parse_frame ?frame (of_nat (offset + length ?a)) f = Inr d"
    by (auto simp: scan_one [OF len(2)] scan_step_def and_then_Inr_iff)
  then obtain e where "parse_frame (?frame[r := b]) (of_nat (offset + length ?a)) f = Inl e"
    using corrupted_frame_rejected [OF len(2) _ r nth] by blast
  then have "scan width f (offset + length ?a) (?frame[r := b]) t = Inl (OpenFormat e)"
    using one(2) by (simp add: scan_one scan_step_def)
  then have "scan width f offset (bytes[i := b]) s = Inl (OpenFormat e)"
    unfolding split' by (simp add: scan_append [OF len(1)] scan_append [OF one(2)] t)
  with other show False by simp
qed

end
