(* ===== verification/File_Log_Lookup.thy ===== *)
theory File_Log_Lookup
  imports File_Log_Reopen
begin

text \<open>
  No transaction has two commit records in a log that the scan accepts, so a lookup finds the
  record of a transaction, tells whether it is durable, or establishes that there is none.
\<close>

section \<open>Distinct commits\<close>

definition commits_distinct :: "file_log_record list \<Rightarrow> bool" where
  "commits_distinct rs \<longleftrightarrow> distinct (List.map_filter record_transaction_identity rs)"

lemma commits_distinct_Nil [simp]: "commits_distinct []"
  by (simp add: commits_distinct_def map_filter_simps)

lemma in_identities: "t \<in> set (List.map_filter f rs) \<longleftrightarrow> (\<exists>r \<in> set rs. f r = Some t)"
  by (force simp: map_filter_def)

lemma commits_distinct_snoc:
  "commits_distinct (rs @ [r]) \<longleftrightarrow> commits_distinct rs
     \<and> (\<forall>t. record_transaction_identity r = Some t \<longrightarrow> commit_fresh t rs)"
proof -
  have "t \<in> set (List.map_filter record_transaction_identity rs) \<longleftrightarrow> \<not> commit_fresh t rs" for t
    by (auto simp: in_identities commit_fresh_def list_ex_iff)
  then show ?thesis
    by (cases "record_transaction_identity r") (simp_all add: commits_distinct_def map_filter_def)
qed

lemma pending_record_has_no_identity:
  "pending_into_record lineage p = Inr r \<Longrightarrow> record_transaction_identity r = None"
  by (auto simp: pending_into_record_def record_transaction_identity_def Let_def split: pending_ownership.splits)

lemma pending_data_distinct:
  assumes "apply_pending_data reserve frame offset p s = Inr s'" and "commits_distinct (os_records s)"
  shows "commits_distinct (os_records s')"
  using assms pending_record_has_no_identity
  by (fastforce simp: apply_pending_data_def result_simps commits_distinct_snoc Let_def
      split: option.splits if_splits)

lemma commit_frame_distinct:
  assumes "apply_commit_frame reserve frame offset s = Inr s'" and "commits_distinct (os_records s)"
  shows "commits_distinct (os_records s')"
  using assms
  by (auto simp: apply_commit_frame_def result_simps commits_distinct_snoc record_transaction_identity_def
      commit_fresh_def Let_def split: option.splits)

lemma frame_distinct:
  assumes "apply_frame reserve width frame offset s = Inr s'" and "commits_distinct (os_records s)"
  shows "commits_distinct (os_records s')"
proof (cases "os_pending_page s")
  case None
  with assms show ?thesis
    by (cases "fr_kind frame")
      (auto simp: apply_frame_def apply_epoch_frame_def apply_marker_frame_def apply_page_header_frame_def
        result_simps Let_def intro: commit_frame_distinct split: option.splits if_splits)
next
  case (Some p)
  with assms show ?thesis
    by (cases "pp_ownership p")
      (auto simp: apply_frame_def apply_pending_page_frame_def apply_pending_owner_def
        result_simps Let_def intro: pending_data_distinct split: option.splits if_splits)
qed

lemma scan_distinct:
  "scan_frames io reserve width f offset bytes s = Inr s' \<Longrightarrow> commits_distinct (os_records s)
    \<Longrightarrow> commits_distinct (os_records s')"
proof (induction bytes arbitrary: offset s rule: length_induct)
  case (1 bytes)
  show ?case
  proof (cases "length bytes < frame_length")
    case True
    with "1.prems" show ?thesis by (simp add: scan_frames.simps)
  next
    case False
    with "1.prems"(1) obtain frame s1 where frame: "apply_frame reserve width frame (of_nat offset) s = Inr s1"
      and rest: "scan_frames io reserve width f (offset + frame_length) (drop frame_length bytes) s1 = Inr s'"
      by (subst (asm) scan_frames.simps) (auto simp: result_simps)
    have "length (drop frame_length bytes) < length bytes" using False by (simp add: frame_length_def)
    with "1.IH" rest frame_distinct [OF frame "1.prems"(2)] show ?thesis by blast
  qed
qed

lemma log_commits_distinct:
  assumes "file_log_inv x n l" and "\<not> fl_poisoned l"
  shows "commits_distinct (fl_records l)"
proof -
  obtain h s s0 where scans: "scans_to x n l h s s0" using assms(1) by (auto simp: file_log_inv_def)
  then have "scan_log x n h (fl_contents l) = Inr s" by (simp add: scans_to_def)
  then have "commits_distinct (os_records s)"
    unfolding scan_log_def
    by (rule scan_distinct) (simp add: initial_open_state_def open_state_new_def Let_def)
  then show ?thesis by (simp add: scans_to_exact(1) [OF scans assms(2)])
qed

section \<open>The scan of a lookup\<close>

lemma matches_iff:
  "record_matches_transaction_id r t \<longleftrightarrow> record_transaction_identity r = Some (stored_identity_of t)"
  by (cases "record_transaction_identity r")
    (auto simp: record_matches_transaction_id_def stored_identity_matches_def stored_identity_of_def)

lemma lookup_scan_none:
  "\<forall>r \<in> set rs. \<not> record_matches_transaction_id r t \<Longrightarrow> file_lookup_scan t d i m rs = Inr m"
  by (induction rs arbitrary: i) auto

lemma lookup_scan_skip:
  "\<forall>r \<in> set rs. \<not> record_matches_transaction_id r t
    \<Longrightarrow> file_lookup_scan t d i m (rs @ qs) = file_lookup_scan t d (i + length rs) m qs"
  by (induction rs arbitrary: i) auto

lemma commits_distinct_split:
  assumes "commits_distinct (rs @ r # qs)" and "record_transaction_identity r = Some t"
  shows "\<forall>q \<in> set rs \<union> set qs. record_transaction_identity q \<noteq> Some t"
proof -
  have "List.map_filter record_transaction_identity (rs @ r # qs)
    = List.map_filter record_transaction_identity rs @ t # List.map_filter record_transaction_identity qs"
    using assms(2) by (simp add: map_filter_def)
  with assms(1) have "t \<notin> set (List.map_filter record_transaction_identity rs)
      \<union> set (List.map_filter record_transaction_identity qs)"
    by (simp add: commits_distinct_def)
  then show ?thesis by (auto simp: in_identities)
qed

lemma lookup_scan_exact:
  assumes "commits_distinct rs"
  obtains (absent) "\<forall>r \<in> set rs. \<not> record_matches_transaction_id r t"
      and "file_lookup_scan t d 0 None rs = Inr None"
  | (found) i where "i < length rs" and "record_matches_transaction_id (rs ! i) t"
      and "file_lookup_scan t d 0 None rs = Inr (Some (flr_position (rs ! i), i < d))"
proof (cases "\<exists>r \<in> set rs. record_matches_transaction_id r t")
  case True
  then obtain ys r zs where split: "rs = ys @ r # zs" and r: "record_matches_transaction_id r t"
    by (metis split_list)
  note distinct = commits_distinct_split [OF assms [unfolded split], of "stored_identity_of t"]
  have "\<forall>q \<in> set ys \<union> set zs. \<not> record_matches_transaction_id q t"
    using distinct r by (simp add: matches_iff)
  then have "file_lookup_scan t d 0 None rs = Inr (Some (flr_position r, length ys < d))"
    using r by (simp add: split lookup_scan_skip lookup_scan_none)
  with r show thesis by (intro found [of "length ys"]) (simp_all add: split nth_append)
next
  case False
  then show thesis by (intro absent) (auto intro: lookup_scan_none)
qed

end
