(* ===== verification/File_Log_Examples.thy ===== *)
theory File_Log_Examples
  imports File_Log_Reopen
begin

text \<open>
  A file log that is created, written and synchronized, and whose next commit is torn.
\<close>

definition sample_path :: log_path where
  "sample_path = \<lparr>lp_has_parent = True, lp_has_file_name = True\<rparr>"

definition sample_commit :: "u64 \<Rightarrow> transaction_commit_record" where
  "sample_commit q = TransactionCommitRecord \<lparr>tt_epoch = TransactionEpoch 1, tt_sequence = q\<rparr>"

definition sample_position :: "u64 \<Rightarrow> log_sequence_number" where
  "sample_position v = lineage_position (Persistent (PersistentLogId 7)) v"

definition created_log :: file_log where
  "created_log = projr (file_create_new working_io sample_path CandidateAbsent (PersistentLogId 7))"

definition epoch_log :: file_log where
  "epoch_log = snd (allocate_transaction_epoch_frame working_io created_log)"

definition commit_log1 :: file_log where
  "commit_log1 = snd (file_append_commit working_io (\<lambda>_. True) (sample_commit 1) epoch_log)"

definition flushed_log1 :: file_log where
  "flushed_log1 = snd (file_flush_through working_io (sample_position 1) commit_log1)"

text \<open>The next commit stops after 20 bytes of its frame.\<close>

definition torn_io :: file_io where
  "torn_io stage at = (if stage = StageWriteCommitFrame then Some (IoError 28, 20) else None)"

definition torn_log :: file_log where
  "torn_log = snd (file_append_commit torn_io (\<lambda>_. True) (sample_commit 2) flushed_log1)"

lemmas run_simps = create_new_internal_def sync_parent_directory_def sample_path_def file_create_new_def
  allocate_transaction_epoch_frame_def write_frame_def sync_file_def working_io_def file_append_commit_def
  fault_gate_def file_consume_fault_def file_push_record_def sample_commit_def with_result_def
  stored_identity_of_def next_nonzero_def non_zero_u64_def checked_add_def file_flush_through_def
  sample_position_def lineage_position_def

lemma created_log_eq: "file_create_new working_io sample_path CandidateAbsent (PersistentLogId 7) = Inr created_log"
  by (simp add: created_log_def run_simps)

lemma created_fields:
  "fl_poisoned created_log = False" "fl_next_epoch created_log = Some 1" "fl_next_position created_log = Some 1"
  "fl_armed_fault created_log = None" "fl_records created_log = []" "fl_durable_len created_log = 0"
  "fl_lineage created_log = Persistent (PersistentLogId 7)"
  by (simp_all add: created_log_def file_create_new_def create_new_internal_def sync_parent_directory_def sample_path_def)

lemma epoch_fields:
  "fl_poisoned epoch_log = False" "fl_next_epoch epoch_log = Some 2" "fl_next_position epoch_log = Some 1"
  "fl_armed_fault epoch_log = None" "fl_records epoch_log = []" "fl_durable_len epoch_log = 0"
  "fl_lineage epoch_log = Persistent (PersistentLogId 7)"
  by (simp_all add: epoch_log_def created_fields run_simps)

lemma commit1_fields:
  "fl_poisoned commit_log1 = False" "fl_next_epoch commit_log1 = Some 2" "fl_next_position commit_log1 = Some 2"
  "fl_armed_fault commit_log1 = None" "fl_durable_len commit_log1 = 0"
  "fl_records commit_log1 = [\<lparr>flr_position = sample_position 1, flr_kind = FileTransactionCommit 1 1\<rparr>]"
  "fl_lineage commit_log1 = Persistent (PersistentLogId 7)"
  by (simp_all add: commit_log1_def epoch_fields run_simps)

lemma commit1_ok:
  "file_append_commit working_io (\<lambda>_. True) (sample_commit 1) epoch_log = (Inr (sample_position 1), commit_log1)"
  by (simp add: commit_log1_def epoch_fields run_simps)

lemma flush1_ok: "file_flush_through working_io (sample_position 1) commit_log1 = (Inr (), flushed_log1)"
  by (simp add: flushed_log1_def commit1_fields run_simps)

lemma flushed1_fields:
  "fl_poisoned flushed_log1 = False" "fl_next_epoch flushed_log1 = Some 2" "fl_next_position flushed_log1 = Some 2"
  "fl_armed_fault flushed_log1 = None" "fl_durable_len flushed_log1 = 1"
  "fl_records flushed_log1 = [\<lparr>flr_position = sample_position 1, flr_kind = FileTransactionCommit 1 1\<rparr>]"
  "fl_lineage flushed_log1 = Persistent (PersistentLogId 7)"
  by (simp_all add: flushed_log1_def commit1_fields run_simps)

lemma torn_result:
  "file_append_commit torn_io (\<lambda>_. True) (sample_commit 2) flushed_log1
    = (Inl (FileLogIo (io_failure StageWriteCommitFrame (IoError 28))), torn_log)"
  by (simp add: torn_log_def flushed1_fields run_simps torn_io_def)

lemma torn_fields:
  "fl_poisoned torn_log = True" "fl_durable_len torn_log = 1"
  "fl_records torn_log = [\<lparr>flr_position = sample_position 1, flr_kind = FileTransactionCommit 1 1\<rparr>]"
  "fl_contents torn_log = fl_contents flushed_log1 @ take 20 (commit_frame flushed_log1 2 \<lparr>sti_epoch = 1, sti_sequence = 2\<rparr>)"
  "fl_synced torn_log = fl_synced flushed_log1"
  by (simp_all add: torn_log_def flushed1_fields run_simps torn_io_def commit_frame_def)

section \<open>The run is a run\<close>

lemma created_reachable: "file_reachable ExpectV1 8 created_log"
proof -
  have "log_id_wf (PersistentLogId 7)" by (simp add: log_id_wf_def)
  then show ?thesis by (intro file_reachable.start version1 [OF created_log_eq])
qed

lemma epoch_reachable: "file_reachable ExpectV1 8 epoch_log"
proof -
  have "allocate_transaction_epoch_frame working_io created_log
      = (fst (allocate_transaction_epoch_frame working_io created_log), epoch_log)"
    by (simp add: epoch_log_def)
  then have "file_step ExpectV1 8 created_log epoch_log" by (rule file_step.epoch)
  with created_reachable show ?thesis by (rule file_reachable.step)
qed

lemma commit1_allowed: "commit_allowed epoch_log (sample_commit 1)"
  by (simp add: commit_allowed_def identity_issued_def commit_fresh_def epoch_fields sample_commit_def
      stored_identity_of_def)

lemma commit1_step: "file_step ExpectV1 8 epoch_log commit_log1"
  by (rule file_step.commit [OF commit1_allowed commit1_ok])

lemma flush1_step: "file_step ExpectV1 8 commit_log1 flushed_log1"
  by (rule file_step.flush [OF flush1_ok])

lemma commit1_reachable: "file_reachable ExpectV1 8 commit_log1"
  by (rule file_reachable.step [OF epoch_reachable commit1_step])

lemma flushed1_reachable: "file_reachable ExpectV1 8 flushed_log1"
  by (rule file_reachable.step [OF commit1_reachable flush1_step])

lemma commit2_allowed: "commit_allowed flushed_log1 (sample_commit 2)"
  by (simp add: commit_allowed_def identity_issued_def commit_fresh_def flushed1_fields sample_commit_def
      stored_identity_of_def record_transaction_identity_def)

lemma torn_step: "file_step ExpectV1 8 flushed_log1 torn_log"
  by (rule file_step.commit [OF commit2_allowed torn_result])

lemma torn_reachable: "file_reachable ExpectV1 8 torn_log"
  by (rule file_reachable.step [OF flushed1_reachable torn_step])

section \<open>Lengths\<close>

lemma created_contents: "length (fl_contents created_log) = 64"
  by (simp add: created_log_def file_create_new_def create_new_internal_def sync_parent_directory_def
      sample_path_def build_header_v1_def)

lemma epoch_contents: "length (fl_contents epoch_log) = 120"
  by (simp add: epoch_log_def created_fields created_contents run_simps frame_length_def)

lemma commit1_contents: "length (fl_contents commit_log1) = 176"
  by (simp add: commit_log1_def epoch_fields epoch_contents run_simps frame_length_def)

lemma flushed1_contents: "length (fl_contents flushed_log1) = 232" "fl_synced flushed_log1 = 232"
  by (simp_all add: flushed_log1_def commit1_fields commit1_contents run_simps frame_length_def)

lemma torn_contents: "length (fl_contents torn_log) = 252" "fl_synced torn_log = 232"
  by (simp_all add: torn_fields flushed1_contents commit_frame_def frame_length_def)

end
