(* ===== verification/File_Log_Properties.thy ===== *)
theory File_Log_Properties
  imports File_Log_Reopen File_Log_Lookup File_Log_Examples
begin

text \<open>
  What the file log guarantees: crashes keep every durable record, acknowledged commits survive
  any run, a corrupted file is refused, a torn write stops the writer, and lookups are exact.
\<close>

section \<open>Crashes and opening again\<close>

lemma openable_sample: "openable sample_path CandidateAbsent"
  by (simp add: openable_def sample_path_def)

text \<open>C2: After any run of the file log, under any faults of the system, a crash that keeps any
  prefix of the file with its synchronized part leaves a file that opens: the log opened is usable,
  has the same identity and generation, and every record that was durable is durable in it, in the
  same order, with nothing invented: what it holds is a prefix of the file, and its records are a
  prefix of what an unpoisoned log held.\<close>

theorem file_crash_recovery:
  assumes "file_reachable x n l" and "crash_image l bytes" and "length bytes < 2 ^ 64"
    and "openable path entry"
  shows "\<exists>l'. open_internal working_io (\<lambda>_. True) (unat n) path entry x bytes = Inr l'
    \<and> \<not> fl_poisoned l' \<and> fl_persistent_id l' = fl_persistent_id l \<and> fl_generation l' = fl_generation l
    \<and> prefix (file_durable_records l) (file_durable_records l')
    \<and> prefix (fl_contents l') bytes
    \<and> (\<not> fl_poisoned l \<longrightarrow> prefix (fl_records l') (fl_records l))"
  using file_reopen_inv [OF file_reachable_inv [OF assms(1)] assms(2-4)] by metis

lemma torn_crash_image: "crash_image torn_log (take 240 (fl_contents torn_log))"
  unfolding crash_image_def torn_contents by (rule exI [of _ 240]) simp

theorem file_crash_recovery_witness:
  "\<exists>l'. open_internal working_io (\<lambda>_. True) (unat (8 :: usize)) sample_path CandidateAbsent ExpectV1
      (take 240 (fl_contents torn_log)) = Inr l'
    \<and> \<not> fl_poisoned l' \<and> prefix (file_durable_records torn_log) (file_durable_records l')
    \<and> file_durable_records torn_log = [\<lparr>flr_position = sample_position 1, flr_kind = FileTransactionCommit 1 1\<rparr>]"
proof -
  have "length (take 240 (fl_contents torn_log)) < 2 ^ 64" by (simp add: torn_contents)
  from file_crash_recovery [OF torn_reachable torn_crash_image this openable_sample] show ?thesis
    by (auto simp: file_durable_records_def torn_fields)
qed

text \<open>C10: Opening what a usable log has written gives that log again, field by field: its records and
  how many of them are durable, the next position and the next epoch, its format, identities and
  reclamation fields. Only what belongs to the process or the directory is new.\<close>

theorem file_reopen_exact:
  assumes "file_reachable x n l" and "\<not> fl_poisoned l" and "length (fl_contents l) < 2 ^ 64"
    and "openable path entry"
  shows "open_internal working_io (\<lambda>_. True) (unat n) path entry x (fl_contents l)
    = Inr (l\<lparr>fl_synced := length (fl_contents l), fl_reclamation_old_file := None, fl_path := path,
             fl_candidate := cleaned path entry, fl_armed_fault := None\<rparr>)"
proof -
  obtain h s s0 where scans: "scans_to x n l h s s0"
    using file_reachable_inv [OF assms(1)] by (auto simp: file_log_inv_def)
  note exact = scans_to_exact [OF scans assms(2)]
  have aligned: "frame_length dvd length (fl_contents l) - oh_length h"
    using scans assms(2) by (simp add: scans_to_def)
  from scans have "read_log_header working_io x (fl_contents l) = Inr h"
    "scan_log x n h (fl_contents l) = Inr s" by (simp_all add: scans_to_def)
  moreover have "header_checks h s"
  proof -
    have "crash_image l (fl_contents l)"
      unfolding crash_image_def using scans by (intro exI [of _ "length (fl_contents l)"]) (simp add: scans_to_def)
    from crash_scan [OF scans this] scans show ?thesis by (auto simp: scans_to_def)
  qed
  ultimately have "open_internal working_io (\<lambda>_. True) (unat n) path entry x (fl_contents l)
      = Inr (log_after_open path entry (fl_contents l) h s)"
    using assms(4) by (rule open_working)
  moreover have "cut_length h (fl_contents l) s = length (fl_contents l)"
    using exact(5) aligned by (simp add: cut_length_def repaired_length_def)
  then have "log_after_open path entry (fl_contents l) h s = l\<lparr>fl_synced := length (fl_contents l),
      fl_reclamation_old_file := None, fl_path := path, fl_candidate := cleaned path entry, fl_armed_fault := None\<rparr>"
    using exact assms(2) unfolding log_after_open_def opened_log_def header_matches_def Let_def
    by (intro file_log.equality) (simp_all)
  ultimately show ?thesis by simp
qed

theorem file_reopen_exact_witness:
  "open_internal working_io (\<lambda>_. True) (unat (8 :: usize)) sample_path CandidateAbsent ExpectV1
      (fl_contents flushed_log1)
    = Inr (flushed_log1\<lparr>fl_synced := 232, fl_reclamation_old_file := None, fl_path := sample_path,
        fl_candidate := CandidateAbsent, fl_armed_fault := None\<rparr>)"
  using file_reopen_exact [OF flushed1_reachable _ _ openable_sample] flushed1_fields(1) flushed1_contents(1)
  by (simp add: cleaned_def sample_path_def)

section \<open>Acknowledged commits\<close>

lemma inv_records_wf:
  assumes "file_log_inv x n l" and "\<not> fl_poisoned l"
  shows "file_records_wf l"
proof -
  obtain h s s0 where scans: "scans_to x n l h s s0" using assms(1) by (auto simp: file_log_inv_def)
  note exact = scans_to_exact [OF scans assms(2)] and lineage = scans_to_fixed(1) [OF scans]
  have "flr_value r < v" if "fl_next_position l = Some v" "r \<in> set (fl_records l)" for r v
  proof -
    have "checked_add (os_last_completed_position s) 1 = Some v" "flr_value r \<le> os_last_completed_position s"
      using exact that by (simp_all add: open_state_wf_def)
    then show ?thesis using checked_add_one_less(1) le_less_trans by blast
  qed
  moreover have "lsn_lineage (flr_position r) = fl_lineage l" if "r \<in> set (fl_records l)" for r
    using exact that lineage by (simp add: open_state_wf_def)
  moreover have "sorted_wrt (<) (map flr_value (fl_records l))" "fl_durable_len l \<le> length (fl_records l)"
    using exact by (simp_all add: open_state_wf_def)
  ultimately show ?thesis unfolding file_records_wf_def by blast
qed

lemma append_unpoisoned: "file_append_commit io reserve c l = (Inr p, k) \<Longrightarrow> \<not> fl_poisoned l"
  by (elim append_commit_effect) (auto simp: rejected_def)

lemma durable_entry_record:
  assumes "file_records_wf l" and "file_durable l p" and "file_entry l p = Some k"
  shows "\<lparr>flr_position = p, flr_kind = k\<rparr> \<in> set (file_durable_records l)"
proof -
  obtain r where r: "r \<in> set (file_durable_records l)" "flr_position r = p"
    using assms(2) by (auto simp: file_durable_def)
  obtain q where q: "find (\<lambda>r. flr_position r = p) (fl_records l) = Some q" "flr_kind q = k"
    using assms(3) by (auto simp: file_entry_def)
  then have "q \<in> set (fl_records l)" "flr_position q = p" by (auto simp: find_Some_iff)
  moreover have "r \<in> set (fl_records l)" using r(1) by (auto simp: file_durable_records_def dest: in_set_takeD)
  moreover have "distinct (map flr_value (fl_records l))"
    using assms(1) by (simp add: file_records_wf_def strict_sorted_iff)
  ultimately have "r = q" using r(2) by (metis distinct_map inj_onD)
  with r q(2) show ?thesis by (metis (full_types) file_log_record.surjective old.unit.exhaust)
qed

text \<open>C3: A commit that the file log acknowledged through the durability fence is a durable commit
  record at the position it returned, and stays one through any further run of appends, flushes,
  failures of the system, crashes and reopenings.\<close>

theorem file_acknowledged_commit_durable:
  assumes "file_reachable x n l" and "commit_allowed l c"
    and "commit_durability (file_log_port io reserve) c f l = (Inr out, l1)"
    and "(file_step x n)\<^sup>*\<^sup>* l1 l2"
  shows "\<exists>p. out = f p \<and> \<lparr>flr_position = p, flr_kind = commit_kind c\<rparr> \<in> set (file_durable_records l2)"
proof -
  note inv = file_reachable_inv [OF assms(1)]
  from assms(3) obtain p k where app: "file_append_commit io reserve c l = (Inr p, k)"
    and flush: "file_flush_through io p k = (Inr (), l1)"
    by (rule commit_durability_Inr) (simp add: file_log_port_def)
  have wf: "file_records_wf l" by (rule inv_records_wf [OF inv append_unpoisoned [OF app]])
  obtain q where q: "out = f q" "file_records_wf l1" "file_durable l1 q" "file_entry l1 q = Some (commit_kind c)"
    using file_commits.acknowledged_commit_durable [OF wf assms(3)] by blast
  have "file_log_inv x n l1"
    using step_inv [OF file_step.flush [OF flush] step_inv [OF file_step.commit [OF assms(2) app] inv]] .
  then have "prefix (file_durable_records l1) (file_durable_records l2)"
    using steps_durable [OF assms(4)] by blast
  with durable_entry_record [OF q(2-4)] q(1) show ?thesis by (auto dest: set_mono_prefix)
qed

lemma commit1_acknowledged:
  "commit_durability (file_log_port working_io (\<lambda>_. True)) (sample_commit 1) lsn_value epoch_log
    = (Inr 1, flushed_log1)"
  by (simp add: commit_durability_def file_log_port_def commit1_ok flush1_ok epoch_fields commit1_fields)
    (simp add: sample_position_def lineage_position_def)

theorem file_acknowledged_commit_durable_witness:
  "\<lparr>flr_position = sample_position 1, flr_kind = FileTransactionCommit 1 1\<rparr> \<in> set (file_durable_records torn_log)"
proof -
  have "(file_step ExpectV1 8)\<^sup>*\<^sup>* flushed_log1 torn_log" using torn_step by blast
  from file_acknowledged_commit_durable [OF epoch_reachable commit1_allowed commit1_acknowledged this]
  show ?thesis
    by (simp add: file_durable_records_def torn_fields commit_kind_def sample_commit_def)
qed

section \<open>Corruption\<close>

text \<open>C11: The file of an unpoisoned log with any one byte changed, in its header or in any frame, is
  refused by every open, whatever the system does.\<close>

theorem corrupted_log_refused:
  assumes "file_reachable x n l" and "\<not> fl_poisoned l" and "i < length (fl_contents l)"
    and "b \<noteq> fl_contents l ! i"
  shows "\<exists>e. open_internal io reserve (unat n) path entry x ((fl_contents l)[i := b]) = Inl e"
proof (rule ccontr)
  assume "\<not> ?thesis"
  then obtain l' where "open_internal io reserve (unat n) path entry x ((fl_contents l)[i := b]) = Inr l'"
    by (metis sum.exhaust)
  then obtain h' s' where h': "read_log_header working_io x ((fl_contents l)[i := b]) = Inr h'"
    and s': "scan_log x n h' ((fl_contents l)[i := b]) = Inr s'"
    by (elim open_any) (simp add: scan_log_def)
  obtain h s s0 where scans: "scans_to x n l h s s0"
    using file_reachable_inv [OF assms(1)] by (auto simp: file_log_inv_def)
  then have h: "read_log_header working_io x (fl_contents l) = Inr h"
    and s: "scan_log x n h (fl_contents l) = Inr s" and len: "oh_length h \<le> length (fl_contents l)"
    and aligned: "frame_length dvd length (fl_contents l) - oh_length h"
    using assms(2) by (auto simp: scans_to_def)
  show False
  proof (cases "i < oh_length h")
    case True
    with corrupted_header_refused [OF h _ assms(4)] h' show ?thesis by blast
  next
    case False
    let ?frames = "drop (oh_length h) (fl_contents l)"
    have "read_log_header working_io x ((fl_contents l)[i := b]) = Inr h"
      by (rule read_log_header_prefix [OF h]) (use False len in simp_all)
    with h' have "h' = h" by simp
    with s' False have "scan (unat n) (oh_format h) (oh_length h) (?frames[i - oh_length h := b])
        (initial_open_state (expectation_page_layout x) h) = Inr s'"
      by (simp add: scan_log_def drop_update_swap)
    moreover obtain k where "length ?frames = k * frame_length"
      using aligned by (auto simp: dvd_def mult.commute)
    moreover from this have "i - oh_length h < length ?frames" using assms(3) False by simp
    moreover have "b \<noteq> ?frames ! (i - oh_length h)" using assms(3,4) False by simp
    ultimately show ?thesis using corrupted_frame_stops_scan [OF s [unfolded scan_log_def]] by blast
  qed
qed

theorem corrupted_log_refused_witness:
  "\<exists>e. open_internal working_io (\<lambda>_. True) (unat (8 :: usize)) sample_path CandidateAbsent ExpectV1
    ((fl_contents flushed_log1)[130 := fl_contents flushed_log1 ! 130 + 1]) = Inl e"
  by (rule corrupted_log_refused [OF flushed1_reachable]) (simp_all add: flushed1_fields flushed1_contents)

section \<open>Failed appends\<close>

text \<open>An append of a commit ends in one of three ways: refused with file, records and poison
  unchanged; torn, with the writer poisoned, a part of the frame in the file and no record; or
  written, with the whole frame in the file and the record at the next position, also when the
  injected fault after the append fires.\<close>

theorem file_append_commit_outcomes:
  assumes "file_append_commit io reserve c l = (r, l')"
  defines "frame \<equiv> \<lambda>v. commit_frame l v (stored_identity_of (commit_record_id c))"
  shows "(\<exists>e armed. r = Inl e \<and> l' = l\<lparr>fl_armed_fault := armed\<rparr>)
    \<or> (\<exists>e v k. r = Inl e \<and> fl_next_position l = Some v \<and> fl_poisoned l'
        \<and> fl_contents l' = fl_contents l @ take k (frame v) \<and> fl_records l' = fl_records l)
    \<or> (\<exists>v. fl_next_position l = Some v \<and> \<not> fl_poisoned l' \<and> fl_contents l' = fl_contents l @ frame v
        \<and> fl_records l' = fl_records l @
            [\<lparr>flr_position = lineage_position (fl_lineage l) v, flr_kind = commit_kind c\<rparr>]
        \<and> (r = Inr (lineage_position (fl_lineage l) v) \<or> r = Inl (FileLogInjectedFault FileAfterAppend)))"
  using assms(1)
proof (cases rule: append_commit_effect)
  case rejected
  then show ?thesis by (auto simp: rejected_def)
next
  case (torn e v)
  then show ?thesis by (auto simp: torn_write_def frame_def)
next
  case (appended v)
  then show ?thesis
    by (auto simp: appended_def file_push_record_def frame_def commit_kind_def stored_identity_of_def)
qed

theorem file_append_commit_outcomes_witness:
  "fl_poisoned torn_log \<and> fl_contents torn_log \<noteq> fl_contents flushed_log1
    \<and> fl_records torn_log = fl_records flushed_log1"
  using file_append_commit_outcomes [OF torn_result] torn_contents flushed1_contents
  by (auto simp: torn_fields flushed1_fields)

text \<open>A poisoned log does nothing more: appends of commits, of pages and of owned pages,
  flushes, epoch allocations and lookups fail and change nothing.\<close>

theorem poisoned_log_refuses:
  assumes "fl_poisoned l"
  shows "file_append_commit io reserve c l = (Inl FileLogPoisonedWriter, l)
    \<and> file_append_page io reserve n page l = (Inl FileLogPoisonedWriter, l)
    \<and> (\<exists>e. file_append_transaction_page io reserve n w l = (Inl e, l))
    \<and> file_flush_through io p l = (Inl FileLogPoisonedWriter, l)
    \<and> allocate_transaction_epoch_frame io l = (Inl FileEpochPoisonedWriter, l)
    \<and> file_lookup_durable_commit t l = (Inl FileRecoveryPoisonedWriter, l)"
  using assms
  by (cases "supports_transaction_pages (fl_format l)")
    (simp_all add: file_append_commit_def file_append_page_def file_append_transaction_page_def
      append_page_group_def file_flush_through_def allocate_transaction_epoch_frame_def
      file_lookup_durable_commit_def with_result_def Let_def)

theorem poisoned_log_refuses_witness:
  "file_append_commit working_io (\<lambda>_. True) (sample_commit 2) torn_log = (Inl FileLogPoisonedWriter, torn_log)"
  using poisoned_log_refuses [of torn_log] torn_fields(1) by simp

section \<open>Lookups\<close>

text \<open>C15: In every reachable usable log at most one commit record belongs to a transaction, and the
  lookup reports exactly that: found at its position when it is durable, an error when it is there
  but not durable, and absent only when there is none.\<close>

theorem file_lookup_exact:
  assumes "file_reachable x n l" and "\<not> fl_poisoned l"
  shows "(\<exists>r \<in> set (file_durable_records l). record_matches_transaction_id r t
        \<and> file_lookup_durable_commit t l = (Inr (fl_lineage l, LookupFound (flr_position r)), l))
    \<or> (\<exists>r \<in> set (drop (fl_durable_len l) (fl_records l)). record_matches_transaction_id r t
        \<and> file_lookup_durable_commit t l = (Inl (FileVolatileCommitRecord t), l))
    \<or> ((\<forall>r \<in> set (fl_records l). \<not> record_matches_transaction_id r t)
        \<and> file_lookup_durable_commit t l = (Inr (fl_lineage l, LookupAbsent), l))"
  using log_commits_distinct [OF file_reachable_inv [OF assms(1)] assms(2)]
proof (rule lookup_scan_exact [of _ t "fl_durable_len l"])
  assume absent: "\<forall>r \<in> set (fl_records l). \<not> record_matches_transaction_id r t"
    and "file_lookup_scan t (fl_durable_len l) 0 None (fl_records l) = Inr None"
  then have "file_lookup_durable_commit t l = (Inr (fl_lineage l, LookupAbsent), l)"
    using assms(2) by (simp add: file_lookup_durable_commit_def with_result_def)
  with absent show ?thesis by blast
next
  fix i
  let ?r = "fl_records l ! i"
  assume i: "i < length (fl_records l)" and m: "record_matches_transaction_id ?r t"
    and scan: "file_lookup_scan t (fl_durable_len l) 0 None (fl_records l)
      = Inr (Some (flr_position ?r, i < fl_durable_len l))"
  show ?thesis
  proof (cases "i < fl_durable_len l")
    case True
    then have "?r \<in> set (file_durable_records l)"
      using i unfolding file_durable_records_def in_set_conv_nth by (intro exI [of _ i]) simp
    moreover have "file_lookup_durable_commit t l = (Inr (fl_lineage l, LookupFound (flr_position ?r)), l)"
      using assms(2) scan True by (simp add: file_lookup_durable_commit_def with_result_def)
    ultimately show ?thesis using m by blast
  next
    case False
    then have "?r \<in> set (drop (fl_durable_len l) (fl_records l))"
      using i unfolding in_set_conv_nth by (intro exI [of _ "i - fl_durable_len l"]) simp
    moreover have "file_lookup_durable_commit t l = (Inl (FileVolatileCommitRecord t), l)"
      using assms(2) scan False by (simp add: file_lookup_durable_commit_def with_result_def)
    ultimately show ?thesis using m by blast
  qed
qed

definition sample_transaction :: "u64 \<Rightarrow> transaction_token_id" where
  "sample_transaction q = \<lparr>tt_epoch = TransactionEpoch 1, tt_sequence = q\<rparr>"

lemma sample_matches:
  "record_matches_transaction_id \<lparr>flr_position = p, flr_kind = FileTransactionCommit 1 1\<rparr> (sample_transaction q)
    \<longleftrightarrow> q = 1"
  by (auto simp: record_matches_transaction_id_def record_transaction_identity_def stored_identity_matches_def
      sample_transaction_def)

theorem file_lookup_exact_witness:
  "file_lookup_durable_commit (sample_transaction 1) flushed_log1
      = (Inr (Persistent (PersistentLogId 7), LookupFound (sample_position 1)), flushed_log1)
    \<and> file_lookup_durable_commit (sample_transaction 2) flushed_log1
      = (Inr (Persistent (PersistentLogId 7), LookupAbsent), flushed_log1)
    \<and> file_lookup_durable_commit (sample_transaction 1) commit_log1
      = (Inl (FileVolatileCommitRecord (sample_transaction 1)), commit_log1)"
  using file_lookup_exact [OF flushed1_reachable, of "sample_transaction 1"]
    file_lookup_exact [OF flushed1_reachable, of "sample_transaction 2"]
    file_lookup_exact [OF commit1_reachable, of "sample_transaction 1"]
  by (simp add: flushed1_fields commit1_fields file_durable_records_def sample_matches)

end
