(* ===== verification/Manifest_Codec.thy ===== *)
theory Manifest_Codec
  imports Database_Manifest File_Bytes
begin

text \<open>
  The byte frame of a manifest, version 1 (\<open>database_manifest_codec.rs\<close>): 160 bytes, only
  recovery-required manifests, and the part of the frame both versions lay out the same way.
\<close>

section \<open>Constants\<close>

definition manifest_header_magic :: "u8 list" where "manifest_header_magic = ascii ''NTSQDBM1''"
definition manifest_footer_magic :: "u8 list" where "manifest_footer_magic = ascii ''NTSQDBE1''"
definition manifest_v1_length :: nat where "manifest_v1_length = 160"
definition state_recovery_required :: u8 where "state_recovery_required = 1"
definition state_clean :: u8 where "state_clean = 2"

section \<open>Errors\<close>

datatype (plugins only: code) manifest_decode_error =
    ManifestTruncated nat nat
  | ManifestTrailingBytes nat nat
  | HeaderMagicMismatch "u8 list"
  | UnsupportedVersion u16
  | FrameLengthMismatch u16
  | HeaderFlagsUnsupported u32
  | FooterMagicMismatch "u8 list"
  | ChecksumMismatch u64 u64
  | ReservedByteNonZero nat u8
  | DatabaseIdZero
  | LifecycleGenerationZero
  | LifecycleStateUnsupported u8
  | PersistentLogIdZero
  | FileIdZero file_role
  | ManifestCompositionIdentity composition_identity_error
  | StorageFormatVersionZero file_role
  | ManifestRequiredFeatures required_features_error

text \<open>The \<open>Debug\<close> format of a byte array.\<close>

definition debug_bytes :: "u8 list \<Rightarrow> string" where
  "debug_bytes bs = ''['' @ (case bs of [] \<Rightarrow> [] | b # bs \<Rightarrow>
     dec b @ concat (map (\<lambda>b. '', '' @ dec b) bs)) @ '']''"

primrec show_manifest_decode_error :: "manifest_decode_error \<Rightarrow> string" where
  "show_manifest_decode_error (ManifestTruncated expected actual) =
     ''database manifest is truncated: expected '' @ dec_nat expected @ '' bytes, found '' @ dec_nat actual"
| "show_manifest_decode_error (ManifestTrailingBytes expected actual) =
     ''database manifest has trailing bytes: expected '' @ dec_nat expected @ '' bytes, found ''
       @ dec_nat actual"
| "show_manifest_decode_error (HeaderMagicMismatch actual) =
     ''database manifest header magic is invalid: '' @ debug_bytes actual"
| "show_manifest_decode_error (UnsupportedVersion actual) =
     ''database manifest version '' @ dec actual @ '' is unsupported''"
| "show_manifest_decode_error (FrameLengthMismatch actual) =
     ''database manifest frame length '' @ dec actual @ '' is invalid''"
| "show_manifest_decode_error (HeaderFlagsUnsupported actual) =
     ''database manifest header flags are unsupported: '' @ hex_padded 10 actual"
| "show_manifest_decode_error (FooterMagicMismatch actual) =
     ''database manifest footer magic is invalid: '' @ debug_bytes actual"
| "show_manifest_decode_error (ChecksumMismatch expected actual) =
     ''database manifest checksum mismatch: expected '' @ hex_padded 18 expected @ '', found ''
       @ hex_padded 18 actual"
| "show_manifest_decode_error (ReservedByteNonZero offset actual) =
     ''database manifest reserved byte at offset '' @ dec_nat offset @ '' is nonzero: '' @ dec actual"
| "show_manifest_decode_error DatabaseIdZero = ''database manifest database ID is zero''"
| "show_manifest_decode_error LifecycleGenerationZero =
     ''database manifest lifecycle generation is zero''"
| "show_manifest_decode_error (LifecycleStateUnsupported actual) =
     ''database manifest lifecycle state '' @ dec actual @ '' is unsupported''"
| "show_manifest_decode_error PersistentLogIdZero =
     ''database manifest persistent WAL identity is zero''"
| "show_manifest_decode_error (FileIdZero role) =
     ''database manifest '' @ show_file_role role @ '' file identity is zero''"
| "show_manifest_decode_error (ManifestCompositionIdentity source) =
     ''database manifest composition identity is invalid: '' @ show_composition_identity_error source"
| "show_manifest_decode_error (StorageFormatVersionZero role) =
     ''database manifest '' @ show_file_role role @ '' format version is zero''"
| "show_manifest_decode_error (ManifestRequiredFeatures source) =
     ''database manifest required features are invalid: '' @ show_required_features_error source"

record unsupported_lifecycle_state =
  ul_actual :: manifest_lifecycle_state

definition show_unsupported_lifecycle_state :: "unsupported_lifecycle_state \<Rightarrow> string" where
  "show_unsupported_lifecycle_state e =
     ''database manifest lifecycle state '' @ show_manifest_lifecycle_state (ul_actual e)
       @ '' cannot be encoded by frame version 1''"

section \<open>Encoding\<close>

text \<open>The identity fields from the log identity to the features, bytes 48 to 128.\<close>

definition write_identity_fields :: "database_manifest \<Rightarrow> u8 list \<Rightarrow> u8 list" where
  "write_identity_fields m encoded =
     (let composition = dm_composition_identity m; formats = dm_storage_formats m;
          encoded = write_u128 48 (persistent_log_id_get (ci_persistent_log_id composition)) encoded;
          encoded = write_u128 64 (file_id_get (composition_file_id composition RoleWal)) encoded;
          encoded = write_u128 80 (file_id_get (composition_file_id composition RolePageStore)) encoded;
          encoded = write_u128 96 (file_id_get (composition_file_id composition RoleRestartCheckpoint)) encoded;
          encoded = write_u16 112 (format_version_get (required_format formats RoleWal)) encoded;
          encoded = write_u16 114 (format_version_get (required_format formats RolePageStore)) encoded;
          encoded = write_u16 116 (format_version_get (required_format formats RoleRestartCheckpoint)) encoded
      in write_u64 120 (feature_bits (dm_required_features m)) encoded)"

definition encode_database_manifest :: "database_manifest \<Rightarrow> unsupported_lifecycle_state + u8 list" where
  "encode_database_manifest m =
     (case dm_lifecycle_state m of
        Clean certificate \<Rightarrow> Inl \<lparr>ul_actual = Clean certificate\<rparr>
      | RecoveryRequired \<Rightarrow>
          (let composition = dm_composition_identity m;
               encoded = replicate manifest_v1_length 0;
               encoded = copy_into 0 manifest_header_magic encoded;
               encoded = write_u16 8 1 encoded;
               encoded = write_u16 10 160 encoded;
               encoded = write_u128 16 (database_id_get (ci_database_id composition)) encoded;
               encoded = write_u64 32 (generation_get (ci_lifecycle_generation composition)) encoded;
               encoded = encoded[40 := state_recovery_required];
               encoded = write_identity_fields m encoded;
               encoded = copy_into 144 manifest_footer_magic encoded
           in Inr (write_u64 152 (checksum_v1 (take 152 encoded)) encoded)))"

section \<open>Decoding\<close>

text \<open>The first nonzero byte of the reserved ranges, which are pairs of an offset and a length.\<close>

fun check_reserved ::
  "(nat \<Rightarrow> u8 \<Rightarrow> 'e) \<Rightarrow> u8 list \<Rightarrow> nat list \<Rightarrow> 'e + unit" where
  "check_reserved error encoded [] = Inr ()"
| "check_reserved error encoded (offset # offsets) =
     (if encoded ! offset \<noteq> 0 then Inl (error offset (encoded ! offset))
      else check_reserved error encoded offsets)"

definition decode_file_id ::
  "(file_role \<Rightarrow> 'e) \<Rightarrow> u8 list \<Rightarrow> file_role \<Rightarrow> nat \<Rightarrow> 'e + database_file_id" where
  "decode_file_id zero encoded role offset = ok_or (database_file_id_new (read_u128 encoded offset)) (zero role)"

definition decode_storage_format_version ::
  "(file_role \<Rightarrow> 'e) \<Rightarrow> u8 list \<Rightarrow> file_role \<Rightarrow> nat \<Rightarrow> 'e + storage_format_version" where
  "decode_storage_format_version zero encoded role offset =
     ok_or (storage_format_version_new (read_u16 encoded offset)) (zero role)"

text \<open>
  From the file identities to the features: the composition, the formats and the features. The two
  versions differ only in their error type.
\<close>

definition decode_identity_fields ::
  "(file_role \<Rightarrow> 'e) \<Rightarrow> (composition_identity_error \<Rightarrow> 'e) \<Rightarrow> (file_role \<Rightarrow> 'e)
     \<Rightarrow> (required_features_error \<Rightarrow> 'e) \<Rightarrow> database_id \<Rightarrow> lifecycle_generation \<Rightarrow> persistent_log_id
     \<Rightarrow> u8 list \<Rightarrow> 'e + composition_identity \<times> storage_format_requirements \<times> required_features" where
  "decode_identity_fields file_zero composition_error format_zero features_error database generation log
     encoded =
     and_then (decode_file_id file_zero encoded RoleWal 64) (\<lambda>wal.
     and_then (decode_file_id file_zero encoded RolePageStore 80) (\<lambda>page_store.
     and_then (decode_file_id file_zero encoded RoleRestartCheckpoint 96) (\<lambda>checkpoint.
     and_then (map_err composition_error (composition_identity_new database generation log
       [\<lparr>fi_role = RoleWal, fi_file_id = wal\<rparr>, \<lparr>fi_role = RolePageStore, fi_file_id = page_store\<rparr>,
        \<lparr>fi_role = RoleRestartCheckpoint, fi_file_id = checkpoint\<rparr>])) (\<lambda>composition.
     and_then (decode_storage_format_version format_zero encoded RoleWal 112) (\<lambda>wal_format.
     and_then (decode_storage_format_version format_zero encoded RolePageStore 114) (\<lambda>page_format.
     and_then (decode_storage_format_version format_zero encoded RoleRestartCheckpoint 116)
       (\<lambda>checkpoint_format.
     and_then (map_err features_error (features_from_bits (read_u64 encoded 120))) (\<lambda>features.
     Inr (composition, \<lparr>fq_wal = wal_format, fq_page_store = page_format,
       fq_restart_checkpoint = checkpoint_format\<rparr>, features)))))))))"

definition decode_database_manifest :: "u8 list \<Rightarrow> manifest_decode_error + database_manifest" where
  "decode_database_manifest encoded =
     and_then (ensure (\<not> length encoded < manifest_v1_length)
       (ManifestTruncated manifest_v1_length (length encoded))) (\<lambda>_.
     and_then (ensure (\<not> length encoded > manifest_v1_length)
       (ManifestTrailingBytes manifest_v1_length (length encoded))) (\<lambda>_.
     let header_magic = bytes_at 0 8 encoded; version = read_u16 encoded 8;
         frame_length = read_u16 encoded 10; flags = read_u32 encoded 12;
         footer_magic = bytes_at 144 8 encoded; actual = read_u64 encoded 152;
         expected = checksum_v1 (take 152 encoded) in
     and_then (ensure (header_magic = manifest_header_magic) (HeaderMagicMismatch header_magic)) (\<lambda>_.
     and_then (ensure (version = 1) (UnsupportedVersion version)) (\<lambda>_.
     and_then (ensure (frame_length = 160) (FrameLengthMismatch frame_length)) (\<lambda>_.
     and_then (ensure (flags = 0) (HeaderFlagsUnsupported flags)) (\<lambda>_.
     and_then (ensure (footer_magic = manifest_footer_magic) (FooterMagicMismatch footer_magic)) (\<lambda>_.
     and_then (ensure (actual = expected) (ChecksumMismatch expected actual)) (\<lambda>_.
     and_then (check_reserved ReservedByteNonZero encoded ([41..<48] @ [118..<120] @ [128..<144])) (\<lambda>_.
     and_then (ok_or (database_id_new (read_u128 encoded 16)) DatabaseIdZero) (\<lambda>database.
     and_then (ok_or (lifecycle_generation_new (read_u64 encoded 32)) LifecycleGenerationZero)
       (\<lambda>generation.
     and_then (ensure (encoded ! 40 = state_recovery_required) (LifecycleStateUnsupported (encoded ! 40)))
       (\<lambda>_.
     and_then (ok_or (persistent_log_id_new (read_u128 encoded 48)) PersistentLogIdZero) (\<lambda>log.
     and_then (decode_identity_fields FileIdZero ManifestCompositionIdentity StorageFormatVersionZero
       ManifestRequiredFeatures database generation log encoded) (\<lambda>(composition, formats, features).
     Inr (manifest_recovery_required composition formats features)))))))))))))))"

end
