(* ===== verification/Manifest_Codec_V2.thy ===== *)
theory Manifest_Codec_V2
  imports Manifest_Codec
begin

text \<open>
  The byte frame of a manifest, version 2 (\<open>database_manifest_codec_v2.rs\<close>): 256 bytes, with the
  clean-close certificate in bytes 128 to 240.
\<close>

definition manifest_v2_header_magic :: "u8 list" where "manifest_v2_header_magic = ascii ''NTSQDBM2''"
definition manifest_v2_footer_magic :: "u8 list" where "manifest_v2_footer_magic = ascii ''NTSQDBE2''"
definition manifest_v2_length :: nat where "manifest_v2_length = 256"

section \<open>Errors\<close>

datatype (plugins only: code) manifest_v2_decode_error =
    V2Truncated nat nat
  | V2TrailingBytes nat nat
  | V2HeaderMagicMismatch "u8 list"
  | V2UnsupportedVersion u16
  | V2FrameLengthMismatch u16
  | V2HeaderFlagsUnsupported u32
  | V2FooterMagicMismatch "u8 list"
  | V2ChecksumMismatch u64 u64
  | V2ReservedByteNonZero nat u8
  | V2DatabaseIdZero
  | V2LifecycleGenerationZero
  | V2LifecycleStateUnsupported u8
  | V2PersistentLogIdZero
  | V2FileIdZero file_role
  | V2CompositionIdentity composition_identity_error
  | V2StorageFormatVersionZero file_role
  | V2RequiredFeatures required_features_error
  | CertificateAreaNonZero nat u8
  | FrontierPresenceUnsupported u8
  | FrontierNotCanonicallyZero u64
  | CertificateSourceGenerationZero
  | CleanCertificate clean_close_certificate_error
  | CleanManifest generation_transition_error

primrec show_manifest_v2_decode_error :: "manifest_v2_decode_error \<Rightarrow> string" where
  "show_manifest_v2_decode_error (V2Truncated expected actual) =
     ''database manifest v2 is truncated: expected '' @ dec_nat expected @ '' bytes, found '' @ dec_nat actual"
| "show_manifest_v2_decode_error (V2TrailingBytes expected actual) =
     ''database manifest v2 has trailing bytes: expected '' @ dec_nat expected @ '' bytes, found ''
       @ dec_nat actual"
| "show_manifest_v2_decode_error (V2HeaderMagicMismatch actual) =
     ''database manifest v2 header magic is invalid: '' @ debug_bytes actual"
| "show_manifest_v2_decode_error (V2UnsupportedVersion actual) =
     ''database manifest v2 version '' @ dec actual @ '' is unsupported''"
| "show_manifest_v2_decode_error (V2FrameLengthMismatch actual) =
     ''database manifest v2 frame length '' @ dec actual @ '' is invalid''"
| "show_manifest_v2_decode_error (V2HeaderFlagsUnsupported actual) =
     ''database manifest v2 header flags are unsupported: '' @ hex_padded 10 actual"
| "show_manifest_v2_decode_error (V2FooterMagicMismatch actual) =
     ''database manifest v2 footer magic is invalid: '' @ debug_bytes actual"
| "show_manifest_v2_decode_error (V2ChecksumMismatch expected actual) =
     ''database manifest v2 checksum mismatch: expected '' @ hex_padded 18 expected @ '', found ''
       @ hex_padded 18 actual"
| "show_manifest_v2_decode_error (V2ReservedByteNonZero offset actual) =
     ''database manifest v2 reserved byte at offset '' @ dec_nat offset @ '' is nonzero: '' @ dec actual"
| "show_manifest_v2_decode_error V2DatabaseIdZero = ''database manifest v2 database ID is zero''"
| "show_manifest_v2_decode_error V2LifecycleGenerationZero =
     ''database manifest v2 lifecycle generation is zero''"
| "show_manifest_v2_decode_error (V2LifecycleStateUnsupported actual) =
     ''database manifest v2 lifecycle state '' @ dec actual @ '' is unsupported''"
| "show_manifest_v2_decode_error V2PersistentLogIdZero =
     ''database manifest v2 persistent WAL identity is zero''"
| "show_manifest_v2_decode_error (V2FileIdZero role) =
     ''database manifest v2 '' @ show_file_role role @ '' file identity is zero''"
| "show_manifest_v2_decode_error (V2CompositionIdentity source) =
     ''database manifest v2 composition identity is invalid: '' @ show_composition_identity_error source"
| "show_manifest_v2_decode_error (V2StorageFormatVersionZero role) =
     ''database manifest v2 '' @ show_file_role role @ '' format version is zero''"
| "show_manifest_v2_decode_error (V2RequiredFeatures source) =
     ''database manifest v2 required features are invalid: '' @ show_required_features_error source"
| "show_manifest_v2_decode_error (CertificateAreaNonZero offset actual) =
     ''database manifest v2 recovery-required certificate area byte at offset '' @ dec_nat offset
       @ '' is nonzero: '' @ dec actual"
| "show_manifest_v2_decode_error (FrontierPresenceUnsupported actual) =
     ''database manifest v2 frontier presence byte '' @ dec actual @ '' is unsupported''"
| "show_manifest_v2_decode_error (FrontierNotCanonicallyZero actual) =
     ''database manifest v2 absent frontier is not canonically zero: '' @ dec actual"
| "show_manifest_v2_decode_error CertificateSourceGenerationZero =
     ''database manifest v2 certificate source generation is zero''"
| "show_manifest_v2_decode_error (CleanCertificate source) =
     ''database manifest v2 clean certificate is invalid: '' @ show_clean_close_certificate_error source"
| "show_manifest_v2_decode_error (CleanManifest source) =
     ''database manifest v2 clean manifest is invalid: '' @ show_generation_transition_error source"

section \<open>Encoding\<close>

definition write_certificate :: "clean_close_certificate \<Rightarrow> u8 list \<Rightarrow> u8 list" where
  "write_certificate c encoded =
     (let encoded = write_u64 128 (generation_get (cc_source_generation c)) encoded;
          encoded = (case cc_durable_wal_frontier c of
              Some v \<Rightarrow> write_u64 144 v (encoded[136 := 1])
            | None \<Rightarrow> encoded[136 := 0]);
          encoded = write_u64 152 (cc_allocated_transaction_epoch_high_water c) encoded;
          encoded = write_u16 160 (cc_checkpoint_anchor_version c) encoded;
          encoded = write_u128 168 (cc_checkpoint_anchor_value c) encoded;
          encoded = write_u64 184 (cc_transaction_entry_count c) encoded
      in write_u64 192 (cc_page_entry_count c) encoded)"

definition encode_database_manifest_v2 :: "database_manifest \<Rightarrow> u8 list" where
  "encode_database_manifest_v2 m =
     (let composition = dm_composition_identity m;
          encoded = replicate manifest_v2_length 0;
          encoded = copy_into 0 manifest_v2_header_magic encoded;
          encoded = write_u16 8 2 encoded;
          encoded = write_u16 10 256 encoded;
          encoded = write_u128 16 (database_id_get (ci_database_id composition)) encoded;
          encoded = write_u64 32 (generation_get (ci_lifecycle_generation composition)) encoded;
          encoded = (case dm_lifecycle_state m of
              RecoveryRequired \<Rightarrow> encoded[40 := state_recovery_required]
            | Clean certificate \<Rightarrow> write_certificate certificate (encoded[40 := state_clean]));
          encoded = write_identity_fields m encoded;
          encoded = copy_into 240 manifest_v2_footer_magic encoded
      in write_u64 248 (checksum_v1 (take 248 encoded)) encoded)"

section \<open>Decoding\<close>

definition decode_certificate :: "u8 list \<Rightarrow> manifest_v2_decode_error + clean_close_certificate" where
  "decode_certificate encoded =
     and_then (check_reserved V2ReservedByteNonZero encoded ([137..<144] @ [162..<168] @ [200..<240])) (\<lambda>_.
     and_then (ok_or (lifecycle_generation_new (read_u64 encoded 128)) CertificateSourceGenerationZero)
       (\<lambda>source.
     let presence = encoded ! 136; frontier_raw = read_u64 encoded 144 in
     and_then (if presence = 0
               then and_then (ensure (frontier_raw = 0) (FrontierNotCanonicallyZero frontier_raw)) (\<lambda>_. Inr None)
               else if presence = 1 then Inr (Some frontier_raw)
               else Inl (FrontierPresenceUnsupported presence)) (\<lambda>frontier.
     map_err CleanCertificate (clean_close_certificate_new source frontier (read_u64 encoded 152)
       (read_u16 encoded 160) (read_u128 encoded 168) (read_u64 encoded 184) (read_u64 encoded 192)))))"

definition decode_database_manifest_v2 :: "u8 list \<Rightarrow> manifest_v2_decode_error + database_manifest" where
  "decode_database_manifest_v2 encoded =
     and_then (ensure (\<not> length encoded < manifest_v2_length)
       (V2Truncated manifest_v2_length (length encoded))) (\<lambda>_.
     and_then (ensure (\<not> length encoded > manifest_v2_length)
       (V2TrailingBytes manifest_v2_length (length encoded))) (\<lambda>_.
     let header_magic = bytes_at 0 8 encoded; version = read_u16 encoded 8;
         frame_length = read_u16 encoded 10; flags = read_u32 encoded 12;
         footer_magic = bytes_at 240 8 encoded; actual = read_u64 encoded 248;
         expected = checksum_v1 (take 248 encoded); state = encoded ! 40 in
     and_then (ensure (header_magic = manifest_v2_header_magic) (V2HeaderMagicMismatch header_magic)) (\<lambda>_.
     and_then (ensure (version = 2) (V2UnsupportedVersion version)) (\<lambda>_.
     and_then (ensure (frame_length = 256) (V2FrameLengthMismatch frame_length)) (\<lambda>_.
     and_then (ensure (flags = 0) (V2HeaderFlagsUnsupported flags)) (\<lambda>_.
     and_then (ensure (footer_magic = manifest_v2_footer_magic) (V2FooterMagicMismatch footer_magic)) (\<lambda>_.
     and_then (ensure (actual = expected) (V2ChecksumMismatch expected actual)) (\<lambda>_.
     and_then (check_reserved V2ReservedByteNonZero encoded ([41..<48] @ [118..<120])) (\<lambda>_.
     and_then (ok_or (database_id_new (read_u128 encoded 16)) V2DatabaseIdZero) (\<lambda>database.
     and_then (ok_or (lifecycle_generation_new (read_u64 encoded 32)) V2LifecycleGenerationZero)
       (\<lambda>generation.
     and_then (ensure (state = state_recovery_required \<or> state = state_clean)
       (V2LifecycleStateUnsupported state)) (\<lambda>_.
     and_then (ok_or (persistent_log_id_new (read_u128 encoded 48)) V2PersistentLogIdZero) (\<lambda>log.
     and_then (decode_identity_fields V2FileIdZero V2CompositionIdentity V2StorageFormatVersionZero
       V2RequiredFeatures database generation log encoded) (\<lambda>(composition, formats, features).
     if state = state_recovery_required
     then and_then (check_reserved CertificateAreaNonZero encoded [128..<240]) (\<lambda>_.
       Inr (manifest_recovery_required composition formats features))
     else and_then (decode_certificate encoded) (\<lambda>certificate.
       map_err CleanManifest (manifest_clean composition formats features certificate))))))))))))))))"

end
