(* ===== verification/Manifest_Codec_Laws.thy ===== *)
theory Manifest_Codec_Laws
  imports Manifest_Codec_V2
begin

text \<open>
  The fields of an encoded manifest, and the round trip of both frame versions.
\<close>

section \<open>Well-formed manifests\<close>

text \<open>What the constructors of \<open>ntsql-database\<close> guarantee of every manifest.\<close>

definition composition_wf :: "composition_identity \<Rightarrow> bool" where
  "composition_wf c \<longleftrightarrow> database_id_get (ci_database_id c) \<noteq> 0
     \<and> generation_get (ci_lifecycle_generation c) \<noteq> 0
     \<and> persistent_log_id_get (ci_persistent_log_id c) \<noteq> 0
     \<and> file_id_get (ci_wal_file_id c) \<noteq> 0 \<and> file_id_get (ci_page_store_file_id c) \<noteq> 0
     \<and> file_id_get (ci_restart_checkpoint_file_id c) \<noteq> 0
     \<and> distinct [ci_wal_file_id c, ci_page_store_file_id c, ci_restart_checkpoint_file_id c]"

definition certificate_wf :: "clean_close_certificate \<Rightarrow> bool" where
  "certificate_wf c \<longleftrightarrow> generation_get (cc_source_generation c) \<noteq> 0
     \<and> cc_durable_wal_frontier c \<noteq> Some 0 \<and> cc_allocated_transaction_epoch_high_water c \<noteq> 0
     \<and> cc_checkpoint_anchor_version c \<noteq> 0"

definition manifest_wf :: "database_manifest \<Rightarrow> bool" where
  "manifest_wf m \<longleftrightarrow> composition_wf (dm_composition_identity m)
     \<and> format_version_get (fq_wal (dm_storage_formats m)) \<noteq> 0
     \<and> format_version_get (fq_page_store (dm_storage_formats m)) \<noteq> 0
     \<and> format_version_get (fq_restart_checkpoint (dm_storage_formats m)) \<noteq> 0
     \<and> feature_bits (dm_required_features m) AND NOT known_bits = 0
     \<and> (case dm_lifecycle_state m of
          RecoveryRequired \<Rightarrow> True
        | Clean c \<Rightarrow> certificate_wf c
            \<and> require_successor (cc_source_generation c)
                (ci_lifecycle_generation (dm_composition_identity m)) = Inr ())"

section \<open>Fields written\<close>

lemmas encode_simps = write_simps read_simps write_identity_fields_def write_certificate_def Let_def
  manifest_v1_length_def manifest_v2_length_def
  manifest_header_magic_def manifest_footer_magic_def
  manifest_v2_header_magic_def manifest_v2_footer_magic_def

lemma identity_fields_written:
  fixes m :: database_manifest
  assumes "128 \<le> length bytes"
  defines "e \<equiv> write_identity_fields m bytes"
  shows "length e = length bytes"
    and "read_u128 e 48 = persistent_log_id_get (ci_persistent_log_id (dm_composition_identity m))"
    and "read_u128 e 64 = file_id_get (ci_wal_file_id (dm_composition_identity m))"
    and "read_u128 e 80 = file_id_get (ci_page_store_file_id (dm_composition_identity m))"
    and "read_u128 e 96 = file_id_get (ci_restart_checkpoint_file_id (dm_composition_identity m))"
    and "read_u16 e 112 = format_version_get (fq_wal (dm_storage_formats m))"
    and "read_u16 e 114 = format_version_get (fq_page_store (dm_storage_formats m))"
    and "read_u16 e 116 = format_version_get (fq_restart_checkpoint (dm_storage_formats m))"
    and "read_u64 e 120 = feature_bits (dm_required_features m)"
    and "\<And>at n. at + n \<le> 48 \<Longrightarrow> bytes_at at n e = bytes_at at n bytes"
    and "\<And>at n. 128 \<le> at \<Longrightarrow> bytes_at at n e = bytes_at at n bytes"
    and "\<And>i. i < 48 \<Longrightarrow> e ! i = bytes ! i"
    and "\<And>i. 118 \<le> i \<Longrightarrow> i < 120 \<Longrightarrow> e ! i = bytes ! i"
    and "\<And>i. 128 \<le> i \<Longrightarrow> i < length bytes \<Longrightarrow> e ! i = bytes ! i"
  using assms(1) by (simp_all add: e_def encode_simps byte_simps)


lemma bytes_at_zero_nth:
  assumes "bytes_at at n bytes = replicate n 0" and "at + n \<le> length bytes" and "at \<le> i" and "i < at + n"
  shows "bytes ! i = 0"
  using nth_bytes_at [of "i - at" n at bytes] assms by simp

lemma certificate_written:
  fixes c :: clean_close_certificate
  assumes "248 \<le> length bytes" and "bytes_at 128 112 bytes = replicate 112 0"
  defines "e \<equiv> write_certificate c bytes"
  shows "length e = length bytes"
    and "read_u64 e 128 = generation_get (cc_source_generation c)"
    and "e ! 136 = (if cc_durable_wal_frontier c = None then 0 else 1)"
    and "read_u64 e 144 = (case cc_durable_wal_frontier c of None \<Rightarrow> 0 | Some v \<Rightarrow> v)"
    and "read_u64 e 152 = cc_allocated_transaction_epoch_high_water c"
    and "read_u16 e 160 = cc_checkpoint_anchor_version c"
    and "read_u128 e 168 = cc_checkpoint_anchor_value c"
    and "read_u64 e 184 = cc_transaction_entry_count c"
    and "read_u64 e 192 = cc_page_entry_count c"
    and "\<And>at n. at + n \<le> 128 \<Longrightarrow> bytes_at at n e = bytes_at at n bytes"
    and "\<And>i. i < 128 \<Longrightarrow> e ! i = bytes ! i"
    and "\<And>i. 137 \<le> i \<Longrightarrow> i < 144 \<Longrightarrow> e ! i = 0"
    and "\<And>i. 162 \<le> i \<Longrightarrow> i < 168 \<Longrightarrow> e ! i = 0"
    and "\<And>i. 200 \<le> i \<Longrightarrow> i < 240 \<Longrightarrow> e ! i = 0"
proof -
  have "bytes_at 144 8 bytes = replicate 8 0"
    by (rule nth_equalityI) (use assms(1) bytes_at_zero_nth [OF assms(2)] in \<open>auto simp: nth_bytes_at\<close>)
  moreover have "of_be_bytes (replicate 8 0) = (0 :: u64)" by code_simp
  ultimately show "read_u64 e 144 = (case cc_durable_wal_frontier c of None \<Rightarrow> 0 | Some v \<Rightarrow> v)"
    using assms(1) by (simp add: e_def encode_simps byte_simps split: option.split)
qed (use assms(1) bytes_at_zero_nth [OF assms(2)] in \<open>simp_all add: e_def encode_simps byte_simps split: option.split\<close>)

section \<open>Decoding the fields\<close>

lemma decode_identity_fields_Inr:
  assumes "composition_wf c" and "read_u128 e 64 = file_id_get (ci_wal_file_id c)"
    and "read_u128 e 80 = file_id_get (ci_page_store_file_id c)"
    and "read_u128 e 96 = file_id_get (ci_restart_checkpoint_file_id c)"
    and "read_u16 e 112 = format_version_get (fq_wal f)" and "format_version_get (fq_wal f) \<noteq> 0"
    and "read_u16 e 114 = format_version_get (fq_page_store f)" and "format_version_get (fq_page_store f) \<noteq> 0"
    and "read_u16 e 116 = format_version_get (fq_restart_checkpoint f)"
    and "format_version_get (fq_restart_checkpoint f) \<noteq> 0"
    and "read_u64 e 120 = feature_bits q" and "feature_bits q AND NOT known_bits = 0"
  shows "decode_identity_fields fz ce vz fe (ci_database_id c) (ci_lifecycle_generation c)
    (ci_persistent_log_id c) e = Inr (c, f, q)"
  using assms
  by (simp add: decode_identity_fields_def decode_file_id_def decode_storage_format_version_def
      database_file_id_new_def storage_format_version_new_def composition_identity_new_def
      storage_identity_new_def validate_database_files_def composition_wf_def features_from_bits_def)

lemma check_reserved_Inr:
  "check_reserved error e is = Inr () \<longleftrightarrow> (\<forall>i \<in> set is. e ! i = 0)"
  by (induction "is") auto


section \<open>The whole frame\<close>

lemma v1_encoded:
  assumes "dm_lifecycle_state m = RecoveryRequired"
  obtains e where "encode_database_manifest m = Inr e" and "length e = manifest_v1_length"
    and "bytes_at 0 8 e = manifest_header_magic" and "read_u16 e 8 = 1" and "read_u16 e 10 = 160"
    and "read_u32 e 12 = 0" and "bytes_at 144 8 e = manifest_footer_magic"
    and "read_u64 e 152 = checksum_v1 (take 152 e)"
    and "read_u128 e 16 = database_id_get (ci_database_id (dm_composition_identity m))"
    and "read_u64 e 32 = generation_get (ci_lifecycle_generation (dm_composition_identity m))"
    and "e ! 40 = state_recovery_required"
    and "read_u128 e 48 = persistent_log_id_get (ci_persistent_log_id (dm_composition_identity m))"
    and "read_u128 e 64 = file_id_get (ci_wal_file_id (dm_composition_identity m))"
    and "read_u128 e 80 = file_id_get (ci_page_store_file_id (dm_composition_identity m))"
    and "read_u128 e 96 = file_id_get (ci_restart_checkpoint_file_id (dm_composition_identity m))"
    and "read_u16 e 112 = format_version_get (fq_wal (dm_storage_formats m))"
    and "read_u16 e 114 = format_version_get (fq_page_store (dm_storage_formats m))"
    and "read_u16 e 116 = format_version_get (fq_restart_checkpoint (dm_storage_formats m))"
    and "read_u64 e 120 = feature_bits (dm_required_features m)"
    and "\<forall>i \<in> set ([41..<48] @ [118..<120] @ [128..<144]). e ! i = 0"
proof -
  have zero: "of_be_bytes (replicate 4 0) = (0 :: u32)" by code_simp
  define b where "b = (write_u64 32 (generation_get (ci_lifecycle_generation (dm_composition_identity m)))
    (write_u128 16 (database_id_get (ci_database_id (dm_composition_identity m)))
    (write_u16 10 160 (write_u16 8 1 (copy_into 0 manifest_header_magic (replicate manifest_v1_length 0))))))
    [40 := state_recovery_required]"
  define e1 where "e1 = write_identity_fields m b"
  define e2 where "e2 = copy_into 144 manifest_footer_magic e1"
  define e where "e = write_u64 152 (checksum_v1 (take 152 e2)) e2"
  have len: "length b = 160" by (simp add: b_def encode_simps)
  note fields = identity_fields_written [where m = m and bytes = b, folded e1_def, unfolded len, simplified]
  have b: "bytes_at 0 8 b = manifest_header_magic" "read_u16 b 8 = 1" "read_u16 b 10 = 160" "read_u32 b 12 = 0"
    "read_u128 b 16 = database_id_get (ci_database_id (dm_composition_identity m))"
    "read_u64 b 32 = generation_get (ci_lifecycle_generation (dm_composition_identity m))"
    "b ! 40 = state_recovery_required"
    by (simp_all add: b_def encode_simps byte_simps zero)
  have b0: "b ! i = 0" if "41 \<le> i" "i < 160" for i
    using that by (simp add: b_def encode_simps byte_simps)
  have take: "take 152 e = take 152 e2" by (simp add: e_def encode_simps byte_simps)
  have lens: "length e2 = 160" "length e = 160" by (simp_all add: e_def e2_def encode_simps fields(1))
  have e2: "bytes_at at n e = bytes_at at n e1" if "at + n \<le> 144" for at n
    using that by (simp add: e_def e2_def encode_simps byte_simps)
  have nth: "e ! i = e1 ! i" if "i < 144" for i
    using that by (simp add: e_def e2_def encode_simps byte_simps fields(1))
  have reads: "at + 2 \<le> 144 \<Longrightarrow> read_u16 e at = read_u16 e1 at" "at + 4 \<le> 144 \<Longrightarrow> read_u32 e at = read_u32 e1 at"
      "at + 8 \<le> 144 \<Longrightarrow> read_u64 e at = read_u64 e1 at" "at + 16 \<le> 144 \<Longrightarrow> read_u128 e at = read_u128 e1 at"
      "at + 2 \<le> 48 \<Longrightarrow> read_u16 e1 at = read_u16 b at" "at + 4 \<le> 48 \<Longrightarrow> read_u32 e1 at = read_u32 b at"
      "at + 8 \<le> 48 \<Longrightarrow> read_u64 e1 at = read_u64 b at" "at + 16 \<le> 48 \<Longrightarrow> read_u128 e1 at = read_u128 b at"
    for at
    by (simp_all add: read_simps e2 fields(10))
  show ?thesis
  proof (rule that [of e])
    show "encode_database_manifest m = Inr e"
      using assms by (simp add: encode_database_manifest_def e_def e2_def e1_def b_def Let_def)
    show "\<forall>i \<in> set ([41..<48] @ [118..<120] @ [128..<144]). e ! i = 0"
      using b0 by (auto simp: nth fields)
    show "bytes_at 144 8 e = manifest_footer_magic"
      by (simp add: e_def e2_def encode_simps byte_simps fields(1))
    show "read_u64 e 152 = checksum_v1 (take 152 e)"
      unfolding take by (simp add: e_def encode_simps byte_simps lens)
  qed (simp_all add: reads b fields(2-9,12) nth lens manifest_v1_length_def e2 fields(10))
qed

theorem manifest_v1_roundtrip:
  assumes "manifest_wf m"
  shows "case dm_lifecycle_state m of
      RecoveryRequired \<Rightarrow> \<exists>e. encode_database_manifest m = Inr e \<and> length e = 160
        \<and> decode_database_manifest e = Inr m
    | Clean c \<Rightarrow> encode_database_manifest m = Inl \<lparr>ul_actual = Clean c\<rparr>"
proof (cases "dm_lifecycle_state m")
  case RecoveryRequired
  then obtain e where e: "encode_database_manifest m = Inr e" "length e = manifest_v1_length"
    and fields: "bytes_at 0 8 e = manifest_header_magic" "read_u16 e 8 = 1" "read_u16 e 10 = 160"
      "read_u32 e 12 = 0" "bytes_at 144 8 e = manifest_footer_magic"
      "read_u64 e 152 = checksum_v1 (take 152 e)"
      "read_u128 e 16 = database_id_get (ci_database_id (dm_composition_identity m))"
      "read_u64 e 32 = generation_get (ci_lifecycle_generation (dm_composition_identity m))"
      "e ! 40 = state_recovery_required"
      "read_u128 e 48 = persistent_log_id_get (ci_persistent_log_id (dm_composition_identity m))"
    and ids: "read_u128 e 64 = file_id_get (ci_wal_file_id (dm_composition_identity m))"
      "read_u128 e 80 = file_id_get (ci_page_store_file_id (dm_composition_identity m))"
      "read_u128 e 96 = file_id_get (ci_restart_checkpoint_file_id (dm_composition_identity m))"
      "read_u16 e 112 = format_version_get (fq_wal (dm_storage_formats m))"
      "read_u16 e 114 = format_version_get (fq_page_store (dm_storage_formats m))"
      "read_u16 e 116 = format_version_get (fq_restart_checkpoint (dm_storage_formats m))"
      "read_u64 e 120 = feature_bits (dm_required_features m)"
    and zeros: "\<forall>i \<in> set ([41..<48] @ [118..<120] @ [128..<144]). e ! i = 0"
    by (rule v1_encoded)
  have "decode_identity_fields FileIdZero ManifestCompositionIdentity StorageFormatVersionZero
      ManifestRequiredFeatures (ci_database_id (dm_composition_identity m))
      (ci_lifecycle_generation (dm_composition_identity m)) (ci_persistent_log_id (dm_composition_identity m)) e
    = Inr (dm_composition_identity m, dm_storage_formats m, dm_required_features m)"
    by (rule decode_identity_fields_Inr) (use assms ids in \<open>simp_all add: manifest_wf_def\<close>)
  moreover have "manifest_recovery_required (dm_composition_identity m) (dm_storage_formats m)
      (dm_required_features m) = m"
    using RecoveryRequired by (simp add: manifest_recovery_required_def)
  moreover have "check_reserved ReservedByteNonZero e ([41..<48] @ [118..<120] @ [128..<144]) = Inr ()"
    using zeros by (simp only: check_reserved_Inr)
  moreover have "composition_wf (dm_composition_identity m)" using assms by (simp add: manifest_wf_def)
  ultimately have "decode_database_manifest e = Inr m"
    by (simp add: decode_database_manifest_def Let_def e(2) fields database_id_new_def
        lifecycle_generation_new_def persistent_log_id_new_def composition_wf_def del: upt_rec_numeral)
  with e RecoveryRequired show ?thesis by (simp add: manifest_v1_length_def)
next
  case (Clean c)
  then show ?thesis by (simp add: encode_database_manifest_def)
qed


lemma v2_encoded:
  fixes m :: database_manifest
  defines "e \<equiv> encode_database_manifest_v2 m"
  shows "length e = 256" and "bytes_at 0 8 e = manifest_v2_header_magic" and "read_u16 e 8 = 2"
    and "read_u16 e 10 = 256" and "read_u32 e 12 = 0" and "bytes_at 240 8 e = manifest_v2_footer_magic"
    and "read_u64 e 248 = checksum_v1 (take 248 e)"
    and "read_u128 e 16 = database_id_get (ci_database_id (dm_composition_identity m))"
    and "read_u64 e 32 = generation_get (ci_lifecycle_generation (dm_composition_identity m))"
    and "e ! 40 = (case dm_lifecycle_state m of RecoveryRequired \<Rightarrow> state_recovery_required | Clean c \<Rightarrow> state_clean)"
    and "read_u128 e 48 = persistent_log_id_get (ci_persistent_log_id (dm_composition_identity m))"
    and "read_u128 e 64 = file_id_get (ci_wal_file_id (dm_composition_identity m))"
    and "read_u128 e 80 = file_id_get (ci_page_store_file_id (dm_composition_identity m))"
    and "read_u128 e 96 = file_id_get (ci_restart_checkpoint_file_id (dm_composition_identity m))"
    and "read_u16 e 112 = format_version_get (fq_wal (dm_storage_formats m))"
    and "read_u16 e 114 = format_version_get (fq_page_store (dm_storage_formats m))"
    and "read_u16 e 116 = format_version_get (fq_restart_checkpoint (dm_storage_formats m))"
    and "read_u64 e 120 = feature_bits (dm_required_features m)"
    and "\<forall>i \<in> set ([41..<48] @ [118..<120]). e ! i = 0"
    and "case dm_lifecycle_state m of
        RecoveryRequired \<Rightarrow> \<forall>i \<in> set [128..<240]. e ! i = 0
      | Clean c \<Rightarrow> (\<forall>i \<in> set ([137..<144] @ [162..<168] @ [200..<240]). e ! i = 0)
          \<and> read_u64 e 128 = generation_get (cc_source_generation c)
          \<and> e ! 136 = (if cc_durable_wal_frontier c = None then 0 else 1)
          \<and> read_u64 e 144 = (case cc_durable_wal_frontier c of None \<Rightarrow> 0 | Some v \<Rightarrow> v)
          \<and> read_u64 e 152 = cc_allocated_transaction_epoch_high_water c
          \<and> read_u16 e 160 = cc_checkpoint_anchor_version c
          \<and> read_u128 e 168 = cc_checkpoint_anchor_value c
          \<and> read_u64 e 184 = cc_transaction_entry_count c \<and> read_u64 e 192 = cc_page_entry_count c"
proof -
  have zero: "of_be_bytes (replicate 4 0) = (0 :: u32)" by code_simp
  define b0 where "b0 = write_u64 32 (generation_get (ci_lifecycle_generation (dm_composition_identity m)))
    (write_u128 16 (database_id_get (ci_database_id (dm_composition_identity m)))
    (write_u16 10 256 (write_u16 8 2 (copy_into 0 manifest_v2_header_magic (replicate manifest_v2_length 0)))))"
  define b where "b = (case dm_lifecycle_state m of
      RecoveryRequired \<Rightarrow> b0[40 := state_recovery_required]
    | Clean c \<Rightarrow> write_certificate c (b0[40 := state_clean]))"
  define e1 where "e1 = write_identity_fields m b"
  define e2 where "e2 = copy_into 240 manifest_v2_footer_magic e1"
  have e_def': "e = write_u64 248 (checksum_v1 (take 248 e2)) e2"
    by (simp only: e_def encode_database_manifest_v2_def e2_def e1_def b_def b0_def Let_def)
  have len0: "length b0 = 256" by (simp add: b0_def encode_simps)
  have cert0: "bytes_at 128 112 (b0[40 := state_clean]) = replicate 112 0"
    by (simp add: b0_def encode_simps byte_simps)
  note cert = certificate_written [where bytes = "b0[40 := state_clean]", unfolded length_list_update len0,
      OF _ cert0, simplified]
  have len: "length b = 256" by (simp add: b_def len0 cert(1) split: manifest_lifecycle_state.split)
  note fields = identity_fields_written [where m = m and bytes = b, folded e1_def, unfolded len, simplified]
  have b0: "bytes_at 0 8 b0 = manifest_v2_header_magic" "read_u16 b0 8 = 2" "read_u16 b0 10 = 256" "read_u32 b0 12 = 0"
    "read_u128 b0 16 = database_id_get (ci_database_id (dm_composition_identity m))"
    "read_u64 b0 32 = generation_get (ci_lifecycle_generation (dm_composition_identity m))"
    by (simp_all add: b0_def encode_simps byte_simps zero)
  have b0_zero: "b0 ! i = 0" if "40 \<le> i" "i < 256" for i
    using that by (simp add: b0_def encode_simps byte_simps)
  have low: "bytes_at at n b = bytes_at at n b0" if "at + n \<le> 40" for at n
    using that by (simp add: b_def cert byte_simps split: manifest_lifecycle_state.split)
  have b_zero: "b ! i = 0" if "41 \<le> i" "i < 128" for i
    using that by (simp add: b_def cert b0_zero split: manifest_lifecycle_state.split)
  have b40: "b ! 40 = (case dm_lifecycle_state m of RecoveryRequired \<Rightarrow> state_recovery_required | Clean c \<Rightarrow> state_clean)"
    by (simp add: b_def cert len0 split: manifest_lifecycle_state.split)
  have take: "take 248 e = take 248 e2" by (simp add: e_def' encode_simps byte_simps)
  have lens: "length e2 = 256" "length e = 256" by (simp_all add: e_def' e2_def encode_simps fields(1))
  have e2: "bytes_at at n e = bytes_at at n e1" if "at + n \<le> 240" for at n
    using that by (simp add: e_def' e2_def encode_simps byte_simps)
  have nth: "e ! i = e1 ! i" if "i < 240" for i
    using that by (simp add: e_def' e2_def encode_simps byte_simps fields(1))
  show "bytes_at 240 8 e = manifest_v2_footer_magic"
    by (simp add: e_def' e2_def encode_simps byte_simps fields(1))
  show "read_u64 e 248 = checksum_v1 (take 248 e)"
    unfolding take by (simp add: e_def' encode_simps byte_simps lens)
  show "\<forall>i \<in> set ([41..<48] @ [118..<120]). e ! i = 0"
    using b_zero by (auto simp: nth fields)
  have high: "read_u64 e at = read_u64 b at" "read_u16 e at = read_u16 b at" "read_u128 e at = read_u128 b at"
    if "128 \<le> at" "at \<le> 224" for at
    using that by (simp_all add: read_simps e2 fields(11))
  have high_nth: "e ! i = b ! i" if "128 \<le> i" "i < 240" for i
    using that by (simp add: nth fields(14))
  show "case dm_lifecycle_state m of
        RecoveryRequired \<Rightarrow> \<forall>i \<in> set [128..<240]. e ! i = 0
      | Clean c \<Rightarrow> (\<forall>i \<in> set ([137..<144] @ [162..<168] @ [200..<240]). e ! i = 0)
          \<and> read_u64 e 128 = generation_get (cc_source_generation c)
          \<and> e ! 136 = (if cc_durable_wal_frontier c = None then 0 else 1)
          \<and> read_u64 e 144 = (case cc_durable_wal_frontier c of None \<Rightarrow> 0 | Some v \<Rightarrow> v)
          \<and> read_u64 e 152 = cc_allocated_transaction_epoch_high_water c
          \<and> read_u16 e 160 = cc_checkpoint_anchor_version c
          \<and> read_u128 e 168 = cc_checkpoint_anchor_value c
          \<and> read_u64 e 184 = cc_transaction_entry_count c \<and> read_u64 e 192 = cc_page_entry_count c"
  proof (cases "dm_lifecycle_state m")
    case RecoveryRequired
    then show ?thesis by (simp add: high_nth b_def b0_zero)
  next
    case (Clean c)
    then have "\<forall>i \<in> set ([137..<144] @ [162..<168] @ [200..<240]). e ! i = 0"
      by (auto simp: high_nth b_def cert)
    with Clean show ?thesis by (simp add: high high_nth b_def cert del: set_append set_upt upt_rec_numeral)
  qed
  have reads: "at + 2 \<le> 240 \<Longrightarrow> read_u16 e at = read_u16 e1 at" "at + 4 \<le> 240 \<Longrightarrow> read_u32 e at = read_u32 e1 at"
      "at + 8 \<le> 240 \<Longrightarrow> read_u64 e at = read_u64 e1 at" "at + 16 \<le> 240 \<Longrightarrow> read_u128 e at = read_u128 e1 at"
      "at + 2 \<le> 40 \<Longrightarrow> read_u16 e1 at = read_u16 b0 at" "at + 4 \<le> 40 \<Longrightarrow> read_u32 e1 at = read_u32 b0 at"
      "at + 8 \<le> 40 \<Longrightarrow> read_u64 e1 at = read_u64 b0 at" "at + 16 \<le> 40 \<Longrightarrow> read_u128 e1 at = read_u128 b0 at"
    for at
    by (simp_all add: read_simps e2 fields(10) low)
  show "read_u128 e 48 = persistent_log_id_get (ci_persistent_log_id (dm_composition_identity m))"
    "read_u128 e 64 = file_id_get (ci_wal_file_id (dm_composition_identity m))"
    "read_u128 e 80 = file_id_get (ci_page_store_file_id (dm_composition_identity m))"
    "read_u128 e 96 = file_id_get (ci_restart_checkpoint_file_id (dm_composition_identity m))"
    "read_u16 e 112 = format_version_get (fq_wal (dm_storage_formats m))"
    "read_u16 e 114 = format_version_get (fq_page_store (dm_storage_formats m))"
    "read_u16 e 116 = format_version_get (fq_restart_checkpoint (dm_storage_formats m))"
    "read_u64 e 120 = feature_bits (dm_required_features m)"
    by (simp_all add: reads fields(2-9))
  show "length e = 256" "bytes_at 0 8 e = manifest_v2_header_magic" "read_u16 e 8 = 2" "read_u16 e 10 = 256"
    "read_u32 e 12 = 0" "read_u128 e 16 = database_id_get (ci_database_id (dm_composition_identity m))"
    "read_u64 e 32 = generation_get (ci_lifecycle_generation (dm_composition_identity m))"
    "e ! 40 = (case dm_lifecycle_state m of RecoveryRequired \<Rightarrow> state_recovery_required | Clean c \<Rightarrow> state_clean)"
    by (simp_all add: reads b0 e2 nth fields(10,12) low lens b40)
qed

theorem manifest_v2_roundtrip:
  assumes "manifest_wf m"
  shows "length (encode_database_manifest_v2 m) = 256
    \<and> decode_database_manifest_v2 (encode_database_manifest_v2 m) = Inr m"
proof -
  define e where "e = encode_database_manifest_v2 m"
  note enc = v2_encoded [of m, folded e_def]
  have wf: "composition_wf (dm_composition_identity m)" using assms by (simp add: manifest_wf_def)
  have identity: "decode_identity_fields V2FileIdZero V2CompositionIdentity V2StorageFormatVersionZero
      V2RequiredFeatures (ci_database_id (dm_composition_identity m))
      (ci_lifecycle_generation (dm_composition_identity m)) (ci_persistent_log_id (dm_composition_identity m)) e
    = Inr (dm_composition_identity m, dm_storage_formats m, dm_required_features m)"
    by (rule decode_identity_fields_Inr) (use assms enc(12-18) in \<open>simp_all add: manifest_wf_def\<close>)
  have reserved: "check_reserved V2ReservedByteNonZero e ([41..<48] @ [118..<120]) = Inr ()"
    using enc(19) by (simp only: check_reserved_Inr)
  have states: "state_clean \<noteq> state_recovery_required" by (simp add: state_clean_def state_recovery_required_def)
  have "decode_database_manifest_v2 e = Inr m"
  proof (cases "dm_lifecycle_state m")
    case RecoveryRequired
    have "check_reserved CertificateAreaNonZero e [128..<240] = Inr ()"
      using enc(20) RecoveryRequired by (simp only: check_reserved_Inr) simp
    moreover have "manifest_recovery_required (dm_composition_identity m) (dm_storage_formats m)
        (dm_required_features m) = m"
      using RecoveryRequired by (simp add: manifest_recovery_required_def)
    ultimately show ?thesis
      using wf RecoveryRequired reserved identity
      by (simp add: decode_database_manifest_v2_def Let_def manifest_v2_length_def enc(1-11) database_id_new_def
          lifecycle_generation_new_def persistent_log_id_new_def composition_wf_def del: upt_rec_numeral)
  next
    case (Clean c)
    then have c: "certificate_wf c"
      "require_successor (cc_source_generation c) (ci_lifecycle_generation (dm_composition_identity m)) = Inr ()"
      using assms by (simp_all add: manifest_wf_def)
    have area: "check_reserved V2ReservedByteNonZero e ([137..<144] @ [162..<168] @ [200..<240]) = Inr ()"
      using enc(20) Clean by (simp only: check_reserved_Inr) simp
    have "decode_certificate e = Inr c"
      using enc(20) Clean c(1)
      by (cases "cc_durable_wal_frontier c")
        (simp_all add: decode_certificate_def area lifecycle_generation_new_def certificate_wf_def
          clean_close_certificate_new_def Let_def del: upt_rec_numeral)
    moreover have "manifest_clean (dm_composition_identity m) (dm_storage_formats m) (dm_required_features m) c = Inr m"
      using Clean c(2) by (simp add: manifest_clean_def)
    ultimately show ?thesis
      using wf Clean reserved identity states
      by (simp add: decode_database_manifest_v2_def Let_def manifest_v2_length_def enc(1-11) database_id_new_def
          lifecycle_generation_new_def persistent_log_id_new_def composition_wf_def del: upt_rec_numeral)
  qed
  then show ?thesis using enc(1) by (simp add: e_def)
qed

end
