(* ===== verification/Manifest_Codec_Properties.thy ===== *)
theory Manifest_Codec_Properties
  imports Manifest_Codec_Laws File_Frame_Laws
begin

text \<open>
  What the two manifest frames guarantee: well-formed manifests round-trip, and a frame with one
  byte changed is refused.
\<close>

lemma manifest_v1_guard:
  "decode_database_manifest e = Inr m \<Longrightarrow> length e = 152 + 8 \<and> read_u64 e 152 = checksum_v1 (take 152 e)"
  by (auto simp: decode_database_manifest_def result_simps Let_def manifest_v1_length_def)

lemma manifest_v2_guard:
  "decode_database_manifest_v2 e = Inr m \<Longrightarrow> length e = 248 + 8 \<and> read_u64 e 248 = checksum_v1 (take 248 e)"
  by (auto simp: decode_database_manifest_v2_def result_simps Let_def manifest_v2_length_def)

text \<open>C36: Every well-formed manifest round-trips: the version-2 frame has 256 bytes that decode to it,
  the version-1 frame has 160 bytes that decode to it when recovery is required, and version 1
  refuses a clean manifest instead of dropping its certificate.\<close>

theorem manifest_frames_roundtrip:
  assumes "manifest_wf m"
  shows "length (encode_database_manifest_v2 m) = 256
    \<and> decode_database_manifest_v2 (encode_database_manifest_v2 m) = Inr m
    \<and> (case dm_lifecycle_state m of
        RecoveryRequired \<Rightarrow> \<exists>e. encode_database_manifest m = Inr e \<and> length e = 160
          \<and> decode_database_manifest e = Inr m
      | Clean c \<Rightarrow> encode_database_manifest m = Inl \<lparr>ul_actual = Clean c\<rparr>)"
  using manifest_v1_roundtrip [OF assms] manifest_v2_roundtrip [OF assms] by simp

definition sample_manifest :: database_manifest where
  "sample_manifest =
     \<lparr>dm_composition_identity = \<lparr>ci_database_id = DatabaseId 1, ci_lifecycle_generation = LifecycleGeneration 5,
        ci_persistent_log_id = PersistentLogId 7, ci_wal_file_id = DatabaseFileId 11,
        ci_page_store_file_id = DatabaseFileId 12, ci_restart_checkpoint_file_id = DatabaseFileId 13\<rparr>,
      dm_lifecycle_state = Clean \<lparr>cc_source_generation = LifecycleGeneration 4, cc_durable_wal_frontier = Some 9,
        cc_allocated_transaction_epoch_high_water = 2, cc_checkpoint_anchor_version = 1,
        cc_checkpoint_anchor_value = 3, cc_transaction_entry_count = 0, cc_page_entry_count = 6\<rparr>,
      dm_storage_formats = \<lparr>fq_wal = StorageFormatVersion 5, fq_page_store = StorageFormatVersion 2,
        fq_restart_checkpoint = StorageFormatVersion 1\<rparr>,
      dm_required_features = features_none\<rparr>"

lemma sample_manifest_wf: "manifest_wf sample_manifest"
  by (simp add: manifest_wf_def composition_wf_def certificate_wf_def sample_manifest_def features_none_def
      known_bits_def require_successor_def lifecycle_generation_checked_next_def checked_add_def
      lifecycle_generation_new_def)

theorem manifest_frames_roundtrip_witness:
  "decode_database_manifest_v2 (encode_database_manifest_v2 sample_manifest) = Inr sample_manifest
    \<and> (\<exists>c. encode_database_manifest sample_manifest = Inl \<lparr>ul_actual = Clean c\<rparr>)"
  using manifest_frames_roundtrip [OF sample_manifest_wf] by (simp add: sample_manifest_def)

text \<open>A manifest frame that decodes does not decode with any one of its bytes changed, in either
  version.\<close>

theorem corrupted_manifest_refused:
  assumes "i < length e" and "b \<noteq> e ! i"
  shows "(decode_database_manifest e = Inr m \<longrightarrow> (\<exists>error. decode_database_manifest (e[i := b]) = Inl error))
    \<and> (decode_database_manifest_v2 e = Inr m \<longrightarrow> (\<exists>error. decode_database_manifest_v2 (e[i := b]) = Inl error))"
proof (intro conjI impI)
  assume "decode_database_manifest e = Inr m"
  note guard = manifest_v1_guard [OF this]
  show "\<exists>error. decode_database_manifest (e[i := b]) = Inl error"
  proof (cases "decode_database_manifest (e[i := b])")
    case (Inr m')
    from manifest_v1_guard [OF this] guard assms checksum_guarded [of e 152 i b] show ?thesis by auto
  qed simp
next
  assume "decode_database_manifest_v2 e = Inr m"
  note guard = manifest_v2_guard [OF this]
  show "\<exists>error. decode_database_manifest_v2 (e[i := b]) = Inl error"
  proof (cases "decode_database_manifest_v2 (e[i := b])")
    case (Inr m')
    from manifest_v2_guard [OF this] guard assms checksum_guarded [of e 248 i b] show ?thesis by auto
  qed simp
qed

theorem corrupted_manifest_refused_witness:
  "\<exists>error. decode_database_manifest_v2
    ((encode_database_manifest_v2 sample_manifest)[130 := encode_database_manifest_v2 sample_manifest ! 130 + 1])
    = Inl error"
  using corrupted_manifest_refused [of 130 "encode_database_manifest_v2 sample_manifest"
      "encode_database_manifest_v2 sample_manifest ! 130 + 1" sample_manifest]
    manifest_v2_roundtrip [OF sample_manifest_wf]
  by simp

end
