(* ===== verification/File_Store_Format.thy ===== *)
theory File_Store_Format
  imports File_Format
begin

text \<open>
  The bytes of the page-store file: what can go wrong with them and with the calls on the file,
  the two headers, and the frames of a snapshot group. Geometry and checksum are those of the log.
\<close>

section \<open>Stages and errors\<close>

datatype store_fault_point = StoreBeforeWrite | StoreAfterWrite

primrec show_store_fault_point :: "store_fault_point \<Rightarrow> string" where
  "show_store_fault_point StoreBeforeWrite = ''before write''"
| "show_store_fault_point StoreAfterWrite = ''after write''"

record store_fault_already_armed =
  sa_armed :: store_fault_point
  sa_requested :: store_fault_point

definition show_store_fault_already_armed :: "store_fault_already_armed \<Rightarrow> string" where
  "show_store_fault_already_armed e =
     ''page-store fault '' @ show_store_fault_point (sa_armed e) @ '' is already armed; cannot arm ''
       @ show_store_fault_point (sa_requested e)"

datatype store_io_stage =
    StoreCreateFile
  | StoreOpenFile
  | StoreAcquireExclusiveLock
  | StoreOpenParentDirectory
  | StoreReadMetadata
  | StoreReadHeader
  | StoreReadFrame
  | StoreWriteHeader
  | StoreSyncCreatedFile
  | StoreSyncOpenedFile
  | StoreSyncParentDirectory
  | StoreTruncateIncompleteTail
  | StoreSyncTruncatedTail
  | StoreSeekEnd
  | StoreWriteSnapshotHeaderFrame
  | StoreWriteRequiredPositionFrame
  | StoreWritePageDataFrame
  | StoreSyncPageGroup

primrec show_store_io_stage :: "store_io_stage \<Rightarrow> string" where
  "show_store_io_stage StoreCreateFile = ''creating the page-store file''"
| "show_store_io_stage StoreOpenFile = ''opening the page-store file''"
| "show_store_io_stage StoreAcquireExclusiveLock = ''acquiring the exclusive page-store file lock''"
| "show_store_io_stage StoreOpenParentDirectory = ''opening the parent directory''"
| "show_store_io_stage StoreReadMetadata = ''reading page-store metadata''"
| "show_store_io_stage StoreReadHeader = ''reading the page-store header''"
| "show_store_io_stage StoreReadFrame = ''reading a page-store frame''"
| "show_store_io_stage StoreWriteHeader = ''writing the page-store header''"
| "show_store_io_stage StoreSyncCreatedFile = ''synchronizing the created page-store file''"
| "show_store_io_stage StoreSyncOpenedFile = ''synchronizing the opened page-store file''"
| "show_store_io_stage StoreSyncParentDirectory = ''synchronizing the parent directory''"
| "show_store_io_stage StoreTruncateIncompleteTail = ''truncating an incomplete page-store tail''"
| "show_store_io_stage StoreSyncTruncatedTail = ''synchronizing a repaired page-store tail''"
| "show_store_io_stage StoreSeekEnd = ''seeking to the end of the page-store file''"
| "show_store_io_stage StoreWriteSnapshotHeaderFrame = ''writing a page-store snapshot-header frame''"
| "show_store_io_stage StoreWriteRequiredPositionFrame =
     ''writing a page-store required-position frame''"
| "show_store_io_stage StoreWritePageDataFrame = ''writing a page-store page-data frame''"
| "show_store_io_stage StoreSyncPageGroup = ''synchronizing a page-store group''"

record store_io_error =
  sx_stage :: store_io_stage
  sx_source :: io_error

definition show_store_io_error :: "(io_error \<Rightarrow> string) \<Rightarrow> store_io_error \<Rightarrow> string" where
  "show_store_io_error show_io e = show_store_io_stage (sx_stage e) @ '' failed: '' @ show_io (sx_source e)"

datatype (plugins only:) store_format_reason =
    StoreHeaderTooShort u64
  | StoreHeaderMagic
  | StoreHeaderVersion u16
  | StoreHeaderLength u16
  | StoreHeaderV2Length u16
  | StoreHeaderFlags u32
  | StoreHeaderPageWidthZero
  | StoreHeaderPageWidthMismatch u64 u64
  | StoreHeaderReserved
  | StoreHeaderDatabaseChildIdentity child_identity_reason
  | StoreHeaderChecksum u64 u64
  | StoreLineageIdZero
  | StoreFrameMagic
  | StoreFrameKind u16
  | StoreFrameVersion u16
  | StoreFrameLength u16
  | StoreFrameFlags u32
  | StoreFrameReserved
  | StoreFrameChecksum u64 u64
  | SnapshotSequenceZero
  | SnapshotSequenceOutOfOrder u64 u64
  | SnapshotSequenceSpaceExhausted
  | SnapshotPageNumberZero
  | StoreRequiredPositionZero
  | RequiredPositionSequenceMismatch u64 u64
  | RequiredPositionPayloadCNonzero u64
  | StorePageDataSequenceMismatch u64 u64
  | StorePageDataChunkIndexOutOfSequence u64 u64
  | StorePageDataFinalPaddingNonzero
  | StorePageDataWithoutHeader
  | UnexpectedKindAfterHeader u16
  | UnexpectedKindAfterRequiredPosition u16

primrec show_store_format_reason :: "store_format_reason \<Rightarrow> string" where
  "show_store_format_reason (StoreHeaderTooShort actual) =
     ''page-store header is shorter than 64 bytes: found '' @ dec actual"
| "show_store_format_reason StoreHeaderMagic = ''page-store header magic does not match''"
| "show_store_format_reason (StoreHeaderVersion actual) =
     ''unsupported page-store header version '' @ dec actual"
| "show_store_format_reason (StoreHeaderLength actual) =
     ''page-store header length '' @ dec actual @ '' does not equal 64''"
| "show_store_format_reason (StoreHeaderV2Length actual) =
     ''page-store V2 header length '' @ dec actual @ '' does not equal 128''"
| "show_store_format_reason (StoreHeaderFlags actual) =
     ''page-store header flags are nonzero: '' @ dec actual"
| "show_store_format_reason StoreHeaderPageWidthZero = ''page-store header page width is zero''"
| "show_store_format_reason (StoreHeaderPageWidthMismatch expected actual) =
     ''page-store header page width '' @ dec actual @ '' does not equal required width '' @ dec expected"
| "show_store_format_reason StoreHeaderReserved = ''page-store header reserved bytes are nonzero''"
| "show_store_format_reason (StoreHeaderDatabaseChildIdentity source) = show_child_identity_reason source"
| "show_store_format_reason (StoreHeaderChecksum expected actual) =
     ''page-store header checksum mismatch: expected '' @ hex_padded 18 expected @ '', found ''
       @ hex_padded 18 actual"
| "show_store_format_reason StoreLineageIdZero = ''page-store persistent lineage ID is zero''"
| "show_store_format_reason StoreFrameMagic = ''page-store frame magic does not match''"
| "show_store_format_reason (StoreFrameKind actual) = ''unknown page-store frame kind '' @ dec actual"
| "show_store_format_reason (StoreFrameVersion actual) =
     ''unsupported page-store frame version '' @ dec actual"
| "show_store_format_reason (StoreFrameLength actual) =
     ''page-store frame length '' @ dec actual @ '' does not equal 56''"
| "show_store_format_reason (StoreFrameFlags actual) =
     ''page-store frame flags are nonzero: '' @ dec actual"
| "show_store_format_reason StoreFrameReserved = ''page-store frame reserved bytes are nonzero''"
| "show_store_format_reason (StoreFrameChecksum expected actual) =
     ''page-store frame checksum mismatch: expected '' @ hex_padded 18 expected @ '', found ''
       @ hex_padded 18 actual"
| "show_store_format_reason SnapshotSequenceZero = ''page-store snapshot sequence is zero''"
| "show_store_format_reason (SnapshotSequenceOutOfOrder expected actual) =
     ''page-store snapshot sequence '' @ dec actual @ '' does not equal the next contiguous sequence ''
       @ dec expected"
| "show_store_format_reason SnapshotSequenceSpaceExhausted =
     ''page-store snapshot sequence space is exhausted''"
| "show_store_format_reason SnapshotPageNumberZero = ''page-store snapshot page number is zero''"
| "show_store_format_reason StoreRequiredPositionZero = ''page-store required WAL position is zero''"
| "show_store_format_reason (RequiredPositionSequenceMismatch expected actual) =
     ''page-store required-position sequence '' @ dec actual
       @ '' does not match pending snapshot sequence '' @ dec expected"
| "show_store_format_reason (RequiredPositionPayloadCNonzero actual) =
     ''page-store required-position payload C is nonzero: '' @ dec actual"
| "show_store_format_reason (StorePageDataSequenceMismatch expected actual) =
     ''page-store page-data sequence '' @ dec actual
       @ '' does not match pending snapshot sequence '' @ dec expected"
| "show_store_format_reason (StorePageDataChunkIndexOutOfSequence expected actual) =
     ''page-store page-data chunk index '' @ dec actual
       @ '' does not equal required contiguous chunk '' @ dec expected"
| "show_store_format_reason StorePageDataFinalPaddingNonzero =
     ''page-store page-data final-chunk padding bytes are nonzero''"
| "show_store_format_reason StorePageDataWithoutHeader =
     ''page-store page-data frame has no pending snapshot header''"
| "show_store_format_reason (UnexpectedKindAfterHeader actual) =
     ''page-store expected a required-position frame after snapshot header but found kind '' @ dec actual"
| "show_store_format_reason (UnexpectedKindAfterRequiredPosition actual) =
     ''page-store expected a page-data frame after required position but found kind '' @ dec actual"

record page_store_format_error =
  se_offset :: u64
  se_reason :: store_format_reason

definition store_format_error :: "u64 \<Rightarrow> store_format_reason \<Rightarrow> page_store_format_error" where
  "store_format_error offset reason = \<lparr>se_offset = offset, se_reason = reason\<rparr>"

definition show_store_format_error :: "page_store_format_error \<Rightarrow> string" where
  "show_store_format_error e =
     ''page-store format error at byte '' @ dec (se_offset e) @ '': '' @ show_store_format_reason (se_reason e)"

datatype store_create_error =
    StoreMissingParentDirectory
  | StoreCreatePageWidth file_page_width_error
  | StoreCreateIo store_io_error

primrec show_store_create_error :: "(io_error \<Rightarrow> string) \<Rightarrow> store_create_error \<Rightarrow> string" where
  "show_store_create_error show_io StoreMissingParentDirectory =
     ''page-store path does not have an existing parent directory''"
| "show_store_create_error show_io (StoreCreatePageWidth source) = show_file_page_width_error source"
| "show_store_create_error show_io (StoreCreateIo source) = show_store_io_error show_io source"

datatype store_open_error =
    StoreOpenPageWidth file_page_width_error
  | StoreOpenIo store_io_error
  | StoreOpenFormat page_store_format_error
  | OpenSnapshotCapacityExhausted

primrec show_store_open_error :: "(io_error \<Rightarrow> string) \<Rightarrow> store_open_error \<Rightarrow> string" where
  "show_store_open_error show_io (StoreOpenPageWidth source) = show_file_page_width_error source"
| "show_store_open_error show_io (StoreOpenIo source) = show_store_io_error show_io source"
| "show_store_open_error show_io (StoreOpenFormat source) = show_store_format_error source"
| "show_store_open_error show_io OpenSnapshotCapacityExhausted =
     ''page-store snapshot capacity is exhausted''"

section \<open>Headers\<close>

definition store_header_magic :: "u8 list" where "store_header_magic = ascii ''NTSQPGS1''"
definition store_frame_magic :: "u8 list" where "store_frame_magic = ascii ''NTSP''"
definition store_header_v2_length :: nat where "store_header_v2_length = 128"

datatype page_store_format = StoreV1 | StoreV2

primrec store_format_version :: "page_store_format \<Rightarrow> u16" where
  "store_format_version StoreV1 = 1"
| "store_format_version StoreV2 = 2"

definition build_page_store_header :: "persistent_log_id \<Rightarrow> u64 \<Rightarrow> u8 list" where
  "build_page_store_header log_id page_width =
     (let header = replicate header_length 0;
          header = copy_into 0 store_header_magic header;
          header = write_u16 8 1 header;
          header = write_u16 10 64 header;
          header = write_u32 12 0 header;
          header = write_u128 16 (persistent_log_id_get log_id) header;
          header = write_u64 32 page_width header
      in write_u64 56 (checksum_v1 (take 56 header)) header)"

definition build_page_store_header_v2 :: "persistent_log_id \<Rightarrow> u64 \<Rightarrow> file_header_identity \<Rightarrow> u8 list" where
  "build_page_store_header_v2 log_id page_width identity =
     (let header = replicate store_header_v2_length 0;
          header = copy_into 0 store_header_magic header;
          header = write_u16 8 2 header;
          header = write_u16 10 128 header;
          header = write_u128 16 (persistent_log_id_get log_id) header;
          header = write_u64 32 page_width header;
          header = copy_into 64 (encode_database_child_identity identity) header
      in write_u64 120 (checksum_v1 (take 120 header)) header)"

record store_header_v2_metadata =
  sh_persistent_id :: persistent_log_id
  sh_database_file_identity :: file_header_identity

text \<open>The page width both headers state at byte 32.\<close>

definition check_store_page_width :: "u8 list \<Rightarrow> page_layout \<Rightarrow> page_store_format_error + unit" where
  "check_store_page_width header layout =
     (let page_width = read_u64 header 32 in
      and_then (ensure (page_width \<noteq> 0) (store_format_error 32 StoreHeaderPageWidthZero)) (\<lambda>_.
      ensure (page_width = pl_width layout)
        (store_format_error 32 (StoreHeaderPageWidthMismatch (pl_width layout) page_width))))"

definition parse_page_store_header :: "u8 list \<Rightarrow> page_layout \<Rightarrow> page_store_format_error + persistent_log_id" where
  "parse_page_store_header header layout =
     (let version = read_u16 header 8; declared = read_u16 header 10; flags = read_u32 header 12;
          actual = read_u64 header 56; expected = checksum_v1 (take 56 header) in
      and_then (ensure (bytes_at 0 8 header = store_header_magic) (store_format_error 0 StoreHeaderMagic)) (\<lambda>_.
      and_then (ensure (version = 1) (store_format_error 8 (StoreHeaderVersion version))) (\<lambda>_.
      and_then (ensure (declared = 64) (store_format_error 10 (StoreHeaderLength declared))) (\<lambda>_.
      and_then (ensure (flags = 0) (store_format_error 12 (StoreHeaderFlags flags))) (\<lambda>_.
      and_then (ok_or (persistent_log_id_new (read_u128 header 16)) (store_format_error 16 StoreLineageIdZero))
        (\<lambda>log_id.
      and_then (check_store_page_width header layout) (\<lambda>_.
      and_then (ensure (all_zero (bytes_at 40 16 header)) (store_format_error 40 StoreHeaderReserved)) (\<lambda>_.
      and_then (ensure (actual = expected) (store_format_error 56 (StoreHeaderChecksum expected actual))) (\<lambda>_.
      Inr log_id)))))))))"

definition parse_page_store_header_v2 ::
  "u8 list \<Rightarrow> page_layout \<Rightarrow> page_store_format_error + store_header_v2_metadata" where
  "parse_page_store_header_v2 header layout =
     (let version = read_u16 header 8; declared = read_u16 header 10; flags = read_u32 header 12;
          actual = read_u64 header 120; expected = checksum_v1 (take 120 header) in
      and_then (ensure (bytes_at 0 8 header = store_header_magic) (store_format_error 0 StoreHeaderMagic)) (\<lambda>_.
      and_then (ensure (version = 2) (store_format_error 8 (StoreHeaderVersion version))) (\<lambda>_.
      and_then (ensure (declared = 128) (store_format_error 10 (StoreHeaderV2Length declared))) (\<lambda>_.
      and_then (ensure (flags = 0) (store_format_error 12 (StoreHeaderFlags flags))) (\<lambda>_.
      and_then (ok_or (persistent_log_id_new (read_u128 header 16)) (store_format_error 16 StoreLineageIdZero))
        (\<lambda>log_id.
      and_then (check_store_page_width header layout) (\<lambda>_.
      and_then (ensure (all_zero (bytes_at 40 24 header)) (store_format_error 40 StoreHeaderReserved)) (\<lambda>_.
      and_then (map_err (\<lambda>source. store_format_error (of_nat (64 + ce_offset source))
          (StoreHeaderDatabaseChildIdentity (ce_reason source)))
        (decode_database_child_identity (bytes_at 64 48 header))) (\<lambda>identity.
      and_then (ensure (all_zero (bytes_at 112 8 header)) (store_format_error 112 StoreHeaderReserved)) (\<lambda>_.
      and_then (ensure (actual = expected) (store_format_error 120 (StoreHeaderChecksum expected actual))) (\<lambda>_.
      Inr \<lparr>sh_persistent_id = log_id, sh_database_file_identity = identity\<rparr>)))))))))))"

section \<open>Frames\<close>

datatype store_frame_kind = SnapshotHeader | RequiredPosition | StorePageData

definition store_frame_kind_from_u16 :: "u16 \<Rightarrow> store_frame_kind option" where
  "store_frame_kind_from_u16 value =
     (if value = 1 then Some SnapshotHeader else if value = 2 then Some RequiredPosition
      else if value = 3 then Some StorePageData else None)"

primrec store_frame_kind_code :: "store_frame_kind \<Rightarrow> u16" where
  "store_frame_kind_code SnapshotHeader = 1"
| "store_frame_kind_code RequiredPosition = 2"
| "store_frame_kind_code StorePageData = 3"

record decoded_store_frame =
  sr_kind :: store_frame_kind
  sr_payload_a :: u64
  sr_payload_b :: u64
  sr_payload_c :: u64
  sr_payload_c_bytes :: "u8 list"

definition parse_page_store_frame :: "u8 list \<Rightarrow> u64 \<Rightarrow> page_store_format_error + decoded_store_frame" where
  "parse_page_store_frame frame offset =
     (let kind_raw = read_u16 frame 4; version = read_u16 frame 6; flags = read_u32 frame 8;
          declared = read_u16 frame 12; actual = read_u64 frame 48;
          expected = checksum_v1 (take 48 frame) in
      and_then (ensure (bytes_at 0 4 frame = store_frame_magic) (store_format_error offset StoreFrameMagic)) (\<lambda>_.
      and_then (ok_or (store_frame_kind_from_u16 kind_raw)
        (store_format_error (offset + 4) (StoreFrameKind kind_raw))) (\<lambda>kind.
      and_then (ensure (version = 1) (store_format_error (offset + 6) (StoreFrameVersion version))) (\<lambda>_.
      and_then (ensure (flags = 0) (store_format_error (offset + 8) (StoreFrameFlags flags))) (\<lambda>_.
      and_then (ensure (declared = 56) (store_format_error (offset + 12) (StoreFrameLength declared))) (\<lambda>_.
      and_then (ensure (read_u16 frame 14 = 0 \<and> all_zero (bytes_at 40 8 frame))
        (store_format_error (offset + 14) StoreFrameReserved)) (\<lambda>_.
      and_then (ensure (actual = expected)
        (store_format_error (offset + 48) (StoreFrameChecksum expected actual))) (\<lambda>_.
      Inr \<lparr>sr_kind = kind, sr_payload_a = read_u64 frame 16, sr_payload_b = read_u64 frame 24,
           sr_payload_c = read_u64 frame 32, sr_payload_c_bytes = bytes_at 32 8 frame\<rparr>))))))))"

definition build_page_store_frame_with_payload2_bytes ::
  "store_frame_kind \<Rightarrow> u64 \<Rightarrow> u64 \<Rightarrow> u8 list \<Rightarrow> u8 list" where
  "build_page_store_frame_with_payload2_bytes kind payload_a payload_b payload_c_bytes =
     (let frame = replicate frame_length 0;
          frame = copy_into 0 store_frame_magic frame;
          frame = write_u16 4 (store_frame_kind_code kind) frame;
          frame = write_u16 6 1 frame;
          frame = write_u32 8 0 frame;
          frame = write_u16 12 56 frame;
          frame = write_u16 14 0 frame;
          frame = write_u64 16 payload_a frame;
          frame = write_u64 24 payload_b frame;
          frame = copy_into 32 payload_c_bytes frame
      in write_u64 48 (checksum_v1 (take 48 frame)) frame)"

definition build_page_store_frame :: "store_frame_kind \<Rightarrow> u64 \<Rightarrow> u64 \<Rightarrow> u64 \<Rightarrow> u8 list" where
  "build_page_store_frame kind payload_a payload_b payload_c =
     build_page_store_frame_with_payload2_bytes kind payload_a payload_b (be_bytes 8 payload_c)"

end
