(* ===== verification/File_Store.thy ===== *)
theory File_Store
  imports File_Store_Format File_Log Memory_Recovery
begin

text \<open>
  The page-store file: \<open>FilePageStore\<close> with the scan that opens it, and the store behind the
  committed-page recovery gate: observing a page, the inventory, the compare-and-replace write. The
  state holds the contents of the file and how much of it the last successful synchronization
  covered, as for the log.
\<close>

section \<open>Stored pages\<close>

record file_stored_page =
  sp_page_number :: page_number
  sp_page_version :: image_version
  sp_bytes :: "u8 list"
  sp_required_position :: log_sequence_number
  sp_store_sequence :: u64

definition file_stored_page_observation ::
  "file_stored_page \<Rightarrow> page_recovery_observation_bytes_error + stored_page_snapshot_observation" where
  "file_stored_page_observation p =
     stored_page_snapshot_observation_from_bytes (sp_page_number p) (sp_page_version p) (sp_bytes p)
       (sp_required_position p)"

primrec store_page_index :: "page_number \<Rightarrow> file_stored_page list \<Rightarrow> nat option" where
  "store_page_index number [] = None"
| "store_page_index number (p # ps) =
     (if sp_page_number p = number then Some 0 else map_option Suc (store_page_index number ps))"

text \<open>The stored page takes the place of the one with its index, or comes last.\<close>

definition place_stored_page ::
  "nat option \<Rightarrow> file_stored_page \<Rightarrow> file_stored_page list \<Rightarrow> file_stored_page list" where
  "place_stored_page existing_index stored pages =
     (case existing_index of Some index \<Rightarrow> pages[index := stored] | None \<Rightarrow> pages @ [stored])"

datatype file_page_store_error =
    FileStoreInjectedFault store_fault_point
  | FileStorePageWidth file_page_width_error
  | FileStorePoisonedWriter
  | FileStoreForeignPageLineage page_number
  | FileStoreForeignPermitLineage log_sequence_number
  | FileStorePermitPositionMismatch log_sequence_number log_sequence_number
  | FileStoreRequiredPositionZero page_number
  | FileStoreSnapshotCapacityExhausted
  | FileStoreSequenceSpaceExhausted
  | FileStoreIo store_io_error

primrec show_file_page_store_error :: "(io_error \<Rightarrow> string) \<Rightarrow> file_page_store_error \<Rightarrow> string" where
  "show_file_page_store_error show_io (FileStoreInjectedFault point) =
     ''injected page-store failure '' @ show_store_fault_point point"
| "show_file_page_store_error show_io (FileStorePageWidth source) = show_file_page_width_error source"
| "show_file_page_store_error show_io FileStorePoisonedWriter =
     ''page-store writer is poisoned; reopen the file before retrying''"
| "show_file_page_store_error show_io (FileStoreForeignPageLineage number) =
     ''page-store page '' @ show_page_number number @ '' belongs to another lineage''"
| "show_file_page_store_error show_io (FileStoreForeignPermitLineage position) =
     ''page-store permit position '' @ show_lsn position @ '' belongs to another lineage''"
| "show_file_page_store_error show_io (FileStorePermitPositionMismatch expected actual) =
     ''page-store permit position '' @ show_lsn actual @ '' does not equal required position ''
       @ show_lsn expected"
| "show_file_page_store_error show_io (FileStoreRequiredPositionZero number) =
     ''page-store page '' @ show_page_number number @ '' has zero as its required WAL position''"
| "show_file_page_store_error show_io FileStoreSnapshotCapacityExhausted =
     ''page-store snapshot capacity is exhausted''"
| "show_file_page_store_error show_io FileStoreSequenceSpaceExhausted =
     ''page-store sequence space is exhausted''"
| "show_file_page_store_error show_io (FileStoreIo source) = show_store_io_error show_io source"

section \<open>The scan\<close>

datatype store_group_state =
    StoreIdle
  | AwaitingRequiredPosition u64 u64 page_number image_version
  | AwaitingPageData u64 u64 page_number image_version u64 nat nat

record store_open_state =
  so_layout :: page_layout
  so_lineage :: log_lineage
  so_pages :: "file_stored_page list"
  so_next_sequence :: "u64 option"
  so_group_state :: store_group_state
  so_pending_bytes :: "u8 list"

definition store_open_state_new :: "nat \<Rightarrow> page_layout \<Rightarrow> log_lineage \<Rightarrow> store_open_state" where
  "store_open_state_new width layout lineage =
     \<lparr>so_layout = layout, so_lineage = lineage, so_pages = [], so_next_sequence = Some 1,
      so_group_state = StoreIdle, so_pending_bytes = replicate width 0\<rparr>"

definition pending_group_header_offset :: "store_open_state \<Rightarrow> u64 option" where
  "pending_group_header_offset s =
     (case so_group_state s of
        StoreIdle \<Rightarrow> None
      | AwaitingRequiredPosition header_offset _ _ _ \<Rightarrow> Some header_offset
      | AwaitingPageData header_offset _ _ _ _ _ _ \<Rightarrow> Some header_offset)"

definition require_store_format :: "bool \<Rightarrow> u64 \<Rightarrow> store_format_reason \<Rightarrow> store_open_error + unit" where
  "require_store_format b offset reason = ensure b (StoreOpenFormat (store_format_error offset reason))"

definition apply_idle_frame ::
  "nat \<Rightarrow> decoded_store_frame \<Rightarrow> u64 \<Rightarrow> store_open_state \<Rightarrow> store_open_error + store_open_state" where
  "apply_idle_frame width frame offset s =
     and_then (require_store_format (sr_kind frame = SnapshotHeader) (offset + 4) StorePageDataWithoutHeader) (\<lambda>_.
     and_then (require_store_format (sr_payload_a frame \<noteq> 0) (offset + 16) SnapshotSequenceZero) (\<lambda>_.
     and_then (ok_or (so_next_sequence s)
       (StoreOpenFormat (store_format_error (offset + 16) SnapshotSequenceSpaceExhausted))) (\<lambda>expected.
     and_then (require_store_format (sr_payload_a frame = expected) (offset + 16)
       (SnapshotSequenceOutOfOrder expected (sr_payload_a frame))) (\<lambda>_.
     and_then (ok_or (page_number_new (sr_payload_b frame))
       (StoreOpenFormat (store_format_error (offset + 24) SnapshotPageNumberZero))) (\<lambda>number.
     Inr (s\<lparr>so_pending_bytes := replicate width 0,
            so_group_state := AwaitingRequiredPosition offset (sr_payload_a frame) number
              (ImageVersion (sr_payload_c frame))\<rparr>))))))"

definition apply_awaiting_required_position_frame ::
  "decoded_store_frame \<Rightarrow> u64 \<Rightarrow> u64 \<times> u64 \<times> page_number \<times> image_version \<Rightarrow> store_open_state
     \<Rightarrow> store_open_error + store_open_state" where
  "apply_awaiting_required_position_frame frame offset pending s =
     (case pending of (header_offset, sequence, number, version) \<Rightarrow>
     and_then (require_store_format (sr_kind frame = RequiredPosition) (offset + 4)
       (UnexpectedKindAfterHeader (store_frame_kind_code (sr_kind frame)))) (\<lambda>_.
     and_then (require_store_format (sr_payload_a frame = sequence) (offset + 16)
       (RequiredPositionSequenceMismatch sequence (sr_payload_a frame))) (\<lambda>_.
     and_then (require_store_format (sr_payload_b frame \<noteq> 0) (offset + 24) StoreRequiredPositionZero) (\<lambda>_.
     and_then (require_store_format (sr_payload_c frame = 0) (offset + 32)
       (RequiredPositionPayloadCNonzero (sr_payload_c frame))) (\<lambda>_.
     Inr (s\<lparr>so_group_state := AwaitingPageData header_offset sequence number version
              (sr_payload_b frame) 0 (pl_chunk_count (so_layout s))\<rparr>))))))"

text \<open>The complete page enters the pages and the group is closed.\<close>

definition close_group ::
  "(nat \<Rightarrow> bool) \<Rightarrow> file_stored_page \<Rightarrow> store_open_state \<Rightarrow> store_open_error + store_open_state" where
  "close_group reserve stored s =
     (let existing = store_page_index (sp_page_number stored) (so_pages s) in
      and_then (ensure (existing \<noteq> None \<or> reserve (length (so_pages s))) OpenSnapshotCapacityExhausted) (\<lambda>_.
      Inr (s\<lparr>so_pages := place_stored_page existing stored (so_pages s),
             so_next_sequence := checked_add (sp_store_sequence stored) 1,
             so_group_state := StoreIdle\<rparr>)))"

definition apply_awaiting_page_data_frame ::
  "(nat \<Rightarrow> bool) \<Rightarrow> decoded_store_frame \<Rightarrow> u64
     \<Rightarrow> u64 \<times> u64 \<times> page_number \<times> image_version \<times> u64 \<times> nat \<times> nat \<Rightarrow> store_open_state
     \<Rightarrow> store_open_error + store_open_state" where
  "apply_awaiting_page_data_frame reserve frame offset pending s =
     (case pending of (header_offset, sequence, number, version, required_position, next_chunk_index, chunk_count) \<Rightarrow>
     and_then (require_store_format (sr_kind frame = StorePageData) (offset + 4)
       (UnexpectedKindAfterRequiredPosition (store_frame_kind_code (sr_kind frame)))) (\<lambda>_.
     and_then (require_store_format (sr_payload_a frame = sequence) (offset + 16)
       (StorePageDataSequenceMismatch sequence (sr_payload_a frame))) (\<lambda>_.
     and_then (require_store_format (sr_payload_b frame = of_nat next_chunk_index) (offset + 24)
       (StorePageDataChunkIndexOutOfSequence (of_nat next_chunk_index) (sr_payload_b frame))) (\<lambda>_.
     let logical_len = logical_bytes_for_chunk (so_layout s) next_chunk_index;
         s1 = s\<lparr>so_pending_bytes := copy_into (next_chunk_index * page_chunk_width)
                  (take logical_len (sr_payload_c_bytes frame)) (so_pending_bytes s)\<rparr>;
         new_next = next_chunk_index + 1;
         final_len = pl_final_chunk_len (so_layout s) in
     and_then (require_store_format
         (new_next = chunk_count \<and> final_len < page_chunk_width
            \<longrightarrow> all_zero (drop final_len (sr_payload_c_bytes frame)))
         (offset + 32) StorePageDataFinalPaddingNonzero) (\<lambda>_.
     if new_next = chunk_count
     then close_group reserve
            \<lparr>sp_page_number = number, sp_page_version = version, sp_bytes = so_pending_bytes s1,
             sp_required_position = lineage_position (so_lineage s) required_position,
             sp_store_sequence = sequence\<rparr> s1
     else Inr (s1\<lparr>so_group_state := AwaitingPageData header_offset sequence number version
            required_position new_next chunk_count\<rparr>))))))"

definition apply_store_frame ::
  "(nat \<Rightarrow> bool) \<Rightarrow> nat \<Rightarrow> decoded_store_frame \<Rightarrow> u64 \<Rightarrow> store_open_state
     \<Rightarrow> store_open_error + store_open_state" where
  "apply_store_frame reserve width frame offset s =
     (case so_group_state s of
        StoreIdle \<Rightarrow> apply_idle_frame width frame offset s
      | AwaitingRequiredPosition header_offset sequence number version \<Rightarrow>
          apply_awaiting_required_position_frame frame offset (header_offset, sequence, number, version) s
      | AwaitingPageData header_offset sequence number version required_position next_chunk_index chunk_count \<Rightarrow>
          apply_awaiting_page_data_frame reserve frame offset
            (header_offset, sequence, number, version, required_position, next_chunk_index, chunk_count) s)"

section \<open>The store and its file\<close>

record file_page_store =
  fp_contents :: "u8 list"
  fp_synced :: nat
  fp_format :: page_store_format
  fp_lineage :: log_lineage
  fp_persistent_id :: persistent_log_id
  fp_database_file_identity :: "file_header_identity option"
  fp_pages :: "file_stored_page list"
  fp_next_sequence :: "u64 option"
  fp_armed_fault :: "store_fault_point option"
  fp_poisoned :: bool

text \<open>As for the log: whether a call fails, and how much of a frame was written before it did.\<close>

type_synonym store_io = "store_io_stage \<Rightarrow> nat \<Rightarrow> (io_error \<times> nat) option"

definition store_io_failure :: "store_io_stage \<Rightarrow> io_error \<Rightarrow> store_io_error" where
  "store_io_failure stage source = \<lparr>sx_stage = stage, sx_source = source\<rparr>"

definition store_try :: "store_io \<Rightarrow> store_io_stage \<Rightarrow> nat \<Rightarrow> store_io_error + unit" where
  "store_try io stage at =
     (case io stage at of None \<Rightarrow> Inr () | Some (source, _) \<Rightarrow> Inl (store_io_failure stage source))"

definition sync_page_store_parent_directory :: "store_io \<Rightarrow> log_path \<Rightarrow> store_create_error + unit" where
  "sync_page_store_parent_directory io path =
     and_then (ensure (lp_has_parent path) StoreMissingParentDirectory) (\<lambda>_.
     and_then (map_err StoreCreateIo (store_try io StoreOpenParentDirectory 0)) (\<lambda>_.
     map_err StoreCreateIo (store_try io StoreSyncParentDirectory 0)))"

definition store_create_new_internal ::
  "store_io \<Rightarrow> log_path \<Rightarrow> persistent_log_id \<Rightarrow> page_store_format \<Rightarrow> u8 list \<Rightarrow> file_header_identity option
     \<Rightarrow> store_create_error + file_page_store" where
  "store_create_new_internal io path log_id f header identity =
     and_then (map_err StoreCreateIo (store_try io StoreCreateFile 0)) (\<lambda>_.
     and_then (map_err StoreCreateIo (store_try io StoreAcquireExclusiveLock 0)) (\<lambda>_.
     and_then (map_err StoreCreateIo (store_try io StoreWriteHeader 0)) (\<lambda>_.
     and_then (map_err StoreCreateIo (store_try io StoreSyncCreatedFile 0)) (\<lambda>_.
     and_then (sync_page_store_parent_directory io path) (\<lambda>_.
     and_then (map_err StoreCreateIo (store_try io StoreSeekEnd 0)) (\<lambda>_.
     Inr \<lparr>fp_contents = header, fp_synced = length header, fp_format = f, fp_lineage = Persistent log_id,
          fp_persistent_id = log_id, fp_database_file_identity = identity, fp_pages = [],
          fp_next_sequence = Some 1, fp_armed_fault = None, fp_poisoned = False\<rparr>))))))"

definition store_create_new ::
  "store_io \<Rightarrow> usize \<Rightarrow> log_path \<Rightarrow> persistent_log_id \<Rightarrow> store_create_error + file_page_store" where
  "store_create_new io n path log_id =
     and_then (map_err StoreCreatePageWidth (page_layout_for n)) (\<lambda>layout.
     store_create_new_internal io path log_id StoreV1 (build_page_store_header log_id (pl_width layout)) None)"

definition store_create_new_database ::
  "store_io \<Rightarrow> usize \<Rightarrow> log_path \<Rightarrow> storage_identity \<Rightarrow> store_create_error + file_page_store" where
  "store_create_new_database io n path identity =
     and_then (map_err StoreCreatePageWidth (page_layout_for n)) (\<lambda>layout.
     let file_identity = storage_file_header_identity identity RolePageStore;
         log_id = si_persistent_log_id identity in
     store_create_new_internal io path log_id StoreV2
       (build_page_store_header_v2 log_id (pl_width layout) file_identity) (Some file_identity))"

section \<open>Opening\<close>

text \<open>What opening learns from the header: format, log identity, file identity, header length.\<close>

definition read_store_header ::
  "store_io \<Rightarrow> page_layout \<Rightarrow> u8 list
     \<Rightarrow> store_open_error + page_store_format \<times> persistent_log_id \<times> file_header_identity option \<times> nat" where
  "read_store_header io layout bytes =
     and_then (require_store_format (header_length \<le> length bytes) 0
       (StoreHeaderTooShort (of_nat (length bytes)))) (\<lambda>_.
     and_then (map_err StoreOpenIo (store_try io StoreReadHeader 0)) (\<lambda>_.
     if read_u16 bytes 8 = 2
     then and_then (require_store_format (store_header_v2_length \<le> length bytes) 0
            (StoreHeaderTooShort (of_nat (length bytes)))) (\<lambda>_.
          and_then (map_err StoreOpenIo (store_try io StoreReadHeader header_length)) (\<lambda>_.
          and_then (map_err StoreOpenFormat (parse_page_store_header_v2 (take store_header_v2_length bytes) layout))
            (\<lambda>m. Inr (StoreV2, sh_persistent_id m, Some (sh_database_file_identity m), store_header_v2_length))))
     else and_then (map_err StoreOpenFormat (parse_page_store_header (take header_length bytes) layout)) (\<lambda>log_id.
          Inr (StoreV1, log_id, None, header_length))))"

text \<open>The loop over the complete frames after the header.\<close>

function fold_frames ::
  "(nat \<Rightarrow> u8 list \<Rightarrow> 's \<Rightarrow> 'e + 's) \<Rightarrow> nat \<Rightarrow> u8 list \<Rightarrow> 's \<Rightarrow> 'e + 's" where
  "fold_frames step offset bytes s =
     (if length bytes < frame_length then Inr s
      else and_then (step offset (take frame_length bytes) s)
             (fold_frames step (offset + frame_length) (drop frame_length bytes)))"
  by pat_completeness auto
termination
  by (relation "measure (\<lambda>(_, _, bytes, _). length bytes)") (auto simp: frame_length_def)

declare fold_frames.simps [simp del]

definition store_scan_step ::
  "store_io \<Rightarrow> (nat \<Rightarrow> bool) \<Rightarrow> nat \<Rightarrow> nat \<Rightarrow> u8 list \<Rightarrow> store_open_state \<Rightarrow> store_open_error + store_open_state"
where
  "store_scan_step io reserve width offset frame s =
     and_then (map_err StoreOpenIo (store_try io StoreReadFrame offset)) (\<lambda>_.
     and_then (map_err StoreOpenFormat (parse_page_store_frame frame (of_nat offset))) (\<lambda>d.
     apply_store_frame reserve width d (of_nat offset) s))"

definition opened_store ::
  "u8 list \<Rightarrow> page_store_format \<Rightarrow> persistent_log_id \<Rightarrow> file_header_identity option \<Rightarrow> store_open_state
     \<Rightarrow> file_page_store" where
  "opened_store bytes f log_id identity s =
     \<lparr>fp_contents = bytes, fp_synced = length bytes, fp_format = f, fp_lineage = Persistent log_id,
      fp_persistent_id = log_id, fp_database_file_identity = identity, fp_pages = so_pages s,
      fp_next_sequence = so_next_sequence s, fp_armed_fault = None, fp_poisoned = False\<rparr>"

definition store_inspect ::
  "store_io \<Rightarrow> (nat \<Rightarrow> bool) \<Rightarrow> usize \<Rightarrow> u8 list \<Rightarrow> store_open_error + file_page_store \<times> u64 option" where
  "store_inspect io reserve n bytes =
     and_then (map_err StoreOpenPageWidth (page_layout_for n)) (\<lambda>layout.
     and_then (map_err StoreOpenIo (store_try io StoreOpenFile 0)) (\<lambda>_.
     and_then (map_err StoreOpenIo (store_try io StoreAcquireExclusiveLock 0)) (\<lambda>_.
     and_then (map_err StoreOpenIo (store_try io StoreSyncOpenedFile 0)) (\<lambda>_.
     and_then (map_err StoreOpenIo (store_try io StoreReadMetadata 0)) (\<lambda>_.
     and_then (read_store_header io layout bytes) (\<lambda>(f, log_id, identity, header_end).
     let region = length bytes - header_end;
         frames_end = header_end + region div frame_length * frame_length in
     and_then (fold_frames (store_scan_step io reserve (unat n)) header_end (drop header_end bytes)
       (store_open_state_new (unat n) layout (Persistent log_id))) (\<lambda>s.
     let repaired = (case pending_group_header_offset s of
           Some offset \<Rightarrow> Some offset
         | None \<Rightarrow> if 0 < region mod frame_length then Some (of_nat frames_end) else None) in
     Inr (opened_store bytes f log_id identity s, repaired))))))))"

definition is_exact_initial_store_file :: "file_page_store \<times> u64 option \<Rightarrow> bool" where
  "is_exact_initial_store_file locked =
     (let (s, repaired) = locked in
      repaired = None \<and> fp_format s = StoreV2 \<and> fp_pages s = [] \<and> fp_next_sequence s = Some 1)"

definition store_finish :: "store_io \<Rightarrow> file_page_store \<times> u64 option \<Rightarrow> store_open_error + file_page_store" where
  "store_finish io locked =
     (let (s, repaired) = locked in
      and_then (case repaired of
          None \<Rightarrow> Inr s
        | Some repaired_len \<Rightarrow>
            and_then (map_err StoreOpenIo (store_try io StoreTruncateIncompleteTail 0)) (\<lambda>_.
            and_then (map_err StoreOpenIo (store_try io StoreSyncTruncatedTail 0)) (\<lambda>_.
            let contents = take (unat repaired_len) (fp_contents s) in
            Inr (s\<lparr>fp_contents := contents, fp_synced := length contents\<rparr>)))) (\<lambda>s.
      and_then (map_err StoreOpenIo (store_try io StoreSeekEnd 0)) (\<lambda>_. Inr s)))"

definition store_open ::
  "store_io \<Rightarrow> (nat \<Rightarrow> bool) \<Rightarrow> usize \<Rightarrow> u8 list \<Rightarrow> store_open_error + file_page_store" where
  "store_open io reserve n bytes = and_then (store_inspect io reserve n bytes) (store_finish io)"

text \<open>
  The log is opened first and the store second; the pair is what
  \<open>UnrecoveredTransactionPageStorage\<close> owns.
\<close>

datatype storage_open_error = OpenCommitLog file_open_error | OpenPageStore store_open_error

primrec show_storage_open_error :: "(io_error \<Rightarrow> string) \<Rightarrow> storage_open_error \<Rightarrow> string" where
  "show_storage_open_error show_io (OpenCommitLog source) =
     ''transaction-page WAL open failed: '' @ show_file_open_error show_io source"
| "show_storage_open_error show_io (OpenPageStore source) =
     ''page-store open failed: '' @ show_store_open_error show_io source"

definition open_transaction_page_storage ::
  "file_io \<Rightarrow> store_io \<Rightarrow> (nat \<Rightarrow> bool) \<Rightarrow> usize \<Rightarrow> log_path \<Rightarrow> reclamation_candidate \<Rightarrow> u8 list \<Rightarrow> u8 list
     \<Rightarrow> storage_open_error + file_log \<times> file_page_store" where
  "open_transaction_page_storage log_io io reserve n path entry log_bytes store_bytes =
     and_then (map_err OpenCommitLog (file_open_transaction_page_capable log_io reserve n path entry log_bytes)) (\<lambda>log.
     and_then (map_err OpenPageStore (store_open io reserve n store_bytes)) (\<lambda>s.
     Inr (log, s)))"

section \<open>Writing\<close>

definition snapshot_page :: "page_number \<Rightarrow> file_page_store \<Rightarrow> file_stored_page option" where
  "snapshot_page number s = find (\<lambda>p. sp_page_number p = number) (fp_pages s)"

definition store_arm_fault ::
  "store_fault_point \<Rightarrow> file_page_store \<Rightarrow> (store_fault_already_armed + unit) \<times> file_page_store" where
  "store_arm_fault fault s =
     (case fp_armed_fault s of
        Some armed \<Rightarrow> (Inl \<lparr>sa_armed = armed, sa_requested = fault\<rparr>, s)
      | None \<Rightarrow> (Inr (), s\<lparr>fp_armed_fault := Some fault\<rparr>))"

definition store_consume_fault :: "store_fault_point \<Rightarrow> file_page_store \<Rightarrow> bool \<times> file_page_store" where
  "store_consume_fault point s =
     (if fp_armed_fault s = Some point then (True, s\<lparr>fp_armed_fault := None\<rparr>) else (False, s))"

definition store_fault_gate ::
  "store_fault_point \<Rightarrow> file_page_store \<Rightarrow> (file_page_store_error + unit) \<times> file_page_store" where
  "store_fault_gate point s =
     (let (fired, s1) = store_consume_fault point s in
      (if fired then Inl (FileStoreInjectedFault point) else Inr (), s1))"

definition store_write_frame ::
  "store_io \<Rightarrow> u8 list \<Rightarrow> store_io_stage \<Rightarrow> file_page_store
     \<Rightarrow> (file_page_store_error + unit) \<times> file_page_store" where
  "store_write_frame io frame stage s =
     (case io stage (length (fp_contents s)) of
        None \<Rightarrow> (Inr (), s\<lparr>fp_contents := fp_contents s @ frame\<rparr>)
      | Some (source, written) \<Rightarrow> (Inl (FileStoreIo (store_io_failure stage source)),
          s\<lparr>fp_contents := fp_contents s @ take written frame, fp_poisoned := True\<rparr>))"

definition store_sync_group ::
  "store_io \<Rightarrow> file_page_store \<Rightarrow> (file_page_store_error + unit) \<times> file_page_store" where
  "store_sync_group io s =
     (case io StoreSyncPageGroup (length (fp_contents s)) of
        None \<Rightarrow> (Inr (), s\<lparr>fp_synced := length (fp_contents s)\<rparr>)
      | Some (source, _) \<Rightarrow>
          (Inl (FileStoreIo (store_io_failure StoreSyncPageGroup source)), s\<lparr>fp_poisoned := True\<rparr>))"

primrec write_store_data ::
  "store_io \<Rightarrow> page_layout \<Rightarrow> u64 \<Rightarrow> u8 list \<Rightarrow> nat list \<Rightarrow> file_page_store
     \<Rightarrow> (file_page_store_error + unit) \<times> file_page_store" where
  "write_store_data io layout sequence bytes [] s = (Inr (), s)"
| "write_store_data io layout sequence bytes (chunk_index # rest) s =
     chain (store_write_frame io
         (build_page_store_frame_with_payload2_bytes StorePageData sequence (of_nat chunk_index)
           (page_chunk layout bytes chunk_index)) StoreWritePageDataFrame s) (\<lambda>_ s.
     write_store_data io layout sequence bytes rest s)"

definition write_snapshot_group ::
  "store_io \<Rightarrow> page_layout \<Rightarrow> file_stored_page \<Rightarrow> nat option \<Rightarrow> u64 \<Rightarrow> file_page_store
     \<Rightarrow> (file_page_store_error + unit) \<times> file_page_store" where
  "write_snapshot_group io layout stored existing_index sequence s =
     with_result (ensure (\<not> fp_poisoned s) FileStorePoisonedWriter) s (\<lambda>_.
     chain (store_fault_gate StoreBeforeWrite s) (\<lambda>_ s.
     chain (store_write_frame io (build_page_store_frame SnapshotHeader sequence
         (page_number_get (sp_page_number stored)) (image_version_get (sp_page_version stored)))
       StoreWriteSnapshotHeaderFrame s) (\<lambda>_ s.
     chain (store_write_frame io (build_page_store_frame RequiredPosition sequence
         (lsn_value (sp_required_position stored)) 0) StoreWriteRequiredPositionFrame s) (\<lambda>_ s.
     chain (write_store_data io layout sequence (sp_bytes stored) [0..<pl_chunk_count layout] s) (\<lambda>_ s.
     chain (store_sync_group io s) (\<lambda>_ s.
     store_fault_gate StoreAfterWrite
       (s\<lparr>fp_pages := place_stored_page existing_index stored (fp_pages s),
          fp_next_sequence := checked_add sequence 1\<rparr>)))))))"

text \<open>The end all writes share: a sequence number, room for a new page, the group.\<close>

definition store_write_stored ::
  "store_io \<Rightarrow> (nat \<Rightarrow> bool) \<Rightarrow> page_layout \<Rightarrow> (u64 \<Rightarrow> file_stored_page) \<Rightarrow> page_number \<Rightarrow> file_page_store
     \<Rightarrow> (file_page_store_error + unit) \<times> file_page_store" where
  "store_write_stored io reserve layout stored number s =
     with_result (ok_or (fp_next_sequence s) FileStoreSequenceSpaceExhausted) s (\<lambda>sequence.
     let existing_index = store_page_index number (fp_pages s) in
     with_result (ensure (existing_index \<noteq> None \<or> reserve (length (fp_pages s)))
       FileStoreSnapshotCapacityExhausted) s (\<lambda>_.
     write_snapshot_group io layout (stored sequence) existing_index sequence s))"

definition file_write_page ::
  "store_io \<Rightarrow> (nat \<Rightarrow> bool) \<Rightarrow> usize \<Rightarrow> dirty_page \<Rightarrow> page_write_permit \<Rightarrow> file_page_store
     \<Rightarrow> (file_page_store_error + unit) \<times> file_page_store" where
  "file_write_page io reserve n page permit s =
     (let number = pa_number (dp_address page) in
     with_result (ensure (\<not> fp_poisoned s) FileStorePoisonedWriter) s (\<lambda>_.
     with_result (map_err FileStorePageWidth (page_layout_for n)) s (\<lambda>layout.
     with_result (ensure (same_lineage (fp_lineage s) (pa_lineage (dp_address page)))
       (FileStoreForeignPageLineage number)) s (\<lambda>_.
     with_result (ensure (same_lineage (fp_lineage s) (lsn_lineage (durable_position permit)))
       (FileStoreForeignPermitLineage (durable_position permit))) s (\<lambda>_.
     with_result (ensure (lsn_eq (durable_position permit) (dp_required_position page))
       (FileStorePermitPositionMismatch (dp_required_position page) (durable_position permit))) s (\<lambda>_.
     with_result (ensure (lsn_value (dp_required_position page) \<noteq> 0) (FileStoreRequiredPositionZero number)) s (\<lambda>_.
     store_write_stored io reserve layout
       (\<lambda>sequence. \<lparr>sp_page_number = number, sp_page_version = dp_version page,
          sp_bytes = image_bytes (dp_image page), sp_required_position = dp_required_position page,
          sp_store_sequence = sequence\<rparr>) number s)))))))"

definition file_store_port ::
  "store_io \<Rightarrow> (nat \<Rightarrow> bool) \<Rightarrow> usize \<Rightarrow> (file_page_store, file_page_store_error) page_store_port" where
  "file_store_port io reserve n = \<lparr>store_lineage = fp_lineage, store_write_page = file_write_page io reserve n\<rparr>"

section \<open>Errors\<close>

datatype store_observation_error =
    ObservationPoisonedWriter
  | ObservationProjection page_recovery_observation_bytes_error

primrec show_store_observation_error :: "store_observation_error \<Rightarrow> string" where
  "show_store_observation_error ObservationPoisonedWriter =
     ''page-store writer is poisoned; reopen the file before committed-page recovery''"
| "show_store_observation_error (ObservationProjection source) =
     ''filesystem page observation failed: '' @ show_page_recovery_observation_bytes_error source"

datatype store_inventory_error =
    InventoryPoisonedWriter
  | InventoryCapacityExhausted nat
  | InventoryProjection page_number page_recovery_observation_bytes_error

primrec show_store_inventory_error :: "store_inventory_error \<Rightarrow> string" where
  "show_store_inventory_error InventoryPoisonedWriter =
     ''page-store writer is poisoned; reopen the file before complete inventory''"
| "show_store_inventory_error (InventoryCapacityExhausted page_count) =
     ''filesystem page inventory capacity is exhausted for '' @ dec_nat page_count @ '' pages''"
| "show_store_inventory_error (InventoryProjection number source) =
     ''filesystem page '' @ show_page_number number @ '' inventory projection failed: ''
       @ show_page_recovery_observation_bytes_error source"

datatype store_recovery_error =
    StoreForeignTargetPagePosition log_sequence_number
  | StoreForeignTargetCommitPosition log_sequence_number
  | StoreForeignPermitPagePosition log_sequence_number
  | StoreForeignPermitCommitPosition log_sequence_number
  | StorePermitPagePositionMismatch log_sequence_number log_sequence_number
  | StorePermitCommitPositionMismatch log_sequence_number log_sequence_number
  | StoreCurrentObservation page_recovery_observation_bytes_error
  | StoreSourceComparison recovery_comparison_error
  | StoreSourceNotMatched recovery_comparison
  | StoreRecoveryWrite file_page_store_error

primrec show_store_recovery_error :: "(io_error \<Rightarrow> string) \<Rightarrow> store_recovery_error \<Rightarrow> string" where
  "show_store_recovery_error show_io (StoreForeignTargetPagePosition position) =
     ''recovery target page position '' @ show_lsn position @ '' belongs to another lineage''"
| "show_store_recovery_error show_io (StoreForeignTargetCommitPosition position) =
     ''recovery target commit position '' @ show_lsn position @ '' belongs to another lineage''"
| "show_store_recovery_error show_io (StoreForeignPermitPagePosition position) =
     ''recovery permit page position '' @ show_lsn position @ '' belongs to another lineage''"
| "show_store_recovery_error show_io (StoreForeignPermitCommitPosition position) =
     ''recovery permit commit position '' @ show_lsn position @ '' belongs to another lineage''"
| "show_store_recovery_error show_io (StorePermitPagePositionMismatch expected actual) =
     ''recovery permit page position '' @ show_lsn actual @ '' does not match target position ''
       @ show_lsn expected"
| "show_store_recovery_error show_io (StorePermitCommitPositionMismatch expected actual) =
     ''recovery permit commit position '' @ show_lsn actual @ '' does not match target position ''
       @ show_lsn expected"
| "show_store_recovery_error show_io (StoreCurrentObservation source) =
     ''recovery current-page observation failed: '' @ show_page_recovery_observation_bytes_error source"
| "show_store_recovery_error show_io (StoreSourceComparison source) =
     ''recovery source comparison failed: '' @ show_recovery_comparison_error source"
| "show_store_recovery_error show_io (StoreSourceNotMatched actual) =
     ''recovery source no longer matches the candidate: '' @ debug_recovery_comparison actual"
| "show_store_recovery_error show_io (StoreRecoveryWrite source) =
     ''recovery page-store write failed: '' @ show_file_page_store_error show_io source"

section \<open>Observing\<close>

definition store_observe_page ::
  "page_number \<Rightarrow> file_page_store \<Rightarrow> store_observation_error + stored_page_snapshot_observation option" where
  "store_observe_page number s =
     and_then (ensure (\<not> fp_poisoned s) ObservationPoisonedWriter) (\<lambda>_.
     case snapshot_page number s of
       None \<Rightarrow> Inr None
     | Some p \<Rightarrow> map_sum ObservationProjection Some (file_stored_page_observation p))"

primrec store_inventory_loop ::
  "file_stored_page list \<Rightarrow> store_inventory_error + stored_page_snapshot_observation list" where
  "store_inventory_loop [] = Inr []"
| "store_inventory_loop (p # ps) =
     and_then (map_err (InventoryProjection (sp_page_number p)) (file_stored_page_observation p)) (\<lambda>x.
     and_then (store_inventory_loop ps) (\<lambda>xs. Inr (x # xs)))"

definition store_inventory ::
  "(nat \<Rightarrow> bool) \<Rightarrow> file_page_store
     \<Rightarrow> (store_inventory_error + stored_page_snapshot_observation list) \<times> file_page_store" where
  "store_inventory alloc s =
     (let page_count = length (fp_pages s) in
      with_result (ensure (\<not> fp_poisoned s) InventoryPoisonedWriter) s (\<lambda>_.
      with_result (ensure (alloc page_count) (InventoryCapacityExhausted page_count)) s (\<lambda>_.
      with_result (store_inventory_loop (fp_pages s)) s (\<lambda>xs.
      (Inr (sort_key (\<lambda>x. page_number_get (po_page_number (snapshot_observation x))) xs), s)))))"

section \<open>Compare and replace\<close>

definition require_store_recovery_source_match ::
  "recovery_candidate \<Rightarrow> stored_page_snapshot_observation option \<Rightarrow> store_recovery_error + unit" where
  "require_store_recovery_source_match candidate current =
     (case compare_recovery_candidate candidate current of
        Inr SourceMatches \<Rightarrow> Inr ()
      | Inr actual \<Rightarrow> Inl (StoreSourceNotMatched actual)
      | Inl source \<Rightarrow> Inl (StoreSourceComparison source))"

definition check_store_recovery_permit ::
  "log_lineage \<Rightarrow> latest_committed_page \<Rightarrow> recovery_write_permit \<Rightarrow> store_recovery_error + unit" where
  "check_store_recovery_permit lineage latest permit =
     (let page_position = xo_position (lc_observation latest); commit_position = lc_commit_position latest in
      and_then (ensure (same_lineage lineage (lsn_lineage page_position))
        (StoreForeignTargetPagePosition page_position)) (\<lambda>_.
      and_then (ensure (same_lineage lineage (lsn_lineage commit_position))
        (StoreForeignTargetCommitPosition commit_position)) (\<lambda>_.
      and_then (ensure (same_lineage lineage (lsn_lineage (wp_page_position permit)))
        (StoreForeignPermitPagePosition (wp_page_position permit))) (\<lambda>_.
      and_then (ensure (same_lineage lineage (lsn_lineage (wp_commit_position permit)))
        (StoreForeignPermitCommitPosition (wp_commit_position permit))) (\<lambda>_.
      and_then (ensure (lsn_eq (wp_page_position permit) page_position)
        (StorePermitPagePositionMismatch page_position (wp_page_position permit))) (\<lambda>_.
      ensure (lsn_eq (wp_commit_position permit) commit_position)
        (StorePermitCommitPositionMismatch commit_position (wp_commit_position permit))))))))"

definition store_current_page ::
  "page_number \<Rightarrow> file_page_store
     \<Rightarrow> page_recovery_observation_bytes_error + stored_page_snapshot_observation option" where
  "store_current_page number s =
     (case snapshot_page number s of
        None \<Rightarrow> Inr None
      | Some p \<Rightarrow> map_sum (\<lambda>e. e) Some (file_stored_page_observation p))"

definition store_compare_and_replace ::
  "store_io \<Rightarrow> (nat \<Rightarrow> bool) \<Rightarrow> usize \<Rightarrow> recovery_candidate \<Rightarrow> recovery_write_permit \<Rightarrow> file_page_store
     \<Rightarrow> (store_recovery_error + unit) \<times> file_page_store" where
  "store_compare_and_replace io reserve n candidate permit s =
     (let target = lc_observation (rc_latest_committed candidate); page = wal_observation (xo_page target);
          number = po_page_number page in
      with_result (ensure (\<not> fp_poisoned s) (StoreRecoveryWrite FileStorePoisonedWriter)) s (\<lambda>_.
      with_result (check_store_recovery_permit (fp_lineage s) (rc_latest_committed candidate) permit) s (\<lambda>_.
      with_result (map_err StoreCurrentObservation (store_current_page number s)) s (\<lambda>current.
      with_result (require_store_recovery_source_match candidate current) s (\<lambda>_.
      with_result (map_err (\<lambda>e. StoreRecoveryWrite (FileStorePageWidth e)) (page_layout_for n)) s (\<lambda>layout.
      converted StoreRecoveryWrite (store_write_stored io reserve layout
        (\<lambda>sequence. \<lparr>sp_page_number = number, sp_page_version = po_page_version page,
           sp_bytes = image_bytes (po_image page), sp_required_position = xo_position target,
           sp_store_sequence = sequence\<rparr>) number s)))))))"

definition file_page_recovery_store ::
  "store_io \<Rightarrow> (nat \<Rightarrow> bool) \<Rightarrow> usize
     \<Rightarrow> (file_page_store, store_observation_error, store_recovery_error) page_recovery_store" where
  "file_page_recovery_store io reserve n =
     \<lparr>snapshot_lineage = fp_lineage, snapshot_observe_page = store_observe_page,
      compare_and_replace = store_compare_and_replace io reserve n\<rparr>"

end
