(* ===== verification/File_Store_Scan.thy ===== *)
theory File_Store_Scan
  imports File_Store File_Log_Reopen
begin

text \<open>
  The headers and frames of the page-store file parse back to what they were built from, and any
  one byte changed in them is noticed. The scan of the file: a complete group installs its page, and
  a group cut anywhere leaves the state of the groups before it, with its header frame remembered as
  the place to cut the file.
\<close>

section \<open>Frames\<close>

lemma store_kind_from_code [simp]: "store_frame_kind_from_u16 (store_frame_kind_code kind) = Some kind"
  by (cases kind) (simp_all add: store_frame_kind_from_u16_def)

lemma length_store_frame [simp]:
  "length (build_page_store_frame_with_payload2_bytes kind a b c) = frame_length"
  "length (build_page_store_frame kind a b d) = frame_length"
  by (simp_all add: build_page_store_frame_def build_page_store_frame_with_payload2_bytes_def write_simps Let_def)

lemma store_frame_fields:
  fixes kind :: store_frame_kind and a b :: u64
  assumes "length c = 8"
  defines "e \<equiv> build_page_store_frame_with_payload2_bytes kind a b c"
  shows "bytes_at 0 4 e = store_frame_magic" and "read_u16 e 4 = store_frame_kind_code kind"
    and "read_u16 e 6 = 1" and "read_u32 e 8 = 0" and "read_u16 e 12 = 56"
    and "read_u16 e 14 = 0" and "read_u64 e 16 = a" and "read_u64 e 24 = b"
    and "bytes_at 32 8 e = c" and "bytes_at 40 8 e = replicate 8 0"
    and "read_u64 e 48 = checksum_v1 (take 48 e)"
  using assms(1)
  by (simp_all add: e_def build_page_store_frame_with_payload2_bytes_def write_simps read_simps byte_simps
      frame_length_def store_frame_magic_def Let_def)

lemma parse_built_store_frame:
  assumes "length c = 8"
  shows "parse_page_store_frame (build_page_store_frame_with_payload2_bytes kind a b c) offset
    = Inr \<lparr>sr_kind = kind, sr_payload_a = a, sr_payload_b = b, sr_payload_c = of_be_bytes c,
           sr_payload_c_bytes = c\<rparr>"
proof -
  define e where "e = build_page_store_frame_with_payload2_bytes kind a b c"
  note fields = store_frame_fields [OF assms, of kind a b, folded e_def]
  have "read_u64 e 32 = of_be_bytes c" by (simp add: read_u64_def fields)
  with fields show ?thesis by (simp add: parse_page_store_frame_def Let_def flip: e_def)
qed

lemma parse_build_store_frame:
  "parse_page_store_frame (build_page_store_frame kind a b c) offset
    = Inr \<lparr>sr_kind = kind, sr_payload_a = a, sr_payload_b = b, sr_payload_c = c,
           sr_payload_c_bytes = be_bytes 8 c\<rparr>"
  using parse_built_store_frame [of "be_bytes 8 c"] by (simp add: build_page_store_frame_def)

lemma parse_store_frame_checksum:
  "parse_page_store_frame frame offset = Inr d \<Longrightarrow> read_u64 frame 48 = checksum_v1 (take 48 frame)"
  by (auto simp: parse_page_store_frame_def Let_def result_simps)

lemma corrupted_store_frame_rejected:
  assumes "length frame = frame_length" and "parse_page_store_frame frame offset = Inr d"
    and "i < frame_length" and "b \<noteq> frame ! i"
  shows "\<exists>e. parse_page_store_frame (frame[i := b]) offset = Inl e"
proof (cases "parse_page_store_frame (frame[i := b]) offset")
  case (Inr d')
  from parse_store_frame_checksum [OF this] checksum_guarded [of frame 48 i b]
    parse_store_frame_checksum [OF assms(2)]
  show ?thesis using assms by (simp add: frame_length_def)
qed simp

section \<open>Headers\<close>

lemma length_store_header [simp]:
  "length (build_page_store_header p w) = header_length"
  "length (build_page_store_header_v2 p w identity) = store_header_v2_length"
  by (simp_all add: build_page_store_header_def build_page_store_header_v2_def write_simps header_length_def
      store_header_v2_length_def Let_def)

lemma store_header_fields:
  fixes p :: persistent_log_id and w :: u64
  defines "e \<equiv> build_page_store_header p w"
  shows "bytes_at 0 8 e = store_header_magic" and "read_u16 e 8 = 1" and "read_u16 e 10 = 64"
    and "read_u32 e 12 = 0" and "read_u128 e 16 = persistent_log_id_get p" and "read_u64 e 32 = w"
    and "bytes_at 40 16 e = replicate 16 0" and "read_u64 e 56 = checksum_v1 (take 56 e)"
  by (simp_all add: e_def build_page_store_header_def write_simps read_simps byte_simps header_length_def
      store_header_magic_def Let_def)

lemma parse_store_header:
  assumes "log_id_wf p" and "layout_wf layout"
  shows "parse_page_store_header (build_page_store_header p (pl_width layout)) layout = Inr p"
proof -
  note fields = store_header_fields [of p "pl_width layout"]
  show ?thesis
    using assms(2)
    by (simp add: parse_page_store_header_def check_store_page_width_def layout_wf_def fields
        persistent_log_id_new_get [OF assms(1)] Let_def)
qed


lemma store_header_v2_fields:
  fixes p :: persistent_log_id and w :: u64 and i :: file_header_identity
  defines "e \<equiv> build_page_store_header_v2 p w i"
  shows "bytes_at 0 8 e = store_header_magic" and "read_u16 e 8 = 2" and "read_u16 e 10 = 128"
    and "read_u32 e 12 = 0" and "read_u128 e 16 = persistent_log_id_get p" and "read_u64 e 32 = w"
    and "bytes_at 40 24 e = replicate 24 0" and "bytes_at 64 48 e = encode_database_child_identity i"
    and "bytes_at 112 8 e = replicate 8 0" and "read_u64 e 120 = checksum_v1 (take 120 e)"
proof -
  have "of_be_bytes (replicate 4 0) = (0 :: u32)" by code_simp
  then show "read_u32 e 12 = 0"
    by (simp add: e_def build_page_store_header_v2_def write_simps read_simps byte_simps
        store_header_v2_length_def store_header_magic_def Let_def)
qed (simp_all add: e_def build_page_store_header_v2_def write_simps read_simps byte_simps
      store_header_v2_length_def store_header_magic_def Let_def)

lemma parse_store_header_v2:
  assumes "log_id_wf p" and "layout_wf layout" and "header_identity_wf i"
  shows "parse_page_store_header_v2 (build_page_store_header_v2 p (pl_width layout) i) layout
    = Inr \<lparr>sh_persistent_id = p, sh_database_file_identity = i\<rparr>"
  using assms
  by (simp add: parse_page_store_header_v2_def check_store_page_width_def layout_wf_def store_header_v2_fields
      persistent_log_id_new_get child_identity_decodes Let_def)

section \<open>The header of a store\<close>

definition working_store :: store_io where
  "working_store stage at = None"

lemma store_try_working [simp]: "store_try working_store stage at = Inr ()"
  by (simp add: store_try_def working_store_def)

definition store_header :: "page_layout \<Rightarrow> persistent_log_id \<Rightarrow> file_header_identity option \<Rightarrow> u8 list" where
  "store_header layout p identity =
     (case identity of
        None \<Rightarrow> build_page_store_header p (pl_width layout)
      | Some i \<Rightarrow> build_page_store_header_v2 p (pl_width layout) i)"

definition format_of_identity :: "file_header_identity option \<Rightarrow> page_store_format" where
  "format_of_identity identity = (if identity = None then StoreV1 else StoreV2)"

definition store_header_wf :: "page_layout \<Rightarrow> persistent_log_id \<Rightarrow> file_header_identity option \<Rightarrow> bool" where
  "store_header_wf layout p identity \<longleftrightarrow>
     layout_wf layout \<and> log_id_wf p \<and> pred_option header_identity_wf identity"

lemma read_header_field_append:
  "10 \<le> length a \<Longrightarrow> read_u16 (a @ b) 8 = read_u16 a 8"
  by (simp add: read_u16_def bytes_at_def)

lemma require_store_format_True [simp]: "require_store_format True offset reason = Inr ()"
  by (simp add: require_store_format_def)

lemma require_store_format_Inr [simp, result_simps]: "require_store_format b offset reason = Inr u \<longleftrightarrow> b"
  by (simp add: require_store_format_def)

lemma read_built_store_header:
  assumes "store_header_wf layout p identity"
  shows "read_store_header working_store layout (store_header layout p identity @ rest)
    = Inr (format_of_identity identity, p, identity, length (store_header layout p identity))"
  using assms
  by (cases identity)
    (simp_all add: read_store_header_def store_header_def format_of_identity_def store_header_wf_def
      read_header_field_append store_header_fields(2) store_header_v2_fields(2) parse_store_header
      parse_store_header_v2 header_length_def store_header_v2_length_def)

section \<open>Corrupted headers\<close>

lemma parse_store_header_guard:
  "parse_page_store_header e layout = Inr p \<Longrightarrow> read_u64 e 56 = checksum_v1 (take 56 e) \<and> read_u16 e 10 = 64"
  by (auto simp: parse_page_store_header_def Let_def result_simps)

lemma parse_store_header_v2_guard:
  "parse_page_store_header_v2 e layout = Inr m \<Longrightarrow> read_u64 e 120 = checksum_v1 (take 120 e) \<and> read_u16 e 10 = 128"
  by (auto simp: parse_page_store_header_v2_def Let_def result_simps)

lemma store_header_guard:
  assumes "read_store_header io layout bytes = Inr (f, p, identity, m)"
  shows "m = (if read_u16 bytes 8 = 2 then 128 else 64)" and "read_u16 bytes 10 = of_nat m"
    and "read_u64 (take m bytes) (m - 8) = checksum_v1 (take (m - 8) (take m bytes))"
    and "m \<le> length bytes"
proof -
  have field: "read_u16 (take k bytes) 10 = read_u16 bytes 10" if "12 \<le> k" for k
    using that by (simp add: read_u16_def bytes_at_take)
  have "m = (if read_u16 bytes 8 = 2 then 128 else 64) \<and> read_u16 bytes 10 = of_nat m
      \<and> read_u64 (take m bytes) (m - 8) = checksum_v1 (take (m - 8) (take m bytes)) \<and> m \<le> length bytes"
  proof (cases "read_u16 bytes 8 = 2")
    case True
    with assms obtain d where "parse_page_store_header_v2 (take 128 bytes) layout = Inr d" "m = 128"
      "128 \<le> length bytes"
      by (auto simp: read_store_header_def header_length_def store_header_v2_length_def result_simps)
    with parse_store_header_v2_guard [OF this(1)] field [of 128] True show ?thesis by simp
  next
    case False
    with assms obtain d where "parse_page_store_header (take 64 bytes) layout = Inr d" "m = 64"
      "64 \<le> length bytes"
      by (auto simp: read_store_header_def header_length_def result_simps)
    with parse_store_header_guard [OF this(1)] field [of 64] False show ?thesis by simp
  qed
  then show "m = (if read_u16 bytes 8 = 2 then 128 else 64)" "read_u16 bytes 10 = of_nat m"
    "read_u64 (take m bytes) (m - 8) = checksum_v1 (take (m - 8) (take m bytes))" "m \<le> length bytes"
    by blast+
qed

lemma corrupted_store_header_refused:
  assumes "read_store_header io layout bytes = Inr (f, p, identity, m)" and "i < m" and "b \<noteq> bytes ! i"
  shows "read_store_header io' layout' (bytes[i := b]) \<noteq> Inr (f', p', identity', m')"
proof
  assume other: "read_store_header io' layout' (bytes[i := b]) = Inr (f', p', identity', m')"
  note guard = store_header_guard [OF assms(1)] and guard' = store_header_guard [OF other]
  show False
  proof (cases "m' = m")
    case True
    let ?header = "take m bytes"
    have "length ?header = (m - 8) + 8" using guard(1,4) by simp
    from checksum_guarded [OF this, of i b] guard(3,4) assms(2,3)
    have "read_u64 (?header[i := b]) (m - 8) \<noteq> checksum_v1 (take (m - 8) (?header[i := b]))" by simp
    with guard'(3) True show False by (simp add: take_update_swap)
  next
    case False
    have "i = 10 \<or> i = 11"
    proof (rule ccontr)
      assume "\<not> (i = 10 \<or> i = 11)"
      then have "i < 10 \<or> 12 \<le> i" by auto
      then have "read_u16 (bytes[i := b]) 10 = read_u16 bytes 10"
        by (auto simp: read_u16_def list_update_bytes_at)
      with guard(1,2) guard'(1,2) False show False by (auto split: if_splits)
    qed
    then have "read_u16 (bytes[i := b]) 8 = read_u16 bytes 8"
      by (auto simp: read_u16_def list_update_bytes_at)
    with guard(1) guard'(1) False show False by simp
  qed
qed

section \<open>Folding over frames\<close>

lemma fold_frames_short: "length bytes < frame_length \<Longrightarrow> fold_frames step offset bytes s = Inr s"
  by (simp add: fold_frames.simps)

lemma fold_frames_long:
  "frame_length \<le> length bytes \<Longrightarrow> fold_frames step offset bytes s =
     and_then (step offset (take frame_length bytes) s)
       (fold_frames step (offset + frame_length) (drop frame_length bytes))"
  by (subst fold_frames.simps) simp

lemma fold_frames_one: "length frame = frame_length \<Longrightarrow> fold_frames step offset frame s = step offset frame s"
  by (subst fold_frames_long) (simp_all add: and_then_def fold_frames_short frame_length_def split: sum.split)

lemma fold_frames_append:
  assumes "length a = k * frame_length"
  shows "fold_frames step offset (a @ b) s =
    and_then (fold_frames step offset a s) (fold_frames step (offset + length a) b)"
  using assms
proof (induction k arbitrary: a offset s)
  case (Suc k)
  let ?n = frame_length
  have len: "?n \<le> length a" "length (drop ?n a) = k * ?n" using Suc.prems by simp_all
  have off: "offset + ?n + length (drop ?n a) = offset + length a" using len(1) by simp
  show ?case
  proof (cases "step offset (take ?n a) s")
    case (Inr s')
    then show ?thesis
      using Suc.IH [OF len(2), of "offset + ?n" s'] len(1) off by (simp add: fold_frames_long)
  qed (use len(1) in \<open>simp add: fold_frames_long\<close>)
qed (simp add: fold_frames_short frame_length_def)

lemma fold_frames_tail:
  assumes "length a = k * frame_length" and "length b < frame_length"
  shows "fold_frames step offset (a @ b) s = fold_frames step offset a s"
  using assms(2) by (simp add: fold_frames_append [OF assms(1)] fold_frames_short and_then_def split: sum.split)

lemma length_concat_frames:
  "\<forall>frame \<in> set frames. length frame = n \<Longrightarrow> length (concat frames) = length frames * n"
  by (induction frames) auto

lemma take_concat_frames:
  "\<forall>frame \<in> set frames. length frame = n \<Longrightarrow> take (k * n) (concat frames) = concat (take k frames)"
proof (induction frames arbitrary: k)
  case (Cons frame frames)
  then show ?case by (cases k) simp_all
qed simp

section \<open>Groups\<close>

abbreviation store_scan :: "nat \<Rightarrow> nat \<Rightarrow> u8 list \<Rightarrow> store_open_state \<Rightarrow> store_open_error + store_open_state" where
  "store_scan width \<equiv> fold_frames (store_scan_step working_store (\<lambda>_. True) width)"

definition store_data_frame :: "page_layout \<Rightarrow> u64 \<Rightarrow> u8 list \<Rightarrow> nat \<Rightarrow> u8 list" where
  "store_data_frame layout sequence bytes i =
     build_page_store_frame_with_payload2_bytes StorePageData sequence (of_nat i) (page_chunk layout bytes i)"

definition snapshot_header_frame :: "file_stored_page \<Rightarrow> u8 list" where
  "snapshot_header_frame p = build_page_store_frame SnapshotHeader (sp_store_sequence p)
     (page_number_get (sp_page_number p)) (image_version_get (sp_page_version p))"

definition required_position_frame :: "file_stored_page \<Rightarrow> u8 list" where
  "required_position_frame p =
     build_page_store_frame RequiredPosition (sp_store_sequence p) (lsn_value (sp_required_position p)) 0"

definition group_frames :: "page_layout \<Rightarrow> file_stored_page \<Rightarrow> u8 list list" where
  "group_frames layout p = snapshot_header_frame p # required_position_frame p
     # map (store_data_frame layout (sp_store_sequence p) (sp_bytes p)) [0..<pl_chunk_count layout]"

definition group_bytes :: "page_layout \<Rightarrow> file_stored_page \<Rightarrow> u8 list" where
  "group_bytes layout p = concat (group_frames layout p)"

lemma length_group_frame [simp]:
  "length (snapshot_header_frame p) = frame_length" "length (required_position_frame p) = frame_length"
  "length (store_data_frame layout v bytes i) = frame_length"
  by (simp_all add: snapshot_header_frame_def required_position_frame_def store_data_frame_def)

lemma group_frames_length: "\<forall>frame \<in> set (group_frames layout p). length frame = frame_length"
  by (auto simp: group_frames_def)

lemma length_group_bytes: "length (group_bytes layout p) = (pl_chunk_count layout + 2) * frame_length"
  unfolding group_bytes_def by (subst length_concat_frames [OF group_frames_length]) (simp add: group_frames_def)

text \<open>A page the writer stores: in the lineage of the store, of its width, with a position.\<close>

definition stored_page_wf :: "log_lineage \<Rightarrow> nat \<Rightarrow> file_stored_page \<Rightarrow> bool" where
  "stored_page_wf lineage width p \<longleftrightarrow> page_number_get (sp_page_number p) \<noteq> 0 \<and> length (sp_bytes p) = width
     \<and> lsn_value (sp_required_position p) \<noteq> 0
     \<and> sp_required_position p = lineage_position lineage (lsn_value (sp_required_position p))"

definition store_state_at ::
  "page_layout \<Rightarrow> log_lineage \<Rightarrow> file_stored_page list \<Rightarrow> u64 option \<Rightarrow> store_open_state \<Rightarrow> bool" where
  "store_state_at layout lineage pages next_sequence s \<longleftrightarrow>
     so_layout s = layout \<and> so_lineage s = lineage \<and> so_pages s = pages \<and> so_next_sequence s = next_sequence"

definition install_page :: "file_stored_page \<Rightarrow> file_stored_page list \<Rightarrow> file_stored_page list" where
  "install_page p pages = place_stored_page (store_page_index (sp_page_number p) pages) p pages"

section \<open>The steps of a group\<close>

lemma store_step_build:
  "length c = 8 \<Longrightarrow> store_scan_step working_store reserve width offset
      (build_page_store_frame_with_payload2_bytes kind a b c) s
    = apply_store_frame reserve width \<lparr>sr_kind = kind, sr_payload_a = a, sr_payload_b = b,
        sr_payload_c = of_be_bytes c, sr_payload_c_bytes = c\<rparr> (of_nat offset) s"
  "store_scan_step working_store reserve width offset (build_page_store_frame kind a b d) s
    = apply_store_frame reserve width \<lparr>sr_kind = kind, sr_payload_a = a, sr_payload_b = b,
        sr_payload_c = d, sr_payload_c_bytes = be_bytes 8 d\<rparr> (of_nat offset) s"
  by (simp_all add: store_scan_step_def parse_built_store_frame parse_build_store_frame)

definition awaiting_position :: "nat \<Rightarrow> u64 \<Rightarrow> file_stored_page \<Rightarrow> store_open_state \<Rightarrow> store_open_state" where
  "awaiting_position width offset p s =
     s\<lparr>so_pending_bytes := replicate width 0,
       so_group_state := AwaitingRequiredPosition offset (sp_store_sequence p) (sp_page_number p) (sp_page_version p)\<rparr>"

definition awaiting_data :: "nat \<Rightarrow> u64 \<Rightarrow> page_layout \<Rightarrow> file_stored_page \<Rightarrow> nat \<Rightarrow> store_open_state \<Rightarrow> store_open_state"
where
  "awaiting_data width offset layout p i s =
     s\<lparr>so_pending_bytes := take (i * page_chunk_width) (sp_bytes p) @ replicate (width - i * page_chunk_width) 0,
       so_group_state := AwaitingPageData offset (sp_store_sequence p) (sp_page_number p) (sp_page_version p)
         (lsn_value (sp_required_position p)) i (pl_chunk_count layout)\<rparr>"

lemma step_snapshot_header:
  assumes "so_group_state s = StoreIdle" and "so_next_sequence s = Some (sp_store_sequence p)"
    and "sp_store_sequence p \<noteq> 0" and "page_number_get (sp_page_number p) \<noteq> 0"
  shows "store_scan_step working_store reserve width offset (snapshot_header_frame p) s
    = Inr (awaiting_position width (of_nat offset) p s)"
  using assms
  by (cases "sp_page_number p"; cases "sp_page_version p")
    (simp add: snapshot_header_frame_def store_step_build apply_store_frame_def apply_idle_frame_def
      page_number_new_def awaiting_position_def)

lemma step_required_position:
  assumes "so_layout s = layout" and "lsn_value (sp_required_position p) \<noteq> 0"
  shows "store_scan_step working_store reserve width offset' (required_position_frame p)
      (awaiting_position width offset p s)
    = Inr (awaiting_data width offset layout p 0 s)"
  using assms
  by (simp add: required_position_frame_def store_step_build apply_store_frame_def awaiting_position_def
      apply_awaiting_required_position_frame_def awaiting_data_def)

lemma step_store_data:
  assumes "so_layout s = layout" and "layout_covers layout width" and "i < pl_chunk_count layout"
    and "length (sp_bytes p) = width"
  shows "store_scan_step working_store reserve width offset'
      (store_data_frame layout (sp_store_sequence p) (sp_bytes p) i) (awaiting_data width offset layout p i s)
    = (if i + 1 = pl_chunk_count layout
       then close_group reserve (p\<lparr>sp_required_position :=
           lineage_position (so_lineage s) (lsn_value (sp_required_position p))\<rparr>)
         (s\<lparr>so_group_state := so_group_state (awaiting_data width offset layout p i s), so_pending_bytes := sp_bytes p\<rparr>)
       else Inr (awaiting_data width offset layout p (i + 1) s))"
proof -
  let ?chunk = "page_chunk layout (sp_bytes p) i"
  note copy = copy_chunk_prefix [OF assms(2-4)]
  have whole: "take (page_chunk_width + i * page_chunk_width) (sp_bytes p)
      @ replicate (width - (page_chunk_width + i * page_chunk_width)) 0 = sp_bytes p"
    if "Suc i = pl_chunk_count layout"
    using whole_prefix [OF assms(2,4)] by (simp flip: that)
  have padding: "all_zero (drop (pl_final_chunk_len layout) ?chunk)" if "Suc i = pl_chunk_count layout"
    using data_padding_zero [OF assms(2-4)] that by (simp add: logical_bytes_for_chunk_def)
  have whole_page: "p\<lparr>sp_required_position := r\<rparr> = \<lparr>sp_page_number = sp_page_number p,
      sp_page_version = sp_page_version p, sp_bytes = sp_bytes p, sp_required_position = r,
      sp_store_sequence = sp_store_sequence p\<rparr>" for r by (cases p) simp
  show ?thesis
    using assms(1) copy whole padding
    by (auto simp: whole_page store_data_frame_def store_step_build apply_store_frame_def awaiting_data_def Let_def
        apply_awaiting_page_data_frame_def)
qed


section \<open>Whole groups and cut groups\<close>

lemma scan_data_part:
  assumes "so_layout s = layout" and "layout_covers layout width" and "i < pl_chunk_count layout"
    and "length (sp_bytes p) = width"
  shows "store_scan width offset'
      (concat (map (store_data_frame layout (sp_store_sequence p) (sp_bytes p)) [0..<i]))
      (awaiting_data width offset layout p 0 s) = Inr (awaiting_data width offset layout p i s)"
  using assms(3)
proof (induction i)
  case (Suc i)
  let ?frame = "store_data_frame layout (sp_store_sequence p) (sp_bytes p)"
  have len: "length (concat (map ?frame [0..<i])) = i * frame_length"
    by (subst length_concat_frames [where n = frame_length]) auto
  from Suc show ?case
    by (simp add: fold_frames_append [OF len] fold_frames_one step_store_data [OF assms(1,2) _ assms(4)])
qed (simp add: fold_frames_short frame_length_def)

lemma close_group_working:
  "close_group (\<lambda>_. True) p s = Inr (s\<lparr>so_pages := install_page p (so_pages s),
     so_next_sequence := checked_add (sp_store_sequence p) 1, so_group_state := StoreIdle\<rparr>)"
  by (simp add: close_group_def install_page_def Let_def)

text \<open>The group of a page the scan expects next.\<close>

definition group_expected :: "page_layout \<Rightarrow> nat \<Rightarrow> file_stored_page \<Rightarrow> store_open_state \<Rightarrow> bool" where
  "group_expected layout width p s \<longleftrightarrow> so_layout s = layout \<and> layout_covers layout width
     \<and> so_group_state s = StoreIdle \<and> stored_page_wf (so_lineage s) width p
     \<and> so_next_sequence s = Some (sp_store_sequence p) \<and> sp_store_sequence p \<noteq> 0"

lemma group_expectedD:
  assumes "group_expected layout width p s"
  shows "so_layout s = layout" and "layout_covers layout width" and "so_group_state s = StoreIdle"
    and "stored_page_wf (so_lineage s) width p" and "so_next_sequence s = Some (sp_store_sequence p)"
    and "sp_store_sequence p \<noteq> 0" and "length (sp_bytes p) = width"
  using assms by (simp_all add: group_expected_def stored_page_wf_def)

lemma after_header:
  assumes "group_expected layout width p s"
  shows "store_scan width offset (snapshot_header_frame p) s = Inr (awaiting_position width (of_nat offset) p s)"
  using step_snapshot_header [OF group_expectedD(3,5,6) [OF assms]] group_expectedD(4) [OF assms]
  by (simp add: fold_frames_one stored_page_wf_def)

lemma after_data:
  assumes expected: "group_expected layout width p s" and "i < pl_chunk_count layout"
  shows "store_scan width offset (snapshot_header_frame p @ required_position_frame p
      @ concat (map (store_data_frame layout (sp_store_sequence p) (sp_bytes p)) [0..<i])) s
    = Inr (awaiting_data width (of_nat offset) layout p i s)"
proof -
  have one: "length (snapshot_header_frame p) = 1 * frame_length"
    "length (required_position_frame p) = 1 * frame_length" by simp_all
  note group = group_expectedD [OF expected]
  have "lsn_value (sp_required_position p) \<noteq> 0" using group(4) by (simp add: stored_page_wf_def)
  then show ?thesis
    by (simp add: fold_frames_append [OF one(1)] fold_frames_append [OF one(2)] after_header [OF expected]
        fold_frames_one step_required_position [OF group(1)] scan_data_part [OF group(1,2) assms(2) group(7)])
qed

lemma whole_group:
  assumes expected: "group_expected layout width p s"
  shows "store_scan width offset (group_bytes layout p) s
    = Inr (s\<lparr>so_pages := install_page p (so_pages s), so_next_sequence := checked_add (sp_store_sequence p) 1,
             so_pending_bytes := sp_bytes p, so_group_state := StoreIdle\<rparr>)"
proof -
  let ?frame = "store_data_frame layout (sp_store_sequence p) (sp_bytes p)"
  note group = group_expectedD [OF expected]
  obtain c where c: "pl_chunk_count layout = Suc c"
    using group(2) by (cases "pl_chunk_count layout") (simp_all add: layout_covers_def)
  let ?most = "snapshot_header_frame p @ required_position_frame p @ concat (map ?frame [0..<c])"
  have len: "length ?most = (c + 2) * frame_length"
    by (simp add: length_concat_frames [where n = frame_length])
  have bytes: "group_bytes layout p = ?most @ ?frame c"
    by (simp add: group_bytes_def group_frames_def c)
  have most: "store_scan width offset ?most s = Inr (awaiting_data width (of_nat offset) layout p c s)"
    by (rule after_data [OF expected]) (simp add: c)
  have same: "p\<lparr>sp_required_position := lineage_position (so_lineage s) (lsn_value (sp_required_position p))\<rparr> = p"
    using group(4) by (simp add: stored_page_wf_def)
  have "c < pl_chunk_count layout" by (simp add: c)
  from step_store_data [OF group(1,2) this group(7)] c
  show ?thesis
    unfolding bytes
    by (simp only: fold_frames_append [OF len] most)
      (simp add: fold_frames_one same close_group_working awaiting_data_def install_page_def)
qed

text \<open>A cut group: its complete frames leave the pages alone and remember where the group starts.\<close>

lemma cut_group:
  assumes expected: "group_expected layout width p s" and "k < length (group_bytes layout p)"
  obtains s' where "store_scan width offset (take k (group_bytes layout p)) s = Inr s'"
    and "so_pages s' = so_pages s" and "so_next_sequence s' = so_next_sequence s"
    and "pending_group_header_offset s' = (if k < frame_length then None else Some (of_nat offset))"
proof -
  let ?g = "group_bytes layout p" and ?m = "k div frame_length"
  let ?frame = "store_data_frame layout (sp_store_sequence p) (sp_bytes p)"
  have pos: "0 < frame_length" by (simp add: frame_length_def)
  have m: "?m < pl_chunk_count layout + 2"
    using assms(2) by (simp add: length_group_bytes less_mult_imp_div_less)
  have whole: "take (?m * frame_length) ?g = concat (take ?m (group_frames layout p))"
    unfolding group_bytes_def by (rule take_concat_frames [OF group_frames_length])
  have split: "take k ?g = take (?m * frame_length) ?g @ take (k mod frame_length) (drop (?m * frame_length) ?g)"
    by (subst take_add [symmetric]) simp
  have le: "?m * frame_length \<le> length ?g" using assms(2) div_times_less_eq_dividend [of k frame_length] by linarith
  have "store_scan width offset (take k ?g) s = store_scan width offset (take (?m * frame_length) ?g) s"
    unfolding split
    by (rule fold_frames_tail [where k = ?m]) (use le pos in \<open>simp_all add: min_absorb2 min.strict_coboundedI2\<close>)
  moreover have "\<exists>s'. store_scan width offset (concat (take ?m (group_frames layout p))) s = Inr s'
      \<and> so_pages s' = so_pages s \<and> so_next_sequence s' = so_next_sequence s
      \<and> pending_group_header_offset s' = (if k < frame_length then None else Some (of_nat offset))"
  proof (cases "?m")
    case 0
    then have "k < frame_length" using pos by (simp add: div_eq_0_iff)
    with 0 group_expectedD(3) [OF expected] show ?thesis by (simp add: fold_frames_short frame_length_def pending_group_header_offset_def)
  next
    case (Suc m1)
    then have big: "\<not> k < frame_length" by (auto simp: div_eq_0_iff)
    show ?thesis
    proof (cases m1)
      case 0
      with Suc big show ?thesis
        by (simp add: group_frames_def after_header [OF expected] awaiting_position_def pending_group_header_offset_def)
    next
      case (Suc i)
      with \<open>?m = Suc m1\<close> m have i: "i < pl_chunk_count layout" by simp
      then have "concat (take ?m (group_frames layout p)) = snapshot_header_frame p @ required_position_frame p
          @ concat (map ?frame [0..<i])"
        using Suc \<open>?m = Suc m1\<close> by (simp add: group_frames_def take_map)
      with after_data [OF expected i] big show ?thesis
        by (simp add: awaiting_data_def pending_group_header_offset_def)
    qed
  qed
  ultimately show thesis using that unfolding whole by metis
qed

end
