(* ===== verification/File_Store_Reopen.thy ===== *)
theory File_Store_Reopen
  imports File_Store_Scan File_Store File_Write_Laws
begin

text \<open>
  The groups of a page-store file follow the header, and a failed write leaves a part of the next
  group and a poisoned writer. Opening after a crash: the groups that were synchronized are there, a
  group cut by the crash is removed, and a group that survived whole is kept.
\<close>

section \<open>The groups of a file\<close>

inductive store_history ::
  "log_lineage \<Rightarrow> nat \<Rightarrow> file_stored_page list \<Rightarrow> file_stored_page list \<Rightarrow> u64 option \<Rightarrow> bool" for lineage width
where
  empty: "store_history lineage width [] [] (Some 1)"
| group: "store_history lineage width ws pages (Some (sp_store_sequence p)) \<Longrightarrow> stored_page_wf lineage width p
    \<Longrightarrow> store_history lineage width (ws @ [p]) (install_page p pages) (checked_add (sp_store_sequence p) 1)"

lemma history_sequence_nonzero: "store_history lineage width ws pages upcoming \<Longrightarrow> upcoming \<noteq> Some 0"
proof (induction rule: store_history.induct)
  case (group ws pages p)
  show ?case
  proof
    assume "checked_add (sp_store_sequence p) 1 = Some 0"
    from checked_add_one_less(3) [OF this] show False by simp
  qed
qed simp

lemma scan_history:
  assumes "store_history lineage width ws pages upcoming" and "layout_covers layout width"
  shows "\<exists>s. store_scan width offset (concat (map (group_bytes layout) ws)) (store_open_state_new width layout lineage)
      = Inr s \<and> store_state_at layout lineage pages upcoming s \<and> so_group_state s = StoreIdle"
  using assms(1)
proof (induction rule: store_history.induct)
  case empty
  show ?case
    by (simp add: fold_frames_short frame_length_def store_state_at_def store_open_state_new_def)
next
  case (group ws pages p)
  then obtain s where s: "store_scan width offset (concat (map (group_bytes layout) ws))
      (store_open_state_new width layout lineage) = Inr s"
    "store_state_at layout lineage pages (Some (sp_store_sequence p)) s" "so_group_state s = StoreIdle" by auto
  have len: "length (concat (map (group_bytes layout) ws))
      = (length ws * (pl_chunk_count layout + 2)) * frame_length"
    by (subst length_concat_frames [where n = "(pl_chunk_count layout + 2) * frame_length"])
      (auto simp: length_group_bytes algebra_simps)
  have "group_expected layout width p s"
    using s(2,3) group.hyps(2) assms(2) history_sequence_nonzero [OF group.hyps(1)]
    by (simp add: group_expected_def store_state_at_def)
  from whole_group [OF this] s show ?case
    by (simp add: fold_frames_append [OF len] store_state_at_def)
qed

text \<open>What is left in the file of a write that did not finish.\<close>

definition torn_group :: "page_layout \<Rightarrow> log_lineage \<Rightarrow> nat \<Rightarrow> u64 option \<Rightarrow> u8 list \<Rightarrow> file_stored_page \<Rightarrow> bool" where
  "torn_group layout lineage width upcoming tail p \<longleftrightarrow>
     upcoming = Some (sp_store_sequence p) \<and> stored_page_wf lineage width p \<and> prefix tail (group_bytes layout p)"

definition store_file ::
  "usize \<Rightarrow> page_layout \<Rightarrow> file_stored_page list \<Rightarrow> u8 list \<Rightarrow> file_page_store \<Rightarrow> bool" where
  "store_file n layout ws tail s \<longleftrightarrow>
     page_layout_for n = Inr layout
     \<and> store_header_wf layout (fp_persistent_id s) (fp_database_file_identity s)
     \<and> fp_format s = format_of_identity (fp_database_file_identity s)
     \<and> fp_lineage s = Persistent (fp_persistent_id s)
     \<and> store_history (fp_lineage s) (unat n) ws (fp_pages s) (fp_next_sequence s)
     \<and> fp_contents s = store_header layout (fp_persistent_id s) (fp_database_file_identity s)
         @ concat (map (group_bytes layout) ws) @ tail
     \<and> fp_synced s + length tail = length (fp_contents s)
     \<and> (tail \<noteq> [] \<longrightarrow> fp_poisoned s
         \<and> (\<exists>p. torn_group layout (fp_lineage s) (unat n) (fp_next_sequence s) tail p))"

definition page_file_inv :: "usize \<Rightarrow> file_page_store \<Rightarrow> bool" where
  "page_file_inv n s \<longleftrightarrow> (\<exists>layout ws tail. store_file n layout ws tail s)"

definition store_crash_image :: "file_page_store \<Rightarrow> u8 list \<Rightarrow> bool" where
  "store_crash_image s bytes \<longleftrightarrow> (\<exists>k. fp_synced s \<le> k \<and> bytes = take k (fp_contents s))"

section \<open>Writing a group\<close>

abbreviation store_extend :: "file_page_store \<Rightarrow> u8 list \<Rightarrow> file_page_store" where
  "store_extend \<equiv> \<lambda>s new. s\<lparr>fp_contents := fp_contents s @ new\<rparr>"

abbreviation store_poison :: "file_page_store \<Rightarrow> file_page_store" where
  "store_poison \<equiv> \<lambda>s. s\<lparr>fp_poisoned := True\<rparr>"

interpretation store_writer: byte_writer store_extend store_poison
  by unfold_locales simp_all

lemma emits_store_frame: "emits_to store_extend store_poison s frame (store_write_frame io frame stage s)"
  by (auto simp: emits_to_def store_write_frame_def split: option.splits)

lemma emits_store_data:
  "emits_to store_extend store_poison s (concat (map (store_data_frame layout v bytes) is))
     (write_store_data io layout v bytes is s)"
proof (induction "is" arbitrary: s)
  case (Cons i "is")
  have "write_store_data io layout v bytes (i # is) s
      = chain (store_write_frame io (store_data_frame layout v bytes i) StoreWritePageDataFrame s)
          (\<lambda>_ s. write_store_data io layout v bytes is s)"
    by (simp add: store_data_frame_def)
  then show ?case by (auto intro!: store_writer.emits_chained emits_store_frame Cons.IH)
qed (simp add: store_writer.emits_done)

definition write_group_frames ::
  "store_io \<Rightarrow> page_layout \<Rightarrow> file_stored_page \<Rightarrow> file_page_store \<Rightarrow> (file_page_store_error + unit) \<times> file_page_store"
where
  "write_group_frames io layout p s =
     chain (store_write_frame io (snapshot_header_frame p) StoreWriteSnapshotHeaderFrame s) (\<lambda>_ s.
     chain (store_write_frame io (required_position_frame p) StoreWriteRequiredPositionFrame s) (\<lambda>_ s.
     write_store_data io layout (sp_store_sequence p) (sp_bytes p) [0..<pl_chunk_count layout] s))"

lemma emits_group: "emits_to store_extend store_poison s (group_bytes layout p) (write_group_frames io layout p s)"
proof -
  have "group_bytes layout p = snapshot_header_frame p @ required_position_frame p
      @ concat (map (store_data_frame layout (sp_store_sequence p) (sp_bytes p)) [0..<pl_chunk_count layout])"
    by (simp add: group_bytes_def group_frames_def)
  then show ?thesis
    unfolding write_group_frames_def
    by (simp only:) (intro store_writer.emits_chained emits_store_frame emits_store_data)
qed

definition group_written :: "page_layout \<Rightarrow> file_stored_page \<Rightarrow> file_page_store \<Rightarrow> file_page_store" where
  "group_written layout p s =
     s\<lparr>fp_contents := fp_contents s @ group_bytes layout p,
       fp_synced := length (fp_contents s @ group_bytes layout p),
       fp_pages := install_page p (fp_pages s), fp_next_sequence := checked_add (sp_store_sequence p) 1\<rparr>"

lemma write_group_eq:
  "write_snapshot_group io layout p (store_page_index (sp_page_number p) (fp_pages s)) (sp_store_sequence p) s
    = with_result (ensure (\<not> fp_poisoned s) FileStorePoisonedWriter) s (\<lambda>_.
      chain (store_fault_gate StoreBeforeWrite s) (\<lambda>_ t.
      chain (write_group_frames io layout p t) (\<lambda>_ t.
      chain (store_sync_group io t) (\<lambda>_ t.
      store_fault_gate StoreAfterWrite
        (t\<lparr>fp_pages := place_stored_page (store_page_index (sp_page_number p) (fp_pages s)) p (fp_pages t),
           fp_next_sequence := checked_add (sp_store_sequence p) 1\<rparr>)))))"
  by (simp add: write_snapshot_group_def write_group_frames_def chain_assoc snapshot_header_frame_def
      required_position_frame_def)

lemma store_fault_gate_cases:
  obtains (fired) "store_fault_gate point s = (Inl (FileStoreInjectedFault point), s\<lparr>fp_armed_fault := None\<rparr>)"
      and "fp_armed_fault s = Some point"
  | (quiet) "store_fault_gate point s = (Inr (), s)" and "fp_armed_fault s \<noteq> Some point"
  by (cases "fp_armed_fault s = Some point") (simp_all add: store_fault_gate_def store_consume_fault_def)

lemma write_group_cases:
  assumes "write_snapshot_group io layout p (store_page_index (sp_page_number p) (fp_pages s))
    (sp_store_sequence p) s = (r, s')"
  obtains (rejected) e armed where "r = Inl e" and "s' = s\<lparr>fp_armed_fault := armed\<rparr>"
  | (torn) e k where "r = Inl e" and "\<not> fp_poisoned s" 
      and "s' = s\<lparr>fp_contents := fp_contents s @ take k (group_bytes layout p), fp_poisoned := True\<rparr>"
  | (written) "\<not> fp_poisoned s" and "r = Inr ()" and "s' = group_written layout p s"
  | (faulted) "\<not> fp_poisoned s" and "r = Inl (FileStoreInjectedFault StoreAfterWrite)"
      and "s' = (group_written layout p s)\<lparr>fp_armed_fault := None\<rparr>"
proof (cases "fp_poisoned s")
  case True
  have "r = Inl FileStorePoisonedWriter" "s' = s\<lparr>fp_armed_fault := fp_armed_fault s\<rparr>"
    using assms True by (simp_all add: write_group_eq with_result_def)
  then show thesis by (rule rejected)
next
  case ok: False
  show thesis
  proof (cases rule: store_fault_gate_cases [of StoreBeforeWrite s])
    case fired
    have "r = Inl (FileStoreInjectedFault StoreBeforeWrite)" "s' = s\<lparr>fp_armed_fault := None\<rparr>"
      using assms ok fired by (simp_all add: write_group_eq)
    then show thesis by (rule rejected)
  next
    case quiet
    obtain rg t where g: "write_group_frames io layout p s = (rg, t)" by (cases "write_group_frames io layout p s")
    note emitted = emits_group [of s layout p io, unfolded g]
    show thesis
    proof (cases rg)
      case (Inl e)
      then obtain k where "t = s\<lparr>fp_contents := fp_contents s @ take k (group_bytes layout p), fp_poisoned := True\<rparr>"
        using emitted by (auto simp: emits_to_def)
      then show thesis using torn [of e k] assms ok quiet g Inl by (simp add: write_group_eq)
    next
      case (Inr u)
      then have t: "t = s\<lparr>fp_contents := fp_contents s @ group_bytes layout p\<rparr>"
        using emitted by (simp add: emits_to_def)
      show thesis
      proof (cases "io StoreSyncPageGroup (length (fp_contents t))")
        case (Some failure)
        obtain source k where "failure = (source, k)" by (cases failure)
        with Some Inr assms ok quiet g t have "r = Inl (FileStoreIo (store_io_failure StoreSyncPageGroup source))"
          and "s' = s\<lparr>fp_contents := fp_contents s @ take (length (group_bytes layout p)) (group_bytes layout p),
            fp_poisoned := True\<rparr>"
          by (simp_all add: write_group_eq store_sync_group_def)
        with ok show thesis by (intro torn)
      next
        case None
        let ?t = "group_written layout p s"
        have "store_fault_gate StoreAfterWrite ?t = (r, s')"
          using assms ok quiet g Inr None
          by (simp add: write_group_eq store_sync_group_def t group_written_def install_page_def)
        then show thesis
          by (cases rule: store_fault_gate_cases [of StoreAfterWrite ?t]) (use ok written faulted in auto)
      qed
    qed
  qed
qed

section \<open>Opening under any behaviour of the system\<close>

lemma fold_frames_mono:
  assumes "\<And>offset frame s s'. step offset frame s = Inr s' \<Longrightarrow> step' offset frame s = Inr s'"
  shows "fold_frames step offset bytes s = Inr s' \<Longrightarrow> fold_frames step' offset bytes s = Inr s'"
proof (induction bytes arbitrary: offset s rule: length_induct)
  case (1 bytes)
  show ?case
  proof (cases "length bytes < frame_length")
    case True
    with "1.prems" show ?thesis by (simp add: fold_frames_short)
  next
    case False
    with "1.prems" obtain t where t: "step offset (take frame_length bytes) s = Inr t"
      "fold_frames step (offset + frame_length) (drop frame_length bytes) t = Inr s'"
      by (auto simp: fold_frames_long result_simps)
    have "length (drop frame_length bytes) < length bytes" using False by (simp add: frame_length_def)
    with "1.IH" t(2) have "fold_frames step' (offset + frame_length) (drop frame_length bytes) t = Inr s'" by blast
    with assms [OF t(1)] False show ?thesis by (simp add: fold_frames_long)
  qed
qed

lemma close_group_any: "close_group reserve p s = Inr s' \<Longrightarrow> close_group (\<lambda>_. True) p s = Inr s'"
  by (auto simp: close_group_def Let_def result_simps)

lemma apply_store_frame_any:
  "apply_store_frame reserve width frame offset s = Inr s' \<Longrightarrow> apply_store_frame (\<lambda>_. True) width frame offset s = Inr s'"
  by (auto simp: apply_store_frame_def apply_awaiting_page_data_frame_def Let_def result_simps
      split: store_group_state.splits if_splits intro: close_group_any)

lemma store_scan_step_any:
  "store_scan_step io reserve width offset frame s = Inr s'
    \<Longrightarrow> store_scan_step working_store (\<lambda>_. True) width offset frame s = Inr s'"
  by (auto simp: store_scan_step_def result_simps intro: apply_store_frame_any)

lemma read_store_header_any:
  "read_store_header io layout bytes = Inr h \<Longrightarrow> read_store_header working_store layout bytes = Inr h"
  by (auto simp: read_store_header_def result_simps split: if_splits)

lemma store_inspect_any:
  assumes "store_inspect io reserve n bytes = Inr locked"
  shows "store_inspect working_store (\<lambda>_. True) n bytes = Inr locked"
proof -
  obtain layout where layout: "page_layout_for n = Inr layout"
    using assms by (auto simp: store_inspect_def result_simps)
  with assms obtain f log_id identity header_end
    where header: "read_store_header io layout bytes = Inr (f, log_id, identity, header_end)"
    by (auto simp: store_inspect_def result_simps)
  with layout assms obtain s where
    scan: "fold_frames (store_scan_step io reserve (unat n)) header_end (drop header_end bytes)
      (store_open_state_new (unat n) layout (Persistent log_id)) = Inr s"
    by (auto simp: store_inspect_def Let_def result_simps)
  have "fold_frames (store_scan_step working_store (\<lambda>_. True) (unat n)) header_end (drop header_end bytes)
      (store_open_state_new (unat n) layout (Persistent log_id)) = Inr s"
    by (rule fold_frames_mono [OF store_scan_step_any scan])
  with layout header scan assms read_store_header_any [OF header] show ?thesis
    by (simp add: store_inspect_def Let_def result_simps)
qed

lemma store_open_any:
  assumes "store_open io reserve n bytes = Inr s"
  shows "store_open working_store (\<lambda>_. True) n bytes = Inr s"
proof -
  obtain t repaired where "store_inspect io reserve n bytes = Inr (t, repaired)"
    and "store_finish io (t, repaired) = Inr s"
    using assms by (auto simp: store_open_def result_simps)
  moreover from this have "store_finish working_store (t, repaired) = Inr s"
    by (cases repaired) (auto simp: store_finish_def Let_def result_simps)
  ultimately show ?thesis by (simp add: store_open_def store_inspect_any)
qed

section \<open>Opening what a crash left\<close>

definition store_settled :: "file_page_store \<Rightarrow> file_page_store" where
  "store_settled s =
     s\<lparr>fp_contents := take (fp_synced s) (fp_contents s), fp_armed_fault := None, fp_poisoned := False\<rparr>"

lemma store_file_synced:
  assumes "store_file n layout ws tail s"
  shows "take (fp_synced s) (fp_contents s) = store_header layout (fp_persistent_id s) (fp_database_file_identity s)
      @ concat (map (group_bytes layout) ws)" (is "_ = ?base")
    and "fp_synced s = length (store_header layout (fp_persistent_id s) (fp_database_file_identity s))
      + length (concat (map (group_bytes layout) ws))"
    and "drop (fp_synced s) (fp_contents s) = tail"
    and "length (take (fp_synced s) (fp_contents s)) = fp_synced s"
proof -
  have contents: "fp_contents s = ?base @ tail" and "fp_synced s + length tail = length (fp_contents s)"
    using assms by (simp_all add: store_file_def)
  then have synced: "fp_synced s = length ?base" by simp
  show "take (fp_synced s) (fp_contents s) = ?base" "drop (fp_synced s) (fp_contents s) = tail"
    "length (take (fp_synced s) (fp_contents s)) = fp_synced s"
    unfolding contents synced by simp_all
  show "fp_synced s = length (store_header layout (fp_persistent_id s) (fp_database_file_identity s))
      + length (concat (map (group_bytes layout) ws))" using synced by simp
qed

lemma store_settled_file:
  assumes "store_file n layout ws tail s"
  shows "store_file n layout ws [] (store_settled s)"
  using assms store_file_synced [OF assms]
  unfolding store_file_def store_settled_def by (elim conjE) simp

lemma groups_length:
  "length (concat (map (group_bytes layout) ws)) = length ws * (pl_chunk_count layout + 2) * frame_length"
  by (subst length_concat_frames [where n = "(pl_chunk_count layout + 2) * frame_length"])
    (auto simp: length_group_bytes algebra_simps)

text \<open>The scan after the header, and where it says the file is to be cut.\<close>

lemma inspect_store_file:
  fixes kept :: "u8 list"
  assumes "store_file n layout ws tail s"
    and "store_scan (unat n) (fp_synced s) kept t = Inr t'"
    and "store_scan (unat n) (fp_synced s - length (concat (map (group_bytes layout) ws)))
        (concat (map (group_bytes layout) ws)) (store_open_state_new (unat n) layout (fp_lineage s)) = Inr t"
  shows "store_inspect working_store (\<lambda>_. True) n (take (fp_synced s) (fp_contents s) @ kept)
    = Inr (opened_store (take (fp_synced s) (fp_contents s) @ kept) (fp_format s) (fp_persistent_id s)
        (fp_database_file_identity s) t',
      case pending_group_header_offset t' of
        Some offset \<Rightarrow> Some offset
      | None \<Rightarrow> if 0 < length kept mod frame_length
          then Some (of_nat (fp_synced s + length kept div frame_length * frame_length)) else None)"
proof -
  let ?header = "store_header layout (fp_persistent_id s) (fp_database_file_identity s)"
  let ?groups = "concat (map (group_bytes layout) ws)"
  note parts = assms(1) [unfolded store_file_def]
  note synced = store_file_synced [OF assms(1)]
  have header: "read_store_header working_store layout (?header @ rest)
      = Inr (fp_format s, fp_persistent_id s, fp_database_file_identity s, length ?header)" for rest
    using read_built_store_header parts by simp
  obtain m where len: "length ?groups = m * frame_length" using groups_length by blast
  have lineage: "Persistent (fp_persistent_id s) = fp_lineage s" using parts by simp
  have scan: "store_scan (unat n) (length ?header) (?groups @ kept) (store_open_state_new (unat n) layout (fp_lineage s))
      = Inr t'"
    using assms(2,3) synced(2) by (simp add: fold_frames_append [OF len])
  have pos: "0 < frame_length" by (simp add: frame_length_def)
  have region: "(length ?groups + length kept) mod frame_length = length kept mod frame_length"
    "length ?header + (length ?groups + length kept) div frame_length * frame_length
      = fp_synced s + length kept div frame_length * frame_length"
    using pos by (simp_all add: len synced(2) distrib_right)
  show ?thesis
    using parts [THEN conjunct1] header [of "?groups @ kept"] scan region lineage
    unfolding synced(1) by (simp add: store_inspect_def Let_def split: option.split)
qed


text \<open>A group cut anywhere, or not there at all, is removed.\<close>

lemma open_cut_group:
  assumes "store_file n layout ws tail s" and "torn_group layout (fp_lineage s) (unat n) (fp_next_sequence s) kept p \<or> kept = []"
    and "kept \<noteq> group_bytes layout p" and "fp_synced s < 2 ^ 64"
  shows "store_open working_store (\<lambda>_. True) n (take (fp_synced s) (fp_contents s) @ kept) = Inr (store_settled s)"
proof -
  let ?groups = "concat (map (group_bytes layout) ws)"
  note parts = assms(1) [unfolded store_file_def]
  have covers: "layout_covers layout (unat n)" using parts by (intro layout_for_covers) simp
  obtain t where t: "store_scan (unat n) (fp_synced s - length ?groups) ?groups
      (store_open_state_new (unat n) layout (fp_lineage s)) = Inr t"
    and at: "store_state_at layout (fp_lineage s) (fp_pages s) (fp_next_sequence s) t" "so_group_state t = StoreIdle"
    using scan_history [OF _ covers] parts by blast
  obtain t' where t': "store_scan (unat n) (fp_synced s) kept t = Inr t'" "so_pages t' = fp_pages s"
    "so_next_sequence t' = fp_next_sequence s"
    "pending_group_header_offset t' = (if length kept < frame_length then None else Some (of_nat (fp_synced s)))"
  proof (cases "kept = []")
    case True
    with that [of t] at show thesis
      by (simp add: fold_frames_short frame_length_def store_state_at_def pending_group_header_offset_def)
  next
    case False
    with assms(2) have torn: "torn_group layout (fp_lineage s) (unat n) (fp_next_sequence s) kept p" by simp
    then have kept: "kept = take (length kept) (group_bytes layout p)" and short: "length kept < length (group_bytes layout p)"
      using assms(3) prefix_length_less [of kept "group_bytes layout p"]
      by (auto simp: torn_group_def strict_prefix_def elim: prefixE)
    have "store_history (fp_lineage s) (unat n) ws (fp_pages s) (fp_next_sequence s)" using parts by blast
    from history_sequence_nonzero [OF this] have "group_expected layout (unat n) p t"
      using torn at covers
      by (auto simp: group_expected_def store_state_at_def torn_group_def)
    from cut_group [OF this short, of "fp_synced s"] obtain t' where
      "store_scan (unat n) (fp_synced s) (take (length kept) (group_bytes layout p)) t = Inr t'"
      "so_pages t' = so_pages t" "so_next_sequence t' = so_next_sequence t"
      "pending_group_header_offset t' = (if length kept < frame_length then None else Some (of_nat (fp_synced s)))"
      by blast
    with that at kept show thesis by (simp add: store_state_at_def)
  qed
  have cut: "unat (of_nat (fp_synced s) :: u64) = fp_synced s"
    using assms(4) by (simp add: take_bit_nat_eq_self unsigned_of_nat)
  note synced = store_file_synced(4) [OF assms(1)]
  have "store_settled s = opened_store (take (fp_synced s) (fp_contents s)) (fp_format s) (fp_persistent_id s)
      (fp_database_file_identity s) t'"
    using parts t'(2,3) synced unfolding store_settled_def opened_store_def by (intro file_page_store.equality) simp_all
  moreover have "kept = []" if "\<not> 0 < length kept mod frame_length" "length kept < frame_length"
    using that by simp
  ultimately show ?thesis
    using inspect_store_file [OF assms(1) t'(1) t] t'(4) cut synced
    by (auto simp: store_open_def store_finish_def opened_store_def Let_def)
qed

text \<open>A group that survived whole is kept.\<close>

lemma open_whole_group:
  assumes "store_file n layout ws tail s" and "torn_group layout (fp_lineage s) (unat n) (fp_next_sequence s) kept p"
    and "kept = group_bytes layout p"
  shows "store_open working_store (\<lambda>_. True) n (take (fp_synced s) (fp_contents s) @ kept)
    = Inr (group_written layout p (store_settled s))"
proof -
  let ?groups = "concat (map (group_bytes layout) ws)"
  note parts = assms(1) [unfolded store_file_def]
  have covers: "layout_covers layout (unat n)" using parts by (intro layout_for_covers) simp
  have history: "store_history (fp_lineage s) (unat n) ws (fp_pages s) (fp_next_sequence s)" using parts by blast
  obtain t where t: "store_scan (unat n) (fp_synced s - length ?groups) ?groups
      (store_open_state_new (unat n) layout (fp_lineage s)) = Inr t"
    and at: "store_state_at layout (fp_lineage s) (fp_pages s) (fp_next_sequence s) t" "so_group_state t = StoreIdle"
    using scan_history [OF history covers] by blast
  have "group_expected layout (unat n) p t"
    using assms(2) at covers history_sequence_nonzero [OF history]
    by (auto simp: group_expected_def store_state_at_def torn_group_def)
  note scan = whole_group [OF this, of "fp_synced s", folded assms(3)]
  note synced = store_file_synced(4) [OF assms(1)]
  have aligned: "length kept mod frame_length = 0" by (simp add: assms(3) length_group_bytes)
  have "group_written layout p (store_settled s)
      = opened_store (take (fp_synced s) (fp_contents s) @ kept) (fp_format s) (fp_persistent_id s)
      (fp_database_file_identity s) (t\<lparr>so_pages := install_page p (so_pages t),
        so_next_sequence := checked_add (sp_store_sequence p) 1, so_pending_bytes := sp_bytes p,
        so_group_state := StoreIdle\<rparr>)"
    using parts at synced assms(3) unfolding store_settled_def opened_store_def group_written_def store_state_at_def
    by (intro file_page_store.equality) simp_all
  then show ?thesis
    using inspect_store_file [OF assms(1) scan t] aligned
    by (simp add: store_open_def store_finish_def pending_group_header_offset_def)
qed

end
