(* ===== verification/File_Store_Steps.thy ===== *)
theory File_Store_Steps
  imports File_Store_Reopen
begin

text \<open>
  What each operation of the page-store file does to it, the invariant every run keeps, and what a
  crash in the middle of a run leaves.
\<close>

section \<open>Effects\<close>

lemma with_resultE:
  assumes "with_result x s f = (r, s')"
  obtains e where "x = Inl e" and "r = Inl e" and "s' = s" | u where "x = Inr u" and "f u = (r, s')"
  using assms by (cases x) auto

inductive store_effect ::
  "'e \<Rightarrow> page_layout \<Rightarrow> (u64 \<Rightarrow> file_stored_page) \<Rightarrow> file_page_store \<Rightarrow> 'e + unit \<Rightarrow> file_page_store \<Rightarrow> bool"
  for fault layout stored s
where
  rejected: "store_effect fault layout stored s (Inl e) (s\<lparr>fp_armed_fault := armed\<rparr>)"
| torn: "\<not> fp_poisoned s \<Longrightarrow> fp_next_sequence s = Some q
    \<Longrightarrow> store_effect fault layout stored s (Inl e)
      (s\<lparr>fp_contents := fp_contents s @ take k (group_bytes layout (stored q)), fp_poisoned := True\<rparr>)"
| written: "\<not> fp_poisoned s \<Longrightarrow> fp_next_sequence s = Some q
    \<Longrightarrow> store_effect fault layout stored s (Inr ()) (group_written layout (stored q) s)"
| faulted: "\<not> fp_poisoned s \<Longrightarrow> fp_next_sequence s = Some q
    \<Longrightarrow> store_effect fault layout stored s (Inl fault) ((group_written layout (stored q) s)\<lparr>fp_armed_fault := None\<rparr>)"

lemma effect_unchanged: "store_effect fault layout stored s (Inl e) s"
  using store_effect.rejected [of fault layout stored s e "fp_armed_fault s"] by simp

lemma write_stored_effect:
  assumes "\<And>q. sp_page_number (stored q) = number \<and> sp_store_sequence (stored q) = q"
    and "store_write_stored io reserve layout stored number s = (r, s')"
  shows "store_effect (FileStoreInjectedFault StoreAfterWrite) layout stored s r s'"
proof -
  consider (none) "fp_next_sequence s = None"
    | (full) "\<not> (store_page_index number (fp_pages s) \<noteq> None \<or> reserve (length (fp_pages s)))"
    | (room) q where "fp_next_sequence s = Some q"
        "store_page_index number (fp_pages s) \<noteq> None \<or> reserve (length (fp_pages s))"
    by fastforce
  then show ?thesis
  proof cases
    case none
    with assms(2) have "r = Inl FileStoreSequenceSpaceExhausted" "s' = s"
      by (simp_all add: store_write_stored_def)
    then show ?thesis by (simp add: effect_unchanged)
  next
    case full
    with assms(2) have "s' = s \<and> (\<exists>e. r = Inl e)"
      by (cases "fp_next_sequence s") (auto simp: store_write_stored_def Let_def)
    then show ?thesis by (auto simp: effect_unchanged)
  next
    case room
    have "write_snapshot_group io layout (stored q) (store_page_index (sp_page_number (stored q)) (fp_pages s))
        (sp_store_sequence (stored q)) s = (r, s')"
      using assms room by (simp add: store_write_stored_def Let_def)
    then show ?thesis
      by (cases rule: write_group_cases) (use room(1) in \<open>auto intro: store_effect.intros\<close>)
  qed
qed

definition page_to_store :: "dirty_page \<Rightarrow> u64 \<Rightarrow> file_stored_page" where
  "page_to_store d q = \<lparr>sp_page_number = pa_number (dp_address d), sp_page_version = dp_version d,
     sp_bytes = image_bytes (dp_image d), sp_required_position = dp_required_position d, sp_store_sequence = q\<rparr>"

definition position_accepted :: "file_page_store \<Rightarrow> log_sequence_number \<Rightarrow> bool" where
  "position_accepted s p \<longleftrightarrow> lsn_lineage p = fp_lineage s \<and> lsn_value p \<noteq> 0"

lemma write_page_effect:
  assumes "file_write_page io reserve n d permit s = (r, s')"
  obtains (refused) e where "r = Inl e" and "s' = s"
  | (effect) layout where "page_layout_for n = Inr layout" and "position_accepted s (dp_required_position d)"
      and "durable_position permit = dp_required_position d" and "pa_lineage (dp_address d) = fp_lineage s"
      and "store_effect (FileStoreInjectedFault StoreAfterWrite) layout (page_to_store d) s r s'"
proof (cases "page_layout_for n")
  case (Inl e)
  with assms have "s' = s \<and> (\<exists>e. r = Inl e)"
    by (cases "fp_poisoned s") (auto simp: file_write_page_def Let_def with_result_def)
  then show thesis using refused by blast
next
  case (Inr layout)
  show thesis
  proof (cases "\<not> fp_poisoned s \<and> pa_lineage (dp_address d) = fp_lineage s
      \<and> lsn_lineage (durable_position permit) = fp_lineage s
      \<and> durable_position permit = dp_required_position d \<and> lsn_value (dp_required_position d) \<noteq> 0")
    case False
    with assms Inr have "s' = s \<and> (\<exists>e. r = Inl e)"
      by (auto simp: file_write_page_def Let_def with_result_def ensure_def split: if_splits)
    then show thesis using refused by blast
  next
    case True
    have "lsn_lineage (dp_required_position d) = fp_lineage s" using True by (elim conjE) simp
    with assms Inr True
    have "store_write_stored io reserve layout (page_to_store d) (pa_number (dp_address d)) s = (r, s')"
      by (simp add: file_write_page_def page_to_store_def [abs_def] Let_def)
    then have "store_effect (FileStoreInjectedFault StoreAfterWrite) layout (page_to_store d) s r s'"
      by (rule write_stored_effect [rotated]) (simp add: page_to_store_def)
    with True Inr show thesis by (intro effect) (auto simp: position_accepted_def)
  qed
qed

definition target_to_store :: "recovery_candidate \<Rightarrow> u64 \<Rightarrow> file_stored_page" where
  "target_to_store candidate q =
     (let target = lc_observation (rc_latest_committed candidate); page = wal_observation (xo_page target) in
      \<lparr>sp_page_number = po_page_number page, sp_page_version = po_page_version page,
       sp_bytes = image_bytes (po_image page), sp_required_position = xo_position target, sp_store_sequence = q\<rparr>)"

lemma replace_effect:
  assumes "store_compare_and_replace io reserve n candidate permit s = (r, s')"
  obtains (refused) e where "r = Inl e" and "s' = s"
  | (effect) layout current where "page_layout_for n = Inr layout"
      and "lsn_lineage (xo_position (lc_observation (rc_latest_committed candidate))) = fp_lineage s"
      and "store_current_page (sp_page_number (target_to_store candidate 0)) s = Inr current"
      and "compare_recovery_candidate candidate current = Inr SourceMatches"
      and "store_effect (StoreRecoveryWrite (FileStoreInjectedFault StoreAfterWrite)) layout
        (target_to_store candidate) s r s'"
proof -
  let ?number = "sp_page_number (target_to_store candidate 0)"
  have number: "po_page_number (wal_observation (xo_page (lc_observation (rc_latest_committed candidate)))) = ?number"
    by (simp add: target_to_store_def Let_def)
  have "(\<exists>e. r = Inl e \<and> s' = s) \<or> (\<exists>layout current. page_layout_for n = Inr layout
      \<and> check_store_recovery_permit (fp_lineage s) (rc_latest_committed candidate) permit = Inr ()
      \<and> store_current_page ?number s = Inr current
      \<and> require_store_recovery_source_match candidate current = Inr ()
      \<and> converted StoreRecoveryWrite
        (store_write_stored io reserve layout (target_to_store candidate) ?number s) = (r, s'))"
    using assms unfolding store_compare_and_replace_def Let_def number
    by (elim with_resultE) (auto simp: result_simps target_to_store_def [abs_def] Let_def)
  then show thesis
  proof (elim disjE exE conjE)
    fix layout current
    assume ok: "page_layout_for n = Inr layout"
      "check_store_recovery_permit (fp_lineage s) (rc_latest_committed candidate) permit = Inr ()"
      "store_current_page ?number s = Inr current"
      "require_store_recovery_source_match candidate current = Inr ()"
      "converted StoreRecoveryWrite
        (store_write_stored io reserve layout (target_to_store candidate) ?number s) = (r, s')"
    obtain rw t where w: "store_write_stored io reserve layout (target_to_store candidate) ?number s = (rw, t)"
      by (cases "store_write_stored io reserve layout (target_to_store candidate) ?number s")
    have same: "r = map_err StoreRecoveryWrite rw" "s' = t" using ok(5) w by (simp_all add: converted_def)
    have "store_effect (FileStoreInjectedFault StoreAfterWrite) layout (target_to_store candidate) s rw t"
      by (rule write_stored_effect [OF _ w]) (simp add: target_to_store_def Let_def)
    then have "store_effect (StoreRecoveryWrite (FileStoreInjectedFault StoreAfterWrite)) layout
        (target_to_store candidate) s r s'"
      unfolding same by cases (auto intro: store_effect.intros)
    moreover have "compare_recovery_candidate candidate current = Inr SourceMatches"
      using ok(4) by (auto simp: require_store_recovery_source_match_def split: sum.splits recovery_comparison.splits)
    moreover have "lsn_lineage (xo_position (lc_observation (rc_latest_committed candidate))) = fp_lineage s"
      using ok(2) by (auto simp: check_store_recovery_permit_def Let_def result_simps)
    ultimately show thesis using effect ok(1,3) by blast
  qed (rule refused)
qed

section \<open>The invariant\<close>

lemma store_file_unpoisoned: "store_file n layout ws tail s \<Longrightarrow> \<not> fp_poisoned s \<Longrightarrow> tail = []"
  by (auto simp: store_file_def)

lemma group_written_file:
  assumes "store_file n layout ws [] s" and "fp_next_sequence s = Some (sp_store_sequence p)"
    and "stored_page_wf (fp_lineage s) (unat n) p"
  shows "store_file n layout (ws @ [p]) [] (group_written layout p s)"
proof -
  have "store_history (fp_lineage s) (unat n) (ws @ [p]) (install_page p (fp_pages s)) (checked_add (sp_store_sequence p) 1)"
    using assms store_history.group [of "fp_lineage s" "unat n" ws "fp_pages s" p]
    unfolding store_file_def by (elim conjE) (simp only: simp_thms)
  with assms(1) show ?thesis
    unfolding store_file_def group_written_def by (elim conjE) simp
qed

lemma torn_group_file:
  assumes "store_file n layout ws [] s" and "fp_next_sequence s = Some (sp_store_sequence p)"
    and "stored_page_wf (fp_lineage s) (unat n) p"
  shows "store_file n layout ws (take k (group_bytes layout p))
    (s\<lparr>fp_contents := fp_contents s @ take k (group_bytes layout p), fp_poisoned := True\<rparr>)"
  using assms unfolding store_file_def torn_group_def
  by (elim conjE) (auto simp: take_is_prefix intro!: exI [of _ p])

lemma armed_store_file: "store_file n layout ws tail (s\<lparr>fp_armed_fault := armed\<rparr>) \<longleftrightarrow> store_file n layout ws tail s"
  by (simp add: store_file_def)

definition fits_store :: "usize \<Rightarrow> file_page_store \<Rightarrow> (u64 \<Rightarrow> file_stored_page) \<Rightarrow> bool" where
  "fits_store n s stored \<longleftrightarrow>
     (\<forall>q. sp_store_sequence (stored q) = q \<and> stored_page_wf (fp_lineage s) (unat n) (stored q))"

lemma effect_inv:
  assumes "page_file_inv n s" and "page_layout_for n = Inr layout" and "fits_store n s stored"
    and "store_effect fault layout stored s r s'"
  shows "page_file_inv n s'"
proof -
  obtain layout' ws tail where sf: "store_file n layout' ws tail s" using assms(1) by (auto simp: page_file_inv_def)
  then have "layout' = layout" using assms(2) by (simp add: store_file_def)
  with sf store_file_unpoisoned have kept: "store_file n layout ws tail s" "\<not> fp_poisoned s \<Longrightarrow> tail = []" by auto
  have seq: "sp_store_sequence (stored q) = q" and wf: "stored_page_wf (fp_lineage s) (unat n) (stored q)" for q
    using assms(3) by (simp_all add: fits_store_def)
  have sequence: "fp_next_sequence s = Some (sp_store_sequence (stored q))" if "fp_next_sequence s = Some q" for q
    using that by (simp add: seq)
  from assms(4) show ?thesis
  proof cases
    case (rejected e armed)
    with kept(1) show ?thesis unfolding page_file_inv_def by (auto simp: armed_store_file)
  next
    case (torn q e k)
    with kept torn_group_file [OF _ sequence wf] show ?thesis unfolding page_file_inv_def by blast
  next
    case (written q)
    with kept group_written_file [OF _ sequence wf] show ?thesis unfolding page_file_inv_def by blast
  next
    case (faulted q)
    with kept group_written_file [OF _ sequence wf] have "page_file_inv n (group_written layout (stored q) s)"
      unfolding page_file_inv_def by blast
    then show ?thesis unfolding faulted(2) page_file_inv_def armed_store_file .
  qed
qed


section \<open>Crashes\<close>

lemma crash_kept:
  assumes "store_file n layout ws tail s" and "store_crash_image s bytes"
  obtains kept where "bytes = take (fp_synced s) (fp_contents s) @ kept" and "prefix kept tail"
    and "fp_synced s \<le> length bytes"
proof -
  obtain k where k: "fp_synced s \<le> k" "bytes = take k (fp_contents s)"
    using assms(2) by (auto simp: store_crash_image_def)
  note synced = store_file_synced [OF assms(1)]
  have "take k (fp_contents s) = take (fp_synced s) (fp_contents s) @ take (k - fp_synced s) tail"
    using k(1) synced(3) by (metis le_add_diff_inverse take_add)
  with k(2) that synced(4) show thesis by (simp add: take_is_prefix)
qed

lemma group_bytes_nonempty [simp]: "group_bytes layout p \<noteq> []" "[] \<noteq> group_bytes layout p"
proof -
  have "length (group_bytes layout p) \<noteq> 0" unfolding length_group_bytes by (simp add: frame_length_def)
  then show "group_bytes layout p \<noteq> []" "[] \<noteq> group_bytes layout p" by auto
qed

text \<open>What opening makes of a crash: the synchronized groups, and the last one when it survived whole.\<close>

lemma crash_opens:
  assumes "store_file n layout ws tail s" and "tail = [] \<or> torn_group layout (fp_lineage s) (unat n) (fp_next_sequence s) tail p"
    and "store_crash_image s bytes" and "length bytes < 2 ^ 64"
  shows "store_open working_store (\<lambda>_. True) n bytes = Inr (store_settled s)
    \<or> tail = group_bytes layout p \<and> store_open working_store (\<lambda>_. True) n bytes = Inr (group_written layout p (store_settled s))"
proof -
  obtain kept where kept: "bytes = take (fp_synced s) (fp_contents s) @ kept" "prefix kept tail"
    "fp_synced s \<le> length bytes" by (rule crash_kept [OF assms(1,3)])
  have small: "fp_synced s < 2 ^ 64" using kept(3) assms(4) by linarith
  have torn: "torn_group layout (fp_lineage s) (unat n) (fp_next_sequence s) kept p \<or> kept = []"
    using assms(2) kept(2) by (auto simp: torn_group_def)
  moreover have "tail = group_bytes layout p" if "kept = group_bytes layout p"
  proof -
    have "torn_group layout (fp_lineage s) (unat n) (fp_next_sequence s) tail p"
      using assms(2) kept(2) that by auto
    then show ?thesis using kept(2) that by (auto simp: torn_group_def intro: prefix_order.antisym)
  qed
  ultimately show ?thesis
    using open_cut_group [OF assms(1) torn _ small] open_whole_group [OF assms(1), of kept p] torn kept(1,2)
    by (cases "kept = group_bytes layout p") auto
qed

lemma settled_torn:
  "store_settled (s\<lparr>fp_contents := fp_contents s @ new, fp_poisoned := True\<rparr>)
    = s\<lparr>fp_contents := take (fp_synced s) (fp_contents s @ new), fp_armed_fault := None, fp_poisoned := False\<rparr>"
  by (simp add: store_settled_def)

lemma settled_unpoisoned:
  assumes "store_file n layout ws [] s" and "\<not> fp_poisoned s"
  shows "store_settled s = s\<lparr>fp_armed_fault := None\<rparr>"
  using assms by (simp add: store_settled_def store_file_def)

definition next_group_written :: "page_layout \<Rightarrow> (u64 \<Rightarrow> file_stored_page) \<Rightarrow> file_page_store \<Rightarrow> file_page_store \<Rightarrow> bool" where
  "next_group_written layout stored s s' \<longleftrightarrow> (\<exists>q. fp_next_sequence s = Some q
     \<and> s' = group_written layout (stored q) (s\<lparr>fp_armed_fault := None\<rparr>))"

lemma effect_crash:
  assumes "page_file_inv n s" and "\<not> fp_poisoned s" and "page_layout_for n = Inr layout" and "fits_store n s stored"
    and "store_effect fault layout stored s r s'"
    and "store_crash_image s' bytes" and "length bytes < 2 ^ 64"
  shows "\<exists>s''. store_open working_store (\<lambda>_. True) n bytes = Inr s''
    \<and> (s'' = s\<lparr>fp_armed_fault := None\<rparr> \<and> r \<noteq> Inr () \<or> next_group_written layout stored s s'')"
proof -
  obtain layout' ws tail where sf: "store_file n layout' ws tail s" using assms(1) by (auto simp: page_file_inv_def)
  then have "layout' = layout" "tail = []" using assms(2,3) store_file_unpoisoned by (auto simp: store_file_def)
  with sf have sf: "store_file n layout ws [] s" by simp
  have seq: "sp_store_sequence (stored q) = q" and wf: "stored_page_wf (fp_lineage s) (unat n) (stored q)" for q
    using assms(4) by (simp_all add: fits_store_def)
  have sequence: "fp_next_sequence s = Some (sp_store_sequence (stored q))" if "fp_next_sequence s = Some q" for q
    using that by (simp add: seq)
  have poisoned: "group_written layout p s\<lparr>fp_armed_fault := armed, fp_poisoned := False\<rparr>
      = group_written layout p (s\<lparr>fp_armed_fault := armed\<rparr>)" for p armed
    using assms(2) by (simp add: group_written_def)
  from assms(5) show ?thesis
  proof cases
    case (rejected e armed)
    have sf': "store_file n layout ws [] s'" using sf by (simp add: rejected(2) armed_store_file)
    have "store_settled s' = s\<lparr>fp_armed_fault := None\<rparr>"
      using settled_unpoisoned [OF sf assms(2)] by (simp add: rejected(2) store_settled_def)
    with crash_opens [OF sf' _ assms(6,7)] rejected(1) show ?thesis by auto
  next
    case (torn q e k)
    let ?p = "stored q"
    have sf': "store_file n layout ws (take k (group_bytes layout ?p)) s'"
      using torn_group_file [OF sf sequence [OF torn(4)] wf] by (simp add: torn(2))
    have cut: "torn_group layout (fp_lineage s') (unat n) (fp_next_sequence s') (take k (group_bytes layout ?p)) ?p"
      using torn sequence wf by (simp add: torn_group_def take_is_prefix)
    have "fp_synced s = length (fp_contents s)" using sf by (simp add: store_file_def)
    then have settled: "store_settled s' = s\<lparr>fp_armed_fault := None\<rparr>"
      using assms(2) by (simp add: torn(2) settled_torn)
    from crash_opens [OF sf' _ assms(6,7), of ?p] cut show ?thesis
      unfolding settled next_group_written_def using torn(1,4) by auto
  next
    case (written q)
    have sf': "store_file n layout (ws @ [stored q]) [] s'"
      using group_written_file [OF sf sequence [OF written(4)] wf] by (simp add: written(2))
    have "\<not> fp_poisoned s'" using assms(2) by (simp add: written(2) group_written_def)
    then have "store_settled s' = group_written layout (stored q) (s\<lparr>fp_armed_fault := None\<rparr>)"
      using settled_unpoisoned [OF sf'] by (simp add: written(2) group_written_def)
    with crash_opens [OF sf' _ assms(6,7)] written(4) show ?thesis by (auto simp: next_group_written_def)
  next
    case (faulted q)
    have sf': "store_file n layout (ws @ [stored q]) [] s'"
      using group_written_file [OF sf sequence [OF faulted(4)] wf] by (simp add: faulted(2) armed_store_file)
    have "\<not> fp_poisoned s'" using assms(2) by (simp add: faulted(2) group_written_def)
    then have "store_settled s' = group_written layout (stored q) (s\<lparr>fp_armed_fault := None\<rparr>)"
      using settled_unpoisoned [OF sf'] by (simp add: faulted(2) group_written_def)
    with crash_opens [OF sf' _ assms(6,7)] faulted(4) show ?thesis by (auto simp: next_group_written_def)
  qed
qed

section \<open>Runs\<close>

lemma settled_inv:
  assumes "store_file n layout ws tail s"
  shows "page_file_inv n (store_settled s)"
  using store_settled_file [OF assms] unfolding page_file_inv_def by blast

lemma reopened_store:
  assumes "page_file_inv n s" and "store_crash_image s bytes" and "length bytes < 2 ^ 64"
    and "store_open io reserve n bytes = Inr s'"
  shows "page_file_inv n s'" and "\<not> fp_poisoned s'"
    and "s' = store_settled s \<or> fp_poisoned s
      \<and> (\<exists>layout ws tail p. store_file n layout ws tail s
        \<and> torn_group layout (fp_lineage s) (unat n) (fp_next_sequence s) tail p \<and> tail = group_bytes layout p
        \<and> s' = group_written layout p (store_settled s))"
proof -
  obtain layout ws tail where sf: "store_file n layout ws tail s" using assms(1) by (auto simp: page_file_inv_def)
  then have "\<exists>p. tail = [] \<or> torn_group layout (fp_lineage s) (unat n) (fp_next_sequence s) tail p"
    unfolding store_file_def by blast
  then obtain p where p: "tail = [] \<or> torn_group layout (fp_lineage s) (unat n) (fp_next_sequence s) tail p" ..
  note settled = store_settled_file [OF sf]
  have opened: "store_open working_store (\<lambda>_. True) n bytes = Inr s'" by (rule store_open_any [OF assms(4)])
  have "s' = store_settled s \<or> tail = group_bytes layout p \<and> s' = group_written layout p (store_settled s)"
    using crash_opens [OF sf p assms(2,3)] opened by auto
  then have "page_file_inv n s' \<and> \<not> fp_poisoned s' \<and> (s' = store_settled s \<or> fp_poisoned s
      \<and> (\<exists>layout ws tail p. store_file n layout ws tail s
        \<and> torn_group layout (fp_lineage s) (unat n) (fp_next_sequence s) tail p \<and> tail = group_bytes layout p
        \<and> s' = group_written layout p (store_settled s)))"
  proof (elim disjE conjE)
    assume "s' = store_settled s"
    with settled show ?thesis by (auto simp: page_file_inv_def store_settled_def)
  next
    assume whole: "tail = group_bytes layout p" and s': "s' = group_written layout p (store_settled s)"
    then have tail: "tail \<noteq> []" by simp
    then have torn: "torn_group layout (fp_lineage s) (unat n) (fp_next_sequence s) tail p" using p by blast
    then have "store_file n layout (ws @ [p]) [] s'"
      unfolding s' by (intro group_written_file [OF settled]) (simp_all add: store_settled_def torn_group_def)
    moreover have "fp_poisoned s" using sf tail by (simp add: store_file_def)
    moreover have "\<not> fp_poisoned s'" by (simp add: s' group_written_def store_settled_def)
    ultimately show ?thesis using sf torn whole s' unfolding page_file_inv_def by blast
  qed
  then show "page_file_inv n s'" "\<not> fp_poisoned s'" "s' = store_settled s \<or> fp_poisoned s
      \<and> (\<exists>layout ws tail p. store_file n layout ws tail s
        \<and> torn_group layout (fp_lineage s) (unat n) (fp_next_sequence s) tail p \<and> tail = group_bytes layout p
        \<and> s' = group_written layout p (store_settled s))" by blast+
qed


inductive store_created :: "usize \<Rightarrow> file_page_store \<Rightarrow> bool" for n where
  version1: "store_create_new io n path log_id = Inr s \<Longrightarrow> log_id_wf log_id \<Longrightarrow> store_created n s"
| version2: "store_create_new_database io n path identity = Inr s \<Longrightarrow> log_id_wf (si_persistent_log_id identity)
    \<Longrightarrow> header_identity_wf (storage_file_header_identity identity RolePageStore) \<Longrightarrow> store_created n s"

lemma created_internal:
  assumes "store_create_new_internal io path log_id (format_of_identity identity) (store_header layout log_id identity)
    identity = Inr s" and "page_layout_for n = Inr layout" and "store_header_wf layout log_id identity"
  shows "store_file n layout [] [] s"
  using assms store_history.empty [of "Persistent log_id" "unat n"]
  by (auto simp: store_create_new_internal_def store_file_def result_simps)

lemma created_store_inv: "store_created n s \<Longrightarrow> page_file_inv n s \<and> \<not> fp_poisoned s"
proof (induction rule: store_created.induct)
  case (version1 io path log_id s)
  then obtain layout where layout: "page_layout_for n = Inr layout"
    and "store_create_new_internal io path log_id StoreV1 (build_page_store_header log_id (pl_width layout)) None = Inr s"
    by (auto simp: store_create_new_def result_simps)
  then have created: "store_create_new_internal io path log_id (format_of_identity None)
      (store_header layout log_id None) None = Inr s"
    by (simp add: format_of_identity_def store_header_def)
  have "store_header_wf layout log_id None"
    using version1(2) layout_for_wf [OF layout] by (simp add: store_header_wf_def)
  from created_internal [OF created layout this] created show ?case
    by (auto simp: page_file_inv_def store_create_new_internal_def result_simps)
next
  case (version2 io path identity s)
  let ?identity = "storage_file_header_identity identity RolePageStore"
  from version2 obtain layout where layout: "page_layout_for n = Inr layout"
    and "store_create_new_internal io path (si_persistent_log_id identity) StoreV2
      (build_page_store_header_v2 (si_persistent_log_id identity) (pl_width layout) ?identity) (Some ?identity) = Inr s"
    by (auto simp: store_create_new_database_def result_simps Let_def)
  then have created: "store_create_new_internal io path (si_persistent_log_id identity)
      (format_of_identity (Some ?identity)) (store_header layout (si_persistent_log_id identity) (Some ?identity))
      (Some ?identity) = Inr s"
    by (simp add: format_of_identity_def store_header_def)
  have "store_header_wf layout (si_persistent_log_id identity) (Some ?identity)"
    using version2(2,3) layout_for_wf [OF layout] by (simp add: store_header_wf_def)
  from created_internal [OF created layout this] created show ?case
    by (auto simp: page_file_inv_def store_create_new_internal_def result_simps)
qed

text \<open>A page of the width of the store, with a page number: what the types \<open>PageImage<N>\<close> and
  \<open>PageNumber\<close> say.\<close>

definition page_fits :: "usize \<Rightarrow> (u64 \<Rightarrow> file_stored_page) \<Rightarrow> bool" where
  "page_fits n stored \<longleftrightarrow> (\<forall>q. page_number_get (sp_page_number (stored q)) \<noteq> 0 \<and> length (sp_bytes (stored q)) = unat n)"

inductive store_step :: "usize \<Rightarrow> file_page_store \<Rightarrow> file_page_store \<Rightarrow> bool" for n where
  page_write: "page_fits n (page_to_store d) \<Longrightarrow> file_write_page io reserve n d permit s = (r, s') \<Longrightarrow> store_step n s s'"
| replace: "page_fits n (target_to_store c) \<Longrightarrow> lsn_value (xo_position (lc_observation (rc_latest_committed c))) \<noteq> 0
    \<Longrightarrow> store_compare_and_replace io reserve n c permit s = (rr, s') \<Longrightarrow> store_step n s s'"
| arm: "store_arm_fault fault s = (ra, s') \<Longrightarrow> store_step n s s'"
| crash_reopen: "store_crash_image s bytes \<Longrightarrow> length bytes < 2 ^ 64
    \<Longrightarrow> store_open io reserve n bytes = Inr s' \<Longrightarrow> store_step n s s'"

inductive store_reachable :: "usize \<Rightarrow> file_page_store \<Rightarrow> bool" for n where
  start: "store_created n s \<Longrightarrow> store_reachable n s"
| step: "store_reachable n s \<Longrightarrow> store_step n s s' \<Longrightarrow> store_reachable n s'"

lemma page_to_store_fits:
  assumes "page_fits n (page_to_store d)" and "position_accepted s (dp_required_position d)"
  shows "fits_store n s (page_to_store d)"
  using assms
  by (auto simp: fits_store_def page_fits_def page_to_store_def stored_page_wf_def position_accepted_def
      lineage_position_def)

lemma target_to_store_fits:
  assumes "page_fits n (target_to_store c)" and "lsn_value (xo_position (lc_observation (rc_latest_committed c))) \<noteq> 0"
    and "lsn_lineage (xo_position (lc_observation (rc_latest_committed c))) = fp_lineage s"
  shows "fits_store n s (target_to_store c)"
  using assms
  by (auto simp: fits_store_def page_fits_def target_to_store_def stored_page_wf_def lineage_position_def Let_def)

lemma store_step_inv: "store_step n s s' \<Longrightarrow> page_file_inv n s \<Longrightarrow> page_file_inv n s'"
proof (induction rule: store_step.induct)
  case (page_write d io reserve permit s r s')
  from page_write(2) show ?case
  proof (cases rule: write_page_effect)
    case (effect layout)
    show ?thesis
      by (rule effect_inv [OF page_write(3) effect(1) page_to_store_fits [OF page_write(1) effect(2)] effect(5)])
  qed (use page_write(3) in simp)
next
  case (replace c io reserve permit s rr s')
  from replace(3) show ?case
  proof (cases rule: replace_effect)
    case (effect layout current)
    show ?thesis
      by (rule effect_inv [OF replace(4) effect(1) target_to_store_fits [OF replace(1,2) effect(2)] effect(5)])
  qed (use replace(4) in simp)
next
  case (arm fault s ra s')
  then have "s' = s\<lparr>fp_armed_fault := fp_armed_fault s'\<rparr>"
    by (auto simp: store_arm_fault_def split: option.splits)
  with arm(2) show ?case unfolding page_file_inv_def by (metis armed_store_file)
next
  case (crash_reopen s bytes io reserve s')
  then show ?case by (blast intro: reopened_store(1))
qed

lemma store_reachable_inv: "store_reachable n s \<Longrightarrow> page_file_inv n s"
  by (induction rule: store_reachable.induct) (blast intro: created_store_inv [THEN conjunct1] store_step_inv)+

end
