(* ===== verification/File_Store_Refinement.thy ===== *)
theory File_Store_Refinement
  imports File_Store_Steps Memory_Recovery Memory_Laws Memory_Recovery_Laws
begin

text \<open>
  The page-store file against the in-memory store: forgetting the bytes, the sequence numbers and
  the poison leaves an in-memory store, and the laws of a page store hold. On a working system with
  sequence numbers left the two do the same, fault for fault and error for error: writes, and the
  compare-and-replace of recovery.
\<close>

section \<open>The in-memory view\<close>

definition page_view :: "file_stored_page \<Rightarrow> memory_stored_page" where
  "page_view p = \<lparr>ms_page_number = sp_page_number p, ms_page_version = sp_page_version p,
     ms_bytes = sp_bytes p, ms_required_position = sp_required_position p\<rparr>"

primrec fault_view :: "store_fault_point \<Rightarrow> page_store_fault_point" where
  "fault_view StoreBeforeWrite = BeforeWrite"
| "fault_view StoreAfterWrite = AfterStoreWrite"

definition store_view :: "file_page_store \<Rightarrow> memory_page_store" where
  "store_view s = \<lparr>mst_lineage = fp_lineage s, mst_pages = map page_view (fp_pages s),
     mst_armed_fault = map_option fault_view (fp_armed_fault s)\<rparr>"

lemma page_view_sel [simp]:
  "ms_page_number (page_view p) = sp_page_number p" "ms_page_version (page_view p) = sp_page_version p"
  "ms_bytes (page_view p) = sp_bytes p" "ms_required_position (page_view p) = sp_required_position p"
  by (simp_all add: page_view_def)

lemma view_numbers [simp]:
  "ms_page_number \<circ> page_view = sp_page_number" "ms_page_number ` page_view ` A = sp_page_number ` A"
  by (simp_all add: fun_eq_iff image_image)

lemma fault_view_eq [simp]:
  "fault_view f = BeforeWrite \<longleftrightarrow> f = StoreBeforeWrite" "fault_view f = AfterStoreWrite \<longleftrightarrow> f = StoreAfterWrite"
  by (cases f; simp)+

lemma view_index: "page_index number (map page_view ps) = store_page_index number ps"
  by (induction ps) simp_all

lemma view_place: "map page_view (place_stored_page i p ps)
    = (case i of Some index \<Rightarrow> (map page_view ps)[index := page_view p] | None \<Rightarrow> map page_view ps @ [page_view p])"
  by (simp add: place_stored_page_def map_update split: option.split)

lemma view_page: "memory_page_store_page number (store_view s) = map_option page_view (snapshot_page number s)"
proof -
  have "find (\<lambda>p. ms_page_number p = number) (map page_view ps) = map_option page_view (find (\<lambda>p. sp_page_number p = number) ps)"
    for ps by (induction ps) simp_all
  then show ?thesis by (simp add: memory_page_store_page_def snapshot_page_def store_view_def)
qed

lemma view_to_store [simp]: "page_view (page_to_store d q) = stored_page_from_dirty d"
  by (simp add: page_view_def page_to_store_def stored_page_from_dirty_def)

lemma view_target [simp]: "page_view (target_to_store c q) = stored_page_from_recovery_candidate c"
  by (simp add: page_view_def target_to_store_def stored_page_from_recovery_candidate_def Let_def)

lemma view_observation: "stored_page_recovery_observation (page_view p) = file_stored_page_observation p"
  by (simp add: stored_page_recovery_observation_def file_stored_page_observation_def)

section \<open>The laws of a page store\<close>

definition distinct_pages :: "file_page_store \<Rightarrow> bool" where
  "distinct_pages s \<longleftrightarrow> memory_store_inv (store_view s)"

definition file_stored :: "file_page_store \<Rightarrow> page_number \<Rightarrow> stored_image option" where
  "file_stored s = memory_stored (store_view s)"

lemma view_sel [simp]:
  "mst_lineage (store_view s) = fp_lineage s" "mst_pages (store_view s) = map page_view (fp_pages s)"
  "mst_armed_fault (store_view s) = map_option fault_view (fp_armed_fault s)"
  by (simp_all add: store_view_def)

lemma stored_pages: "file_stored s n = map_option page_content (find (\<lambda>p. ms_page_number p = n) (map page_view (fp_pages s)))"
  by (simp add: file_stored_def memory_stored_def memory_page_store_page_def)

text \<open>Installing a page changes what is stored under its number only.\<close>

lemma install_stored:
  assumes "distinct (map sp_page_number ps)"
  shows "distinct (map sp_page_number (install_page p ps))"
    and "find (\<lambda>x. ms_page_number x = n) (map page_view (install_page p ps))
      = (if n = sp_page_number p then Some (page_view p) else find (\<lambda>x. ms_page_number x = n) (map page_view ps))"
proof -
  let ?vs = "map page_view ps" and ?v = "page_view p"
  have numbers: "map sp_page_number qs = map ms_page_number (map page_view qs)" for qs by simp
  have d: "distinct (map ms_page_number ?vs)" using assms by (simp add: comp_def)
  have "distinct (map ms_page_number (map page_view (install_page p ps)))
      \<and> find (\<lambda>x. ms_page_number x = n) (map page_view (install_page p ps))
        = (if n = sp_page_number p then Some ?v else find (\<lambda>x. ms_page_number x = n) ?vs)"
  proof (cases "store_page_index (sp_page_number p) ps")
    case (Some i)
    then have "page_index (ms_page_number ?v) ?vs = Some i" by (simp add: view_index)
    from find_page_update [OF this d] Some d show ?thesis by (simp add: install_page_def view_place)
  next
    case None
    then have absent: "sp_page_number p \<notin> ms_page_number ` set ?vs"
      using page_index_None [of "sp_page_number p" ?vs] by (simp add: view_index)
    then have "find (\<lambda>x. ms_page_number x = sp_page_number p) ?vs = None"
      by (auto simp: find_None_iff image_iff)
    with None absent d show ?thesis
      by (auto simp: install_page_def view_place find_snoc split: option.split)
  qed
  then show "distinct (map sp_page_number (install_page p ps))"
    "find (\<lambda>x. ms_page_number x = n) (map page_view (install_page p ps))
      = (if n = sp_page_number p then Some (page_view p) else find (\<lambda>x. ms_page_number x = n) (map page_view ps))"
    unfolding numbers by blast+
qed

lemma distinct_pages_iff: "distinct_pages s \<longleftrightarrow> distinct (map sp_page_number (fp_pages s))"
  by (simp add: distinct_pages_def memory_store_inv_def comp_def)

definition file_stored_content :: "file_stored_page \<Rightarrow> stored_image" where
  "file_stored_content p = (sp_page_version p, sp_bytes p, sp_required_position p)"

lemma effect_stored:
  assumes "store_effect fault layout stored s r s'" and "distinct_pages s"
    and "\<And>q. sp_page_number (stored q) = number \<and> file_stored_content (stored q) = c"
  shows "distinct_pages s'" and "fp_lineage s' = fp_lineage s"
    and "file_stored s' n = file_stored s n \<or> n = number \<and> file_stored s' n = Some c"
    and "r = Inr () \<Longrightarrow> file_stored s' number = Some c"
proof -
  have content: "page_content (page_view p) = file_stored_content p" for p
    by (simp add: page_content_def file_stored_content_def)
  have installed: "distinct_pages (group_written layout (stored q) s) \<and> file_stored (group_written layout (stored q) s) m
      = (if m = number then Some c else file_stored s m)" for q m
    using install_stored(1) [where ps = "fp_pages s" and p = "stored q"]
      install_stored(2) [where ps = "fp_pages s" and p = "stored q" and n = m] assms(2) assms(3) [of q]
    by (simp add: distinct_pages_iff stored_pages group_written_def content)
  have armed: "distinct_pages (t\<lparr>fp_armed_fault := a\<rparr>) = distinct_pages t"
    "file_stored (t\<lparr>fp_armed_fault := a\<rparr>) = file_stored t" for t a
    by (simp_all add: distinct_pages_iff stored_pages fun_eq_iff)
  have "distinct_pages s' \<and> fp_lineage s' = fp_lineage s
      \<and> (file_stored s' n = file_stored s n \<or> n = number \<and> file_stored s' n = Some c)
      \<and> (r = Inr () \<longrightarrow> file_stored s' number = Some c)"
    using assms(1)
  proof cases
    case (torn q e k)
    with assms(2) show ?thesis by (simp add: distinct_pages_iff stored_pages)
  next
    case (written q)
    with installed [of q n] installed [of q number] show ?thesis by (simp add: group_written_def)
  next
    case (faulted q)
    with installed [of q n] show ?thesis by (simp add: armed group_written_def)
  qed (use assms(2) in \<open>simp add: armed\<close>)
  then show "distinct_pages s'" "fp_lineage s' = fp_lineage s"
    "file_stored s' n = file_stored s n \<or> n = number \<and> file_stored s' n = Some c"
    "r = Inr () \<Longrightarrow> file_stored s' number = Some c" by blast+
qed

lemma file_write_page_laws:
  assumes "distinct_pages s" and "file_write_page io reserve n d permit s = (r, s')"
  shows "distinct_pages s'" and "fp_lineage s' = fp_lineage s"
    and "file_stored s' m = file_stored s m \<or> m = pa_number (dp_address d) \<and> file_stored s' m = Some (dirty_content d)"
    and "r = Inr () \<Longrightarrow> file_stored s' (pa_number (dp_address d)) = Some (dirty_content d)"
proof -
  have page: "sp_page_number (page_to_store d q) = pa_number (dp_address d)
      \<and> file_stored_content (page_to_store d q) = dirty_content d" for q
    by (simp add: page_to_store_def file_stored_content_def dirty_content_def)
  have "distinct_pages s' \<and> fp_lineage s' = fp_lineage s
      \<and> (file_stored s' m = file_stored s m \<or> m = pa_number (dp_address d) \<and> file_stored s' m = Some (dirty_content d))
      \<and> (r = Inr () \<longrightarrow> file_stored s' (pa_number (dp_address d)) = Some (dirty_content d))"
    using assms(2)
  proof (cases rule: write_page_effect)
    case (effect layout)
    show ?thesis using effect_stored [OF effect(5) assms(1) page] by blast
  qed (use assms(1) in simp)
  then show "distinct_pages s'" "fp_lineage s' = fp_lineage s"
    "file_stored s' m = file_stored s m \<or> m = pa_number (dp_address d) \<and> file_stored s' m = Some (dirty_content d)"
    "r = Inr () \<Longrightarrow> file_stored s' (pa_number (dp_address d)) = Some (dirty_content d)" by blast+
qed

interpretation file_flush: page_flushing "file_log_port log_io log_reserve" file_records_wf file_durable
    "file_store_port io reserve n" distinct_pages file_stored
  for log_io log_reserve io reserve n
  by unfold_locales (auto simp: file_store_port_def dest: file_write_page_laws)

section \<open>Writes of a working system\<close>

lemma working_write_frame: "store_write_frame working_store frame stage s = (Inr (), s\<lparr>fp_contents := fp_contents s @ frame\<rparr>)"
  by (simp add: store_write_frame_def working_store_def)

lemma working_write_data:
  "write_store_data working_store layout v bytes is s
    = (Inr (), s\<lparr>fp_contents := fp_contents s @ concat (map (store_data_frame layout v bytes) is)\<rparr>)"
  by (induction "is" arbitrary: s) (simp_all add: working_write_frame store_data_frame_def)

lemma working_group:
  "write_group_frames working_store layout p s = (Inr (), s\<lparr>fp_contents := fp_contents s @ group_bytes layout p\<rparr>)"
  by (simp add: write_group_frames_def working_write_frame working_write_data group_bytes_def group_frames_def)

lemma working_sync: "store_sync_group working_store s = (Inr (), s\<lparr>fp_synced := length (fp_contents s)\<rparr>)"
  by (simp add: store_sync_group_def working_store_def)

lemma working_snapshot_group:
  assumes "\<not> fp_poisoned s" and "fp_armed_fault s = None"
  shows "write_snapshot_group working_store layout p (store_page_index (sp_page_number p) (fp_pages s))
      (sp_store_sequence p) s = (Inr (), group_written layout p s)"
  using assms
  by (simp add: write_group_eq working_group working_sync store_fault_gate_def store_consume_fault_def
      group_written_def install_page_def)

lemma working_write_page:
  assumes "page_layout_for n = Inr layout" and "\<not> fp_poisoned s" and "fp_armed_fault s = None"
    and "fp_next_sequence s = Some q" and "position_accepted s (dp_required_position d)"
    and "pa_lineage (dp_address d) = fp_lineage s" and "durable_position permit = dp_required_position d"
  shows "file_write_page working_store (\<lambda>_. True) n d permit s = (Inr (), group_written layout (page_to_store d q) s)"
  using assms working_snapshot_group [of s layout "page_to_store d q"]
  by (simp add: file_write_page_def store_write_stored_def position_accepted_def page_to_store_def Let_def)

section \<open>Errors\<close>

primrec write_error_view :: "file_page_store_error \<Rightarrow> memory_page_store_error option" where
  "write_error_view (FileStoreInjectedFault point) = Some (StoreInjectedFault (fault_view point))"
| "write_error_view (FileStorePageWidth source) = None"
| "write_error_view FileStorePoisonedWriter = None"
| "write_error_view (FileStoreForeignPageLineage number) = Some (StoreForeignPageLineage number)"
| "write_error_view (FileStoreForeignPermitLineage position) = Some (ForeignPermitPosition position)"
| "write_error_view (FileStorePermitPositionMismatch expected actual) = Some (PermitPositionMismatch expected actual)"
| "write_error_view (FileStoreRequiredPositionZero number) = None"
| "write_error_view FileStoreSnapshotCapacityExhausted = Some PageCapacityExhausted"
| "write_error_view FileStoreSequenceSpaceExhausted = None"
| "write_error_view (FileStoreIo source) = None"

primrec recovery_error_view :: "store_recovery_error \<Rightarrow> memory_recovery_store_error option" where
  "recovery_error_view (StoreForeignTargetPagePosition position) = Some (ForeignTargetPagePosition position)"
| "recovery_error_view (StoreForeignTargetCommitPosition position) = Some (ForeignTargetCommitPosition position)"
| "recovery_error_view (StoreForeignPermitPagePosition position) = Some (ForeignPermitPagePosition position)"
| "recovery_error_view (StoreForeignPermitCommitPosition position) = Some (ForeignPermitCommitPosition position)"
| "recovery_error_view (StorePermitPagePositionMismatch expected actual) = Some (PermitPagePositionMismatch expected actual)"
| "recovery_error_view (StorePermitCommitPositionMismatch expected actual) =
     Some (PermitCommitPositionMismatch expected actual)"
| "recovery_error_view (StoreCurrentObservation source) = Some (CurrentObservation source)"
| "recovery_error_view (StoreSourceComparison source) = Some (SourceComparison source)"
| "recovery_error_view (StoreSourceNotMatched actual) = Some (SourceNotMatched actual)"
| "recovery_error_view (StoreRecoveryWrite source) =
     (case source of
        FileStoreInjectedFault point \<Rightarrow> Some (RecoveryInjectedFault (fault_view point))
      | FileStoreSnapshotCapacityExhausted \<Rightarrow> Some RecoveryPageCapacityExhausted
      | _ \<Rightarrow> None)"

section \<open>The write both end with\<close>

lemma view_armed: "store_view (s\<lparr>fp_armed_fault := None\<rparr>) = (store_view s)\<lparr>mst_armed_fault := None\<rparr>"
  by (simp add: store_view_def)

definition replaced_pages :: "memory_stored_page \<Rightarrow> memory_stored_page list \<Rightarrow> memory_stored_page list" where
  "replaced_pages p ps = (case page_index (ms_page_number p) ps of Some i \<Rightarrow> ps[i := p] | None \<Rightarrow> ps @ [p])"

lemma view_group_written:
  "store_view (group_written layout p s) = (store_view s)\<lparr>mst_pages := replaced_pages (page_view p) (map page_view (fp_pages s))\<rparr>"
  by (simp add: store_view_def group_written_def install_page_def view_place replaced_pages_def view_index split: option.split)

text \<open>The memory stores without a bound on capacity, in terms of the pages with the new one.\<close>

lemma memory_replace:
  "replace_stored_page (\<lambda>_. True) exhausted injected p m =
     (if mst_armed_fault m = Some BeforeWrite then (Inl (injected BeforeWrite), m\<lparr>mst_armed_fault := None\<rparr>)
      else if mst_armed_fault m = Some AfterStoreWrite
      then (Inl (injected AfterStoreWrite), m\<lparr>mst_pages := replaced_pages p (mst_pages m), mst_armed_fault := None\<rparr>)
      else (Inr (), m\<lparr>mst_pages := replaced_pages p (mst_pages m)\<rparr>))"
  by (auto simp: replace_stored_page_def consume_store_fault_def replaced_pages_def Let_def split: option.splits)

lemma memory_write:
  assumes "mst_lineage m = pa_lineage (dp_address d)" and "lsn_lineage (durable_position permit) = mst_lineage m"
    and "durable_position permit = dp_required_position d"
  shows "memory_write_page (\<lambda>_. True) d permit m
    = replace_stored_page (\<lambda>_. True) PageCapacityExhausted StoreInjectedFault (stored_page_from_dirty d) m"
  using assms
  unfolding memory_replace memory_write_page_def
  by (cases "page_index (ms_page_number (stored_page_from_dirty d)) (mst_pages m)")
    (simp_all add: consume_store_fault_def replaced_pages_def Let_def)

lemma working_write_stored:
  assumes "\<not> fp_poisoned s" and "fp_next_sequence s = Some q"
    and "sp_page_number (stored q) = number" and "sp_store_sequence (stored q) = q"
  shows "store_write_stored working_store (\<lambda>_. True) layout stored number s =
     (if fp_armed_fault s = Some StoreBeforeWrite
      then (Inl (FileStoreInjectedFault StoreBeforeWrite), s\<lparr>fp_armed_fault := None\<rparr>)
      else if fp_armed_fault s = Some StoreAfterWrite
      then (Inl (FileStoreInjectedFault StoreAfterWrite), (group_written layout (stored q) s)\<lparr>fp_armed_fault := None\<rparr>)
      else (Inr (), group_written layout (stored q) s))"
proof -
  have "store_write_stored working_store (\<lambda>_. True) layout stored number s
      = write_snapshot_group working_store layout (stored q) (store_page_index (sp_page_number (stored q)) (fp_pages s))
          (sp_store_sequence (stored q)) s"
    using assms(2-4) by (simp add: store_write_stored_def Let_def)
  then show ?thesis
    using assms(1)
    by (simp add: write_group_eq working_group working_sync store_fault_gate_def store_consume_fault_def
        group_written_def install_page_def)
qed

lemma stored_view:
  fixes stored :: "u64 \<Rightarrow> file_stored_page"
  assumes "\<not> fp_poisoned s" and "fp_next_sequence s = Some q"
    and "sp_page_number (stored q) = number" and "sp_store_sequence (stored q) = q"
    and "store_write_stored working_store (\<lambda>_. True) layout stored number s = (r, s')"
  obtains (finished) "r = Inr ()"
      and "replace_stored_page (\<lambda>_. True) exhausted injected (page_view (stored q)) (store_view s) = (Inr (), store_view s')"
  | (faulted) point where "r = Inl (FileStoreInjectedFault point)"
      and "replace_stored_page (\<lambda>_. True) exhausted injected (page_view (stored q)) (store_view s)
        = (Inl (injected (fault_view point)), store_view s')"
proof -
  have armed: "map_option fault_view (fp_armed_fault s) = Some BeforeWrite \<longleftrightarrow> fp_armed_fault s = Some StoreBeforeWrite"
    "map_option fault_view (fp_armed_fault s) = Some AfterStoreWrite \<longleftrightarrow> fp_armed_fault s = Some StoreAfterWrite"
    by auto
  note written = working_write_stored [where stored = stored, OF assms(1-4), of layout, unfolded assms(5)]
  consider "fp_armed_fault s = Some StoreBeforeWrite" | "fp_armed_fault s = Some StoreAfterWrite"
    | "fp_armed_fault s = None"
    by (metis not_None_eq store_fault_point.exhaust)
  then show thesis
    by cases (use written that in \<open>simp_all add: memory_replace armed view_armed view_group_written\<close>)
qed

section \<open>Compare and replace\<close>

text \<open>The compare-and-replace of recovery.\<close>

lemma view_source_match:
  "require_in_memory_recovery_source_match c current = Inr () \<longleftrightarrow> require_store_recovery_source_match c current = Inr ()"
  "map_err Some (require_in_memory_recovery_source_match c current)
    = map_err recovery_error_view (require_store_recovery_source_match c current)"
  by (auto simp: require_in_memory_recovery_source_match_def require_store_recovery_source_match_def
      split: sum.split recovery_comparison.split)

lemma view_permit:
  "map_err Some (check_recovery_permit lineage latest permit)
    = map_err recovery_error_view (check_store_recovery_permit lineage latest permit)"
  by (simp add: check_recovery_permit_def check_store_recovery_permit_def ensure_def and_then_def map_err_def Let_def)

lemma view_current: "memory_observe_page number (store_view s) = store_current_page number s"
  by (simp add: memory_observe_page_def store_current_page_def view_page view_observation split: option.split)

lemma file_store_refines_memory_replace:
  assumes "\<not> fp_poisoned s" and "fp_next_sequence s = Some q" and "page_layout_for n = Inr layout"
    and "store_compare_and_replace working_store (\<lambda>_. True) n candidate permit s = (r, s')"
  shows "\<exists>rm. memory_compare_and_replace (\<lambda>_. True) candidate permit (store_view s) = (rm, store_view s')
    \<and> map_err Some rm = map_err recovery_error_view r"
proof -
  let ?latest = "rc_latest_committed candidate" and ?number = "sp_page_number (target_to_store candidate 0)"
  have number: "po_page_number (wal_observation (xo_page (lc_observation ?latest))) = ?number"
    "xo_number (lc_observation ?latest) = ?number"
    by (simp_all add: target_to_store_def Let_def)
  note call = assms(4) [unfolded store_compare_and_replace_def Let_def number]
  have memory: "memory_compare_and_replace (\<lambda>_. True) candidate permit (store_view s) =
      with_result (check_recovery_permit (fp_lineage s) ?latest permit) (store_view s) (\<lambda>_.
      with_result (map_err CurrentObservation (store_current_page ?number s)) (store_view s) (\<lambda>current.
      with_result (require_in_memory_recovery_source_match candidate current) (store_view s) (\<lambda>_.
      replace_stored_page (\<lambda>_. True) RecoveryPageCapacityExhausted RecoveryInjectedFault
        (stored_page_from_recovery_candidate candidate) (store_view s))))"
    by (simp add: memory_compare_and_replace_def number view_current)
  note permit = view_permit [of "fp_lineage s" ?latest permit]
  show ?thesis
  proof (cases "check_store_recovery_permit (fp_lineage s) ?latest permit")
    case (Inl e)
    with call assms(1) have "r = Inl e" "s' = s" by simp_all
    with Inl permit show ?thesis
      unfolding memory by (cases "check_recovery_permit (fp_lineage s) ?latest permit") simp_all
  next
    case (Inr u)
    with permit obtain u' where ok: "check_recovery_permit (fp_lineage s) ?latest permit = Inr u'"
      by (cases "check_recovery_permit (fp_lineage s) ?latest permit") auto
    show ?thesis
    proof (cases "store_current_page ?number s")
      case (Inl e)
      with call assms(1) Inr ok show ?thesis unfolding memory by auto
    next
      case current: (Inr current)
      note source = view_source_match(2) [of candidate current]
      show ?thesis
      proof (cases "require_store_recovery_source_match candidate current")
        case (Inl e)
        with call assms(1) Inr current have "r = Inl e" "s' = s" by simp_all
        with Inl source ok current show ?thesis
          unfolding memory by (cases "require_in_memory_recovery_source_match candidate current") simp_all
      next
        case matched: (Inr v)
        with source obtain v' where "require_in_memory_recovery_source_match candidate current = Inr v'"
          by (cases "require_in_memory_recovery_source_match candidate current") auto
        with ok current have final: "memory_compare_and_replace (\<lambda>_. True) candidate permit (store_view s) =
            replace_stored_page (\<lambda>_. True) RecoveryPageCapacityExhausted RecoveryInjectedFault
              (stored_page_from_recovery_candidate candidate) (store_view s)"
          unfolding memory by simp
        obtain rw t where w: "store_write_stored working_store (\<lambda>_. True) layout (target_to_store candidate) ?number s = (rw, t)"
          by (cases "store_write_stored working_store (\<lambda>_. True) layout (target_to_store candidate) ?number s")
        have same: "r = map_err StoreRecoveryWrite rw" "s' = t"
          using call assms(1,3) Inr current matched w
          by (simp_all add: target_to_store_def [abs_def] converted_def Let_def)
        have fields: "sp_page_number (target_to_store candidate q) = ?number"
          "sp_store_sequence (target_to_store candidate q) = q"
          by (simp_all add: target_to_store_def Let_def)
        show ?thesis
        proof (rule stored_view [OF assms(1,2) fields w, of RecoveryPageCapacityExhausted RecoveryInjectedFault])
          assume "rw = Inr ()" and "replace_stored_page (\<lambda>_. True) RecoveryPageCapacityExhausted RecoveryInjectedFault
            (page_view (target_to_store candidate q)) (store_view s) = (Inr (), store_view t)"
          then show ?thesis unfolding final same view_target by (intro exI [of _ "Inr ()"]) simp
        next
          fix point
          assume "rw = Inl (FileStoreInjectedFault point)"
            and "replace_stored_page (\<lambda>_. True) RecoveryPageCapacityExhausted RecoveryInjectedFault
              (page_view (target_to_store candidate q)) (store_view s)
              = (Inl (RecoveryInjectedFault (fault_view point)), store_view t)"
          then show ?thesis
            unfolding final same view_target by (intro exI [of _ "Inl (RecoveryInjectedFault (fault_view point))"]) simp
        qed
      qed
    qed
  qed
qed

end
