(* ===== verification/File_Storage.thy ===== *)
theory File_Storage
  imports File_Store_Refinement File_Log_Examples
begin

text \<open>
  The log file and the page-store file together: dirty pages are flushed to the store through the
  log, either file may crash at any moment, and a page never reaches the store file before the
  record it needs is durable in the log file. Then a page-store file that is created, written once,
  and whose second write is cut in the middle of its page data.
\<close>

section \<open>Runs of both files\<close>

inductive storage_step ::
  "header_expectation \<Rightarrow> usize \<Rightarrow> file_log \<times> file_page_store \<Rightarrow> file_log \<times> file_page_store \<Rightarrow> bool" for x n
where
  log: "file_step x n l l' \<Longrightarrow> storage_step x n (l, s) (l', s)"
| flush: "page_fits n (page_to_store d)
    \<Longrightarrow> flush_dirty_page (file_log_port log_io log_reserve) (file_store_port io reserve n) d l s = (r, l', s')
    \<Longrightarrow> storage_step x n (l, s) (l', s')"
| store_arm: "store_arm_fault fault s = (ra, s') \<Longrightarrow> storage_step x n (l, s) (l, s')"
| store_crash: "store_crash_image s bytes \<Longrightarrow> length bytes < 2 ^ 64
    \<Longrightarrow> store_open io reserve n bytes = Inr s' \<Longrightarrow> storage_step x n (l, s) (l, s')"

inductive storage_reachable :: "header_expectation \<Rightarrow> usize \<Rightarrow> file_log \<times> file_page_store \<Rightarrow> bool" for x n where
  start: "file_created x n l \<Longrightarrow> store_created n s \<Longrightarrow> storage_reachable x n (l, s)"
| step: "storage_reachable x n p \<Longrightarrow> storage_step x n p p' \<Longrightarrow> storage_reachable x n p'"

section \<open>A surviving group is the group written\<close>

lemma group_required_position:
  assumes "group_bytes layout p = group_bytes layout p'"
    and "stored_page_wf lineage width p" and "stored_page_wf lineage width p'"
  shows "sp_required_position p = sp_required_position p'"
proof -
  have "bytes_at frame_length frame_length (group_bytes layout q) = required_position_frame q" for q
    by (simp add: group_bytes_def group_frames_def bytes_at_def)
  then have "required_position_frame p = required_position_frame p'" using assms(1) by metis
  then have "parse_page_store_frame (required_position_frame p) 0 = parse_page_store_frame (required_position_frame p') 0"
    by simp
  then have "lsn_value (sp_required_position p) = lsn_value (sp_required_position p')"
    by (simp add: required_position_frame_def parse_build_store_frame)
  then show ?thesis using assms(2,3) unfolding stored_page_wf_def by metis
qed

section \<open>The log before the store\<close>

text \<open>Every page in the store, and the page of a group that a failed write left whole in the file.\<close>

definition log_covers_store :: "usize \<Rightarrow> file_log \<Rightarrow> file_page_store \<Rightarrow> bool" where
  "log_covers_store n l s \<longleftrightarrow> (\<forall>p \<in> set (fp_pages s). file_durable l (sp_required_position p))
     \<and> (\<forall>layout ws tail p. store_file n layout ws tail s \<and> tail = group_bytes layout p
          \<and> stored_page_wf (fp_lineage s) (unat n) p \<longrightarrow> file_durable l (sp_required_position p))"

lemma log_covers_armed [simp]: "log_covers_store n l (s\<lparr>fp_armed_fault := a\<rparr>) = log_covers_store n l s"
  by (simp add: log_covers_store_def armed_store_file)

lemma log_covers_mono:
  assumes "log_covers_store n l s" and "\<And>q. file_durable l q \<Longrightarrow> file_durable l' q"
  shows "log_covers_store n l' s"
  using assms unfolding log_covers_store_def by blast

lemma durable_prefix_mono:
  "prefix (file_durable_records l) (file_durable_records l') \<Longrightarrow> file_durable l q \<Longrightarrow> file_durable l' q"
  by (auto simp: file_durable_def dest: set_mono_prefix)

lemma install_members: "set (install_page p ps) \<subseteq> insert p (set ps)"
  by (auto simp: install_page_def place_stored_page_def split: option.splits dest: set_update_subset_insert [THEN subsetD])

lemma unpoisoned_tail:
  assumes "store_file n layout ws (group_bytes layout p) s"
  shows "fp_poisoned s"
  using assms by (simp add: store_file_def)

lemma effect_covers:
  assumes "log_covers_store n l s" and "page_file_inv n s" and "page_layout_for n = Inr layout"
    and "fits_store n s stored" and "\<And>q. file_durable l (sp_required_position (stored q))"
    and "store_effect fault layout stored s r s'"
  shows "log_covers_store n l s'"
  using assms(6)
proof cases
  case (rejected e armed)
  with assms(1) show ?thesis by simp
next
  case (torn q e k)
  have "file_durable l (sp_required_position p)"
    if sf': "store_file n layout' ws (group_bytes layout' p) s'" and wf: "stored_page_wf (fp_lineage s) (unat n) p"
    for layout' ws p
  proof -
    have same: "layout' = layout" using sf' assms(3) by (simp add: store_file_def)
    obtain layout1 ws1 tail1 where sf: "store_file n layout1 ws1 tail1 s" using assms(2) by (auto simp: page_file_inv_def)
    then have "fp_synced s = length (fp_contents s)"
      using torn(3) store_file_unpoisoned by (fastforce simp: store_file_def)
    with store_file_synced(3) [OF sf'] have "take k (group_bytes layout (stored q)) = group_bytes layout p"
      by (simp add: torn(2) same)
    moreover from this have "length (group_bytes layout p) \<le> k"
      by (metis length_group_bytes length_take min.cobounded1 min.absorb_iff2 nle_le take_all_iff)
    ultimately have "group_bytes layout (stored q) = group_bytes layout p"
      by (simp add: length_group_bytes)
    moreover have "stored_page_wf (fp_lineage s) (unat n) (stored q)" using assms(4) by (simp add: fits_store_def)
    ultimately show ?thesis using group_required_position wf assms(5) [of q] by metis
  qed
  with assms(1) torn(2) show ?thesis by (auto simp: log_covers_store_def)
next
  case (written q)
  have "\<not> fp_poisoned s'" using written by (simp add: group_written_def)
  with assms(1,5) written(2) install_members [of "stored q" "fp_pages s"] show ?thesis
    unfolding log_covers_store_def by (auto simp: group_written_def dest: unpoisoned_tail)
next
  case (faulted q)
  have "\<not> fp_poisoned s'" using faulted by (simp add: group_written_def)
  with assms(1,5) faulted(2) install_members [of "stored q" "fp_pages s"] show ?thesis
    unfolding log_covers_store_def by (auto simp: group_written_def dest: unpoisoned_tail)
qed

lemma flush_covers:
  assumes "flush_dirty_page (file_log_port log_io log_reserve) (file_store_port io reserve n) d l s = (r, l', s')"
    and "page_fits n (page_to_store d)" and "page_file_inv n s" and "log_covers_store n l s"
  shows "page_file_inv n s' \<and> log_covers_store n l' s' \<and> (l' = l \<or>
    (\<exists>rf. file_flush_through log_io (dp_required_position d) l = (rf, l')))"
proof -
  have written: "page_file_inv n s' \<and> log_covers_store n l' s'"
    if "file_flush_through log_io (dp_required_position d) l = (Inr (), l')"
      "file_write_page io reserve n d permit s = (rw, s')" for rw permit
  proof -
    have covers: "log_covers_store n l' s"
      by (rule log_covers_mono [OF assms(4)]) (use flush_records [OF that(1)] durable_mono in blast)
    have durable: "file_durable l' (dp_required_position d)" by (rule flush_makes_durable [OF that(1)])
    from that(2) show ?thesis
    proof (cases rule: write_page_effect)
      case (effect layout)
      note fits = page_to_store_fits [OF assms(2) effect(2)]
      show ?thesis
        using effect_inv [OF assms(3) effect(1) fits effect(5)]
          effect_covers [OF covers assms(3) effect(1) fits _ effect(5)] durable
        by (simp add: page_to_store_def)
    qed (use covers assms(3) in simp)
  qed
  have flushed: "log_covers_store n l' s" if "file_flush_through log_io (dp_required_position d) l = (rf, l')" for rf
    by (rule log_covers_mono [OF assms(4)]) (use flush_records [OF that] durable_mono in blast)
  from assms(1) show ?thesis
  proof (cases rule: flush_dirty_page_cases)
    case (log_flush source)
    then show ?thesis using flushed assms(3) by (auto simp: file_log_port_def)
  next
    case (store_write source)
    then show ?thesis using written by (auto simp: file_log_port_def file_store_port_def)
  next
    case clean
    then show ?thesis using written by (auto simp: file_log_port_def file_store_port_def)
  qed (use assms(3,4) in simp)
qed

definition storage_inv :: "header_expectation \<Rightarrow> usize \<Rightarrow> file_log \<times> file_page_store \<Rightarrow> bool" where
  "storage_inv x n p \<longleftrightarrow> file_log_inv x n (fst p) \<and> page_file_inv n (snd p) \<and> log_covers_store n (fst p) (snd p)"

lemma created_pages: "store_created n s \<Longrightarrow> fp_pages s = [] \<and> \<not> fp_poisoned s"
proof (induction rule: store_created.induct)
  case (version1 io path log_id s)
  then show ?case by (auto simp: store_create_new_def store_create_new_internal_def result_simps)
next
  case (version2 io path identity s)
  then show ?case by (auto simp: store_create_new_database_def store_create_new_internal_def result_simps Let_def)
qed

lemma storage_step_inv: "storage_step x n p p' \<Longrightarrow> storage_inv x n p \<Longrightarrow> storage_inv x n p'"
proof (induction rule: storage_step.induct)
  case (log l l' s)
  then have inv: "file_log_inv x n l" by (simp add: storage_inv_def)
  show ?case
    using log step_inv [OF log(1) inv] log_covers_mono [of n l s l']
      durable_prefix_mono [OF step_durable [OF log(1) inv]]
    by (simp add: storage_inv_def)
next
  case (flush d log_io log_reserve io reserve l s r l' s')
  then have inv: "file_log_inv x n l" "page_file_inv n s" "log_covers_store n l s" by (simp_all add: storage_inv_def)
  note covers = flush_covers [OF flush(2,1) inv(2,3)]
  from covers inv(1) have "file_log_inv x n l'" by (auto intro: step_inv file_step.flush)
  with covers show ?case by (simp add: storage_inv_def)
next
  case (store_arm fault s ra s' l)
  then have "s' = s\<lparr>fp_armed_fault := fp_armed_fault s'\<rparr>"
    by (auto simp: store_arm_fault_def split: option.splits)
  moreover have "storage_inv x n (l, s\<lparr>fp_armed_fault := a\<rparr>)" for a
    using store_arm(2) by (simp add: storage_inv_def page_file_inv_def armed_store_file)
  ultimately show ?case by metis
next
  case (store_crash s bytes io reserve s' l)
  then have inv: "page_file_inv n s" "log_covers_store n l s" by (simp_all add: storage_inv_def)
  note reopened = reopened_store [OF inv(1) store_crash(1-3)]
  have "\<forall>p \<in> set (fp_pages s'). file_durable l (sp_required_position p)"
    using reopened(3)
  proof (elim disjE conjE exE)
    assume "s' = store_settled s"
    with inv(2) show ?thesis by (simp add: log_covers_store_def store_settled_def)
  next
    fix layout ws tail p
    assume sf: "store_file n layout ws tail s" and torn: "torn_group layout (fp_lineage s) (unat n) (fp_next_sequence s) tail p"
      and tail: "tail = group_bytes layout p" and s': "s' = group_written layout p (store_settled s)"
    have "file_durable l (sp_required_position p)"
      using inv(2) sf torn tail unfolding log_covers_store_def torn_group_def by blast
    then show ?thesis
      using inv(2) install_members [of p "fp_pages s"]
      by (auto simp: s' log_covers_store_def group_written_def store_settled_def)
  qed
  then have "log_covers_store n l s'"
    using reopened(2) unfolding log_covers_store_def by (auto dest: unpoisoned_tail)
  with reopened(1) store_crash(4) show ?case by (simp add: storage_inv_def)
qed

lemma storage_reachable_inv: "storage_reachable x n p \<Longrightarrow> storage_inv x n p"
proof (induction rule: storage_reachable.induct)
  case (start l s)
  have "log_covers_store n l s"
    using created_pages [OF start(2)] by (auto simp: log_covers_store_def dest: unpoisoned_tail)
  with start created_inv created_store_inv show ?case by (simp add: storage_inv_def)
next
  case (step p p')
  then show ?case by (blast intro: storage_step_inv)
qed

section \<open>An example\<close>

definition sample_page :: "u64 \<Rightarrow> u8 \<Rightarrow> dirty_page" where
  "sample_page v byte = \<lparr>dp_address = \<lparr>pa_lineage = Persistent (PersistentLogId 7), pa_number = PageNumber 5\<rparr>,
     dp_version = ImageVersion v, dp_image = PageImage (replicate 8 byte), dp_required_position = sample_position 1\<rparr>"

definition sample_permit :: page_write_permit where
  "sample_permit = PageWritePermit (sample_position 1)"

definition created_store :: file_page_store where
  "created_store = projr (store_create_new working_store 8 sample_path (PersistentLogId 7))"

definition written_store :: file_page_store where
  "written_store = snd (file_write_page working_store (\<lambda>_. True) 8 (sample_page 1 11) sample_permit created_store)"

definition torn_store_io :: store_io where
  "torn_store_io stage at = (if stage = StoreWritePageDataFrame then Some (IoError 28, 20) else None)"

definition torn_store :: file_page_store where
  "torn_store = snd (file_write_page torn_store_io (\<lambda>_. True) 8 (sample_page 2 22) sample_permit written_store)"

definition sample_layout :: page_layout where
  "sample_layout = \<lparr>pl_width = 8, pl_chunk_count = 1, pl_final_chunk_len = 8\<rparr>"

lemma layout_eq: "page_layout_for 8 = Inr sample_layout"
  by (simp add: page_layout_for_def sample_layout_def checked_add_def page_chunk_width_def)

section \<open>The run\<close>

lemma created_store_eq: "store_create_new working_store 8 sample_path (PersistentLogId 7) = Inr created_store"
  by (simp add: created_store_def store_create_new_def store_create_new_internal_def layout_eq
      sync_page_store_parent_directory_def sample_path_def)

lemma created_store_fields:
  "fp_poisoned created_store = False" "fp_pages created_store = []" "fp_next_sequence created_store = Some 1"
  "fp_armed_fault created_store = None" "fp_lineage created_store = Persistent (PersistentLogId 7)"
  "length (fp_contents created_store) = 64" "fp_synced created_store = 64"
  by (simp_all add: created_store_def store_create_new_def store_create_new_internal_def layout_eq
      sync_page_store_parent_directory_def sample_path_def header_length_def)

lemma created_store_reachable: "store_created 8 created_store" "store_reachable 8 created_store"
proof -
  show "store_created 8 created_store"
    by (rule store_created.version1 [OF created_store_eq]) (simp add: log_id_wf_def)
  then show "store_reachable 8 created_store" by (rule store_reachable.start)
qed

lemma sample_fits: "page_fits 8 (page_to_store (sample_page v b))"
  by (simp add: page_fits_def page_to_store_def sample_page_def)

lemma sample_accepted:
  "fp_lineage s = Persistent (PersistentLogId 7) \<Longrightarrow> position_accepted s (dp_required_position (sample_page v b))
    \<and> pa_lineage (dp_address (sample_page v b)) = fp_lineage s
    \<and> durable_position sample_permit = dp_required_position (sample_page v b)"
  by (simp add: position_accepted_def sample_page_def sample_permit_def sample_position_def)

lemma written_result:
  "file_write_page working_store (\<lambda>_. True) 8 (sample_page 1 11) sample_permit created_store = (Inr (), written_store)"
  "written_store = group_written sample_layout (page_to_store (sample_page 1 11) 1) created_store"
  using working_write_page [OF layout_eq, of created_store 1 "sample_page 1 11" sample_permit]
    created_store_fields sample_accepted [of created_store 1 11]
  by (simp_all add: written_store_def)

lemma sample_group_length: "length (group_bytes sample_layout p) = 168"
  by (simp only: length_group_bytes) (simp add: sample_layout_def frame_length_def)

lemma written_store_fields:
  "fp_poisoned written_store = False" "fp_next_sequence written_store = Some 2"
  "fp_pages written_store = [page_to_store (sample_page 1 11) 1]"
  "fp_armed_fault written_store = None" "fp_lineage written_store = Persistent (PersistentLogId 7)"
  "length (fp_contents written_store) = 232" "fp_synced written_store = 232"
  by (simp_all add: written_result(2) group_written_def created_store_fields sample_group_length install_page_def
      place_stored_page_def checked_add_def page_to_store_def)

lemma written_step: "store_step 8 created_store written_store"
  by (rule store_step.page_write [OF sample_fits written_result(1)])

lemma written_reachable: "store_reachable 8 written_store"
  by (rule store_reachable.step [OF created_store_reachable(2) written_step])

lemma torn_store_result:
  "file_write_page torn_store_io (\<lambda>_. True) 8 (sample_page 2 22) sample_permit written_store
    = (Inl (FileStoreIo (store_io_failure StoreWritePageDataFrame (IoError 28))), torn_store)"
  "fp_poisoned torn_store = True" "length (fp_contents torn_store) = 364" "fp_synced torn_store = 232"
  using sample_accepted [of written_store 2 22] written_store_fields
  by (simp_all add: torn_store_def file_write_page_def store_write_stored_def write_snapshot_group_def
      layout_eq torn_store_io_def store_write_frame_def store_fault_gate_def store_consume_fault_def
      position_accepted_def sample_page_def sample_permit_def page_to_store_def sample_layout_def sample_position_def
      frame_length_def Let_def)

end
