(* ===== verification/File_Store_Properties.thy ===== *)
theory File_Store_Properties
  imports File_Storage
begin

text \<open>
  What the page-store file guarantees: a write is all or nothing across a crash, a usable file opens
  to the store that wrote it, a corrupted file is refused, the store does what the in-memory store
  does, and no page is on disk before the record it needs.
\<close>

section \<open>Crashes and opening again\<close>

lemma history_distinct:
  "store_history lineage width ws pages upcoming \<Longrightarrow> distinct (map sp_page_number pages)"
  by (induction rule: store_history.induct) (simp_all add: install_stored)

lemma inv_distinct_pages: "page_file_inv n s \<Longrightarrow> distinct_pages s"
  unfolding page_file_inv_def store_file_def distinct_pages_iff by (blast intro: history_distinct)

lemma group_written_stored:
  assumes "distinct_pages s"
  shows "file_stored (group_written layout p s) = (file_stored s)(sp_page_number p \<mapsto> file_stored_content p)"
  using install_stored(2) [where ps = "fp_pages s" and p = p] assms
  by (auto simp: fun_eq_iff stored_pages group_written_def distinct_pages_iff page_content_def file_stored_content_def)

text \<open>C5: A write of a page to any reachable usable store is all or nothing across a crash. Whatever
  fails during it, and whatever part of the file with its synchronized part the crash keeps, the
  file opens to a usable store that holds either what the store held or that with exactly the
  written page under its number; when the write was acknowledged, or only its final injected fault
  fired, it holds the page.\<close>

theorem store_write_crash_atomic:
  assumes "store_reachable n s" and "\<not> fp_poisoned s" and "page_fits n (page_to_store d)"
    and "file_write_page io reserve n d permit s = (r, s')"
    and "store_crash_image s' bytes" and "length bytes < 2 ^ 64"
  shows "\<exists>s''. store_open working_store (\<lambda>_. True) n bytes = Inr s'' \<and> \<not> fp_poisoned s''
    \<and> (file_stored s'' = file_stored s \<and> r \<noteq> Inr ()
      \<or> file_stored s'' = (file_stored s)(pa_number (dp_address d) \<mapsto> dirty_content d))"
proof -
  note inv = store_reachable_inv [OF assms(1)]
  note distinct = inv_distinct_pages [OF inv]
  have armed: "file_stored (s\<lparr>fp_armed_fault := a\<rparr>) = file_stored s" "distinct_pages (s\<lparr>fp_armed_fault := a\<rparr>)" for a
    using distinct by (simp_all add: fun_eq_iff stored_pages distinct_pages_iff)
  from assms(4) show ?thesis
  proof (cases rule: write_page_effect)
    case (refused e)
    obtain layout ws tail where sf: "store_file n layout ws tail s" using inv by (auto simp: page_file_inv_def)
    then have "store_file n layout ws [] s" using store_file_unpoisoned [OF sf assms(2)] by simp
    note opened = crash_opens [OF this _ assms(5) [unfolded refused(2)] assms(6), simplified]
    from opened settled_unpoisoned [OF \<open>store_file n layout ws [] s\<close> assms(2)] refused(1) armed(1) assms(2)
    show ?thesis by simp
  next
    case (effect layout)
    have page: "sp_page_number (page_to_store d q) = pa_number (dp_address d)"
      "file_stored_content (page_to_store d q) = dirty_content d" for q
      by (simp_all add: page_to_store_def file_stored_content_def dirty_content_def)
    obtain s'' where opened: "store_open working_store (\<lambda>_. True) n bytes = Inr s''"
      and s'': "s'' = s\<lparr>fp_armed_fault := None\<rparr> \<and> r \<noteq> Inr () \<or> next_group_written layout (page_to_store d) s s''"
      using effect_crash [OF inv assms(2) effect(1) page_to_store_fits [OF assms(3) effect(2)] effect(5) assms(5,6)]
      by blast
    from s'' show ?thesis
    proof (elim disjE conjE)
      assume "s'' = s\<lparr>fp_armed_fault := None\<rparr>" "r \<noteq> Inr ()"
      with opened armed(1) assms(2) show ?thesis by simp
    next
      assume "next_group_written layout (page_to_store d) s s''"
      then obtain q where "s'' = group_written layout (page_to_store d q) (s\<lparr>fp_armed_fault := None\<rparr>)"
        by (auto simp: next_group_written_def)
      with opened assms(2) group_written_stored [OF armed(2)] page armed(1) show ?thesis
        by (simp add: group_written_def)
    qed
  qed
qed

lemma stored_samples:
  "file_stored written_store (PageNumber 5) = Some (dirty_content (sample_page 1 11))"
  "dirty_content (sample_page 1 11) \<noteq> dirty_content (sample_page 2 22)"
  by (simp_all add: stored_pages written_store_fields page_to_store_def sample_page_def page_content_def dirty_content_def)

theorem store_write_crash_atomic_witness:
  "\<exists>s''. store_open working_store (\<lambda>_. True) 8 (take 300 (fp_contents torn_store)) = Inr s''
    \<and> (file_stored s'' = file_stored written_store
      \<or> file_stored s'' = (file_stored written_store)(PageNumber 5 \<mapsto> dirty_content (sample_page 2 22)))"
proof -
  have "store_crash_image torn_store (take 300 (fp_contents torn_store))"
    unfolding store_crash_image_def torn_store_result(4) by (rule exI [of _ 300]) simp
  from store_write_crash_atomic [OF written_reachable _ sample_fits torn_store_result(1) this]
  show ?thesis
    by (auto simp: written_store_fields torn_store_result(3) sample_page_def)
qed

text \<open>C12: Opening the file of a reachable usable store gives that store again: its pages in their
  order, the next sequence number, its format and identities; only an armed fault is forgotten.\<close>

theorem store_reopen_exact:
  assumes "store_reachable n s" and "\<not> fp_poisoned s" and "length (fp_contents s) < 2 ^ 64"
  shows "store_open working_store (\<lambda>_. True) n (fp_contents s) = Inr (s\<lparr>fp_armed_fault := None\<rparr>)"
proof -
  obtain layout ws tail where sf: "store_file n layout ws tail s"
    using store_reachable_inv [OF assms(1)] by (auto simp: page_file_inv_def)
  then have sf: "store_file n layout ws [] s" using store_file_unpoisoned [OF sf assms(2)] by simp
  have "store_crash_image s (fp_contents s)"
    unfolding store_crash_image_def using sf by (intro exI [of _ "length (fp_contents s)"]) (simp add: store_file_def)
  from crash_opens [OF sf _ this assms(3)] settled_unpoisoned [OF sf assms(2)] show ?thesis by simp
qed

theorem store_reopen_exact_witness:
  "store_open working_store (\<lambda>_. True) 8 (fp_contents written_store) = Inr written_store
    \<and> fp_pages written_store = [page_to_store (sample_page 1 11) 1]"
proof -
  have "written_store\<lparr>fp_armed_fault := None\<rparr> = written_store"
    using written_store_fields(4) by (cases written_store) simp
  with store_reopen_exact [OF written_reachable] show ?thesis by (simp add: written_store_fields)
qed


section \<open>Corruption\<close>

lemma corrupted_frame_stops_store_scan:
  assumes "store_scan width offset bytes s = Inr s'" and "length bytes = k * frame_length"
    and "i < length bytes" and "b \<noteq> bytes ! i"
  shows "store_scan width offset (bytes[i := b]) s \<noteq> Inr s''"
proof
  assume other: "store_scan width offset (bytes[i := b]) s = Inr s''"
  define j r where "j = i div frame_length" and "r = i mod frame_length"
  have i: "i = j * frame_length + r" and r: "r < frame_length"
    by (simp_all add: j_def r_def frame_length_def)
  let ?a = "take (j * frame_length) bytes" and ?frame = "bytes_at (j * frame_length) frame_length bytes"
    and ?rest = "drop (Suc j * frame_length) bytes"
  have "j < k" using assms(2,3) i by (metis add_lessD1 mult_less_cancel2)
  then have "Suc j * frame_length \<le> k * frame_length" by (intro mult_le_mono1) simp
  then have end_le: "Suc j * frame_length \<le> length bytes" using assms(2) by simp
  have len: "length ?a = j * frame_length" "length ?frame = 1 * frame_length" using end_le by simp_all
  have split: "bytes = ?a @ ?frame @ ?rest"
    using append_take_drop_id [of frame_length "drop (j * frame_length) bytes"]
    by (simp add: bytes_at_def add.commute)
  then have "bytes[i := b] = (?a @ ?frame @ ?rest)[i := b]" by simp
  also have "\<dots> = ?a @ ?frame[r := b] @ ?rest"
    using len r i by (simp add: list_update_append)
  finally have split': "bytes[i := b] = ?a @ ?frame[r := b] @ ?rest" .
  have nth: "b \<noteq> ?frame ! r" using assms(4) r end_le i by (simp add: nth_bytes_at)
  have len': "length (?frame[r := b]) = 1 * frame_length" using len by simp
  have "store_scan width offset (?a @ ?frame @ ?rest) s = Inr s'" using assms(1) split by simp
  then obtain t where t: "store_scan width offset ?a s = Inr t"
    and "store_scan width (offset + length ?a) (?frame @ ?rest) t = Inr s'"
    by (auto simp only: fold_frames_append [OF len(1)] and_then_Inr_iff)
  then obtain u where "store_scan width (offset + length ?a) ?frame t = Inr u"
    by (auto simp only: fold_frames_append [OF len(2)] and_then_Inr_iff)
  then obtain d where "parse_page_store_frame ?frame (of_nat (offset + length ?a)) = Inr d"
    using len(2) by (auto simp: fold_frames_one store_scan_step_def result_simps)
  then obtain e where "parse_page_store_frame (?frame[r := b]) (of_nat (offset + length ?a)) = Inl e"
    using corrupted_store_frame_rejected [OF _ _ r nth] len(2) by fastforce
  then have "store_scan width (offset + length ?a) (?frame[r := b]) t = Inl (StoreOpenFormat e)"
    using len' by (simp add: fold_frames_one store_scan_step_def)
  then have "store_scan width offset (bytes[i := b]) s = Inl (StoreOpenFormat e)"
    unfolding split' by (simp add: fold_frames_append [OF len(1)] fold_frames_append [OF len'] t)
  with other show False by simp
qed

lemma inspected_store:
  assumes "store_open io reserve n bytes = Inr s"
  obtains layout f p identity m t where "page_layout_for n = Inr layout"
    and "read_store_header working_store layout bytes = Inr (f, p, identity, m)"
    and "store_scan (unat n) m (drop m bytes) (store_open_state_new (unat n) layout (Persistent p)) = Inr t"
  using store_open_any [OF assms]
  by (auto simp: store_open_def store_inspect_def result_simps Let_def)

text \<open>C13: The file of a reachable usable store with any one byte changed, in its header or in any
  frame, is refused by every open, whatever the system does.\<close>

theorem corrupted_store_refused:
  assumes "store_reachable n s" and "\<not> fp_poisoned s" and "i < length (fp_contents s)"
    and "b \<noteq> fp_contents s ! i"
  shows "\<exists>e. store_open io reserve n ((fp_contents s)[i := b]) = Inl e"
proof (rule ccontr)
  assume "\<not> ?thesis"
  then obtain s' where "store_open io reserve n ((fp_contents s)[i := b]) = Inr s'" by (metis sum.exhaust)
  then obtain layout f p identity m t where layout: "page_layout_for n = Inr layout"
    and h': "read_store_header working_store layout ((fp_contents s)[i := b]) = Inr (f, p, identity, m)"
    and t: "store_scan (unat n) m (drop m ((fp_contents s)[i := b]))
      (store_open_state_new (unat n) layout (Persistent p)) = Inr t"
    by (rule inspected_store)
  obtain layout' ws tail where sf: "store_file n layout' ws tail s"
    using store_reachable_inv [OF assms(1)] by (auto simp: page_file_inv_def)
  then have sf: "store_file n layout ws [] s"
    using store_file_unpoisoned [OF sf assms(2)] layout unfolding store_file_def by (elim conjE) simp
  let ?header = "store_header layout (fp_persistent_id s) (fp_database_file_identity s)"
  let ?groups = "concat (map (group_bytes layout) ws)"
  note parts = sf [unfolded store_file_def]
  have contents: "fp_contents s = ?header @ ?groups" using parts by simp
  have read: "read_store_header working_store layout (?header @ rest) = Inr (format_of_identity (fp_database_file_identity s),
      fp_persistent_id s, fp_database_file_identity s, length ?header)" for rest
    using parts by (intro read_built_store_header) simp
  show False
  proof (cases "i < length ?header")
    case True
    have "read_store_header working_store layout ((fp_contents s)[i := b]) \<noteq> Inr (f, p, identity, m)"
      by (rule corrupted_store_header_refused [OF read [of ?groups, folded contents] True assms(4)])
    with h' show False by contradiction
  next
    case False
    then have changed: "(fp_contents s)[i := b] = ?header @ ?groups[i - length ?header := b]"
      by (simp add: contents list_update_append)
    with h' read [of "?groups[i - length ?header := b]"] have "m = length ?header" "p = fp_persistent_id s"
      by (metis Pair_inject sum.inject(2))+
    with t changed have "store_scan (unat n) (length ?header) (?groups[i - length ?header := b])
        (store_open_state_new (unat n) layout (Persistent (fp_persistent_id s))) = Inr t" by simp
    moreover have covers: "layout_covers layout (unat n)" using layout by (rule layout_for_covers)
    moreover have "store_history (fp_lineage s) (unat n) ws (fp_pages s) (fp_next_sequence s)"
      "fp_lineage s = Persistent (fp_persistent_id s)" using parts by blast+
    moreover from this obtain u where "store_scan (unat n) (length ?header) ?groups
        (store_open_state_new (unat n) layout (Persistent (fp_persistent_id s))) = Inr u"
      using scan_history [OF _ covers] by metis
    moreover have "i - length ?header < length ?groups" "b \<noteq> ?groups ! (i - length ?header)"
      using assms(3,4) False by (auto simp: contents nth_append)
    ultimately show False using corrupted_frame_stops_store_scan groups_length by blast
  qed
qed

theorem corrupted_store_refused_witness:
  "\<exists>e. store_open working_store (\<lambda>_. True) 8
    ((fp_contents written_store)[200 := fp_contents written_store ! 200 + 1]) = Inl e"
  by (rule corrupted_store_refused [OF written_reachable]) (simp_all add: written_store_fields)

section \<open>The in-memory store\<close>

text \<open>C14: On a working system the page-store file refines the in-memory store: seen without its
  bytes, sequence numbers and poison, a usable file store with sequence numbers left writes a page
  as the in-memory store does, with the same result, the same error or the same injected fault.\<close>

theorem file_store_refines_memory_write:
  assumes "\<not> fp_poisoned s" and "fp_next_sequence s = Some q" and "page_layout_for n = Inr layout"
    and "lsn_value (dp_required_position d) \<noteq> 0"
    and "file_write_page working_store (\<lambda>_. True) n d permit s = (r, s')"
  shows "\<exists>rm. memory_write_page (\<lambda>_. True) d permit (store_view s) = (rm, store_view s')
    \<and> map_err Some rm = map_err write_error_view r"
proof (cases "fp_lineage s = pa_lineage (dp_address d) \<and> lsn_lineage (durable_position permit) = fp_lineage s
    \<and> durable_position permit = dp_required_position d")
  case False
  with assms show ?thesis
    by (auto simp: file_write_page_def memory_write_page_def ensure_def with_result_def Let_def split: if_splits)
next
  case True
  then have lineage: "fp_lineage s = lsn_lineage (dp_required_position d)" by (elim conjE) simp
  have "store_write_stored working_store (\<lambda>_. True) layout (page_to_store d) (pa_number (dp_address d)) s = (r, s')"
    using assms True lineage by (simp add: file_write_page_def page_to_store_def [abs_def] Let_def)
  note written = this
  have memory: "memory_write_page (\<lambda>_. True) d permit (store_view s)
      = replace_stored_page (\<lambda>_. True) PageCapacityExhausted StoreInjectedFault (stored_page_from_dirty d) (store_view s)"
    by (rule memory_write) (use True in auto)
  show ?thesis
    by (rule stored_view [OF assms(1,2) _ _ written, of PageCapacityExhausted StoreInjectedFault])
      (simp_all add: memory page_to_store_def [of d, THEN arg_cong [where f = sp_page_number]]
        page_to_store_def [of d, THEN arg_cong [where f = sp_store_sequence]])
qed

theorem file_store_refines_memory_write_witness:
  "memory_write_page (\<lambda>_. True) (sample_page 1 11) sample_permit (store_view created_store)
    = (Inr (), store_view written_store)"
proof -
  have "lsn_value (dp_required_position (sample_page 1 11)) \<noteq> 0" by (simp add: sample_page_def sample_position_def)
  from file_store_refines_memory_write [OF _ created_store_fields(3) layout_eq this written_result(1)]
  obtain rm where "memory_write_page (\<lambda>_. True) (sample_page 1 11) sample_permit (store_view created_store)
      = (rm, store_view written_store)" and "map_err Some rm = map_err write_error_view (Inr ())"
    by (auto simp: created_store_fields)
  then show ?thesis by (cases rm) simp_all
qed

section \<open>The log before the store\<close>

text \<open>C4: In every run of a log file and a page-store file, in which dirty pages are flushed through
  the log and either file may fail, crash and be opened again at any moment, every page in the
  store requires a position that is durable in the log: no page reaches the disk before the record
  it needs, also when a failed write left its group whole.\<close>

theorem storage_log_before_store:
  assumes "storage_reachable x n (l, s)" and "p \<in> set (fp_pages s)"
  shows "\<exists>r \<in> set (file_durable_records l). flr_position r = sp_required_position p"
proof -
  have "file_durable l (sp_required_position p)"
    using storage_reachable_inv [OF assms(1)] assms(2) by (simp add: storage_inv_def log_covers_store_def)
  then show ?thesis unfolding file_durable_def image_iff by metis
qed

lemma samples_reachable: "storage_reachable ExpectV1 8 (flushed_log1, created_store)"
proof -
  have "file_created ExpectV1 8 created_log"
    by (rule file_created.version1 [OF created_log_eq]) (simp add: log_id_wf_def)
  then have start: "storage_reachable ExpectV1 8 (created_log, created_store)"
    using created_store_reachable(1) by (rule storage_reachable.start)
  have "file_step ExpectV1 8 created_log epoch_log"
    by (rule file_step.epoch [of working_io _ "fst (allocate_transaction_epoch_frame working_io created_log)"])
      (simp add: epoch_log_def)
  from storage_reachable.step [OF start storage_step.log [OF this]]
  have "storage_reachable ExpectV1 8 (epoch_log, created_store)" .
  from storage_reachable.step [OF this storage_step.log [OF commit1_step]]
  have "storage_reachable ExpectV1 8 (commit_log1, created_store)" .
  from storage_reachable.step [OF this storage_step.log [OF flush1_step]] show ?thesis .
qed

lemma sample_flush:
  "flush_dirty_page (file_log_port working_io (\<lambda>_. True)) (file_store_port working_store (\<lambda>_. True) 8)
      (sample_page 1 11) flushed_log1 created_store
    = (Inr (clean_from_dirty (sample_page 1 11)), flushed_log1, written_store)"
proof -
  have "file_flush_through working_io (dp_required_position (sample_page 1 11)) flushed_log1 = (Inr (), flushed_log1)"
    by (simp add: sample_page_def flushed1_fields run_simps)
  then show ?thesis
    using written_result(1)
    by (simp add: flush_dirty_page_def file_log_port_def file_store_port_def created_store_fields flushed1_fields
        sample_permit_def sample_page_def)
qed

theorem storage_log_before_store_witness:
  "fp_pages written_store = [page_to_store (sample_page 1 11) 1]
    \<and> (\<exists>r \<in> set (file_durable_records flushed_log1). flr_position r = sample_position 1)"
proof -
  have "storage_reachable ExpectV1 8 (flushed_log1, written_store)"
    by (rule storage_reachable.step [OF samples_reachable storage_step.flush [OF sample_fits sample_flush]])
  from storage_log_before_store [OF this, of "page_to_store (sample_page 1 11) 1"] show ?thesis
    by (simp add: written_store_fields page_to_store_def sample_page_def)
qed

text \<open>C6: A flush of a dirty page that returned the clean page survives the crash of both files: the
  log opened after it has the position the page requires among its durable records, and the store
  opened after it holds exactly the image that was flushed.\<close>

theorem storage_flush_survives_crash:
  assumes "storage_reachable x n (l, s)" and "page_fits n (page_to_store d)"
    and "flush_dirty_page (file_log_port log_io log_reserve) (file_store_port io reserve n) d l s = (Inr c, l', s')"
    and "crash_image l' log_bytes" and "length log_bytes < 2 ^ 64" and "openable path entry"
    and "store_crash_image s' store_bytes" and "length store_bytes < 2 ^ 64"
  shows "\<exists>l'' s''. open_internal working_io (\<lambda>_. True) (unat n) path entry x log_bytes = Inr l''
    \<and> store_open working_store (\<lambda>_. True) n store_bytes = Inr s''
    \<and> (\<exists>r \<in> set (file_durable_records l''). flr_position r = dp_required_position d)
    \<and> file_stored s'' (pa_number (dp_address d)) = Some (dirty_content d)"
proof -
  have inv: "file_log_inv x n l" "page_file_inv n s" "log_covers_store n l s"
    using storage_reachable_inv [OF assms(1)] by (simp_all add: storage_inv_def)
  have flushed: "file_flush_through log_io (dp_required_position d) l = (Inr (), l')"
    and written: "file_write_page io reserve n d (PageWritePermit (dp_required_position d)) s = (Inr (), s')"
    using assms(3) by (cases rule: flush_dirty_page_cases; simp add: file_log_port_def file_store_port_def)+
  have "file_log_inv x n l'" using step_inv [OF file_step.flush [OF flushed] inv(1)] .
  from file_reopen_inv [OF this assms(4-6)] obtain l'' where
    log: "open_internal working_io (\<lambda>_. True) (unat n) path entry x log_bytes = Inr l''"
    and kept: "prefix (file_durable_records l') (file_durable_records l'')" by metis
  have durable: "file_durable l'' (dp_required_position d)"
    by (rule durable_prefix_mono [OF kept flush_makes_durable [OF flushed]])
  from written obtain layout where layout: "page_layout_for n = Inr layout"
    "position_accepted s (dp_required_position d)"
    "store_effect (FileStoreInjectedFault StoreAfterWrite) layout (page_to_store d) s (Inr ()) s'"
    by (cases rule: write_page_effect) auto
  from layout(3) have usable: "\<not> fp_poisoned s" by cases
  from effect_crash [OF inv(2) usable layout(1) page_to_store_fits [OF assms(2) layout(2)] layout(3) assms(7,8)]
  obtain s'' where opened: "store_open working_store (\<lambda>_. True) n store_bytes = Inr s''"
    and "next_group_written layout (page_to_store d) s s''" by auto
  then obtain q where s'': "s'' = group_written layout (page_to_store d q) (s\<lparr>fp_armed_fault := None\<rparr>)"
    by (auto simp: next_group_written_def)
  have "distinct_pages (s\<lparr>fp_armed_fault := None\<rparr>)"
    using inv_distinct_pages [OF inv(2)] by (simp add: distinct_pages_iff)
  from group_written_stored [OF this] have "file_stored s'' (pa_number (dp_address d)) = Some (dirty_content d)"
    by (simp add: s'' page_to_store_def file_stored_content_def dirty_content_def)
  with log opened durable show ?thesis by (auto simp: file_durable_def)
qed


theorem storage_flush_survives_crash_witness:
  "\<exists>l'' s''. open_internal working_io (\<lambda>_. True) (unat (8 :: usize)) sample_path CandidateAbsent ExpectV1
      (fl_contents flushed_log1) = Inr l''
    \<and> store_open working_store (\<lambda>_. True) 8 (fp_contents written_store) = Inr s''
    \<and> (\<exists>r \<in> set (file_durable_records l''). flr_position r = sample_position 1)
    \<and> file_stored s'' (PageNumber 5) = Some (ImageVersion 1, replicate 8 11, sample_position 1)"
proof -
  have crash: "crash_image flushed_log1 (fl_contents flushed_log1)"
    "store_crash_image written_store (fp_contents written_store)"
    unfolding crash_image_def store_crash_image_def
    by (rule exI [of _ 232], simp add: flushed1_contents, rule exI [of _ 232], simp add: written_store_fields)
  have "openable sample_path CandidateAbsent" by (simp add: openable_def sample_path_def)
  from storage_flush_survives_crash [OF samples_reachable sample_fits sample_flush crash(1) _ this crash(2)]
  show ?thesis
    by (simp add: flushed1_contents written_store_fields sample_page_def dirty_content_def)
qed

end
