(* ===== verification/Spec2Isabelle.thy ===== *)
theory Spec2Isabelle
  imports Recovery_Properties Recovery_Identity_Properties Recovery_Retention_Properties
    Recovery_Trace_Properties Runtime_Properties Memory_Recovery_Properties
    Memory_Reclaim_Properties Transaction_Display
    File_Log_Properties Manifest_Codec_Properties File_Store_Properties
begin

text \<open>
  Verification of ntsql's storage core: the recovery model, the write-ahead-log and page contracts, the
  transaction coordinator, the in-memory adapters, committed-page recovery, the durable log file and
  page-store file and the manifest of a database, all under \<open>src/crates/\<close>. Everything is
  translated from the Rust sources by hand; a definition has the name of the function or type it models
  unless HOL already uses that name.

  \<^bold>\<open>The parts of the program and how they interact.\<close>
  \<open>ntsql-recovery-model\<close> is the executable reference model of crash recovery: one state
  machine holding the WAL, the page store, the checkpoint slot and the transaction table, driven by
  deterministic traces. The production crates realise the same protocol in layers:
  \<open>ntsql-wal\<close> defines lineage-bound log positions and the log ports;
  \<open>ntsql-page\<close> stages page images through the log and writes them back only after the log
  is durable; \<open>ntsql-transaction\<close> coordinates transactions over those ports and recovers
  committed pages from durable evidence; \<open>ntsql-storage-memory\<close> implements the ports with
  fault injection and \<open>ntsql-storage-file\<close> over files; \<open>ntsql-database\<close> holds
  the identities that bind the files of one database and the manifest that says how it was closed.

  \<^bold>\<open>Where each part is.\<close>
  \<^item> Shared: \<open>Prelude\<close> (checked machine arithmetic, \<open>Result\<close> and
    \<open>Option\<close> combinators, lists and maps, how integers print).
  \<^item> \<open>ntsql-recovery-model/src/lib.rs\<close>: \<open>Recovery_Types\<close> (identities,
    records, checkpoints, stages, errors), \<open>Recovery_Display\<close>, \<open>Recovery_Live\<close>
    (the state and the live operations), \<open>Recovery_Restart\<close> (crash, reopen, selection,
    replay, repair, restoration), \<open>Recovery_Retention\<close> (retention analysis and
    reclamation), \<open>Recovery_Trace\<close> (observations, traces, generator, runner, prefix
    search). The Rust methods on \<open>&mut self\<close> are functions returning the result and the new
    \<open>recovery_model\<close>.
  \<^item> \<open>ntsql-wal/src/lib.rs\<close>: \<open>Wal\<close>. The ports
    \<open>LogDurability\<close> and \<open>CommitLog\<close> are records of operations over an
    adapter's state; their contracts are locales.
  \<^item> \<open>ntsql-page/src/lib.rs\<close>: \<open>Page\<close> (images, staging, flushing) and
    \<open>Page_Reconcile\<close> (recovery observations, reconciliation).
  \<^item> \<open>ntsql-transaction/src/lib.rs\<close>: \<open>Transaction\<close> (coordinator, commit,
    resolution, owned pages), \<open>Transaction_Display\<close>, \<open>Page_Recovery\<close>
    (evidence, classification), \<open>Page_Selection\<close> (selection, reconciliation, candidate,
    comparison), \<open>Page_Recovery_Gate\<close> (the gates over the ports).
  \<^item> \<open>ntsql-storage-memory/src/lib.rs\<close>: \<open>Memory_Log\<close>,
    \<open>Memory_Page_Store\<close>, \<open>Memory_Reclaim\<close> (WAL prefix reclamation),
    \<open>Memory_Recovery\<close> (evidence projection, compare-and-replace; how the errors of page
    recovery print).
  \<^item> \<open>Runtime\<close> composes the coordinators, the in-memory log and the page store into
    one transition system whose actions are the public operations, the one-shot faults and the log's
    restart.
  \<^item> \<open>ntsql-database/src/lib.rs\<close>: \<open>Database_Identity\<close> and
    \<open>Database_Manifest\<close> (identities, formats, features, clean-close certificate, manifests
    and their successors). Their byte frames, \<open>database_manifest_codec.rs\<close>,
    \<open>database_manifest_codec_v2.rs\<close> and \<open>database_child_identity_codec.rs\<close> of
    \<open>ntsql-storage-file\<close>: \<open>Manifest_Codec\<close>, \<open>Manifest_Codec_V2\<close>
    and \<open>Child_Identity_Codec\<close>.
  \<^item> \<open>ntsql-storage-file/src/lib.rs\<close>: \<open>File_Bytes\<close> (big-endian fields,
    the checksum), \<open>File_Format_Error\<close>, \<open>File_Format\<close> (frames and the 64-byte
    headers), \<open>File_Header\<close> (the headers of versions 4 and 5), \<open>File_Open\<close>
    (how the scan applies each frame), \<open>File_Log\<close> (\<open>FileCommitLog\<close>: creation,
    opening with tail repair, appends, flush, epochs, faults, commit lookup).
  \<^item> The page-store file of the same source: \<open>File_Store_Format\<close> (errors, the two
    headers, the frames of a snapshot group), \<open>File_Store\<close> (\<open>FilePageStore\<close>:
    creation, the scan of an open with the repair of an incomplete group, the write of a page,
    observation, inventory, compare-and-replace, and \<open>open_transaction_page_storage\<close>, which
    opens a log and a store).

  \<^bold>\<open>How the code is represented.\<close> A struct is a \<open>record\<close>, an enum a
  \<open>datatype\<close>, \<open>u64\<close> and friends are words; \<open>checked_add\<close> is
  \<open>None\<close> exactly on wrap-around. \<open>Result<T, E>\<close> is \<open>E + T\<close> with
  \<open>Inl\<close> the error; \<open>?\<close> is \<open>and_then\<close>; an early return is a
  branch. A const-generic page width is the length of a byte list, so the zero-width checks are kept as
  checks. An \<open>Arc\<close> identity of an ephemeral lineage is a number. A vector that may fail to
  reserve memory takes a predicate on the requested size. Move-only tokens are values;
  \<open>Runtime\<close> keeps every token an operation has ever returned and offers all of them to
  every operation, which over-approximates the move discipline. The record \<open>file_log\<close>
  holds, besides the fields of \<open>FileCommitLog\<close>, the contents of the file and how long the
  part of it is that the last successful \<open>sync_all\<close> made durable;
  \<open>file_page_store\<close> likewise. Every call to the system is an argument \<open>io\<close> of
  the operation: for each stage and each offset it says whether the call fails, with which error, and
  how many bytes of a frame were written before it did. A crash keeps any prefix of the contents that
  includes the synchronized part.

  \<^bold>\<open>What the lemmas show.\<close>
  \<^item> Recovery model: \<open>Recovery_Invariant\<close> and the
    \<open>Recovery_..._Preserves\<close> theories prove one invariant of every reachable model;
    \<open>Recovery_System\<close> is the transition system, whose steps are all public operations with
    any arguments (a candidate must be sound only when it is renamed into place),
    \<open>Recovery_Spec\<close> the abstract contract (a page's durable content) that crash, reopen,
    repair and reclamation implement; \<open>Recovery_Trace_Laws\<close> relates traces to the system;
    the \<open>Recovery_..._Properties\<close> theories hold the properties, applied to runs given in
    \<open>Recovery_Spec\<close>.
  \<^item> Runtime: \<open>Memory_Laws\<close> and \<open>Transaction_Laws\<close> give the case rules
    of the adapters and of the coordinator and interpret the port locales;
    \<open>Runtime_Invariant\<close>, \<open>Runtime_Preserves\<close> and
    \<open>Runtime_History\<close> prove the invariant and that runs only move forward;
    \<open>Runtime_Properties\<close> states what acknowledged, absent and indeterminate commits mean
    ever after.
  \<^item> Committed-page recovery: \<open>Page_Recovery_Laws\<close> and
    \<open>Memory_Recovery_Laws\<close> say what each step establishes;
    \<open>Memory_Recovery_Properties\<close> that the gates install exactly the last durable committed
    image; \<open>Memory_Reclaim_Properties\<close> that a reclamation happens completely or not at all.
  \<^item> Manifest frames: \<open>Manifest_Codec_Laws\<close> and
    \<open>Manifest_Codec_Properties\<close>, round trips and detection of a changed byte.
  \<^item> File log: \<open>File_Frame_Laws\<close> shows that frames and headers parse back to what
    built them, \<open>File_Scan_Laws\<close> what each frame does to the scanned state and that a scan
    of a file is the scan of its prefix continued, \<open>File_Write_Laws\<close> that the frames an
    operation writes scan to its effect. \<open>File_Log_Invariant\<close> states the invariant (the
    file scans to the log, its synchronized part to every durable record),
    \<open>File_Log_Effects\<close> the outcomes of each operation, \<open>File_Log_Preserves\<close>
    and \<open>File_Log_Recovery\<close> that operations, crashes and opening keep the invariant,
    \<open>File_Log_Port\<close> interprets the port locales of \<open>Wal\<close>,
    \<open>File_Log_Reopen\<close> defines the runs of a log under faults and crashes and treats changed
    bytes, \<open>File_Log_Lookup\<close> lookups, and \<open>File_Log_Properties\<close> holds the
    properties over the run of \<open>File_Log_Examples\<close>.
  \<^item> Page-store file: \<open>File_Store_Scan\<close> and \<open>File_Store_Reopen\<close> show
    that headers and groups parse back and that a group cut anywhere is removed by the next open,
    \<open>File_Store_Steps\<close> the outcomes of each operation and the invariant of every run,
    \<open>File_Store_Refinement\<close> that the file store does what \<open>Memory_Page_Store\<close>
    does and meets the contract of a store, \<open>File_Storage\<close> defines the runs of a log and a
    store together, \<open>File_Store_Properties\<close> holds the properties.
    \<open>File_Write_Laws\<close> states the interface of a writer of frames once, for the log and for
    the store.

  \<^bold>\<open>Bounds and fuel.\<close> The trace generator of the recovery model loops as long as the
  requested number of operations and the prefix search as long as the trace: both are structural
  recursions, and their success is proved for every valid bound. Decimal printing recurses on the value
  and the scan of a file on what is left of it. No definition needs fuel.

  \<^bold>\<open>Not modelled.\<close> The restart analysis, selection and completion of
  \<open>ntsql-transaction\<close> over real ports (the recovery model is the reference for the same
  protocol); the database session and ownership typestates; of the file adapters prefix reclamation, the
  recovery-source projections of the log, the write of replayed checkpoint pages to the store (it needs
  the restart types above), the checkpoint files and the directory ownership; caller-side duplicates in
  a commit append, which the log's type does not exclude but its scan refuses, are a hypothesis
  (\<open>commit_allowed\<close>); governance documents, compatibility profile, diagnostics and test
  kit, which keep no storage state.
\<close>

end
